(* ===== verification/Prelude.thy ===== *)
theory Prelude
  imports Main
begin

section \<open>Shared machinery: programs with state and exceptions, tables, money\<close>

text \<open>
  The generic part of the development, with no definition of the storefront itself.
  A Python function that reads and writes the database and may raise is a \<open>prog\<close>: it takes
  the state and returns either the exception (\<open>Inl\<close>) or the result (\<open>Inr\<close>), together with
  the state it leaves behind. An exception does not undo what was written before it; only
  an enclosing transaction does that (see the theory \<open>Database\<close>).
  A database table is a list of rows in insertion order; \<open>filter(...).update(...)\<close> of the ORM is
  \<open>upd_where\<close>, \<open>get(...)\<close> is \<open>get_where\<close>.
  Amounts of money are integers: cents for stored columns, and units of \<open>10 ^ -6\<close> for the
  intermediate results of a division, rounded half to even by \<open>quantize_cents\<close>.
\<close>

named_theorems prog_simps "unfolding rules of the program combinators"
named_theorems hoare_intros "introduction rules for triples over programs"
named_theorems table_simps "facts on table operations"

type_synonym ('s, 'e, 'a) prog = "'s \<Rightarrow> ('e + 'a) \<times> 's"

subsection \<open>Programs\<close>

definition ret :: "'a \<Rightarrow> ('s, 'e, 'a) prog" where
  "ret x s = (Inr x, s)"

definition throw :: "'e \<Rightarrow> ('s, 'e, 'a) prog" where
  "throw e s = (Inl e, s)"

definition bindE :: "('s, 'e, 'a) prog \<Rightarrow> ('a \<Rightarrow> ('s, 'e, 'b) prog) \<Rightarrow> ('s, 'e, 'b) prog" where
  "bindE m f s = (case m s of (Inl e, s') \<Rightarrow> (Inl e, s') | (Inr x, s') \<Rightarrow> f x s')"

definition seqE :: "('s, 'e, 'a) prog \<Rightarrow> ('s, 'e, 'b) prog \<Rightarrow> ('s, 'e, 'b) prog" where
  "seqE m n = bindE m (\<lambda>_. n)"

definition gets :: "('s \<Rightarrow> 'a) \<Rightarrow> ('s, 'e, 'a) prog" where
  "gets f s = (Inr (f s), s)"

definition modify :: "('s \<Rightarrow> 's) \<Rightarrow> ('s, 'e, unit) prog" where
  "modify f s = (Inr (), f s)"

definition lift_sum :: "('e + 'a) \<Rightarrow> ('s, 'e, 'a) prog" where
  "lift_sum r s = (r, s)"

definition do_when :: "bool \<Rightarrow> ('s, 'e, unit) prog \<Rightarrow> ('s, 'e, unit) prog" where
  "do_when b m = (if b then m else ret ())"

definition guard_that :: "bool \<Rightarrow> 'e \<Rightarrow> ('s, 'e, unit) prog" where
  "guard_that b e = (if b then ret () else throw e)"

text \<open>\<open>try: m except C as e: h(e)\<close>, where the predicate says which exceptions the clause catches.\<close>

definition try_except ::
  "('s, 'e, 'a) prog \<Rightarrow> ('e \<Rightarrow> bool) \<Rightarrow> ('e \<Rightarrow> ('s, 'e, 'a) prog) \<Rightarrow> ('s, 'e, 'a) prog" where
  "try_except m catches h s =
     (case m s of
        (Inl e, s') \<Rightarrow> (if catches e then h e s' else (Inl e, s'))
      | (Inr x, s') \<Rightarrow> (Inr x, s'))"

text \<open>A \<open>finally\<close> clause that cannot raise: it runs on the state of either outcome.\<close>

definition finally_do :: "('s, 'e, 'a) prog \<Rightarrow> ('s \<Rightarrow> 's) \<Rightarrow> ('s, 'e, 'a) prog" where
  "finally_do m f s = (case m s of (r, s') \<Rightarrow> (r, f s'))"

fun for_each :: "('x \<Rightarrow> ('s, 'e, unit) prog) \<Rightarrow> 'x list \<Rightarrow> ('s, 'e, unit) prog" where
  "for_each f [] = ret ()"
| "for_each f (x # xs) = seqE (f x) (for_each f xs)"

fun map_each :: "('x \<Rightarrow> ('s, 'e, 'y) prog) \<Rightarrow> 'x list \<Rightarrow> ('s, 'e, 'y list) prog" where
  "map_each f [] = ret []"
| "map_each f (x # xs) = bindE (f x) (\<lambda>y. bindE (map_each f xs) (\<lambda>ys. ret (y # ys)))"

text \<open>
  A transaction block: \<open>en\<close> opens it; on an exception the state is restored by \<open>rb start end\<close>, on
  success it is closed by \<open>cm start end\<close>.
\<close>

definition atomic_with ::
  "('s \<Rightarrow> 's) \<Rightarrow> ('s \<Rightarrow> 's \<Rightarrow> 's) \<Rightarrow> ('s \<Rightarrow> 's \<Rightarrow> 's) \<Rightarrow> ('s, 'e, 'a) prog \<Rightarrow> ('s, 'e, 'a) prog" where
  "atomic_with en rb cm m s =
     (case m (en s) of (Inl e, s') \<Rightarrow> (Inl e, rb s s') | (Inr x, s') \<Rightarrow> (Inr x, cm s s'))"

subsection \<open>Triples\<close>

text \<open>
  \<open>valid P m Q E\<close>: from a state satisfying \<open>P\<close>, \<open>m\<close> ends in a state satisfying \<open>Q x\<close> if it returns
  \<open>x\<close> and \<open>E e\<close> if it raises \<open>e\<close>. Programs are total functions, so this is total correctness.
\<close>

definition valid ::
  "('s \<Rightarrow> bool) \<Rightarrow> ('s, 'e, 'a) prog \<Rightarrow> ('a \<Rightarrow> 's \<Rightarrow> bool) \<Rightarrow> ('e \<Rightarrow> 's \<Rightarrow> bool) \<Rightarrow> bool" where
  "valid P m Q E \<longleftrightarrow>
     (\<forall>s. P s \<longrightarrow> (case m s of (Inl e, s') \<Rightarrow> E e s' | (Inr x, s') \<Rightarrow> Q x s'))"

definition preserves :: "('s \<Rightarrow> bool) \<Rightarrow> ('s, 'e, 'a) prog \<Rightarrow> bool" where
  "preserves I m \<longleftrightarrow> (\<forall>s. I s \<longrightarrow> I (snd (m s)))"

subsection \<open>Tables\<close>

definition upd_where :: "('r \<Rightarrow> bool) \<Rightarrow> ('r \<Rightarrow> 'r) \<Rightarrow> 'r list \<Rightarrow> 'r list" where
  "upd_where P f rows = map (\<lambda>r. if P r then f r else r) rows"

datatype 'r get_result = NoRow | OneRow 'r | ManyRows

definition get_where :: "('r \<Rightarrow> bool) \<Rightarrow> 'r list \<Rightarrow> 'r get_result" where
  "get_where P rows = (case filter P rows of [] \<Rightarrow> NoRow | [r] \<Rightarrow> OneRow r | _ \<Rightarrow> ManyRows)"

definition exists_where :: "('r \<Rightarrow> bool) \<Rightarrow> 'r list \<Rightarrow> bool" where
  "exists_where P rows = list_ex P rows"

subsection \<open>Money\<close>

text \<open>
  \<open>Decimal.quantize\<close> rounds half to even by default. \<open>round_half_even n d\<close> is \<open>n / d\<close> rounded
  that way, for \<open>d > 0\<close>.
\<close>

definition round_half_even :: "int \<Rightarrow> int \<Rightarrow> int" where
  "round_half_even n d =
     (let q = n div d; r = n mod d in
      if 2 * r < d then q else if d < 2 * r then q + 1 else if even q then q else q + 1)"

text \<open>From units of \<open>10 ^ -6\<close> to cents.\<close>

definition quantize_cents :: "int \<Rightarrow> int" where
  "quantize_cents x = round_half_even x 10000"

text \<open>Decimal digits, as \<open>str\<close> of an integer prints them.\<close>

fun show_nat_fuel :: "nat \<Rightarrow> nat \<Rightarrow> string" where
  "show_nat_fuel 0 n = []"
| "show_nat_fuel (Suc f) n =
     (if n < 10 then [char_of (48 + n)]
      else show_nat_fuel f (n div 10) @ [char_of (48 + n mod 10)])"

definition show_nat :: "nat \<Rightarrow> string" where
  "show_nat n = show_nat_fuel (Suc n) n"

definition show_int :: "int \<Rightarrow> string" where
  "show_int i = (if i < 0 then ''-'' @ show_nat (nat (- i)) else show_nat (nat i))"

text \<open>\<open>str\<close> of a decimal with two places.\<close>

definition show_cents :: "int \<Rightarrow> string" where
  "show_cents c =
     (let a = nat \<bar>c\<bar> in
      (if c < 0 then ''-'' else '''') @ show_nat (a div 100) @ ''.'' @
      [char_of (48 + a mod 100 div 10), char_of (48 + a mod 10)])"

subsection \<open>Lemmas on programs\<close>

text \<open>The \<open>id\<close> on the right keeps the rewrite rule from being contracted to an unapplied one.\<close>

lemma ret_simp [prog_simps, simp]: "ret x s = (Inr x, id s)"
  by (simp add: ret_def)

lemma throw_simp [prog_simps, simp]: "throw e s = (Inl e, id s)"
  by (simp add: throw_def)

lemma gets_simp [prog_simps, simp]: "gets f s = (Inr (f s), s)"
  by (simp add: gets_def)

lemma modify_simp [prog_simps, simp]: "modify f s = (Inr (), f s)"
  by (simp add: modify_def)

lemma lift_sum_simp [prog_simps, simp]: "lift_sum r s = (r, id s)"
  by (simp add: lift_sum_def)

lemma bindE_Inl: "m s = (Inl e, s') \<Longrightarrow> bindE m f s = (Inl e, s')"
  by (simp add: bindE_def)

lemma bindE_Inr: "m s = (Inr x, s') \<Longrightarrow> bindE m f s = f x s'"
  by (simp add: bindE_def)

lemma seqE_Inl: "m s = (Inl e, s') \<Longrightarrow> seqE m n s = (Inl e, s')"
  by (simp add: seqE_def bindE_def)

lemma seqE_Inr: "m s = (Inr x, s') \<Longrightarrow> seqE m n s = n s'"
  by (simp add: seqE_def bindE_def)

lemma guard_that_True [simp]: "guard_that True e = ret ()"
  by (simp add: guard_that_def)

lemma guard_that_False [simp]: "guard_that False e = throw e"
  by (simp add: guard_that_def)

lemma do_when_True [simp]: "do_when True m = m"
  by (simp add: do_when_def)

lemma do_when_False [simp]: "do_when False m = ret ()"
  by (simp add: do_when_def)

lemma bindE_ret [simp]: "bindE (ret x) f = f x"
  by (rule ext) (simp add: bindE_def)

lemma bindE_throw [simp]: "bindE (throw e) f = throw e"
  by (rule ext) (simp add: bindE_def)

lemma seqE_ret [simp]: "seqE (ret x) n = n"
  by (simp add: seqE_def)

lemma seqE_throw [simp]: "seqE (throw e) n = throw e"
  by (simp add: seqE_def)

lemma bindE_gets [simp]: "bindE (gets f) g s = g (f s) s"
  by (simp add: bindE_def)

lemma seqE_modify [simp]: "seqE (modify f) n s = n (f s)"
  by (simp add: seqE_def bindE_def)

lemma bindE_lift_Inl [simp]: "bindE (lift_sum (Inl e)) g s = (Inl e, s)"
  by (simp add: bindE_def)

lemma bindE_lift_Inr [simp]: "bindE (lift_sum (Inr x)) g s = g x s"
  by (simp add: bindE_def)

lemma bindE_assoc: "bindE (bindE m f) g = bindE m (\<lambda>x. bindE (f x) g)"
  by (rule ext) (auto simp: bindE_def split: prod.splits sum.splits)

lemma bindE_seqE: "bindE (seqE m n) g = seqE m (bindE n g)"
  by (simp add: seqE_def bindE_assoc)

lemma try_except_Inr: "m s = (Inr x, s') \<Longrightarrow> try_except m c h s = (Inr x, s')"
  by (simp add: try_except_def)

lemma try_except_Inl: "m s = (Inl e, s') \<Longrightarrow> try_except m c h s = (if c e then h e s' else (Inl e, s'))"
  by (simp add: try_except_def)

lemma atomic_with_Inr: "m (en s) = (Inr x, s') \<Longrightarrow> atomic_with en rb cm m s = (Inr x, cm s s')"
  by (simp add: atomic_with_def)

lemma atomic_with_Inl: "m (en s) = (Inl e, s') \<Longrightarrow> atomic_with en rb cm m s = (Inl e, rb s s')"
  by (simp add: atomic_with_def)

lemma for_each_append:
  "for_each f (xs @ ys) = seqE (for_each f xs) (for_each f ys)"
proof (induction xs)
  case Nil
  show ?case by (simp only: append_Nil for_each.simps seqE_ret)
next
  case (Cons x xs)
  have "for_each f ((x # xs) @ ys) = seqE (f x) (for_each f (xs @ ys))" by simp
  also have "... = seqE (for_each f (x # xs)) (for_each f ys)"
    unfolding Cons.IH by (simp add: seqE_def bindE_assoc)
  finally show ?case .
qed

subsection \<open>Lemmas on triples\<close>

lemma validI:
  assumes "\<And>s e s'. P s \<Longrightarrow> m s = (Inl e, s') \<Longrightarrow> E e s'"
    and "\<And>s x s'. P s \<Longrightarrow> m s = (Inr x, s') \<Longrightarrow> Q x s'"
  shows "valid P m Q E"
  unfolding valid_def by (auto split: prod.split sum.split intro: assms)

lemma validD_Inr: "valid P m Q E \<Longrightarrow> P s \<Longrightarrow> m s = (Inr x, s') \<Longrightarrow> Q x s'"
  unfolding valid_def by fastforce

lemma validD_Inl: "valid P m Q E \<Longrightarrow> P s \<Longrightarrow> m s = (Inl e, s') \<Longrightarrow> E e s'"
  unfolding valid_def by fastforce

lemma preserves_valid: "preserves I m \<longleftrightarrow> valid I m (\<lambda>_. I) (\<lambda>_. I)"
proof -
  have "(case r of (Inl e, s') \<Rightarrow> I s' | (Inr x, s') \<Rightarrow> I s') = I (snd r)" for r :: "('b + 'c) \<times> 'a"
    by (cases r; cases "fst r") auto
  then show ?thesis by (simp add: preserves_def valid_def)
qed

lemma preservesI: "(\<And>s r s'. I s \<Longrightarrow> m s = (r, s') \<Longrightarrow> I s') \<Longrightarrow> preserves I m"
  unfolding preserves_def by (metis prod.collapse)

lemma preservesD: "preserves I m \<Longrightarrow> I s \<Longrightarrow> m s = (r, s') \<Longrightarrow> I s'"
  unfolding preserves_def by (metis snd_conv)

lemma preserves_snd: "preserves I m \<Longrightarrow> I s \<Longrightarrow> I (snd (m s))"
  unfolding preserves_def by simp

lemma preserves_ret [hoare_intros]: "preserves I (ret x)"
  by (simp add: preserves_def)

lemma preserves_throw [hoare_intros]: "preserves I (throw e)"
  by (simp add: preserves_def)

lemma preserves_gets [hoare_intros]: "preserves I (gets f)"
  by (simp add: preserves_def)

lemma preserves_lift_sum [hoare_intros]: "preserves I (lift_sum r)"
  by (simp add: preserves_def)

lemma preserves_guard_that [hoare_intros]: "preserves I (guard_that b e)"
  by (cases b) (simp_all add: preserves_def)

lemma preserves_modify: "(\<And>s. I s \<Longrightarrow> I (f s)) \<Longrightarrow> preserves I (modify f)"
  by (simp add: preserves_def)

lemma preserves_bindE [hoare_intros]:
  assumes "preserves I m" and "\<And>x. preserves I (f x)"
  shows "preserves I (bindE m f)"
proof (rule preservesI)
  fix s r s' assume I: "I s" and eq: "bindE m f s = (r, s')"
  obtain r1 s1 where m: "m s = (r1, s1)" by fastforce
  with assms(1) I have I1: "I s1" by (rule preservesD)
  show "I s'"
  proof (cases r1)
    case (Inl e)
    with m eq I1 show ?thesis by (simp add: bindE_def)
  next
    case (Inr x)
    with m eq have "f x s1 = (r, s')" by (simp add: bindE_def)
    with assms(2) I1 show ?thesis by (rule preservesD)
  qed
qed

lemma preserves_bind_lift_sum:
  assumes "\<And>x. r = Inr x \<Longrightarrow> preserves I (f x)"
  shows "preserves I (bindE (lift_sum r) f)"
proof (cases r)
  case (Inl e)
  then show ?thesis by (simp add: preserves_def)
next
  case (Inr x)
  with assms show ?thesis by (simp add: preserves_def)
qed

lemma preserves_seqE [hoare_intros]:
  "preserves I m \<Longrightarrow> preserves I n \<Longrightarrow> preserves I (seqE m n)"
  unfolding seqE_def by (rule preserves_bindE)

lemma preserves_do_when [hoare_intros]: "(b \<Longrightarrow> preserves I m) \<Longrightarrow> preserves I (do_when b m)"
  by (cases b) (simp_all add: preserves_ret)

lemma preserves_if [hoare_intros]:
  "(b \<Longrightarrow> preserves I m) \<Longrightarrow> (\<not> b \<Longrightarrow> preserves I n) \<Longrightarrow> preserves I (if b then m else n)"
  by simp

lemma preserves_case_option [hoare_intros]:
  assumes "x = None \<Longrightarrow> preserves I m" and "\<And>y. x = Some y \<Longrightarrow> preserves I (f y)"
  shows "preserves I (case x of None \<Rightarrow> m | Some y \<Rightarrow> f y)"
  using assms by (cases x) simp_all

lemma preserves_case_sum [hoare_intros]:
  assumes "\<And>e. x = Inl e \<Longrightarrow> preserves I (f e)" and "\<And>y. x = Inr y \<Longrightarrow> preserves I (g y)"
  shows "preserves I (case x of Inl e \<Rightarrow> f e | Inr y \<Rightarrow> g y)"
  using assms by (cases x) simp_all

lemma preserves_case_prod [hoare_intros]:
  assumes "\<And>a b. x = (a, b) \<Longrightarrow> preserves I (f a b)"
  shows "preserves I (case x of (a, b) \<Rightarrow> f a b)"
  using assms by (cases x) simp

lemma preserves_case_get_result [hoare_intros]:
  assumes "x = NoRow \<Longrightarrow> preserves I m" and "\<And>y. x = OneRow y \<Longrightarrow> preserves I (f y)"
    and "x = ManyRows \<Longrightarrow> preserves I n"
  shows "preserves I (case x of NoRow \<Rightarrow> m | OneRow y \<Rightarrow> f y | ManyRows \<Rightarrow> n)"
  using assms by (cases x) simp_all

lemma preserves_let [hoare_intros]: "(\<And>y. y = x \<Longrightarrow> preserves I (f y)) \<Longrightarrow> preserves I (let y = x in f y)"
  by simp

lemma preserves_try_except [hoare_intros]:
  assumes "preserves I m" and "\<And>e. c e \<Longrightarrow> preserves I (h e)"
  shows "preserves I (try_except m c h)"
proof (rule preservesI)
  fix s r s' assume I: "I s" and eq: "try_except m c h s = (r, s')"
  obtain r1 s1 where m: "m s = (r1, s1)" by fastforce
  with assms(1) I have I1: "I s1" by (rule preservesD)
  show "I s'"
  proof (cases r1)
    case (Inr x)
    with m eq I1 show ?thesis by (simp add: try_except_def)
  next
    case (Inl e)
    show ?thesis
    proof (cases "c e")
      case True
      with Inl m eq have "h e s1 = (r, s')" by (simp add: try_except_def)
      with assms(2) [OF True] I1 show ?thesis by (rule preservesD)
    next
      case False
      with Inl m eq I1 show ?thesis by (simp add: try_except_def)
    qed
  qed
qed

lemma preserves_finally_do:
  assumes "preserves I m" and "\<And>s. I s \<Longrightarrow> I (f s)"
  shows "preserves I (finally_do m f)"
  using assms unfolding preserves_def finally_do_def by (auto split: prod.split)

lemma preserves_for_each [hoare_intros]:
  assumes "\<And>x. x \<in> set xs \<Longrightarrow> preserves I (f x)"
  shows "preserves I (for_each f xs)"
  using assms by (induction xs) (auto intro: hoare_intros)

lemma preserves_map_each [hoare_intros]:
  assumes "\<And>x. x \<in> set xs \<Longrightarrow> preserves I (f x)"
  shows "preserves I (map_each f xs)"
  using assms by (induction xs) (auto intro!: hoare_intros)

lemma preserves_atomic_with:
  assumes "preserves I m" and "\<And>s. I s \<Longrightarrow> I (en s)"
    and "\<And>s s'. I s \<Longrightarrow> I s' \<Longrightarrow> I (rb s s')" and "\<And>s s'. I s \<Longrightarrow> I s' \<Longrightarrow> I (cm s s')"
  shows "preserves I (atomic_with en rb cm m)"
proof (rule preservesI)
  fix s r s' assume I: "I s" and eq: "atomic_with en rb cm m s = (r, s')"
  obtain r1 s1 where m: "m (en s) = (r1, s1)" by fastforce
  have "I s1" using assms(1) assms(2) [OF I] m by (rule preservesD)
  with m eq I assms(3,4) show "I s'" by (cases r1) (auto simp: atomic_with_def)
qed

lemma preserves_conj:
  "preserves I m \<Longrightarrow> preserves J m \<Longrightarrow> preserves (\<lambda>s. I s \<and> J s) m"
  by (simp add: preserves_def)

lemma valid_bindE:
  assumes "valid P m R E" and "\<And>x. valid (R x) (f x) Q E"
  shows "valid P (bindE m f) Q E"
proof (rule validI)
  fix s e s' assume P: "P s" and eq: "bindE m f s = (Inl e, s')"
  obtain r1 s1 where m: "m s = (r1, s1)" by fastforce
  show "E e s'"
  proof (cases r1)
    case (Inl e1)
    with m eq have "m s = (Inl e, s')" by (simp add: bindE_def)
    with assms(1) P show ?thesis by (rule validD_Inl)
  next
    case (Inr x)
    with m eq have "f x s1 = (Inl e, s')" by (simp add: bindE_def)
    moreover have "R x s1" using assms(1) P m Inr by (auto intro: validD_Inr)
    ultimately show ?thesis using assms(2) by (auto intro: validD_Inl)
  qed
next
  fix s y s' assume P: "P s" and eq: "bindE m f s = (Inr y, s')"
  then obtain x s1 where m: "m s = (Inr x, s1)" and f: "f x s1 = (Inr y, s')"
    by (auto simp: bindE_def split: prod.splits sum.splits)
  from assms(1) P m have "R x s1" by (rule validD_Inr)
  with assms(2) show "Q y s'" using f by (rule validD_Inr)
qed

lemma valid_seqE: "valid P m (\<lambda>_. R) E \<Longrightarrow> valid R n Q E \<Longrightarrow> valid P (seqE m n) Q E"
  unfolding seqE_def by (rule valid_bindE)

lemma valid_weaken:
  assumes "valid P' m Q' E'" and "\<And>s. P s \<Longrightarrow> P' s"
    and "\<And>x s. Q' x s \<Longrightarrow> Q x s" and "\<And>e s. E' e s \<Longrightarrow> E e s"
  shows "valid P m Q E"
  using assms unfolding valid_def by (fastforce split: prod.splits sum.splits)

lemma valid_pre: "valid P' m Q E \<Longrightarrow> (\<And>s. P s \<Longrightarrow> P' s) \<Longrightarrow> valid P m Q E"
  by (rule valid_weaken)

lemma valid_ret: "(\<And>s. P s \<Longrightarrow> Q x s) \<Longrightarrow> valid P (ret x) Q E"
  by (simp add: valid_def)

lemma valid_throw: "(\<And>s. P s \<Longrightarrow> E e s) \<Longrightarrow> valid P (throw e) Q E"
  by (simp add: valid_def)

lemma valid_gets: "(\<And>s. P s \<Longrightarrow> Q (f s) s) \<Longrightarrow> valid P (gets f) Q E"
  by (simp add: valid_def)

lemma valid_modify: "(\<And>s. P s \<Longrightarrow> Q () (f s)) \<Longrightarrow> valid P (modify f) Q E"
  by (simp add: valid_def)

lemma valid_imp: "(C \<Longrightarrow> valid P m Q E) \<Longrightarrow> valid (\<lambda>s. C \<and> P s) m Q E"
  by (auto simp: valid_def)

subsection \<open>Lemmas on tables\<close>

lemma upd_where_Nil [simp]: "upd_where P f [] = []"
  by (simp add: upd_where_def)

lemma upd_where_Cons [simp]: "upd_where P f (r # rs) = (if P r then f r else r) # upd_where P f rs"
  by (simp add: upd_where_def)

lemma upd_where_append [simp]: "upd_where P f (xs @ ys) = upd_where P f xs @ upd_where P f ys"
  by (simp add: upd_where_def)

lemma length_upd_where [simp]: "length (upd_where P f rs) = length rs"
  by (simp add: upd_where_def)

lemma set_upd_where: "set (upd_where P f rs) = (\<lambda>r. if P r then f r else r) ` set rs"
  by (simp add: upd_where_def)

lemma upd_where_member: "x \<in> set rs \<Longrightarrow> P x \<Longrightarrow> f x \<in> set (upd_where P f rs)"
  by (auto simp: set_upd_where image_iff intro!: bexI [of _ x])

lemma upd_where_none: "(\<And>r. r \<in> set rs \<Longrightarrow> \<not> P r) \<Longrightarrow> upd_where P f rs = rs"
  by (induction rs) auto

lemma map_upd_where:
  "(\<And>r. g (f r) = g r) \<Longrightarrow> map g (upd_where P f rs) = map g rs"
  by (induction rs) auto

lemma map_upd_where_rows:
  "(\<And>r. r \<in> set rs \<Longrightarrow> P r \<Longrightarrow> g (f r) = g r) \<Longrightarrow> map g (upd_where P f rs) = map g rs"
  by (induction rs) auto

lemma filter_upd_where_unrelated:
  "(\<And>r. Q (f r) = Q r) \<Longrightarrow> filter Q (upd_where P f rs) = upd_where P f (filter Q rs)"
  by (induction rs) auto

lemma filter_upd_where_disjoint:
  assumes "\<And>r. P r \<Longrightarrow> \<not> Q r" and "\<And>r. P r \<Longrightarrow> \<not> Q (f r)"
  shows "filter Q (upd_where P f rs) = filter Q rs"
  using assms by (induction rs) auto

lemma get_where_OneRowD: "get_where P rs = OneRow r \<Longrightarrow> r \<in> set rs \<and> P r"
proof -
  assume "get_where P rs = OneRow r"
  then have "filter P rs = [r]"
    by (auto simp: get_where_def split: list.splits)
  then show ?thesis by (metis (mono_tags) filter_eq_ConsD in_set_conv_decomp)
qed

lemma get_where_unique: "get_where P rs = OneRow r \<Longrightarrow> x \<in> set rs \<Longrightarrow> P x \<Longrightarrow> x = r"
proof -
  assume "get_where P rs = OneRow r" "x \<in> set rs" "P x"
  then have "filter P rs = [r]" "x \<in> set (filter P rs)"
    by (auto simp: get_where_def split: list.splits)
  then show ?thesis by simp
qed

lemma get_where_NoRow_iff: "get_where P rs = NoRow \<longleftrightarrow> (\<forall>r \<in> set rs. \<not> P r)"
proof -
  have "get_where P rs = NoRow \<longleftrightarrow> filter P rs = []"
    by (simp add: get_where_def split: list.split)
  then show ?thesis by (simp add: filter_empty_conv)
qed

lemma filter_key_distinct:
  assumes "distinct (map k rs)" and "r \<in> set rs"
  shows "filter (\<lambda>x. k x = k r) rs = [r]"
  using assms by (induction rs) (auto simp: filter_empty_conv rev_image_eqI)

lemma get_where_key:
  assumes "distinct (map k rs)" and "r \<in> set rs"
  shows "get_where (\<lambda>x. k x = k r) rs = OneRow r"
  using filter_key_distinct [OF assms] by (simp add: get_where_def)

lemma get_where_cong_filter: "filter P rs = filter Q rs' \<Longrightarrow> get_where P rs = get_where Q rs'"
  by (simp add: get_where_def)

lemma exists_where_iff [simp]: "exists_where P rs \<longleftrightarrow> (\<exists>r \<in> set rs. P r)"
  by (simp add: exists_where_def list_ex_iff)

subsection \<open>Lemmas on money\<close>

lemma round_half_even_bounds:
  assumes "0 < d"
  shows "2 * \<bar>round_half_even n d * d - n\<bar> \<le> d"
proof -
  have n: "n = n div d * d + n mod d" by simp
  have r: "0 \<le> n mod d" "n mod d < d" using assms by auto
  show ?thesis
  proof -
    let ?q = "n div d" and ?r = "n mod d"
    have lo: "?q * d - n = - ?r" and hi: "(?q + 1) * d - n = d - ?r"
      using n by (simp_all add: algebra_simps)
    consider (down) "round_half_even n d = ?q" "2 * ?r \<le> d"
      | (up) "round_half_even n d = ?q + 1" "d \<le> 2 * ?r"
      by (fastforce simp: round_half_even_def Let_def split: if_splits)
    then show ?thesis
    proof cases
      case down
      with lo r show ?thesis by simp
    next
      case up
      with hi r show ?thesis by simp
    qed
  qed
qed

lemma round_half_even_exact [simp]: "0 < d \<Longrightarrow> round_half_even (k * d) d = k"
  by (simp add: round_half_even_def)

lemma quantize_cents_exact [simp]: "quantize_cents (10000 * c) = c"
  using round_half_even_exact [of 10000 c] by (simp add: quantize_cents_def mult.commute)

lemma round_half_even_mono:
  assumes "0 < d" and "m \<le> n"
  shows "round_half_even m d \<le> round_half_even n d"
proof -
  have q: "m div d \<le> n div d" using assms by (simp add: zdiv_mono1)
  show ?thesis
  proof (cases "m div d = n div d")
    case True
    have "m mod d = m - m div d * d" "n mod d = n - n div d * d"
      by (simp_all add: minus_div_mult_eq_mod)
    with True assms(2) have "m mod d \<le> n mod d" by simp
    with True show ?thesis by (auto simp: round_half_even_def Let_def)
  next
    case False
    with q have "m div d + 1 \<le> n div d" by simp
    then show ?thesis by (auto simp: round_half_even_def Let_def)
  qed
qed

lemma quantize_cents_mono: "x \<le> y \<Longrightarrow> quantize_cents x \<le> quantize_cents y"
  unfolding quantize_cents_def by (rule round_half_even_mono) simp_all

lemma quantize_cents_nonneg: "0 \<le> x \<Longrightarrow> 0 \<le> quantize_cents x"
  using quantize_cents_mono [of 0 x] by (simp add: quantize_cents_def round_half_even_def)

end
