(* ===== verification/Json.thy ===== *)
theory Json
  imports Prelude "HOL-Library.AList"
begin

section \<open>JSON values and the camelCase wire format\<close>

text \<open>
  JSON values, Python dictionaries as association lists with insertion order, and the model of
  \<^verbatim>\<open>apps/core/middleware/camel_case.py\<close>: the two key translations, the recursive key
  transformation and the middleware around a view. Characters are ASCII; \<open>lower\<close> and \<open>upper\<close>
  are \<open>str.lower\<close> and \<open>str.upper\<close> on that range.
\<close>

datatype json =
    JNull
  | JBool bool
  | JInt int
  | JStr string
  | JList "json list"
  | JObj "(string \<times> json) list"

type_synonym dict = "(string \<times> json) list"

subsection \<open>Dictionaries\<close>

text \<open>\<open>d[k] = v\<close> keeps the position of an existing key; \<open>{**d, **e}\<close> is \<open>dict_update d e\<close>.\<close>

definition dict_update :: "('k \<times> 'v) list \<Rightarrow> ('k \<times> 'v) list \<Rightarrow> ('k \<times> 'v) list" where
  "dict_update d e = fold (\<lambda>(k, v). AList.update k v) e d"

definition dict_of_pairs :: "('k \<times> 'v) list \<Rightarrow> ('k \<times> 'v) list" where
  "dict_of_pairs = dict_update []"

subsection \<open>Characters\<close>

definition is_lower :: "char \<Rightarrow> bool" where
  "is_lower c \<longleftrightarrow> 97 \<le> (of_char c :: nat) \<and> (of_char c :: nat) \<le> 122"

definition is_upper :: "char \<Rightarrow> bool" where
  "is_upper c \<longleftrightarrow> 65 \<le> (of_char c :: nat) \<and> (of_char c :: nat) \<le> 90"

definition is_digit :: "char \<Rightarrow> bool" where
  "is_digit c \<longleftrightarrow> 48 \<le> (of_char c :: nat) \<and> (of_char c :: nat) \<le> 57"

definition to_upper :: "char \<Rightarrow> char" where
  "to_upper c = (if is_lower c then char_of (of_char c - 32 :: nat) else c)"

definition to_lower :: "char \<Rightarrow> char" where
  "to_lower c = (if is_upper c then char_of (of_char c + 32 :: nat) else c)"

definition upper :: "string \<Rightarrow> string" where
  "upper = map to_upper"

definition lower :: "string \<Rightarrow> string" where
  "lower = map to_lower"

definition is_space :: "char \<Rightarrow> bool" where
  "is_space c \<longleftrightarrow> (let n = of_char c :: nat in n = 32 \<or> (9 \<le> n \<and> n \<le> 13) \<or> (28 \<le> n \<and> n \<le> 31))"

definition strip :: "string \<Rightarrow> string" where
  "strip s = rev (dropWhile is_space (rev (dropWhile is_space s)))"

subsection \<open>The key translations\<close>

text \<open>\<open>_TO_CAMEL_RE.sub\<close> with the pattern \<open>_([a-z0-9])\<close>: matches do not overlap.\<close>

fun to_camel :: "string \<Rightarrow> string" where
  "to_camel [] = []"
| "to_camel [c] = [c]"
| "to_camel (c # d # cs) =
     (if c = CHR ''_'' \<and> (is_lower d \<or> is_digit d) then to_upper d # to_camel cs
      else c # to_camel (d # cs))"

text \<open>\<open>_TO_SNAKE_RE.sub\<close> with \<open>(?<=[a-z0-9])([A-Z])\<close>: the look-behind reads the original text.\<close>

fun insert_underscores :: "bool \<Rightarrow> string \<Rightarrow> string" where
  "insert_underscores prev [] = []"
| "insert_underscores prev (c # cs) =
     (if prev \<and> is_upper c then [CHR ''_'', c] else [c]) @
     insert_underscores (is_lower c \<or> is_digit c) cs"

definition to_snake :: "string \<Rightarrow> string" where
  "to_snake key = lower (insert_underscores False key)"

fun transform_keys :: "(string \<Rightarrow> string) \<Rightarrow> json \<Rightarrow> json" where
  "transform_keys fn (JObj kvs) =
     JObj (dict_of_pairs (map (\<lambda>p. (fn (fst p), transform_keys fn (snd p))) kvs))"
| "transform_keys fn (JList xs) = JList (map (transform_keys fn) xs)"
| "transform_keys fn j = j"

subsection \<open>The middleware\<close>

text \<open>
  A body is empty, bytes that \<open>json.loads\<close> reads as a value, or bytes it rejects. Only what the
  middleware looks at is kept of requests and responses.
\<close>

datatype http_body = EmptyBody | JsonBody json | OpaqueBody string

record http_request =
  req_path :: string
  req_host :: string
  req_meta :: "(string \<times> string) list"
  req_body :: http_body

record http_response =
  resp_status :: nat
  resp_content_type :: string
  resp_headers :: "(string \<times> string) list"
  resp_body :: http_body

definition startswith :: "string \<Rightarrow> string \<Rightarrow> bool" where
  "startswith s p \<longleftrightarrow> take (length p) s = p"

fun contains :: "string \<Rightarrow> string \<Rightarrow> bool" where
  "contains [] sub \<longleftrightarrow> sub = []"
| "contains (c # cs) sub \<longleftrightarrow> startswith (c # cs) sub \<or> contains cs sub"

definition is_exempt :: "http_request \<Rightarrow> string list \<Rightarrow> bool" where
  "is_exempt request paths \<longleftrightarrow> list_ex (startswith (req_path request)) paths"

definition GLOBAL_EXEMPT_PATHS :: "string list" where
  "GLOBAL_EXEMPT_PATHS =
     [''/admin/'', ''/api/v1/docs/'', ''/api/v1/schema/'', ''/api/v1/webhooks/'', ''/dashboard/'',
      ''/api/v1/admin/platform/'', ''/api/v1/admin/auth/'']"

definition AUTH_EXEMPT_PATHS :: "string list" where
  "AUTH_EXEMPT_PATHS = [''/api/v1/health'', ''/api/v1/admin/'']"

definition CAMEL_CASE_EXEMPT_PATHS :: "string list" where
  "CAMEL_CASE_EXEMPT_PATHS =
     [''/admin/'', ''/api/v1/docs/'', ''/api/v1/schema/'', ''/api/v1/webhooks/'', ''/dashboard/'']"

definition meta_get :: "(string \<times> string) list \<Rightarrow> string \<Rightarrow> string" where
  "meta_get m k = (case map_of m k of None \<Rightarrow> '''' | Some v \<Rightarrow> v)"

definition decamelize_request :: "http_request \<Rightarrow> http_request" where
  "decamelize_request request =
     (if req_body request = EmptyBody then request
      else if \<not> contains (meta_get (req_meta request) ''CONTENT_TYPE'') ''application/json'' then request
      else (case req_body request of
              JsonBody payload \<Rightarrow> request\<lparr>req_body := JsonBody (transform_keys to_snake payload)\<rparr>
            | _ \<Rightarrow> request))"

definition camelize_response :: "http_response \<Rightarrow> http_response" where
  "camelize_response response =
     (if resp_body response = EmptyBody then response
      else if \<not> contains (resp_content_type response) ''application/json'' then response
      else (case resp_body response of
              JsonBody payload \<Rightarrow> response\<lparr>resp_body := JsonBody (transform_keys to_camel payload)\<rparr>
            | _ \<Rightarrow> response))"

definition camel_case_middleware ::
  "(http_request \<Rightarrow> http_response) \<Rightarrow> http_request \<Rightarrow> http_response" where
  "camel_case_middleware get_response request =
     (let exempt = is_exempt request CAMEL_CASE_EXEMPT_PATHS;
          response = get_response (if exempt then request else decamelize_request request)
      in if exempt then response else camelize_response response)"

subsection \<open>Which keys survive the round trip\<close>

text \<open>
  The keys that come back from the wire as they went out: no capitals, and each underscore that starts a match of the
  first pattern stands after a letter or digit that is no match itself and before a letter. A digit after an underscore
  loses it. The first argument says whether the character before is such a letter or digit.
\<close>

fun survives :: "bool \<Rightarrow> string \<Rightarrow> bool" where
  "survives us [] \<longleftrightarrow> True"
| "survives us [c] \<longleftrightarrow> \<not> is_upper c"
| "survives us (c # d # cs) \<longleftrightarrow>
     (if c = CHR ''_'' \<and> (is_lower d \<or> is_digit d) then us \<and> is_lower d \<and> survives False cs
      else \<not> is_upper c \<and> survives (is_lower c \<or> is_digit c) (d # cs))"

text \<open>The values at the leaves of a JSON value, in order.\<close>

fun json_leaves :: "json \<Rightarrow> json list" where
  "json_leaves (JObj kvs) = concat (map (\<lambda>p. json_leaves (snd p)) kvs)"
| "json_leaves (JList xs) = concat (map json_leaves xs)"
| "json_leaves j = [j]"

fun json_keys :: "json \<Rightarrow> string list" where
  "json_keys (JObj kvs) = map fst kvs @ concat (map (\<lambda>p. json_keys (snd p)) kvs)"
| "json_keys (JList xs) = concat (map json_keys xs)"
| "json_keys j = []"

fun wf_json :: "json \<Rightarrow> bool" where
  "wf_json (JObj kvs) \<longleftrightarrow> distinct (map fst kvs) \<and> list_all (\<lambda>p. wf_json (snd p)) kvs"
| "wf_json (JList xs) \<longleftrightarrow> list_all wf_json xs"
| "wf_json j \<longleftrightarrow> True"

subsection \<open>Lemmas on dictionaries\<close>

lemma dict_update_append:
  assumes "distinct (map fst (d @ e))"
  shows "dict_update d e = d @ e"
  using assms
proof (induction e arbitrary: d)
  case Nil
  then show ?case by (simp add: dict_update_def)
next
  case (Cons p e)
  obtain k v where p: "p = (k, v)" by fastforce
  have "k \<notin> fst ` set d" using Cons.prems p by auto
  then have "AList.update k v d = d @ [p]"
    using p by (induction d) auto
  then have "dict_update d (p # e) = dict_update (d @ [p]) e"
    using p by (simp add: dict_update_def)
  also have "... = (d @ [p]) @ e" using Cons.prems by (intro Cons.IH) simp
  finally show ?case by simp
qed

lemma dict_of_pairs_distinct [simp]: "distinct (map fst d) \<Longrightarrow> dict_of_pairs d = d"
  using dict_update_append [of "[]" d] by (simp add: dict_of_pairs_def)

lemma map_of_dict_update: "map_of (dict_update d e) k =
   (case map_of (rev e) k of None \<Rightarrow> map_of d k | Some v \<Rightarrow> Some v)"
  by (induction e arbitrary: d) (auto simp: dict_update_def update_conv' split: option.splits)

lemma distinct_dict_of_pairs: "distinct (map fst (dict_of_pairs d))"
proof -
  have "distinct (map fst d') \<Longrightarrow> distinct (map fst (dict_update d' d))" for d'
    by (induction d arbitrary: d') (auto simp: dict_update_def intro: distinct_update)
  then show ?thesis by (simp add: dict_of_pairs_def)
qed

subsection \<open>Lemmas on characters\<close>

lemma of_char_underscore [simp]: "(of_char (CHR ''_'') :: nat) = 95"
  by simp

lemma to_lower_upper: "is_lower c \<Longrightarrow> to_lower (to_upper c) = c"
proof -
  assume l: "is_lower c"
  then have "of_char c - 32 < (256 :: nat)" unfolding is_lower_def by linarith
  then have a: "(of_char c - 32 :: nat) mod 256 = of_char c - 32" by (rule mod_less)
  from l have b: "of_char c - 32 + 32 = (of_char c :: nat)" and c: "65 \<le> (of_char c - 32 :: nat)"
    and d: "of_char c - 32 \<le> (90 :: nat)"
    unfolding is_lower_def by linarith+
  show ?thesis
    using l c d by (simp add: to_lower_def to_upper_def is_upper_def a b)
qed

lemma is_upper_to_upper: "is_lower c \<Longrightarrow> is_upper (to_upper c)"
proof -
  assume l: "is_lower c"
  then have "of_char c - 32 < (256 :: nat)" unfolding is_lower_def by linarith
  then have "(of_char c - 32 :: nat) mod 256 = of_char c - 32" by (rule mod_less)
  with l show ?thesis by (simp add: to_upper_def is_lower_def is_upper_def) linarith
qed

lemma to_lower_id: "is_lower c \<or> is_digit c \<or> c = CHR ''_'' \<Longrightarrow> to_lower c = c"
  by (auto simp: to_lower_def is_lower_def is_digit_def is_upper_def)

lemma not_upper_lower: "is_lower c \<or> is_digit c \<Longrightarrow> \<not> is_upper c"
  by (auto simp: is_lower_def is_digit_def is_upper_def)

lemma not_lower_upper: "is_upper c \<Longrightarrow> \<not> is_lower c \<and> \<not> is_digit c"
  by (auto simp: is_lower_def is_digit_def is_upper_def)

lemma underscore_class [simp]:
  "\<not> is_lower (CHR ''_'')" "\<not> is_digit (CHR ''_'')" "\<not> is_upper (CHR ''_'')"
  by (simp_all add: is_lower_def is_digit_def is_upper_def)

lemma is_upper_not_underscore: "is_lower d \<Longrightarrow> to_upper d \<noteq> CHR ''_''"
  using is_upper_to_upper [of d] by auto

subsection \<open>The round trip of keys\<close>

lemma to_lower_same: "to_lower c = c \<longleftrightarrow> \<not> is_upper c"
proof
  assume "to_lower c = c"
  show "\<not> is_upper c"
  proof
    assume u: "is_upper c"
    then have "of_char (to_lower c) = (of_char c + 32 :: nat)" by (simp add: to_lower_def is_upper_def)
    with \<open>to_lower c = c\<close> show False by simp
  qed
qed (simp add: to_lower_def)

lemma not_underscore: "is_lower c \<or> is_digit c \<or> is_upper c \<Longrightarrow> c \<noteq> CHR ''_''"
  by auto

text \<open>Exactly these keys survive; \<open>us\<close> is what the look-behind of \<open>to_snake\<close> sees.\<close>

lemma survives_aux: "lower (insert_underscores us (to_camel key)) = key \<longleftrightarrow> survives us key"
proof (induction us key rule: survives.induct)
  case (1 us)
  show ?case by (simp add: lower_def)
next
  case (2 us c)
  show ?case by (auto simp: lower_def to_lower_same)
next
  case (3 us c d cs)
  show ?case
  proof (cases "c = CHR ''_'' \<and> (is_lower d \<or> is_digit d)")
    case match: True
    show ?thesis
    proof (cases "is_lower d")
      case True
      have u: "is_upper (to_upper d)" by (rule is_upper_to_upper [OF True])
      then have "\<not> is_lower (to_upper d)" "\<not> is_digit (to_upper d)" using not_lower_upper by auto
      with match True u not_underscore [of d] "3.IH"(1) [OF match] show ?thesis
        by (auto simp: lower_def to_lower_upper to_lower_id)
    next
      case False
      then have "to_upper d = d" "\<not> is_upper d" "d \<noteq> CHR ''_''"
        using match not_upper_lower [of d] not_underscore [of d] by (auto simp: to_upper_def)
      with match False show ?thesis by (simp add: lower_def to_lower_def)
    qed
  next
    case False
    then have "to_camel (c # d # cs) = c # to_camel (d # cs)" by auto
    with False "3.IH"(2) [OF False] not_underscore [of c] show ?thesis
      by (cases "is_upper c") (auto simp: lower_def to_lower_same to_lower_id)
  qed
qed

lemma snake_camel_iff: "to_snake (to_camel key) = key \<longleftrightarrow> survives False key"
  unfolding to_snake_def by (rule survives_aux)

lemma transform_keys_id_on:
  assumes "wf_json j" and "\<And>k. k \<in> set (json_keys j) \<Longrightarrow> f k = k"
  shows "transform_keys f j = j"
  using assms
proof (induction j)
  case (JObj kvs)
  have "map (\<lambda>p. (f (fst p), transform_keys f (snd p))) kvs = kvs"
  proof (rule map_idI)
    fix p assume p: "p \<in> set kvs"
    have "wf_json (snd p)" using JObj.prems(1) p by (auto simp: list_all_iff)
    moreover have "f k = k" if "k \<in> set (json_keys (snd p))" for k
      using JObj.prems(2) that p by auto
    ultimately have "transform_keys f (snd p) = snd p"
      using JObj.IH [of p "snd p"] p by (cases p) auto
    moreover have "f (fst p) = fst p" using JObj.prems(2) p by auto
    ultimately show "(f (fst p), transform_keys f (snd p)) = p" by simp
  qed
  then show ?case using JObj.prems(1) by simp
next
  case (JList xs)
  then have "map (transform_keys f) xs = xs"
    by (intro map_idI) (auto simp: list_all_iff)
  then show ?case by simp
qed simp_all

lemma transform_keys_comp:
  assumes "inj_on g (set (json_keys j))" and "wf_json j"
  shows "transform_keys f (transform_keys g j) = transform_keys (f \<circ> g) j"
  using assms
proof (induction j)
  case (JObj kvs)
  let ?h = "\<lambda>p. (g (fst p), transform_keys g (snd p))"
  have inj: "inj_on g (fst ` set kvs)" using JObj.prems(1) by (auto intro: inj_on_subset)
  have "map fst (map ?h kvs) = map g (map fst kvs)" by simp
  moreover have "distinct (map g (map fst kvs))"
    using inj JObj.prems(2) by (subst distinct_map) auto
  ultimately have d: "distinct (map fst (map ?h kvs))" by (simp only:)
  have "transform_keys f (transform_keys g (snd p)) = transform_keys (f \<circ> g) (snd p)"
    if p: "p \<in> set kvs" for p
  proof -
    have "inj_on g (set (json_keys (snd p)))"
      using JObj.prems(1) p by (auto elim!: inj_on_subset)
    moreover have "wf_json (snd p)" using JObj.prems(2) p by (auto simp: list_all_iff)
    ultimately show ?thesis using JObj.IH [of p "snd p"] p by (cases p) (simp add: comp_def)
  qed
  then have "map (\<lambda>p. (f (fst p), transform_keys f (snd p))) (map ?h kvs) =
      map (\<lambda>p. ((f \<circ> g) (fst p), transform_keys (f \<circ> g) (snd p))) kvs"
    by (simp add: comp_def)
  moreover have "transform_keys g (JObj kvs) = JObj (map ?h kvs)"
    using dict_of_pairs_distinct [OF d] by (simp only: transform_keys.simps)
  ultimately show ?case by (simp only: transform_keys.simps)
next
  case (JList xs)
  have "transform_keys f (transform_keys g x) = transform_keys (f \<circ> g) x" if "x \<in> set xs" for x
    using JList.prems that by (intro JList.IH) (auto simp: list_all_iff elim!: inj_on_subset)
  then show ?case by (simp add: comp_def)
qed simp_all

lemma transform_keys_leaves:
  assumes "wf_json j" and "inj_on f (set (json_keys j))"
  shows "json_leaves (transform_keys f j) = json_leaves j"
  using assms
proof (induction j)
  case (JObj kvs)
  let ?h = "\<lambda>p. (f (fst p), transform_keys f (snd p))"
  have inj: "inj_on f (fst ` set kvs)" using JObj.prems(2) by (auto intro: inj_on_subset)
  have "map fst (map ?h kvs) = map f (map fst kvs)" by simp
  moreover have "distinct (map f (map fst kvs))"
    using inj JObj.prems(1) by (subst distinct_map) auto
  ultimately have "dict_of_pairs (map ?h kvs) = map ?h kvs" by (intro dict_of_pairs_distinct) (simp only:)
  moreover have "json_leaves (transform_keys f (snd p)) = json_leaves (snd p)"
    if p: "p \<in> set kvs" for p
  proof -
    have "inj_on f (set (json_keys (snd p)))"
      using JObj.prems(2) p by (auto elim!: inj_on_subset)
    moreover have "wf_json (snd p)" using JObj.prems(1) p by (auto simp: list_all_iff)
    ultimately show ?thesis using JObj.IH [of p "snd p"] p by (cases p) auto
  qed
  then have "map (\<lambda>p. json_leaves (transform_keys f (snd p))) kvs = map (\<lambda>p. json_leaves (snd p)) kvs"
    by (intro map_cong refl)
  ultimately show ?case by (simp add: comp_def del: map_eq_conv)
next
  case (JList xs)
  have "json_leaves (transform_keys f x) = json_leaves x" if "x \<in> set xs" for x
    using JList.prems that by (intro JList.IH) (auto simp: list_all_iff elim!: inj_on_subset)
  then have "map (\<lambda>x. json_leaves (transform_keys f x)) xs = map json_leaves xs"
    by (intro map_cong refl)
  then show ?case by (simp add: comp_def del: map_eq_conv)
qed simp_all

subsection \<open>What a key looks like on either side\<close>

text \<open>On the wire no small letter follows an underscore; inside there are no capitals.\<close>

fun wire_key :: "string \<Rightarrow> bool" where
  "wire_key (c # d # cs) \<longleftrightarrow> \<not> (c = CHR ''_'' \<and> is_lower d) \<and> wire_key (d # cs)"
| "wire_key _ = True"

lemma to_upper_not_lower: "\<not> is_lower (to_upper c)"
  using is_upper_to_upper [of c] not_upper_lower [of "to_upper c"] by (cases "is_lower c") (auto simp: to_upper_def)

lemma wire_key_Cons: "c \<noteq> CHR ''_'' \<Longrightarrow> wire_key (c # s) = wire_key s"
  by (cases s) auto

lemma to_camel_wire: "wire_key (to_camel k)"
proof (induction k rule: to_camel.induct)
  case (3 c d cs)
  have u: "to_upper d \<noteq> CHR ''_''" if "is_lower d \<or> is_digit d"
    using that is_upper_not_underscore [of d] by (cases "is_lower d") (auto simp: to_upper_def)
  show ?case
  proof (cases "c = CHR ''_'' \<and> (is_lower d \<or> is_digit d)")
    case True
    then show ?thesis using 3(1) u by (simp add: wire_key_Cons)
  next
    case False
    then show ?thesis
      using 3(2) u to_upper_not_lower
      by (cases "c = CHR ''_''") (cases cs, auto simp: wire_key_Cons)
  qed
qed simp_all

lemma to_snake_small: "list_all (\<lambda>c. \<not> is_upper c) (to_snake k)"
proof -
  have "\<not> is_upper (to_lower c)" for c
  proof (cases "is_upper c")
    case True
    then have "(of_char (to_lower c) :: nat) = of_char c + 32" by (simp add: to_lower_def is_upper_def)
    then show ?thesis using True by (simp add: is_upper_def)
  qed (simp add: to_lower_def)
  then show ?thesis by (simp add: to_snake_def lower_def list_all_iff)
qed

lemma set_dict_update: "set (dict_update d e) \<subseteq> set d \<union> set e"
proof (induction e arbitrary: d)
  case (Cons p e)
  have "set (AList.update (fst p) (snd p) d) \<subseteq> insert p (set d)"
    by (induction d) auto
  then show ?case using Cons [of "AList.update (fst p) (snd p) d"] by (auto simp: dict_update_def case_prod_beta)
qed (simp add: dict_update_def)

lemma keys_transformed: "set (json_keys (transform_keys f j)) \<subseteq> f ` set (json_keys j)"
proof (induction f j rule: transform_keys.induct)
  case (1 f kvs)
  have sub: "set (dict_of_pairs (map (\<lambda>p. (f (fst p), transform_keys f (snd p))) kvs)) \<subseteq>
      (\<lambda>p. (f (fst p), transform_keys f (snd p))) ` set kvs"
    using set_dict_update [of "[]"] by (force simp: dict_of_pairs_def)
  show ?case
  proof
    fix k assume "k \<in> set (json_keys (transform_keys f (JObj kvs)))"
    then obtain p where p: "p \<in> set kvs" "k = f (fst p) \<or> k \<in> set (json_keys (transform_keys f (snd p)))"
      using sub by fastforce
    then show "k \<in> f ` set (json_keys (JObj kvs))" using 1 [OF p(1)] by force
  qed
qed force+

end
