(* ===== verification/Errors.thy ===== *)
theory Errors
  imports Json
begin

section \<open>Domain errors, the response envelope and the exception handler\<close>

text \<open>
  \<^verbatim>\<open>apps/core/exceptions\<close> and \<^verbatim>\<open>apps/core/responses.py\<close>. The class hierarchy under
  \<open>DomainError\<close> is one datatype, whose constructors carry the constructor arguments of the
  classes; \<open>exn_code\<close>, \<open>exn_http_status\<close>, \<open>exn_detail\<close> and \<open>exn_meta\<close> are the attributes the classes set.
  The datatype also has the exceptions of Django, Django REST framework and Python that the code
  raises or catches by name. \<open>custom_exception_handler\<close> maps an exception to a response, or to
  \<open>None\<close> where the framework re-raises it.
\<close>

type_synonym uuid = nat
type_synonym time = int \<comment> \<open>microseconds since the epoch\<close>
type_synonym money = int \<comment> \<open>cents\<close>

datatype (plugins only: code size) exn =
    DomainError "string option"
  | TenantRequired | TenantNotFound | TenantMismatch | Unauthorized
  | Forbidden string
  | IdempotencyKeyRequired
  | ResourceNotFound string
  | AddressNotFound string
  | CartNotFound string
  | CouponNotFound string
  | CustomerNotFound string
  | PaymentMethodNotFound string
  | ProductNotFound uuid
  | CartVersionConflict int int
  | CartNotCheckoutReady string
  | CurrencyMismatch string string
  | InsufficientStock uuid int int
  | InsufficientStockItems "(uuid \<times> int \<times> int) list"
  | CouponInvalid string
  | CouponExpired string
  | CouponExhausted string
  | CouponMinNotMet money money
  | CouponCountryRestricted string
  | CouponAlreadyApplied string
  | GatewayNotConfigured string
  | GatewayUnsupportedCurrency string string
  | PaymentFailed "string option" "string option"
  | OrderNotCancellable string dict
  | ValidationError json
  | NotAuthenticated string
  | AuthenticationFailed string
  | PermissionDenied string
  | Throttled "int option"
  | Http404 string \<comment> \<open>with the text of the data the framework answers it with\<close>
  | ApiException nat string \<comment> \<open>any other \<open>APIException\<close>: its status and the text of its data\<close>
  | DoesNotExist string
  | MultipleObjectsReturned
  | IntegrityError string
  | RuntimeError string
  | ValueError string
  | TypeError string
  | KeyError string
  | AttributeError string
  | NotImplementedError string
  | DatabaseError string
  | GatewayError string

subsection \<open>Text of identifiers\<close>

text \<open>\<open>str\<close> of a UUID: 32 hexadecimal digits grouped 8-4-4-4-12.\<close>

definition hex_digit :: "nat \<Rightarrow> char" where
  "hex_digit n = (if n < 10 then char_of (48 + n) else char_of (87 + n))"

fun hex_digits :: "nat \<Rightarrow> nat \<Rightarrow> string" where
  "hex_digits 0 n = []"
| "hex_digits (Suc k) n = hex_digits k (n div 16) @ [hex_digit (n mod 16)]"

definition uuid_str :: "uuid \<Rightarrow> string" where
  "uuid_str u =
     (let h = hex_digits 32 u in
      take 8 h @ ''-'' @ take 4 (drop 8 h) @ ''-'' @ take 4 (drop 12 h) @ ''-'' @
      take 4 (drop 16 h) @ ''-'' @ drop 20 h)"

subsection \<open>The attributes of the error classes\<close>

text \<open>The subclass relation: \<open>isinstance(exc, DomainError)\<close> and \<open>isinstance(exc, ResourceNotFound)\<close>.\<close>

primrec is_domain_error :: "exn \<Rightarrow> bool" where
  "is_domain_error (ValidationError _) = False"
| "is_domain_error (NotAuthenticated _) = False"
| "is_domain_error (AuthenticationFailed _) = False"
| "is_domain_error (PermissionDenied _) = False"
| "is_domain_error (Throttled _) = False"
| "is_domain_error (Http404 _) = False"
| "is_domain_error (ApiException _ _) = False"
| "is_domain_error (DoesNotExist _) = False"
| "is_domain_error MultipleObjectsReturned = False"
| "is_domain_error (IntegrityError _) = False"
| "is_domain_error (RuntimeError _) = False"
| "is_domain_error (ValueError _) = False"
| "is_domain_error (TypeError _) = False"
| "is_domain_error (KeyError _) = False"
| "is_domain_error (AttributeError _) = False"
| "is_domain_error (NotImplementedError _) = False"
| "is_domain_error (DatabaseError _) = False"
| "is_domain_error (GatewayError _) = False"
| "is_domain_error (DomainError _) = True"
| "is_domain_error TenantRequired = True"
| "is_domain_error TenantNotFound = True"
| "is_domain_error TenantMismatch = True"
| "is_domain_error Unauthorized = True"
| "is_domain_error (Forbidden _) = True"
| "is_domain_error IdempotencyKeyRequired = True"
| "is_domain_error (ResourceNotFound _) = True"
| "is_domain_error (AddressNotFound _) = True"
| "is_domain_error (CartNotFound _) = True"
| "is_domain_error (CouponNotFound _) = True"
| "is_domain_error (CustomerNotFound _) = True"
| "is_domain_error (PaymentMethodNotFound _) = True"
| "is_domain_error (ProductNotFound _) = True"
| "is_domain_error (CartVersionConflict _ _) = True"
| "is_domain_error (CartNotCheckoutReady _) = True"
| "is_domain_error (CurrencyMismatch _ _) = True"
| "is_domain_error (InsufficientStock _ _ _) = True"
| "is_domain_error (InsufficientStockItems _) = True"
| "is_domain_error (CouponInvalid _) = True"
| "is_domain_error (CouponExpired _) = True"
| "is_domain_error (CouponExhausted _) = True"
| "is_domain_error (CouponMinNotMet _ _) = True"
| "is_domain_error (CouponCountryRestricted _) = True"
| "is_domain_error (CouponAlreadyApplied _) = True"
| "is_domain_error (GatewayNotConfigured _) = True"
| "is_domain_error (GatewayUnsupportedCurrency _ _) = True"
| "is_domain_error (PaymentFailed _ _) = True"
| "is_domain_error (OrderNotCancellable _ _) = True"

primrec is_resource_not_found :: "exn \<Rightarrow> bool" where
  "is_resource_not_found (ResourceNotFound _) = True"
| "is_resource_not_found (AddressNotFound _) = True"
| "is_resource_not_found (CartNotFound _) = True"
| "is_resource_not_found (CouponNotFound _) = True"
| "is_resource_not_found (CustomerNotFound _) = True"
| "is_resource_not_found (PaymentMethodNotFound _) = True"
| "is_resource_not_found (ProductNotFound _) = True"
| "is_resource_not_found (DomainError _) = False"
| "is_resource_not_found TenantRequired = False"
| "is_resource_not_found TenantNotFound = False"
| "is_resource_not_found TenantMismatch = False"
| "is_resource_not_found Unauthorized = False"
| "is_resource_not_found (Forbidden _) = False"
| "is_resource_not_found IdempotencyKeyRequired = False"
| "is_resource_not_found (CartVersionConflict _ _) = False"
| "is_resource_not_found (CartNotCheckoutReady _) = False"
| "is_resource_not_found (CurrencyMismatch _ _) = False"
| "is_resource_not_found (InsufficientStock _ _ _) = False"
| "is_resource_not_found (InsufficientStockItems _) = False"
| "is_resource_not_found (CouponInvalid _) = False"
| "is_resource_not_found (CouponExpired _) = False"
| "is_resource_not_found (CouponExhausted _) = False"
| "is_resource_not_found (CouponMinNotMet _ _) = False"
| "is_resource_not_found (CouponCountryRestricted _) = False"
| "is_resource_not_found (CouponAlreadyApplied _) = False"
| "is_resource_not_found (GatewayNotConfigured _) = False"
| "is_resource_not_found (GatewayUnsupportedCurrency _ _) = False"
| "is_resource_not_found (PaymentFailed _ _) = False"
| "is_resource_not_found (OrderNotCancellable _ _) = False"
| "is_resource_not_found (ValidationError _) = False"
| "is_resource_not_found (NotAuthenticated _) = False"
| "is_resource_not_found (AuthenticationFailed _) = False"
| "is_resource_not_found (PermissionDenied _) = False"
| "is_resource_not_found (Throttled _) = False"
| "is_resource_not_found (Http404 _) = False"
| "is_resource_not_found (ApiException _ _) = False"
| "is_resource_not_found (DoesNotExist _) = False"
| "is_resource_not_found MultipleObjectsReturned = False"
| "is_resource_not_found (IntegrityError _) = False"
| "is_resource_not_found (RuntimeError _) = False"
| "is_resource_not_found (ValueError _) = False"
| "is_resource_not_found (TypeError _) = False"
| "is_resource_not_found (KeyError _) = False"
| "is_resource_not_found (AttributeError _) = False"
| "is_resource_not_found (NotImplementedError _) = False"
| "is_resource_not_found (DatabaseError _) = False"
| "is_resource_not_found (GatewayError _) = False"

definition is_payment_failed :: "exn \<Rightarrow> bool" where
  "is_payment_failed e = (case e of PaymentFailed _ _ \<Rightarrow> True | _ \<Rightarrow> False)"

definition is_integrity_error :: "exn \<Rightarrow> bool" where
  "is_integrity_error e = (case e of IntegrityError _ \<Rightarrow> True | _ \<Rightarrow> False)"

primrec exn_code :: "exn \<Rightarrow> string" where
  "exn_code TenantRequired = ''tenant_required''"
| "exn_code TenantNotFound = ''tenant_not_found''"
| "exn_code TenantMismatch = ''tenant_mismatch''"
| "exn_code Unauthorized = ''unauthorized''"
| "exn_code (Forbidden _) = ''forbidden''"
| "exn_code IdempotencyKeyRequired = ''idempotency_key_required''"
| "exn_code (ResourceNotFound _) = ''not_found''"
| "exn_code (AddressNotFound _) = ''address_not_found''"
| "exn_code (CartNotFound _) = ''cart_not_found''"
| "exn_code (CouponNotFound _) = ''coupon_not_found''"
| "exn_code (CustomerNotFound _) = ''customer_not_found''"
| "exn_code (PaymentMethodNotFound _) = ''payment_method_not_found''"
| "exn_code (ProductNotFound _) = ''product_not_found''"
| "exn_code (CartVersionConflict _ _) = ''cart_version_conflict''"
| "exn_code (CartNotCheckoutReady _) = ''cart_not_checkout_ready''"
| "exn_code (CurrencyMismatch _ _) = ''currency_mismatch''"
| "exn_code (InsufficientStock _ _ _) = ''insufficient_stock''"
| "exn_code (InsufficientStockItems _) = ''insufficient_stock''"
| "exn_code (CouponInvalid _) = ''coupon_invalid''"
| "exn_code (CouponExpired _) = ''coupon_expired''"
| "exn_code (CouponExhausted _) = ''coupon_exhausted''"
| "exn_code (CouponMinNotMet _ _) = ''coupon_min_not_met''"
| "exn_code (CouponCountryRestricted _) = ''coupon_country_restricted''"
| "exn_code (CouponAlreadyApplied _) = ''coupon_already_applied''"
| "exn_code (GatewayNotConfigured _) = ''gateway_not_configured''"
| "exn_code (GatewayUnsupportedCurrency _ _) = ''gateway_unsupported_currency''"
| "exn_code (PaymentFailed _ _) = ''payment_failed''"
| "exn_code (OrderNotCancellable _ _) = ''order_not_cancellable''"
| "exn_code (DomainError _) = ''internal_error''"
| "exn_code (ValidationError _) = ''internal_error''"
| "exn_code (NotAuthenticated _) = ''internal_error''"
| "exn_code (AuthenticationFailed _) = ''internal_error''"
| "exn_code (PermissionDenied _) = ''internal_error''"
| "exn_code (Throttled _) = ''internal_error''"
| "exn_code (Http404 _) = ''internal_error''"
| "exn_code (ApiException _ _) = ''internal_error''"
| "exn_code (DoesNotExist _) = ''internal_error''"
| "exn_code MultipleObjectsReturned = ''internal_error''"
| "exn_code (IntegrityError _) = ''internal_error''"
| "exn_code (RuntimeError _) = ''internal_error''"
| "exn_code (ValueError _) = ''internal_error''"
| "exn_code (TypeError _) = ''internal_error''"
| "exn_code (KeyError _) = ''internal_error''"
| "exn_code (AttributeError _) = ''internal_error''"
| "exn_code (NotImplementedError _) = ''internal_error''"
| "exn_code (DatabaseError _) = ''internal_error''"
| "exn_code (GatewayError _) = ''internal_error''"

primrec exn_http_status :: "exn \<Rightarrow> nat" where
  "exn_http_status TenantRequired = 400"
| "exn_http_status TenantNotFound = 404"
| "exn_http_status TenantMismatch = 403"
| "exn_http_status Unauthorized = 401"
| "exn_http_status (Forbidden _) = 403"
| "exn_http_status IdempotencyKeyRequired = 400"
| "exn_http_status (CartVersionConflict _ _) = 409"
| "exn_http_status (CartNotCheckoutReady _) = 409"
| "exn_http_status (CurrencyMismatch _ _) = 409"
| "exn_http_status (InsufficientStock _ _ _) = 409"
| "exn_http_status (InsufficientStockItems _) = 409"
| "exn_http_status (CouponInvalid _) = 409"
| "exn_http_status (CouponExpired _) = 410"
| "exn_http_status (CouponExhausted _) = 409"
| "exn_http_status (CouponMinNotMet _ _) = 409"
| "exn_http_status (CouponCountryRestricted _) = 409"
| "exn_http_status (CouponAlreadyApplied _) = 409"
| "exn_http_status (GatewayNotConfigured _) = 409"
| "exn_http_status (GatewayUnsupportedCurrency _ _) = 409"
| "exn_http_status (PaymentFailed _ _) = 402"
| "exn_http_status (OrderNotCancellable _ _) = 409"
| "exn_http_status (DomainError x) = 500"
| "exn_http_status (ResourceNotFound x) = 404"
| "exn_http_status (AddressNotFound x) = 404"
| "exn_http_status (CartNotFound x) = 404"
| "exn_http_status (CouponNotFound x) = 404"
| "exn_http_status (CustomerNotFound x) = 404"
| "exn_http_status (PaymentMethodNotFound x) = 404"
| "exn_http_status (ProductNotFound x) = 404"
| "exn_http_status (ValidationError x) = 500"
| "exn_http_status (NotAuthenticated x) = 500"
| "exn_http_status (AuthenticationFailed x) = 500"
| "exn_http_status (PermissionDenied x) = 500"
| "exn_http_status (Throttled x) = 500"
| "exn_http_status (Http404 x) = 500"
| "exn_http_status (ApiException x y) = 500"
| "exn_http_status (DoesNotExist x) = 500"
| "exn_http_status MultipleObjectsReturned = 500"
| "exn_http_status (IntegrityError x) = 500"
| "exn_http_status (RuntimeError x) = 500"
| "exn_http_status (ValueError x) = 500"
| "exn_http_status (TypeError x) = 500"
| "exn_http_status (KeyError x) = 500"
| "exn_http_status (AttributeError x) = 500"
| "exn_http_status (NotImplementedError x) = 500"
| "exn_http_status (DatabaseError x) = 500"
| "exn_http_status (GatewayError x) = 500"

text \<open>\<open>detail or self.detail\<close>: an absent or empty text falls back to the class attribute.\<close>

definition or_default :: "string \<Rightarrow> string \<Rightarrow> string" where
  "or_default detail dflt = (if detail = [] then dflt else detail)"

abbreviation generic_detail :: string where
  "generic_detail \<equiv> ''Something went wrong''"

primrec exn_detail :: "exn \<Rightarrow> string" where
  "exn_detail (DomainError d) = (case d of None \<Rightarrow> generic_detail | Some x \<Rightarrow> or_default x generic_detail)"
| "exn_detail TenantRequired = ''A tenant subdomain is required''"
| "exn_detail TenantNotFound = ''Tenant subdomain does not resolve to an active tenant''"
| "exn_detail TenantMismatch = ''Token tenant claim does not match the requested tenant''"
| "exn_detail Unauthorized = ''Authentication required''"
| "exn_detail (Forbidden d) = or_default d ''You don't have access to this resource''"
| "exn_detail IdempotencyKeyRequired = ''Idempotency-Key header is required''"
| "exn_detail (ResourceNotFound d) = or_default d generic_detail"
| "exn_detail (AddressNotFound d) = or_default d generic_detail"
| "exn_detail (CartNotFound d) = or_default d generic_detail"
| "exn_detail (CouponNotFound d) = or_default d generic_detail"
| "exn_detail (CustomerNotFound d) = or_default d generic_detail"
| "exn_detail (PaymentMethodNotFound d) = or_default d generic_detail"
| "exn_detail (ProductNotFound p) = ''Product '' @ uuid_str p @ '' not found''"
| "exn_detail (CartVersionConflict e a) =
     ''Cart was modified since you last read it. Refresh and retry.''"
| "exn_detail (CartNotCheckoutReady d) = or_default d generic_detail"
| "exn_detail (CurrencyMismatch c p) = ''Cart currency is '' @ c @ '', product is '' @ p"
| "exn_detail (InsufficientStock p av rq) =
     ''Only '' @ show_int av @ '' available, '' @ show_int rq @ '' requested''"
| "exn_detail (InsufficientStockItems items) =
     (if items = [] then ''Only None available, None requested''
      else ''One or more items are out of stock'')"
| "exn_detail (CouponInvalid d) = or_default d generic_detail"
| "exn_detail (CouponExpired d) = or_default d generic_detail"
| "exn_detail (CouponExhausted d) = or_default d generic_detail"
| "exn_detail (CouponMinNotMet r c) =
     ''Cart subtotal '' @ show_cents c @ '' is below required minimum '' @ show_cents r"
| "exn_detail (CouponCountryRestricted d) = or_default d generic_detail"
| "exn_detail (CouponAlreadyApplied d) = or_default d generic_detail"
| "exn_detail (GatewayNotConfigured d) = or_default d generic_detail"
| "exn_detail (GatewayUnsupportedCurrency g c) =
     ''Gateway '' @ g @ '' does not support currency '' @ c"
| "exn_detail (PaymentFailed d g) =
     (case d of None \<Rightarrow> ''Payment failed'' | Some x \<Rightarrow> or_default x ''Payment failed'')"
| "exn_detail (OrderNotCancellable d m) = or_default d ''This order can no longer be cancelled''"
| "exn_detail (ValidationError j) = ''''"
| "exn_detail (NotAuthenticated d) = d"
| "exn_detail (AuthenticationFailed d) = d"
| "exn_detail (PermissionDenied d) = d"
| "exn_detail (Throttled w) = ''''"
| "exn_detail (Http404 w) = ''''"
| "exn_detail (ApiException n d) = d"
| "exn_detail (DoesNotExist d) = d"
| "exn_detail MultipleObjectsReturned = ''''"
| "exn_detail (IntegrityError d) = d"
| "exn_detail (RuntimeError d) = d"
| "exn_detail (ValueError d) = d"
| "exn_detail (TypeError d) = d"
| "exn_detail (KeyError d) = d"
| "exn_detail (AttributeError d) = d"
| "exn_detail (NotImplementedError d) = d"
| "exn_detail (DatabaseError d) = d"
| "exn_detail (GatewayError d) = d"

primrec exn_meta :: "exn \<Rightarrow> dict" where
  "exn_meta (ProductNotFound p) = [(''product_id'', JStr (uuid_str p))]"
| "exn_meta (CartVersionConflict e a) = [(''expected'', JInt e), (''actual'', JInt a)]"
| "exn_meta (CurrencyMismatch c p) = [(''cart_currency'', JStr c), (''product_currency'', JStr p)]"
| "exn_meta (InsufficientStock p av rq) =
     [(''product_id'', JStr (uuid_str p)), (''available'', JInt av), (''requested'', JInt rq)]"
| "exn_meta (InsufficientStockItems items) =
     (if items = [] then [(''product_id'', JStr ''None''), (''available'', JNull), (''requested'', JNull)]
      else [(''items'', JList (map (\<lambda>(p, av, rq).
        JObj [(''product_id'', JStr (uuid_str p)), (''available'', JInt av), (''requested'', JInt rq)]) items))])"
| "exn_meta (CouponMinNotMet r c) = [(''required'', JStr (show_cents r)), (''current'', JStr (show_cents c))]"
| "exn_meta (GatewayUnsupportedCurrency g c) = [(''gateway'', JStr g), (''currency'', JStr c)]"
| "exn_meta (PaymentFailed d g) =
     (case g of None \<Rightarrow> [] | Some x \<Rightarrow> if x = [] then [] else [(''gateway_code'', JStr x)])"
| "exn_meta (OrderNotCancellable d m) = m"
| "exn_meta (DomainError _) = []"
| "exn_meta TenantRequired = []"
| "exn_meta TenantNotFound = []"
| "exn_meta TenantMismatch = []"
| "exn_meta Unauthorized = []"
| "exn_meta (Forbidden _) = []"
| "exn_meta IdempotencyKeyRequired = []"
| "exn_meta (ResourceNotFound _) = []"
| "exn_meta (AddressNotFound _) = []"
| "exn_meta (CartNotFound _) = []"
| "exn_meta (CouponNotFound _) = []"
| "exn_meta (CustomerNotFound _) = []"
| "exn_meta (PaymentMethodNotFound _) = []"
| "exn_meta (CartNotCheckoutReady _) = []"
| "exn_meta (CouponInvalid _) = []"
| "exn_meta (CouponExpired _) = []"
| "exn_meta (CouponExhausted _) = []"
| "exn_meta (CouponCountryRestricted _) = []"
| "exn_meta (CouponAlreadyApplied _) = []"
| "exn_meta (GatewayNotConfigured _) = []"
| "exn_meta (ValidationError _) = []"
| "exn_meta (NotAuthenticated _) = []"
| "exn_meta (AuthenticationFailed _) = []"
| "exn_meta (PermissionDenied _) = []"
| "exn_meta (Throttled _) = []"
| "exn_meta (Http404 _) = []"
| "exn_meta (ApiException _ _) = []"
| "exn_meta (DoesNotExist _) = []"
| "exn_meta MultipleObjectsReturned = []"
| "exn_meta (IntegrityError _) = []"
| "exn_meta (RuntimeError _) = []"
| "exn_meta (ValueError _) = []"
| "exn_meta (TypeError _) = []"
| "exn_meta (KeyError _) = []"
| "exn_meta (AttributeError _) = []"
| "exn_meta (NotImplementedError _) = []"
| "exn_meta (DatabaseError _) = []"
| "exn_meta (GatewayError _) = []"

text \<open>\<open>DomainError.to_dict\<close>; no class of the repository passes a \<open>source\<close>.\<close>

definition exn_to_dict :: "exn \<Rightarrow> dict" where
  "exn_to_dict e =
     [(''code'', JStr (exn_code e)), (''detail'', JStr (exn_detail e))] @
     (if exn_meta e = [] then [] else [(''meta'', JObj (exn_meta e))])"

subsection \<open>The envelope\<close>

text \<open>
  \<open>_request_id\<close>: the context variable, else the inbound header, else a fresh identifier, drawn by
  the caller. Empty strings are false in Python.
\<close>

definition request_id_of :: "string option \<Rightarrow> (string \<times> string) list option \<Rightarrow> string \<Rightarrow> string" where
  "request_id_of ctx meta fresh =
     (case ctx of
        Some rid \<Rightarrow> (if rid \<noteq> [] then rid
                     else (case meta of None \<Rightarrow> fresh
                           | Some m \<Rightarrow> or_default (meta_get m ''HTTP_X_REQUEST_ID'') fresh))
      | None \<Rightarrow> (case meta of None \<Rightarrow> fresh
                 | Some m \<Rightarrow> or_default (meta_get m ''HTTP_X_REQUEST_ID'') fresh))"

definition envelope :: "json \<Rightarrow> string \<Rightarrow> dict \<Rightarrow> json" where
  "envelope data rid extra =
     JObj [(''data'', data),
           (''meta'', JObj (dict_update [(''request_id'', JStr rid), (''version'', JStr ''v1'')] extra))]"

definition clean_error :: "dict \<Rightarrow> dict" where
  "clean_error e =
     (if map_of e ''source'' = None \<or> map_of e ''source'' = Some JNull
      then filter (\<lambda>(k, v). k \<noteq> ''source'') e else e)"

definition error_envelope :: "dict option list \<Rightarrow> string \<Rightarrow> json" where
  "error_envelope errors rid =
     JObj [(''errors'', JList (map (\<lambda>e. JObj (clean_error e)) (List.map_filter id errors))),
           (''meta'', JObj [(''request_id'', JStr rid), (''version'', JStr ''v1'')])]"

subsection \<open>The exception handler\<close>

text \<open>\<open>str\<close> of the leaves of a validation error; the framework makes them strings.\<close>

fun py_str :: "json \<Rightarrow> string" where
  "py_str (JStr s) = s"
| "py_str (JInt i) = show_int i"
| "py_str (JBool b) = (if b then ''True'' else ''False'')"
| "py_str _ = ''None''"

definition leaf_error :: "string \<Rightarrow> json \<Rightarrow> dict" where
  "leaf_error prefix item =
     [(''code'', JStr ''validation_error''), (''detail'', JStr (py_str item)),
      (''source'', if prefix = [] then JNull else JObj [(''pointer'', JStr prefix)])]"

text \<open>
  \<open>_flatten_drf_validation_error\<close>. A list member that is a dictionary or list is flattened with the
  pointer of the list; so is a scalar, which becomes one error.
\<close>

fun flatten_validation_error :: "json \<Rightarrow> string \<Rightarrow> dict list" where
  "flatten_validation_error (JObj kvs) prefix =
     concat (map (\<lambda>p. flatten_validation_error (snd p) (prefix @ ''/'' @ fst p)) kvs)"
| "flatten_validation_error (JList items) prefix =
     concat (map (\<lambda>item. flatten_validation_error item prefix) items)"
| "flatten_validation_error detail prefix = [leaf_error prefix detail]"

definition json_response :: "nat \<Rightarrow> (string \<times> string) list \<Rightarrow> json \<Rightarrow> http_response" where
  "json_response st hs j =
     \<lparr>resp_status = st, resp_content_type = ''application/json'', resp_headers = hs, resp_body = JsonBody j\<rparr>"

text \<open>
  The clauses after throttling are the framework's own handler: it answers an object that was not found and every
  \<open>APIException\<close> the clauses before it have left (a body that does not parse, a method that is not allowed, a media type), and
  its answer is put in the envelope. The remaining exceptions propagate, so that the request becomes a 500.
\<close>

definition custom_exception_handler :: "exn \<Rightarrow> string \<Rightarrow> http_response option" where
  "custom_exception_handler exc rid =
     (case exc of
        ValidationError detail \<Rightarrow>
          Some (json_response 422 [] (error_envelope (map Some (flatten_validation_error detail [])) rid))
      | NotAuthenticated d \<Rightarrow>
          Some (json_response 401 [] (error_envelope
            [Some [(''code'', JStr ''unauthorized''), (''detail'', JStr d)]] rid))
      | AuthenticationFailed d \<Rightarrow>
          Some (json_response 401 [] (error_envelope
            [Some [(''code'', JStr ''unauthorized''), (''detail'', JStr d)]] rid))
      | PermissionDenied d \<Rightarrow>
          Some (json_response 403 [] (error_envelope
            [Some [(''code'', JStr ''forbidden''), (''detail'', JStr d)]] rid))
      | Throttled wait \<Rightarrow>
          Some (json_response 429
            (case wait of None \<Rightarrow> [] | Some w \<Rightarrow> [(''Retry-After'', show_int w)])
            (error_envelope [Some
               [(''code'', JStr ''rate_limited''),
                (''detail'', JStr ''Too many requests. Slow down and try again shortly.''),
                (''meta'', case wait of None \<Rightarrow> JNull | Some w \<Rightarrow> JObj [(''retry_after_seconds'', JInt w)])]] rid))
      | Http404 d \<Rightarrow>
          Some (json_response 404 [] (error_envelope
            [Some [(''code'', JStr ''error''), (''detail'', JStr d)]] rid))
      | ApiException st d \<Rightarrow>
          Some (json_response st [] (error_envelope
            [Some [(''code'', JStr ''error''), (''detail'', JStr d)]] rid))
      | e \<Rightarrow>
          (if is_domain_error e
           then Some (json_response (exn_http_status e) [] (error_envelope [Some (exn_to_dict e)] rid))
           else None))"

text \<open>
  The framework's own handler also marks the transaction of the request for rollback; the clauses of the project
  return before it is called.
\<close>

definition sets_rollback :: "exn \<Rightarrow> bool" where
  "sets_rollback e = (case e of Http404 _ \<Rightarrow> True | ApiException _ _ \<Rightarrow> True | _ \<Rightarrow> False)"

subsection \<open>Lemmas\<close>

lemma exn_code_not_source: "fst ` set (exn_to_dict e) \<subseteq> {''code'', ''detail'', ''meta''}"
  by (auto simp: exn_to_dict_def)

lemma clean_error_no_source:
  assumes "''source'' \<notin> fst ` set e"
  shows "clean_error e = e"
proof -
  have "filter (\<lambda>(k, v). k \<noteq> ''source'') e = e"
    using assms by (intro filter_True) (auto simp: image_iff)
  moreover have "map_of e ''source'' = None" using assms by (simp add: map_of_eq_None_iff)
  ultimately show ?thesis by (simp add: clean_error_def)
qed

lemma clean_error_domain [simp]: "clean_error (exn_to_dict e) = exn_to_dict e"
  by (rule clean_error_no_source) (use exn_code_not_source [of e] in auto)

lemma error_envelope_one: "error_envelope [Some e] rid =
   JObj [(''errors'', JList [JObj (clean_error e)]),
         (''meta'', JObj [(''request_id'', JStr rid), (''version'', JStr ''v1'')])]"
  by (simp add: error_envelope_def map_filter_simps)

lemma handler_domain:
  assumes "is_domain_error e"
  shows "custom_exception_handler e rid =
    Some (json_response (exn_http_status e) [] (error_envelope [Some (exn_to_dict e)] rid))"
  using assms by (cases e) (simp_all add: custom_exception_handler_def)

lemma domain_status_range: "is_domain_error e \<Longrightarrow> exn_http_status e \<in> {400, 401, 402, 403, 404, 409, 410, 500}"
  by (cases e) simp_all

lemma length_flatten: "length (flatten_validation_error j prefix) = length (json_leaves j)"
proof (induction j prefix rule: flatten_validation_error.induct)
  case (1 kvs prefix)
  then have "map (\<lambda>p. length (flatten_validation_error (snd p) (prefix @ ''/'' @ fst p))) kvs
    = map (\<lambda>p. length (json_leaves (snd p))) kvs"
    by (intro map_cong refl) auto
  then show ?case by (simp add: length_concat comp_def del: map_eq_conv)
next
  case (2 items prefix)
  then have "map (\<lambda>i. length (flatten_validation_error i prefix)) items
    = map (\<lambda>i. length (json_leaves i)) items"
    by (intro map_cong refl) auto
  then show ?case by (simp add: length_concat comp_def del: map_eq_conv)
qed (simp_all add: leaf_error_def)

lemma length_hex_digits [simp]: "length (hex_digits k n) = k"
  by (induction k arbitrary: n) simp_all

lemma length_uuid_str: "length (uuid_str u) = 36"
  by (simp add: uuid_str_def Let_def)

end
