(* ===== verification/Models.thy ===== *)
theory Models
  imports Errors
begin

section \<open>The data model\<close>

text \<open>
  The Django models of the apps as records, in the order of the apps. Every tenant-scoped model extends
  \<open>tenant_scoped_model\<close>, as the classes inherit \<open>TenantScopedModel\<close>; a foreign key is the primary key of
  the row it points to. The choices of a column are a datatype whose values are given by a function
  to the stored text. Decimal columns with two places are integers of cents, percentages with two
  places integers of hundredths.
\<close>

subsection \<open>Choices\<close>

datatype customer_type = B2C | B2B

datatype address_label = SHIPPING | BILLING | BOTH

datatype discount_type = PERCENTAGE | FIXED

datatype customer_type_restriction = B2C_ONLY | B2B_ONLY | ANY

datatype cart_status = CartActive | CartCheckingOut | CartConverted | CartAbandoned

datatype order_status = OrderPending | OrderPaid | OrderFulfilled | OrderCancelled | OrderRefunded

datatype reservation_status = ResActive | ResCommitted | ResReleased

datatype payment_status =
  PayPending | PayInvoicePending | PayAuthorized | PayCaptured | PayFailed | PayRefunded | PayCancelled

datatype payment_method_type = CARD | PURCHASE_ORDER

datatype gateway_name = MOCK | STRIPE | STRIPE_LIVE | HYPERPAY | TAP

datatype role = TENANT_ADMIN

text \<open>The gateway-normalised status, \<^verbatim>\<open>gateways/base/payment_status.py\<close>.\<close>

datatype gateway_status = GwPending | GwAuthorized | GwCaptured | GwFailed | GwRefunded | GwCancelled

primrec customer_type_value :: "customer_type \<Rightarrow> string" where
  "customer_type_value B2C = ''B2C''"
| "customer_type_value B2B = ''B2B''"

primrec restriction_value :: "customer_type_restriction \<Rightarrow> string" where
  "restriction_value B2C_ONLY = ''B2C''"
| "restriction_value B2B_ONLY = ''B2B''"
| "restriction_value ANY = ''any''"

primrec cart_status_value :: "cart_status \<Rightarrow> string" where
  "cart_status_value CartActive = ''active''"
| "cart_status_value CartCheckingOut = ''checking_out''"
| "cart_status_value CartConverted = ''converted''"
| "cart_status_value CartAbandoned = ''abandoned''"

primrec order_status_value :: "order_status \<Rightarrow> string" where
  "order_status_value OrderPending = ''pending''"
| "order_status_value OrderPaid = ''paid''"
| "order_status_value OrderFulfilled = ''fulfilled''"
| "order_status_value OrderCancelled = ''cancelled''"
| "order_status_value OrderRefunded = ''refunded''"

primrec payment_status_value :: "payment_status \<Rightarrow> string" where
  "payment_status_value PayPending = ''pending''"
| "payment_status_value PayInvoicePending = ''invoice_pending''"
| "payment_status_value PayAuthorized = ''authorized''"
| "payment_status_value PayCaptured = ''captured''"
| "payment_status_value PayFailed = ''failed''"
| "payment_status_value PayRefunded = ''refunded''"
| "payment_status_value PayCancelled = ''cancelled''"

primrec gateway_name_value :: "gateway_name \<Rightarrow> string" where
  "gateway_name_value MOCK = ''mock''"
| "gateway_name_value STRIPE = ''stripe''"
| "gateway_name_value STRIPE_LIVE = ''stripe_live''"
| "gateway_name_value HYPERPAY = ''hyperpay''"
| "gateway_name_value TAP = ''tap''"

primrec gateway_name_label :: "gateway_name \<Rightarrow> string" where
  "gateway_name_label MOCK = ''Mock (test gateway)''"
| "gateway_name_label STRIPE = ''Stripe (env-configured api_base)''"
| "gateway_name_label STRIPE_LIVE = ''Stripe (live api.stripe.com)''"
| "gateway_name_label HYPERPAY = ''HyperPay''"
| "gateway_name_label TAP = ''Tap''"

primrec gateway_status_value :: "gateway_status \<Rightarrow> string" where
  "gateway_status_value GwPending = ''pending''"
| "gateway_status_value GwAuthorized = ''authorized''"
| "gateway_status_value GwCaptured = ''captured''"
| "gateway_status_value GwFailed = ''failed''"
| "gateway_status_value GwRefunded = ''refunded''"
| "gateway_status_value GwCancelled = ''cancelled''"

text \<open>\<open>PaymentStatus(text)\<close>: the enumeration member with a value, or \<open>ValueError\<close>.\<close>

definition gateway_status_of_value :: "string \<Rightarrow> exn + gateway_status" where
  "gateway_status_of_value v =
     (case find (\<lambda>g. gateway_status_value g = v)
             [GwPending, GwAuthorized, GwCaptured, GwFailed, GwRefunded, GwCancelled] of
        Some g \<Rightarrow> Inr g
      | None \<Rightarrow> Inl (ValueError v))"

subsection \<open>Tenants, users and memberships\<close>

record tenant =
  ten_id :: uuid
  ten_name :: string
  ten_subdomain :: string
  ten_default_currency :: string
  ten_is_active :: bool
  ten_created_at :: time
  ten_updated_at :: time

record user =
  user_id :: nat
  user_email :: string
  user_password :: string \<comment> \<open>the password \<open>check_password\<close> accepts\<close>
  user_is_active :: bool
  user_is_superuser :: bool

record tenant_membership =
  mem_id :: uuid
  mem_user :: nat
  mem_tenant :: uuid
  mem_role :: role
  mem_created_at :: time

record auth_token =
  tok_key :: string
  tok_user :: nat
  tok_created :: time

subsection \<open>The abstract base of the tenant-scoped models\<close>

record tenant_scoped_model =
  row_id :: uuid
  tenant_id :: uuid
  created_at :: time
  updated_at :: time

subsection \<open>Customers and catalog\<close>

record customer = tenant_scoped_model +
  cust_email :: string
  cust_name :: string
  cust_phone :: string
  cust_type :: customer_type
  cust_tax_id :: string
  cust_company_name :: string
  cust_is_active :: bool

definition is_b2b :: "customer \<Rightarrow> bool" where
  "is_b2b c \<longleftrightarrow> cust_type c = B2B"

record address = tenant_scoped_model +
  addr_customer :: uuid
  addr_label :: address_label
  addr_country :: string
  addr_city :: string
  addr_street :: string
  addr_postal_code :: string
  addr_is_default :: bool

text \<open>\<open>Address.to_snapshot\<close>.\<close>

definition to_snapshot :: "address \<Rightarrow> dict" where
  "to_snapshot a =
     [(''country'', JStr (addr_country a)), (''city'', JStr (addr_city a)),
      (''street'', JStr (addr_street a)), (''postal_code'', JStr (addr_postal_code a))]"

record product = tenant_scoped_model +
  prod_sku :: string
  prod_name :: string
  prod_description :: string
  prod_price :: money
  prod_currency :: string
  prod_stock_quantity :: int
  prod_reserved_quantity :: int
  prod_is_active :: bool
  prod_image_key :: string

definition available_quantity :: "product \<Rightarrow> int" where
  "available_quantity p = prod_stock_quantity p - prod_reserved_quantity p"

subsection \<open>Coupons and carts\<close>

record coupon = tenant_scoped_model +
  coup_code :: string
  coup_discount_type :: discount_type
  coup_discount_value :: int
  coup_currency :: string
  coup_min_cart_subtotal :: "money option"
  coup_allowed_countries :: "string list"
  coup_customer_type_restriction :: customer_type_restriction
  coup_max_uses :: "int option"
  coup_uses_count :: int
  coup_valid_from :: "time option"
  coup_valid_until :: "time option"
  coup_is_active :: bool

record cart = tenant_scoped_model +
  cart_customer :: uuid
  cart_status :: cart_status
  cart_currency :: string
  cart_version :: int
  cart_shipping_address :: "uuid option"
  cart_billing_address :: "uuid option"
  cart_selected_payment_method :: "uuid option"

record cart_item = tenant_scoped_model +
  item_cart :: uuid
  item_product :: uuid
  item_quantity :: int
  item_unit_price_snapshot :: money
  item_currency :: string

definition line_total :: "cart_item \<Rightarrow> money" where
  "line_total i = item_unit_price_snapshot i * item_quantity i"

record applied_coupon = tenant_scoped_model +
  ac_cart :: uuid
  ac_coupon :: uuid
  ac_applied_at :: time

subsection \<open>Orders\<close>

record order = tenant_scoped_model +
  ord_customer :: uuid
  ord_cart :: "uuid option"
  ord_number :: int
  ord_status :: order_status
  ord_subtotal :: money
  ord_discount_total :: money
  ord_grand_total :: money
  ord_currency :: string
  ord_shipping_address :: dict
  ord_billing_address :: dict
  ord_is_b2b :: bool
  ord_tax_id :: string
  ord_payment_terms :: string
  ord_po_number :: string
  ord_payment_due_date :: "int option"
  ord_idempotency_key :: string

record order_item = tenant_scoped_model +
  oi_order :: uuid
  oi_product :: "uuid option"
  oi_product_sku_snapshot :: string
  oi_product_name_snapshot :: string
  oi_quantity :: int
  oi_unit_price :: money
  oi_line_total :: money
  oi_currency :: string

record reservation = tenant_scoped_model +
  res_cart :: uuid
  res_order :: "uuid option"
  res_product :: uuid
  res_quantity :: int
  res_expires_at :: time
  res_status :: reservation_status

record invoice = tenant_scoped_model +
  inv_order :: uuid
  inv_number :: int
  inv_pdf_url :: string
  inv_issued_at :: "time option"

subsection \<open>Payments\<close>

record gateway_config = tenant_scoped_model +
  gc_gateway_name :: string
  gc_credentials :: dict
  gc_is_active :: bool
  gc_is_default :: bool

record payment_method = tenant_scoped_model +
  pm_customer :: uuid
  pm_method_type :: payment_method_type
  pm_gateway_config :: "uuid option"
  pm_token :: string
  pm_brand :: string
  pm_last_four :: string
  pm_po_account_label :: string
  pm_payment_terms :: string
  pm_is_default :: bool

record payment = tenant_scoped_model +
  pay_order :: uuid
  pay_gateway_config :: "uuid option"
  pay_status :: payment_status
  pay_amount :: money
  pay_currency :: string
  pay_gateway_transaction_id :: string
  pay_idempotency_key :: string
  pay_gateway_response :: dict

record processed_webhook_event =
  pwe_gateway_name :: string
  pwe_event_id :: string
  pwe_event_type :: string

subsection \<open>Labels\<close>

text \<open>The \<open>__str__\<close> methods that combine columns.\<close>

definition cart_item_str :: "cart_item \<Rightarrow> string" where
  "cart_item_str i = show_int (item_quantity i) @ '' x '' @ uuid_str (item_product i)"

definition payment_method_str :: "payment_method \<Rightarrow> string" where
  "payment_method_str pm =
     (if pm_method_type pm = PURCHASE_ORDER
      then ''PO: '' @ or_default (pm_po_account_label pm) ''unnamed''
      else pm_brand pm @ '' ****'' @ pm_last_four pm)"

definition safe_id :: "uuid \<Rightarrow> string" where
  "safe_id t = map (\<lambda>c. if c = CHR ''-'' then CHR ''_'' else c) (uuid_str t)"

definition order_sequence_name :: "tenant \<Rightarrow> string" where
  "order_sequence_name t = ''order_number_seq_'' @ safe_id (ten_id t)"

end
