(* ===== verification/Database.thy ===== *)
theory Database
  imports Models
begin

section \<open>The database, transactions and the object-relational layer\<close>

text \<open>
  The state every operation threads: the tables, the per-tenant sequences, the broker queue, the
  context variables and the clock. \<open>atomic\<close> is \<open>transaction.atomic\<close> with nested blocks and
  \<open>on_commit\<close> hooks. The generic operations on tables are the calls of Django's object-relational
  layer that the code makes, scoped by \<open>TenantManager\<close> (\<^verbatim>\<open>apps/core/models\<close>) or unscoped.
  A write is refused with \<open>IntegrityError\<close> when it breaks a constraint of the table's \<open>Meta\<close>.
\<close>

subsection \<open>The state\<close>

record webhook_args =
  wa_tenant :: uuid
  wa_payment :: uuid
  wa_event_type :: string
  wa_new_status :: payment_status
  wa_raw_payload :: dict
  wa_gateway_name :: string
  wa_event_id :: string

datatype task =
    GenerateInvoice uuid uuid
  | ProcessWebhookEvent webhook_args
  | ReconcilePendingPayments int

datatype gateway_call =
    CallAuthorize string string money string string
  | CallCapture string string money string
  | CallRefund string string "money option" string
  | CallRetrieve string string
  | CallTokenize string string

record world =
  db_tenants :: "tenant list"
  db_users :: "user list"
  db_memberships :: "tenant_membership list"
  db_tokens :: "auth_token list"
  db_customers :: "customer list"
  db_addresses :: "address list"
  db_products :: "product list"
  db_coupons :: "coupon list"
  db_carts :: "cart list"
  db_cart_items :: "cart_item list"
  db_applied_coupons :: "applied_coupon list"
  db_payment_methods :: "payment_method list"
  db_gateway_configs :: "gateway_config list"
  db_orders :: "order list"
  db_order_items :: "order_item list"
  db_reservations :: "reservation list"
  db_payments :: "payment list"
  db_invoices :: "invoice list"
  db_webhook_events :: "processed_webhook_event list"
  on_commit_hooks :: "task list" \<comment> \<open>registered with \<open>transaction.on_commit\<close>, not run yet\<close>
  order_seq :: "uuid \<Rightarrow> int option" \<comment> \<open>last number given out; \<open>None\<close>: no such sequence\<close>
  invoice_seq :: "uuid \<Rightarrow> int option"
  task_queue :: "task list" \<comment> \<open>what \<open>delay\<close> handed to the broker\<close>
  gateway_log :: "gateway_call list" \<comment> \<open>calls made to payment gateways\<close>
  stored_objects :: "(string \<times> string) list" \<comment> \<open>object storage: key and content type\<close>
  fresh_id :: nat \<comment> \<open>supply of \<open>uuid4\<close> values\<close>
  clock :: time \<comment> \<open>\<open>timezone.now()\<close>\<close>
  tenant_ctx :: "uuid option" \<comment> \<open>the context variable \<open>_current_tenant\<close>\<close>
  atomic_depth :: nat

type_synonym 'a act = "(world, exn, 'a) prog"

subsection \<open>Transactions\<close>

text \<open>
  On an exception the tables and the hooks registered inside the block are restored. What does not
  belong to the transaction stays: the numbers a sequence gave out (the sequence itself is a table
  object), messages already sent to the broker, calls to gateways and object storage, the context
  variable and the supply of identifiers.
\<close>

definition enter_atomic :: "world \<Rightarrow> world" where
  "enter_atomic w = w\<lparr>atomic_depth := Suc (atomic_depth w)\<rparr>"

definition keep_seq :: "(uuid \<Rightarrow> int option) \<Rightarrow> (uuid \<Rightarrow> int option) \<Rightarrow> uuid \<Rightarrow> int option" where
  "keep_seq s0 s1 t = (case s0 t of None \<Rightarrow> None | Some n \<Rightarrow> (case s1 t of None \<Rightarrow> Some n | Some m \<Rightarrow> Some m))"

definition rollback :: "world \<Rightarrow> world \<Rightarrow> world" where
  "rollback w0 w1 = w0\<lparr>order_seq := keep_seq (order_seq w0) (order_seq w1),
     invoice_seq := keep_seq (invoice_seq w0) (invoice_seq w1), task_queue := task_queue w1,
     gateway_log := gateway_log w1, stored_objects := stored_objects w1, fresh_id := fresh_id w1,
     clock := clock w1, tenant_ctx := tenant_ctx w1\<rparr>"

text \<open>Leaving the outermost block commits and runs the hooks.\<close>

definition commit :: "world \<Rightarrow> world \<Rightarrow> world" where
  "commit w0 w1 =
     (if atomic_depth w0 = 0
      then w1\<lparr>atomic_depth := 0, task_queue := task_queue w1 @ on_commit_hooks w1,
              on_commit_hooks := []\<rparr>
      else w1\<lparr>atomic_depth := atomic_depth w0\<rparr>)"

definition atomic :: "'a act \<Rightarrow> 'a act" where
  "atomic = atomic_with enter_atomic rollback commit"

text \<open>\<open>transaction.on_commit(lambda: task.delay(...))\<close>: outside a block the hook runs at once.\<close>

definition on_commit :: "task \<Rightarrow> unit act" where
  "on_commit tk = modify (\<lambda>w.
     if atomic_depth w = 0 then w\<lparr>task_queue := task_queue w @ [tk]\<rparr>
     else w\<lparr>on_commit_hooks := on_commit_hooks w @ [tk]\<rparr>)"

definition delay :: "task \<Rightarrow> unit act" where
  "delay tk = modify (\<lambda>w. w\<lparr>task_queue := task_queue w @ [tk]\<rparr>)"

definition log_call :: "gateway_call \<Rightarrow> unit act" where
  "log_call c = modify (\<lambda>w. w\<lparr>gateway_log := gateway_log w @ [c]\<rparr>)"

definition new_uuid :: "uuid act" where
  "new_uuid w = (Inr (fresh_id w), w\<lparr>fresh_id := Suc (fresh_id w)\<rparr>)"

definition current_time :: "time act" where
  "current_time = gets clock"

subsection \<open>The tenant context (\<^verbatim>\<open>core/tenant_context.py\<close>)\<close>

definition get_current_tenant_id :: "uuid option act" where
  "get_current_tenant_id = gets tenant_ctx"

text \<open>\<open>set_current_tenant_id\<close> returns the token that \<open>reset_current_tenant_id\<close> takes: the former value.\<close>

definition set_current_tenant_id :: "uuid option \<Rightarrow> uuid option act" where
  "set_current_tenant_id t w = (Inr (tenant_ctx w), w\<lparr>tenant_ctx := t\<rparr>)"

definition reset_current_tenant_id :: "uuid option \<Rightarrow> world \<Rightarrow> world" where
  "reset_current_tenant_id tok w = w\<lparr>tenant_ctx := tok\<rparr>"

text \<open>\<open>with tenant_context(t): m\<close> -- \<open>__exit__\<close> resets the variable on every way out.\<close>

definition tenant_context :: "uuid option \<Rightarrow> 'a act \<Rightarrow> 'a act" where
  "tenant_context t m =
     bindE (set_current_tenant_id t) (\<lambda>tok. finally_do m (reset_current_tenant_id tok))"

subsection \<open>Tables\<close>

record 'r tbl =
  tbl_name :: string
  tbl_rows :: "world \<Rightarrow> 'r list"
  tbl_put :: "'r list \<Rightarrow> world \<Rightarrow> world"
  tbl_ok :: "'r list \<Rightarrow> bool" \<comment> \<open>the constraints of the table\<close>

type_synonym 'a scoped = "'a tenant_scoped_model_scheme"

definition write_rows :: "'r tbl \<Rightarrow> 'r list \<Rightarrow> unit act" where
  "write_rows t rs w =
     (if tbl_ok t rs then (Inr (), tbl_put t rs w) else (Inl (IntegrityError (tbl_name t)), w))"

text \<open>\<open>TenantManager.get_queryset\<close>: no tenant in context, no rows; else the tenant's rows.\<close>

definition in_scope :: "world \<Rightarrow> 'a scoped \<Rightarrow> bool" where
  "in_scope w r \<longleftrightarrow> tenant_ctx w = Some (tenant_id r)"

definition objects :: "'a scoped tbl \<Rightarrow> world \<Rightarrow> 'a scoped list" where
  "objects t w =
     (case tenant_ctx w of
        None \<Rightarrow> []
      | Some tid \<Rightarrow> filter (\<lambda>r. tenant_id r = tid) (tbl_rows t w))"

definition all_objects :: "'r tbl \<Rightarrow> world \<Rightarrow> 'r list" where
  "all_objects t w = tbl_rows t w"

subsection \<open>Queries\<close>

definition filter_rows :: "'a scoped tbl \<Rightarrow> ('a scoped \<Rightarrow> bool) \<Rightarrow> 'a scoped list act" where
  "filter_rows t P = gets (\<lambda>w. filter P (objects t w))"

definition exists_row :: "'a scoped tbl \<Rightarrow> ('a scoped \<Rightarrow> bool) \<Rightarrow> bool act" where
  "exists_row t P = gets (\<lambda>w. exists_where P (objects t w))"

text \<open>\<open>get(...)\<close> with the handler of \<open>DoesNotExist\<close> the code gives.\<close>

definition one_or_raise :: "exn \<Rightarrow> 'r get_result \<Rightarrow> exn + 'r" where
  "one_or_raise e g =
     (case g of NoRow \<Rightarrow> Inl e | OneRow r \<Rightarrow> Inr r | ManyRows \<Rightarrow> Inl MultipleObjectsReturned)"

definition get_row :: "'a scoped tbl \<Rightarrow> ('a scoped \<Rightarrow> bool) \<Rightarrow> exn \<Rightarrow> 'a scoped act" where
  "get_row t P e w = (one_or_raise e (get_where P (objects t w)), w)"

definition get_row_all :: "'r tbl \<Rightarrow> ('r \<Rightarrow> bool) \<Rightarrow> exn \<Rightarrow> 'r act" where
  "get_row_all t P e w = (one_or_raise e (get_where P (tbl_rows t w)), w)"

text \<open>A foreign key is followed through the unscoped base manager.\<close>

definition follow :: "'a scoped tbl \<Rightarrow> uuid \<Rightarrow> 'a scoped act" where
  "follow t i = get_row_all t (\<lambda>r. row_id r = i) (DoesNotExist (tbl_name t))"

definition refresh_from_db :: "'a scoped tbl \<Rightarrow> 'a scoped \<Rightarrow> 'a scoped act" where
  "refresh_from_db t x = follow t (row_id x)"

text \<open>\<open>order_by(key).first()\<close>; an unordered \<open>first()\<close> orders by primary key.\<close>

definition first_by :: "('r \<Rightarrow> int) \<Rightarrow> 'r list \<Rightarrow> 'r option" where
  "first_by k rs = (case rs of [] \<Rightarrow> None | _ \<Rightarrow> Some (arg_min_list k rs))"

definition pk_order :: "'a scoped \<Rightarrow> int" where
  "pk_order r = int (row_id r)"

definition first_row :: "'a scoped tbl \<Rightarrow> ('a scoped \<Rightarrow> bool) \<Rightarrow> 'a scoped option act" where
  "first_row t P = gets (\<lambda>w. first_by pk_order (filter P (objects t w)))"

definition latest_row :: "'a scoped tbl \<Rightarrow> ('a scoped \<Rightarrow> bool) \<Rightarrow> 'a scoped option act" where
  "latest_row t P = gets (\<lambda>w. first_by (\<lambda>r. - created_at r) (filter P (objects t w)))"

subsection \<open>Writes\<close>

text \<open>\<open>filter(...).update(...)\<close>: no row is loaded and \<open>updated_at\<close> is not touched.\<close>

definition update_where :: "'r tbl \<Rightarrow> (world \<Rightarrow> 'r \<Rightarrow> bool) \<Rightarrow> ('r \<Rightarrow> 'r) \<Rightarrow> nat act" where
  "update_where t P f w =
     (case write_rows t (upd_where (P w) f (tbl_rows t w)) w of
        (Inl e, w') \<Rightarrow> (Inl e, w')
      | (Inr _, w') \<Rightarrow> (Inr (length (filter (P w) (tbl_rows t w))), w'))"

definition update_rows :: "'a scoped tbl \<Rightarrow> ('a scoped \<Rightarrow> bool) \<Rightarrow> ('a scoped \<Rightarrow> 'a scoped) \<Rightarrow> nat act" where
  "update_rows t P f = update_where t (\<lambda>w r. in_scope w r \<and> P r) f"

definition update_rows_all :: "'r tbl \<Rightarrow> ('r \<Rightarrow> bool) \<Rightarrow> ('r \<Rightarrow> 'r) \<Rightarrow> nat act" where
  "update_rows_all t P f = update_where t (\<lambda>w. P) f"

text \<open>\<open>filter(...).delete()\<close>, without the cascades, which the callers write out.\<close>

definition delete_where :: "'r tbl \<Rightarrow> (world \<Rightarrow> 'r \<Rightarrow> bool) \<Rightarrow> nat act" where
  "delete_where t P w =
     (Inr (length (filter (P w) (tbl_rows t w))),
      tbl_put t (filter (\<lambda>r. \<not> P w r) (tbl_rows t w)) w)"

definition delete_rows :: "'a scoped tbl \<Rightarrow> ('a scoped \<Rightarrow> bool) \<Rightarrow> nat act" where
  "delete_rows t P = delete_where t (\<lambda>w r. in_scope w r \<and> P r)"

text \<open>
  \<open>instance.save(update_fields=[..., "updated_at"])\<close>: the named columns of the row with the primary
  key of the instance are written, and \<open>updated_at\<close> is the present time. The result is the instance
  as it is in memory afterwards. Saving a row that is gone is an error of the database layer.
\<close>

definition save_fields :: "'a scoped tbl \<Rightarrow> ('a scoped \<Rightarrow> 'a scoped) \<Rightarrow> 'a scoped \<Rightarrow> 'a scoped act" where
  "save_fields t f x =
     bindE (gets clock) (\<lambda>now.
     bindE (update_where t (\<lambda>w r. row_id r = row_id x) (\<lambda>r. (f r)\<lparr>updated_at := now\<rparr>)) (\<lambda>n.
     if n = 0 then throw (DatabaseError ''Save with update_fields did not affect any rows.'')
     else ret ((f x)\<lparr>updated_at := now\<rparr>)))"

text \<open>\<open>instance.save()\<close> without \<open>update_fields\<close>: every column is written from the instance.\<close>

definition save_row :: "'a scoped tbl \<Rightarrow> 'a scoped \<Rightarrow> 'a scoped act" where
  "save_row t x = save_fields t (\<lambda>_. x) x"

text \<open>
  \<open>objects.create(...)\<close>: \<open>TenantScopedModel.save\<close> takes the tenant from the context unless the
  caller gave one, and refuses to save without either; \<open>id\<close>, \<open>created_at\<close> and \<open>updated_at\<close> are set.
\<close>

definition stamp :: "uuid \<Rightarrow> uuid \<Rightarrow> time \<Rightarrow> 'a scoped \<Rightarrow> 'a scoped" where
  "stamp i tid now r = r\<lparr>row_id := i, tenant_id := tid, created_at := now, updated_at := now\<rparr>"

definition insert_row :: "'r tbl \<Rightarrow> 'r \<Rightarrow> 'r act" where
  "insert_row t r w =
     (if tbl_ok t (tbl_rows t w @ [r]) then (Inr r, tbl_put t (tbl_rows t w @ [r]) w)
      else (Inl (IntegrityError (tbl_name t)), w))"

definition create_with_tenant :: "'a scoped tbl \<Rightarrow> uuid \<Rightarrow> 'a scoped \<Rightarrow> 'a scoped act" where
  "create_with_tenant t tid r =
     bindE new_uuid (\<lambda>i. bindE (gets clock) (\<lambda>now. insert_row t (stamp i tid now r)))"

definition create :: "'a scoped tbl \<Rightarrow> 'a scoped \<Rightarrow> 'a scoped act" where
  "create t r =
     bindE get_current_tenant_id (\<lambda>ctx.
       case ctx of
         None \<Rightarrow> throw (RuntimeError (''Cannot save '' @ tbl_name t @ '' without tenant context.''))
       | Some tid \<Rightarrow> create_with_tenant t tid r)"

subsection \<open>The tables and their constraints\<close>

definition pk_ok :: "'a scoped list \<Rightarrow> bool" where
  "pk_ok rs \<longleftrightarrow> distinct (map row_id rs)"

definition tenants_tbl :: "tenant tbl" where
  "tenants_tbl = \<lparr>tbl_name = ''Tenant'', tbl_rows = db_tenants,
     tbl_put = (\<lambda>rs w. w\<lparr>db_tenants := rs\<rparr>),
     tbl_ok = (\<lambda>rs. distinct (map ten_id rs) \<and> distinct (map ten_subdomain rs))\<rparr>"

definition memberships_tbl :: "tenant_membership tbl" where
  "memberships_tbl = \<lparr>tbl_name = ''TenantMembership'', tbl_rows = db_memberships,
     tbl_put = (\<lambda>rs w. w\<lparr>db_memberships := rs\<rparr>),
     tbl_ok = (\<lambda>rs. distinct (map mem_id rs) \<and> distinct (map (\<lambda>r. (mem_user r, mem_tenant r)) rs))\<rparr>"

definition tokens_tbl :: "auth_token tbl" where
  "tokens_tbl = \<lparr>tbl_name = ''Token'', tbl_rows = db_tokens,
     tbl_put = (\<lambda>rs w. w\<lparr>db_tokens := rs\<rparr>),
     tbl_ok = (\<lambda>rs. distinct (map tok_key rs) \<and> distinct (map tok_user rs))\<rparr>"

definition customers_tbl :: "customer tbl" where
  "customers_tbl = \<lparr>tbl_name = ''Customer'', tbl_rows = db_customers,
     tbl_put = (\<lambda>rs w. w\<lparr>db_customers := rs\<rparr>),
     tbl_ok = (\<lambda>rs. pk_ok rs \<and> distinct (map (\<lambda>r. (tenant_id r, cust_email r)) rs))\<rparr>"

definition addresses_tbl :: "address tbl" where
  "addresses_tbl = \<lparr>tbl_name = ''Address'', tbl_rows = db_addresses,
     tbl_put = (\<lambda>rs w. w\<lparr>db_addresses := rs\<rparr>), tbl_ok = pk_ok\<rparr>"

definition product_ok :: "product \<Rightarrow> bool" where
  "product_ok p \<longleftrightarrow> prod_reserved_quantity p \<le> prod_stock_quantity p \<and> 0 \<le> prod_price p"

definition products_tbl :: "product tbl" where
  "products_tbl = \<lparr>tbl_name = ''Product'', tbl_rows = db_products,
     tbl_put = (\<lambda>rs w. w\<lparr>db_products := rs\<rparr>),
     tbl_ok = (\<lambda>rs. pk_ok rs \<and> distinct (map (\<lambda>r. (tenant_id r, prod_sku r)) rs) \<and>
                 list_all product_ok rs)\<rparr>"

definition coupons_tbl :: "coupon tbl" where
  "coupons_tbl = \<lparr>tbl_name = ''Coupon'', tbl_rows = db_coupons,
     tbl_put = (\<lambda>rs w. w\<lparr>db_coupons := rs\<rparr>),
     tbl_ok = (\<lambda>rs. pk_ok rs \<and> distinct (map (\<lambda>r. (tenant_id r, coup_code r)) rs))\<rparr>"

definition is_active_cart :: "cart \<Rightarrow> bool" where
  "is_active_cart c \<longleftrightarrow> cart_status c = CartActive"

definition carts_tbl :: "cart tbl" where
  "carts_tbl = \<lparr>tbl_name = ''Cart'', tbl_rows = db_carts,
     tbl_put = (\<lambda>rs w. w\<lparr>db_carts := rs\<rparr>),
     tbl_ok = (\<lambda>rs. pk_ok rs \<and> distinct (map cart_customer (filter is_active_cart rs)))\<rparr>"

definition cart_items_tbl :: "cart_item tbl" where
  "cart_items_tbl = \<lparr>tbl_name = ''CartItem'', tbl_rows = db_cart_items,
     tbl_put = (\<lambda>rs w. w\<lparr>db_cart_items := rs\<rparr>),
     tbl_ok = (\<lambda>rs. pk_ok rs \<and> distinct (map (\<lambda>r. (item_cart r, item_product r)) rs) \<and>
                 list_all (\<lambda>r. 1 \<le> item_quantity r) rs)\<rparr>"

definition applied_coupons_tbl :: "applied_coupon tbl" where
  "applied_coupons_tbl = \<lparr>tbl_name = ''AppliedCoupon'', tbl_rows = db_applied_coupons,
     tbl_put = (\<lambda>rs w. w\<lparr>db_applied_coupons := rs\<rparr>),
     tbl_ok = (\<lambda>rs. pk_ok rs \<and> distinct (map (\<lambda>r. (ac_cart r, ac_coupon r)) rs))\<rparr>"

definition payment_methods_tbl :: "payment_method tbl" where
  "payment_methods_tbl = \<lparr>tbl_name = ''PaymentMethod'', tbl_rows = db_payment_methods,
     tbl_put = (\<lambda>rs w. w\<lparr>db_payment_methods := rs\<rparr>),
     tbl_ok = (\<lambda>rs. pk_ok rs \<and> distinct (map pm_customer (filter pm_is_default rs)) \<and>
                 list_all (\<lambda>r. (pm_method_type r = CARD) = (pm_gateway_config r \<noteq> None)) rs)\<rparr>"

definition gateway_configs_tbl :: "gateway_config tbl" where
  "gateway_configs_tbl = \<lparr>tbl_name = ''PaymentGatewayConfig'', tbl_rows = db_gateway_configs,
     tbl_put = (\<lambda>rs w. w\<lparr>db_gateway_configs := rs\<rparr>),
     tbl_ok = (\<lambda>rs. pk_ok rs \<and> distinct (map (\<lambda>r. (tenant_id r, gc_gateway_name r)) rs) \<and>
                 distinct (map tenant_id (filter gc_is_default rs)))\<rparr>"

definition orders_tbl :: "order tbl" where
  "orders_tbl = \<lparr>tbl_name = ''Order'', tbl_rows = db_orders,
     tbl_put = (\<lambda>rs w. w\<lparr>db_orders := rs\<rparr>),
     tbl_ok = (\<lambda>rs. pk_ok rs \<and> distinct (map ord_idempotency_key rs) \<and>
                 distinct (map (\<lambda>r. (tenant_id r, ord_number r)) rs))\<rparr>"

definition order_items_tbl :: "order_item tbl" where
  "order_items_tbl = \<lparr>tbl_name = ''OrderItem'', tbl_rows = db_order_items,
     tbl_put = (\<lambda>rs w. w\<lparr>db_order_items := rs\<rparr>), tbl_ok = pk_ok\<rparr>"

definition reservations_tbl :: "reservation tbl" where
  "reservations_tbl = \<lparr>tbl_name = ''InventoryReservation'', tbl_rows = db_reservations,
     tbl_put = (\<lambda>rs w. w\<lparr>db_reservations := rs\<rparr>), tbl_ok = pk_ok\<rparr>"

definition payments_tbl :: "payment tbl" where
  "payments_tbl = \<lparr>tbl_name = ''Payment'', tbl_rows = db_payments,
     tbl_put = (\<lambda>rs w. w\<lparr>db_payments := rs\<rparr>),
     tbl_ok = (\<lambda>rs. pk_ok rs \<and> distinct (map pay_idempotency_key rs))\<rparr>"

definition invoices_tbl :: "invoice tbl" where
  "invoices_tbl = \<lparr>tbl_name = ''Invoice'', tbl_rows = db_invoices,
     tbl_put = (\<lambda>rs w. w\<lparr>db_invoices := rs\<rparr>),
     tbl_ok = (\<lambda>rs. pk_ok rs \<and> distinct (map inv_order rs) \<and>
                 distinct (map (\<lambda>r. (tenant_id r, inv_number r)) rs))\<rparr>"

definition webhook_events_tbl :: "processed_webhook_event tbl" where
  "webhook_events_tbl = \<lparr>tbl_name = ''ProcessedWebhookEvent'', tbl_rows = db_webhook_events,
     tbl_put = (\<lambda>rs w. w\<lparr>db_webhook_events := rs\<rparr>),
     tbl_ok = (\<lambda>rs. distinct (map (\<lambda>r. (pwe_gateway_name r, pwe_event_id r)) rs))\<rparr>"

lemmas tbl_defs =
  tenants_tbl_def memberships_tbl_def tokens_tbl_def customers_tbl_def addresses_tbl_def
  products_tbl_def coupons_tbl_def carts_tbl_def cart_items_tbl_def applied_coupons_tbl_def
  payment_methods_tbl_def gateway_configs_tbl_def orders_tbl_def order_items_tbl_def
  reservations_tbl_def payments_tbl_def invoices_tbl_def webhook_events_tbl_def

lemma distinct_map_filter_filter:
  "distinct (map f (filter Q rs)) \<Longrightarrow> distinct (map f (filter Q (filter P rs)))"
  by (induction rs) auto

lemma list_all_filter: "list_all Q rs \<Longrightarrow> list_all Q (filter P rs)"
  by (induction rs) auto

lemma pk_ok_filter: "pk_ok rs \<Longrightarrow> pk_ok (filter P rs)"
  by (simp add: pk_ok_def distinct_map_filter)

lemmas ok_filter_rules =
  pk_ok_filter distinct_map_filter distinct_map_filter_filter list_all_filter

subsection \<open>Invariants over the generic operations\<close>

text \<open>
  One rule per generic operation: an invariant is preserved if it survives the write of that
  operation. Reads preserve everything. For an invariant that does not look at the table written the
  premise is closed by simplification with \<open>tbl_defs\<close>.
\<close>

lemma preserves_filter_rows [hoare_intros]: "preserves I (filter_rows t P)"
  by (simp add: filter_rows_def preserves_gets)

lemma preserves_exists_row [hoare_intros]: "preserves I (exists_row t P)"
  by (simp add: exists_row_def preserves_gets)

lemma preserves_get_row [hoare_intros]: "preserves I (get_row t P e)"
  by (simp add: get_row_def preserves_def)

lemma preserves_get_row_all [hoare_intros]: "preserves I (get_row_all t P e)"
  by (simp add: get_row_all_def preserves_def)

lemma preserves_follow [hoare_intros]: "preserves I (follow t i)"
  by (simp add: follow_def preserves_get_row_all)

lemma preserves_refresh [hoare_intros]: "preserves I (refresh_from_db t x)"
  by (simp add: refresh_from_db_def preserves_follow)

lemma preserves_first_row [hoare_intros]: "preserves I (first_row t P)"
  by (simp add: first_row_def preserves_gets)

lemma preserves_latest_row [hoare_intros]: "preserves I (latest_row t P)"
  by (simp add: latest_row_def preserves_gets)

lemma preserves_get_tenant [hoare_intros]: "preserves I get_current_tenant_id"
  by (simp add: get_current_tenant_id_def preserves_gets)

lemma preserves_current_time [hoare_intros]: "preserves I current_time"
  by (simp add: current_time_def preserves_gets)

lemma preserves_write_rows:
  "(\<And>w. I w \<Longrightarrow> tbl_ok t rs \<Longrightarrow> I (tbl_put t rs w)) \<Longrightarrow> preserves I (write_rows t rs)"
  by (simp add: write_rows_def preserves_def)

lemma preserves_update_where:
  assumes "\<And>w. I w \<Longrightarrow> tbl_ok t (upd_where (P w) f (tbl_rows t w)) \<Longrightarrow>
     I (tbl_put t (upd_where (P w) f (tbl_rows t w)) w)"
  shows "preserves I (update_where t P f)"
  using assms by (auto simp: preserves_def update_where_def write_rows_def)

lemma preserves_update_rows:
  assumes "\<And>w. I w \<Longrightarrow> tbl_ok t (upd_where (\<lambda>r. in_scope w r \<and> P r) f (tbl_rows t w)) \<Longrightarrow>
     I (tbl_put t (upd_where (\<lambda>r. in_scope w r \<and> P r) f (tbl_rows t w)) w)"
  shows "preserves I (update_rows t P f)"
  unfolding update_rows_def by (rule preserves_update_where) (rule assms)

lemma preserves_update_rows_all:
  assumes "\<And>w. I w \<Longrightarrow> tbl_ok t (upd_where P f (tbl_rows t w)) \<Longrightarrow>
     I (tbl_put t (upd_where P f (tbl_rows t w)) w)"
  shows "preserves I (update_rows_all t P f)"
  unfolding update_rows_all_def by (rule preserves_update_where) (rule assms)

lemma preserves_delete_where:
  assumes "\<And>w. I w \<Longrightarrow> I (tbl_put t (filter (\<lambda>r. \<not> P w r) (tbl_rows t w)) w)"
  shows "preserves I (delete_where t P)"
  using assms by (auto simp: preserves_def delete_where_def)

lemma preserves_delete_rows:
  assumes "\<And>w. I w \<Longrightarrow> I (tbl_put t (filter (\<lambda>r. \<not> (in_scope w r \<and> P r)) (tbl_rows t w)) w)"
  shows "preserves I (delete_rows t P)"
  unfolding delete_rows_def by (rule preserves_delete_where) (rule assms)

lemma preserves_save_fields:
  assumes "\<And>w now. I w \<Longrightarrow>
     tbl_ok t (upd_where (\<lambda>r. row_id r = row_id x) (\<lambda>r. (f r)\<lparr>updated_at := now\<rparr>) (tbl_rows t w)) \<Longrightarrow>
     I (tbl_put t (upd_where (\<lambda>r. row_id r = row_id x) (\<lambda>r. (f r)\<lparr>updated_at := now\<rparr>) (tbl_rows t w)) w)"
  shows "preserves I (save_fields t f x)"
  unfolding save_fields_def
  by (intro hoare_intros preserves_update_where) (rule assms)

lemma preserves_save_row:
  assumes "\<And>w now. I w \<Longrightarrow>
     tbl_ok t (upd_where (\<lambda>r. row_id r = row_id x) (\<lambda>_. x\<lparr>updated_at := now\<rparr>) (tbl_rows t w)) \<Longrightarrow>
     I (tbl_put t (upd_where (\<lambda>r. row_id r = row_id x) (\<lambda>_. x\<lparr>updated_at := now\<rparr>) (tbl_rows t w)) w)"
  shows "preserves I (save_row t x)"
  unfolding save_row_def by (rule preserves_save_fields) (rule assms)

text \<open>What is known of a row that a query returned can be used in what follows the query.\<close>

lemma get_row_Inr:
  assumes "get_row t P e w = (Inr x, w')"
  shows "w' = w" and "x \<in> set (tbl_rows t w)" and "P x" and "in_scope w x"
proof -
  have w: "w' = w" and g: "get_where P (objects t w) = OneRow x"
    using assms by (auto simp: get_row_def one_or_raise_def split: get_result.splits)
  from get_where_OneRowD [OF g] have x: "x \<in> set (objects t w)" and P: "P x" by auto
  show "w' = w" by (rule w)
  show "P x" by (rule P)
  show "x \<in> set (tbl_rows t w)" and "in_scope w x"
    using x by (auto simp: objects_def in_scope_def split: option.splits)
qed

lemma get_row_Inl: "get_row t P e w = (Inl e', w') \<Longrightarrow> w' = w \<and> (e' = e \<or> e' = MultipleObjectsReturned)"
  by (auto simp: get_row_def one_or_raise_def split: get_result.splits)

lemma get_row_all_Inr:
  assumes "get_row_all t P e w = (Inr x, w')"
  shows "w' = w" and "x \<in> set (tbl_rows t w)" and "P x"
proof -
  have w: "w' = w" and g: "get_where P (tbl_rows t w) = OneRow x"
    using assms by (auto simp: get_row_all_def one_or_raise_def split: get_result.splits)
  from get_where_OneRowD [OF g] show "x \<in> set (tbl_rows t w)" and "P x" by auto
  show "w' = w" by (rule w)
qed

lemma get_row_all_Inl:
  "get_row_all t P e w = (Inl e', w') \<Longrightarrow> w' = w \<and> (e' = e \<or> e' = MultipleObjectsReturned)"
  by (auto simp: get_row_all_def one_or_raise_def split: get_result.splits)

lemma valid_get_row:
  "valid I (get_row t P e) (\<lambda>x w. I w \<and> x \<in> set (tbl_rows t w) \<and> P x \<and> in_scope w x) (\<lambda>_. I)"
  by (rule validI) (auto dest: get_row_Inr get_row_Inl)

lemma valid_get_row_all:
  "valid I (get_row_all t P e) (\<lambda>x w. I w \<and> x \<in> set (tbl_rows t w) \<and> P x) (\<lambda>_. I)"
  by (rule validI) (auto dest: get_row_all_Inr get_row_all_Inl)

lemma preserves_bind_get_row:
  assumes "\<And>x w. I w \<Longrightarrow> x \<in> set (tbl_rows t w) \<Longrightarrow> P x \<Longrightarrow> in_scope w x \<Longrightarrow> preserves I (f x)"
  shows "preserves I (bindE (get_row t P e) f)"
proof (rule preservesI)
  fix s r s' assume I: "I s" and eq: "bindE (get_row t P e) f s = (r, s')"
  show "I s'"
  proof (cases "get_row t P e s")
    case (Pair r1 s1)
    show ?thesis
    proof (cases r1)
      case (Inl e1)
      with Pair eq I get_row_Inl [of t P e s e1 s1] show ?thesis by (simp add: bindE_def)
    next
      case (Inr x)
      with Pair have g: "get_row t P e s = (Inr x, s1)" by simp
      note facts = get_row_Inr [OF g]
      from g eq facts(1) have "f x s = (r, s')" by (simp add: bindE_def)
      with assms [OF I facts(2,3,4)] I show ?thesis by (rule preservesD)
    qed
  qed
qed

lemma preserves_new_uuid:
  "(\<And>w. I w \<Longrightarrow> I (w\<lparr>fresh_id := Suc (fresh_id w)\<rparr>)) \<Longrightarrow> preserves I new_uuid"
  by (simp add: preserves_def new_uuid_def)

lemma preserves_insert_row:
  assumes "\<And>w. I w \<Longrightarrow> tbl_ok t (tbl_rows t w @ [r]) \<Longrightarrow> I (tbl_put t (tbl_rows t w @ [r]) w)"
  shows "preserves I (insert_row t r)"
  using assms by (auto simp: preserves_def insert_row_def)

lemma create_with_tenant_simp:
  "create_with_tenant t tid r w =
     insert_row t (stamp (fresh_id w) tid (clock w) r) (w\<lparr>fresh_id := Suc (fresh_id w)\<rparr>)"
  by (simp add: create_with_tenant_def bindE_def new_uuid_def)

lemma create_simp:
  "create t r w =
     (case tenant_ctx w of
        None \<Rightarrow> (Inl (RuntimeError (''Cannot save '' @ tbl_name t @ '' without tenant context.'')), w)
      | Some tid \<Rightarrow>
          insert_row t (stamp (fresh_id w) tid (clock w) r) (w\<lparr>fresh_id := Suc (fresh_id w)\<rparr>))"
  by (simp add: create_def bindE_def get_current_tenant_id_def create_with_tenant_simp split: option.split)

lemma preserves_create:
  assumes "\<And>w tid w'. I w \<Longrightarrow> tenant_ctx w = Some tid \<Longrightarrow> w' = w\<lparr>fresh_id := Suc (fresh_id w)\<rparr> \<Longrightarrow>
     tbl_ok t (tbl_rows t w' @ [stamp (fresh_id w) tid (clock w) r]) \<Longrightarrow>
     I (tbl_put t (tbl_rows t w' @ [stamp (fresh_id w) tid (clock w) r]) w')"
    and "\<And>w. I w \<Longrightarrow> I (w\<lparr>fresh_id := Suc (fresh_id w)\<rparr>)"
  shows "preserves I (create t r)"
  using assms by (auto simp: preserves_def create_simp insert_row_def split: option.split)

lemma preserves_delay:
  "(\<And>w. I w \<Longrightarrow> I (w\<lparr>task_queue := task_queue w @ [tk]\<rparr>)) \<Longrightarrow> preserves I (delay tk)"
  by (simp add: delay_def preserves_modify)

lemma preserves_log_call:
  "(\<And>w. I w \<Longrightarrow> I (w\<lparr>gateway_log := gateway_log w @ [c]\<rparr>)) \<Longrightarrow> preserves I (log_call c)"
  by (simp add: log_call_def preserves_modify)

lemma preserves_on_commit:
  assumes "\<And>w. I w \<Longrightarrow> I (w\<lparr>task_queue := task_queue w @ [tk]\<rparr>)"
    and "\<And>w. I w \<Longrightarrow> I (w\<lparr>on_commit_hooks := on_commit_hooks w @ [tk]\<rparr>)"
  shows "preserves I (on_commit tk)"
  using assms by (auto simp: on_commit_def intro!: preserves_modify)

subsection \<open>Transactions as an interface\<close>

text \<open>
  What the code relies on: seen through the tables, entering a block changes nothing, leaving it by
  an exception restores the tables of the start, leaving it normally keeps those of the end.
\<close>

locale transaction =
  fixes en :: "'s \<Rightarrow> 's" and rb :: "'s \<Rightarrow> 's \<Rightarrow> 's" and cm :: "'s \<Rightarrow> 's \<Rightarrow> 's" and db :: "'s \<Rightarrow> 'd"
  assumes db_enter: "db (en s) = db s"
    and db_rollback: "db (rb s s') = db s"
    and db_commit: "db (cm s s') = db s'"
begin

lemma failed_unchanged:
  assumes "atomic_with en rb cm m s = (Inl e, s')"
  shows "db s' = db s"
  using assms by (auto simp: atomic_with_def db_rollback split: prod.splits sum.splits)

lemma invariant:
  assumes "preserves (\<lambda>s. J (db s)) m"
  shows "preserves (\<lambda>s. J (db s)) (atomic_with en rb cm m)"
  using assms by (rule preserves_atomic_with) (simp_all add: db_enter db_rollback db_commit)

lemma succeeded:
  assumes "atomic_with en rb cm m s = (Inr x, s')"
  obtains s1 where "m (en s) = (Inr x, s1)" and "db s' = db s1"
proof -
  from assms obtain s1 where "m (en s) = (Inr x, s1)" and "s' = cm s s1"
    by (auto simp: atomic_with_def split: prod.splits sum.splits)
  then show ?thesis using that by (simp add: db_commit)
qed

end

text \<open>The tables of a state, with everything a transaction does not cover blanked.\<close>

definition tables :: "world \<Rightarrow> world" where
  "tables w = w\<lparr>on_commit_hooks := [], order_seq := (\<lambda>_. None), invoice_seq := (\<lambda>_. None),
     task_queue := [], gateway_log := [], stored_objects := [], fresh_id := 0, clock := 0,
     tenant_ctx := None, atomic_depth := 0\<rparr>"

interpretation tx: transaction enter_atomic rollback commit tables
  by unfold_locales (simp_all add: enter_atomic_def rollback_def commit_def tables_def)

lemma preserves_atomic:
  assumes "preserves I m" and "\<And>w. I w \<Longrightarrow> I (enter_atomic w)"
    and "\<And>w w'. I w \<Longrightarrow> I w' \<Longrightarrow> I (rollback w w')" and "\<And>w w'. I w \<Longrightarrow> I w' \<Longrightarrow> I (commit w w')"
  shows "preserves I (atomic m)"
  unfolding atomic_def using assms by (rule preserves_atomic_with)

lemma atomic_failed_tables: "atomic m w = (Inl e, w') \<Longrightarrow> tables w' = tables w"
  unfolding atomic_def by (rule tx.failed_unchanged)

subsection \<open>Tables as an interface\<close>

text \<open>
  A table reads back what was put, is a part of the state of its own, and a constraint that holds of
  some rows holds of fewer.
\<close>

locale table_lens =
  fixes t :: "'r tbl"
  assumes rows_put [simp]: "tbl_rows t (tbl_put t rs w) = rs"
    and put_rows: "tbl_put t (tbl_rows t w) w = w"
    and put_put: "tbl_put t rs (tbl_put t rs' w) = tbl_put t rs w"
    and ctx_put [simp]: "tenant_ctx (tbl_put t rs w) = tenant_ctx w"
    and clock_put [simp]: "clock (tbl_put t rs w) = clock w"
    and rows_fresh [simp]: "tbl_rows t (w\<lparr>fresh_id := n\<rparr>) = tbl_rows t w"
    and ok_filter: "tbl_ok t rs \<Longrightarrow> tbl_ok t (filter P rs)"
begin

abbreviation constraints :: "world \<Rightarrow> bool" where
  "constraints w \<equiv> tbl_ok t (tbl_rows t w)"

text \<open>Every generic write keeps the constraints of its table.\<close>

lemma update_constraints: "preserves constraints (update_where t P f)"
  by (rule preserves_update_where) simp

lemma delete_constraints: "preserves constraints (delete_where t P)"
  by (rule preserves_delete_where) (simp add: ok_filter)

lemma insert_constraints: "preserves constraints (insert_row t r)"
  by (rule preserves_insert_row) simp

lemma write_constraints: "preserves constraints (write_rows t rs)"
  by (rule preserves_write_rows) simp

lemma update_where_Inr:
  assumes "update_where t P f w = (Inr n, w')"
  shows "w' = tbl_put t (upd_where (P w) f (tbl_rows t w)) w"
    and "n = length (filter (P w) (tbl_rows t w))" and "constraints w'"
  using assms by (auto simp: update_where_def write_rows_def split: if_splits)

lemma update_where_Inl:
  assumes "update_where t P f w = (Inl e, w')"
  shows "w' = w" and "e = IntegrityError (tbl_name t)"
  using assms by (auto simp: update_where_def write_rows_def split: if_splits)

lemma insert_row_Inr:
  assumes "insert_row t r w = (Inr x, w')"
  shows "x = r" and "w' = tbl_put t (tbl_rows t w @ [r]) w" and "tbl_rows t w' = tbl_rows t w @ [r]"
  using assms by (auto simp: insert_row_def split: if_splits)

lemma update_where_no_match:
  assumes "constraints w" and "\<And>r. r \<in> set (tbl_rows t w) \<Longrightarrow> \<not> P w r"
  shows "update_where t P f w = (Inr 0, w)"
proof -
  have "upd_where (P w) f (tbl_rows t w) = tbl_rows t w"
    using assms(2) by (rule upd_where_none)
  moreover have "filter (P w) (tbl_rows t w) = []"
    using assms(2) by (simp add: filter_empty_conv)
  ultimately show ?thesis
    using assms(1) by (simp add: update_where_def write_rows_def put_rows)
qed

end

text \<open>
  The table of a tenant-scoped model. \<open>foreign tid\<close> is what belongs to the other tenants: no operation
  through the scoped manager changes it, and without a tenant in context none sees or changes a row.
\<close>

locale scoped_table = table_lens t
  for t :: "'a tenant_scoped_model_scheme tbl" +
  assumes ok_pk: "tbl_ok t rs \<Longrightarrow> distinct (map row_id rs)"
begin

definition foreign :: "uuid \<Rightarrow> world \<Rightarrow> 'a tenant_scoped_model_scheme list" where
  "foreign tid w = filter (\<lambda>r. tenant_id r \<noteq> tid) (tbl_rows t w)"

lemma objects_fail_closed: "tenant_ctx w = None \<Longrightarrow> objects t w = []"
  by (simp add: objects_def)

lemma objects_in_scope: "objects t w = filter (in_scope w) (tbl_rows t w)"
proof (cases "tenant_ctx w")
  case None
  then show ?thesis by (simp add: objects_def in_scope_def)
next
  case (Some tid)
  then have "in_scope w = (\<lambda>r :: 'a scoped. tenant_id r = tid)"
    by (auto simp: in_scope_def fun_eq_iff)
  with Some show ?thesis by (simp add: objects_def)
qed

lemma objects_of_tenant: "r \<in> set (objects t w) \<Longrightarrow> tenant_ctx w = Some (tenant_id r)"
  by (auto simp: objects_in_scope in_scope_def)

lemma update_rows_foreign:
  assumes "tenant_ctx w = Some tid" and "\<And>r. tenant_id (f r) = tenant_id r"
  shows "foreign tid (snd (update_rows t P f w)) = foreign tid w"
proof -
  have "filter (\<lambda>r. tenant_id r \<noteq> tid) (upd_where (\<lambda>r. in_scope w r \<and> P r) f rs)
      = filter (\<lambda>r. tenant_id r \<noteq> tid) rs" for rs :: "'a scoped list"
    using assms by (intro filter_upd_where_disjoint) (auto simp: in_scope_def)
  then show ?thesis
    by (simp add: update_rows_def update_where_def write_rows_def foreign_def)
qed

lemma delete_rows_foreign:
  assumes "tenant_ctx w = Some tid"
  shows "foreign tid (snd (delete_rows t P w)) = foreign tid w"
proof -
  have "filter (\<lambda>r. tenant_id r \<noteq> tid) (filter (\<lambda>r. \<not> (in_scope w r \<and> P r)) rs)
      = filter (\<lambda>r. tenant_id r \<noteq> tid) rs" for rs :: "'a scoped list"
    using assms unfolding filter_filter by (intro filter_cong) (auto simp: in_scope_def)
  then show ?thesis by (simp add: delete_rows_def delete_where_def foreign_def del: filter_filter)
qed

lemma create_foreign:
  assumes "tenant_ctx w = Some tid"
  shows "foreign tid (snd (create t r w)) = foreign tid w"
  using assms by (simp add: create_simp insert_row_def foreign_def stamp_def)

lemma create_fail_closed:
  assumes "tenant_ctx w = None"
  shows "\<exists>m. create t r w = (Inl (RuntimeError m), w)"
  using assms by (auto simp: create_simp)

lemma update_rows_fail_closed:
  assumes "tenant_ctx w = None" and "constraints w"
  shows "update_rows t P f w = (Inr 0, w)"
  unfolding update_rows_def using assms by (intro update_where_no_match) (simp_all add: in_scope_def)

text \<open>A row is found under its primary key, and what was created is found afterwards.\<close>

lemma get_by_pk:
  assumes "constraints w" and "r \<in> set (tbl_rows t w)"
  shows "get_where (\<lambda>x. row_id x = row_id r) (tbl_rows t w) = OneRow r"
  using assms by (intro get_where_key ok_pk)

lemma follow_Inr:
  assumes "constraints w" and "r \<in> set (tbl_rows t w)"
  shows "follow t (row_id r) w = (Inr r, w)"
  by (simp add: follow_def get_row_all_def get_by_pk [OF assms] one_or_raise_def)

lemma get_created:
  assumes "create t r w = (Inr x, w')" and "tenant_ctx w = Some tid"
  shows "get_row t (\<lambda>y. row_id y = row_id x) e w' = (Inr x, w')"
    and "x = stamp (fresh_id w) tid (clock w) r"
proof -
  let ?x = "stamp (fresh_id w) tid (clock w) r"
  have ok: "tbl_ok t (tbl_rows t w @ [?x])" and x: "x = ?x"
    and w': "w' = tbl_put t (tbl_rows t w @ [?x]) (w\<lparr>fresh_id := Suc (fresh_id w)\<rparr>)"
    using assms by (auto simp: create_simp insert_row_def split: if_splits)
  have "distinct (map row_id (filter (in_scope w') (tbl_rows t w @ [?x])))"
    using ok_filter [OF ok] by (rule ok_pk)
  moreover have "?x \<in> set (filter (in_scope w') (tbl_rows t w @ [?x]))"
    using assms(2) w' by (simp add: in_scope_def stamp_def)
  ultimately have "get_where (\<lambda>y. row_id y = row_id ?x) (objects t w') = OneRow ?x"
    unfolding objects_in_scope using w' by (intro get_where_key) simp_all
  then show "get_row t (\<lambda>y. row_id y = row_id x) e w' = (Inr x, w')"
    by (simp add: get_row_def one_or_raise_def x)
  show "x = ?x" by (rule x)
qed

end

lemmas table_laws = tbl_defs pk_ok_def distinct_map_filter distinct_map_filter_filter list_all_filter

interpretation tenants: table_lens tenants_tbl
  by unfold_locales (auto simp: table_laws)
interpretation memberships: table_lens memberships_tbl
  by unfold_locales (auto simp: table_laws)
interpretation tokens: table_lens tokens_tbl
  by unfold_locales (auto simp: table_laws)
interpretation webhook_events: table_lens webhook_events_tbl
  by unfold_locales (auto simp: table_laws)
interpretation customers: scoped_table customers_tbl
  by unfold_locales (auto simp: table_laws)
interpretation addresses: scoped_table addresses_tbl
  by unfold_locales (auto simp: table_laws)
interpretation products: scoped_table products_tbl
  by unfold_locales (auto simp: table_laws)
interpretation coupons: scoped_table coupons_tbl
  by unfold_locales (auto simp: table_laws)
interpretation carts: scoped_table carts_tbl
  by unfold_locales (auto simp: table_laws simp del: filter_filter)
interpretation cart_items: scoped_table cart_items_tbl
  by unfold_locales (auto simp: table_laws)
interpretation applied_coupons: scoped_table applied_coupons_tbl
  by unfold_locales (auto simp: table_laws)
interpretation payment_methods: scoped_table payment_methods_tbl
  by unfold_locales (auto simp: table_laws simp del: filter_filter)
interpretation gateway_configs: scoped_table gateway_configs_tbl
  by unfold_locales (auto simp: table_laws simp del: filter_filter)
interpretation orders: scoped_table orders_tbl
  by unfold_locales (auto simp: table_laws)
interpretation order_items: scoped_table order_items_tbl
  by unfold_locales (auto simp: table_laws)
interpretation reservations: scoped_table reservations_tbl
  by unfold_locales (auto simp: table_laws)
interpretation payments: scoped_table payments_tbl
  by unfold_locales (auto simp: table_laws)
interpretation invoices: scoped_table invoices_tbl
  by unfold_locales (auto simp: table_laws)

end
