(* ===== verification/Coupons.thy ===== *)
theory Coupons
  imports Database
begin

section \<open>Coupons\<close>

text \<open>
  \<^verbatim>\<open>apps/coupons\<close>: the checks of a coupon against a cart (\<open>validate\<close>), the discount it gives
  (\<open>compute_discount\<close>), the writable serializers of the admin interface and the admin views. The
  lemmas say which coupons pass, and that a discount lies between zero and the subtotal and is the
  percentage rounded half to even.
\<close>

subsection \<open>Dates\<close>

text \<open>\<open>datetime.date()\<close> of a time in UTC and its ISO text; the day count starts in 1970.\<close>

definition day_us :: int where
  "day_us = 86400000000"

definition day_of :: "time \<Rightarrow> int" where
  "day_of t = t div day_us"

definition civil_of_day :: "int \<Rightarrow> int \<times> int \<times> int" where
  "civil_of_day d =
     (let z = d + 719468; era = z div 146097; doe = z mod 146097;
          yoe = (doe - doe div 1460 + doe div 36524 - doe div 146096) div 365;
          doy = doe - (365 * yoe + yoe div 4 - yoe div 100);
          mp = (5 * doy + 2) div 153;
          dd = doy - (153 * mp + 2) div 5 + 1;
          mm = (if mp < 10 then mp + 3 else mp - 9);
          yy = yoe + era * 400 + (if mm \<le> 2 then 1 else 0)
      in (yy, mm, dd))"

definition pad2 :: "int \<Rightarrow> string" where
  "pad2 n = (if n < 10 then ''0'' else '''') @ show_int n"

definition date_str :: "int \<Rightarrow> string" where
  "date_str d = (case civil_of_day d of (y, m, dd) \<Rightarrow> show_int y @ ''-'' @ pad2 m @ ''-'' @ pad2 dd)"

subsection \<open>Validation against a cart\<close>

definition discount_type_value :: "discount_type \<Rightarrow> string" where
  "discount_type_value d = (case d of PERCENTAGE \<Rightarrow> ''percentage'' | FIXED \<Rightarrow> ''fixed'')"

text \<open>
  \<open>validate\<close>, with the time of the call. \<open>shipping_country\<close> is \<open>None\<close> when the cart has no shipping
  address; an empty string is false as well. \<open>customer_type\<close> is compared by value.
\<close>

definition validate ::
  "coupon \<Rightarrow> time \<Rightarrow> money \<Rightarrow> string \<Rightarrow> string option \<Rightarrow> customer_type option \<Rightarrow> exn + unit" where
  "validate c now subtotal currency country ctype =
     (if \<not> coup_is_active c then Inl (CouponInvalid ''Coupon is not active'')
      else if (case coup_valid_from c of None \<Rightarrow> False | Some t \<Rightarrow> now < t)
        then Inl (CouponInvalid ''Coupon is not yet valid'')
      else if (case coup_valid_until c of None \<Rightarrow> False | Some t \<Rightarrow> t < now)
        then Inl (CouponExpired (''Coupon expired on '' @ date_str (day_of (the (coup_valid_until c)))))
      else if (case coup_max_uses c of None \<Rightarrow> False | Some m \<Rightarrow> m \<le> coup_uses_count c)
        then Inl (CouponExhausted ''This coupon has reached its usage limit'')
      else if coup_discount_type c = FIXED \<and> coup_currency c \<noteq> currency
        then Inl (CouponInvalid (''Coupon currency '' @ coup_currency c @
                  '' does not match cart currency '' @ currency))
      else if (case coup_min_cart_subtotal c of None \<Rightarrow> False | Some m \<Rightarrow> subtotal < m)
        then Inl (CouponMinNotMet (the (coup_min_cart_subtotal c)) subtotal)
      else if coup_allowed_countries c \<noteq> [] \<and>
              (case country of None \<Rightarrow> True
               | Some s \<Rightarrow> s = [] \<or> upper s \<notin> set (map upper (coup_allowed_countries c)))
        then Inl (CouponCountryRestricted ''This coupon is not valid for the shipping country'')
      else if coup_customer_type_restriction c \<noteq> ANY \<and>
              map_option customer_type_value ctype \<noteq>
                Some (restriction_value (coup_customer_type_restriction c))
        then Inl (CouponInvalid (''This coupon requires customer type '' @
                  restriction_value (coup_customer_type_restriction c)))
      else Inr ())"

text \<open>
  \<open>compute_discount\<close>. The subtotal is in cents; \<open>subtotal * discount_value / 100\<close> is exact in units
  of \<open>10 ^ -6\<close>, where \<open>min\<close> is taken before \<open>quantize\<close>.
\<close>

definition compute_discount :: "coupon \<Rightarrow> money \<Rightarrow> money" where
  "compute_discount c subtotal =
     (let raw = (if coup_discount_type c = PERCENTAGE then subtotal * coup_discount_value c
                 else 10000 * coup_discount_value c)
      in quantize_cents (min raw (10000 * subtotal)))"

subsection \<open>The admin serializers\<close>

definition msg :: "string \<Rightarrow> exn" where
  "msg s = ValidationError (JList [JStr s])"

definition field_error :: "string \<Rightarrow> string \<Rightarrow> exn" where
  "field_error f s = ValidationError (JObj [(f, JList [JStr s])])"

text \<open>\<open>re.match\<close> with a pattern ending in \<open>$\<close> also accepts one newline at the end of the text.\<close>

definition drop_final_newline :: "string \<Rightarrow> string" where
  "drop_final_newline s = (if s \<noteq> [] \<and> last s = CHR 0x0A then butlast s else s)"

definition country_re :: "string \<Rightarrow> bool" where
  "country_re s \<longleftrightarrow> (let t = drop_final_newline s in length t = 2 \<and> list_all is_upper t)"

definition code_re :: "string \<Rightarrow> bool" where
  "code_re s \<longleftrightarrow>
     (let t = drop_final_newline s in
      1 \<le> length t \<and> length t \<le> 64 \<and> (is_upper (hd t) \<or> is_digit (hd t)) \<and>
      list_all (\<lambda>c. is_upper c \<or> is_digit c \<or> c = CHR ''_'' \<or> c = CHR ''-'') t)"

text \<open>\<open>repr\<close> of a JSON value in a message (a string without quotes or escapes in it).\<close>

definition py_repr :: "json \<Rightarrow> string" where
  "py_repr j = (case j of JStr s \<Rightarrow> [CHR 0x27] @ s @ [CHR 0x27] | _ \<Rightarrow> py_str j)"

definition country_item_ok :: "json \<Rightarrow> bool" where
  "country_item_ok j = (case j of JStr s \<Rightarrow> country_re s | _ \<Rightarrow> False)"

fun check_countries :: "nat \<Rightarrow> json list \<Rightarrow> exn + string list" where
  "check_countries i [] = Inr []"
| "check_countries i (x # xs) =
     (if country_item_ok x
      then (case check_countries (Suc i) xs of Inl e \<Rightarrow> Inl e | Inr ys \<Rightarrow> Inr (py_str x # ys))
      else Inl (msg (''Item '' @ show_nat i @ '' ('' @ py_repr x @
             '') is not a valid ISO 3166-1 alpha-2 code (two uppercase letters, e.g. SA, AE).'')))"

definition validate_country_list :: "json \<Rightarrow> exn + string list" where
  "validate_country_list v =
     (case v of JList xs \<Rightarrow> check_countries 0 xs
      | _ \<Rightarrow> Inl (msg ''Must be a list of ISO 3166-1 alpha-2 codes.''))"

definition normalize_and_validate_code :: "json \<Rightarrow> exn + string" where
  "normalize_and_validate_code v =
     (case v of
        JStr s \<Rightarrow>
          (let n = upper (strip s) in
           if code_re n then Inr n
           else Inl (msg (''Code must be 1-64 chars, alphanumerics + dash/underscore, '' @
                          ''starting with a letter or digit.'')))
      | _ \<Rightarrow> Inl (msg ''Code must be a string.''))"

definition validate_cross_fields :: "discount_type option \<Rightarrow> int option \<Rightarrow> string \<Rightarrow> exn + unit" where
  "validate_cross_fields dt v currency =
     (if dt = Some FIXED \<and> currency = []
      then Inl (field_error ''currency'' ''Currency is required for fixed-amount coupons.'')
      else if dt = Some PERCENTAGE \<and> (case v of None \<Rightarrow> False | Some x \<Rightarrow> 10000 < x)
      then Inl (field_error ''discount_value'' ''Percentage discount cannot exceed 100.'')
      else Inr ())"

text \<open>
  The parsed fields of a request body; \<open>None\<close> is an absent field. The two fields the serializers
  declare are checked by \<open>currency_field\<close> and \<open>discount_value_field\<close>.
\<close>

record coupon_input =
  ci_code :: json
  ci_discount_type :: "discount_type option"
  ci_discount_value :: "int option"
  ci_currency :: "string option"
  ci_min_cart_subtotal :: "money option option"
  ci_allowed_countries :: "json option"
  ci_customer_type_restriction :: "customer_type_restriction option"
  ci_max_uses :: "int option option"
  ci_uses_count :: "int option"
  ci_valid_from :: "time option option"
  ci_valid_until :: "time option option"
  ci_is_active :: "bool option"

definition opt_or :: "'a option \<Rightarrow> 'a \<Rightarrow> 'a" where
  "opt_or x d = (case x of None \<Rightarrow> d | Some v \<Rightarrow> v)"

definition currency_re :: "string \<Rightarrow> bool" where
  "currency_re s \<longleftrightarrow> length s = 3 \<and> list_all is_upper s"

definition currency_field :: "string option \<Rightarrow> (string \<times> json) list" where
  "currency_field v =
     (case v of None \<Rightarrow> [] | Some s \<Rightarrow>
        if s = [] \<or> currency_re s then []
        else [(''currency'', JList [JStr (''Currency must be a three-letter uppercase ISO 4217 code '' @
                                         ''(e.g. SAR, USD).'')])])"

definition discount_value_field :: "int option \<Rightarrow> (string \<times> json) list" where
  "discount_value_field v =
     (case v of None \<Rightarrow> [] | Some x \<Rightarrow>
        if 1 \<le> x then []
        else [(''discount_value'', JList [JStr ''Ensure this value is greater than or equal to 0.01.''])])"

definition error_entry :: "string \<Rightarrow> exn + 'a \<Rightarrow> (string \<times> json) list" where
  "error_entry f r = (case r of Inl (ValidationError j) \<Rightarrow> [(f, j)] | _ \<Rightarrow> [])"

definition countries_field :: "json option \<Rightarrow> exn + string list option" where
  "countries_field v =
     (case v of None \<Rightarrow> Inr None
      | Some j \<Rightarrow> (case validate_country_list j of Inl e \<Rightarrow> Inl e | Inr cs \<Rightarrow> Inr (Some cs)))"

definition sum_val :: "'a \<Rightarrow> 'e + 'a \<Rightarrow> 'a" where
  "sum_val d r = (case r of Inl _ \<Rightarrow> d | Inr x \<Rightarrow> x)"

definition required_field :: "string \<Rightarrow> 'a option \<Rightarrow> (string \<times> json) list" where
  "required_field f v = (if v = None then [(f, JList [JStr ''This field is required.''])] else [])"

text \<open>\<open>validate_code\<close> of the create serializer: the tenant-scoped pre-check of uniqueness.\<close>

definition validate_code :: "json \<Rightarrow> string act" where
  "validate_code v =
     bindE (lift_sum (normalize_and_validate_code v)) (\<lambda>n.
     bindE (exists_row coupons_tbl (\<lambda>c. coup_code c = n)) (\<lambda>ex.
     if ex then throw (msg (''Coupon code '' @ py_repr (JStr n) @ '' already exists.'')) else ret n))"

definition attempt :: "'a act \<Rightarrow> (exn + 'a) act" where
  "attempt m w = (case m w of (r, w') \<Rightarrow> (Inr r, w'))"

text \<open>The row a create request makes, with the defaults of the model for absent fields.\<close>

definition coupon_of_input :: "string \<Rightarrow> string list option \<Rightarrow> coupon_input \<Rightarrow> coupon" where
  "coupon_of_input code countries ci =
     \<lparr>row_id = 0, tenant_id = 0, created_at = 0, updated_at = 0, coup_code = code,
      coup_discount_type = opt_or (ci_discount_type ci) PERCENTAGE,
      coup_discount_value = opt_or (ci_discount_value ci) 0,
      coup_currency = opt_or (ci_currency ci) '''',
      coup_min_cart_subtotal = opt_or (ci_min_cart_subtotal ci) None,
      coup_allowed_countries = opt_or countries [],
      coup_customer_type_restriction = opt_or (ci_customer_type_restriction ci) ANY,
      coup_max_uses = opt_or (ci_max_uses ci) None,
      coup_uses_count = opt_or (ci_uses_count ci) 0,
      coup_valid_from = opt_or (ci_valid_from ci) None,
      coup_valid_until = opt_or (ci_valid_until ci) None,
      coup_is_active = opt_or (ci_is_active ci) True\<rparr>"

text \<open>
  \<open>AdminCouponListCreateView.post\<close>: the errors of the fields are collected and raised together,
  then \<open>validate\<close> runs over the fields, then the row is created.
\<close>

definition create_coupon :: "coupon_input \<Rightarrow> coupon act" where
  "create_coupon ci =
     bindE (attempt (validate_code (ci_code ci))) (\<lambda>code.
     let countries = countries_field (ci_allowed_countries ci);
         errs = error_entry ''code'' code
           @ required_field ''discount_type'' (ci_discount_type ci)
           @ required_field ''discount_value'' (ci_discount_value ci)
           @ discount_value_field (ci_discount_value ci)
           @ currency_field (ci_currency ci)
           @ error_entry ''allowed_countries'' countries
     in if errs \<noteq> [] then throw (ValidationError (JObj errs))
        else bindE (lift_sum (validate_cross_fields (ci_discount_type ci) (ci_discount_value ci)
                     (opt_or (ci_currency ci) ''''))) (\<lambda>_.
             create coupons_tbl (coupon_of_input (sum_val '''' code) (sum_val None countries) ci)))"

definition list_coupons :: "coupon list act" where
  "list_coupons = gets (\<lambda>w. objects coupons_tbl w)"

definition get_coupon :: "uuid \<Rightarrow> coupon act" where
  "get_coupon i = get_row coupons_tbl (\<lambda>c. row_id c = i) (CouponNotFound ''Coupon not found'')"

text \<open>\<open>s.save()\<close> of the update serializer: the given fields replace those of the row.\<close>

definition apply_coupon_input :: "string list option \<Rightarrow> coupon_input \<Rightarrow> coupon \<Rightarrow> coupon" where
  "apply_coupon_input countries ci c =
     c\<lparr>coup_discount_type := opt_or (ci_discount_type ci) (coup_discount_type c),
       coup_discount_value := opt_or (ci_discount_value ci) (coup_discount_value c),
       coup_currency := opt_or (ci_currency ci) (coup_currency c),
       coup_min_cart_subtotal := opt_or (ci_min_cart_subtotal ci) (coup_min_cart_subtotal c),
       coup_allowed_countries := opt_or countries (coup_allowed_countries c),
       coup_customer_type_restriction :=
         opt_or (ci_customer_type_restriction ci) (coup_customer_type_restriction c),
       coup_max_uses := opt_or (ci_max_uses ci) (coup_max_uses c),
       coup_uses_count := opt_or (ci_uses_count ci) (coup_uses_count c),
       coup_valid_from := opt_or (ci_valid_from ci) (coup_valid_from c),
       coup_valid_until := opt_or (ci_valid_until ci) (coup_valid_until c),
       coup_is_active := opt_or (ci_is_active ci) (coup_is_active c)\<rparr>"

definition update_coupon_fields :: "coupon \<Rightarrow> coupon_input \<Rightarrow> exn + string list option" where
  "update_coupon_fields c ci =
     (let countries = countries_field (ci_allowed_countries ci);
          errs = discount_value_field (ci_discount_value ci) @ currency_field (ci_currency ci)
            @ error_entry ''allowed_countries'' countries
      in if errs \<noteq> [] then Inl (ValidationError (JObj errs))
         else case validate_cross_fields
                     (Some (opt_or (ci_discount_type ci) (coup_discount_type c)))
                     (Some (opt_or (ci_discount_value ci) (coup_discount_value c)))
                     (opt_or (ci_currency ci) (coup_currency c)) of
                Inl e \<Rightarrow> Inl e
              | Inr _ \<Rightarrow> countries)"

definition in_live_cart :: "world \<Rightarrow> applied_coupon \<Rightarrow> bool" where
  "in_live_cart w a \<longleftrightarrow>
     list_ex (\<lambda>c. row_id c = ac_cart a \<and> cart_status c \<in> {CartActive, CartCheckingOut}) (db_carts w)"

definition coupon_in_use :: "uuid \<Rightarrow> bool act" where
  "coupon_in_use i =
     gets (\<lambda>w. exists_where (\<lambda>a. ac_coupon a = i \<and> in_live_cart w a) (objects applied_coupons_tbl w))"

text \<open>
  \<open>AdminCouponDetailView.patch\<close>: the checks that need the locked row, then the whole handler.
\<close>

definition patch_coupon_guards :: "coupon \<Rightarrow> coupon_input \<Rightarrow> unit act" where
  "patch_coupon_guards c ci =
     bindE current_time (\<lambda>now.
     let new_max = opt_or (ci_max_uses ci) (coup_max_uses c);
         currency_changing = (ci_currency ci \<noteq> None \<and> ci_currency ci \<noteq> Some (coup_currency c));
         type_changing = (ci_discount_type ci \<noteq> None \<and>
                          ci_discount_type ci \<noteq> Some (coup_discount_type c));
         field = (if currency_changing then ''currency'' else ''discount_type'')
     in
     seqE (case new_max of None \<Rightarrow> ret () | Some m \<Rightarrow>
             guard_that (coup_uses_count c \<le> m)
               (ValidationError (JObj [(''max_uses'', JStr (''Cannot set max_uses ('' @ show_int m @
                  '') below the current uses_count ('' @ show_int (coup_uses_count c) @ '').''))])))
     (seqE (case opt_or (ci_valid_until ci) None of None \<Rightarrow> ret () | Some u \<Rightarrow>
             guard_that (now \<le> u)
               (ValidationError (JObj [(''valid_until'', JStr (''Cannot set valid_until to a past timestamp. '' @
                  ''To stop new applications immediately, set is_active=false.''))])))
     (if currency_changing \<or> type_changing
      then bindE (coupon_in_use (row_id c)) (\<lambda>in_use.
             guard_that (\<not> in_use)
               (ValidationError (JObj [(field, JStr (''Cannot change '' @ field @
                  '' while the coupon is applied to any active or in-flight cart.''))])))
      else ret ())))"

definition patch_coupon :: "uuid \<Rightarrow> coupon_input \<Rightarrow> coupon act" where
  "patch_coupon i ci = atomic
     (bindE (get_coupon i) (\<lambda>c.
      bindE (lift_sum (update_coupon_fields c ci)) (\<lambda>countries.
      seqE (patch_coupon_guards c ci)
      (save_row coupons_tbl (apply_coupon_input countries ci c)))))"

text \<open>\<open>AdminCouponDetailView.delete\<close>: a soft delete.\<close>

definition delete_coupon :: "uuid \<Rightarrow> unit act" where
  "delete_coupon i =
     bindE (get_coupon i) (\<lambda>c.
     if coup_is_active c
     then bindE (save_fields coupons_tbl (\<lambda>r. r\<lparr>coup_is_active := False\<rparr>) c) (\<lambda>_. ret ())
     else ret ())"

subsection \<open>Lemmas\<close>

text \<open>The conditions under which a coupon passes, in one place.\<close>

definition coupon_applicable ::
  "coupon \<Rightarrow> time \<Rightarrow> money \<Rightarrow> string \<Rightarrow> string option \<Rightarrow> customer_type option \<Rightarrow> bool" where
  "coupon_applicable c now subtotal currency country ctype \<longleftrightarrow>
     coup_is_active c \<and>
     (\<forall>t. coup_valid_from c = Some t \<longrightarrow> t \<le> now) \<and>
     (\<forall>t. coup_valid_until c = Some t \<longrightarrow> now \<le> t) \<and>
     (\<forall>m. coup_max_uses c = Some m \<longrightarrow> coup_uses_count c < m) \<and>
     (coup_discount_type c = FIXED \<longrightarrow> coup_currency c = currency) \<and>
     (\<forall>m. coup_min_cart_subtotal c = Some m \<longrightarrow> m \<le> subtotal) \<and>
     (coup_allowed_countries c \<noteq> [] \<longrightarrow>
        (\<exists>s. country = Some s \<and> s \<noteq> [] \<and> upper s \<in> upper ` set (coup_allowed_countries c))) \<and>
     (coup_customer_type_restriction c = B2C_ONLY \<longrightarrow> ctype = Some B2C) \<and>
     (coup_customer_type_restriction c = B2B_ONLY \<longrightarrow> ctype = Some B2B)"

lemma customer_type_value_inj: "customer_type_value a = customer_type_value b \<longleftrightarrow> a = b"
  by (cases a; cases b) simp_all

lemma restriction_check:
  "(r \<noteq> ANY \<and> map_option customer_type_value ctype \<noteq> Some (restriction_value r)) \<longleftrightarrow>
   \<not> ((r = B2C_ONLY \<longrightarrow> ctype = Some B2C) \<and> (r = B2B_ONLY \<longrightarrow> ctype = Some B2B))"
proof (cases ctype)
  case None
  then show ?thesis by (cases r) simp_all
next
  case (Some ct)
  then show ?thesis by (cases r; cases ct) simp_all
qed

lemma validate_Inr_iff:
  "validate c now subtotal currency country ctype = Inr () \<longleftrightarrow>
     coupon_applicable c now subtotal currency country ctype"
  unfolding validate_def coupon_applicable_def restriction_check
  by (auto split: option.splits simp: image_iff)

lemma validate_ok_or_domain:
  assumes "validate c now subtotal currency country ctype = Inl e"
  shows "is_domain_error e \<and> exn_http_status e \<in> {409, 410}"
  using assms unfolding validate_def by (auto split: if_splits)

lemma compute_discount_le:
  assumes "0 \<le> subtotal"
  shows "compute_discount c subtotal \<le> subtotal"
proof -
  have "compute_discount c subtotal \<le> quantize_cents (10000 * subtotal)"
    unfolding compute_discount_def Let_def by (rule quantize_cents_mono) simp
  then show ?thesis by simp
qed

lemma compute_discount_nonneg:
  assumes "0 \<le> subtotal" and "0 \<le> coup_discount_value c"
  shows "0 \<le> compute_discount c subtotal"
  unfolding compute_discount_def Let_def using assms by (intro quantize_cents_nonneg) simp

lemma compute_discount_fixed:
  assumes "coup_discount_type c = FIXED"
  shows "compute_discount c subtotal = min (coup_discount_value c) subtotal"
proof -
  have "min (10000 * coup_discount_value c) (10000 * subtotal) = 10000 * min (coup_discount_value c) subtotal"
    by (simp add: min_def)
  with assms show ?thesis by (simp add: compute_discount_def)
qed

lemma compute_discount_percentage:
  assumes "coup_discount_type c = PERCENTAGE" and "coup_discount_value c \<le> 10000" and "0 \<le> subtotal"
  shows "\<bar>10000 * compute_discount c subtotal - subtotal * coup_discount_value c\<bar> \<le> 5000"
proof -
  have "subtotal * coup_discount_value c \<le> 10000 * subtotal"
    using mult_left_mono [OF assms(2,3)] by (simp add: mult.commute)
  then have "compute_discount c subtotal = round_half_even (subtotal * coup_discount_value c) 10000"
    using assms(1) by (simp add: compute_discount_def quantize_cents_def min_absorb1)
  then show ?thesis
    using round_half_even_bounds [of 10000 "subtotal * coup_discount_value c"]
    by (simp add: algebra_simps)
qed

text \<open>
  What the serializers keep true of every stored coupon: a fixed coupon has a currency, a percentage
  does not exceed a hundred, and the value is at least a cent.
\<close>

definition coupon_wf :: "coupon \<Rightarrow> bool" where
  "coupon_wf c \<longleftrightarrow>
     (coup_discount_type c = FIXED \<longrightarrow> coup_currency c \<noteq> []) \<and>
     (coup_discount_type c = PERCENTAGE \<longrightarrow> coup_discount_value c \<le> 10000) \<and>
     1 \<le> coup_discount_value c"

definition coupons_wf :: "world \<Rightarrow> bool" where
  "coupons_wf w \<longleftrightarrow> (\<forall>c \<in> set (db_coupons w). coupon_wf c)"

lemma coupons_rows [simp]: "tbl_rows coupons_tbl w = db_coupons w"
  by (simp add: coupons_tbl_def)

lemma coupons_put [simp]: "tbl_put coupons_tbl rs w = w\<lparr>db_coupons := rs\<rparr>"
  by (simp add: coupons_tbl_def)

lemma coupons_wf_upd:
  assumes "coupons_wf w" and "\<And>r. r \<in> set (db_coupons w) \<Longrightarrow> coupon_wf r \<Longrightarrow> P r \<Longrightarrow> coupon_wf (f r)"
  shows "coupons_wf (w\<lparr>db_coupons := upd_where P f (db_coupons w)\<rparr>)"
  using assms by (auto simp: coupons_wf_def set_upd_where)

lemma update_coupon_fields_wf:
  assumes "update_coupon_fields c ci = Inr countries" and "coupon_wf c"
  shows "coupon_wf (apply_coupon_input countries ci c)"
proof -
  have v: "discount_value_field (ci_discount_value ci) = []"
    and x: "validate_cross_fields (Some (opt_or (ci_discount_type ci) (coup_discount_type c)))
      (Some (opt_or (ci_discount_value ci) (coup_discount_value c)))
      (opt_or (ci_currency ci) (coup_currency c)) = Inr ()"
    using assms(1) unfolding update_coupon_fields_def Let_def
    by (auto split: if_splits sum.splits)
  have "1 \<le> opt_or (ci_discount_value ci) (coup_discount_value c)"
    using v assms(2) by (auto simp: discount_value_field_def opt_or_def coupon_wf_def split: option.splits if_splits)
  then show ?thesis
    using x by (auto simp: validate_cross_fields_def coupon_wf_def apply_coupon_input_def split: if_splits)
qed

lemma coupon_of_input_wf:
  assumes "ci_discount_type ci = Some d" and "ci_discount_value ci = Some v"
    and "discount_value_field (ci_discount_value ci) = []"
    and "validate_cross_fields (ci_discount_type ci) (ci_discount_value ci) (opt_or (ci_currency ci) '''') = Inr u"
  shows "coupon_wf (stamp i t now (coupon_of_input code countries ci))"
  using assms
  by (auto simp: validate_cross_fields_def discount_value_field_def coupon_wf_def coupon_of_input_def
      stamp_def opt_or_def split: if_splits)

lemmas coupons_frame = coupons_wf_def enter_atomic_def rollback_def commit_def

lemma preserves_patch_coupon_guards: "preserves I (patch_coupon_guards c ci)"
  unfolding patch_coupon_guards_def Let_def coupon_in_use_def by (intro hoare_intros)

lemma patch_coupon_wf: "preserves coupons_wf (patch_coupon i ci)"
proof -
  have "preserves coupons_wf (save_row coupons_tbl (apply_coupon_input countries ci c))"
    if "update_coupon_fields c ci = Inr countries" and "coupon_wf c" for countries c
    using update_coupon_fields_wf [OF that]
    by (intro preserves_save_row) (auto intro!: coupons_wf_upd simp: coupon_wf_def)
  then show ?thesis
    unfolding patch_coupon_def get_coupon_def
    by (intro preserves_atomic preserves_bind_get_row preserves_bind_lift_sum preserves_seqE
        preserves_patch_coupon_guards) (auto simp: coupons_frame)
qed

lemma delete_coupon_wf: "preserves coupons_wf (delete_coupon i)"
  unfolding delete_coupon_def get_coupon_def
  by (intro hoare_intros preserves_save_fields)
    (auto intro!: coupons_wf_upd simp: coupon_wf_def)

lemma create_coupon_wf: "preserves coupons_wf (create_coupon ci)"
proof -
  have "preserves coupons_wf (create coupons_tbl (coupon_of_input code countries ci))"
    if "ci_discount_type ci \<noteq> None" "ci_discount_value ci \<noteq> None"
      "discount_value_field (ci_discount_value ci) = []"
      "validate_cross_fields (ci_discount_type ci) (ci_discount_value ci) (opt_or (ci_currency ci) '''') = Inr u"
    for code countries u
    using that coupon_of_input_wf
    by (intro preserves_create) (auto simp: coupons_wf_def)
  moreover have "preserves coupons_wf (attempt (validate_code v))" for v
    unfolding attempt_def validate_code_def preserves_def
    by (auto simp: bindE_def exists_row_def split: prod.split sum.split)
  ultimately show ?thesis
    unfolding create_coupon_def Let_def
    by (intro preserves_bindE preserves_if preserves_throw preserves_bind_lift_sum)
      (auto simp: required_field_def split: if_splits)
qed

end
