(* ===== verification/Carts.thy ===== *)
theory Carts
  imports Coupons
begin

section \<open>Carts\<close>

text \<open>
  \<^verbatim>\<open>apps/carts\<close>: the operations of \<open>CartService\<close> on the customer's active cart, the totals, the
  housekeeping task and the shapes the serializers give to clients. A cart that is returned is
  a \<open>cart_view\<close>: the row with the related rows Django loads with it (\<open>select_related\<close>,
  \<open>prefetch_related\<close>). Each operation runs in \<open>atomic\<close>; a refused operation raises a domain error
  and leaves the tables as they were.
\<close>

subsection \<open>Totals (\<^verbatim>\<open>carts/services/helpers.py\<close>)\<close>

record cart_totals =
  tot_subtotal :: money
  tot_discount_total :: money
  tot_grand_total :: money
  tot_currency :: string

definition compute_subtotal :: "cart_item list \<Rightarrow> money" where
  "compute_subtotal items = sum_list (map line_total items)"

definition compute_totals :: "cart_item list \<Rightarrow> coupon list \<Rightarrow> string \<Rightarrow> cart_totals" where
  "compute_totals items cs currency =
     (let subtotal = compute_subtotal items;
          discount = min (sum_list (map (\<lambda>c. compute_discount c subtotal) cs)) subtotal
      in \<lparr>tot_subtotal = subtotal, tot_discount_total = discount,
          tot_grand_total = subtotal - discount, tot_currency = currency\<rparr>)"

subsection \<open>Loading a cart\<close>

definition fk :: "'a scoped list \<Rightarrow> uuid \<Rightarrow> 'a scoped option" where
  "fk rs i = find (\<lambda>r. row_id r = i) rs"

definition fk_opt :: "'a scoped list \<Rightarrow> uuid option \<Rightarrow> 'a scoped option" where
  "fk_opt rs i = (case i of None \<Rightarrow> None | Some j \<Rightarrow> fk rs j)"

record cart_view =
  cv_cart :: cart
  cv_customer :: "customer option"
  cv_items :: "cart_item list"
  cv_products :: "product list" \<comment> \<open>the products of the items, in the order of the items\<close>
  cv_applied :: "applied_coupon list"
  cv_coupons :: "coupon list" \<comment> \<open>the coupons of the applied coupons, in their order\<close>
  cv_shipping :: "address option"
  cv_billing :: "address option"
  cv_payment_method :: "payment_method option"

text \<open>\<open>cart.items.all()\<close> and \<open>cart.applied_coupons.all()\<close> go through the tenant manager.\<close>

definition items_of :: "world \<Rightarrow> uuid \<Rightarrow> cart_item list" where
  "items_of w i = filter (\<lambda>x. item_cart x = i) (objects cart_items_tbl w)"

definition applied_of :: "world \<Rightarrow> uuid \<Rightarrow> applied_coupon list" where
  "applied_of w i = filter (\<lambda>x. ac_cart x = i) (objects applied_coupons_tbl w)"

definition coupons_of :: "world \<Rightarrow> uuid \<Rightarrow> coupon list" where
  "coupons_of w i = List.map_filter (\<lambda>a. fk (db_coupons w) (ac_coupon a)) (applied_of w i)"

definition load_cart :: "world \<Rightarrow> cart \<Rightarrow> cart_view" where
  "load_cart w c =
     \<lparr>cv_cart = c, cv_customer = fk (db_customers w) (cart_customer c),
      cv_items = items_of w (row_id c),
      cv_products = List.map_filter (\<lambda>i. fk (db_products w) (item_product i)) (items_of w (row_id c)),
      cv_applied = applied_of w (row_id c), cv_coupons = coupons_of w (row_id c),
      cv_shipping = fk_opt (db_addresses w) (cart_shipping_address c),
      cv_billing = fk_opt (db_addresses w) (cart_billing_address c),
      cv_payment_method = fk_opt (db_payment_methods w) (cart_selected_payment_method c)\<rparr>"

definition cv_totals :: "cart_view \<Rightarrow> cart_totals" where
  "cv_totals v = compute_totals (cv_items v) (cv_coupons v) (cart_currency (cv_cart v))"

definition active_cart_of :: "uuid \<Rightarrow> cart \<Rightarrow> bool" where
  "active_cart_of customer c \<longleftrightarrow> cart_customer c = customer \<and> cart_status c = CartActive"

definition no_active_cart :: exn where
  "no_active_cart = CartNotFound ''No active cart for this customer''"

definition lock_active_cart :: "uuid \<Rightarrow> cart act" where
  "lock_active_cart customer = get_row carts_tbl (active_cart_of customer) no_active_cart"

text \<open>\<open>_bump_and_return\<close>: the version is raised by a query update, then the cart is loaded again.\<close>

definition bump_and_return :: "cart \<Rightarrow> cart_view act" where
  "bump_and_return c =
     bindE (update_rows carts_tbl (\<lambda>r. row_id r = row_id c) (\<lambda>r. r\<lparr>cart_version := cart_version r + 1\<rparr>))
       (\<lambda>_. bindE (refresh_from_db carts_tbl c) (\<lambda>_.
       bindE (get_row carts_tbl (\<lambda>r. row_id r = row_id c) (DoesNotExist ''Cart'')) (\<lambda>c'.
       gets (\<lambda>w. load_cart w c'))))"

definition get_cart :: "uuid \<Rightarrow> cart_view act" where
  "get_cart customer =
     bindE (get_row carts_tbl (active_cart_of customer) no_active_cart) (\<lambda>c. gets (\<lambda>w. load_cart w c))"

subsection \<open>Items\<close>

definition new_cart :: "uuid \<Rightarrow> cart" where
  "new_cart customer =
     \<lparr>row_id = 0, tenant_id = 0, created_at = 0, updated_at = 0, cart_customer = customer,
      cart_status = CartActive, cart_currency = '''', cart_version = 0, cart_shipping_address = None,
      cart_billing_address = None, cart_selected_payment_method = None\<rparr>"

definition new_cart_item :: "uuid \<Rightarrow> product \<Rightarrow> int \<Rightarrow> cart_item" where
  "new_cart_item cart p quantity =
     \<lparr>row_id = 0, tenant_id = 0, created_at = 0, updated_at = 0, item_cart = cart,
      item_product = row_id p, item_quantity = quantity, item_unit_price_snapshot = prod_price p,
      item_currency = prod_currency p\<rparr>"

text \<open>
  \<open>get_or_create(customer_id=..., status=ACTIVE)\<close>: the insert runs in a savepoint, and if another
  session was first, the row is read again.
\<close>

definition get_or_create_cart :: "uuid \<Rightarrow> cart act" where
  "get_or_create_cart customer =
     bindE (gets (\<lambda>w. get_where (active_cart_of customer) (objects carts_tbl w))) (\<lambda>g.
     case g of
       OneRow c \<Rightarrow> ret c
     | ManyRows \<Rightarrow> throw MultipleObjectsReturned
     | NoRow \<Rightarrow>
         try_except (atomic (create carts_tbl (new_cart customer))) is_integrity_error
           (\<lambda>e. get_row carts_tbl (active_cart_of customer) e))"

text \<open>The currency is locked by the first item.\<close>

definition lock_currency :: "cart \<Rightarrow> product \<Rightarrow> cart act" where
  "lock_currency c p =
     (if cart_currency c = []
      then save_fields carts_tbl (\<lambda>r. r\<lparr>cart_currency := prod_currency p\<rparr>) c
      else if cart_currency c \<noteq> prod_currency p
      then throw (CurrencyMismatch (cart_currency c) (prod_currency p))
      else ret c)"

definition put_item :: "cart \<Rightarrow> product \<Rightarrow> int \<Rightarrow> cart_item option \<Rightarrow> unit act" where
  "put_item c p quantity existing =
     (case existing of
        Some i \<Rightarrow>
          bindE (update_rows cart_items_tbl (\<lambda>r. row_id r = row_id i)
                   (\<lambda>r. r\<lparr>item_quantity := item_quantity r + quantity\<rparr>)) (\<lambda>_. ret ())
      | None \<Rightarrow> bindE (create cart_items_tbl (new_cart_item (row_id c) p quantity)) (\<lambda>_. ret ()))"

definition add_item :: "uuid \<Rightarrow> uuid \<Rightarrow> int \<Rightarrow> cart_view act" where
  "add_item customer product quantity = atomic
     (bindE (get_or_create_cart customer) (\<lambda>c.
      bindE (get_row products_tbl (\<lambda>p. row_id p = product \<and> prod_is_active p) (ProductNotFound product)) (\<lambda>p.
      bindE (lock_currency c p) (\<lambda>c.
      bindE (first_row cart_items_tbl (\<lambda>i. item_cart i = row_id c \<and> item_product i = product)) (\<lambda>existing.
      let new_total = (case existing of None \<Rightarrow> 0 | Some i \<Rightarrow> item_quantity i) + quantity in
      seqE (guard_that (new_total \<le> available_quantity p)
             (InsufficientStock product (available_quantity p) new_total))
      (seqE (put_item c p quantity existing)
      (bump_and_return c)))))))"

definition clear_currency_if_empty :: "cart \<Rightarrow> unit act" where
  "clear_currency_if_empty c =
     bindE (exists_row cart_items_tbl (\<lambda>i. item_cart i = row_id c)) (\<lambda>ex.
     if ex then ret ()
     else bindE (save_fields carts_tbl (\<lambda>r. r\<lparr>cart_currency := ''''\<rparr>) c) (\<lambda>_. ret ()))"

definition remove_item :: "uuid \<Rightarrow> uuid \<Rightarrow> cart_view act" where
  "remove_item customer item = atomic
     (bindE (lock_active_cart customer) (\<lambda>c.
      bindE (delete_rows cart_items_tbl (\<lambda>i. item_cart i = row_id c \<and> row_id i = item)) (\<lambda>deleted.
      seqE (guard_that (deleted \<noteq> 0) (CartNotFound ''Cart item not found''))
      (seqE (clear_currency_if_empty c)
      (bump_and_return c)))))"

definition update_item_quantity :: "uuid \<Rightarrow> uuid \<Rightarrow> int \<Rightarrow> cart_view act" where
  "update_item_quantity customer item quantity = atomic
     (bindE (lock_active_cart customer) (\<lambda>c.
      bindE (get_row cart_items_tbl (\<lambda>i. item_cart i = row_id c \<and> row_id i = item)
               (CartNotFound ''Cart item not found'')) (\<lambda>i.
      bindE (follow products_tbl (item_product i)) (\<lambda>p.
      seqE (guard_that (quantity \<le> available_quantity p)
             (InsufficientStock (item_product i) (available_quantity p) quantity))
      (bindE (update_rows cart_items_tbl (\<lambda>r. row_id r = row_id i) (\<lambda>r. r\<lparr>item_quantity := quantity\<rparr>)) (\<lambda>_.
      bump_and_return c))))))"

definition clear_cart :: "uuid \<Rightarrow> unit act" where
  "clear_cart customer = atomic
     (bindE (first_row carts_tbl (active_cart_of customer)) (\<lambda>found.
      case found of
        None \<Rightarrow> ret ()
      | Some c \<Rightarrow>
          bindE (delete_rows cart_items_tbl (\<lambda>i. item_cart i = row_id c)) (\<lambda>_.
          bindE (delete_rows applied_coupons_tbl (\<lambda>a. ac_cart a = row_id c)) (\<lambda>_.
          bindE (save_fields carts_tbl (\<lambda>r. r\<lparr>cart_shipping_address := None, cart_billing_address := None,
                   cart_selected_payment_method := None, cart_currency := '''', cart_status := CartAbandoned\<rparr>) c)
            (\<lambda>_. ret ())))))"

subsection \<open>Coupons on a cart\<close>

text \<open>The coupon checks against the cart as it is in the database.\<close>

definition validate_on_cart :: "coupon \<Rightarrow> cart \<Rightarrow> unit act" where
  "validate_on_cart cp c =
     bindE (gets (\<lambda>w. compute_subtotal (items_of w (row_id c)))) (\<lambda>subtotal.
     bindE (case cart_shipping_address c of
              None \<Rightarrow> ret None
            | Some a \<Rightarrow> bindE (follow addresses_tbl a) (\<lambda>addr. ret (Some (addr_country addr)))) (\<lambda>country.
     bindE (follow customers_tbl (cart_customer c)) (\<lambda>cust.
     bindE current_time (\<lambda>now.
     lift_sum (validate cp now subtotal (cart_currency c) country (Some (cust_type cust)))))))"

definition find_coupon :: "string \<Rightarrow> coupon act" where
  "find_coupon code =
     get_row coupons_tbl (\<lambda>c. coup_code c = code) (CouponNotFound ''Invalid coupon code'')"

definition new_applied_coupon :: "time \<Rightarrow> uuid \<Rightarrow> uuid \<Rightarrow> applied_coupon" where
  "new_applied_coupon now cart coupon =
     \<lparr>row_id = 0, tenant_id = 0, created_at = 0, updated_at = 0, ac_cart = cart, ac_coupon = coupon,
      ac_applied_at = now\<rparr>"

definition apply_coupon :: "uuid \<Rightarrow> string \<Rightarrow> cart_view act" where
  "apply_coupon customer code = atomic
     (bindE (lock_active_cart customer) (\<lambda>c.
      bindE (find_coupon code) (\<lambda>cp.
      seqE (validate_on_cart cp c)
      (bindE (exists_row applied_coupons_tbl (\<lambda>a. ac_cart a = row_id c \<and> ac_coupon a = row_id cp)) (\<lambda>applied.
      seqE (guard_that (\<not> applied)
             (CouponAlreadyApplied (''Coupon '' @ code @ '' is already applied to this cart'')))
      (bindE current_time (\<lambda>now.
      bindE (create applied_coupons_tbl (new_applied_coupon now (row_id c) (row_id cp))) (\<lambda>_.
      bump_and_return c))))))))"

text \<open>The applied coupons of a cart with a given code: a join over the foreign key.\<close>

definition applied_with_code :: "world \<Rightarrow> uuid \<Rightarrow> string \<Rightarrow> applied_coupon \<Rightarrow> bool" where
  "applied_with_code w cart code a \<longleftrightarrow>
     ac_cart a = cart \<and>
     (case fk (db_coupons w) (ac_coupon a) of None \<Rightarrow> False | Some c \<Rightarrow> coup_code c = code)"

definition remove_coupon :: "uuid \<Rightarrow> string \<Rightarrow> cart_view act" where
  "remove_coupon customer code = atomic
     (bindE (lock_active_cart customer) (\<lambda>c.
      bindE (exists_row coupons_tbl (\<lambda>cp. coup_code cp = code)) (\<lambda>known.
      seqE (guard_that known (CouponNotFound (''Coupon '' @ code @ '' not found'')))
      (bindE (delete_where applied_coupons_tbl
               (\<lambda>w a. in_scope w a \<and> applied_with_code w (row_id c) code a)) (\<lambda>deleted.
       if deleted = 0 then get_cart customer else bump_and_return c)))))"

record coupon_preview =
  pv_code :: string
  pv_already_applied :: bool
  pv_discount :: money
  pv_projected_discount_total :: money
  pv_projected_grand_total :: money
  pv_currency :: string

definition preview_coupon :: "uuid \<Rightarrow> string \<Rightarrow> coupon_preview act" where
  "preview_coupon customer code =
     bindE (get_cart customer) (\<lambda>v.
     bindE (find_coupon code) (\<lambda>cp.
     let subtotal = compute_subtotal (cv_items v);
         country = map_option addr_country (cv_shipping v)
     in
     bindE (follow customers_tbl (cart_customer (cv_cart v))) (\<lambda>cust.
     bindE current_time (\<lambda>now.
     seqE (lift_sum (validate cp now subtotal (cart_currency (cv_cart v)) country (Some (cust_type cust))))
     (bindE (exists_row applied_coupons_tbl
              (\<lambda>a. ac_cart a = row_id (cv_cart v) \<and> ac_coupon a = row_id cp)) (\<lambda>already.
      let marginal = (if already then 0 else compute_discount cp subtotal);
          projected = min (tot_discount_total (cv_totals v) + marginal) subtotal
      in ret \<lparr>pv_code = coup_code cp, pv_already_applied = already, pv_discount = marginal,
              pv_projected_discount_total = projected, pv_projected_grand_total = subtotal - projected,
              pv_currency = cart_currency (cv_cart v)\<rparr>))))))"

definition preview_json :: "coupon_preview \<Rightarrow> dict" where
  "preview_json p =
     [(''valid'', JBool True), (''code'', JStr (pv_code p)), (''already_applied'', JBool (pv_already_applied p)),
      (''discount'', JStr (show_cents (pv_discount p))),
      (''projected_discount_total'', JStr (show_cents (pv_projected_discount_total p))),
      (''projected_grand_total'', JStr (show_cents (pv_projected_grand_total p))),
      (''currency'', JStr (pv_currency p))]"

subsection \<open>Address and payment slots\<close>

definition address_not_found :: "uuid \<Rightarrow> exn" where
  "address_not_found i = AddressNotFound (''Address '' @ uuid_str i @ '' not found'')"

definition set_shipping_address :: "uuid \<Rightarrow> uuid \<Rightarrow> cart_view act" where
  "set_shipping_address customer address = atomic
     (bindE (lock_active_cart customer) (\<lambda>c.
      bindE (get_row addresses_tbl (\<lambda>a. row_id a = address \<and> addr_customer a = customer)
               (address_not_found address)) (\<lambda>a.
      bindE (save_fields carts_tbl (\<lambda>r. r\<lparr>cart_shipping_address := Some (row_id a)\<rparr>) c) (\<lambda>c.
      bump_and_return c))))"

definition set_billing_address :: "uuid \<Rightarrow> uuid \<Rightarrow> cart_view act" where
  "set_billing_address customer address = atomic
     (bindE (lock_active_cart customer) (\<lambda>c.
      bindE (get_row addresses_tbl (\<lambda>a. row_id a = address \<and> addr_customer a = customer)
               (address_not_found address)) (\<lambda>a.
      bindE (save_fields carts_tbl (\<lambda>r. r\<lparr>cart_billing_address := Some (row_id a)\<rparr>) c) (\<lambda>c.
      bump_and_return c))))"

definition set_payment_method :: "uuid \<Rightarrow> uuid \<Rightarrow> cart_view act" where
  "set_payment_method customer method = atomic
     (bindE (lock_active_cart customer) (\<lambda>c.
      bindE (get_row payment_methods_tbl (\<lambda>p. row_id p = method \<and> pm_customer p = customer)
               (PaymentMethodNotFound (''Payment method '' @ uuid_str method @ '' not found''))) (\<lambda>p.
      bindE (save_fields carts_tbl (\<lambda>r. r\<lparr>cart_selected_payment_method := Some (row_id p)\<rparr>) c) (\<lambda>c.
      bump_and_return c))))"

subsection \<open>The housekeeping task\<close>

definition abandon_stale_carts :: "int \<Rightarrow> nat act" where
  "abandon_stale_carts stale_after_days =
     bindE current_time (\<lambda>now.
     update_rows_all carts_tbl
       (\<lambda>c. cart_status c = CartActive \<and> updated_at c < now - stale_after_days * day_us)
       (\<lambda>c. c\<lparr>cart_status := CartAbandoned\<rparr>))"

subsection \<open>Serializers\<close>

definition id_json :: "uuid \<Rightarrow> json" where
  "id_json i = JStr (uuid_str i)"

definition opt_id_json :: "uuid option \<Rightarrow> json" where
  "opt_id_json i = (case i of None \<Rightarrow> JNull | Some j \<Rightarrow> id_json j)"

definition money_json :: "money \<Rightarrow> json" where
  "money_json m = JStr (show_cents m)"

definition cart_item_json :: "product list \<Rightarrow> cart_item \<Rightarrow> json" where
  "cart_item_json ps i =
     JObj [(''id'', id_json (row_id i)), (''product_id'', id_json (item_product i)),
       (''product_name'', case fk ps (item_product i) of None \<Rightarrow> JNull | Some p \<Rightarrow> JStr (prod_name p)),
       (''product_sku'', case fk ps (item_product i) of None \<Rightarrow> JNull | Some p \<Rightarrow> JStr (prod_sku p)),
       (''quantity'', JInt (item_quantity i)), (''unit_price_snapshot'', money_json (item_unit_price_snapshot i)),
       (''currency'', JStr (item_currency i)), (''line_total'', money_json (line_total i))]"

definition applied_coupon_json :: "money \<Rightarrow> coupon list \<Rightarrow> applied_coupon \<Rightarrow> json" where
  "applied_coupon_json subtotal cs a =
     (case fk cs (ac_coupon a) of
        None \<Rightarrow> JNull
      | Some c \<Rightarrow> JObj [(''code'', JStr (coup_code c)),
          (''discount_amount'', money_json (compute_discount c subtotal)),
          (''applied_at'', JInt (ac_applied_at a))])"

definition totals_json :: "cart_totals \<Rightarrow> json" where
  "totals_json t =
     JObj [(''subtotal'', money_json (tot_subtotal t)), (''discount_total'', money_json (tot_discount_total t)),
       (''grand_total'', money_json (tot_grand_total t)), (''currency'', JStr (tot_currency t))]"

definition cart_json :: "cart_view \<Rightarrow> json" where
  "cart_json v =
     (let c = cv_cart v in
      JObj [(''id'', id_json (row_id c)), (''customer_id'', id_json (cart_customer c)),
        (''status'', JStr (cart_status_value (cart_status c))), (''currency'', JStr (cart_currency c)),
        (''version'', JInt (cart_version c)),
        (''items'', JList (map (cart_item_json (cv_products v)) (cv_items v))),
        (''applied_coupons'', JList (map (applied_coupon_json (compute_subtotal (cv_items v)) (cv_coupons v)) (cv_applied v))),
        (''shipping_address_id'', opt_id_json (cart_shipping_address c)),
        (''billing_address_id'', opt_id_json (cart_billing_address c)),
        (''selected_payment_method_id'', opt_id_json (cart_selected_payment_method c)),
        (''totals'', totals_json (cv_totals v)),
        (''created_at'', JInt (created_at c)), (''updated_at'', JInt (updated_at c))])"

end
