(* ===== verification/Inventory.thy ===== *)
theory Inventory
  imports Carts
begin

section \<open>Inventory reservations\<close>

text \<open>
  The stock side of the checkout: \<open>_reserve_stock\<close>, \<open>_release_reservations\<close>, \<open>_commit_reservations\<close>
  and \<open>_reverse_committed_reservations\<close> of \<^verbatim>\<open>orders/services/checkout_helpers.py\<close>, their
  counterparts per order in \<^verbatim>\<open>payments/tasks.py\<close>, and the beat task
  \<open>release_expired_reservations\<close> of \<^verbatim>\<open>orders/tasks.py\<close>. The ledger invariant: the reserved
  quantity of a product is the sum of its active reservations.
\<close>

subsection \<open>Operations of the checkout\<close>

definition reservation_ttl :: int where
  "reservation_ttl = 15 * 60 * 1000000"

definition new_reservation :: "uuid \<Rightarrow> uuid \<Rightarrow> int \<Rightarrow> time \<Rightarrow> reservation" where
  "new_reservation cart product quantity expires =
     \<lparr>row_id = 0, tenant_id = 0, created_at = 0, updated_at = 0, res_cart = cart, res_order = None,
      res_product = product, res_quantity = quantity, res_expires_at = expires, res_status = ResActive\<rparr>"

text \<open>\<open>{item.product_id: item.quantity for item in items}\<close>: a later item wins.\<close>

definition item_qtys :: "cart_item list \<Rightarrow> (uuid \<times> int) list" where
  "item_qtys items = dict_of_pairs (map (\<lambda>i. (item_product i, item_quantity i)) items)"

definition qty_of :: "cart_item list \<Rightarrow> uuid \<Rightarrow> int" where
  "qty_of items p = (case map_of (item_qtys items) p of None \<Rightarrow> 0 | Some q \<Rightarrow> q)"

definition insufficient_items :: "cart_item list \<Rightarrow> product list \<Rightarrow> (uuid \<times> int \<times> int) list" where
  "insufficient_items items ps =
     map (\<lambda>p. (row_id p, available_quantity p, qty_of items (row_id p)))
       (filter (\<lambda>p. available_quantity p < qty_of items (row_id p)) ps)"

definition add_reserved :: "int \<Rightarrow> product \<Rightarrow> product" where
  "add_reserved q p = p\<lparr>prod_reserved_quantity := prod_reserved_quantity p + q\<rparr>"

definition reserve_product :: "uuid \<Rightarrow> time \<Rightarrow> cart_item list \<Rightarrow> product \<Rightarrow> reservation act" where
  "reserve_product cart expires items p =
     (let qty = qty_of items (row_id p) in
      bindE (create reservations_tbl (new_reservation cart (row_id p) qty expires)) (\<lambda>res.
      bindE (update_rows products_tbl (\<lambda>r. row_id r = row_id p) (add_reserved qty)) (\<lambda>_.
      ret res)))"

text \<open>
  \<open>_reserve_stock\<close>: the products are read in primary key order, every shortage is reported at once,
  and the block is atomic.
\<close>

definition reserve_stock :: "uuid \<Rightarrow> cart_item list \<Rightarrow> reservation list act" where
  "reserve_stock cart items =
     bindE current_time (\<lambda>now. atomic
       (bindE (filter_rows products_tbl (\<lambda>p. row_id p \<in> set (map item_product items))) (\<lambda>found.
        let ps = sort_key row_id found; insufficient = insufficient_items items ps in
        if insufficient \<noteq> [] then throw (InsufficientStockItems insufficient)
        else map_each (reserve_product cart (now + reservation_ttl) items) ps)))"

text \<open>
  The step the loops share: adjust the product by the quantity of the reservation, then save the new
  status. \<open>settle\<close> finds the product through the scoped manager.
\<close>

definition sub_reserved :: "int \<Rightarrow> product \<Rightarrow> product" where
  "sub_reserved q p = p\<lparr>prod_reserved_quantity := prod_reserved_quantity p - q\<rparr>"

definition sub_both :: "int \<Rightarrow> product \<Rightarrow> product" where
  "sub_both q p = p\<lparr>prod_stock_quantity := prod_stock_quantity p - q,
                    prod_reserved_quantity := prod_reserved_quantity p - q\<rparr>"

definition add_stock :: "int \<Rightarrow> product \<Rightarrow> product" where
  "add_stock q p = p\<lparr>prod_stock_quantity := prod_stock_quantity p + q\<rparr>"

definition settle :: "(int \<Rightarrow> product \<Rightarrow> product) \<Rightarrow> reservation_status \<Rightarrow> reservation \<Rightarrow> unit act" where
  "settle f st res =
     bindE (update_rows products_tbl (\<lambda>p. row_id p = res_product res) (f (res_quantity res))) (\<lambda>_.
     bindE (save_fields reservations_tbl (\<lambda>r. r\<lparr>res_status := st\<rparr>) res) (\<lambda>_. ret ()))"

text \<open>\<open>res.refresh_from_db(); if res.status != <expected>: continue\<close>.\<close>

definition settle_if :: "reservation_status \<Rightarrow> (int \<Rightarrow> product \<Rightarrow> product) \<Rightarrow> reservation_status \<Rightarrow>
    reservation \<Rightarrow> unit act" where
  "settle_if expected f st res =
     bindE (refresh_from_db reservations_tbl res) (\<lambda>r.
     if res_status r \<noteq> expected then ret () else settle f st r)"

definition release_reservations :: "reservation list \<Rightarrow> unit act" where
  "release_reservations rs = atomic (for_each (settle_if ResActive sub_reserved ResReleased) rs)"

definition commit_reservations :: "reservation list \<Rightarrow> unit act" where
  "commit_reservations rs = atomic (for_each (settle_if ResActive sub_both ResCommitted) rs)"

definition reverse_committed_reservations :: "reservation list \<Rightarrow> unit act" where
  "reverse_committed_reservations rs = atomic (for_each (settle_if ResCommitted add_stock ResReleased) rs)"

subsection \<open>Per order, in the payment tasks\<close>

definition active_of_order :: "uuid \<Rightarrow> reservation \<Rightarrow> bool" where
  "active_of_order i r \<longleftrightarrow> res_order r = Some i \<and> res_status r = ResActive"

definition commit_reservations_for_order :: "uuid \<Rightarrow> unit act" where
  "commit_reservations_for_order i =
     bindE (filter_rows reservations_tbl (active_of_order i)) (for_each (settle sub_both ResCommitted))"

definition release_reservations_for_order :: "uuid \<Rightarrow> unit act" where
  "release_reservations_for_order i =
     bindE (filter_rows reservations_tbl (active_of_order i)) (for_each (settle sub_reserved ResReleased))"

subsection \<open>The beat task\<close>

definition settle_unscoped :: "(int \<Rightarrow> product \<Rightarrow> product) \<Rightarrow> reservation_status \<Rightarrow> reservation \<Rightarrow> unit act" where
  "settle_unscoped f st res =
     bindE (update_rows_all products_tbl (\<lambda>p. row_id p = res_product res) (f (res_quantity res))) (\<lambda>_.
     bindE (save_fields reservations_tbl (\<lambda>r. r\<lparr>res_status := st\<rparr>) res) (\<lambda>_. ret ()))"

definition revert_checking_out :: "uuid \<Rightarrow> unit act" where
  "revert_checking_out cart =
     bindE (update_rows_all carts_tbl (\<lambda>c. row_id c = cart \<and> cart_status c = CartCheckingOut)
              (\<lambda>c. c\<lparr>cart_status := CartActive\<rparr>)) (\<lambda>_. ret ())"

definition expire_one :: "reservation \<Rightarrow> unit act" where
  "expire_one res = seqE (settle_unscoped sub_reserved ResReleased res) (revert_checking_out (res_cart res))"

definition is_expired :: "time \<Rightarrow> reservation \<Rightarrow> bool" where
  "is_expired now r \<longleftrightarrow> res_status r = ResActive \<and> res_expires_at r < now"

definition expired_rows :: "time \<Rightarrow> world \<Rightarrow> reservation list" where
  "expired_rows now w = filter (is_expired now) (db_reservations w)"

text \<open>One batch: a transaction over at most a hundred expired reservations; the count is returned.\<close>

definition expire_batch :: "time \<Rightarrow> nat act" where
  "expire_batch now = atomic
     (bindE (gets (\<lambda>w. take 100 (expired_rows now w))) (\<lambda>batch.
      seqE (for_each expire_one batch) (ret (length batch))))"

text \<open>
  The loop \<open>while True\<close>: it breaks on an empty batch. The recursion may in principle not end, so it is
  a partial function over the state; \<open>None\<close> would be a loop that runs for ever.
\<close>

partial_function (option) expire_loop :: "time \<Rightarrow> nat \<Rightarrow> world \<Rightarrow> ((exn + nat) \<times> world) option" where
  "expire_loop now n0 w =
     (case expire_batch now w of
        (Inl e, w') \<Rightarrow> Some (Inl e, w')
      | (Inr n, w') \<Rightarrow> if n = 0 then Some (Inr n0, w') else expire_loop now (n0 + n) w')"

definition release_expired_reservations :: "world \<Rightarrow> ((exn + nat) \<times> world) option" where
  "release_expired_reservations w = expire_loop (clock w) 0 w"

subsection \<open>The ledger\<close>

text \<open>
  \<open>ledger\<close>: the constraints of the two tables hold, the reserved quantity of every product is the sum
  of its active reservations, quantities are not negative, and a reservation holds stock of a product of its
  own tenant.
\<close>

definition holds_stock :: "uuid \<Rightarrow> reservation \<Rightarrow> bool" where
  "holds_stock p r \<longleftrightarrow> res_product r = p \<and> res_status r = ResActive"

definition active_qty :: "reservation list \<Rightarrow> uuid \<Rightarrow> int" where
  "active_qty rs p = sum_list (map res_quantity (filter (holds_stock p) rs))"

definition backed :: "product list \<Rightarrow> reservation \<Rightarrow> bool" where
  "backed ps r \<longleftrightarrow> 0 \<le> res_quantity r \<and> (\<exists>p \<in> set ps. row_id p = res_product r \<and> tenant_id p = tenant_id r)"

definition ledger :: "world \<Rightarrow> bool" where
  "ledger w \<longleftrightarrow>
     tbl_ok products_tbl (db_products w) \<and> tbl_ok reservations_tbl (db_reservations w) \<and>
     (\<forall>p \<in> set (db_products w). prod_reserved_quantity p = active_qty (db_reservations w) (row_id p)) \<and>
     (\<forall>r \<in> set (db_reservations w). backed (db_products w) r)"

lemma products_rows [simp]: "tbl_rows products_tbl w = db_products w"
  by (simp add: products_tbl_def)

lemma products_put [simp]: "tbl_put products_tbl rs w = w\<lparr>db_products := rs\<rparr>"
  by (simp add: products_tbl_def)

lemma reservations_rows [simp]: "tbl_rows reservations_tbl w = db_reservations w"
  by (simp add: reservations_tbl_def)

lemma reservations_put [simp]: "tbl_put reservations_tbl rs w = w\<lparr>db_reservations := rs\<rparr>"
  by (simp add: reservations_tbl_def)

lemma carts_rows [simp]: "tbl_rows carts_tbl w = db_carts w"
  by (simp add: carts_tbl_def)

lemma carts_put [simp]: "tbl_put carts_tbl rs w = w\<lparr>db_carts := rs\<rparr>"
  by (simp add: carts_tbl_def)

lemma reservations_ok: "tbl_ok reservations_tbl rs \<longleftrightarrow> distinct (map row_id rs)"
  by (simp add: reservations_tbl_def pk_ok_def)

lemma products_ok:
  "tbl_ok products_tbl ps \<longleftrightarrow> distinct (map row_id ps) \<and>
     distinct (map (\<lambda>r. (tenant_id r, prod_sku r)) ps) \<and> list_all product_ok ps"
  by (simp add: products_tbl_def pk_ok_def)

lemma active_qty_nonneg: "(\<And>r. r \<in> set rs \<Longrightarrow> 0 \<le> res_quantity r) \<Longrightarrow> 0 \<le> active_qty rs p"
  unfolding active_qty_def by (rule sum_list_nonneg) auto

lemma ledger_bounds:
  assumes "ledger w" and "p \<in> set (db_products w)"
  shows "0 \<le> prod_reserved_quantity p" and "prod_reserved_quantity p \<le> prod_stock_quantity p"
proof -
  have "\<forall>r \<in> set (db_reservations w). 0 \<le> res_quantity r"
    using assms(1) by (simp add: ledger_def backed_def)
  then show "0 \<le> prod_reserved_quantity p"
    using assms by (simp add: ledger_def active_qty_nonneg)
  show "prod_reserved_quantity p \<le> prod_stock_quantity p"
    using assms by (auto simp: ledger_def products_ok list_all_iff product_ok_def)
qed

subsection \<open>One settled reservation\<close>

definition set_res_status :: "reservation_status \<Rightarrow> time \<Rightarrow> reservation \<Rightarrow> reservation" where
  "set_res_status st now r = r\<lparr>res_status := st, updated_at := now\<rparr>"

definition settled :: "(int \<Rightarrow> product \<Rightarrow> product) \<Rightarrow> reservation_status \<Rightarrow> reservation \<Rightarrow> world \<Rightarrow> world" where
  "settled f st r w =
     w\<lparr>db_products := upd_where (\<lambda>p. row_id p = res_product r) (f (res_quantity r)) (db_products w),
       db_reservations := upd_where (\<lambda>x. row_id x = row_id r) (set_res_status st (clock w)) (db_reservations w)\<rparr>"

text \<open>The three settlements the code makes: release, commit, reverse.\<close>

definition settlement :: "(int \<Rightarrow> product \<Rightarrow> product) \<Rightarrow> reservation_status \<Rightarrow> reservation_status \<Rightarrow> bool" where
  "settlement f old new \<longleftrightarrow>
     (f = sub_reserved \<and> old = ResActive \<and> new = ResReleased) \<or>
     (f = sub_both \<and> old = ResActive \<and> new = ResCommitted) \<or>
     (f = add_stock \<and> old = ResCommitted \<and> new = ResReleased)"

definition freed :: "reservation \<Rightarrow> int" where
  "freed r = (if res_status r = ResActive then res_quantity r else 0)"

lemmas adjust_defs = sub_reserved_def sub_both_def add_stock_def

lemma adjust_keeps [simp]:
  "row_id (sub_reserved q p) = row_id p" "row_id (sub_both q p) = row_id p" "row_id (add_stock q p) = row_id p"
  "tenant_id (sub_reserved q p) = tenant_id p" "tenant_id (sub_both q p) = tenant_id p"
  "tenant_id (add_stock q p) = tenant_id p"
  "prod_sku (sub_reserved q p) = prod_sku p" "prod_sku (sub_both q p) = prod_sku p"
  "prod_sku (add_stock q p) = prod_sku p"
  by (simp_all add: adjust_defs)

lemma settlement_keeps:
  assumes "settlement f old new"
  shows "row_id (f q p) = row_id p" and "tenant_id (f q p) = tenant_id p" and "prod_sku (f q p) = prod_sku p"
    and "0 \<le> q \<Longrightarrow> product_ok p \<Longrightarrow> product_ok (f q p)"
    and "old = res_status r \<Longrightarrow> prod_reserved_quantity (f (res_quantity r) p) = prod_reserved_quantity p - freed r"
    and "new \<noteq> ResActive"
  using assms by (auto simp: settlement_def adjust_defs product_ok_def freed_def)

lemma set_res_status_keeps [simp]:
  "row_id (set_res_status st now r) = row_id r" "tenant_id (set_res_status st now r) = tenant_id r"
  "res_product (set_res_status st now r) = res_product r"
  "res_quantity (set_res_status st now r) = res_quantity r"
  "res_status (set_res_status st now r) = st" "res_order (set_res_status st now r) = res_order r"
  "res_cart (set_res_status st now r) = res_cart r"
  "res_expires_at (set_res_status st now r) = res_expires_at r"
  by (simp_all add: set_res_status_def)

lemma active_qty_Cons:
  "active_qty (x # xs) p = (if holds_stock p x then res_quantity x else 0) + active_qty xs p"
  by (simp add: active_qty_def)

lemma active_qty_settle:
  assumes "distinct (map row_id rs)" and "r \<in> set rs" and "st \<noteq> ResActive"
  shows "active_qty (upd_where (\<lambda>x. row_id x = row_id r) (set_res_status st now) rs) p
    = active_qty rs p - (if res_product r = p then freed r else 0)"
  using assms(1,2)
proof (induction rs)
  case Nil
  then show ?case by simp
next
  case (Cons x xs)
  show ?case
  proof (cases "x = r")
    case True
    then have "row_id r \<notin> row_id ` set xs" using Cons.prems(1) by simp
    then have "upd_where (\<lambda>x. row_id x = row_id r) (set_res_status st now) xs = xs"
      by (intro upd_where_none) (metis imageI)
    with True assms(3) show ?thesis by (simp add: active_qty_Cons holds_stock_def freed_def)
  next
    case False
    with Cons have "r \<in> set xs" "row_id x \<noteq> row_id r" by auto
    with Cons show ?thesis by (simp add: active_qty_Cons)
  qed
qed

lemma backed_upd:
  assumes "backed ps r" and "\<And>p. row_id (f p) = row_id p" and "\<And>p. tenant_id (f p) = tenant_id p"
  shows "backed (upd_where P f ps) r"
proof -
  from assms(1) obtain p where "p \<in> set ps" "row_id p = res_product r" "tenant_id p = tenant_id r"
    by (auto simp: backed_def)
  then have "(if P p then f p else p) \<in> set (upd_where P f ps)"
    and "row_id (if P p then f p else p) = res_product r"
    and "tenant_id (if P p then f p else p) = tenant_id r"
    using assms(2,3) by (auto simp: set_upd_where)
  with assms(1) show ?thesis unfolding backed_def by blast
qed

lemma products_ok_upd:
  assumes "tbl_ok products_tbl ps" and "\<And>p. row_id (f p) = row_id p" and "\<And>p. tenant_id (f p) = tenant_id p"
    and "\<And>p. prod_sku (f p) = prod_sku p" and "\<And>p. product_ok p \<Longrightarrow> product_ok (f p)"
  shows "tbl_ok products_tbl (upd_where P f ps)"
  using assms by (auto simp: products_ok map_upd_where list_all_iff set_upd_where)

lemma ledger_settled:
  assumes "ledger w" and r: "r \<in> set (db_reservations w)" and f: "settlement f (res_status r) st"
  shows "ledger (settled f st r w)"
proof -
  note keeps = settlement_keeps [OF f]
  let ?f = "f (res_quantity r)" and ?rs = "db_reservations w" and ?ps = "db_products w"
  let ?ps' = "upd_where (\<lambda>p. row_id p = res_product r) ?f ?ps"
  let ?rs' = "upd_where (\<lambda>x. row_id x = row_id r) (set_res_status st (clock w)) ?rs"
  have d: "distinct (map row_id ?rs)" and q: "0 \<le> res_quantity r"
    using assms(1) r by (auto simp: ledger_def reservations_ok backed_def)
  have "tbl_ok products_tbl ?ps'"
    using assms(1) keeps q by (intro products_ok_upd) (auto simp: ledger_def)
  moreover have "tbl_ok reservations_tbl ?rs'"
    using d by (simp add: reservations_ok map_upd_where)
  moreover have "prod_reserved_quantity p' = active_qty ?rs' (row_id p')" if "p' \<in> set ?ps'" for p'
  proof -
    from that obtain p where p: "p \<in> set ?ps" "p' = (if row_id p = res_product r then ?f p else p)"
      by (auto simp: set_upd_where)
    then have res: "prod_reserved_quantity p = active_qty ?rs (row_id p)"
      using assms(1) by (simp add: ledger_def)
    have "row_id p' = row_id p" using p keeps by simp
    with p res keeps(5) [OF refl] show ?thesis
      by (auto simp: active_qty_settle [OF d r keeps(6)])
  qed
  moreover have "backed ?ps' x" if "x \<in> set ?rs'" for x
  proof -
    from that obtain y where "y \<in> set ?rs" "x = (if row_id y = row_id r then set_res_status st (clock w) y else y)"
      by (auto simp: set_upd_where)
    then have "backed ?ps x" using assms(1) by (auto simp: ledger_def backed_def)
    then show ?thesis using keeps by (intro backed_upd)
  qed
  ultimately show ?thesis by (simp add: ledger_def settled_def)
qed

lemma settled_frame [simp]:
  "tenant_ctx (settled f st r w) = tenant_ctx w" "clock (settled f st r w) = clock w"
  "db_carts (settled f st r w) = db_carts w" "db_orders (settled f st r w) = db_orders w"
  "db_payments (settled f st r w) = db_payments w" "fresh_id (settled f st r w) = fresh_id w"
  by (simp_all add: settled_def)

lemma product_of_reservation:
  assumes "ledger w" and "r \<in> set (db_reservations w)"
    and "p \<in> set (db_products w)" and "row_id p = res_product r"
  shows "tenant_id p = tenant_id r"
proof -
  obtain p' where p': "p' \<in> set (db_products w)" "row_id p' = res_product r" "tenant_id p' = tenant_id r"
    using assms(1,2) by (auto simp: ledger_def backed_def)
  have "distinct (map row_id (db_products w))"
    using assms(1) by (simp add: ledger_def products_ok)
  with assms(3,4) p' have "p = p'" by (auto simp: distinct_map inj_on_def)
  with p' show ?thesis by simp
qed

lemma upd_where_cong:
  "(\<And>r. r \<in> set rs \<Longrightarrow> P r = Q r) \<Longrightarrow> upd_where P f rs = upd_where Q f rs"
  by (induction rs) auto

lemma save_res_status:
  assumes "tbl_ok reservations_tbl (db_reservations w)" and "r \<in> set (db_reservations w)"
  shows "save_fields reservations_tbl (\<lambda>x. x\<lparr>res_status := st\<rparr>) r w =
    (Inr (set_res_status st (clock w) r),
     w\<lparr>db_reservations := upd_where (\<lambda>x. row_id x = row_id r) (set_res_status st (clock w)) (db_reservations w)\<rparr>)"
proof -
  have f: "(\<lambda>x. (x\<lparr>res_status := st\<rparr>)\<lparr>updated_at := clock w\<rparr>) = set_res_status st (clock w)"
    by (simp add: set_res_status_def fun_eq_iff)
  have ok: "tbl_ok reservations_tbl
      (upd_where (\<lambda>x. row_id x = row_id r) (set_res_status st (clock w)) (db_reservations w))"
    using assms(1) by (simp add: reservations_ok map_upd_where)
  have "filter (\<lambda>x. row_id x = row_id r) (db_reservations w) \<noteq> []"
    using assms(2) by (auto simp: filter_empty_conv)
  with ok show ?thesis
    by (simp add: save_fields_def bindE_def update_where_def write_rows_def f)
      (simp add: set_res_status_def)
qed

lemma update_products_ok:
  assumes "ledger w" and "settlement f old st" and "0 \<le> q"
  shows "tbl_ok products_tbl (upd_where P (f q) (db_products w))"
  using assms settlement_keeps [OF assms(2)]
  by (intro products_ok_upd) (auto simp: ledger_def)

lemma settle_run:
  assumes l: "ledger w" and r: "r \<in> set (db_reservations w)" and f: "settlement f (res_status r) st"
    and ctx: "tenant_ctx w = Some (tenant_id r)"
  shows "settle f st r w = (Inr (), settled f st r w)"
proof -
  have q: "0 \<le> res_quantity r" using l r by (auto simp: ledger_def backed_def)
  have "upd_where (\<lambda>p. in_scope w p \<and> row_id p = res_product r) (f (res_quantity r)) (db_products w)
    = upd_where (\<lambda>p. row_id p = res_product r) (f (res_quantity r)) (db_products w)"
    using product_of_reservation [OF l r] ctx by (intro upd_where_cong) (auto simp: in_scope_def)
  moreover have "tbl_ok reservations_tbl (db_reservations w)" using l by (simp add: ledger_def)
  ultimately show ?thesis
    using r update_products_ok [OF l f q]
    by (simp add: settle_def update_rows_def bindE_def update_where_def write_rows_def save_res_status
        settled_def)
qed

lemma settle_unscoped_run:
  assumes l: "ledger w" and r: "r \<in> set (db_reservations w)" and f: "settlement f (res_status r) st"
  shows "settle_unscoped f st r w = (Inr (), settled f st r w)"
proof -
  have q: "0 \<le> res_quantity r" using l r by (auto simp: ledger_def backed_def)
  have "tbl_ok reservations_tbl (db_reservations w)" using l by (simp add: ledger_def)
  then show ?thesis
    using r update_products_ok [OF l f q]
    by (simp add: settle_unscoped_def update_rows_all_def bindE_def update_where_def write_rows_def
        save_res_status settled_def)
qed

subsection \<open>Lists of reservations\<close>

lemma settled_other:
  "x \<in> set (db_reservations w) \<Longrightarrow> row_id x \<noteq> row_id r \<Longrightarrow> x \<in> set (db_reservations (settled f st r w))"
  by (auto simp: settled_def set_upd_where intro!: rev_image_eqI)

definition settle_ready ::
  "(int \<Rightarrow> product \<Rightarrow> product) \<Rightarrow> reservation_status \<Rightarrow> reservation list \<Rightarrow> world \<Rightarrow> bool" where
  "settle_ready f st rs w \<longleftrightarrow>
     ledger w \<and> distinct (map row_id rs) \<and>
     (\<forall>r \<in> set rs. r \<in> set (db_reservations w) \<and> settlement f (res_status r) st)"

lemma settle_ready_step:
  assumes "settle_ready f st (r # rs) w"
  shows "settle_ready f st rs (settled f st r w)"
  using assms unfolding settle_ready_def
  by (auto intro!: ledger_settled settled_other) (metis imageI)

lemma settle_list_run:
  assumes "settle_ready f st rs w" and "\<forall>r \<in> set rs. tenant_ctx w = Some (tenant_id r)"
  shows "for_each (settle f st) rs w = (Inr (), fold (settled f st) rs w)"
  using assms
proof (induction rs arbitrary: w)
  case Nil
  then show ?case by simp
next
  case (Cons r rs)
  then have "settle f st r w = (Inr (), settled f st r w)"
    by (intro settle_run) (auto simp: settle_ready_def)
  moreover have "for_each (settle f st) rs (settled f st r w) = (Inr (), fold (settled f st) rs (settled f st r w))"
    using Cons.prems(2) by (intro Cons.IH settle_ready_step [OF Cons.prems(1)]) auto
  ultimately show ?case by (simp add: seqE_Inr)
qed

lemma ledger_settled_list:
  "settle_ready f st rs w \<Longrightarrow> ledger (fold (settled f st) rs w)"
proof (induction rs arbitrary: w)
  case Nil
  then show ?case by (simp add: settle_ready_def)
next
  case (Cons r rs)
  then show ?case using settle_ready_step by simp
qed

lemma fold_settled_frame [simp]:
  "tenant_ctx (fold (settled f st) rs w) = tenant_ctx w" "clock (fold (settled f st) rs w) = clock w"
  "db_carts (fold (settled f st) rs w) = db_carts w" "db_orders (fold (settled f st) rs w) = db_orders w"
  "db_payments (fold (settled f st) rs w) = db_payments w" "fresh_id (fold (settled f st) rs w) = fresh_id w"
  by (induction rs arbitrary: w) simp_all

subsection \<open>The operations keep the ledger\<close>

text \<open>
  The reservations an operation is given belong to the tenant in context: \<open>owned t ids\<close> says so of the rows
  as they are in the table.
\<close>

definition owned :: "uuid \<Rightarrow> uuid set \<Rightarrow> world \<Rightarrow> bool" where
  "owned t ids w \<longleftrightarrow>
     tenant_ctx w = Some t \<and> (\<forall>x \<in> set (db_reservations w). row_id x \<in> ids \<longrightarrow> tenant_id x = t)"

abbreviation ledger_in :: "uuid \<Rightarrow> uuid set \<Rightarrow> world \<Rightarrow> bool" where
  "ledger_in t ids w \<equiv> ledger w \<and> owned t ids w"

lemma settled_row:
  assumes "x \<in> set (db_reservations (settled f st r w))"
  obtains y where "y \<in> set (db_reservations w)" and "row_id x = row_id y" and "tenant_id x = tenant_id y"
proof -
  from assms obtain y where "y \<in> set (db_reservations w)"
    and "x = (if row_id y = row_id r then set_res_status st (clock w) y else y)"
    by (auto simp: settled_def set_upd_where)
  with that show ?thesis by simp
qed

lemma owned_settled:
  assumes "owned t ids w"
  shows "owned t ids (settled f st r w)"
  unfolding owned_def
proof (intro conjI ballI impI)
  show "tenant_ctx (settled f st r w) = Some t" using assms by (simp add: owned_def)
  fix x assume x: "x \<in> set (db_reservations (settled f st r w))" and i: "row_id x \<in> ids"
  from x obtain y where "y \<in> set (db_reservations w)" "row_id x = row_id y" "tenant_id x = tenant_id y"
    by (rule settled_row)
  with assms i show "tenant_id x = t" by (simp add: owned_def)
qed

lemma refresh_reservation:
  assumes "refresh_from_db reservations_tbl r w = (Inr x, w')"
  shows "w' = w" and "x \<in> set (db_reservations w)" and "row_id x = row_id r"
proof -
  have g: "get_row_all reservations_tbl (\<lambda>y. row_id y = row_id r) (DoesNotExist (tbl_name reservations_tbl)) w
    = (Inr x, w')"
    using assms by (simp add: refresh_from_db_def follow_def)
  from get_row_all_Inr [OF g] show "w' = w" and "x \<in> set (db_reservations w)" and "row_id x = row_id r"
    by simp_all
qed

lemma settle_if_ledger:
  assumes "settlement f expected st" and "row_id r \<in> ids"
  shows "preserves (ledger_in t ids) (settle_if expected f st r)"
proof (rule preservesI)
  fix w res w' assume I: "ledger_in t ids w" and eq: "settle_if expected f st r w = (res, w')"
  show "ledger_in t ids w'"
  proof (cases "refresh_from_db reservations_tbl r w")
    case (Pair r1 w1)
    show ?thesis
    proof (cases r1)
      case (Inl e)
      then have "w1 = w"
        using Pair get_row_all_Inl by (fastforce simp: refresh_from_db_def follow_def)
      with Pair Inl eq I show ?thesis by (simp add: settle_if_def bindE_def)
    next
      case (Inr x)
      with Pair have "refresh_from_db reservations_tbl r w = (Inr x, w1)" by simp
      note x = refresh_reservation [OF this]
      show ?thesis
      proof (cases "res_status x = expected")
        case False
        with Pair Inr eq I x show ?thesis by (simp add: settle_if_def bindE_def)
      next
        case True
        have ctx: "tenant_ctx w = Some (tenant_id x)"
          using I x assms(2) by (simp add: owned_def)
        have s: "settlement f (res_status x) st" using True assms(1) by simp
        have "settle f st x w = (Inr (), settled f st x w)"
          using I x ctx s by (intro settle_run) auto
        with True Pair Inr eq x have "w' = settled f st x w"
          by (simp add: settle_if_def bindE_def)
        with I x s show ?thesis by (simp add: ledger_settled owned_settled)
      qed
    qed
  qed
qed

lemma ledger_of_tables: "ledger (w\<lparr>on_commit_hooks := a, task_queue := b, atomic_depth := c\<rparr>) = ledger w"
  by (simp add: ledger_def)

lemma preserves_ledger_atomic:
  assumes "preserves (ledger_in t ids) m"
  shows "preserves (ledger_in t ids) (atomic m)"
  using assms
  by (rule preserves_atomic)
    (auto simp: ledger_def owned_def enter_atomic_def rollback_def commit_def)

lemma settlements:
  "settlement sub_reserved ResActive ResReleased" "settlement sub_both ResActive ResCommitted"
  "settlement add_stock ResCommitted ResReleased"
  by (simp_all add: settlement_def)

lemma release_reservations_ledger: "preserves (ledger_in t (row_id ` set rs)) (release_reservations rs)"
  unfolding release_reservations_def
  by (intro preserves_ledger_atomic preserves_for_each settle_if_ledger settlements imageI)

lemma commit_reservations_ledger: "preserves (ledger_in t (row_id ` set rs)) (commit_reservations rs)"
  unfolding commit_reservations_def
  by (intro preserves_ledger_atomic preserves_for_each settle_if_ledger settlements imageI)

lemma reverse_committed_ledger: "preserves (ledger_in t (row_id ` set rs)) (reverse_committed_reservations rs)"
  unfolding reverse_committed_reservations_def
  by (intro preserves_ledger_atomic preserves_for_each settle_if_ledger settlements imageI)

subsection \<open>What reserving does\<close>

lemma qty_of_nonneg:
  assumes "\<forall>i \<in> set items. 0 \<le> item_quantity i"
  shows "0 \<le> qty_of items p"
proof (cases "map_of (item_qtys items) p")
  case None
  then show ?thesis by (simp add: qty_of_def)
next
  case (Some q)
  then have "map_of (rev (map (\<lambda>i. (item_product i, item_quantity i)) items)) p = Some q"
    by (simp add: item_qtys_def dict_of_pairs_def map_of_dict_update split: option.splits)
  then have "(p, q) \<in> set (map (\<lambda>i. (item_product i, item_quantity i)) items)"
    by (metis map_of_SomeD set_rev)
  then have "0 \<le> q" using assms by auto
  with Some show ?thesis by (simp add: qty_of_def)
qed

lemma qty_of_distinct:
  assumes "distinct (map item_product items)" and "i \<in> set items"
  shows "qty_of items (item_product i) = item_quantity i"
proof -
  have "distinct (map fst (map (\<lambda>i. (item_product i, item_quantity i)) items))"
    using assms(1) by (simp add: comp_def)
  then have "item_qtys items = map (\<lambda>i. (item_product i, item_quantity i)) items"
    and "map_of (map (\<lambda>i. (item_product i, item_quantity i)) items) (item_product i) = Some (item_quantity i)"
    using assms(2) by (auto simp: item_qtys_def intro!: map_of_is_SomeI)
  then show ?thesis by (simp add: qty_of_def)
qed

definition reserve_rows :: "cart_item list \<Rightarrow> uuid set \<Rightarrow> product list \<Rightarrow> product list" where
  "reserve_rows items ids ps =
     upd_where (\<lambda>p. row_id p \<in> ids) (\<lambda>p. add_reserved (qty_of items (row_id p)) p) ps"

definition fresh_reservation :: "uuid \<Rightarrow> uuid \<Rightarrow> time \<Rightarrow> time \<Rightarrow> cart_item list \<Rightarrow> uuid \<Rightarrow> uuid \<Rightarrow> reservation" where
  "fresh_reservation cart t now expires items i p =
     stamp i t now (new_reservation cart p (qty_of items p) expires)"

definition fresh_reservations ::
  "uuid \<Rightarrow> uuid \<Rightarrow> time \<Rightarrow> time \<Rightarrow> cart_item list \<Rightarrow> nat \<Rightarrow> uuid list \<Rightarrow> reservation list" where
  "fresh_reservations cart t now expires items n pids =
     map (\<lambda>(k, p). fresh_reservation cart t now expires items (n + k) p) (enumerate 0 pids)"

lemma fresh_reservations_Cons:
  "fresh_reservations cart t now expires items n (p # ps) =
     fresh_reservation cart t now expires items n p #
     fresh_reservations cart t now expires items (Suc n) ps"
proof -
  have "enumerate (Suc 0) ps = map (\<lambda>(k, p). (Suc k, p)) (enumerate 0 ps)"
    by (simp add: enumerate_Suc_eq case_prod_unfold apfst_def map_prod_def)
  then show ?thesis by (simp add: fresh_reservations_def case_prod_unfold)
qed

lemma reserve_rows_step:
  assumes "p \<notin> ids"
  shows "reserve_rows items ids (upd_where (\<lambda>r. row_id r = p) (add_reserved (qty_of items p)) ps)
    = reserve_rows items (insert p ids) ps"
  using assms by (induction ps) (auto simp: reserve_rows_def add_reserved_def)

lemma reserve_product_Inr:
  assumes "reserve_product cart expires items p w = (Inr r, w')" and "tenant_ctx w = Some t"
    and own: "\<And>x. x \<in> set (db_products w) \<Longrightarrow> row_id x = row_id p \<Longrightarrow> tenant_id x = t"
  shows "r = fresh_reservation cart t (clock w) expires items (fresh_id w) (row_id p)"
    and "w' = w\<lparr>db_products := upd_where (\<lambda>x. row_id x = row_id p) (add_reserved (qty_of items (row_id p))) (db_products w),
                db_reservations := db_reservations w @ [r], fresh_id := Suc (fresh_id w)\<rparr>"
    and "tbl_ok products_tbl (db_products w')" and "tbl_ok reservations_tbl (db_reservations w')"
proof -
  let ?q = "qty_of items (row_id p)"
  let ?r = "fresh_reservation cart t (clock w) expires items (fresh_id w) (row_id p)"
  have scope: "upd_where (\<lambda>x. in_scope w x \<and> row_id x = row_id p) (add_reserved ?q) (db_products w)
    = upd_where (\<lambda>x. row_id x = row_id p) (add_reserved ?q) (db_products w)"
    using own assms(2) by (intro upd_where_cong) (auto simp: in_scope_def)
  have *: "tbl_ok reservations_tbl (db_reservations w @ [?r]) \<and>
      tbl_ok products_tbl (upd_where (\<lambda>x. row_id x = row_id p) (add_reserved ?q) (db_products w)) \<and>
      r = ?r \<and>
      w' = w\<lparr>db_products := upd_where (\<lambda>x. row_id x = row_id p) (add_reserved ?q) (db_products w),
             db_reservations := db_reservations w @ [?r], fresh_id := Suc (fresh_id w)\<rparr>"
    using assms(1,2) scope
    by (auto simp: reserve_product_def Let_def bindE_def create_simp insert_row_def update_rows_def
        update_where_def write_rows_def fresh_reservation_def in_scope_def split: if_splits)
  then show "r = ?r" and "tbl_ok products_tbl (db_products w')" and "tbl_ok reservations_tbl (db_reservations w')"
    and "w' = w\<lparr>db_products := upd_where (\<lambda>x. row_id x = row_id p) (add_reserved (qty_of items (row_id p))) (db_products w),
                db_reservations := db_reservations w @ [r], fresh_id := Suc (fresh_id w)\<rparr>"
    by simp_all
qed

lemma reserve_list_Inr:
  assumes "map_each (reserve_product cart expires items) ps w = (Inr rs, w')"
    and "tenant_ctx w = Some t" and "distinct (map row_id ps)"
    and "\<And>x. x \<in> set (db_products w) \<Longrightarrow> row_id x \<in> row_id ` set ps \<Longrightarrow> tenant_id x = t"
    and "tbl_ok products_tbl (db_products w)" and "tbl_ok reservations_tbl (db_reservations w)"
  shows "rs = fresh_reservations cart t (clock w) expires items (fresh_id w) (map row_id ps) \<and>
    w' = w\<lparr>db_products := reserve_rows items (row_id ` set ps) (db_products w),
           db_reservations := db_reservations w @ rs, fresh_id := fresh_id w + length ps\<rparr> \<and>
    tbl_ok products_tbl (db_products w') \<and> tbl_ok reservations_tbl (db_reservations w')"
  using assms
proof (induction ps arbitrary: w rs)
  case Nil
  then show ?case by (simp add: fresh_reservations_def reserve_rows_def upd_where_def)
next
  case (Cons p ps)
  obtain r w1 rs' where r: "reserve_product cart expires items p w = (Inr r, w1)"
    and rs': "map_each (reserve_product cart expires items) ps w1 = (Inr rs', w')" and rs: "rs = r # rs'"
    using Cons.prems(1) by (auto simp: bindE_def split: prod.splits sum.splits)
  have "\<And>x. x \<in> set (db_products w) \<Longrightarrow> row_id x = row_id p \<Longrightarrow> tenant_id x = t"
    using Cons.prems(4) by simp
  note one = reserve_product_Inr [OF r Cons.prems(2) this]
  have own1: "tenant_id x = t" if "x \<in> set (db_products w1)" "row_id x \<in> row_id ` set ps" for x
  proof -
    from that(1) one(2) obtain y where "y \<in> set (db_products w)" "row_id x = row_id y" "tenant_id x = tenant_id y"
      by (auto simp: set_upd_where add_reserved_def split: if_splits)
    with that(2) Cons.prems(4) show ?thesis by auto
  qed
  have ctx1: "tenant_ctx w1 = Some t" and frame: "clock w1 = clock w" "fresh_id w1 = Suc (fresh_id w)"
    using one(2) Cons.prems(2) by simp_all
  have "row_id p \<notin> row_id ` set ps" using Cons.prems(3) by simp
  note step = reserve_rows_step [OF this]
  have IH: "rs' = fresh_reservations cart t (clock w1) expires items (fresh_id w1) (map row_id ps) \<and>
    w' = w1\<lparr>db_products := reserve_rows items (row_id ` set ps) (db_products w1),
           db_reservations := db_reservations w1 @ rs', fresh_id := fresh_id w1 + length ps\<rparr> \<and>
    tbl_ok products_tbl (db_products w') \<and> tbl_ok reservations_tbl (db_reservations w')"
    using rs' ctx1 Cons.prems(3) own1 one(3,4) by (intro Cons.IH) simp_all
  have "rs = fresh_reservations cart t (clock w) expires items (fresh_id w) (map row_id (p # ps))"
    using IH one(1) frame rs by (simp add: fresh_reservations_Cons)
  moreover have "w' = w\<lparr>db_products := reserve_rows items (row_id ` set (p # ps)) (db_products w),
           db_reservations := db_reservations w @ rs, fresh_id := fresh_id w + length (p # ps)\<rparr>"
    using conjunct1 [OF conjunct2 [OF IH]] one(2) frame step rs by simp
  ultimately show ?case using IH by blast
qed

lemma reserve_stock_Inr:
  assumes "reserve_stock cart items w = (Inr rs, w')" and ctx: "tenant_ctx w = Some t"
    and ok: "tbl_ok products_tbl (db_products w)" "tbl_ok reservations_tbl (db_reservations w)"
  obtains ps w1 where
    "set ps = {p \<in> set (db_products w). tenant_id p = t \<and> row_id p \<in> item_product ` set items}"
    and "distinct (map row_id ps)"
    and "\<forall>p \<in> set ps. qty_of items (row_id p) \<le> available_quantity p"
    and "rs = fresh_reservations cart t (clock w) (clock w + reservation_ttl) items (fresh_id w) (map row_id ps)"
    and "w1 = w\<lparr>db_products := reserve_rows items (row_id ` set ps) (db_products w),
           db_reservations := db_reservations w @ rs, fresh_id := fresh_id w + length ps\<rparr>"
    and "tables w' = tables w1" and "tenant_ctx w' = Some t" and "clock w' = clock w"
    and "fresh_id w' = fresh_id w1"
    and "tbl_ok products_tbl (db_products w')" and "tbl_ok reservations_tbl (db_reservations w')"
proof -
  let ?found = "filter (\<lambda>p. row_id p \<in> set (map item_product items)) (objects products_tbl w)"
  let ?ps = "sort_key row_id ?found"
  let ?w0 = "enter_atomic w"
  have objs: "objects products_tbl ?w0 = objects products_tbl w"
    by (simp add: objects_def enter_atomic_def split: option.split)
  have "insufficient_items items ?ps = [] \<and>
      (\<exists>w1. map_each (reserve_product cart (clock w + reservation_ttl) items) ?ps ?w0 = (Inr rs, w1) \<and>
            w' = commit w w1)"
    using assms(1)
    by (auto simp: reserve_stock_def bindE_def current_time_def filter_rows_def atomic_def atomic_with_def
        objs Let_def split: prod.splits sum.splits if_splits)
  then obtain w1 where none: "insufficient_items items ?ps = []"
    and m: "map_each (reserve_product cart (clock w + reservation_ttl) items) ?ps ?w0 = (Inr rs, w1)"
    and w': "w' = commit w w1" by blast
  have ctx0: "tenant_ctx ?w0 = Some t" and frame0: "clock ?w0 = clock w" "fresh_id ?w0 = fresh_id w"
    "db_products ?w0 = db_products w" "db_reservations ?w0 = db_reservations w"
    using ctx by (simp_all add: enter_atomic_def)
  have set_ps: "set ?ps = {p \<in> set (db_products w). tenant_id p = t \<and> row_id p \<in> item_product ` set items}"
    using ctx by (auto simp: objects_def)
  have "distinct (map row_id (db_products w))" using ok(1) by (simp add: products_ok)
  then have inj: "inj_on row_id (set (db_products w))" and "distinct (db_products w)"
    by (simp_all add: distinct_map)
  then have "distinct ?ps" and "set ?ps \<subseteq> set (db_products w)"
    using ctx by (auto simp: objects_def)
  with inj have d: "distinct (map row_id ?ps)" by (auto simp: distinct_map intro: inj_on_subset)
  have own: "tenant_id x = t" if "x \<in> set (db_products ?w0)" "row_id x \<in> row_id ` set ?ps" for x
  proof -
    from that(2) obtain p where "p \<in> set ?ps" "row_id x = row_id p" by blast
    with that(1) inj set_ps frame0 have "x = p" by (auto dest: inj_onD)
    with \<open>p \<in> set ?ps\<close> set_ps show ?thesis by blast
  qed
  have res: "rs = fresh_reservations cart t (clock ?w0) (clock w + reservation_ttl) items (fresh_id ?w0) (map row_id ?ps) \<and>
    w1 = ?w0\<lparr>db_products := reserve_rows items (row_id ` set ?ps) (db_products ?w0),
           db_reservations := db_reservations ?w0 @ rs, fresh_id := fresh_id ?w0 + length ?ps\<rparr> \<and>
    tbl_ok products_tbl (db_products w1) \<and> tbl_ok reservations_tbl (db_reservations w1)"
    using m ctx0 d own ok frame0 by (intro reserve_list_Inr) simp_all
  have enough: "\<forall>p \<in> set ?ps. qty_of items (row_id p) \<le> available_quantity p"
    using none by (auto simp: insufficient_items_def filter_empty_conv)
  have eqs: "tables w' = tables w1" "tenant_ctx w' = tenant_ctx w1" "clock w' = clock w1" "fresh_id w' = fresh_id w1"
    "db_products w' = db_products w1" "db_reservations w' = db_reservations w1"
    by (simp_all add: w' commit_def tables_def)
  let ?w2 = "w\<lparr>db_products := reserve_rows items (row_id ` set ?ps) (db_products w),
           db_reservations := db_reservations w @ rs, fresh_id := fresh_id w + length ?ps\<rparr>"
  have w1: "tables w1 = tables ?w2" "tenant_ctx w1 = Some t" "clock w1 = clock w" "fresh_id w1 = fresh_id ?w2"
    using conjunct1 [OF conjunct2 [OF res]] frame0 ctx0 by (simp_all add: tables_def enter_atomic_def)
  show ?thesis
  proof (rule that [of ?ps ?w2])
    show "rs = fresh_reservations cart t (clock w) (clock w + reservation_ttl) items (fresh_id w) (map row_id ?ps)"
      using conjunct1 [OF res] frame0 by simp
    show "tbl_ok products_tbl (db_products w')" and "tbl_ok reservations_tbl (db_reservations w')"
      unfolding eqs using res by blast+
  qed (use set_ps d enough eqs w1 in \<open>simp_all only:\<close>)
qed

lemma tables_db:
  assumes "tables w = tables w'"
  shows "db_products w = db_products w'" and "db_reservations w = db_reservations w'"
    and "db_carts w = db_carts w'" and "db_orders w = db_orders w'" and "db_payments w = db_payments w'"
    and "db_coupons w = db_coupons w'"
proof -
  have "db_products w = db_products (tables w)" "db_reservations w = db_reservations (tables w)"
    "db_carts w = db_carts (tables w)" "db_orders w = db_orders (tables w)"
    "db_payments w = db_payments (tables w)" "db_coupons w = db_coupons (tables w)" for w
    by (simp_all add: tables_def)
  with assms show "db_products w = db_products w'" "db_reservations w = db_reservations w'"
    "db_carts w = db_carts w'" "db_orders w = db_orders w'" "db_payments w = db_payments w'"
    "db_coupons w = db_coupons w'" by metis+
qed

lemma ledger_tables: "tables w = tables w' \<Longrightarrow> ledger w \<longleftrightarrow> ledger w'"
  by (simp add: ledger_def tables_db [of w w'])

lemma fresh_reservation_simps [simp]:
  "row_id (fresh_reservation cart t now expires items i p) = i"
  "tenant_id (fresh_reservation cart t now expires items i p) = t"
  "res_product (fresh_reservation cart t now expires items i p) = p"
  "res_quantity (fresh_reservation cart t now expires items i p) = qty_of items p"
  "res_status (fresh_reservation cart t now expires items i p) = ResActive"
  "res_order (fresh_reservation cart t now expires items i p) = None"
  "res_cart (fresh_reservation cart t now expires items i p) = cart"
  "res_expires_at (fresh_reservation cart t now expires items i p) = expires"
  by (simp_all add: fresh_reservation_def stamp_def new_reservation_def)

lemma fresh_reservations_Nil [simp]: "fresh_reservations cart t now expires items n [] = []"
  by (simp add: fresh_reservations_def)

lemma active_qty_append: "active_qty (xs @ ys) p = active_qty xs p + active_qty ys p"
  by (simp add: active_qty_def)

lemma active_qty_fresh:
  "distinct pids \<Longrightarrow> active_qty (fresh_reservations cart t now expires items n pids) p
     = (if p \<in> set pids then qty_of items p else 0)"
proof (induction pids arbitrary: n)
  case Nil
  then show ?case by (simp add: active_qty_def)
next
  case (Cons q pids)
  then show ?case by (auto simp: fresh_reservations_Cons active_qty_Cons holds_stock_def)
qed

lemma set_fresh_reservations:
  assumes "r \<in> set (fresh_reservations cart t now expires items n pids)"
  obtains k p where "p \<in> set pids" and "k < length pids"
    and "r = fresh_reservation cart t now expires items (n + k) p"
  using assms by (force simp: fresh_reservations_def in_set_enumerate_eq)

lemma ledger_reserved:
  assumes l: "ledger w"
    and ps: "set ps = {p \<in> set (db_products w). tenant_id p = t \<and> row_id p \<in> item_product ` set items}"
    and d: "distinct (map row_id ps)" and q: "\<forall>i \<in> set items. 0 \<le> item_quantity i"
    and rs: "rs = fresh_reservations cart t now expires items n (map row_id ps)"
    and ok: "tbl_ok products_tbl (reserve_rows items (row_id ` set ps) (db_products w))"
      "tbl_ok reservations_tbl (db_reservations w @ rs)"
  shows "ledger (w\<lparr>db_products := reserve_rows items (row_id ` set ps) (db_products w),
           db_reservations := db_reservations w @ rs, fresh_id := m\<rparr>)"
proof -
  let ?ps' = "reserve_rows items (row_id ` set ps) (db_products w)"
  have keep: "row_id (add_reserved k p) = row_id p" "tenant_id (add_reserved k p) = tenant_id p" for k p
    by (simp_all add: add_reserved_def)
  have "prod_reserved_quantity p' = active_qty (db_reservations w @ rs) (row_id p')" if "p' \<in> set ?ps'" for p'
  proof -
    from that obtain p where p: "p \<in> set (db_products w)"
      "p' = (if row_id p \<in> row_id ` set ps then add_reserved (qty_of items (row_id p)) p else p)"
      by (auto simp: reserve_rows_def set_upd_where)
    have "active_qty rs (row_id p) = (if row_id p \<in> row_id ` set ps then qty_of items (row_id p) else 0)"
      unfolding rs using d by (simp add: active_qty_fresh)
    with l p show ?thesis by (auto simp: ledger_def active_qty_append add_reserved_def)
  qed
  moreover have "backed ?ps' r" if "r \<in> set (db_reservations w @ rs)" for r
  proof -
    have "backed (db_products w) r"
    proof (cases "r \<in> set rs")
      case True
      then obtain k p where p: "p \<in> set (map row_id ps)"
        and r: "r = fresh_reservation cart t now expires items (n + k) p"
        unfolding rs by (rule set_fresh_reservations)
      then show ?thesis using ps qty_of_nonneg [OF q] by (auto simp: backed_def)
    next
      case False
      with that l show ?thesis by (simp add: ledger_def)
    qed
    then show ?thesis unfolding reserve_rows_def by (rule backed_upd) (simp_all add: keep)
  qed
  ultimately show ?thesis using ok by (simp add: ledger_def)
qed

lemma reserve_stock_ledger:
  assumes l: "ledger w" and ctx: "tenant_ctx w = Some t" and q: "\<forall>i \<in> set items. 0 \<le> item_quantity i"
    and run: "reserve_stock cart items w = (res, w')"
  shows "ledger w'"
proof (cases res)
  case (Inl e)
  then have "tables w' = tables w"
    using run by (auto simp: reserve_stock_def bindE_def current_time_def dest: atomic_failed_tables)
  with l ledger_tables show ?thesis by blast
next
  case (Inr rs)
  have ok: "tbl_ok products_tbl (db_products w)" "tbl_ok reservations_tbl (db_reservations w)"
    using l by (simp_all add: ledger_def)
  from run Inr have run': "reserve_stock cart items w = (Inr rs, w')" by simp
  show ?thesis
  proof (rule reserve_stock_Inr [OF run' ctx ok])
    fix ps w1
    assume ps: "set ps = {p \<in> set (db_products w). tenant_id p = t \<and> row_id p \<in> item_product ` set items}"
      and d: "distinct (map row_id ps)"
      and rs: "rs = fresh_reservations cart t (clock w) (clock w + reservation_ttl) items (fresh_id w) (map row_id ps)"
      and w1: "w1 = w\<lparr>db_products := reserve_rows items (row_id ` set ps) (db_products w),
           db_reservations := db_reservations w @ rs, fresh_id := fresh_id w + length ps\<rparr>"
      and eq: "tables w' = tables w1"
      and oks: "tbl_ok products_tbl (db_products w')" "tbl_ok reservations_tbl (db_reservations w')"
    have "ledger w1" unfolding w1
      using oks tables_db [OF eq] w1 by (intro ledger_reserved [OF l ps d q rs]) simp_all
    with eq ledger_tables show "ledger w'" by blast
  qed
qed

subsection \<open>The beat task ends, and leaves nothing expired\<close>

definition revert_carts :: "uuid set \<Rightarrow> cart list \<Rightarrow> cart list" where
  "revert_carts ids cs =
     upd_where (\<lambda>c. row_id c \<in> ids \<and> cart_status c = CartCheckingOut) (\<lambda>c. c\<lparr>cart_status := CartActive\<rparr>) cs"

text \<open>
  Reverting these carts leaves every customer with one active cart: what the partial unique constraint asks
  for. Reverting some of them is then possible too.
\<close>

definition revertible :: "uuid set \<Rightarrow> world \<Rightarrow> bool" where
  "revertible ids w \<longleftrightarrow> tbl_ok carts_tbl (revert_carts ids (db_carts w))"

lemma carts_ok:
  "tbl_ok carts_tbl cs \<longleftrightarrow> distinct (map row_id cs) \<and> distinct (map cart_customer (filter is_active_cart cs))"
  by (simp add: carts_tbl_def pk_ok_def)

lemma map_row_id_revert [simp]: "map row_id (revert_carts ids cs) = map row_id cs"
  unfolding revert_carts_def by (rule map_upd_where) simp

lemma active_customers_revert_mono:
  assumes "ids \<subseteq> ids'" and "distinct (map cart_customer (filter is_active_cart (revert_carts ids' cs)))"
  shows "distinct (map cart_customer (filter is_active_cart (revert_carts ids cs))) \<and>
    set (map cart_customer (filter is_active_cart (revert_carts ids cs)))
      \<subseteq> set (map cart_customer (filter is_active_cart (revert_carts ids' cs)))"
  using assms(2)
proof (induction cs)
  case Nil
  then show ?case by (simp add: revert_carts_def)
next
  case (Cons c cs)
  have *: "revert_carts i (c # cs) =
      (if row_id c \<in> i \<and> cart_status c = CartCheckingOut then c\<lparr>cart_status := CartActive\<rparr> else c) # revert_carts i cs"
    for i by (simp add: revert_carts_def)
  from Cons.prems have "distinct (map cart_customer (filter is_active_cart (revert_carts ids' cs)))"
    by (simp add: * split: if_splits)
  note IH = Cons.IH [OF this]
  show ?case using IH Cons.prems assms(1) by (auto simp: * is_active_cart_def split: if_splits)
qed

lemma revertible_mono:
  assumes "ids \<subseteq> ids'" and "revertible ids' w"
  shows "revertible ids w"
  using assms active_customers_revert_mono [OF assms(1)] by (simp add: revertible_def carts_ok)

lemma revert_revert:
  "ids \<subseteq> ids' \<Longrightarrow> revert_carts ids' (revert_carts ids cs) = revert_carts ids' cs"
  by (induction cs) (auto simp: revert_carts_def)

lemma revert_checking_out_run:
  "revert_checking_out c w =
     (if revertible {c} w then (Inr (), w\<lparr>db_carts := revert_carts {c} (db_carts w)\<rparr>)
      else (Inl (IntegrityError (tbl_name carts_tbl)), w))"
  by (simp add: revert_checking_out_def update_rows_all_def bindE_def update_where_def write_rows_def
      revertible_def revert_carts_def)

definition expired_one :: "reservation \<Rightarrow> world \<Rightarrow> world" where
  "expired_one r w =
     (settled sub_reserved ResReleased r w)\<lparr>db_carts := revert_carts {res_cart r} (db_carts w)\<rparr>"

lemma expired_one_db [simp]:
  "db_reservations (expired_one r w) = db_reservations (settled sub_reserved ResReleased r w)"
  "db_products (expired_one r w) = db_products (settled sub_reserved ResReleased r w)"
  "db_carts (expired_one r w) = revert_carts {res_cart r} (db_carts w)"
  "clock (expired_one r w) = clock w"
  by (simp_all add: expired_one_def)

lemma expire_one_run:
  assumes "ledger w" and "r \<in> set (db_reservations w)" and "res_status r = ResActive"
  shows "expire_one r w =
    (if revertible {res_cart r} w then (Inr (), expired_one r w)
     else (Inl (IntegrityError (tbl_name carts_tbl)), settled sub_reserved ResReleased r w))"
proof -
  have "settle_unscoped sub_reserved ResReleased r w = (Inr (), settled sub_reserved ResReleased r w)"
    using assms by (intro settle_unscoped_run) (simp_all add: settlements)
  then show ?thesis
    by (simp add: expire_one_def seqE_Inr revert_checking_out_run expired_one_def revertible_def)
qed

lemma ledger_expired_one:
  assumes "ledger w" and "r \<in> set (db_reservations w)" and "res_status r = ResActive"
  shows "ledger (expired_one r w)"
proof -
  have "ledger (settled sub_reserved ResReleased r w)"
    using assms by (intro ledger_settled) (simp_all add: settlements)
  then show ?thesis by (simp add: ledger_def)
qed

lemma count_settled:
  assumes "distinct (map row_id rs)" and "r \<in> set rs" and "is_expired now r"
  shows "Suc (length (filter (is_expired now) (upd_where (\<lambda>x. row_id x = row_id r) (set_res_status ResReleased c) rs)))
    = length (filter (is_expired now) rs)"
  using assms(1,2)
proof (induction rs)
  case Nil
  then show ?case by simp
next
  case (Cons x xs)
  show ?case
  proof (cases "x = r")
    case True
    then have "row_id r \<notin> row_id ` set xs" using Cons.prems(1) by simp
    then have "upd_where (\<lambda>x. row_id x = row_id r) (set_res_status ResReleased c) xs = xs"
      by (intro upd_where_none) (metis imageI)
    with True assms(3) show ?thesis by (simp add: is_expired_def)
  next
    case False
    with Cons.prems have "r \<in> set xs" "row_id x \<noteq> row_id r" by auto
    with Cons show ?thesis by simp
  qed
qed

definition expirable :: "time \<Rightarrow> reservation list \<Rightarrow> world \<Rightarrow> bool" where
  "expirable now rs w \<longleftrightarrow> ledger w \<and> distinct (map row_id rs) \<and> set rs \<subseteq> set (expired_rows now w)"

lemma expirable_step:
  assumes "expirable now (r # rs) w"
  shows "expirable now rs (expired_one r w)"
    and "Suc (length (expired_rows now (expired_one r w))) = length (expired_rows now w)"
proof -
  from assms have l: "ledger w" and r: "r \<in> set (db_reservations w)" "is_expired now r"
    and rest: "set rs \<subseteq> set (expired_rows now w)" "row_id r \<notin> row_id ` set rs" "distinct (map row_id rs)"
    by (auto simp: expirable_def expired_rows_def)
  have d: "distinct (map row_id (db_reservations w))" using l by (simp add: ledger_def reservations_ok)
  have "x \<in> set (expired_rows now (expired_one r w))" if "x \<in> set rs" for x
  proof -
    have "row_id x \<noteq> row_id r" using that rest(2) by (metis imageI)
    moreover have "x \<in> set (db_reservations w)" "is_expired now x"
      using that rest(1) by (auto simp: expired_rows_def)
    ultimately show ?thesis by (simp add: expired_rows_def settled_other)
  qed
  moreover have "ledger (expired_one r w)"
    using l r by (intro ledger_expired_one) (simp_all add: is_expired_def)
  ultimately show "expirable now rs (expired_one r w)"
    using rest(3) by (auto simp: expirable_def)
  show "Suc (length (expired_rows now (expired_one r w))) = length (expired_rows now w)"
    using count_settled [OF d r(1) r(2)] by (simp add: expired_rows_def settled_def)
qed

lemma expire_list_cases:
  assumes "expirable now rs w"
  shows "case for_each expire_one rs w of
      (Inl e, w') \<Rightarrow> e = IntegrityError (tbl_name carts_tbl) \<and> \<not> revertible (res_cart ` set rs) w
    | (Inr _, w') \<Rightarrow> w' = fold expired_one rs w \<and> ledger w' \<and>
        length (expired_rows now w') + length rs = length (expired_rows now w)"
  using assms
proof (induction rs arbitrary: w)
  case Nil
  then show ?case by (simp add: expirable_def)
next
  case (Cons r rs)
  from Cons.prems have "ledger w" "r \<in> set (db_reservations w)" "res_status r = ResActive"
    by (auto simp: expirable_def expired_rows_def is_expired_def)
  note run = expire_one_run [OF this]
  show ?case
  proof (cases "revertible {res_cart r} w")
    case False
    then have "\<not> revertible (res_cart ` set (r # rs)) w"
      using revertible_mono [of "{res_cart r}" "res_cart ` set (r # rs)" w] by auto
    with False run show ?thesis by (simp add: seqE_def bindE_def)
  next
    case True
    note IH = Cons.IH [OF expirable_step(1) [OF Cons.prems]]
    have run': "for_each expire_one (r # rs) w = for_each expire_one rs (expired_one r w)"
      using True run by (simp add: seqE_Inr)
    have rev: "revertible (res_cart ` set rs) (expired_one r w)" if "revertible (res_cart ` set (r # rs)) w"
    proof -
      have "revertible (insert (res_cart r) (res_cart ` set rs)) (expired_one r w)"
        using that by (simp add: revertible_def revert_revert)
      then show ?thesis by (rule revertible_mono [rotated]) auto
    qed
    show ?thesis
      using IH rev expirable_step(2) [OF Cons.prems] unfolding run'
      by (auto split: prod.splits sum.splits)
  qed
qed

lemma fold_expired_one_carts:
  "db_carts (fold expired_one rs w) = fold (\<lambda>r. revert_carts {res_cart r}) rs (db_carts w)"
  by (induction rs arbitrary: w) simp_all

lemma revert_fold:
  "res_cart ` set rs \<subseteq> ids \<Longrightarrow> revert_carts ids (fold (\<lambda>r. revert_carts {res_cart r}) rs cs) = revert_carts ids cs"
  by (induction rs arbitrary: cs) (simp_all add: revert_revert)

lemma expired_fold_subset:
  "set (expired_rows now (fold expired_one rs w)) \<subseteq> set (expired_rows now w)"
proof (induction rs arbitrary: w)
  case Nil
  then show ?case by simp
next
  case (Cons r rs)
  have "set (expired_rows now (expired_one r w)) \<subseteq> set (expired_rows now w)"
    by (auto simp: expired_rows_def settled_def set_upd_where is_expired_def)
  with Cons [of "expired_one r w"] show ?case by simp
qed

lemma expired_of_tables: "tables w = tables w' \<Longrightarrow> expired_rows now w = expired_rows now w'"
  by (simp add: expired_rows_def tables_db [of w w'])

lemma atomic_Inr:
  assumes "m (enter_atomic w) = (Inr x, w1)"
  shows "atomic m w = (Inr x, commit w w1)"
  using assms by (simp add: atomic_def atomic_with_def)

lemma atomic_Inl:
  assumes "m (enter_atomic w) = (Inl e, w1)"
  shows "atomic m w = (Inl e, rollback w w1)"
  using assms by (simp add: atomic_def atomic_with_def)

lemma tables_commit [simp]: "tables (commit w w1) = tables w1"
  by (simp add: commit_def tables_def)

lemma tables_enter [simp]: "tables (enter_atomic w) = tables w"
  by (simp add: enter_atomic_def tables_def)

lemma tables_rollback [simp]: "tables (rollback w w1) = tables w"
  by (simp add: rollback_def tables_def)

lemma expirable_batch: "ledger w \<Longrightarrow> expirable now (take 100 (expired_rows now w)) w"
proof -
  assume l: "ledger w"
  then have "distinct (map row_id (db_reservations w))" by (simp add: ledger_def reservations_ok)
  then have "distinct (map row_id (expired_rows now w))"
    by (simp add: expired_rows_def distinct_map_filter)
  then have "distinct (map row_id (take 100 (expired_rows now w)))"
    by (metis distinct_take take_map)
  with l show ?thesis by (auto simp: expirable_def dest: in_set_takeD)
qed

lemma expire_batch_cases:
  assumes l: "ledger w"
  shows "case expire_batch now w of
      (Inl e, w') \<Rightarrow> tables w' = tables w \<and> \<not> revertible (res_cart ` set (expired_rows now w)) w
    | (Inr n, w') \<Rightarrow> n = length (take 100 (expired_rows now w)) \<and> ledger w' \<and>
        length (expired_rows now w') + n = length (expired_rows now w) \<and>
        (\<forall>ids. res_cart ` set (expired_rows now w) \<subseteq> ids \<longrightarrow> revertible ids w \<longrightarrow>
           revertible ids w' \<and> res_cart ` set (expired_rows now w') \<subseteq> ids)"
proof -
  let ?w0 = "enter_atomic w" and ?b = "take 100 (expired_rows now w)"
  have same: "expired_rows now ?w0 = expired_rows now w" by (rule expired_of_tables) simp
  have l0: "ledger ?w0" using l ledger_tables [of ?w0 w] by simp
  have e0: "expirable now ?b ?w0" using expirable_batch [OF l0, of now] same by simp
  have sub: "res_cart ` set ?b \<subseteq> res_cart ` set (expired_rows now w)" by (auto dest: in_set_takeD)
  obtain r w1 where run: "for_each expire_one ?b ?w0 = (r, w1)" by fastforce
  show ?thesis
  proof (cases r)
    case (Inl e)
    have "expire_batch now w = (Inl e, rollback w w1)"
      unfolding expire_batch_def using run Inl
      by (intro atomic_Inl) (simp add: bindE_def seqE_def same)
    moreover have "\<not> revertible (res_cart ` set ?b) w"
      using expire_list_cases [OF e0] run Inl by (simp add: revertible_def enter_atomic_def)
    ultimately show ?thesis using revertible_mono [OF sub] by auto
  next
    case (Inr u)
    have "(seqE (for_each expire_one ?b) (ret (length ?b))) ?w0 = (Inr (length ?b), w1)"
      using run Inr by (simp add: seqE_Inr)
    then have b: "expire_batch now w = (Inr (length ?b), commit w w1)"
      unfolding expire_batch_def by (intro atomic_Inr) (simp add: bindE_def same)
    have w1: "w1 = fold expired_one ?b ?w0" "ledger w1"
      "length (expired_rows now w1) + length ?b = length (expired_rows now ?w0)"
      using expire_list_cases [OF e0] run Inr by auto
    have c: "tables (commit w w1) = tables w1" by simp
    have l1: "ledger (commit w w1)" using w1(2) ledger_tables [OF c] by simp
    have er: "expired_rows now (commit w w1) = expired_rows now w1" by (rule expired_of_tables) simp
    have "set (expired_rows now w1) \<subseteq> set (expired_rows now w)"
      unfolding w1(1) using expired_fold_subset [of now ?b ?w0] same by simp
    moreover have "revertible ids (commit w w1)"
      if "res_cart ` set (expired_rows now w) \<subseteq> ids" "revertible ids w" for ids
    proof -
      have "db_carts (commit w w1) = fold (\<lambda>r. revert_carts {res_cart r}) ?b (db_carts w)"
        using tables_db(3) [OF c] w1(1) by (simp add: fold_expired_one_carts enter_atomic_def)
      then have "revert_carts ids (db_carts (commit w w1)) = revert_carts ids (db_carts w)"
        using that(1) sub by (simp add: revert_fold)
      with that(2) show ?thesis by (simp add: revertible_def)
    qed
    ultimately show ?thesis using b l1 er w1(3) same by auto
  qed
qed

lemma expire_loop_total:
  assumes "ledger w"
  shows "\<exists>r w'. expire_loop now n0 w = Some (r, w') \<and> ledger w' \<and>
    (case r of Inl e \<Rightarrow> True | Inr n \<Rightarrow> expired_rows now w' = [] \<and> n = n0 + length (expired_rows now w)) \<and>
    (revertible (res_cart ` set (expired_rows now w)) w \<longrightarrow> (\<exists>n. r = Inr n))"
  using assms
proof (induction "length (expired_rows now w)" arbitrary: w n0 rule: less_induct)
  case less
  obtain r w1 where b: "expire_batch now w = (r, w1)" by fastforce
  note cases = expire_batch_cases [OF less.prems, of now, unfolded b]
  show ?case
  proof (cases r)
    case (Inl e)
    with b have "expire_loop now n0 w = Some (Inl e, w1)" by (subst expire_loop.simps) simp
    moreover have t: "tables w1 = tables w" and "\<not> revertible (res_cart ` set (expired_rows now w)) w"
      using cases Inl by simp_all
    moreover have "ledger w1" using less.prems ledger_tables [OF t] by simp
    ultimately show ?thesis by simp
  next
    case (Inr n)
    show ?thesis
    proof (cases "n = 0")
      case True
      then have "min (length (expired_rows now w)) 100 = 0" using cases Inr by simp
      then have none: "expired_rows now w = []" by (simp add: min_def split: if_splits)
      have "expire_loop now n0 w = Some (Inr n0, w1)"
        using b Inr True by (subst expire_loop.simps) simp
      with none show ?thesis using cases Inr True by simp
    next
      case False
      have l1: "ledger w1" and len: "length (expired_rows now w1) + n = length (expired_rows now w)"
        using cases Inr by simp_all
      with False have "length (expired_rows now w1) < length (expired_rows now w)" by simp
      from less.hyps [OF this l1, of "n0 + n"] obtain r2 w2 where
        IH: "expire_loop now (n0 + n) w1 = Some (r2, w2)" "ledger w2"
          "case r2 of Inl e \<Rightarrow> True | Inr k \<Rightarrow> expired_rows now w2 = [] \<and> k = n0 + n + length (expired_rows now w1)"
          "revertible (res_cart ` set (expired_rows now w1)) w1 \<longrightarrow> (\<exists>k. r2 = Inr k)"
        by blast
      have "expire_loop now n0 w = Some (r2, w2)"
        using b Inr False IH(1) by (subst expire_loop.simps) simp
      moreover have "revertible (res_cart ` set (expired_rows now w1)) w1"
        if "revertible (res_cart ` set (expired_rows now w)) w"
      proof -
        let ?ids = "res_cart ` set (expired_rows now w)"
        have "revertible ?ids w1" and "res_cart ` set (expired_rows now w1) \<subseteq> ?ids"
          using cases Inr that by auto
        then show ?thesis using revertible_mono by blast
      qed
      moreover have "case r2 of Inl e \<Rightarrow> True
          | Inr k \<Rightarrow> expired_rows now w2 = [] \<and> k = n0 + length (expired_rows now w)"
        using IH(3) len by (cases r2) simp_all
      ultimately show ?thesis using IH(2,4) by blast
    qed
  qed
qed

end
