(* ===== verification/Gateways.thy ===== *)
theory Gateways
  imports Database
begin

section \<open>Payment gateways\<close>

text \<open>
  \<^verbatim>\<open>apps/payments/gateways\<close>: the interface \<open>PaymentGateway\<close> as a record of functions, the mock
  gateway, the two Stripe adapters and the registry. Gateways are stateless; what an external call
  answers may depend on a number that identifies the call (\<open>uuid4\<close> in the mock). The Stripe SDK is a
  parameter: a record of functions from the configuration and the keyword arguments to the answer.
  Amounts are integers of cents, so \<open>int(amount * 100)\<close> and \<open>Decimal(n) / 100\<close> are the identity.
\<close>

subsection \<open>The interface (\<^verbatim>\<open>gateways/base\<close>)\<close>

datatype tokenization = ClientSide | ServerSide

record gateway_capabilities =
  cap_supported_currencies :: "string list"
  cap_tokenization :: tokenization
  cap_supports_3ds :: bool
  cap_public_credentials :: dict

record gateway_credentials =
  cred_public_key :: "string option"
  cred_secret_key :: "string option"
  cred_webhook_secret :: "string option"
  cred_extra :: "dict option"

record payment_intent =
  pi_gateway_transaction_id :: string
  pi_status :: gateway_status
  pi_amount :: money
  pi_currency :: string
  pi_next_action :: "dict option"
  pi_raw_response :: "dict option"

record tokenized_payment_method =
  tpm_gateway_token :: string
  tpm_brand :: string
  tpm_last_four :: string
  tpm_raw_response :: "dict option"

record webhook_event =
  we_event_type :: string
  we_event_id :: string
  we_gateway_transaction_id :: string
  we_status :: gateway_status
  we_raw_payload :: dict

record gateway =
  gw_name :: string
  gw_supports_currency :: "string \<Rightarrow> bool"
  gw_describe :: "gateway_credentials \<Rightarrow> gateway_capabilities"
  gw_authorize :: "uuid \<Rightarrow> gateway_credentials \<Rightarrow> money \<Rightarrow> string \<Rightarrow> string \<Rightarrow> string \<Rightarrow> dict \<Rightarrow> exn + payment_intent"
  gw_capture :: "uuid \<Rightarrow> gateway_credentials \<Rightarrow> string \<Rightarrow> string \<Rightarrow> money option \<Rightarrow> exn + payment_intent"
  gw_refund :: "uuid \<Rightarrow> gateway_credentials \<Rightarrow> string \<Rightarrow> string \<Rightarrow> money option \<Rightarrow> string option \<Rightarrow> exn + payment_intent"
  gw_retrieve_payment :: "uuid \<Rightarrow> gateway_credentials \<Rightarrow> string \<Rightarrow> exn + payment_intent option"
  gw_tokenize :: "uuid \<Rightarrow> gateway_credentials \<Rightarrow> dict \<Rightarrow> exn + tokenized_payment_method"
  gw_verify_webhook :: "gateway_credentials \<Rightarrow> http_body \<Rightarrow> string \<Rightarrow> exn + bool"
  gw_parse_webhook :: "http_body \<Rightarrow> exn + webhook_event"

text \<open>The defaults of the abstract class.\<close>

definition default_supports_currency :: "string \<Rightarrow> bool" where
  "default_supports_currency c = True"

definition default_describe :: "gateway_credentials \<Rightarrow> gateway_capabilities" where
  "default_describe cr =
     \<lparr>cap_supported_currencies = [], cap_tokenization = ServerSide, cap_supports_3ds = False,
      cap_public_credentials = []\<rparr>"

subsection \<open>Dictionaries of JSON values\<close>

text \<open>The truth value of a JSON value in Python, and \<open>d.get(k)\<close> where a default follows by \<open>or\<close>.\<close>

definition truthy :: "json \<Rightarrow> bool" where
  "truthy j = (case j of JNull \<Rightarrow> False | JBool b \<Rightarrow> b | JInt i \<Rightarrow> i \<noteq> 0 | JStr s \<Rightarrow> s \<noteq> []
               | JList xs \<Rightarrow> xs \<noteq> [] | JObj kvs \<Rightarrow> kvs \<noteq> [])"

definition dict_get :: "dict \<Rightarrow> string \<Rightarrow> json" where
  "dict_get d k = (case map_of d k of None \<Rightarrow> JNull | Some v \<Rightarrow> v)"

definition dict_get_str :: "dict \<Rightarrow> string \<Rightarrow> string \<Rightarrow> string" where
  "dict_get_str d k dflt = (case map_of d k of None \<Rightarrow> dflt | Some v \<Rightarrow> py_str v)"

definition dict_item :: "json \<Rightarrow> string \<Rightarrow> exn + json" where
  "dict_item j k =
     (case j of
        JObj kvs \<Rightarrow> (case map_of kvs k of None \<Rightarrow> Inl (KeyError k) | Some v \<Rightarrow> Inr v)
      | _ \<Rightarrow> Inl (TypeError ''object is not subscriptable with a string''))"

definition json_dict :: "json \<Rightarrow> dict" where
  "json_dict j = (case j of JObj kvs \<Rightarrow> kvs | _ \<Rightarrow> [])"

definition bind_sum :: "'e + 'a \<Rightarrow> ('a \<Rightarrow> 'e + 'b) \<Rightarrow> 'e + 'b" where
  "bind_sum r f = (case r of Inl e \<Rightarrow> Inl e | Inr x \<Rightarrow> f x)"

text \<open>\<open>j.get(k)\<close>, an attribute error where \<open>j\<close> is no dictionary.\<close>

definition json_get :: "json \<Rightarrow> string \<Rightarrow> exn + json" where
  "json_get j k =
     (case j of JObj kvs \<Rightarrow> Inr (dict_get kvs k) | _ \<Rightarrow> Inl (AttributeError ''get''))"

definition json_loads :: "http_body \<Rightarrow> exn + json" where
  "json_loads b = (case b of JsonBody j \<Rightarrow> Inr j | _ \<Rightarrow> Inl (ValueError ''Expecting value''))"

subsection \<open>The mock gateway (\<^verbatim>\<open>gateways/mock.py\<close>)\<close>

definition mock_txn_prefix :: string where
  "mock_txn_prefix = ''mock_txn_''"

definition mock_describe :: "gateway_credentials \<Rightarrow> gateway_capabilities" where
  "mock_describe cr =
     \<lparr>cap_supported_currencies = [], cap_tokenization = ServerSide, cap_supports_3ds = True,
      cap_public_credentials = []\<rparr>"

definition mock_authorize ::
  "uuid \<Rightarrow> gateway_credentials \<Rightarrow> money \<Rightarrow> string \<Rightarrow> string \<Rightarrow> string \<Rightarrow> dict \<Rightarrow> exn + payment_intent" where
  "mock_authorize n cr amount currency token key metadata =
     (let outcome = (case map_of metadata ''mock_outcome'' of None \<Rightarrow> JStr ''success'' | Some v \<Rightarrow> v);
          txn_id = mock_txn_prefix @ uuid_str n
      in
      if outcome = JStr ''decline''
      then Inr \<lparr>pi_gateway_transaction_id = txn_id, pi_status = GwFailed, pi_amount = amount,
             pi_currency = currency, pi_next_action = None,
             pi_raw_response = Some [(''mock'', JBool True), (''outcome'', JStr ''declined''),
               (''failure_code'', JStr ''card_declined''), (''failure_message'', JStr ''Mock decline'')]\<rparr>
      else if outcome = JStr ''requires_action''
      then Inr \<lparr>pi_gateway_transaction_id = txn_id, pi_status = GwPending, pi_amount = amount,
             pi_currency = currency,
             pi_next_action = Some [(''type'', JStr ''redirect''),
               (''url'', JStr ''https://mock.gateway.local/3ds-challenge'')],
             pi_raw_response = Some [(''mock'', JBool True), (''outcome'', JStr ''requires_action'')]\<rparr>
      else Inr \<lparr>pi_gateway_transaction_id = txn_id, pi_status = GwAuthorized, pi_amount = amount,
             pi_currency = currency, pi_next_action = None,
             pi_raw_response = Some [(''mock'', JBool True), (''outcome'', JStr ''authorized'')]\<rparr>)"

definition amount_or_zero :: "money option \<Rightarrow> money" where
  "amount_or_zero a = (case a of None \<Rightarrow> 0 | Some x \<Rightarrow> x)"

definition mock_capture ::
  "uuid \<Rightarrow> gateway_credentials \<Rightarrow> string \<Rightarrow> string \<Rightarrow> money option \<Rightarrow> exn + payment_intent" where
  "mock_capture n cr txn key amount =
     Inr \<lparr>pi_gateway_transaction_id = txn, pi_status = GwCaptured, pi_amount = amount_or_zero amount,
        pi_currency = ''SAR'', pi_next_action = None,
        pi_raw_response = Some [(''mock'', JBool True), (''outcome'', JStr ''captured'')]\<rparr>"

definition mock_refund ::
  "uuid \<Rightarrow> gateway_credentials \<Rightarrow> string \<Rightarrow> string \<Rightarrow> money option \<Rightarrow> string option \<Rightarrow> exn + payment_intent" where
  "mock_refund n cr txn key amount reason =
     Inr \<lparr>pi_gateway_transaction_id = txn, pi_status = GwRefunded, pi_amount = amount_or_zero amount,
        pi_currency = ''SAR'', pi_next_action = None,
        pi_raw_response = Some [(''mock'', JBool True), (''outcome'', JStr ''refunded''),
          (''reason'', case reason of None \<Rightarrow> JNull | Some r \<Rightarrow> JStr r)]\<rparr>"

definition mock_retrieve_payment :: "uuid \<Rightarrow> gateway_credentials \<Rightarrow> string \<Rightarrow> exn + payment_intent option" where
  "mock_retrieve_payment n cr txn =
     (if txn = [] \<or> \<not> startswith txn mock_txn_prefix then Inr None
      else Inr (Some \<lparr>pi_gateway_transaction_id = txn, pi_status = GwAuthorized, pi_amount = 0,
        pi_currency = ''SAR'', pi_next_action = None,
        pi_raw_response = Some [(''mock'', JBool True), (''outcome'', JStr ''retrieved''),
          (''status'', JStr ''authorized'')]\<rparr>))"

definition mock_tokenize :: "uuid \<Rightarrow> gateway_credentials \<Rightarrow> dict \<Rightarrow> exn + tokenized_payment_method" where
  "mock_tokenize n cr payload =
     Inr \<lparr>tpm_gateway_token = ''tok_mock_'' @ uuid_str n, tpm_brand = dict_get_str payload ''brand'' ''visa'',
        tpm_last_four = dict_get_str payload ''last_four'' ''4242'',
        tpm_raw_response = Some [(''mock'', JBool True)]\<rparr>"

definition mock_verify_webhook :: "gateway_credentials \<Rightarrow> http_body \<Rightarrow> string \<Rightarrow> exn + bool" where
  "mock_verify_webhook cr body sig = Inr (sig = ''mock-signature'')"

text \<open>\<open>sha256\<close> stands for \<open>hashlib.sha256(raw_body).hexdigest()\<close>.\<close>

definition mock_parse_webhook :: "(http_body \<Rightarrow> string) \<Rightarrow> http_body \<Rightarrow> exn + webhook_event" where
  "mock_parse_webhook sha256 body =
     bind_sum (json_loads body) (\<lambda>payload.
     bind_sum (json_get payload ''event_id'') (\<lambda>given.
     let event_id = (if truthy given then py_str given else ''mock_evt_'' @ take 16 (sha256 body))
     in
     bind_sum (dict_item payload ''event_type'') (\<lambda>ty.
     bind_sum (dict_item payload ''transaction_id'') (\<lambda>txn.
     bind_sum (dict_item payload ''status'') (\<lambda>st.
     bind_sum (gateway_status_of_value (py_str st)) (\<lambda>status.
     Inr \<lparr>we_event_type = py_str ty, we_event_id = event_id, we_gateway_transaction_id = py_str txn,
          we_status = status, we_raw_payload = json_dict payload\<rparr>))))))"

definition mock_gateway :: "(http_body \<Rightarrow> string) \<Rightarrow> gateway" where
  "mock_gateway sha256 =
     \<lparr>gw_name = ''mock'', gw_supports_currency = default_supports_currency, gw_describe = mock_describe,
      gw_authorize = mock_authorize, gw_capture = mock_capture, gw_refund = mock_refund,
      gw_retrieve_payment = mock_retrieve_payment, gw_tokenize = mock_tokenize,
      gw_verify_webhook = mock_verify_webhook, gw_parse_webhook = mock_parse_webhook sha256\<rparr>"

subsection \<open>The Stripe adapters (\<^verbatim>\<open>gateways/stripe.py\<close>)\<close>

text \<open>
  Objects of the SDK: a payment intent has the attributes the adapter reads, and its raw form is a
  value in which dictionaries, lists and further SDK objects nest.
\<close>

datatype stripe_value =
    StripeObject "(string \<times> stripe_value) list"
  | PyDict "(string \<times> stripe_value) list"
  | PyList "stripe_value list"
  | Scalar json

record stripe_next_action =
  sna_type :: string
  sna_redirect_url :: "string option"

record stripe_intent =
  si_id :: string
  si_status :: string
  si_amount :: int
  si_amount_received :: int
  si_currency :: string
  si_next_action :: "stripe_next_action option"
  si_raw :: stripe_value

record sdk_config =
  sdk_api_base :: string
  sdk_upload_api_base :: string
  sdk_verify_ssl_certs :: bool

datatype 'a sdk_result = SdkOk 'a | InvalidRequestError | SignatureVerificationError | SdkRaise exn

record stripe_sdk =
  sdk_intent_create :: "uuid \<Rightarrow> sdk_config \<Rightarrow> dict \<Rightarrow> stripe_intent sdk_result"
  sdk_intent_capture :: "uuid \<Rightarrow> sdk_config \<Rightarrow> string \<Rightarrow> dict \<Rightarrow> stripe_intent sdk_result"
  sdk_refund_create :: "uuid \<Rightarrow> sdk_config \<Rightarrow> dict \<Rightarrow> stripe_intent sdk_result"
  sdk_intent_retrieve :: "uuid \<Rightarrow> sdk_config \<Rightarrow> string \<Rightarrow> string option \<Rightarrow> stripe_intent sdk_result"
  sdk_construct_event :: "http_body \<Rightarrow> string \<Rightarrow> string option \<Rightarrow> unit sdk_result"

definition sdk_call :: "'a sdk_result \<Rightarrow> exn + 'a" where
  "sdk_call r =
     (case r of SdkOk x \<Rightarrow> Inr x
      | InvalidRequestError \<Rightarrow> Inl (GatewayError ''InvalidRequestError'')
      | SignatureVerificationError \<Rightarrow> Inl (GatewayError ''SignatureVerificationError'')
      | SdkRaise e \<Rightarrow> Inl e)"

definition stripe_default_api_base :: string where
  "stripe_default_api_base = ''https://api.stripe.com''"

definition stripe_status_map :: "(string \<times> gateway_status) list" where
  "stripe_status_map =
     [(''requires_payment_method'', GwPending), (''requires_action'', GwPending),
      (''requires_confirmation'', GwPending), (''processing'', GwPending),
      (''requires_capture'', GwAuthorized), (''succeeded'', GwCaptured), (''canceled'', GwCancelled)]"

definition stripe_status :: "string \<Rightarrow> gateway_status \<Rightarrow> gateway_status" where
  "stripe_status s dflt = (case map_of stripe_status_map s of None \<Rightarrow> dflt | Some g \<Rightarrow> g)"

text \<open>The set \<open>_SUPPORTED_CURRENCIES\<close>, in the order \<open>sorted\<close> gives.\<close>

definition stripe_supported_currencies :: "string list" where
  "stripe_supported_currencies =
     [''AED'', ''AUD'', ''CAD'', ''EUR'', ''GBP'', ''JPY'', ''SAR'', ''USD'']"

fun stripe_obj_to_dict :: "stripe_value \<Rightarrow> json" where
  "stripe_obj_to_dict (StripeObject kvs) = JObj (map (\<lambda>p. (fst p, stripe_obj_to_dict (snd p))) kvs)"
| "stripe_obj_to_dict (PyDict kvs) = JObj (map (\<lambda>p. (fst p, stripe_obj_to_dict (snd p))) kvs)"
| "stripe_obj_to_dict (PyList xs) = JList (map stripe_obj_to_dict xs)"
| "stripe_obj_to_dict (Scalar j) = j"

text \<open>\<open>api_base\<close> is the class attribute, \<open>env\<close> the process environment.\<close>

definition resolve_api_base :: "string option \<Rightarrow> (string \<Rightarrow> string option) \<Rightarrow> string" where
  "resolve_api_base api_base env =
     (case api_base of
        Some b \<Rightarrow> if b \<noteq> [] then b
                  else (case env ''STRIPE_API_BASE'' of None \<Rightarrow> stripe_default_api_base
                        | Some e \<Rightarrow> or_default e stripe_default_api_base)
      | None \<Rightarrow> (case env ''STRIPE_API_BASE'' of None \<Rightarrow> stripe_default_api_base
                 | Some e \<Rightarrow> or_default e stripe_default_api_base))"

definition configure_sdk :: "string option \<Rightarrow> (string \<Rightarrow> string option) \<Rightarrow> sdk_config" where
  "configure_sdk api_base env =
     (let b = resolve_api_base api_base env in
      \<lparr>sdk_api_base = b,
       sdk_upload_api_base = (case env ''STRIPE_UPLOAD_API_BASE'' of None \<Rightarrow> b | Some u \<Rightarrow> u),
       sdk_verify_ssl_certs = startswith b ''https://''\<rparr>)"

definition stripe_supports_currency :: "string \<Rightarrow> bool" where
  "stripe_supports_currency c \<longleftrightarrow> upper c \<in> set stripe_supported_currencies"

definition stripe_describe :: "gateway_credentials \<Rightarrow> gateway_capabilities" where
  "stripe_describe cr =
     \<lparr>cap_supported_currencies = stripe_supported_currencies, cap_tokenization = ClientSide,
      cap_supports_3ds = True,
      cap_public_credentials =
        [(''publishable_key'', JStr (case cred_public_key cr of None \<Rightarrow> '''' | Some k \<Rightarrow> k))]\<rparr>"

text \<open>The dash of the description is U+2014, written as its UTF-8 bytes.\<close>

definition stripe_description :: "dict \<Rightarrow> string option" where
  "stripe_description m =
     (let order_num = dict_get m ''order_number''; cust_name = dict_get m ''customer_name'' in
      if truthy order_num \<and> truthy cust_name
      then Some (''Order #'' @ py_str order_num @ '' '' @ [CHR 0xE2, CHR 0x80, CHR 0x94] @ '' '' @ py_str cust_name)
      else if truthy order_num then Some (''Order #'' @ py_str order_num)
      else if truthy cust_name then Some (py_str cust_name)
      else None)"

definition opt_str_json :: "string option \<Rightarrow> json" where
  "opt_str_json s = (case s of None \<Rightarrow> JNull | Some x \<Rightarrow> JStr x)"

definition stripe_authorize_kwargs ::
  "gateway_credentials \<Rightarrow> money \<Rightarrow> string \<Rightarrow> string \<Rightarrow> string \<Rightarrow> dict \<Rightarrow> dict" where
  "stripe_authorize_kwargs cr amount currency token key m =
     [(''amount'', JInt amount), (''currency'', JStr (lower currency)), (''payment_method'', JStr token),
      (''confirm'', JBool True), (''capture_method'', JStr ''manual''),
      (''automatic_payment_methods'', JObj [(''enabled'', JBool True), (''allow_redirects'', JStr ''never'')]),
      (''metadata'', JObj m), (''api_key'', opt_str_json (cred_secret_key cr)),
      (''idempotency_key'', JStr key)]
     @ (case stripe_description m of None \<Rightarrow> []
        | Some d \<Rightarrow> if d = [] then [] else [(''description'', JStr d)])
     @ (if truthy (dict_get m ''customer_email'') then [(''receipt_email'', dict_get m ''customer_email'')] else [])"

definition extract_next_action :: "stripe_intent \<Rightarrow> dict option" where
  "extract_next_action i =
     (if si_status i = ''requires_action''
      then (case si_next_action i of
              None \<Rightarrow> None
            | Some na \<Rightarrow> Some [(''type'', JStr (sna_type na)), (''url'', opt_str_json (sna_redirect_url na))])
      else None)"

definition stripe_authorize ::
  "stripe_sdk \<Rightarrow> sdk_config \<Rightarrow> uuid \<Rightarrow> gateway_credentials \<Rightarrow> money \<Rightarrow> string \<Rightarrow> string \<Rightarrow> string \<Rightarrow> dict \<Rightarrow>
   exn + payment_intent" where
  "stripe_authorize sdk cfg n cr amount currency token key m =
     bind_sum (sdk_call (sdk_intent_create sdk n cfg (stripe_authorize_kwargs cr amount currency token key m))) (\<lambda>i.
     Inr \<lparr>pi_gateway_transaction_id = si_id i, pi_status = stripe_status (si_status i) GwPending,
          pi_amount = si_amount i, pi_currency = upper (si_currency i), pi_next_action = extract_next_action i,
          pi_raw_response = Some (json_dict (stripe_obj_to_dict (si_raw i)))\<rparr>)"

definition stripe_capture ::
  "stripe_sdk \<Rightarrow> sdk_config \<Rightarrow> uuid \<Rightarrow> gateway_credentials \<Rightarrow> string \<Rightarrow> string \<Rightarrow> money option \<Rightarrow> exn + payment_intent" where
  "stripe_capture sdk cfg n cr txn key amount =
     bind_sum (sdk_call (sdk_intent_capture sdk n cfg txn
       ([(''api_key'', opt_str_json (cred_secret_key cr)), (''idempotency_key'', JStr key)]
        @ (case amount of None \<Rightarrow> [] | Some a \<Rightarrow> [(''amount_to_capture'', JInt a)])))) (\<lambda>i.
     Inr \<lparr>pi_gateway_transaction_id = si_id i, pi_status = stripe_status (si_status i) GwFailed,
          pi_amount = si_amount_received i, pi_currency = upper (si_currency i), pi_next_action = None,
          pi_raw_response = Some (json_dict (stripe_obj_to_dict (si_raw i)))\<rparr>)"

definition stripe_refund ::
  "stripe_sdk \<Rightarrow> sdk_config \<Rightarrow> uuid \<Rightarrow> gateway_credentials \<Rightarrow> string \<Rightarrow> string \<Rightarrow> money option \<Rightarrow> string option \<Rightarrow>
   exn + payment_intent" where
  "stripe_refund sdk cfg n cr txn key amount reason =
     bind_sum (sdk_call (sdk_refund_create sdk n cfg
       ([(''payment_intent'', JStr txn), (''api_key'', opt_str_json (cred_secret_key cr)),
         (''idempotency_key'', JStr key)]
        @ (case amount of None \<Rightarrow> [] | Some a \<Rightarrow> [(''amount'', JInt a)])
        @ (case reason of None \<Rightarrow> [] | Some r \<Rightarrow> if r = [] then [] else [(''reason'', JStr r)])))) (\<lambda>i.
     Inr \<lparr>pi_gateway_transaction_id = txn, pi_status = GwRefunded,
          pi_amount = si_amount i, pi_currency = upper (si_currency i), pi_next_action = None,
          pi_raw_response = Some (json_dict (stripe_obj_to_dict (si_raw i)))\<rparr>)"

definition stripe_retrieve_payment ::
  "stripe_sdk \<Rightarrow> sdk_config \<Rightarrow> uuid \<Rightarrow> gateway_credentials \<Rightarrow> string \<Rightarrow> exn + payment_intent option" where
  "stripe_retrieve_payment sdk cfg n cr txn =
     (case sdk_intent_retrieve sdk n cfg txn (cred_secret_key cr) of
        InvalidRequestError \<Rightarrow> Inr None
      | r \<Rightarrow> bind_sum (sdk_call r) (\<lambda>i.
          Inr (Some \<lparr>pi_gateway_transaction_id = si_id i, pi_status = stripe_status (si_status i) GwPending,
            pi_amount = si_amount i, pi_currency = upper (si_currency i), pi_next_action = extract_next_action i,
            pi_raw_response = Some (json_dict (stripe_obj_to_dict (si_raw i)))\<rparr>)))"

definition stripe_tokenize :: "uuid \<Rightarrow> gateway_credentials \<Rightarrow> dict \<Rightarrow> exn + tokenized_payment_method" where
  "stripe_tokenize n cr payload =
     Inl (NotImplementedError (''Stripe tokenization happens client-side via Stripe.js. '' @
            ''Pass an existing pm_xxx token to the PaymentMethod constructor.''))"

definition stripe_verify_webhook ::
  "stripe_sdk \<Rightarrow> gateway_credentials \<Rightarrow> http_body \<Rightarrow> string \<Rightarrow> exn + bool" where
  "stripe_verify_webhook sdk cr body sig =
     (case sdk_construct_event sdk body sig (cred_webhook_secret cr) of
        SdkOk _ \<Rightarrow> Inr True
      | SignatureVerificationError \<Rightarrow> Inr False
      | r \<Rightarrow> bind_sum (sdk_call r) (\<lambda>_. Inr True))"

definition normalize_event_type :: "string \<Rightarrow> string" where
  "normalize_event_type ty =
     (if ty = ''payment_intent.succeeded'' then ''payment.captured''
      else if ty = ''payment_intent.payment_failed'' then ''payment.failed''
      else if ty = ''payment_intent.canceled'' then ''payment.cancelled''
      else if ty = ''charge.refunded'' then ''payment.refunded''
      else ''payment.unknown'')"

definition stripe_parse_webhook :: "http_body \<Rightarrow> exn + webhook_event" where
  "stripe_parse_webhook body =
     bind_sum (json_loads body) (\<lambda>event.
     bind_sum (dict_item event ''data'') (\<lambda>d.
     bind_sum (dict_item d ''object'') (\<lambda>obj.
     bind_sum (dict_item event ''type'') (\<lambda>ty.
     let normalized = normalize_event_type (py_str ty) in
     bind_sum (json_get obj ''object'') (\<lambda>kind.
     let st = stripe_status (case dict_get (json_dict obj) ''status'' of JStr s \<Rightarrow> s | _ \<Rightarrow> '''') GwPending;
         parent = dict_get (json_dict obj) ''payment_intent''
     in
     bind_sum (if kind = JStr ''charge'' \<and> truthy parent then Inr parent else dict_item obj ''id'') (\<lambda>txn.
     bind_sum (dict_item event ''id'') (\<lambda>eid.
     Inr \<lparr>we_event_type = normalized, we_event_id = py_str eid, we_gateway_transaction_id = py_str txn,
          we_status = (if kind = JStr ''charge'' \<and> normalized = ''payment.refunded'' then GwRefunded else st),
          we_raw_payload = json_dict event\<rparr>)))))))"

definition stripe_adapter :: "string \<Rightarrow> stripe_sdk \<Rightarrow> sdk_config \<Rightarrow> gateway" where
  "stripe_adapter name sdk cfg =
     \<lparr>gw_name = name, gw_supports_currency = stripe_supports_currency, gw_describe = stripe_describe,
      gw_authorize = stripe_authorize sdk cfg, gw_capture = stripe_capture sdk cfg,
      gw_refund = stripe_refund sdk cfg, gw_retrieve_payment = stripe_retrieve_payment sdk cfg,
      gw_tokenize = stripe_tokenize, gw_verify_webhook = stripe_verify_webhook sdk,
      gw_parse_webhook = stripe_parse_webhook\<rparr>"

definition stripe_gateway :: "stripe_sdk \<Rightarrow> (string \<Rightarrow> string option) \<Rightarrow> gateway" where
  "stripe_gateway sdk env = stripe_adapter ''stripe'' sdk (configure_sdk None env)"

definition stripe_live_gateway :: "stripe_sdk \<Rightarrow> (string \<Rightarrow> string option) \<Rightarrow> gateway" where
  "stripe_live_gateway sdk env =
     stripe_adapter ''stripe_live'' sdk (configure_sdk (Some stripe_default_api_base) env)"

subsection \<open>The registry (\<^verbatim>\<open>gateways/registry.py\<close>)\<close>

text \<open>
  \<open>_REGISTRY\<close> as an association list in the order of registration. Registering the same class again
  is harmless, another one under the name is refused; \<open>same\<close> decides whether two classes are the same.
\<close>

type_synonym registry = "(string \<times> gateway) list"

definition register :: "(gateway \<Rightarrow> gateway \<Rightarrow> bool) \<Rightarrow> gateway \<Rightarrow> registry \<Rightarrow> exn + registry" where
  "register same g reg =
     (if gw_name g = [] then Inl (ValueError ''must set a `name` class attribute'')
      else case map_of reg (gw_name g) of
             Some g' \<Rightarrow> if same g' g then Inr reg
                        else Inl (ValueError (''Gateway '' @ gw_name g @ '' already registered''))
           | None \<Rightarrow> Inr (reg @ [(gw_name g, g)]))"

definition registry_get :: "registry \<Rightarrow> string \<Rightarrow> exn + gateway" where
  "registry_get reg name =
     (case map_of reg name of
        None \<Rightarrow> Inl (ValueError (''Unknown payment gateway '' @ name))
      | Some g \<Rightarrow> Inr g)"

definition available :: "registry \<Rightarrow> string list" where
  "available reg = map fst reg"

text \<open>The registrations at import (\<^verbatim>\<open>gateways/__init__.py\<close>).\<close>

definition builtin_registry ::
  "(http_body \<Rightarrow> string) \<Rightarrow> stripe_sdk \<Rightarrow> (string \<Rightarrow> string option) \<Rightarrow> registry" where
  "builtin_registry sha256 sdk env =
     [(''mock'', mock_gateway sha256), (''stripe'', stripe_gateway sdk env),
      (''stripe_live'', stripe_live_gateway sdk env)]"

subsection \<open>The contract of a gateway\<close>

text \<open>
  What the rest of the code relies on for every registered gateway: \<open>authorize\<close> never answers that
  money was refunded, \<open>refund\<close> answers nothing but that, \<open>retrieve_payment\<close> reports neither a failure
  nor a refund, and what \<open>describe\<close> shows to a storefront does not depend on the secrets.
\<close>

locale payment_gateway =
  fixes g :: gateway
  assumes authorize_not_refunded:
      "gw_authorize g n cr amount currency token key m = Inr i \<Longrightarrow> pi_status i \<noteq> GwRefunded"
    and refund_refunds: "gw_refund g n cr txn key a reason = Inr i \<Longrightarrow> pi_status i = GwRefunded"
    and retrieve_status:
      "gw_retrieve_payment g n cr txn = Inr (Some i) \<Longrightarrow> pi_status i \<notin> {GwFailed, GwRefunded}"
    and describe_public:
      "gw_describe g (cr\<lparr>cred_secret_key := s, cred_webhook_secret := h, cred_extra := x\<rparr>) = gw_describe g cr"
begin

lemma describe_only_public_key:
  assumes "cred_public_key cr = cred_public_key cr'"
  shows "gw_describe g cr = gw_describe g cr'"
proof -
  have "gw_describe g cr = gw_describe g (cr\<lparr>cred_secret_key := cred_secret_key cr',
      cred_webhook_secret := cred_webhook_secret cr', cred_extra := cred_extra cr'\<rparr>)"
    by (rule describe_public [symmetric])
  also have "cr\<lparr>cred_secret_key := cred_secret_key cr', cred_webhook_secret := cred_webhook_secret cr',
      cred_extra := cred_extra cr'\<rparr> = cr'"
    using assms by simp
  finally show ?thesis .
qed

lemma retrieve_not_terminal_failure:
  assumes "gw_retrieve_payment g n cr txn = Inr (Some i)"
  shows "pi_status i \<in> {GwPending, GwAuthorized, GwCaptured, GwCancelled}"
  using retrieve_status [OF assms] by (cases "pi_status i") auto

end

lemma stripe_status_cases: "stripe_status s GwPending \<in> {GwPending, GwAuthorized, GwCaptured, GwCancelled}"
proof (cases "map_of stripe_status_map s")
  case None
  then show ?thesis by (simp add: stripe_status_def)
next
  case (Some g)
  then have "(s, g) \<in> set stripe_status_map" by (rule map_of_SomeD)
  with Some show ?thesis by (auto simp: stripe_status_def stripe_status_map_def)
qed

lemma stripe_status_never:
  "stripe_status s GwPending \<noteq> GwRefunded" "stripe_status s GwPending \<noteq> GwFailed"
  using stripe_status_cases [of s] by auto

lemmas mock_defs =
  mock_authorize_def mock_capture_def mock_refund_def mock_retrieve_payment_def mock_describe_def

interpretation mock: payment_gateway "mock_gateway sha256" for sha256
  by unfold_locales (auto simp: mock_gateway_def mock_defs Let_def split: if_splits)

lemma stripe_authorize_status:
  "stripe_authorize sdk cfg n cr a c t k m = Inr i \<Longrightarrow> pi_status i \<noteq> GwRefunded"
  by (auto simp: stripe_authorize_def bind_sum_def stripe_status_never split: sum.splits)

lemma stripe_retrieve_status:
  "stripe_retrieve_payment sdk cfg n cr txn = Inr (Some i) \<Longrightarrow> pi_status i \<notin> {GwFailed, GwRefunded}"
  by (auto simp: stripe_retrieve_payment_def bind_sum_def stripe_status_never
      split: sum.splits sdk_result.splits)

interpretation stripe: payment_gateway "stripe_adapter name sdk cfg" for name sdk cfg
proof unfold_locales
  fix n cr a c t k m i
  assume "gw_authorize (stripe_adapter name sdk cfg) n cr a c t k m = Inr i"
  then show "pi_status i \<noteq> GwRefunded"
    by (auto simp: stripe_adapter_def dest: stripe_authorize_status)
next
  fix n cr txn k a r i
  assume "gw_refund (stripe_adapter name sdk cfg) n cr txn k a r = Inr i"
  then show "pi_status i = GwRefunded"
    by (auto simp: stripe_adapter_def stripe_refund_def bind_sum_def split: sum.splits)
next
  fix n cr txn i
  assume "gw_retrieve_payment (stripe_adapter name sdk cfg) n cr txn = Inr (Some i)"
  then have "stripe_retrieve_payment sdk cfg n cr txn = Inr (Some i)"
    by (simp add: stripe_adapter_def)
  then show "pi_status i \<notin> {GwFailed, GwRefunded}" by (rule stripe_retrieve_status)
next
  fix cr :: gateway_credentials and s h x
  show "gw_describe (stripe_adapter name sdk cfg)
     (cr\<lparr>cred_secret_key := s, cred_webhook_secret := h, cred_extra := x\<rparr>)
    = gw_describe (stripe_adapter name sdk cfg) cr"
    by (simp add: stripe_adapter_def stripe_describe_def)
qed

text \<open>Every gateway that the registry can return meets the contract.\<close>

lemma builtin_registry_contract:
  assumes "registry_get (builtin_registry sha256 sdk env) name = Inr g"
  shows "payment_gateway g"
proof -
  have "g \<in> {mock_gateway sha256, stripe_gateway sdk env, stripe_live_gateway sdk env}"
    using assms by (auto simp: registry_get_def builtin_registry_def split: if_splits)
  then show ?thesis
    using mock.payment_gateway_axioms stripe.payment_gateway_axioms
    by (auto simp: stripe_gateway_def stripe_live_gateway_def)
qed

lemma registry_get_name:
  assumes "registry_get (builtin_registry sha256 sdk env) name = Inr g"
  shows "gw_name g = name"
  using assms
  by (auto simp: registry_get_def builtin_registry_def mock_gateway_def stripe_gateway_def
      stripe_live_gateway_def stripe_adapter_def split: if_splits)

end
