(* ===== verification/Payments.thy ===== *)
theory Payments
  imports Gateways Carts
begin

section \<open>The payment service\<close>

text \<open>
  \<^verbatim>\<open>apps/payments/services.py\<close>: the row of a payment is written before the gateway is
  called and updated with the answer. \<open>env\<close> holds the setting and the registry the service reads.
  Every gateway call is entered in \<open>gateway_log\<close>, which no transaction takes back.
\<close>

record env =
  env_allow_mock :: bool \<comment> \<open>\<open>PAYMENTS_ALLOW_MOCK_GATEWAY\<close>\<close>
  env_registry :: registry
  env_locks_outer_joins :: bool \<comment> \<open>whether the database locks the rows of an outer join; PostgreSQL does not\<close>

definition gateway_not_available :: "string \<Rightarrow> exn" where
  "gateway_not_available name =
     GatewayNotConfigured (''Gateway '' @ py_repr (JStr name) @ '' is not available in this environment'')"

definition gateway_not_configured :: "string \<Rightarrow> exn" where
  "gateway_not_configured name =
     GatewayNotConfigured (''Gateway '' @ py_repr (JStr name) @ '' is not configured for this tenant'')"

definition resolve_gateway_config :: "env \<Rightarrow> string \<Rightarrow> gateway_config act" where
  "resolve_gateway_config e name =
     (if name = gateway_name_value MOCK \<and> \<not> env_allow_mock e then throw (gateway_not_available name)
      else get_row gateway_configs_tbl (\<lambda>c. gc_gateway_name c = name \<and> gc_is_active c)
             (gateway_not_configured name))"

text \<open>Text columns of the stored JSON; other values count as absent.\<close>

definition cred_field :: "dict \<Rightarrow> string \<Rightarrow> string option" where
  "cred_field raw k = (case map_of raw k of Some (JStr s) \<Rightarrow> Some s | _ \<Rightarrow> None)"

definition build_credentials :: "gateway_config \<Rightarrow> gateway_credentials" where
  "build_credentials c =
     (let raw = gc_credentials c in
      \<lparr>cred_public_key = cred_field raw ''public_key'', cred_secret_key = cred_field raw ''secret_key'',
       cred_webhook_secret = cred_field raw ''webhook_secret'',
       cred_extra = (case map_of raw ''extra'' of Some (JObj kvs) \<Rightarrow> Some kvs | _ \<Rightarrow> None)\<rparr>)"

primrec map_gateway_status :: "gateway_status \<Rightarrow> payment_status" where
  "map_gateway_status GwPending = PayPending"
| "map_gateway_status GwAuthorized = PayAuthorized"
| "map_gateway_status GwCaptured = PayCaptured"
| "map_gateway_status GwFailed = PayFailed"
| "map_gateway_status GwRefunded = PayRefunded"
| "map_gateway_status GwCancelled = PayCancelled"

definition gateway_call :: "gateway_call \<Rightarrow> (uuid \<Rightarrow> exn + 'a) \<Rightarrow> 'a act" where
  "gateway_call c f = bindE new_uuid (\<lambda>n. seqE (log_call c) (lift_sum (f n)))"

subsection \<open>The short transactions\<close>

definition new_payment ::
  "uuid \<Rightarrow> uuid option \<Rightarrow> payment_status \<Rightarrow> money \<Rightarrow> string \<Rightarrow> string \<Rightarrow> payment" where
  "new_payment order config st amount currency key =
     \<lparr>row_id = 0, tenant_id = 0, created_at = 0, updated_at = 0, pay_order = order,
      pay_gateway_config = config, pay_status = st, pay_amount = amount, pay_currency = currency,
      pay_gateway_transaction_id = '''', pay_idempotency_key = key, pay_gateway_response = []\<rparr>"

definition create_payment :: "string \<Rightarrow> payment \<Rightarrow> payment act" where
  "create_payment caller p =
     bindE get_current_tenant_id (\<lambda>t.
     case t of
       None \<Rightarrow> throw (RuntimeError (caller @ '' called without tenant context''))
     | Some tid \<Rightarrow> atomic (create_with_tenant payments_tbl tid p))"

definition create_pending_payment :: "uuid \<Rightarrow> uuid \<Rightarrow> money \<Rightarrow> string \<Rightarrow> string \<Rightarrow> payment act" where
  "create_pending_payment order config amount currency key =
     create_payment ''authorize_payment'' (new_payment order (Some config) PayPending amount currency key)"

definition create_invoice_pending_payment :: "uuid \<Rightarrow> money \<Rightarrow> string \<Rightarrow> string \<Rightarrow> payment act" where
  "create_invoice_pending_payment order amount currency key =
     create_payment ''create_invoice_pending_payment'' (new_payment order None PayInvoicePending amount currency key)"

definition set_result :: "string \<Rightarrow> payment_status \<Rightarrow> dict \<Rightarrow> payment \<Rightarrow> payment" where
  "set_result txn st response p =
     p\<lparr>pay_gateway_transaction_id := txn, pay_status := st, pay_gateway_response := response\<rparr>"

definition record_payment_result :: "uuid \<Rightarrow> string \<Rightarrow> payment_status \<Rightarrow> dict \<Rightarrow> unit act" where
  "record_payment_result i txn st response = atomic
     (bindE (update_rows payments_tbl (\<lambda>p. row_id p = i) (set_result txn st response)) (\<lambda>_. ret ()))"

definition record_payment_error :: "uuid \<Rightarrow> string \<Rightarrow> unit act" where
  "record_payment_error i message = atomic
     (bindE (first_row payments_tbl (\<lambda>p. row_id p = i)) (\<lambda>found.
      let existing = (case found of None \<Rightarrow> [] | Some p \<Rightarrow> pay_gateway_response p) in
      bindE (update_rows payments_tbl (\<lambda>p. row_id p = i)
        (\<lambda>p. p\<lparr>pay_gateway_response := dict_update existing [(''exception'', JStr message)]\<rparr>)) (\<lambda>_. ret ())))"

subsection \<open>Authorize\<close>

text \<open>The stored response: the raw one, with the next action added when there is one.\<close>

definition response_of :: "payment_intent \<Rightarrow> dict" where
  "response_of i =
     (let raw = (case pi_raw_response i of None \<Rightarrow> [] | Some r \<Rightarrow> dict_of_pairs r) in
      case pi_next_action i of
        None \<Rightarrow> raw
      | Some na \<Rightarrow> if na = [] then raw else dict_update raw [(''next_action'', JObj na)])"

definition decline :: "payment_intent \<Rightarrow> exn" where
  "decline i =
     (let raw = (case pi_raw_response i of None \<Rightarrow> [] | Some r \<Rightarrow> r) in
      PaymentFailed (Some (dict_get_str raw ''failure_message'' ''Payment declined''))
        (case map_of raw ''failure_code'' of None \<Rightarrow> None | Some JNull \<Rightarrow> None | Some j \<Rightarrow> Some (py_str j)))"

text \<open>Step 2: the call, outside any block. Whatever it raises becomes a \<open>PaymentFailed\<close>.\<close>

definition call_authorize ::
  "gateway \<Rightarrow> gateway_credentials \<Rightarrow> payment \<Rightarrow> string \<Rightarrow> dict \<Rightarrow> payment_intent act" where
  "call_authorize g cr p token metadata =
     try_except
       (gateway_call (CallAuthorize (gw_name g) (pay_idempotency_key p) (pay_amount p) (pay_currency p) token)
         (\<lambda>n. gw_authorize g n cr (pay_amount p) (pay_currency p) token (pay_idempotency_key p) metadata))
       (\<lambda>_. True)
       (\<lambda>e. seqE (record_payment_error (row_id p) (exn_detail e))
              (throw (PaymentFailed (Some (''Gateway error: '' @ exn_detail e)) None)))"

text \<open>Step 3: the result is written and reflected on the instance; a failed intent is a decline.\<close>

definition record_intent :: "payment \<Rightarrow> payment_intent \<Rightarrow> payment act" where
  "record_intent p i =
     (let st = map_gateway_status (pi_status i) in
      seqE (record_payment_result (row_id p) (pi_gateway_transaction_id i) st (response_of i))
      (if pi_status i = GwFailed then throw (decline i)
       else ret (set_result (pi_gateway_transaction_id i) st (response_of i) p)))"

definition authorize_payment ::
  "env \<Rightarrow> uuid \<Rightarrow> uuid \<Rightarrow> money \<Rightarrow> string \<Rightarrow> string \<Rightarrow> dict \<Rightarrow> payment act" where
  "authorize_payment e order method amount currency key metadata =
     bindE (get_row payment_methods_tbl (\<lambda>m. row_id m = method) (DoesNotExist ''PaymentMethod'')) (\<lambda>pm.
     case pm_gateway_config pm of
       None \<Rightarrow> throw (AttributeError ''gateway_name'')
     | Some config \<Rightarrow>
         bindE (follow gateway_configs_tbl config) (\<lambda>stored.
         bindE (resolve_gateway_config e (gc_gateway_name stored)) (\<lambda>gc.
         bindE (lift_sum (registry_get (env_registry e) (gc_gateway_name gc))) (\<lambda>g.
         if \<not> gw_supports_currency g currency
         then throw (GatewayUnsupportedCurrency (gw_name g) currency)
         else
           bindE (create_pending_payment order (row_id gc) amount currency key) (\<lambda>p.
           bindE (call_authorize g (build_credentials gc) p (pm_token pm) metadata) (\<lambda>i.
           record_intent p i))))))"

subsection \<open>Capture, refund, and invoices marked paid\<close>

definition gateway_of_payment :: "env \<Rightarrow> payment \<Rightarrow> (gateway \<times> gateway_credentials) act" where
  "gateway_of_payment e p =
     (case pay_gateway_config p of
        None \<Rightarrow> throw (AttributeError ''gateway_name'')
      | Some config \<Rightarrow>
          bindE (follow gateway_configs_tbl config) (\<lambda>gc.
          bindE (lift_sum (registry_get (env_registry e) (gc_gateway_name gc))) (\<lambda>g.
          ret (g, build_credentials gc))))"

definition set_status_response :: "payment_status \<Rightarrow> dict \<Rightarrow> payment \<Rightarrow> payment" where
  "set_status_response st response p = p\<lparr>pay_status := st, pay_gateway_response := response\<rparr>"

definition raw_or_empty :: "payment_intent \<Rightarrow> dict" where
  "raw_or_empty i = (case pi_raw_response i of None \<Rightarrow> [] | Some r \<Rightarrow> r)"

definition get_payment :: "uuid \<Rightarrow> payment act" where
  "get_payment i = get_row payments_tbl (\<lambda>p. row_id p = i) (DoesNotExist ''Payment'')"

definition capture_payment :: "env \<Rightarrow> uuid \<Rightarrow> payment act" where
  "capture_payment e i =
     bindE (get_payment i) (\<lambda>p.
     if pay_status p = PayCaptured then ret p
     else if pay_status p \<noteq> PayAuthorized
     then throw (PaymentFailed (Some (''Cannot capture payment in status '' @
            payment_status_value (pay_status p))) None)
     else
       bindE (gateway_of_payment e p) (\<lambda>(g, cr).
       let key = pay_idempotency_key p @ '':capture'' in
       bindE (gateway_call (CallCapture (gw_name g) (pay_gateway_transaction_id p) (pay_amount p) key)
                (\<lambda>n. gw_capture g n cr (pay_gateway_transaction_id p) key (Some (pay_amount p)))) (\<lambda>intent.
       let st = map_gateway_status (pi_status intent) in
       bindE (atomic (update_rows payments_tbl (\<lambda>r. row_id r = row_id p \<and> pay_status r = PayAuthorized)
                (set_status_response st (raw_or_empty intent)))) (\<lambda>updated.
       if updated = 0 then get_payment (row_id p)
       else ret (set_status_response st (raw_or_empty intent) p)))))"

text \<open>\<open>f"{key}:refund:{amount or 'full'}"\<close>.\<close>

definition refund_key :: "string \<Rightarrow> money option \<Rightarrow> string" where
  "refund_key key amount =
     key @ '':refund:'' @
     (case amount of None \<Rightarrow> ''full'' | Some a \<Rightarrow> if a = 0 then ''full'' else show_cents a)"

definition refund_payment :: "env \<Rightarrow> uuid \<Rightarrow> money option \<Rightarrow> string option \<Rightarrow> payment act" where
  "refund_payment e i amount reason =
     bindE (get_payment i) (\<lambda>p.
     if pay_status p \<noteq> PayCaptured
     then throw (PaymentFailed (Some (''Cannot refund payment in status '' @
            payment_status_value (pay_status p))) None)
     else if pay_gateway_config p = None
     then throw (PaymentFailed (Some ''Cannot refund a purchase-order payment via gateway'') None)
     else
       bindE (gateway_of_payment e p) (\<lambda>(g, cr).
       let key = refund_key (pay_idempotency_key p) amount in
       bindE (gateway_call (CallRefund (gw_name g) (pay_gateway_transaction_id p) amount key)
                (\<lambda>n. gw_refund g n cr (pay_gateway_transaction_id p) key amount reason)) (\<lambda>intent.
       let st = map_gateway_status (pi_status intent) in
       bindE (atomic (update_rows payments_tbl (\<lambda>r. row_id r = row_id p)
                (set_status_response st (raw_or_empty intent)))) (\<lambda>_.
       ret (set_status_response st (raw_or_empty intent) p)))))"

definition mark_invoice_paid :: "uuid \<Rightarrow> string \<Rightarrow> payment act" where
  "mark_invoice_paid i reference = atomic
     (bindE (get_payment i) (\<lambda>p.
      if pay_status p = PayCaptured then ret p
      else if pay_status p \<noteq> PayInvoicePending
      then throw (PaymentFailed (Some (''Cannot mark paid: payment is in status '' @
             payment_status_value (pay_status p))) None)
      else save_fields payments_tbl
             (set_status_response PayCaptured
               (dict_update (pay_gateway_response p) [(''marked_paid_reference'', JStr reference)])) p))"

end
