(* ===== verification/Checkout.thy ===== *)
theory Checkout
  imports Inventory Payments
begin

section \<open>The checkout saga\<close>

text \<open>
  \<^verbatim>\<open>apps/orders/services/checkout_service.py\<close> and \<^verbatim>\<open>checkout_helpers.py\<close>: the phases that
  turn a cart into an order, with their compensating actions, and the cancellation of an order. Each
  phase is a definition of its own, and \<open>checkout\<close> composes them the way the method does. An
  exception that a later phase raises does not undo the earlier ones; only the compensations do.
\<close>

record checkout_result =
  cr_order :: order
  cr_payment_status :: string
  cr_next_action :: json

text \<open>\<open>try: m except <caught>: comp(); raise\<close>.\<close>

definition or_compensate :: "'a act \<Rightarrow> (exn \<Rightarrow> bool) \<Rightarrow> unit act \<Rightarrow> 'a act" where
  "or_compensate m caught undo = try_except m caught (\<lambda>e. seqE undo (throw e))"

abbreviation any_exn :: "exn \<Rightarrow> bool" where
  "any_exn \<equiv> \<lambda>_. True"

subsection \<open>Idempotent replay\<close>

definition result_of_order :: "order \<Rightarrow> payment option \<Rightarrow> checkout_result" where
  "result_of_order od p =
     (case p of
        None \<Rightarrow> \<lparr>cr_order = od, cr_payment_status = ''pending'', cr_next_action = JNull\<rparr>
      | Some q \<Rightarrow> \<lparr>cr_order = od, cr_payment_status = payment_status_value (pay_status q),
                   cr_next_action = dict_get (pay_gateway_response q) ''next_action''\<rparr>)"

definition find_existing_checkout :: "string \<Rightarrow> checkout_result option act" where
  "find_existing_checkout key =
     bindE (gets (\<lambda>w. get_where (\<lambda>od. ord_idempotency_key od = key) (objects orders_tbl w))) (\<lambda>g.
     case g of
       NoRow \<Rightarrow> ret None
     | ManyRows \<Rightarrow> throw MultipleObjectsReturned
     | OneRow od \<Rightarrow>
         bindE (latest_row payments_tbl (\<lambda>p. pay_order p = row_id od)) (\<lambda>p. ret (Some (result_of_order od p))))"

subsection \<open>Phases 1 and 2: lock and validate\<close>

definition lock_and_validate_cart :: "uuid \<Rightarrow> int option \<Rightarrow> cart_view act" where
  "lock_and_validate_cart customer expected =
     bindE (get_row carts_tbl (active_cart_of customer) no_active_cart) (\<lambda>c.
     bindE (gets (\<lambda>w. load_cart w c)) (\<lambda>v.
     case expected of
       None \<Rightarrow> ret v
     | Some e \<Rightarrow> if cart_version c \<noteq> e then throw (CartVersionConflict e (cart_version c)) else ret v))"

definition phase_lock :: "uuid \<Rightarrow> int option \<Rightarrow> cart_view act" where
  "phase_lock customer expected = atomic
     (bindE (lock_and_validate_cart customer expected) (\<lambda>v.
      bindE (save_fields carts_tbl (\<lambda>r. r\<lparr>cart_status := CartCheckingOut\<rparr>) (cv_cart v)) (\<lambda>c.
      ret (v\<lparr>cv_cart := c\<rparr>))))"

text \<open>The coupons that were loaded with the cart are checked against the totals of the cart.\<close>

definition check_coupon :: "cart_view \<Rightarrow> money \<Rightarrow> coupon \<Rightarrow> unit act" where
  "check_coupon v subtotal cp =
     bindE current_time (\<lambda>now.
     case cv_customer v of
       None \<Rightarrow> throw (DoesNotExist ''Customer'')
     | Some cust \<Rightarrow>
         lift_sum (validate cp now subtotal (cart_currency (cv_cart v)) (map_option addr_country (cv_shipping v))
                     (Some (cust_type cust))))"

definition validate_preconditions :: "cart_view \<Rightarrow> unit act" where
  "validate_preconditions v =
     (let c = cv_cart v in
      if cv_items v = [] then throw (CartNotCheckoutReady ''Cart is empty'')
      else if cart_shipping_address c = None then throw (CartNotCheckoutReady ''Shipping address required'')
      else if cart_billing_address c = None then throw (CartNotCheckoutReady ''Billing address required'')
      else if cart_selected_payment_method c = None
        then throw (CartNotCheckoutReady ''Payment method required'')
      else for_each (check_coupon v (tot_subtotal (cv_totals v))) (cv_coupons v))"

definition revert_cart_to_active :: "uuid \<Rightarrow> unit act" where
  "revert_cart_to_active i =
     bindE (update_rows carts_tbl (\<lambda>c. row_id c = i \<and> cart_status c = CartCheckingOut)
              (\<lambda>c. c\<lparr>cart_status := CartActive\<rparr>)) (\<lambda>_. ret ())"

definition phase_validate :: "cart_view \<Rightarrow> unit act" where
  "phase_validate v =
     or_compensate (validate_preconditions v) any_exn (revert_cart_to_active (row_id (cv_cart v)))"

subsection \<open>Phase 3: reserve\<close>

definition phase_reserve :: "cart_view \<Rightarrow> reservation list act" where
  "phase_reserve v =
     or_compensate (reserve_stock (row_id (cv_cart v)) (cv_items v)) any_exn
       (revert_cart_to_active (row_id (cv_cart v)))"

subsection \<open>Phase 4: the order\<close>

text \<open>\<open>nextval\<close> of the tenant's sequence, which no rollback takes back.\<close>

definition next_order_number :: "uuid \<Rightarrow> int act" where
  "next_order_number t w =
     (case order_seq w t of
        None \<Rightarrow> (Inl (DatabaseError ''relation does not exist''), w)
      | Some n \<Rightarrow> (Inr (n + 1), w\<lparr>order_seq := (order_seq w)(t := Some (n + 1))\<rparr>))"

definition use_coupon :: "applied_coupon \<Rightarrow> unit act" where
  "use_coupon a =
     bindE (get_row coupons_tbl (\<lambda>c. row_id c = ac_coupon a) (DoesNotExist ''Coupon'')) (\<lambda>c.
     if (case coup_max_uses c of None \<Rightarrow> False | Some m \<Rightarrow> m \<le> coup_uses_count c)
     then throw (CouponExhausted (''Coupon '' @ coup_code c @ '' reached its usage limit during checkout''))
     else bindE (update_rows coupons_tbl (\<lambda>r. row_id r = row_id c)
                  (\<lambda>r. r\<lparr>coup_uses_count := coup_uses_count r + 1\<rparr>)) (\<lambda>_. ret ()))"

definition new_order :: "cart_view \<Rightarrow> customer \<Rightarrow> address \<Rightarrow> address \<Rightarrow> int \<Rightarrow> string \<Rightarrow> order" where
  "new_order v cust ship bill number key =
     (let t = cv_totals v in
      \<lparr>row_id = 0, tenant_id = 0, created_at = 0, updated_at = 0,
       ord_customer = row_id cust, ord_cart = None, ord_number = number, ord_status = OrderPending,
       ord_subtotal = tot_subtotal t, ord_discount_total = tot_discount_total t,
       ord_grand_total = tot_grand_total t, ord_currency = cart_currency (cv_cart v),
       ord_shipping_address = to_snapshot ship, ord_billing_address = to_snapshot bill,
       ord_is_b2b = is_b2b cust, ord_tax_id = (if is_b2b cust then cust_tax_id cust else ''''),
       ord_payment_terms = '''', ord_po_number = '''', ord_payment_due_date = None,
       ord_idempotency_key = key\<rparr>)"

definition new_order_item :: "uuid \<Rightarrow> product \<Rightarrow> cart_item \<Rightarrow> order_item" where
  "new_order_item order p i =
     \<lparr>row_id = 0, tenant_id = 0, created_at = 0, updated_at = 0, oi_order = order,
      oi_product = Some (row_id p), oi_product_sku_snapshot = prod_sku p,
      oi_product_name_snapshot = prod_name p, oi_quantity = item_quantity i,
      oi_unit_price = item_unit_price_snapshot i,
      oi_line_total = item_unit_price_snapshot i * item_quantity i, oi_currency = item_currency i\<rparr>"

definition create_order_item :: "cart_view \<Rightarrow> uuid \<Rightarrow> cart_item \<Rightarrow> unit act" where
  "create_order_item v order i =
     (case fk (cv_products v) (item_product i) of
        None \<Rightarrow> throw (DoesNotExist ''Product'')
      | Some p \<Rightarrow> bindE (create_with_tenant order_items_tbl (tenant_id (cv_cart v)) (new_order_item order p i))
                    (\<lambda>_. ret ()))"

definition create_order :: "cart_view \<Rightarrow> string \<Rightarrow> order act" where
  "create_order v key = atomic
     (bindE (gets (\<lambda>w. applied_of w (row_id (cv_cart v)))) (\<lambda>applied.
      seqE (for_each use_coupon applied)
      (bindE (next_order_number (tenant_id (cv_cart v))) (\<lambda>number.
       case (cv_customer v, cv_shipping v, cv_billing v) of
         (Some cust, Some ship, Some bill) \<Rightarrow>
           bindE (create orders_tbl (new_order v cust ship bill number key)) (\<lambda>od.
           seqE (for_each (create_order_item v (row_id od)) (cv_items v))
           (ret od))
       | _ \<Rightarrow> throw (AttributeError ''to_snapshot'')))))"

definition phase_order :: "cart_view \<Rightarrow> reservation list \<Rightarrow> string \<Rightarrow> order act" where
  "phase_order v rs key =
     or_compensate (create_order v key) any_exn
       (seqE (release_reservations rs) (revert_cart_to_active (row_id (cv_cart v))))"

subsection \<open>Phase 5: purchase orders and authorization\<close>

definition save_order_status :: "order_status \<Rightarrow> order \<Rightarrow> order act" where
  "save_order_status st od = save_fields orders_tbl (\<lambda>r. r\<lparr>ord_status := st\<rparr>) od"

text \<open>\<open>_cancel_order\<close>.\<close>

definition cancel_order_row :: "order \<Rightarrow> unit act" where
  "cancel_order_row od = atomic
     (bindE (refresh_from_db orders_tbl od) (\<lambda>od.
      if ord_status od \<in> {OrderPending, OrderPaid}
      then bindE (save_order_status OrderCancelled od) (\<lambda>_. ret ())
      else ret ()))"

definition compensate_order :: "cart_view \<Rightarrow> reservation list \<Rightarrow> order \<Rightarrow> unit act" where
  "compensate_order v rs od =
     seqE (cancel_order_row od)
     (seqE (release_reservations rs)
     (revert_cart_to_active (row_id (cv_cart v))))"

text \<open>\<open>_enqueue_post_payment_tasks\<close>: a failure of the broker is logged and swallowed.\<close>

definition enqueue_post_payment_tasks :: "order \<Rightarrow> unit act" where
  "enqueue_post_payment_tasks od = delay (GenerateInvoice (tenant_id od) (row_id od))"

definition convert_cart :: "cart_view \<Rightarrow> unit act" where
  "convert_cart v =
     bindE (refresh_from_db carts_tbl (cv_cart v)) (\<lambda>c.
     bindE (save_fields carts_tbl (\<lambda>r. r\<lparr>cart_status := CartConverted\<rparr>) c) (\<lambda>_. ret ()))"

definition link_reservation :: "uuid \<Rightarrow> reservation \<Rightarrow> unit act" where
  "link_reservation order r =
     bindE (save_fields reservations_tbl (\<lambda>x. x\<lparr>res_order := Some order\<rparr>) r) (\<lambda>_. ret ())"

text \<open>\<open>_PO_TERMS_TO_DAYS\<close>.\<close>

definition po_terms_to_days :: "(string \<times> int) list" where
  "po_terms_to_days = [(''net_15'', 15), (''net_30'', 30), (''net_60'', 60), (''net_90'', 90)]"

definition due_days :: "string \<Rightarrow> int" where
  "due_days terms = (case map_of po_terms_to_days terms of None \<Rightarrow> 30 | Some d \<Rightarrow> d)"

definition purchase_order_path ::
  "cart_view \<Rightarrow> reservation list \<Rightarrow> order \<Rightarrow> payment_method \<Rightarrow> string \<Rightarrow> checkout_result act" where
  "purchase_order_path v rs od pm key =
     bindE (or_compensate
              (create_invoice_pending_payment (row_id od) (ord_grand_total od) (ord_currency od) (key @ '':po''))
              any_exn (compensate_order v rs od)) (\<lambda>_.
     let terms = or_default (pm_payment_terms pm) ''net_30''; days = due_days terms in
     bindE (atomic
       (bindE (refresh_from_db orders_tbl od) (\<lambda>od.
        bindE current_time (\<lambda>now.
        bindE (save_fields orders_tbl (\<lambda>r. r\<lparr>ord_payment_terms := terms,
                 ord_payment_due_date := Some (day_of (now + days * day_us)),
                 ord_cart := Some (row_id (cv_cart v))\<rparr>) od) (\<lambda>od.
        seqE (convert_cart v)
        (seqE (for_each (link_reservation (row_id od)) rs)
        (seqE (commit_reservations rs)
        (ret od)))))))) (\<lambda>od.
     seqE (enqueue_post_payment_tasks od)
     (ret \<lparr>cr_order = od, cr_payment_status = ''invoice_pending'', cr_next_action = JNull\<rparr>)))"

definition enriched_metadata :: "order \<Rightarrow> customer \<Rightarrow> dict \<Rightarrow> dict" where
  "enriched_metadata od cust extra =
     dict_update
       ([(''order_id'', JStr (uuid_str (row_id od))), (''order_number'', JStr (show_int (ord_number od))),
         (''customer_id'', JStr (uuid_str (row_id cust))), (''customer_email'', JStr (cust_email cust)),
         (''customer_name'', JStr (cust_name cust)),
         (''is_b2b'', JStr (if is_b2b cust then ''true'' else ''false''))]
        @ (if is_b2b cust \<and> cust_company_name cust \<noteq> []
           then [(''company_name'', JStr (cust_company_name cust))] else []))
       extra"

text \<open>Only \<open>PaymentFailed\<close> is caught here.\<close>

definition phase_authorize ::
  "env \<Rightarrow> cart_view \<Rightarrow> reservation list \<Rightarrow> order \<Rightarrow> payment_method \<Rightarrow> customer \<Rightarrow> string \<Rightarrow> dict \<Rightarrow> payment act" where
  "phase_authorize e v rs od pm cust key extra =
     or_compensate
       (authorize_payment e (row_id od) (row_id pm) (ord_grand_total od) (ord_currency od) (key @ '':auth'')
          (enriched_metadata od cust extra))
       is_payment_failed (compensate_order v rs od)"

subsection \<open>Phases 6 and 7: convert the cart, capture\<close>

definition phase_convert :: "cart_view \<Rightarrow> reservation list \<Rightarrow> order \<Rightarrow> order act" where
  "phase_convert v rs od = atomic
     (seqE (convert_cart v)
     (bindE (save_fields orders_tbl (\<lambda>r. r\<lparr>ord_cart := Some (row_id (cv_cart v))\<rparr>) od) (\<lambda>od.
      seqE (for_each (link_reservation (row_id od)) rs)
      (ret od))))"

definition mark_paid_and_commit :: "order \<Rightarrow> reservation list \<Rightarrow> order act" where
  "mark_paid_and_commit od rs = atomic
     (bindE (refresh_from_db orders_tbl od) (\<lambda>od.
      bindE (save_order_status OrderPaid od) (\<lambda>od.
      seqE (commit_reservations rs)
      (ret od))))"

definition pending_result :: "string \<Rightarrow> json \<Rightarrow> order \<Rightarrow> checkout_result" where
  "pending_result st na od = \<lparr>cr_order = od, cr_payment_status = st, cr_next_action = na\<rparr>"

text \<open>
  The capture. What \<open>capture_payment\<close> returns is not looked at. An exception of the capture, or of the
  block after it, leaves the order to reconciliation; after the latter the instance in memory is
  already marked paid.
\<close>

definition phase_capture :: "env \<Rightarrow> order \<Rightarrow> reservation list \<Rightarrow> uuid \<Rightarrow> checkout_result act" where
  "phase_capture e od rs payment =
     bindE (try_except (bindE (capture_payment e payment) (\<lambda>_. ret True)) any_exn (\<lambda>_. ret False)) (\<lambda>captured.
     if \<not> captured then ret (pending_result ''capture_pending'' JNull od)
     else try_except
            (bindE (mark_paid_and_commit od rs) (\<lambda>od'.
             seqE (enqueue_post_payment_tasks od')
             (ret (pending_result ''captured'' JNull od'))))
            any_exn
            (\<lambda>_. ret (pending_result ''capture_pending'' JNull (od\<lparr>ord_status := OrderPaid\<rparr>))))"

definition phase_finish :: "env \<Rightarrow> order \<Rightarrow> reservation list \<Rightarrow> payment \<Rightarrow> checkout_result act" where
  "phase_finish e od rs p =
     (if pay_status p = PayAuthorized then phase_capture e od rs (row_id p)
      else if pay_status p = PayPending
        then ret (pending_result ''pending'' (dict_get (pay_gateway_response p) ''next_action'') od)
      else throw (PaymentFailed (Some (''Unexpected payment status: '' @ payment_status_value (pay_status p))) None))"

subsection \<open>The whole saga\<close>

definition card_path ::
  "env \<Rightarrow> cart_view \<Rightarrow> reservation list \<Rightarrow> order \<Rightarrow> payment_method \<Rightarrow> customer \<Rightarrow> string \<Rightarrow> dict \<Rightarrow> checkout_result act" where
  "card_path e v rs od pm cust key extra =
     bindE (phase_authorize e v rs od pm cust key extra) (\<lambda>p.
     bindE (phase_convert v rs od) (\<lambda>od.
     phase_finish e od rs p))"

definition pay_order_step ::
  "env \<Rightarrow> cart_view \<Rightarrow> reservation list \<Rightarrow> order \<Rightarrow> string \<Rightarrow> dict \<Rightarrow> checkout_result act" where
  "pay_order_step e v rs od key extra =
     (case (cv_payment_method v, cv_customer v) of
        (Some pm, Some cust) \<Rightarrow>
          (if pm_method_type pm = PURCHASE_ORDER then purchase_order_path v rs od pm key
           else card_path e v rs od pm cust key extra)
      | _ \<Rightarrow> throw (AttributeError ''method_type''))"

text \<open>Phases 1 to 4: a cart in checkout, its reservations and its order.\<close>

definition prepare_order :: "uuid \<Rightarrow> string \<Rightarrow> int option \<Rightarrow> (cart_view \<times> reservation list \<times> order) act" where
  "prepare_order customer key expected =
     bindE (phase_lock customer expected) (\<lambda>v.
     seqE (phase_validate v)
     (bindE (phase_reserve v) (\<lambda>rs.
      bindE (phase_order v rs key) (\<lambda>od.
      ret (v, rs, od)))))"

definition run_saga :: "env \<Rightarrow> uuid \<Rightarrow> string \<Rightarrow> int option \<Rightarrow> dict \<Rightarrow> checkout_result act" where
  "run_saga e customer key expected extra =
     bindE (prepare_order customer key expected) (\<lambda>(v, rs, od). pay_order_step e v rs od key extra)"

definition checkout :: "env \<Rightarrow> uuid \<Rightarrow> string \<Rightarrow> int option \<Rightarrow> dict \<Rightarrow> checkout_result act" where
  "checkout e customer key expected extra =
     bindE (find_existing_checkout key) (\<lambda>existing.
     case existing of
       Some r \<Rightarrow> ret r
     | None \<Rightarrow> run_saga e customer key expected extra)"

subsection \<open>Cancellation by the customer\<close>

definition open_payment_status :: "payment_status \<Rightarrow> bool" where
  "open_payment_status s \<longleftrightarrow> s \<in> {PayAuthorized, PayPending, PayInvoicePending}"

definition of_order_in :: "uuid \<Rightarrow> reservation_status \<Rightarrow> reservation \<Rightarrow> bool" where
  "of_order_in i st r \<longleftrightarrow> res_order r = Some i \<and> res_status r = st"

definition not_cancellable :: "order \<Rightarrow> exn" where
  "not_cancellable od =
     OrderNotCancellable (''Cannot cancel order in status '' @ py_repr (JStr (order_status_value (ord_status od))))
       [(''order_id'', JStr (uuid_str (row_id od))), (''status'', JStr (order_status_value (ord_status od)))]"

definition cancel_order :: "uuid \<Rightarrow> uuid \<Rightarrow> order act" where
  "cancel_order customer i = atomic
     (bindE (get_row orders_tbl (\<lambda>od. ord_customer od = customer \<and> row_id od = i)
               (ResourceNotFound ''Order not found'')) (\<lambda>od.
      if ord_status od = OrderCancelled then ret od
      else if ord_status od \<noteq> OrderPending then throw (not_cancellable od)
      else
        bindE (filter_rows reservations_tbl (of_order_in (row_id od) ResActive)) (\<lambda>active.
        seqE (do_when (active \<noteq> []) (release_reservations active))
        (bindE (filter_rows reservations_tbl (of_order_in (row_id od) ResCommitted)) (\<lambda>committed.
         seqE (do_when (committed \<noteq> []) (reverse_committed_reservations committed))
         (bindE (update_rows payments_tbl (\<lambda>p. pay_order p = row_id od \<and> open_payment_status (pay_status p))
                  (\<lambda>p. p\<lparr>pay_status := PayCancelled\<rparr>)) (\<lambda>_.
          save_order_status OrderCancelled od)))))))"

end
