(* ===== verification/PaymentTasks.thy ===== *)
theory PaymentTasks
  imports Checkout
begin

section \<open>Webhooks and reconciliation\<close>

text \<open>
  \<^verbatim>\<open>apps/payments/tasks.py\<close> and the webhook endpoint
  \<^verbatim>\<open>apps/payments/views/payment_webhook.py\<close>: an event of a gateway is verified and queued,
  the task applies it once to the payment and its order, and the periodic sweep converges payments
  that stayed pending.
\<close>

subsection \<open>What a paid or failed payment does to the order\<close>

definition enqueue_invoice_on_commit :: "order \<Rightarrow> unit act" where
  "enqueue_invoice_on_commit od = on_commit (GenerateInvoice (tenant_id od) (row_id od))"

definition revert_cart_if_checking_out :: "order \<Rightarrow> unit act" where
  "revert_cart_if_checking_out od =
     (case ord_cart od of None \<Rightarrow> ret () | Some c \<Rightarrow> revert_checking_out c)"

text \<open>An order that is neither pending nor in the target status is left alone (a warning is logged).\<close>

definition apply_order_paid :: "order \<Rightarrow> unit act" where
  "apply_order_paid od =
     (if ord_status od \<noteq> OrderPending then ret ()
      else bindE (save_order_status OrderPaid od) (\<lambda>od.
           seqE (commit_reservations_for_order (row_id od))
                (enqueue_invoice_on_commit od)))"

definition apply_order_cancelled :: "order \<Rightarrow> unit act" where
  "apply_order_cancelled od =
     (if ord_status od \<noteq> OrderPending then ret ()
      else bindE (save_order_status OrderCancelled od) (\<lambda>od.
           seqE (release_reservations_for_order (row_id od))
                (revert_cart_if_checking_out od)))"

subsection \<open>The webhook task\<close>

definition apply_event :: "string \<Rightarrow> order \<Rightarrow> unit act" where
  "apply_event event_type od =
     (if event_type = ''payment.captured'' then apply_order_paid od
      else if event_type = ''payment.failed'' \<or> event_type = ''payment.cancelled'' then apply_order_cancelled od
      else if event_type = ''payment.refunded''
        then bindE (save_order_status OrderRefunded od) (\<lambda>_. ret ())
      else ret ())"

definition record_event :: "webhook_args \<Rightarrow> unit act" where
  "record_event a =
     bindE (insert_row webhook_events_tbl
              \<lparr>pwe_gateway_name = wa_gateway_name a, pwe_event_id = wa_event_id a,
               pwe_event_type = wa_event_type a\<rparr>) (\<lambda>_. ret ())"

definition mutate_for_event :: "webhook_args \<Rightarrow> unit act" where
  "mutate_for_event a =
     bindE (get_payment (wa_payment a)) (\<lambda>p.
     bindE (save_fields payments_tbl (set_status_response (wa_new_status a) (wa_raw_payload a)) p) (\<lambda>p.
     bindE (get_row orders_tbl (\<lambda>od. row_id od = pay_order p) (DoesNotExist ''Order'')) (\<lambda>od.
     apply_event (wa_event_type a) od)))"

text \<open>The row in the ledger of events and the mutations share one transaction.\<close>

definition process_webhook_event :: "webhook_args \<Rightarrow> unit act" where
  "process_webhook_event a =
     try_except (atomic (seqE (record_event a) (mutate_for_event a))) is_integrity_error (\<lambda>_. ret ())"

subsection \<open>The webhook endpoint\<close>

definition header_or :: "(string \<times> string) list \<Rightarrow> string \<Rightarrow> string \<Rightarrow> string" where
  "header_or m k dflt = or_default (meta_get m k) dflt"

definition signature_of :: "http_request \<Rightarrow> string" where
  "signature_of req =
     header_or (req_meta req) ''HTTP_STRIPE_SIGNATURE'' (meta_get (req_meta req) ''HTTP_X_GATEWAY_SIGNATURE'')"

definition webhook_task_of :: "payment \<Rightarrow> string \<Rightarrow> webhook_event \<Rightarrow> task" where
  "webhook_task_of p gateway_name ev = ProcessWebhookEvent
     \<lparr>wa_tenant = tenant_id p, wa_payment = row_id p, wa_event_type = we_event_type ev,
      wa_new_status = map_gateway_status (we_status ev), wa_raw_payload = we_raw_payload ev,
      wa_gateway_name = gateway_name, wa_event_id = we_event_id ev\<rparr>"

text \<open>
  \<open>PaymentWebhookView.post\<close>; the result is the status of the response. The payment is looked up in all
  tenants by the transaction of the event, and the signature is checked with the credentials of the
  configuration the payment was made with. The value of a gateway status and of the payment status it
  is stored as are the same text.
\<close>

definition webhook_credentials :: "payment \<Rightarrow> gateway_credentials act" where
  "webhook_credentials p =
     (case pay_gateway_config p of
        None \<Rightarrow> throw (AttributeError ''credentials'')
      | Some c \<Rightarrow> bindE (follow gateway_configs_tbl c) (\<lambda>gc. ret (build_credentials gc)))"

definition payment_webhook_view :: "env \<Rightarrow> string \<Rightarrow> http_request \<Rightarrow> nat act" where
  "payment_webhook_view e name req =
     (case registry_get (env_registry e) name of
        Inl _ \<Rightarrow> ret 404
      | Inr g \<Rightarrow>
          (case gw_parse_webhook g (req_body req) of
             Inl _ \<Rightarrow> ret 400
           | Inr ev \<Rightarrow>
               bindE (gets (\<lambda>w. first_by pk_order (filter (\<lambda>p. pay_gateway_transaction_id p = we_gateway_transaction_id ev)
                        (all_objects payments_tbl w)))) (\<lambda>found.
               case found of
                 None \<Rightarrow> ret 404
               | Some p \<Rightarrow>
                   bindE (webhook_credentials p) (\<lambda>cr.
                   bindE (lift_sum (gw_verify_webhook g cr (req_body req) (signature_of req))) (\<lambda>ok.
                   if \<not> ok then ret 401
                   else seqE (delay (webhook_task_of p name ev)) (ret 202))))))"

subsection \<open>Reconciliation\<close>

definition reconcile_stale_minutes :: int where
  "reconcile_stale_minutes = 10"

definition reconcile_batch_size :: nat where
  "reconcile_batch_size = 100"

definition minute_us :: int where
  "minute_us = 60000000"

datatype outcome = Converged | Cancelled | StillPending

definition mark_order_paid :: "uuid \<Rightarrow> unit act" where
  "mark_order_paid i =
     bindE (get_row_all orders_tbl (\<lambda>od. row_id od = i) (DoesNotExist ''Order'')) apply_order_paid"

definition mark_order_cancelled_and_release :: "uuid \<Rightarrow> unit act" where
  "mark_order_cancelled_and_release i =
     bindE (get_row_all orders_tbl (\<lambda>od. row_id od = i) (DoesNotExist ''Order'')) apply_order_cancelled"

definition save_reconciled :: "payment_status \<Rightarrow> dict \<Rightarrow> payment \<Rightarrow> payment act" where
  "save_reconciled st extra p =
     save_fields payments_tbl (set_status_response st (dict_update (pay_gateway_response p) extra)) p"

definition apply_retrieved :: "payment \<Rightarrow> payment_intent \<Rightarrow> outcome act" where
  "apply_retrieved p i =
     (let st = map_gateway_status (pi_status i) in
      bindE (save_reconciled st [(''reconciled'', JBool True), (''reconciled_intent'', JObj (raw_or_empty i))] p) (\<lambda>_.
      if st = PayCaptured then seqE (mark_order_paid (pay_order p)) (ret Converged)
      else if st \<in> {PayFailed, PayCancelled}
        then seqE (mark_order_cancelled_and_release (pay_order p)) (ret Cancelled)
      else ret Converged))"

definition reconcile_known_intent :: "env \<Rightarrow> payment \<Rightarrow> outcome act" where
  "reconcile_known_intent e p =
     bindE (gateway_of_payment e p) (\<lambda>(g, cr).
     bindE (try_except
              (gateway_call (CallRetrieve (gw_name g) (pay_gateway_transaction_id p))
                 (\<lambda>n. gw_retrieve_payment g n cr (pay_gateway_transaction_id p)))
              any_exn (\<lambda>_. ret None)) (\<lambda>intent.
     case intent of
       None \<Rightarrow> ret StillPending
     | Some i \<Rightarrow> if pi_status i = GwPending then ret StillPending else apply_retrieved p i))"

definition reconcile_unknown_intent :: "payment \<Rightarrow> outcome act" where
  "reconcile_unknown_intent p =
     bindE (save_reconciled PayFailed [(''reconciled'', JBool True),
              (''reconcile_reason'', JStr ''no_gateway_transaction_id'')] p) (\<lambda>_.
     seqE (mark_order_cancelled_and_release (pay_order p)) (ret Cancelled))"

definition pending_with_id :: "uuid \<Rightarrow> payment \<Rightarrow> bool" where
  "pending_with_id i p \<longleftrightarrow> row_id p = i \<and> pay_status p = PayPending"

definition first_pending :: "uuid \<Rightarrow> payment option act" where
  "first_pending i = gets (\<lambda>w. first_by pk_order (filter (pending_with_id i) (all_objects payments_tbl w)))"

text \<open>
  \<open>select_for_update(skip_locked=True).select_related("gateway_config")\<close>: without \<open>of\<close> the lock is on every table of the
  query, and a key that may be null is joined by an outer join. PostgreSQL refuses to lock its nullable side, whatever the
  rows are.
\<close>

definition lock_joined :: "env \<Rightarrow> 'a act \<Rightarrow> 'a act" where
  "lock_joined e query =
     (if env_locks_outer_joins e then query
      else throw (DatabaseError ''FOR UPDATE cannot be applied to the nullable side of an outer join''))"

lemma lock_joined_preserves [hoare_intros]: "preserves I m \<Longrightarrow> preserves I (lock_joined e m)"
  unfolding lock_joined_def by (intro hoare_intros)

lemma lock_joined_bind: "preserves I (bindE m f) \<Longrightarrow> preserves I (bindE (lock_joined e m) f)"
  by (simp add: lock_joined_def preserves_def bindE_def)

definition reconcile_locked :: "env \<Rightarrow> uuid \<Rightarrow> outcome act" where
  "reconcile_locked e i = atomic
     (bindE (lock_joined e (first_pending i)) (\<lambda>found.
      case found of
        None \<Rightarrow> ret StillPending
      | Some p \<Rightarrow>
          if pay_gateway_transaction_id p \<noteq> [] then reconcile_known_intent e p
          else reconcile_unknown_intent p))"

definition reconcile_one :: "env \<Rightarrow> uuid \<Rightarrow> outcome act" where
  "reconcile_one e i =
     bindE (first_pending i) (\<lambda>pre.
     case pre of
       None \<Rightarrow> ret StillPending
     | Some p \<Rightarrow> tenant_context (Some (tenant_id p)) (reconcile_locked e i))"

record summary =
  sum_scanned :: nat
  sum_converged :: nat
  sum_cancelled :: nat
  sum_still_pending :: nat

definition count_outcome :: "outcome \<Rightarrow> summary \<Rightarrow> summary" where
  "count_outcome oc s =
     (case oc of
        Converged \<Rightarrow> s\<lparr>sum_converged := Suc (sum_converged s)\<rparr>
      | Cancelled \<Rightarrow> s\<lparr>sum_cancelled := Suc (sum_cancelled s)\<rparr>
      | StillPending \<Rightarrow> s\<lparr>sum_still_pending := Suc (sum_still_pending s)\<rparr>)"

text \<open>An exception of one payment is logged and the sweep goes on.\<close>

fun reconcile_all :: "env \<Rightarrow> uuid list \<Rightarrow> summary \<Rightarrow> summary act" where
  "reconcile_all e [] s = ret s"
| "reconcile_all e (i # is) s =
     bindE (try_except (bindE (reconcile_one e i) (\<lambda>oc. ret (count_outcome oc s))) any_exn (\<lambda>_. ret s)) (\<lambda>s.
     reconcile_all e is s)"

definition stale_pending :: "time \<Rightarrow> payment \<Rightarrow> bool" where
  "stale_pending cutoff p \<longleftrightarrow> pay_status p = PayPending \<and> updated_at p < cutoff"

definition candidate_ids :: "time \<Rightarrow> world \<Rightarrow> uuid list" where
  "candidate_ids cutoff w =
     map row_id (take reconcile_batch_size
       (sort_key updated_at (filter (stale_pending cutoff) (all_objects payments_tbl w))))"

definition reconcile_pending_payments :: "env \<Rightarrow> int \<Rightarrow> summary act" where
  "reconcile_pending_payments e stale_after_minutes =
     bindE current_time (\<lambda>now.
     bindE (gets (candidate_ids (now - stale_after_minutes * minute_us))) (\<lambda>is.
     reconcile_all e is
       \<lparr>sum_scanned = length is, sum_converged = 0, sum_cancelled = 0, sum_still_pending = 0\<rparr>))"

text \<open>
  \<open>PlatformReconcilePaymentsView.post\<close>: the query parameter, when it is an integer, overrides the
  threshold.
\<close>

definition parse_int :: "string \<Rightarrow> int option" where
  "parse_int s =
     (let t = strip s;
          neg = (t \<noteq> [] \<and> hd t = CHR ''-'');
          d = (if t \<noteq> [] \<and> (hd t = CHR ''-'' \<or> hd t = CHR ''+'') then tl t else t)
      in if d \<noteq> [] \<and> list_all is_digit d
         then (let n = foldl (\<lambda>a c. 10 * a + (of_char c - 48)) 0 d in Some (if neg then - n else n))
         else None)"

definition reconcile_trigger_view :: "env \<Rightarrow> string option \<Rightarrow> summary act" where
  "reconcile_trigger_view e raw =
     reconcile_pending_payments e
       (case raw of None \<Rightarrow> reconcile_stale_minutes
        | Some s \<Rightarrow> (case parse_int s of None \<Rightarrow> reconcile_stale_minutes | Some n \<Rightarrow> n))"

end
