(* ===== verification/Ledger.thy ===== *)
theory Ledger
  imports PaymentTasks
begin

section \<open>Every operation keeps the constraints and the stock ledger\<close>

text \<open>
  The invariant through the whole program: the cart operations, the phases of the saga with
  their compensations, cancellation, the webhook task and reconciliation. \<open>schema\<close> says that every table
  meets its constraints; \<open>inv t ids\<close> is the ledger and the schema, and that the tenant in context is \<open>t\<close>,
  to whom the reservations \<open>ids\<close> that are in hand belong.
\<close>

subsection \<open>The schema\<close>

definition schema :: "world \<Rightarrow> bool" where
  "schema w \<longleftrightarrow>
     tbl_ok tenants_tbl (db_tenants w) \<and>
     tbl_ok memberships_tbl (db_memberships w) \<and>
     tbl_ok tokens_tbl (db_tokens w) \<and>
     tbl_ok customers_tbl (db_customers w) \<and>
     tbl_ok addresses_tbl (db_addresses w) \<and>
     tbl_ok products_tbl (db_products w) \<and>
     tbl_ok coupons_tbl (db_coupons w) \<and>
     tbl_ok carts_tbl (db_carts w) \<and>
     tbl_ok cart_items_tbl (db_cart_items w) \<and>
     tbl_ok applied_coupons_tbl (db_applied_coupons w) \<and>
     tbl_ok payment_methods_tbl (db_payment_methods w) \<and>
     tbl_ok gateway_configs_tbl (db_gateway_configs w) \<and>
     tbl_ok orders_tbl (db_orders w) \<and>
     tbl_ok order_items_tbl (db_order_items w) \<and>
     tbl_ok reservations_tbl (db_reservations w) \<and>
     tbl_ok payments_tbl (db_payments w) \<and>
     tbl_ok invoices_tbl (db_invoices w) \<and>
     tbl_ok webhook_events_tbl (db_webhook_events w)"

lemma table_rows [simp]:
  "tbl_rows tenants_tbl w = db_tenants w"
  "tbl_rows memberships_tbl w = db_memberships w"
  "tbl_rows tokens_tbl w = db_tokens w"
  "tbl_rows customers_tbl w = db_customers w"
  "tbl_rows addresses_tbl w = db_addresses w"
  "tbl_rows coupons_tbl w = db_coupons w"
  "tbl_rows cart_items_tbl w = db_cart_items w"
  "tbl_rows applied_coupons_tbl w = db_applied_coupons w"
  "tbl_rows payment_methods_tbl w = db_payment_methods w"
  "tbl_rows gateway_configs_tbl w = db_gateway_configs w"
  "tbl_rows orders_tbl w = db_orders w"
  "tbl_rows order_items_tbl w = db_order_items w"
  "tbl_rows payments_tbl w = db_payments w"
  "tbl_rows invoices_tbl w = db_invoices w"
  "tbl_rows webhook_events_tbl w = db_webhook_events w"
  by (simp_all add: tbl_defs)

lemma table_put [simp]:
  "tbl_put tenants_tbl rs0 w = w\<lparr>db_tenants := rs0\<rparr>"
  "tbl_put memberships_tbl rs1 w = w\<lparr>db_memberships := rs1\<rparr>"
  "tbl_put tokens_tbl rs2 w = w\<lparr>db_tokens := rs2\<rparr>"
  "tbl_put customers_tbl rs3 w = w\<lparr>db_customers := rs3\<rparr>"
  "tbl_put addresses_tbl rs4 w = w\<lparr>db_addresses := rs4\<rparr>"
  "tbl_put coupons_tbl rs6 w = w\<lparr>db_coupons := rs6\<rparr>"
  "tbl_put cart_items_tbl rs8 w = w\<lparr>db_cart_items := rs8\<rparr>"
  "tbl_put applied_coupons_tbl rs9 w = w\<lparr>db_applied_coupons := rs9\<rparr>"
  "tbl_put payment_methods_tbl rs10 w = w\<lparr>db_payment_methods := rs10\<rparr>"
  "tbl_put gateway_configs_tbl rs11 w = w\<lparr>db_gateway_configs := rs11\<rparr>"
  "tbl_put orders_tbl rs12 w = w\<lparr>db_orders := rs12\<rparr>"
  "tbl_put order_items_tbl rs13 w = w\<lparr>db_order_items := rs13\<rparr>"
  "tbl_put payments_tbl rs15 w = w\<lparr>db_payments := rs15\<rparr>"
  "tbl_put invoices_tbl rs16 w = w\<lparr>db_invoices := rs16\<rparr>"
  "tbl_put webhook_events_tbl rs17 w = w\<lparr>db_webhook_events := rs17\<rparr>"
  by (simp_all add: tbl_defs)

lemma schema_get:
  "schema w \<Longrightarrow> tbl_ok tenants_tbl (db_tenants w)"
  "schema w \<Longrightarrow> tbl_ok memberships_tbl (db_memberships w)"
  "schema w \<Longrightarrow> tbl_ok tokens_tbl (db_tokens w)"
  "schema w \<Longrightarrow> tbl_ok customers_tbl (db_customers w)"
  "schema w \<Longrightarrow> tbl_ok addresses_tbl (db_addresses w)"
  "schema w \<Longrightarrow> tbl_ok products_tbl (db_products w)"
  "schema w \<Longrightarrow> tbl_ok coupons_tbl (db_coupons w)"
  "schema w \<Longrightarrow> tbl_ok carts_tbl (db_carts w)"
  "schema w \<Longrightarrow> tbl_ok cart_items_tbl (db_cart_items w)"
  "schema w \<Longrightarrow> tbl_ok applied_coupons_tbl (db_applied_coupons w)"
  "schema w \<Longrightarrow> tbl_ok payment_methods_tbl (db_payment_methods w)"
  "schema w \<Longrightarrow> tbl_ok gateway_configs_tbl (db_gateway_configs w)"
  "schema w \<Longrightarrow> tbl_ok orders_tbl (db_orders w)"
  "schema w \<Longrightarrow> tbl_ok order_items_tbl (db_order_items w)"
  "schema w \<Longrightarrow> tbl_ok reservations_tbl (db_reservations w)"
  "schema w \<Longrightarrow> tbl_ok payments_tbl (db_payments w)"
  "schema w \<Longrightarrow> tbl_ok invoices_tbl (db_invoices w)"
  "schema w \<Longrightarrow> tbl_ok webhook_events_tbl (db_webhook_events w)"
  by (simp_all add: schema_def)

lemma schema_upd [simp]:
  "schema w \<Longrightarrow> tbl_ok tenants_tbl rs0 \<Longrightarrow> schema (w\<lparr>db_tenants := rs0\<rparr>)"
  "schema w \<Longrightarrow> tbl_ok memberships_tbl rs1 \<Longrightarrow> schema (w\<lparr>db_memberships := rs1\<rparr>)"
  "schema w \<Longrightarrow> tbl_ok tokens_tbl rs2 \<Longrightarrow> schema (w\<lparr>db_tokens := rs2\<rparr>)"
  "schema w \<Longrightarrow> tbl_ok customers_tbl rs3 \<Longrightarrow> schema (w\<lparr>db_customers := rs3\<rparr>)"
  "schema w \<Longrightarrow> tbl_ok addresses_tbl rs4 \<Longrightarrow> schema (w\<lparr>db_addresses := rs4\<rparr>)"
  "schema w \<Longrightarrow> tbl_ok products_tbl rs5 \<Longrightarrow> schema (w\<lparr>db_products := rs5\<rparr>)"
  "schema w \<Longrightarrow> tbl_ok coupons_tbl rs6 \<Longrightarrow> schema (w\<lparr>db_coupons := rs6\<rparr>)"
  "schema w \<Longrightarrow> tbl_ok carts_tbl rs7 \<Longrightarrow> schema (w\<lparr>db_carts := rs7\<rparr>)"
  "schema w \<Longrightarrow> tbl_ok cart_items_tbl rs8 \<Longrightarrow> schema (w\<lparr>db_cart_items := rs8\<rparr>)"
  "schema w \<Longrightarrow> tbl_ok applied_coupons_tbl rs9 \<Longrightarrow> schema (w\<lparr>db_applied_coupons := rs9\<rparr>)"
  "schema w \<Longrightarrow> tbl_ok payment_methods_tbl rs10 \<Longrightarrow> schema (w\<lparr>db_payment_methods := rs10\<rparr>)"
  "schema w \<Longrightarrow> tbl_ok gateway_configs_tbl rs11 \<Longrightarrow> schema (w\<lparr>db_gateway_configs := rs11\<rparr>)"
  "schema w \<Longrightarrow> tbl_ok orders_tbl rs12 \<Longrightarrow> schema (w\<lparr>db_orders := rs12\<rparr>)"
  "schema w \<Longrightarrow> tbl_ok order_items_tbl rs13 \<Longrightarrow> schema (w\<lparr>db_order_items := rs13\<rparr>)"
  "schema w \<Longrightarrow> tbl_ok reservations_tbl rs14 \<Longrightarrow> schema (w\<lparr>db_reservations := rs14\<rparr>)"
  "schema w \<Longrightarrow> tbl_ok payments_tbl rs15 \<Longrightarrow> schema (w\<lparr>db_payments := rs15\<rparr>)"
  "schema w \<Longrightarrow> tbl_ok invoices_tbl rs16 \<Longrightarrow> schema (w\<lparr>db_invoices := rs16\<rparr>)"
  "schema w \<Longrightarrow> tbl_ok webhook_events_tbl rs17 \<Longrightarrow> schema (w\<lparr>db_webhook_events := rs17\<rparr>)"
  by (simp_all add: schema_def)

lemma schema_frame [simp]:
  "schema (w\<lparr>db_users := x0\<rparr>) = schema w"
  "schema (w\<lparr>on_commit_hooks := x1\<rparr>) = schema w"
  "schema (w\<lparr>task_queue := x2\<rparr>) = schema w"
  "schema (w\<lparr>order_seq := x3\<rparr>) = schema w"
  "schema (w\<lparr>invoice_seq := x4\<rparr>) = schema w"
  "schema (w\<lparr>gateway_log := x5\<rparr>) = schema w"
  "schema (w\<lparr>stored_objects := x6\<rparr>) = schema w"
  "schema (w\<lparr>fresh_id := x7\<rparr>) = schema w"
  "schema (w\<lparr>atomic_depth := x8\<rparr>) = schema w"
  "schema (w\<lparr>clock := x9\<rparr>) = schema w"
  "schema (w\<lparr>tenant_ctx := x10\<rparr>) = schema w"
  by (simp_all add: schema_def)

lemma schema_filter [simp]:
  "schema w \<Longrightarrow> tbl_ok tenants_tbl (filter P0 (db_tenants w))"
  "schema w \<Longrightarrow> tbl_ok memberships_tbl (filter P1 (db_memberships w))"
  "schema w \<Longrightarrow> tbl_ok tokens_tbl (filter P2 (db_tokens w))"
  "schema w \<Longrightarrow> tbl_ok customers_tbl (filter P3 (db_customers w))"
  "schema w \<Longrightarrow> tbl_ok addresses_tbl (filter P4 (db_addresses w))"
  "schema w \<Longrightarrow> tbl_ok products_tbl (filter P5 (db_products w))"
  "schema w \<Longrightarrow> tbl_ok coupons_tbl (filter P6 (db_coupons w))"
  "schema w \<Longrightarrow> tbl_ok carts_tbl (filter P7 (db_carts w))"
  "schema w \<Longrightarrow> tbl_ok cart_items_tbl (filter P8 (db_cart_items w))"
  "schema w \<Longrightarrow> tbl_ok applied_coupons_tbl (filter P9 (db_applied_coupons w))"
  "schema w \<Longrightarrow> tbl_ok payment_methods_tbl (filter P10 (db_payment_methods w))"
  "schema w \<Longrightarrow> tbl_ok gateway_configs_tbl (filter P11 (db_gateway_configs w))"
  "schema w \<Longrightarrow> tbl_ok orders_tbl (filter P12 (db_orders w))"
  "schema w \<Longrightarrow> tbl_ok order_items_tbl (filter P13 (db_order_items w))"
  "schema w \<Longrightarrow> tbl_ok reservations_tbl (filter P14 (db_reservations w))"
  "schema w \<Longrightarrow> tbl_ok payments_tbl (filter P15 (db_payments w))"
  "schema w \<Longrightarrow> tbl_ok invoices_tbl (filter P16 (db_invoices w))"
  "schema w \<Longrightarrow> tbl_ok webhook_events_tbl (filter P17 (db_webhook_events w))"
  by (simp_all add: schema_def tenants.ok_filter memberships.ok_filter tokens.ok_filter customers.ok_filter
      addresses.ok_filter products.ok_filter coupons.ok_filter carts.ok_filter cart_items.ok_filter
      applied_coupons.ok_filter payment_methods.ok_filter gateway_configs.ok_filter orders.ok_filter
      order_items.ok_filter reservations.ok_filter payments.ok_filter invoices.ok_filter
      webhook_events.ok_filter)

lemma schema_tables:
  assumes "tables w = tables w'"
  shows "schema w = schema w'"
proof -
  have "schema w = schema (tables w)" for w by (simp add: tables_def)
  with assms show ?thesis by metis
qed

lemma schema_enter [simp]: "schema (enter_atomic w) = schema w"
  by (simp add: enter_atomic_def)

lemma schema_commit [simp]: "schema (commit w0 w) = schema w"
  by (simp add: commit_def)

lemma schema_rollback [simp]: "schema (rollback w0 w) = schema w0"
  by (rule schema_tables) simp

lemma preserves_schema_atomic: "preserves schema m \<Longrightarrow> preserves schema (atomic m)"
  by (rule preserves_atomic) simp_all

subsection \<open>The invariant of an operation\<close>

definition inv :: "uuid \<Rightarrow> uuid set \<Rightarrow> world \<Rightarrow> bool" where
  "inv t ids w \<longleftrightarrow> ledger w \<and> owned t ids w \<and> schema w"

lemma inv_schema: "inv t ids w \<Longrightarrow> schema w"
  by (simp add: inv_def)

lemma inv_put [simp]:
  "tbl_ok tenants_tbl rs0 \<Longrightarrow> inv t ids w \<Longrightarrow> inv t ids (w\<lparr>db_tenants := rs0\<rparr>)"
  "tbl_ok memberships_tbl rs1 \<Longrightarrow> inv t ids w \<Longrightarrow> inv t ids (w\<lparr>db_memberships := rs1\<rparr>)"
  "tbl_ok tokens_tbl rs2 \<Longrightarrow> inv t ids w \<Longrightarrow> inv t ids (w\<lparr>db_tokens := rs2\<rparr>)"
  "tbl_ok customers_tbl rs3 \<Longrightarrow> inv t ids w \<Longrightarrow> inv t ids (w\<lparr>db_customers := rs3\<rparr>)"
  "tbl_ok addresses_tbl rs4 \<Longrightarrow> inv t ids w \<Longrightarrow> inv t ids (w\<lparr>db_addresses := rs4\<rparr>)"
  "tbl_ok coupons_tbl rs5 \<Longrightarrow> inv t ids w \<Longrightarrow> inv t ids (w\<lparr>db_coupons := rs5\<rparr>)"
  "tbl_ok carts_tbl rs6 \<Longrightarrow> inv t ids w \<Longrightarrow> inv t ids (w\<lparr>db_carts := rs6\<rparr>)"
  "tbl_ok cart_items_tbl rs7 \<Longrightarrow> inv t ids w \<Longrightarrow> inv t ids (w\<lparr>db_cart_items := rs7\<rparr>)"
  "tbl_ok applied_coupons_tbl rs8 \<Longrightarrow> inv t ids w \<Longrightarrow> inv t ids (w\<lparr>db_applied_coupons := rs8\<rparr>)"
  "tbl_ok payment_methods_tbl rs9 \<Longrightarrow> inv t ids w \<Longrightarrow> inv t ids (w\<lparr>db_payment_methods := rs9\<rparr>)"
  "tbl_ok gateway_configs_tbl rs10 \<Longrightarrow> inv t ids w \<Longrightarrow> inv t ids (w\<lparr>db_gateway_configs := rs10\<rparr>)"
  "tbl_ok orders_tbl rs11 \<Longrightarrow> inv t ids w \<Longrightarrow> inv t ids (w\<lparr>db_orders := rs11\<rparr>)"
  "tbl_ok order_items_tbl rs12 \<Longrightarrow> inv t ids w \<Longrightarrow> inv t ids (w\<lparr>db_order_items := rs12\<rparr>)"
  "tbl_ok payments_tbl rs13 \<Longrightarrow> inv t ids w \<Longrightarrow> inv t ids (w\<lparr>db_payments := rs13\<rparr>)"
  "tbl_ok invoices_tbl rs14 \<Longrightarrow> inv t ids w \<Longrightarrow> inv t ids (w\<lparr>db_invoices := rs14\<rparr>)"
  "tbl_ok webhook_events_tbl rs15 \<Longrightarrow> inv t ids w \<Longrightarrow> inv t ids (w\<lparr>db_webhook_events := rs15\<rparr>)"
  by (simp_all add: inv_def ledger_def owned_def)

lemma inv_delete [simp]:
  "inv t ids w \<Longrightarrow> inv t ids (w\<lparr>db_tenants := filter P0 (db_tenants w)\<rparr>)"
  "inv t ids w \<Longrightarrow> inv t ids (w\<lparr>db_memberships := filter P1 (db_memberships w)\<rparr>)"
  "inv t ids w \<Longrightarrow> inv t ids (w\<lparr>db_tokens := filter P2 (db_tokens w)\<rparr>)"
  "inv t ids w \<Longrightarrow> inv t ids (w\<lparr>db_customers := filter P3 (db_customers w)\<rparr>)"
  "inv t ids w \<Longrightarrow> inv t ids (w\<lparr>db_addresses := filter P4 (db_addresses w)\<rparr>)"
  "inv t ids w \<Longrightarrow> inv t ids (w\<lparr>db_coupons := filter P5 (db_coupons w)\<rparr>)"
  "inv t ids w \<Longrightarrow> inv t ids (w\<lparr>db_carts := filter P6 (db_carts w)\<rparr>)"
  "inv t ids w \<Longrightarrow> inv t ids (w\<lparr>db_cart_items := filter P7 (db_cart_items w)\<rparr>)"
  "inv t ids w \<Longrightarrow> inv t ids (w\<lparr>db_applied_coupons := filter P8 (db_applied_coupons w)\<rparr>)"
  "inv t ids w \<Longrightarrow> inv t ids (w\<lparr>db_payment_methods := filter P9 (db_payment_methods w)\<rparr>)"
  "inv t ids w \<Longrightarrow> inv t ids (w\<lparr>db_gateway_configs := filter P10 (db_gateway_configs w)\<rparr>)"
  "inv t ids w \<Longrightarrow> inv t ids (w\<lparr>db_orders := filter P11 (db_orders w)\<rparr>)"
  "inv t ids w \<Longrightarrow> inv t ids (w\<lparr>db_order_items := filter P12 (db_order_items w)\<rparr>)"
  "inv t ids w \<Longrightarrow> inv t ids (w\<lparr>db_payments := filter P13 (db_payments w)\<rparr>)"
  "inv t ids w \<Longrightarrow> inv t ids (w\<lparr>db_invoices := filter P14 (db_invoices w)\<rparr>)"
  "inv t ids w \<Longrightarrow> inv t ids (w\<lparr>db_webhook_events := filter P15 (db_webhook_events w)\<rparr>)"
  by (simp_all add: inv_def ledger_def owned_def)

lemma inv_frame [simp]:
  "inv t ids (w\<lparr>db_users := x0\<rparr>) = inv t ids w"
  "inv t ids (w\<lparr>on_commit_hooks := x1\<rparr>) = inv t ids w"
  "inv t ids (w\<lparr>task_queue := x2\<rparr>) = inv t ids w"
  "inv t ids (w\<lparr>order_seq := x3\<rparr>) = inv t ids w"
  "inv t ids (w\<lparr>invoice_seq := x4\<rparr>) = inv t ids w"
  "inv t ids (w\<lparr>gateway_log := x5\<rparr>) = inv t ids w"
  "inv t ids (w\<lparr>stored_objects := x6\<rparr>) = inv t ids w"
  "inv t ids (w\<lparr>fresh_id := x7\<rparr>) = inv t ids w"
  "inv t ids (w\<lparr>atomic_depth := x8\<rparr>) = inv t ids w"
  by (simp_all add: inv_def ledger_def owned_def)

lemma inv_tables:
  assumes "tables w = tables w'" and "tenant_ctx w = tenant_ctx w'"
  shows "inv t ids w = inv t ids w'"
  using assms
  by (simp add: inv_def owned_def ledger_tables [OF assms(1)] tables_db [OF assms(1)] schema_tables [OF assms(1)])

lemma inv_ctx: "inv t ids w \<Longrightarrow> tenant_ctx w = Some t"
  by (simp add: inv_def owned_def)

lemma inv_enter [simp]: "inv t ids (enter_atomic w) = inv t ids w"
  by (simp add: enter_atomic_def)

lemma inv_commit [simp]: "inv t ids (commit w0 w) = inv t ids w"
  by (simp add: commit_def inv_def ledger_def owned_def)

lemma inv_rollback: "inv t ids w \<Longrightarrow> tenant_ctx w' = Some t \<Longrightarrow> inv t ids (rollback w w')"
  by (simp add: rollback_def inv_def ledger_def owned_def)

lemma preserves_inv_atomic [hoare_intros]: "preserves (inv t ids) m \<Longrightarrow> preserves (inv t ids) (atomic m)"
  by (rule preserves_atomic) (auto intro: inv_rollback dest: inv_ctx)

lemma inv_mono: "inv t ids w \<Longrightarrow> ids' \<subseteq> ids \<Longrightarrow> inv t ids' w"
  by (auto simp: inv_def owned_def)

lemmas write_intros =
  preserves_update_rows preserves_update_rows_all preserves_update_where preserves_save_fields
  preserves_save_row preserves_create preserves_insert_row preserves_delete_rows preserves_delete_where
  preserves_delay preserves_on_commit preserves_log_call preserves_new_uuid

lemmas op_intros = hoare_intros write_intros

text \<open>Reservations in hand.\<close>

lemma inv_ledger_in: "inv t ids w \<longleftrightarrow> ledger_in t ids w \<and> schema w"
  by (auto simp: inv_def)

lemma schema_settled: "schema w \<Longrightarrow> ledger (settled f st r w) \<Longrightarrow> schema (settled f st r w)"
  by (simp add: settled_def ledger_def)

lemma settle_inv:
  assumes "settlement f (res_status r) st" and "inv t ids w" and "r \<in> set (db_reservations w)" and "tenant_id r = t"
  shows "settle f st r w = (Inr (), settled f st r w)" and "inv t ids (settled f st r w)"
proof -
  have l: "ledger w" and o: "owned t ids w" and ctx: "tenant_ctx w = Some (tenant_id r)"
    using assms by (simp_all add: inv_def owned_def)
  show "settle f st r w = (Inr (), settled f st r w)" by (rule settle_run [OF l assms(3,1) ctx])
  have "ledger (settled f st r w)" by (rule ledger_settled [OF l assms(3,1)])
  moreover have "owned t ids (settled f st r w)" using o by (rule owned_settled)
  ultimately show "inv t ids (settled f st r w)" using assms(2) by (simp add: inv_def schema_settled)
qed

lemma settle_if_schema: "preserves schema (settle_if expected f st r)"
  unfolding settle_if_def settle_def by (intro op_intros) simp_all

lemma preserves_inv_split:
  assumes "preserves (ledger_in t ids) m" and "preserves schema m"
  shows "preserves (inv t ids) m"
proof -
  have "inv t ids = (\<lambda>w. ledger_in t ids w \<and> schema w)"
    by (simp add: fun_eq_iff inv_def)
  then show ?thesis using preserves_conj [OF assms] by (simp add: preserves_def)
qed

lemma release_reservations_inv: "preserves (inv t (row_id ` set rs)) (release_reservations rs)"
  using release_reservations_ledger
  by (rule preserves_inv_split)
    (simp add: release_reservations_def preserves_schema_atomic preserves_for_each settle_if_schema)

lemma commit_reservations_inv: "preserves (inv t (row_id ` set rs)) (commit_reservations rs)"
  using commit_reservations_ledger
  by (rule preserves_inv_split)
    (simp add: commit_reservations_def preserves_schema_atomic preserves_for_each settle_if_schema)

lemma reverse_committed_inv: "preserves (inv t (row_id ` set rs)) (reverse_committed_reservations rs)"
  using reverse_committed_ledger
  by (rule preserves_inv_split)
    (simp add: reverse_committed_reservations_def preserves_schema_atomic preserves_for_each settle_if_schema)

subsection \<open>The cart operations\<close>

text \<open>They do not write products or reservations.\<close>

lemma bump_and_return_inv: "preserves (inv t ids) (bump_and_return c)"
  unfolding bump_and_return_def by (intro op_intros) simp_all

lemma get_cart_inv: "preserves (inv t ids) (get_cart customer)"
  unfolding get_cart_def by (intro op_intros)

lemma add_item_inv: "preserves (inv t ids) (add_item customer product quantity)"
  unfolding add_item_def get_or_create_cart_def lock_currency_def put_item_def
  by (intro op_intros bump_and_return_inv) simp_all

lemma remove_item_inv: "preserves (inv t ids) (remove_item customer item)"
  unfolding remove_item_def lock_active_cart_def clear_currency_if_empty_def
  by (intro op_intros bump_and_return_inv) simp_all

lemma update_item_quantity_inv: "preserves (inv t ids) (update_item_quantity customer item quantity)"
  unfolding update_item_quantity_def lock_active_cart_def
  by (intro op_intros bump_and_return_inv) simp_all

lemma clear_cart_inv: "preserves (inv t ids) (clear_cart customer)"
  unfolding clear_cart_def by (intro op_intros) simp_all

lemma apply_coupon_inv: "preserves (inv t ids) (apply_coupon customer code)"
  unfolding apply_coupon_def lock_active_cart_def find_coupon_def validate_on_cart_def
  by (intro op_intros bump_and_return_inv) simp_all

lemma remove_coupon_inv: "preserves (inv t ids) (remove_coupon customer code)"
  unfolding remove_coupon_def lock_active_cart_def
  by (intro op_intros bump_and_return_inv get_cart_inv) simp_all

lemma set_slots_inv:
  "preserves (inv t ids) (set_shipping_address customer address)"
  "preserves (inv t ids) (set_billing_address customer address)"
  "preserves (inv t ids) (set_payment_method customer method)"
  unfolding set_shipping_address_def set_billing_address_def set_payment_method_def lock_active_cart_def
  by (intro op_intros bump_and_return_inv; simp)+

subsection \<open>The saga\<close>

definition items_nonneg :: "cart_view \<Rightarrow> bool" where
  "items_nonneg v \<longleftrightarrow> (\<forall>i \<in> set (cv_items v). 0 \<le> item_quantity i)"

lemma items_of_subset: "set (items_of w i) \<subseteq> set (db_cart_items w)"
  by (auto simp: items_of_def objects_def split: option.splits)

lemma atomic_Inr_D:
  assumes "atomic m w = (Inr x, w')"
  obtains w1 where "m (enter_atomic w) = (Inr x, w1)" and "w' = commit w w1"
  using assms by (auto simp: atomic_def atomic_with_def split: prod.splits sum.splits)

lemma bindE_Inr_D:
  assumes "bindE m f w = (Inr x, w')"
  obtains y w1 where "m w = (Inr y, w1)" and "f y w1 = (Inr x, w')"
  using assms by (auto simp: bindE_def split: prod.splits sum.splits)

lemma phase_lock_items:
  assumes "phase_lock customer expected w = (Inr v, w')"
  shows "set (cv_items v) \<subseteq> set (db_cart_items w)"
proof -
  obtain v0 w1 where v0: "lock_and_validate_cart customer expected (enter_atomic w) = (Inr v0, w1)"
    and eq: "cv_items v = cv_items v0"
    using assms unfolding phase_lock_def
    by (elim atomic_Inr_D bindE_Inr_D) auto
  then obtain c w2 where "v0 = load_cart w2 c" "w2 = enter_atomic w"
    unfolding lock_and_validate_cart_def
    by (elim bindE_Inr_D) (auto dest: get_row_Inr split: option.splits if_splits)
  then have "set (cv_items v0) \<subseteq> set (db_cart_items w)"
    using items_of_subset [of "enter_atomic w"] by (simp add: load_cart_def enter_atomic_def)
  with eq show ?thesis by simp
qed

lemma phase_lock_inv: "preserves (inv t ids) (phase_lock customer expected)"
  unfolding phase_lock_def lock_and_validate_cart_def by (intro op_intros) simp_all

lemma phase_lock_valid:
  "valid (inv t ids) (phase_lock customer expected) (\<lambda>v w. inv t ids w \<and> items_nonneg v) (\<lambda>_. inv t ids)"
proof (rule validI)
  fix w e w' assume "inv t ids w" "phase_lock customer expected w = (Inl e, w')"
  then show "inv t ids w'" by (rule preservesD [OF phase_lock_inv])
next
  fix w v w' assume I: "inv t ids w" and run: "phase_lock customer expected w = (Inr v, w')"
  have "\<forall>i \<in> set (db_cart_items w). 1 \<le> item_quantity i"
    using schema_get(9) [OF inv_schema [OF I]] by (simp add: cart_items_tbl_def list_all_iff)
  then have "items_nonneg v" using phase_lock_items [OF run] by (force simp: items_nonneg_def)
  moreover have "inv t ids w'" using I run by (rule preservesD [OF phase_lock_inv])
  ultimately show "inv t ids w' \<and> items_nonneg v" by simp
qed

lemma revert_cart_to_active_inv: "preserves (inv t ids) (revert_cart_to_active i)"
  unfolding revert_cart_to_active_def by (intro op_intros) simp_all

lemma or_compensate_inv:
  assumes "preserves I m" and "preserves I undo"
  shows "preserves I (or_compensate m caught undo)"
  unfolding or_compensate_def by (intro hoare_intros assms)

lemma phase_validate_inv: "preserves (inv t ids) (phase_validate v)"
  unfolding phase_validate_def validate_preconditions_def check_coupon_def Let_def
  by (intro or_compensate_inv revert_cart_to_active_inv op_intros)

lemma set_fresh_ids: "x \<in> set (fresh_reservations cart t now expires items n pids) \<Longrightarrow> tenant_id x = t"
  by (erule set_fresh_reservations) simp

lemma reserve_stock_tables_Inl:
  assumes "reserve_stock cart items w = (Inl e, w')"
  shows "tables w' = tables w"
  using assms by (auto simp: reserve_stock_def bindE_def current_time_def dest: atomic_failed_tables)

lemma preserves_ctx_reserve: "preserves (\<lambda>w. tenant_ctx w = Some t) (reserve_stock cart items)"
  unfolding reserve_stock_def reserve_product_def Let_def
  by (intro op_intros preserves_atomic) (auto simp: enter_atomic_def rollback_def commit_def)

lemma reserve_stock_schema: "preserves schema (reserve_stock cart items)"
  unfolding reserve_stock_def reserve_product_def Let_def
  by (intro op_intros preserves_schema_atomic) simp_all

lemma reserve_stock_valid:
  assumes q: "\<forall>i \<in> set items. 0 \<le> item_quantity i"
  shows "valid (inv t {}) (reserve_stock cart items) (\<lambda>rs. inv t (row_id ` set rs)) (\<lambda>_. inv t {})"
proof (rule validI)
  fix w e w' assume I: "inv t {} w" and run: "reserve_stock cart items w = (Inl e, w')"
  have "tenant_ctx w' = Some t" using preserves_ctx_reserve inv_ctx [OF I] run by (rule preservesD)
  with inv_ctx [OF I] inv_tables [OF reserve_stock_tables_Inl [OF run]] I show "inv t {} w'" by simp
next
  fix w rs w' assume I: "inv t {} w" and run: "reserve_stock cart items w = (Inr rs, w')"
  have l: "ledger w" and ctx: "tenant_ctx w = Some t" using I by (simp_all add: inv_def owned_def)
  have ok: "tbl_ok products_tbl (db_products w)" "tbl_ok reservations_tbl (db_reservations w)"
    using l by (simp_all add: ledger_def)
  have l': "ledger w'" by (rule reserve_stock_ledger [OF l ctx q run])
  show "inv t (row_id ` set rs) w'"
  proof (rule reserve_stock_Inr [OF run ctx ok])
    fix ps w1
    assume rs: "rs = fresh_reservations cart t (clock w) (clock w + reservation_ttl) items (fresh_id w) (map row_id ps)"
      and w1: "w1 = w\<lparr>db_products := reserve_rows items (row_id ` set ps) (db_products w),
           db_reservations := db_reservations w @ rs, fresh_id := fresh_id w + length ps\<rparr>"
      and eq: "tables w' = tables w1" and ctx': "tenant_ctx w' = Some t"
      and d: "tbl_ok reservations_tbl (db_reservations w')"
    have r': "db_reservations w' = db_reservations w @ rs" using tables_db [OF eq] w1 by simp
    have "tenant_id x = t" if "x \<in> set (db_reservations w')" "row_id x \<in> row_id ` set rs" for x
    proof -
      from that(2) obtain r where r: "r \<in> set rs" "row_id x = row_id r" by blast
      then have "r \<in> set (db_reservations w')" using r' by simp
      with that(1) r(2) d have "x = r" by (auto simp: reservations_ok distinct_map inj_on_def)
      with r(1) rs show ?thesis by (auto dest: set_fresh_ids)
    qed
    moreover have "schema w'" using reserve_stock_schema inv_schema [OF I] run by (rule preservesD)
    ultimately show "inv t (row_id ` set rs) w'" using l' ctx' by (simp add: inv_def owned_def)
  qed
qed

lemma next_order_number_inv: "preserves (inv t ids) (next_order_number s)"
  by (simp add: preserves_def next_order_number_def split: option.split)

lemma preserves_create_with_tenant:
  assumes "\<And>w w'. I w \<Longrightarrow> w' = w\<lparr>fresh_id := Suc (fresh_id w)\<rparr> \<Longrightarrow>
     tbl_ok tb (tbl_rows tb w' @ [stamp (fresh_id w) tid (clock w) r]) \<Longrightarrow>
     I (tbl_put tb (tbl_rows tb w' @ [stamp (fresh_id w) tid (clock w) r]) w')"
    and "\<And>w. I w \<Longrightarrow> I (w\<lparr>fresh_id := Suc (fresh_id w)\<rparr>)"
  shows "preserves I (create_with_tenant tb tid r)"
  using assms by (auto simp: preserves_def create_with_tenant_simp insert_row_def)

lemma create_order_inv: "preserves (inv t ids) (create_order v key)"
  unfolding create_order_def use_coupon_def create_order_item_def
  by (intro op_intros preserves_create_with_tenant preserves_inv_atomic next_order_number_inv) simp_all

abbreviation in_hand :: "reservation list \<Rightarrow> uuid set" where
  "in_hand rs \<equiv> row_id ` set rs"

lemma phase_order_inv: "preserves (inv t (in_hand rs)) (phase_order v rs key)"
  unfolding phase_order_def
  by (intro or_compensate_inv create_order_inv preserves_seqE release_reservations_inv
      revert_cart_to_active_inv)

lemma cancel_order_row_inv: "preserves (inv t ids) (cancel_order_row od)"
  unfolding cancel_order_row_def save_order_status_def by (intro op_intros) simp_all

lemma compensate_order_inv: "preserves (inv t (in_hand rs)) (compensate_order v rs od)"
  unfolding compensate_order_def
  by (intro preserves_seqE cancel_order_row_inv release_reservations_inv revert_cart_to_active_inv)

lemma convert_cart_inv: "preserves (inv t ids) (convert_cart v)"
  unfolding convert_cart_def by (intro op_intros) simp_all

text \<open>Linking a reservation to its order changes neither what it holds nor its tenant.\<close>

lemma active_qty_upd:
  assumes "\<And>r. res_product (f r) = res_product r" "\<And>r. res_quantity (f r) = res_quantity r"
    and "\<And>r. res_status (f r) = res_status r"
  shows "active_qty (upd_where P f rs) p = active_qty rs p"
  using assms by (induction rs) (auto simp: active_qty_def holds_stock_def)

lemma link_reservation_inv: "preserves (inv t ids) (link_reservation od r)"
  unfolding link_reservation_def
proof (intro op_intros preserves_save_fields)
  fix w :: world and now :: time
  let ?f = "\<lambda>x. x\<lparr>res_order := Some od, updated_at := now\<rparr>"
  let ?rs = "upd_where (\<lambda>x. row_id x = row_id r) ?f (db_reservations w)"
  assume I: "inv t ids w"
  have "tbl_ok reservations_tbl ?rs"
    using I by (simp add: inv_def ledger_def reservations_ok map_upd_where)
  moreover have "active_qty ?rs p = active_qty (db_reservations w) p" for p
    by (rule active_qty_upd) simp_all
  moreover have "\<forall>x \<in> set ?rs. backed (db_products w) x"
    using I by (auto simp: inv_def ledger_def set_upd_where backed_def)
  moreover have "\<forall>x \<in> set ?rs. row_id x \<in> ids \<longrightarrow> tenant_id x = t"
    using I by (auto simp: inv_def owned_def set_upd_where)
  ultimately show "inv t ids (tbl_put reservations_tbl
      (upd_where (\<lambda>x. row_id x = row_id r) (\<lambda>x. (x\<lparr>res_order := Some od\<rparr>)\<lparr>updated_at := now\<rparr>)
        (tbl_rows reservations_tbl w)) w)"
    using I by (simp add: inv_def ledger_def owned_def)
qed

lemma create_payment_inv: "preserves (inv t ids) (create_payment caller p)"
  unfolding create_payment_def
  by (intro op_intros preserves_create_with_tenant) simp_all

lemma purchase_order_inv: "preserves (inv t (in_hand rs)) (purchase_order_path v rs od pm key)"
  unfolding purchase_order_path_def create_invoice_pending_payment_def enqueue_post_payment_tasks_def Let_def
  by (intro op_intros or_compensate_inv create_payment_inv compensate_order_inv convert_cart_inv
      link_reservation_inv commit_reservations_inv) simp_all

lemma gateway_call_inv: "preserves (inv t ids) (gateway_call c f)"
  unfolding gateway_call_def by (intro op_intros) simp_all

lemma record_payment_inv:
  "preserves (inv t ids) (record_payment_error i m)"
  "preserves (inv t ids) (record_payment_result i txn st response)"
  unfolding record_payment_error_def record_payment_result_def Let_def
  by (intro op_intros; simp)+

lemma authorize_payment_inv: "preserves (inv t ids) (authorize_payment e od pm amount currency key m)"
  unfolding authorize_payment_def resolve_gateway_config_def create_pending_payment_def call_authorize_def
    record_intent_def Let_def
  by (intro op_intros create_payment_inv gateway_call_inv record_payment_inv)

lemma gateway_of_payment_inv: "preserves (inv t ids) (gateway_of_payment e p)"
  unfolding gateway_of_payment_def by (intro op_intros)

lemma capture_payment_inv: "preserves (inv t ids) (capture_payment e i)"
  unfolding capture_payment_def get_payment_def Let_def
  by (intro op_intros gateway_of_payment_inv gateway_call_inv) simp_all

lemma refund_payment_inv: "preserves (inv t ids) (refund_payment e i a r)"
  unfolding refund_payment_def get_payment_def Let_def
  by (intro op_intros gateway_of_payment_inv gateway_call_inv) simp_all

lemma mark_invoice_paid_inv: "preserves (inv t ids) (mark_invoice_paid i r)"
  unfolding mark_invoice_paid_def get_payment_def by (intro op_intros) simp_all

lemma phase_convert_inv: "preserves (inv t (in_hand rs)) (phase_convert v rs od)"
  unfolding phase_convert_def
  by (intro op_intros convert_cart_inv link_reservation_inv) simp_all

lemma mark_paid_inv: "preserves (inv t (in_hand rs)) (mark_paid_and_commit od rs)"
  unfolding mark_paid_and_commit_def save_order_status_def
  by (intro op_intros commit_reservations_inv) simp_all

lemma phase_finish_inv: "preserves (inv t (in_hand rs)) (phase_finish e od rs p)"
  unfolding phase_finish_def phase_capture_def enqueue_post_payment_tasks_def
  by (intro op_intros capture_payment_inv mark_paid_inv) simp_all

lemma pay_order_step_inv: "preserves (inv t (in_hand rs)) (pay_order_step e v rs od key extra)"
  unfolding pay_order_step_def card_path_def phase_authorize_def
  by (intro op_intros purchase_order_inv or_compensate_inv authorize_payment_inv compensate_order_inv
      phase_convert_inv phase_finish_inv)

lemma valid_of_preserves:
  assumes "preserves I m" and "\<And>w. I w \<Longrightarrow> J w"
  shows "valid I m (\<lambda>_. J) (\<lambda>_. J)"
  using valid_weaken [OF assms(1) [unfolded preserves_valid], of I "\<lambda>_. J" "\<lambda>_. J"] assms(2) by blast

lemma phase_reserve_valid:
  assumes "items_nonneg v"
  shows "valid (inv t {}) (phase_reserve v) (\<lambda>rs. inv t (in_hand rs)) (\<lambda>_. inv t {})"
proof -
  have "preserves (inv t {}) (seqE (revert_cart_to_active i) (throw e))" for i and e :: exn
    by (intro hoare_intros revert_cart_to_active_inv)
  then have undo: "valid (inv t {}) (seqE (revert_cart_to_active i) (throw e))
      (\<lambda>rs. inv t (in_hand rs)) (\<lambda>_. inv t {})" for i and e :: exn
    by (force simp: valid_def preserves_def seqE_def bindE_def split: prod.splits sum.splits)
  have r: "valid (inv t {}) (reserve_stock (row_id (cv_cart v)) (cv_items v))
      (\<lambda>rs. inv t (in_hand rs)) (\<lambda>_. inv t {})"
    using assms by (intro reserve_stock_valid) (simp add: items_nonneg_def)
  show ?thesis
    unfolding phase_reserve_def or_compensate_def valid_def try_except_def
    using r undo by (fastforce simp: valid_def split: prod.splits sum.splits)
qed

text \<open>The reservations come back in hand, with the cart and the order.\<close>

lemma prepare_order_valid:
  "valid (inv t {}) (prepare_order customer key expected) (\<lambda>(v, rs, od). inv t (in_hand rs)) (\<lambda>_. inv t {})"
proof -
  have order: "valid (inv t (in_hand rs)) (bindE (phase_order v rs key) (\<lambda>od. ret (v, rs, od)))
      (\<lambda>(v, rs, od). inv t (in_hand rs)) (\<lambda>_. inv t {})" for v rs
  proof (rule valid_bindE)
    show "valid (inv t (in_hand rs)) (phase_order v rs key) (\<lambda>od. inv t (in_hand rs)) (\<lambda>_. inv t {})"
      by (rule valid_weaken [OF phase_order_inv [unfolded preserves_valid]]) (auto intro: inv_mono)
  qed (simp add: valid_def)
  have "valid (\<lambda>w. inv t {} w \<and> items_nonneg v)
      (seqE (phase_validate v) (bindE (phase_reserve v) (\<lambda>rs. bindE (phase_order v rs key) (\<lambda>od. ret (v, rs, od)))))
      (\<lambda>(v, rs, od). inv t (in_hand rs)) (\<lambda>_. inv t {})" for v
  proof (cases "items_nonneg v")
    case True
    have "valid (inv t {}) (phase_validate v) (\<lambda>_. inv t {}) (\<lambda>_. inv t {})"
      using phase_validate_inv by (simp add: preserves_valid)
    from valid_seqE [OF this valid_bindE [OF phase_reserve_valid [OF True] order]] True
    show ?thesis by (auto simp: valid_def)
  next
    case False
    then show ?thesis by (simp add: valid_def)
  qed
  from valid_bindE [OF phase_lock_valid this] show ?thesis unfolding prepare_order_def .
qed

lemma run_saga_inv: "preserves (inv t {}) (run_saga e customer key expected extra)"
proof -
  have "valid ((\<lambda>(v, rs, od). inv t (in_hand rs)) x)
      ((\<lambda>(v, rs, od). pay_order_step e v rs od key extra) x) (\<lambda>_. inv t {}) (\<lambda>_. inv t {})" for x
    by (cases x) (auto intro!: valid_of_preserves pay_order_step_inv intro: inv_mono)
  from valid_bindE [OF prepare_order_valid this] show ?thesis
    unfolding run_saga_def preserves_valid .
qed

lemma checkout_inv: "preserves (inv t {}) (checkout e customer key expected extra)"
  unfolding checkout_def find_existing_checkout_def
  by (intro op_intros run_saga_inv)

subsection \<open>Cancellation, webhooks, reconciliation\<close>

text \<open>The loops over given reservations, for any set of reservations in hand that covers them.\<close>

lemma settle_if_inv:
  assumes "settlement f expected st" and "row_id r \<in> ids"
  shows "preserves (inv t ids) (settle_if expected f st r)"
  using settle_if_ledger [OF assms] settle_if_schema by (rule preserves_inv_split)

lemma reservation_loops_inv:
  assumes "in_hand rs \<subseteq> ids"
  shows "preserves (inv t ids) (release_reservations rs)"
    and "preserves (inv t ids) (reverse_committed_reservations rs)"
  unfolding release_reservations_def reverse_committed_reservations_def
  using assms by (auto intro!: preserves_inv_atomic preserves_for_each settle_if_inv settlements)

lemma inv_more:
  assumes "inv t ids w" and "\<forall>r \<in> set rs. r \<in> set (db_reservations w) \<and> tenant_id r = t"
  shows "inv t (ids \<union> in_hand rs) w"
proof -
  have d: "distinct (map row_id (db_reservations w))"
    using assms(1) by (simp add: inv_def ledger_def reservations_ok)
  have "tenant_id x = t" if "x \<in> set (db_reservations w)" "row_id x \<in> in_hand rs" for x
  proof -
    from that(2) obtain r where "r \<in> set rs" "row_id x = row_id r" by blast
    with that(1) assms(2) d have "x = r" by (auto simp: distinct_map inj_on_def)
    with \<open>r \<in> set rs\<close> assms(2) show ?thesis by simp
  qed
  with assms(1) show ?thesis by (auto simp: inv_def owned_def)
qed

lemma objects_reservations:
  assumes "inv t ids w" and "r \<in> set (objects reservations_tbl w)"
  shows "r \<in> set (db_reservations w) \<and> tenant_id r = t"
  using assms inv_ctx [OF assms(1)] by (simp add: objects_def)

lemma preserves_filter_reservations:
  assumes "\<And>rs. preserves (inv t (ids \<union> in_hand rs)) (f rs)"
  shows "preserves (inv t ids) (bindE (filter_rows reservations_tbl P) f)"
proof (rule preservesI)
  fix w r w' assume I: "inv t ids w" and run: "bindE (filter_rows reservations_tbl P) f w = (r, w')"
  let ?rs = "filter P (objects reservations_tbl w)"
  have "f ?rs w = (r, w')" using run by (simp add: filter_rows_def)
  moreover have "inv t (ids \<union> in_hand ?rs) w"
    using I objects_reservations [OF I] by (intro inv_more) auto
  ultimately have "inv t (ids \<union> in_hand ?rs) w'" using assms preservesD by fast
  then show "inv t ids w'" by (rule inv_mono) simp
qed

lemma cancel_order_inv: "preserves (inv t ids) (cancel_order customer i)"
  unfolding cancel_order_def save_order_status_def
  by (intro op_intros preserves_filter_reservations reservation_loops_inv) auto

lemma schema_fold_settled:
  "settle_ready f st rs w \<Longrightarrow> schema w \<Longrightarrow> schema (fold (settled f st) rs w)"
proof (induction rs arbitrary: w)
  case Nil
  then show ?case by simp
next
  case (Cons r rs)
  note ready = settle_ready_step [OF Cons.prems(1)]
  have "schema (settled f st r w)"
    using Cons.prems(2) ready by (intro schema_settled) (simp_all add: settle_ready_def)
  with Cons.IH [OF ready] show ?case by simp
qed

lemma owned_fold_settled: "owned t ids w \<Longrightarrow> owned t ids (fold (settled f st) rs w)"
  by (induction rs arbitrary: w) (simp_all add: owned_settled)

lemma for_order_ready:
  assumes "inv t ids w" and "settlement f ResActive st"
  shows "settle_ready f st (filter (active_of_order i) (objects reservations_tbl w)) w"
proof -
  let ?rs = "filter (active_of_order i) (objects reservations_tbl w)"
  have "distinct (map row_id (db_reservations w))"
    using assms(1) by (simp add: inv_def ledger_def reservations_ok)
  then have "distinct (map row_id ?rs)"
    using inv_ctx [OF assms(1)] by (simp add: objects_def distinct_map_filter)
  then show ?thesis
    using assms objects_reservations [OF assms(1)]
    by (auto simp: settle_ready_def inv_def active_of_order_def)
qed

lemma for_order_run:
  assumes "inv t ids w" and "settlement f ResActive st"
  shows "bindE (filter_rows reservations_tbl (active_of_order i)) (for_each (settle f st)) w
    = (Inr (), fold (settled f st) (filter (active_of_order i) (objects reservations_tbl w)) w)"
proof -
  let ?rs = "filter (active_of_order i) (objects reservations_tbl w)"
  have "\<forall>r \<in> set ?rs. tenant_ctx w = Some (tenant_id r)"
    using objects_reservations [OF assms(1)] inv_ctx [OF assms(1)] by simp
  from settle_list_run [OF for_order_ready [OF assms] this]
  show ?thesis by (simp add: filter_rows_def)
qed

lemma for_order_inv:
  assumes "settlement f ResActive st"
  shows "preserves (inv t ids) (bindE (filter_rows reservations_tbl (active_of_order i)) (for_each (settle f st)))"
proof (rule preservesI)
  fix w r w' assume I: "inv t ids w"
    and run: "bindE (filter_rows reservations_tbl (active_of_order i)) (for_each (settle f st)) w = (r, w')"
  then have w': "w' = fold (settled f st) (filter (active_of_order i) (objects reservations_tbl w)) w"
    using for_order_run [OF I assms] by simp
  show "inv t ids w'"
    using I ledger_settled_list [OF for_order_ready [OF I assms]] schema_fold_settled [OF for_order_ready [OF I assms]]
    by (simp add: w' inv_def owned_fold_settled)
qed

lemma apply_order_paid_inv: "preserves (inv t ids) (apply_order_paid od)"
  unfolding apply_order_paid_def save_order_status_def commit_reservations_for_order_def
    enqueue_invoice_on_commit_def
  by (intro preserves_if preserves_ret preserves_bindE [OF preserves_save_fields] preserves_seqE
      for_order_inv settlements preserves_on_commit) simp_all

lemma apply_order_cancelled_inv: "preserves (inv t ids) (apply_order_cancelled od)"
  unfolding apply_order_cancelled_def save_order_status_def release_reservations_for_order_def
    revert_cart_if_checking_out_def revert_checking_out_def
  by (intro preserves_if preserves_ret preserves_bindE [OF preserves_save_fields] preserves_seqE
      for_order_inv settlements preserves_case_option
      preserves_bindE [OF preserves_update_rows_all]) simp_all

lemma process_webhook_event_inv: "preserves (inv t ids) (process_webhook_event a)"
  unfolding process_webhook_event_def record_event_def mutate_for_event_def apply_event_def
    get_payment_def save_order_status_def
  by (intro op_intros apply_order_paid_inv apply_order_cancelled_inv) simp_all

lemma reconcile_locked_inv: "preserves (inv t ids) (reconcile_locked e i)"
  unfolding reconcile_locked_def first_pending_def reconcile_known_intent_def reconcile_unknown_intent_def
    apply_retrieved_def save_reconciled_def mark_order_paid_def mark_order_cancelled_and_release_def Let_def
  by (intro op_intros apply_order_paid_inv apply_order_cancelled_inv gateway_of_payment_inv
      gateway_call_inv) simp_all

subsection \<open>Requests and tasks of a tenant\<close>

text \<open>What holds between requests: no tenant is in context, or any.\<close>

definition sound :: "world \<Rightarrow> bool" where
  "sound w \<longleftrightarrow> ledger w \<and> schema w"

lemma inv_sound: "inv t {} w \<longleftrightarrow> sound w \<and> tenant_ctx w = Some t"
  by (auto simp: inv_def owned_def sound_def)

lemma sound_ctx [simp]: "sound (w\<lparr>tenant_ctx := c\<rparr>) = sound w"
  by (simp add: sound_def ledger_def)

lemma tenant_context_sound:
  assumes "preserves (inv t {}) m"
  shows "preserves sound (tenant_context (Some t) m)"
proof (rule preservesI)
  fix w r w' assume s: "sound w" and run: "tenant_context (Some t) m w = (r, w')"
  let ?w1 = "w\<lparr>tenant_ctx := Some t\<rparr>"
  obtain r2 w2 where m: "m ?w1 = (r2, w2)" by fastforce
  have "inv t {} ?w1" using s by (simp add: inv_sound)
  with assms have "inv t {} w2" using m by (rule preservesD)
  moreover have "w' = w2\<lparr>tenant_ctx := tenant_ctx w\<rparr>"
    using run m by (simp add: tenant_context_def bindE_def set_current_tenant_id_def finally_do_def
        reset_current_tenant_id_def)
  ultimately show "sound w'" by (simp add: inv_sound)
qed

lemma reconcile_one_sound: "preserves sound (reconcile_one e i)"
  unfolding reconcile_one_def first_pending_def
  by (intro hoare_intros tenant_context_sound reconcile_locked_inv)

lemma reconcile_all_sound: "preserves sound (reconcile_all e is s)"
  by (induction "is" arbitrary: s) (auto intro!: hoare_intros reconcile_one_sound)

lemma reconcile_pending_payments_sound: "preserves sound (reconcile_pending_payments e m)"
  unfolding reconcile_pending_payments_def by (intro hoare_intros reconcile_all_sound)

end
