(* ===== verification/Saga.thy ===== *)
theory Saga
  imports Ledger
begin

section \<open>What the saga does\<close>

text \<open>
  The effect of the phases of the checkout on the tables: what a failure before payment leaves behind, what a
  declined payment leaves behind, what a captured or invoiced checkout achieves, and what replaying an
  idempotency key returns. The compensations are shown to undo the phases exactly, row by row.
\<close>

subsection \<open>Locked carts\<close>

definition lock_rows :: "uuid \<Rightarrow> time \<Rightarrow> cart list \<Rightarrow> cart list" where
  "lock_rows i now cs =
     upd_where (\<lambda>c. row_id c = i) (\<lambda>c. c\<lparr>cart_status := CartCheckingOut, updated_at := now\<rparr>) cs"

definition touch_rows :: "uuid \<Rightarrow> time \<Rightarrow> cart list \<Rightarrow> cart list" where
  "touch_rows i now cs = upd_where (\<lambda>c. row_id c = i) (\<lambda>c. c\<lparr>updated_at := now\<rparr>) cs"

definition lockable :: "uuid \<Rightarrow> uuid \<Rightarrow> cart list \<Rightarrow> bool" where
  "lockable t i cs \<longleftrightarrow> tbl_ok carts_tbl cs \<and>
     (\<forall>c \<in> set cs. row_id c = i \<longrightarrow> cart_status c = CartActive \<and> tenant_id c = t)"

lemma touch_rows_ok: "tbl_ok carts_tbl cs \<Longrightarrow> tbl_ok carts_tbl (touch_rows i now cs)"
proof -
  have "map row_id (touch_rows i now cs) = map row_id cs"
    unfolding touch_rows_def by (rule map_upd_where) simp
  moreover have "map cart_customer (filter is_active_cart (touch_rows i now cs)) = map cart_customer (filter is_active_cart cs)"
    unfolding touch_rows_def by (induction cs) (auto simp: is_active_cart_def)
  ultimately show "tbl_ok carts_tbl cs \<Longrightarrow> ?thesis" by (simp add: carts_ok)
qed

lemma revert_locked:
  assumes "lockable t i cs" and "db_carts w = lock_rows i now cs" and "tenant_ctx w = Some t"
  shows "revert_cart_to_active i w = (Inr (), w\<lparr>db_carts := touch_rows i now cs\<rparr>)"
proof -
  let ?P = "\<lambda>c. in_scope w c \<and> row_id c = i \<and> cart_status c = CartCheckingOut"
  have "\<forall>c \<in> set cs. row_id c = i \<longrightarrow> cart_status c = CartActive \<and> tenant_id c = t"
    using assms(1) by (simp add: lockable_def)
  then have "upd_where ?P (\<lambda>c. c\<lparr>cart_status := CartActive\<rparr>) (lock_rows i now cs) = touch_rows i now cs"
    using assms(3) by (induction cs) (auto simp: lock_rows_def touch_rows_def in_scope_def)
  moreover have "tbl_ok carts_tbl (touch_rows i now cs)"
    using assms(1) touch_rows_ok by (simp add: lockable_def)
  ultimately show ?thesis
    using assms(2) by (simp add: revert_cart_to_active_def bindE_def update_rows_def update_where_def write_rows_def)
qed

lemma phase_lock_Inr:
  assumes run: "phase_lock customer expected w = (Inr v, w')" and ctx: "tenant_ctx w = Some t"
    and ok: "tbl_ok carts_tbl (db_carts w)"
  obtains c where "c \<in> set (db_carts w)" and "active_cart_of customer c" and "tenant_id c = t"
    and "cv_cart v = c\<lparr>cart_status := CartCheckingOut, updated_at := clock w\<rparr>"
    and "cv_items v = items_of w (row_id c)" and "lockable t (row_id c) (db_carts w)"
    and "tables w' = tables (w\<lparr>db_carts := lock_rows (row_id c) (clock w) (db_carts w)\<rparr>)"
    and "tenant_ctx w' = Some t" and "clock w' = clock w" and "fresh_id w' = fresh_id w"
proof -
  let ?w0 = "enter_atomic w"
  obtain v0 w1 c2 w2 where lv: "lock_and_validate_cart customer expected ?w0 = (Inr v0, w1)"
    and sv: "save_fields carts_tbl (\<lambda>r. r\<lparr>cart_status := CartCheckingOut\<rparr>) (cv_cart v0) w1 = (Inr c2, w2)"
    and v: "v = v0\<lparr>cv_cart := c2\<rparr>" and w': "w' = commit w w2"
    using run unfolding phase_lock_def by (elim atomic_Inr_D bindE_Inr_D) auto
  obtain c where g: "get_row carts_tbl (active_cart_of customer) no_active_cart ?w0 = (Inr c, ?w0)"
    and v0: "v0 = load_cart ?w0 c" and w1: "w1 = ?w0"
    using lv unfolding lock_and_validate_cart_def
    by (elim bindE_Inr_D) (auto dest: get_row_Inr split: option.splits if_splits)
  from get_row_Inr [OF g] ctx have c: "c \<in> set (db_carts w)" "active_cart_of customer c" "tenant_id c = t"
    by (simp_all add: enter_atomic_def in_scope_def)
  have d: "distinct (map row_id (db_carts w))" using ok by (simp add: carts_ok)
  have uniq: "x = c" if "x \<in> set (db_carts w)" "row_id x = row_id c" for x
    using that c(1) d by (auto simp: distinct_map inj_on_def)
  have lockable: "lockable t (row_id c) (db_carts w)"
    using ok c uniq by (auto simp: lockable_def active_cart_of_def)
  have f: "(\<lambda>r. (r\<lparr>cart_status := CartCheckingOut\<rparr>)\<lparr>updated_at := clock w\<rparr>)
    = (\<lambda>c. c\<lparr>cart_status := CartCheckingOut, updated_at := clock w\<rparr>)" by simp
  have w2: "w2 = ?w0\<lparr>db_carts := lock_rows (row_id c) (clock w) (db_carts w)\<rparr>"
    and c2: "c2 = c\<lparr>cart_status := CartCheckingOut, updated_at := clock w\<rparr>"
    using sv unfolding w1 v0
    by (auto simp: save_fields_def bindE_def update_where_def write_rows_def load_cart_def lock_rows_def
        enter_atomic_def split: if_splits)
  show ?thesis
  proof (rule that [OF c])
    show "cv_cart v = c\<lparr>cart_status := CartCheckingOut, updated_at := clock w\<rparr>" using v c2 by simp
    show "cv_items v = items_of w (row_id c)"
      using v v0 by (simp add: load_cart_def items_of_def objects_def enter_atomic_def split: option.split)
    show "tables w' = tables (w\<lparr>db_carts := lock_rows (row_id c) (clock w) (db_carts w)\<rparr>)"
      using w' w2 by (simp add: tables_def enter_atomic_def commit_def)
    show "tenant_ctx w' = Some t" "clock w' = clock w" "fresh_id w' = fresh_id w"
      using w' w2 ctx by (simp_all add: commit_def enter_atomic_def)
  qed (rule lockable)
qed

subsection \<open>Releasing what was reserved\<close>

lemma sub_add_reserved: "sub_reserved q (add_reserved q p) = p"
  by (simp add: sub_reserved_def add_reserved_def)

lemma unreserve_step:
  assumes "p \<notin> ids"
  shows "upd_where (\<lambda>r. row_id r = p) (sub_reserved (qty_of items p)) (reserve_rows items (insert p ids) ps)
    = reserve_rows items ids ps"
  using assms
  by (induction ps) (auto simp: reserve_rows_def sub_reserved_def add_reserved_def)

lemma fold_settled_products:
  "db_products (fold (settled f st) rs w) =
     fold (\<lambda>r. upd_where (\<lambda>p. row_id p = res_product r) (f (res_quantity r))) rs (db_products w)"
  by (induction rs arbitrary: w) (simp_all add: settled_def)

lemma fold_settled_reservations:
  "db_reservations (fold (settled f st) rs w) =
     fold (\<lambda>r. upd_where (\<lambda>x. row_id x = row_id r) (set_res_status st (clock w))) rs (db_reservations w)"
  by (induction rs arbitrary: w) (simp_all add: settled_def)

lemma fold_unreserve:
  "distinct pids \<Longrightarrow>
     fold (\<lambda>r. upd_where (\<lambda>p. row_id p = res_product r) (sub_reserved (res_quantity r)))
       (fresh_reservations cart t now expires items n pids) (reserve_rows items (set pids) ps) = ps"
proof (induction pids arbitrary: n)
  case Nil
  then show ?case by (simp add: reserve_rows_def upd_where_def)
next
  case (Cons p pids)
  then show ?case by (simp add: fresh_reservations_Cons unreserve_step)
qed

text \<open>Settling a list of rows is one pass over each of the two tables.\<close>

lemma fold_set_status:
  "fold (\<lambda>r. upd_where (\<lambda>x. row_id x = row_id r) (set_res_status st now)) rs xs =
     upd_where (\<lambda>x. row_id x \<in> row_id ` set rs) (set_res_status st now) xs"
proof (induction rs arbitrary: xs)
  case Nil
  then show ?case by (simp add: upd_where_none)
next
  case (Cons r rs)
  have "upd_where (\<lambda>x. row_id x \<in> row_id ` set rs) (set_res_status st now)
      (upd_where (\<lambda>x. row_id x = row_id r) (set_res_status st now) xs)
    = upd_where (\<lambda>x. row_id x \<in> row_id ` set (r # rs)) (set_res_status st now) xs"
    by (induction xs) (auto simp: set_res_status_def)
  then show ?case using Cons by simp
qed

lemma fold_settled:
  "fold (settled f st) rs w =
     w\<lparr>db_products := fold (\<lambda>r. upd_where (\<lambda>p. row_id p = res_product r) (f (res_quantity r))) rs (db_products w),
       db_reservations := upd_where (\<lambda>x. row_id x \<in> row_id ` set rs) (set_res_status st (clock w)) (db_reservations w)\<rparr>"
proof -
  have "fold (settled f st) rs w =
     w\<lparr>db_products := fold (\<lambda>r. upd_where (\<lambda>p. row_id p = res_product r) (f (res_quantity r))) rs (db_products w),
       db_reservations := fold (\<lambda>r. upd_where (\<lambda>x. row_id x = row_id r) (set_res_status st (clock w))) rs (db_reservations w)\<rparr>"
    by (induction rs arbitrary: w) (simp_all add: settled_def)
  then show ?thesis by (simp add: fold_set_status)
qed

text \<open>
  The loops refresh each reservation in hand: what counts is the row of the table with its identifier.
\<close>

definition same_rows :: "reservation list \<Rightarrow> reservation list \<Rightarrow> bool" where
  "same_rows rs rows \<longleftrightarrow> map row_id rs = map row_id rows"

lemma settle_if_row:
  assumes "inv t ids w" and "x \<in> set (db_reservations w)" and "row_id r = row_id x" and "tenant_id x = t"
    and "settlement f expected st" and "res_status x = expected"
  shows "settle_if expected f st r w = (Inr (), settled f st x w)"
proof -
  have "tbl_ok reservations_tbl (db_reservations w)" using assms(1) by (simp add: inv_def ledger_def)
  then have "refresh_from_db reservations_tbl r w = (Inr x, w)"
    using reservations.follow_Inr [of w x] assms(2,3) by (simp add: refresh_from_db_def)
  moreover have "settle f st x w = (Inr (), settled f st x w)"
    using assms by (intro settle_inv(1)) auto
  ultimately show ?thesis using assms(6) by (simp add: settle_if_def bindE_def)
qed

lemma settle_if_rows:
  assumes "same_rows rs rows" and "inv t ids w" and "settlement f expected st" and "distinct (map row_id rows)"
    and "\<forall>x \<in> set rows. x \<in> set (db_reservations w) \<and> tenant_id x = t \<and> res_status x = expected"
  shows "for_each (settle_if expected f st) rs w = (Inr (), fold (settled f st) rows w)"
  using assms
proof (induction rows arbitrary: rs w)
  case Nil
  then show ?case by (simp add: same_rows_def)
next
  case (Cons x rows)
  then obtain r rs' where rs: "rs = r # rs'" "row_id r = row_id x" "same_rows rs' rows"
    by (auto simp: same_rows_def map_eq_Cons_conv)
  have one: "settle_if expected f st r w = (Inr (), settled f st x w)"
    using Cons.prems rs(2) by (intro settle_if_row) auto
  have "inv t ids (settled f st x w)"
    using Cons.prems by (intro settle_inv(2)) auto
  moreover have "\<forall>y \<in> set rows. y \<in> set (db_reservations (settled f st x w))"
    using Cons.prems(4,5) by (auto intro!: settled_other) (metis imageI)
  ultimately have "for_each (settle_if expected f st) rs' (settled f st x w)
      = (Inr (), fold (settled f st) rows (settled f st x w))"
    using Cons.prems rs(3) by (intro Cons.IH) auto
  with one rs(1) show ?case by (simp add: seqE_Inr)
qed

subsection \<open>What the tables hold\<close>

lemma tables_upd:
  "tables (w\<lparr>db_carts := a\<rparr>) = (tables w)\<lparr>db_carts := a\<rparr>"
  "tables (w\<lparr>db_products := b\<rparr>) = (tables w)\<lparr>db_products := b\<rparr>"
  "tables (w\<lparr>db_reservations := c\<rparr>) = (tables w)\<lparr>db_reservations := c\<rparr>"
  "tables (w\<lparr>db_orders := d\<rparr>) = (tables w)\<lparr>db_orders := d\<rparr>"
  "tables (w\<lparr>fresh_id := n\<rparr>) = tables w"
  by (simp_all add: tables_def)

lemma settle_atomic:
  assumes "same_rows rs rows" and "inv t ids w" and "settlement f expected st" and "distinct (map row_id rows)"
    and "\<forall>x \<in> set rows. x \<in> set (db_reservations w) \<and> tenant_id x = t \<and> res_status x = expected"
  shows "atomic (for_each (settle_if expected f st) rs) w
    = (Inr (), commit w (fold (settled f st) rows (enter_atomic w)))"
proof (rule atomic_Inr)
  show "for_each (settle_if expected f st) rs (enter_atomic w)
      = (Inr (), fold (settled f st) rows (enter_atomic w))"
    using assms by (intro settle_if_rows [where t = t and ids = ids]) (simp_all add: enter_atomic_def)
qed

lemma distinct_fresh: "distinct (map row_id (fresh_reservations cart t now expires items n pids))"
  by (simp add: fresh_reservations_def comp_def case_prod_unfold distinct_map inj_on_def)
    (auto simp: enumerate_eq_zip distinct_zipI1 in_set_zip nth_eq_iff_index_eq)

lemma upd_where_all: "(\<And>x. x \<in> set xs \<Longrightarrow> P x) \<Longrightarrow> upd_where P f xs = map f xs"
  by (induction xs) auto

text \<open>Releasing exactly what was reserved restores the products row by row.\<close>

lemma release_reserved:
  assumes I: "inv t ids w" and ps: "db_products w = reserve_rows items (set pids) ps"
    and rs: "rs = fresh_reservations cart t now expires items n pids"
    and res: "db_reservations w = rs0 @ rs" and d: "distinct pids"
  obtains w' where "release_reservations rs w = (Inr (), w')"
    and "tables w' = tables (w\<lparr>db_products := ps,
           db_reservations := rs0 @ map (set_res_status ResReleased (clock w)) rs\<rparr>)"
    and "tenant_ctx w' = Some t" and "clock w' = clock w" and "inv t ids w'"
proof -
  let ?w = "fold (settled sub_reserved ResReleased) rs (enter_atomic w)"
  have d_rs: "distinct (map row_id rs)" unfolding rs by (rule distinct_fresh)
  have rows: "\<forall>x \<in> set rs. x \<in> set (db_reservations w) \<and> tenant_id x = t \<and> res_status x = ResActive"
    using res unfolding rs by (auto elim: set_fresh_reservations)
  have run: "release_reservations rs w = (Inr (), commit w ?w)"
    unfolding release_reservations_def
    by (rule settle_atomic [OF _ I _ d_rs rows]) (simp_all add: same_rows_def settlements)
  have "tbl_ok reservations_tbl (db_reservations w)" using I by (simp add: inv_def ledger_def)
  then have "row_id ` set rs0 \<inter> row_id ` set rs = {}" using res by (auto simp: reservations_ok)
  then have "upd_where (\<lambda>x. row_id x \<in> row_id ` set rs) (set_res_status ResReleased (clock w)) rs0 = rs0"
    by (intro upd_where_none) auto
  moreover have "upd_where (\<lambda>x. row_id x \<in> row_id ` set rs) (set_res_status ResReleased (clock w)) rs
      = map (set_res_status ResReleased (clock w)) rs"
    by (rule upd_where_all) simp
  moreover have "fold (\<lambda>r. upd_where (\<lambda>p. row_id p = res_product r) (sub_reserved (res_quantity r))) rs
      (db_products w) = ps"
    unfolding ps rs by (rule fold_unreserve [OF d])
  ultimately have eq: "tables (commit w ?w) = tables (w\<lparr>db_products := ps,
      db_reservations := rs0 @ map (set_res_status ResReleased (clock w)) rs\<rparr>)"
    using res by (simp add: fold_settled enter_atomic_def commit_def tables_def)
  have frame: "tenant_ctx (commit w ?w) = Some t" "clock (commit w ?w) = clock w"
    using inv_ctx [OF I] by (simp_all add: commit_def enter_atomic_def)
  have "preserves (inv t ids) (release_reservations rs)" if "row_id ` set rs \<subseteq> ids" for ids
    using that by (rule reservation_loops_inv)
  moreover have "inv t (ids \<union> in_hand rs) w" using rows by (intro inv_more [OF I]) auto
  ultimately have "inv t (ids \<union> in_hand rs) (commit w ?w)" using run preservesD by (metis Un_upper2)
  then have "inv t ids (commit w ?w)" by (rule inv_mono) simp
  with run eq frame show ?thesis by (rule that)
qed

subsection \<open>A checkout that fails before payment\<close>

text \<open>
  \<open>undone w w'\<close>: the tables are those of \<open>w\<close>, except that the \<open>updated_at\<close> of the cart may be newer and
  that released reservations may have been added.
\<close>

definition undone :: "world \<Rightarrow> world \<Rightarrow> bool" where
  "undone w w' \<longleftrightarrow>
     (\<exists>cs rs. (cs = db_carts w \<or> (\<exists>i now. cs = touch_rows i now (db_carts w))) \<and>
        (\<forall>r \<in> set rs. res_status r = ResReleased) \<and>
        tables w' = tables (w\<lparr>db_carts := cs, db_reservations := db_reservations w @ rs\<rparr>))"

lemma undone_same: "tables w' = tables w \<Longrightarrow> undone w w'"
  unfolding undone_def by (intro exI [of _ "db_carts w"] exI [of _ "[]"]) simp

lemma bindE_Inl_D:
  assumes "bindE m f w = (Inl e, w')"
  obtains "m w = (Inl e, w')" | x w1 where "m w = (Inr x, w1)" and "f x w1 = (Inl e, w')"
  using assms by (auto simp: bindE_def split: prod.splits sum.splits)

lemma or_compensate_Inr: "or_compensate m c undo w = (Inr x, w') \<Longrightarrow> m w = (Inr x, w')"
  by (auto simp: or_compensate_def try_except_def seqE_def bindE_def split: prod.splits sum.splits if_splits)

lemma or_compensate_Inl:
  fixes m :: "'a act"
  assumes "or_compensate m any_exn undo w = (Inl e, w')"
  obtains e1 w1 where "m w = (Inl e1, w1)" and "seqE undo (throw e1 :: 'a act) w1 = (Inl e, w')"
proof (cases "m w")
  case (Pair r w1)
  with assms that show ?thesis by (cases r) (auto simp: or_compensate_def try_except_def)
qed

lemma or_compensate_cases:
  assumes "or_compensate m c undo w = (Inl e, w')"
  obtains (caught) e1 w1 where "m w = (Inl e1, w1)" and "c e1"
  | (passed) "m w = (Inl e, w')" and "\<not> c e"
proof (cases "m w")
  case (Pair r w1)
  then show ?thesis
    using assms that by (cases r) (auto simp: or_compensate_def try_except_def split: if_splits)
qed

lemma validate_reads: "validate_preconditions v w = (r, w') \<Longrightarrow> w' = w"
proof -
  have "preserves (\<lambda>s. s = w) (validate_preconditions v)"
    unfolding validate_preconditions_def check_coupon_def Let_def by (intro hoare_intros)
  then show "validate_preconditions v w = (r, w') \<Longrightarrow> w' = w" by (rule preservesD) simp
qed

lemma phase_validate_Inr: "phase_validate v w = (Inr x, w') \<Longrightarrow> w' = w"
  unfolding phase_validate_def by (drule or_compensate_Inr) (rule validate_reads)

lemma revert_throw:
  assumes "lockable t i cs" and "db_carts w = lock_rows i now cs" and "tenant_ctx w = Some t"
    and "seqE (revert_cart_to_active i) (throw e1) w = (Inl e, w')"
  shows "w' = w\<lparr>db_carts := touch_rows i now cs\<rparr>"
  using assms(4) revert_locked [OF assms(1-3)] by (simp add: seqE_Inr)

lemma undo_reserved:
  assumes I: "inv t ids w" and ps: "db_products w = reserve_rows items (set pids) ps"
    and rs: "rs = fresh_reservations cart t now expires items n pids"
    and res: "db_reservations w = rs0 @ rs" and d: "distinct pids"
    and lock: "lockable t i cs" "db_carts w = lock_rows i locked cs"
  obtains w' where "seqE (release_reservations rs) (revert_cart_to_active i) w = (Inr (), w')"
    and "tables w' = tables (w\<lparr>db_products := ps, db_carts := touch_rows i locked cs,
           db_reservations := rs0 @ map (set_res_status ResReleased (clock w)) rs\<rparr>)"
    and "tenant_ctx w' = Some t"
proof -
  obtain w1 where r: "release_reservations rs w = (Inr (), w1)"
    and eq: "tables w1 = tables (w\<lparr>db_products := ps,
           db_reservations := rs0 @ map (set_res_status ResReleased (clock w)) rs\<rparr>)"
    and ctx: "tenant_ctx w1 = Some t"
    using release_reserved [OF I ps rs res d] by metis
  have "db_carts w1 = lock_rows i locked cs" using tables_db [OF eq] lock(2) by simp
  note rev = revert_locked [OF lock(1) this ctx]
  show ?thesis
  proof (rule that)
    show "seqE (release_reservations rs) (revert_cart_to_active i) w
        = (Inr (), w1\<lparr>db_carts := touch_rows i locked cs\<rparr>)"
      using r rev by (simp add: seqE_Inr)
    show "tables (w1\<lparr>db_carts := touch_rows i locked cs\<rparr>) = tables (w\<lparr>db_products := ps,
        db_carts := touch_rows i locked cs,
        db_reservations := rs0 @ map (set_res_status ResReleased (clock w)) rs\<rparr>)"
      by (simp add: tables_upd eq)
  qed (simp add: ctx)
qed

lemma reserve_phases_Inr:
  assumes I: "inv t {} w" and ok: "tbl_ok carts_tbl (db_carts w)"
    and lock: "phase_lock customer expected w = (Inr v, w1)" and res: "phase_reserve v w1 = (Inr rs, w2)"
  obtains c ps where "c \<in> set (db_carts w)" and "active_cart_of customer c"
    and "cv_cart v = c\<lparr>cart_status := CartCheckingOut, updated_at := clock w\<rparr>"
    and "cv_items v = items_of w (row_id c)" and "lockable t (row_id c) (db_carts w)"
    and "set ps = {p \<in> set (db_products w). tenant_id p = t \<and> row_id p \<in> item_product ` set (cv_items v)}"
    and "distinct (map row_id ps)"
    and "\<forall>p \<in> set ps. qty_of (cv_items v) (row_id p) \<le> available_quantity p"
    and "rs = fresh_reservations (row_id c) t (clock w) (clock w + reservation_ttl) (cv_items v) (fresh_id w) (map row_id ps)"
    and "tables w2 = tables (w\<lparr>db_carts := lock_rows (row_id c) (clock w) (db_carts w),
           db_products := reserve_rows (cv_items v) (row_id ` set ps) (db_products w),
           db_reservations := db_reservations w @ rs\<rparr>)"
    and "clock w2 = clock w" and "inv t (in_hand rs) w2"
proof -
  obtain c where c: "c \<in> set (db_carts w)" "active_cart_of customer c"
    and cv: "cv_cart v = c\<lparr>cart_status := CartCheckingOut, updated_at := clock w\<rparr>"
      "cv_items v = items_of w (row_id c)"
    and lockable: "lockable t (row_id c) (db_carts w)"
    and eq1: "tables w1 = tables (w\<lparr>db_carts := lock_rows (row_id c) (clock w) (db_carts w)\<rparr>)"
    and f1: "tenant_ctx w1 = Some t" "clock w1 = clock w" "fresh_id w1 = fresh_id w"
    by (rule phase_lock_Inr [OF lock inv_ctx [OF I] ok])
  have I1: "inv t {} w1" and nn: "items_nonneg v"
    using validD_Inr [OF phase_lock_valid I lock] by simp_all
  have db1: "db_products w1 = db_products w" "db_reservations w1 = db_reservations w"
    using tables_db [OF eq1] by simp_all
  have run: "reserve_stock (row_id c) (cv_items v) w1 = (Inr rs, w2)"
    using or_compensate_Inr [OF res [unfolded phase_reserve_def]] cv(1) by simp
  have oks: "tbl_ok products_tbl (db_products w1)" "tbl_ok reservations_tbl (db_reservations w1)"
    using I1 by (simp_all add: inv_def ledger_def)
  have I2: "inv t (in_hand rs) w2"
    using validD_Inr [OF phase_reserve_valid [OF nn] I1 res] .
  from run f1(1) oks show ?thesis
  proof (rule reserve_stock_Inr)
    fix ps w3
    assume ps: "set ps = {p \<in> set (db_products w1). tenant_id p = t \<and> row_id p \<in> item_product ` set (cv_items v)}"
      "distinct (map row_id ps)" "\<forall>p \<in> set ps. qty_of (cv_items v) (row_id p) \<le> available_quantity p"
      and rs: "rs = fresh_reservations (row_id c) t (clock w1) (clock w1 + reservation_ttl) (cv_items v) (fresh_id w1) (map row_id ps)"
      and w3: "w3 = w1\<lparr>db_products := reserve_rows (cv_items v) (row_id ` set ps) (db_products w1),
           db_reservations := db_reservations w1 @ rs, fresh_id := fresh_id w1 + length ps\<rparr>"
      and eq2: "tables w2 = tables w3" and ck: "clock w2 = clock w1"
    have "tables w2 = tables (w\<lparr>db_carts := lock_rows (row_id c) (clock w) (db_carts w),
           db_products := reserve_rows (cv_items v) (row_id ` set ps) (db_products w),
           db_reservations := db_reservations w @ rs\<rparr>)"
      unfolding eq2 w3 by (simp add: tables_upd eq1 db1)
    with c cv lockable ps rs ck I2 show ?thesis
      using f1 db1 by (intro that [of c ps]) simp_all
  qed
qed

lemma reserved_then_failed:
  assumes I: "inv t {} w" and ok: "tbl_ok carts_tbl (db_carts w)"
    and lock: "phase_lock customer expected w = (Inr v, w1)" and res: "phase_reserve v w1 = (Inr rs, w2)"
    and order: "phase_order v rs key w2 = (Inl e, w')"
  shows "undone w w'"
  using I ok lock res
proof (rule reserve_phases_Inr)
  fix c ps
  assume cv: "cv_cart v = c\<lparr>cart_status := CartCheckingOut, updated_at := clock w\<rparr>"
    and lockable: "lockable t (row_id c) (db_carts w)" and d: "distinct (map row_id ps)"
    and rs: "rs = fresh_reservations (row_id c) t (clock w) (clock w + reservation_ttl) (cv_items v) (fresh_id w) (map row_id ps)"
    and eq: "tables w2 = tables (w\<lparr>db_carts := lock_rows (row_id c) (clock w) (db_carts w),
           db_products := reserve_rows (cv_items v) (row_id ` set ps) (db_products w),
           db_reservations := db_reservations w @ rs\<rparr>)"
    and I2: "inv t (in_hand rs) w2"
  let ?undo = "seqE (release_reservations rs) (revert_cart_to_active (row_id c))"
  obtain e1 w3 where o: "create_order v key w2 = (Inl e1, w3)" and u: "seqE ?undo (throw e1 :: order act) w3 = (Inl e, w')"
    using or_compensate_Inl [OF order [unfolded phase_order_def]] cv by auto
  have "tables w3 = tables w2" using o unfolding create_order_def by (rule atomic_failed_tables)
  with eq have eq3: "tables w3 = tables (w\<lparr>db_carts := lock_rows (row_id c) (clock w) (db_carts w),
           db_products := reserve_rows (cv_items v) (row_id ` set ps) (db_products w),
           db_reservations := db_reservations w @ rs\<rparr>)" by simp
  have I3: "inv t (in_hand rs) w3" using create_order_inv I2 o by (rule preservesD)
  have db: "db_products w3 = reserve_rows (cv_items v) (set (map row_id ps)) (db_products w)"
    "db_reservations w3 = db_reservations w @ rs" "db_carts w3 = lock_rows (row_id c) (clock w) (db_carts w)"
    using tables_db [OF eq3] by simp_all
  obtain w4 where un: "?undo w3 = (Inr (), w4)"
    and eq4: "tables w4 = tables (w3\<lparr>db_products := db_products w, db_carts := touch_rows (row_id c) (clock w) (db_carts w),
           db_reservations := db_reservations w @ map (set_res_status ResReleased (clock w3)) rs\<rparr>)"
    using undo_reserved [OF I3 db(1) rs db(2) d lockable db(3)] by blast
  have "w' = w4" using u un by (simp add: seqE_Inr)
  then have "tables w' = tables (w\<lparr>db_carts := touch_rows (row_id c) (clock w) (db_carts w),
      db_reservations := db_reservations w @ map (set_res_status ResReleased (clock w3)) rs\<rparr>)"
    using eq4 eq3 by (simp add: tables_upd) (simp add: tables_def)
  then show ?thesis unfolding undone_def
    by (intro exI [of _ "touch_rows (row_id c) (clock w) (db_carts w)"]
        exI [of _ "map (set_res_status ResReleased (clock w3)) rs"]) auto
qed

theorem prepare_order_undone:
  assumes I: "inv t {} w" and ok: "tbl_ok carts_tbl (db_carts w)"
    and run: "prepare_order customer key expected w = (Inl e, w')"
  shows "undone w w'"
  using run unfolding prepare_order_def
proof (elim bindE_Inl_D)
  assume "phase_lock customer expected w = (Inl e, w')"
  then show ?thesis by (intro undone_same) (simp add: phase_lock_def atomic_failed_tables)
next
  fix v w1
  assume lock: "phase_lock customer expected w = (Inr v, w1)"
    and rest: "seqE (phase_validate v) (bindE (phase_reserve v) (\<lambda>rs. bindE (phase_order v rs key) (\<lambda>od. ret (v, rs, od)))) w1
      = (Inl e, w')"
  obtain c where cv: "cv_cart v = c\<lparr>cart_status := CartCheckingOut, updated_at := clock w\<rparr>"
    and lockable: "lockable t (row_id c) (db_carts w)"
    and eq1: "tables w1 = tables (w\<lparr>db_carts := lock_rows (row_id c) (clock w) (db_carts w)\<rparr>)"
    by (rule phase_lock_Inr [OF lock inv_ctx [OF I] ok])
  have I1: "inv t {} w1" and nn: "items_nonneg v"
    using validD_Inr [OF phase_lock_valid I lock] by simp_all
  have row: "row_id (cv_cart v) = row_id c" by (simp add: cv)
  have touched: "undone w w'" if "tables w2 = tables w1" "tenant_ctx w2 = Some t"
    "seqE (revert_cart_to_active (row_id c)) (throw e1) w2 = (Inl e, w')" for w2 e1
  proof -
    have "tables w2 = tables (w\<lparr>db_carts := lock_rows (row_id c) (clock w) (db_carts w)\<rparr>)"
      using that(1) eq1 by simp
    then have "db_carts w2 = lock_rows (row_id c) (clock w) (db_carts w)"
      by (drule_tac tables_db(3)) simp
    from revert_throw [OF lockable this that(2,3)] that(1) eq1
    have "tables w' = tables (w\<lparr>db_carts := touch_rows (row_id c) (clock w) (db_carts w)\<rparr>)"
      by (simp add: tables_upd)
    then show ?thesis unfolding undone_def
      by (intro exI [of _ "touch_rows (row_id c) (clock w) (db_carts w)"] exI [of _ "[]"]) auto
  qed
  from rest show ?thesis unfolding seqE_def
  proof (elim bindE_Inl_D)
    assume "phase_validate v w1 = (Inl e, w')"
    then obtain e1 w2 where "validate_preconditions v w1 = (Inl e1, w2)"
      and "seqE (revert_cart_to_active (row_id c)) (throw e1 :: unit act) w2 = (Inl e, w')"
      unfolding phase_validate_def row by (rule or_compensate_Inl)
    with validate_reads inv_ctx [OF I1] show ?thesis by (intro touched) auto
  next
    fix x w2
    assume "phase_validate v w1 = (Inr x, w2)" and "phase_reserve v w2 = (Inl e, w')"
    then have "phase_reserve v w1 = (Inl e, w')" using phase_validate_Inr by metis
    then obtain e1 w3 where r: "reserve_stock (row_id c) (cv_items v) w1 = (Inl e1, w3)"
      and u: "seqE (revert_cart_to_active (row_id c)) (throw e1 :: reservation list act) w3 = (Inl e, w')"
      unfolding phase_reserve_def row by (rule or_compensate_Inl)
    have "tenant_ctx w3 = Some t" using preserves_ctx_reserve inv_ctx [OF I1] r by (rule preservesD)
    with reserve_stock_tables_Inl [OF r] u show ?thesis by (intro touched)
  next
    fix x w2 rs w3 assume "phase_validate v w1 = (Inr x, w2)" and "phase_reserve v w2 = (Inr rs, w3)"
      and order: "phase_order v rs key w3 = (Inl e, w')"
    then have res: "phase_reserve v w1 = (Inr rs, w3)" using phase_validate_Inr by metis
    show ?thesis by (fact reserved_then_failed [OF I ok lock res order])
  next
    fix x w2 rs w3 od w4 assume "ret (v, rs, od) w4 = (Inl e, w')"
    then show ?thesis by simp
  qed
qed

subsection \<open>The order, and a declined payment\<close>

text \<open>What a phase that does not touch stock, carts and the clock leaves alone.\<close>

definition stays :: "product list \<Rightarrow> reservation list \<Rightarrow> cart list \<Rightarrow> time \<Rightarrow> world \<Rightarrow> bool" where
  "stays P R C n w \<longleftrightarrow> db_products w = P \<and> db_reservations w = R \<and> db_carts w = C \<and> clock w = n"

lemma stays_frame [simp]:
  "stays P R C n (w\<lparr>db_orders := a\<rparr>) = stays P R C n w" "stays P R C n (w\<lparr>db_order_items := b\<rparr>) = stays P R C n w"
  "stays P R C n (w\<lparr>db_payments := c\<rparr>) = stays P R C n w" "stays P R C n (w\<lparr>db_coupons := d\<rparr>) = stays P R C n w"
  "stays P R C n (w\<lparr>fresh_id := f\<rparr>) = stays P R C n w" "stays P R C n (w\<lparr>gateway_log := g\<rparr>) = stays P R C n w"
  "stays P R C n (w\<lparr>order_seq := h\<rparr>) = stays P R C n w" "stays P R C n (w\<lparr>task_queue := i\<rparr>) = stays P R C n w"
  by (simp_all add: stays_def)

lemma stays_atomic: "preserves (stays P R C n) m \<Longrightarrow> preserves (stays P R C n) (atomic m)"
  by (rule preserves_atomic) (auto simp: stays_def enter_atomic_def rollback_def commit_def)

lemma orders_atomic:
  "preserves (\<lambda>w. db_orders w = os) m \<Longrightarrow> preserves (\<lambda>w. db_orders w = os) (atomic m)"
  by (rule preserves_atomic) (auto simp: enter_atomic_def rollback_def commit_def)

lemma saga_coupons_put [simp]: "tbl_put coupons_tbl rs w = w\<lparr>db_coupons := rs\<rparr>"
  by (simp add: coupons_tbl_def)

lemma next_order_number_frames:
  "preserves (stays P R C n) (next_order_number s)" "preserves (\<lambda>w. db_orders w = os) (next_order_number s)"
  by (simp_all add: preserves_def next_order_number_def split: option.split)

lemma create_order_stays: "preserves (stays P R C n) (create_order v key)"
  unfolding create_order_def use_coupon_def create_order_item_def
  by (intro op_intros stays_atomic preserves_create_with_tenant next_order_number_frames) simp_all

lemma create_order_Inr:
  assumes run: "create_order v key w = (Inr od, w')" and ctx: "tenant_ctx w = Some t"
  shows "db_orders w' = db_orders w @ [od]" and "ord_status od = OrderPending"
    and "ord_idempotency_key od = key" and "tenant_id od = t" and "tbl_ok orders_tbl (db_orders w')"
    and "ord_grand_total od = tot_grand_total (cv_totals v)" and "ord_cart od = None"
proof -
  let ?use = "for_each use_coupon (applied_of (enter_atomic w) (row_id (cv_cart v)))"
  obtain u w1 number w2 cust ship bill w3 where
    u: "?use (enter_atomic w) = (Inr u, w1)"
    and n: "next_order_number (tenant_id (cv_cart v)) w1 = (Inr number, w2)"
    and o: "create orders_tbl (new_order v cust ship bill number key) w2 = (Inr od, w3)"
    and i: "\<exists>w4 x. for_each (create_order_item v (row_id od)) (cv_items v) w3 = (Inr x, w4) \<and> w' = commit w w4"
    using run unfolding create_order_def seqE_def
    by (elim atomic_Inr_D) (fastforce simp: bindE_def split: prod.splits sum.splits option.splits)
  obtain w4 x where items: "for_each (create_order_item v (row_id od)) (cv_items v) w3 = (Inr x, w4)"
    and w': "w' = commit w w4" using i by blast
  have os: "db_orders w2 = db_orders w" and c2: "tenant_ctx w2 = Some t"
  proof -
    have p: "preserves (\<lambda>s. db_orders s = db_orders w) ?use" "preserves (\<lambda>s. tenant_ctx s = Some t) ?use"
      unfolding use_coupon_def by (intro op_intros; simp)+
    have "db_orders w1 = db_orders w" "tenant_ctx w1 = Some t"
      using preservesD [OF p(1) _ u] preservesD [OF p(2) _ u] ctx by (simp_all add: enter_atomic_def)
    then show "db_orders w2 = db_orders w" and "tenant_ctx w2 = Some t"
      using n by (auto simp: next_order_number_def split: option.splits)
  qed
  have od: "od = stamp (fresh_id w2) t (clock w2) (new_order v cust ship bill number key)"
    and w3: "db_orders w3 = db_orders w @ [od]" and ok: "tbl_ok orders_tbl (db_orders w @ [od])"
    using o os c2 by (auto simp: create_simp insert_row_def split: if_splits)
  have "preserves (\<lambda>s. db_orders s = db_orders w3) (for_each (create_order_item v (row_id od)) (cv_items v))"
    unfolding create_order_item_def by (intro op_intros preserves_create_with_tenant) simp_all
  then have "db_orders w4 = db_orders w3" using items by (simp add: preserves_def) (metis snd_conv)
  with w3 w' show eq: "db_orders w' = db_orders w @ [od]" by (simp add: commit_def)
  with ok show "tbl_ok orders_tbl (db_orders w')" by simp
  show "ord_status od = OrderPending" "ord_idempotency_key od = key" "tenant_id od = t"
    "ord_grand_total od = tot_grand_total (cv_totals v)" "ord_cart od = None"
    by (simp_all add: od stamp_def new_order_def Let_def)
qed

lemma authorize_stays: "preserves (stays P R C n) (authorize_payment e od pm amount currency key m)"
  unfolding authorize_payment_def resolve_gateway_config_def create_pending_payment_def call_authorize_def
    record_intent_def Let_def create_payment_def gateway_call_def record_payment_error_def record_payment_result_def
  by (intro op_intros stays_atomic orders_atomic preserves_create_with_tenant) simp_all

lemma authorize_orders: "preserves (\<lambda>w. db_orders w = os) (authorize_payment e od pm amount currency key m)"
  unfolding authorize_payment_def resolve_gateway_config_def create_pending_payment_def call_authorize_def
    record_intent_def Let_def create_payment_def gateway_call_def record_payment_error_def record_payment_result_def
  by (intro op_intros stays_atomic orders_atomic preserves_create_with_tenant) simp_all

definition cancelled_rows :: "uuid \<Rightarrow> time \<Rightarrow> order list \<Rightarrow> order list" where
  "cancelled_rows i now os =
     upd_where (\<lambda>r. row_id r = i) (\<lambda>r. r\<lparr>ord_status := OrderCancelled, updated_at := now\<rparr>) os"

lemma orders_ok:
  "tbl_ok orders_tbl os \<longleftrightarrow> distinct (map row_id os) \<and> distinct (map ord_idempotency_key os) \<and>
     distinct (map (\<lambda>r. (tenant_id r, ord_number r)) os)"
  by (simp add: orders_tbl_def pk_ok_def)

lemma cancel_order_row_run:
  assumes ok: "tbl_ok orders_tbl (db_orders w)" and od: "od \<in> set (db_orders w)" and st: "ord_status od = OrderPending"
  shows "cancel_order_row od w = (Inr (), commit w (enter_atomic (w\<lparr>db_orders := cancelled_rows (row_id od) (clock w) (db_orders w)\<rparr>)))"
proof -
  let ?w = "enter_atomic w"
  have r: "refresh_from_db orders_tbl od ?w = (Inr od, ?w)"
    using orders.follow_Inr [of ?w od] ok od by (simp add: refresh_from_db_def enter_atomic_def)
  have m: "map g (cancelled_rows (row_id od) (clock w) (db_orders w)) = map g (db_orders w)"
    if "\<And>r now. g (r\<lparr>ord_status := OrderCancelled, updated_at := now\<rparr>) = g r" for g :: "order \<Rightarrow> 'b"
    unfolding cancelled_rows_def using that by (rule map_upd_where)
  have "tbl_ok orders_tbl (cancelled_rows (row_id od) (clock w) (db_orders w))"
    using ok by (simp add: orders_ok m)
  moreover have "length (filter (\<lambda>r. row_id r = row_id od) (db_orders w)) = 1"
    using ok od by (simp add: orders_ok filter_key_distinct)
  ultimately have s: "\<exists>x. save_fields orders_tbl (\<lambda>r. r\<lparr>ord_status := OrderCancelled\<rparr>) od ?w
      = (Inr x, enter_atomic (w\<lparr>db_orders := cancelled_rows (row_id od) (clock w) (db_orders w)\<rparr>))"
    by (simp add: save_fields_def bindE_def update_where_def write_rows_def enter_atomic_def cancelled_rows_def)
  show ?thesis unfolding cancel_order_row_def
    using r s st by (intro atomic_Inr) (auto simp: bindE_def save_order_status_def)
qed

text \<open>After the first four phases: the cart is locked, the stock is reserved, the order is pending.\<close>

lemma prepare_order_Inr:
  assumes I: "inv t {} w" and ok: "tbl_ok carts_tbl (db_carts w)"
    and run: "prepare_order customer key expected w = (Inr (v, rs, od), w1)"
  obtains c ps where "c \<in> set (db_carts w)" and "active_cart_of customer c"
    and "cv_cart v = c\<lparr>cart_status := CartCheckingOut, updated_at := clock w\<rparr>"
    and "cv_items v = items_of w (row_id c)" and "lockable t (row_id c) (db_carts w)"
    and "set ps = {p \<in> set (db_products w). tenant_id p = t \<and> row_id p \<in> item_product ` set (cv_items v)}"
    and "distinct (map row_id ps)"
    and "\<forall>p \<in> set ps. qty_of (cv_items v) (row_id p) \<le> available_quantity p"
    and "rs = fresh_reservations (row_id c) t (clock w) (clock w + reservation_ttl) (cv_items v) (fresh_id w) (map row_id ps)"
    and "stays (reserve_rows (cv_items v) (row_id ` set ps) (db_products w)) (db_reservations w @ rs)
           (lock_rows (row_id c) (clock w) (db_carts w)) (clock w) w1"
    and "db_orders w1 = db_orders w @ [od]" and "ord_status od = OrderPending" and "tenant_id od = t"
    and "ord_grand_total od = tot_grand_total (cv_totals v)" and "ord_idempotency_key od = key"
    and "tbl_ok orders_tbl (db_orders w1)" and "inv t (in_hand rs) w1"
proof -
  obtain w2 w3 where lock: "phase_lock customer expected w = (Inr v, w2)"
    and res: "phase_reserve v w2 = (Inr rs, w3)" and order: "phase_order v rs key w3 = (Inr od, w1)"
    using run unfolding prepare_order_def seqE_def
    by (elim bindE_Inr_D) (auto dest: phase_validate_Inr)
  have o: "create_order v key w3 = (Inr od, w1)"
    using order unfolding phase_order_def by (rule or_compensate_Inr)
  from I ok lock res show ?thesis
  proof (rule reserve_phases_Inr)
    fix c ps
    assume c: "c \<in> set (db_carts w)" "active_cart_of customer c"
        "cv_cart v = c\<lparr>cart_status := CartCheckingOut, updated_at := clock w\<rparr>"
        "cv_items v = items_of w (row_id c)" "lockable t (row_id c) (db_carts w)"
      and ps: "set ps = {p \<in> set (db_products w). tenant_id p = t \<and> row_id p \<in> item_product ` set (cv_items v)}"
        "distinct (map row_id ps)" "\<forall>p \<in> set ps. qty_of (cv_items v) (row_id p) \<le> available_quantity p"
      and rs: "rs = fresh_reservations (row_id c) t (clock w) (clock w + reservation_ttl) (cv_items v) (fresh_id w) (map row_id ps)"
      and eq: "tables w3 = tables (w\<lparr>db_carts := lock_rows (row_id c) (clock w) (db_carts w),
           db_products := reserve_rows (cv_items v) (row_id ` set ps) (db_products w),
           db_reservations := db_reservations w @ rs\<rparr>)"
      and ck: "clock w3 = clock w" and I3: "inv t (in_hand rs) w3"
    have "stays (reserve_rows (cv_items v) (row_id ` set ps) (db_products w)) (db_reservations w @ rs)
           (lock_rows (row_id c) (clock w) (db_carts w)) (clock w) w3"
      using tables_db [OF eq] ck by (simp add: stays_def)
    with create_order_stays have S: "stays (reserve_rows (cv_items v) (row_id ` set ps) (db_products w))
        (db_reservations w @ rs) (lock_rows (row_id c) (clock w) (db_carts w)) (clock w) w1"
      using o by (rule preservesD)
    have os: "db_orders w3 = db_orders w" using tables_db [OF eq] by simp
    have I1: "inv t (in_hand rs) w1" using create_order_inv I3 o by (rule preservesD)
    note od = create_order_Inr [OF o inv_ctx [OF I3], unfolded os]
    show ?thesis by (rule that [OF c ps rs S od(1,2,4,6,3,5) I1])
  qed
qed

lemma compensate_order_run:
  assumes I: "inv t ids w" and S: "stays (reserve_rows items (set pids) ps) (rs0 @ rs) (lock_rows i locked cs) n w"
    and rs: "rs = fresh_reservations cart t now expires items k pids" and d: "distinct pids"
    and lock: "lockable t i cs" and i: "row_id (cv_cart v) = i"
    and ok: "tbl_ok orders_tbl (db_orders w)" and od: "od \<in> set (db_orders w)" "ord_status od = OrderPending"
  obtains w' where "compensate_order v rs od w = (Inr (), w')"
    and "db_products w' = ps" and "db_carts w' = touch_rows i locked cs"
    and "db_reservations w' = rs0 @ map (set_res_status ResReleased n) rs"
    and "db_orders w' = cancelled_rows (row_id od) n (db_orders w)"
proof -
  let ?w1 = "commit w (enter_atomic (w\<lparr>db_orders := cancelled_rows (row_id od) (clock w) (db_orders w)\<rparr>))"
  have c: "cancel_order_row od w = (Inr (), ?w1)" by (rule cancel_order_row_run [OF ok od])
  have db: "db_products ?w1 = reserve_rows items (set pids) ps" "db_reservations ?w1 = rs0 @ rs"
    "db_carts ?w1 = lock_rows i locked cs" and ck: "clock ?w1 = n" "clock w = n"
    and os: "db_orders ?w1 = cancelled_rows (row_id od) n (db_orders w)"
    using S by (simp_all add: stays_def commit_def enter_atomic_def)
  have I1: "inv t ids ?w1" using cancel_order_row_inv I c by (rule preservesD)
  obtain w' where u: "seqE (release_reservations rs) (revert_cart_to_active i) ?w1 = (Inr (), w')"
    and eq: "tables w' = tables (?w1\<lparr>db_products := ps, db_carts := touch_rows i locked cs,
           db_reservations := rs0 @ map (set_res_status ResReleased (clock ?w1)) rs\<rparr>)"
    using undo_reserved [OF I1 db(1) rs db(2) d lock db(3)] by metis
  show ?thesis
  proof (rule that)
    show "compensate_order v rs od w = (Inr (), w')"
      using c u unfolding compensate_order_def i by (simp add: seqE_Inr)
  qed (use tables_db [OF eq] ck os in simp_all)
qed

text \<open>What a payment that was refused leaves behind.\<close>

lemma compensated:
  assumes I: "inv t {} w" and ok: "tbl_ok carts_tbl (db_carts w)"
    and prep: "prepare_order customer key expected w = (Inr (v, rs, od), w1)"
    and m: "m w1 = (Inl x1, w2)" and frame: "\<And>P R C n. preserves (stays P R C n) m"
      "\<And>os. preserves (\<lambda>w. db_orders w = os) m" "preserves (inv t (in_hand rs)) m"
    and undo: "or_compensate m c (compensate_order v rs od) w1 = (Inl x, w')" and x: "c x1"
  shows "db_products w' = db_products w"
    and "\<exists>now. db_orders w' = cancelled_rows (row_id od) now (db_orders w @ [od])"
    and "\<exists>i now. db_carts w' = touch_rows i now (db_carts w)"
    and "\<exists>now. db_reservations w' = db_reservations w @ map (set_res_status ResReleased now) rs"
    and "x = x1"
proof -
  have *: "db_products w' = db_products w \<and>
      (\<exists>now. db_orders w' = cancelled_rows (row_id od) now (db_orders w @ [od])) \<and>
      (\<exists>i now. db_carts w' = touch_rows i now (db_carts w)) \<and>
      (\<exists>now. db_reservations w' = db_reservations w @ map (set_res_status ResReleased now) rs) \<and> x = x1"
    using I ok prep
  proof (rule prepare_order_Inr)
    fix c' ps
    assume cv: "cv_cart v = c'\<lparr>cart_status := CartCheckingOut, updated_at := clock w\<rparr>"
      and lock: "lockable t (row_id c') (db_carts w)" and d: "distinct (map row_id ps)"
      and rs: "rs = fresh_reservations (row_id c') t (clock w) (clock w + reservation_ttl) (cv_items v) (fresh_id w) (map row_id ps)"
      and S: "stays (reserve_rows (cv_items v) (row_id ` set ps) (db_products w)) (db_reservations w @ rs)
           (lock_rows (row_id c') (clock w) (db_carts w)) (clock w) w1"
      and os: "db_orders w1 = db_orders w @ [od]" and od: "ord_status od = OrderPending"
      and oks: "tbl_ok orders_tbl (db_orders w1)" and I1: "inv t (in_hand rs) w1"
    have S2: "stays (reserve_rows (cv_items v) (set (map row_id ps)) (db_products w)) (db_reservations w @ rs)
           (lock_rows (row_id c') (clock w) (db_carts w)) (clock w) w2"
      using preservesD [OF frame(1) S m] by simp
    have os2: "db_orders w2 = db_orders w @ [od]" using preservesD [OF frame(2) os m] .
    have I2: "inv t (in_hand rs) w2" using frame(3) I1 m by (rule preservesD)
    have "row_id (cv_cart v) = row_id c'" by (simp add: cv)
    then obtain w3 where u: "compensate_order v rs od w2 = (Inr (), w3)"
      and f: "db_products w3 = db_products w" "db_carts w3 = touch_rows (row_id c') (clock w) (db_carts w)"
        "db_reservations w3 = db_reservations w @ map (set_res_status ResReleased (clock w)) rs"
        "db_orders w3 = cancelled_rows (row_id od) (clock w) (db_orders w @ [od])"
      using compensate_order_run [OF I2 S2 rs d lock, of v od] oks os os2 od by auto
    have "x = x1 \<and> w' = w3"
      using undo m x u by (simp add: or_compensate_def try_except_def seqE_Inr)
    with f show ?thesis by blast
  qed
  then show "db_products w' = db_products w"
    and "\<exists>now. db_orders w' = cancelled_rows (row_id od) now (db_orders w @ [od])"
    and "\<exists>i now. db_carts w' = touch_rows i now (db_carts w)"
    and "\<exists>now. db_reservations w' = db_reservations w @ map (set_res_status ResReleased now) rs"
    and "x = x1" by simp_all
qed

lemma declined_compensated:
  assumes I: "inv t {} w" and ok: "tbl_ok carts_tbl (db_carts w)"
    and prep: "prepare_order customer key expected w = (Inr (v, rs, od), w1)"
    and auth: "phase_authorize e v rs od pm cust key' extra w1 = (Inl x, w')" and x: "is_payment_failed x"
  shows "db_products w' = db_products w"
    and "\<exists>now. db_orders w' = cancelled_rows (row_id od) now (db_orders w @ [od])"
    and "\<exists>i now. db_carts w' = touch_rows i now (db_carts w)"
    and "\<exists>now. db_reservations w' = db_reservations w @ map (set_res_status ResReleased now) rs"
proof -
  let ?m = "authorize_payment e (row_id od) (row_id pm) (ord_grand_total od) (ord_currency od) (key' @ '':auth'')
          (enriched_metadata od cust extra)"
  obtain x1 w2 where m: "?m w1 = (Inl x1, w2)" and x1: "is_payment_failed x1"
    using auth [unfolded phase_authorize_def] x by (cases rule: or_compensate_cases) auto
  note * = compensated [OF I ok prep m authorize_stays authorize_orders authorize_payment_inv
      auth [unfolded phase_authorize_def] x1]
  show "db_products w' = db_products w" by (rule *(1))
  show "\<exists>now. db_orders w' = cancelled_rows (row_id od) now (db_orders w @ [od])" by (rule *(2))
  show "\<exists>i now. db_carts w' = touch_rows i now (db_carts w)" by (rule *(3))
  show "\<exists>now. db_reservations w' = db_reservations w @ map (set_res_status ResReleased now) rs" by (rule *(4))
qed

text \<open>Any other exception of the authorization is not compensated: the cart stays locked, the stock reserved.\<close>

lemma uncaught_not_compensated:
  assumes I: "inv t {} w" and ok: "tbl_ok carts_tbl (db_carts w)"
    and prep: "prepare_order customer key expected w = (Inr (v, rs, od), w1)"
    and auth: "phase_authorize e v rs od pm cust key' extra w1 = (Inl x, w')" and x: "\<not> is_payment_failed x"
  shows "\<exists>now. db_carts w' = lock_rows (row_id (cv_cart v)) now (db_carts w)"
    and "db_reservations w' = db_reservations w @ rs" and "\<forall>r \<in> set rs. res_status r = ResActive"
    and "db_orders w' = db_orders w @ [od]" and "ord_status od = OrderPending"
proof -
  let ?m = "authorize_payment e (row_id od) (row_id pm) (ord_grand_total od) (ord_currency od) (key' @ '':auth'')
          (enriched_metadata od cust extra)"
  have *: "(\<exists>now. db_carts w' = lock_rows (row_id (cv_cart v)) now (db_carts w)) \<and>
      db_reservations w' = db_reservations w @ rs \<and> (\<forall>r \<in> set rs. res_status r = ResActive) \<and>
      db_orders w' = db_orders w @ [od] \<and> ord_status od = OrderPending"
    using I ok prep
  proof (rule prepare_order_Inr)
    fix c ps
    assume cv: "cv_cart v = c\<lparr>cart_status := CartCheckingOut, updated_at := clock w\<rparr>"
      and rs: "rs = fresh_reservations (row_id c) t (clock w) (clock w + reservation_ttl) (cv_items v) (fresh_id w) (map row_id ps)"
      and S: "stays (reserve_rows (cv_items v) (row_id ` set ps) (db_products w)) (db_reservations w @ rs)
           (lock_rows (row_id c) (clock w) (db_carts w)) (clock w) w1"
      and os: "db_orders w1 = db_orders w @ [od]" and od: "ord_status od = OrderPending"
      and oks: "tbl_ok orders_tbl (db_orders w1)" and I1: "inv t (in_hand rs) w1"
    have m: "?m w1 = (Inl x, w')"
      using auth [unfolded phase_authorize_def]
    proof (cases rule: or_compensate_cases)
      case (caught x1 w2)
      have "x = x1"
        using compensated(5) [OF I ok prep caught(1) authorize_stays authorize_orders authorize_payment_inv
          auth [unfolded phase_authorize_def] caught(2)] .
      with caught x show ?thesis by simp
    qed
    have "stays (reserve_rows (cv_items v) (row_id ` set ps) (db_products w)) (db_reservations w @ rs)
           (lock_rows (row_id c) (clock w) (db_carts w)) (clock w) w'"
      using authorize_stays S m by (rule preservesD)
    moreover have "db_orders w' = db_orders w @ [od]"
      using preservesD [OF authorize_orders os m] .
    moreover have "\<forall>r \<in> set rs. res_status r = ResActive" unfolding rs by (auto elim: set_fresh_reservations)
    ultimately show ?thesis using od cv by (auto simp: stays_def)
  qed
  then show "\<exists>now. db_carts w' = lock_rows (row_id (cv_cart v)) now (db_carts w)"
    and "db_reservations w' = db_reservations w @ rs" and "\<forall>r \<in> set rs. res_status r = ResActive"
    and "db_orders w' = db_orders w @ [od]" and "ord_status od = OrderPending" by simp_all
qed

subsection \<open>A checkout that is paid\<close>

definition sold_rows :: "cart_item list \<Rightarrow> uuid set \<Rightarrow> product list \<Rightarrow> product list" where
  "sold_rows items ids ps =
     upd_where (\<lambda>p. row_id p \<in> ids)
       (\<lambda>p. p\<lparr>prod_stock_quantity := prod_stock_quantity p - qty_of items (row_id p)\<rparr>) ps"

definition converted_rows :: "uuid \<Rightarrow> time \<Rightarrow> cart list \<Rightarrow> cart list" where
  "converted_rows i now cs =
     upd_where (\<lambda>c. row_id c = i) (\<lambda>c. c\<lparr>cart_status := CartConverted, updated_at := now\<rparr>) cs"

definition linked :: "uuid \<Rightarrow> time \<Rightarrow> reservation \<Rightarrow> reservation" where
  "linked od now r = r\<lparr>res_order := Some od, updated_at := now\<rparr>"

lemma linked_fun: "linked od now = (\<lambda>r. r\<lparr>res_order := Some od, updated_at := now\<rparr>)"
  by (rule ext) (simp add: linked_def)

lemma linked_simps [simp]:
  "row_id (linked od now r) = row_id r" "tenant_id (linked od now r) = tenant_id r"
  "res_product (linked od now r) = res_product r" "res_quantity (linked od now r) = res_quantity r"
  "res_status (linked od now r) = res_status r" "res_order (linked od now r) = Some od"
  by (simp_all add: linked_def)

lemma sell_step:
  assumes "p \<notin> ids"
  shows "upd_where (\<lambda>r. row_id r = p) (sub_both (qty_of items p)) (reserve_rows items (insert p ids) ps)
    = reserve_rows items ids (sold_rows items {p} ps)"
  using assms
  by (induction ps) (auto simp: reserve_rows_def sold_rows_def sub_both_def add_reserved_def)

lemma sold_rows_insert:
  "p \<notin> ids \<Longrightarrow> sold_rows items ids (sold_rows items {p} ps) = sold_rows items (insert p ids) ps"
  by (induction ps) (auto simp: sold_rows_def)

lemma fold_sell:
  "distinct pids \<Longrightarrow>
     fold (\<lambda>r. upd_where (\<lambda>p. row_id p = res_product r) (sub_both (res_quantity r)))
       (fresh_reservations cart t now expires items n pids) (reserve_rows items (set pids) ps)
     = sold_rows items (set pids) ps"
proof (induction pids arbitrary: n ps)
  case Nil
  then show ?case by (simp add: reserve_rows_def sold_rows_def upd_where_none)
next
  case (Cons p pids)
  then show ?case by (simp add: fresh_reservations_Cons sell_step sold_rows_insert)
qed

lemma save_fields_Inr:
  assumes "save_fields t f x w = (Inr y, w')"
  shows "y = (f x)\<lparr>updated_at := clock w\<rparr>"
    and "w' = tbl_put t (upd_where (\<lambda>r. row_id r = row_id x) (\<lambda>r. (f r)\<lparr>updated_at := clock w\<rparr>) (tbl_rows t w)) w"
    and "tbl_ok t (upd_where (\<lambda>r. row_id r = row_id x) (\<lambda>r. (f r)\<lparr>updated_at := clock w\<rparr>) (tbl_rows t w))"
  using assms by (auto simp: save_fields_def bindE_def update_where_def write_rows_def split: if_splits)

lemma refresh_Inr:
  assumes "refresh_from_db tb x w = (Inr y, w')"
  shows "w' = w" and "y \<in> set (tbl_rows tb w)" and "row_id y = row_id x"
proof -
  have g: "get_row_all tb (\<lambda>r. row_id r = row_id x) (DoesNotExist (tbl_name tb)) w = (Inr y, w')"
    using assms by (simp add: refresh_from_db_def follow_def)
  from get_row_all_Inr [OF g] show "w' = w" and "y \<in> set (tbl_rows tb w)" and "row_id y = row_id x"
    by simp_all
qed

lemma convert_cart_Inr:
  assumes "convert_cart v w = (Inr u, w')" and "db_carts w = lock_rows i locked cs" and "row_id (cv_cart v) = i"
  shows "w' = w\<lparr>db_carts := converted_rows i (clock w) cs\<rparr>"
proof -
  obtain c w1 c2 where r: "refresh_from_db carts_tbl (cv_cart v) w = (Inr c, w1)"
    and s: "save_fields carts_tbl (\<lambda>r. r\<lparr>cart_status := CartConverted\<rparr>) c w1 = (Inr c2, w')"
    using assms(1) unfolding convert_cart_def by (elim bindE_Inr_D) simp
  have c: "w1 = w" "row_id c = i" using refresh_Inr [OF r] assms(3) by simp_all
  have "upd_where (\<lambda>r. row_id r = i) (\<lambda>r. r\<lparr>cart_status := CartConverted, updated_at := clock w\<rparr>)
      (lock_rows i locked cs) = converted_rows i (clock w) cs"
    by (induction cs) (simp_all add: lock_rows_def converted_rows_def)
  with save_fields_Inr(2) [OF s] c assms(2) show ?thesis by simp
qed

lemma link_list_Inr:
  assumes "for_each (link_reservation od) rs w = (Inr u, w')"
  shows "w' = w\<lparr>db_reservations := upd_where (\<lambda>x. row_id x \<in> row_id ` set rs) (linked od (clock w)) (db_reservations w)\<rparr>"
  using assms
proof (induction rs arbitrary: w)
  case Nil
  then show ?case by (simp add: upd_where_none)
next
  case (Cons r rs)
  obtain w1 x where l: "link_reservation od r w = (Inr x, w1)" and rest: "for_each (link_reservation od) rs w1 = (Inr u, w')"
    using Cons.prems unfolding for_each.simps seqE_def by (elim bindE_Inr_D)
  obtain y where s: "save_fields reservations_tbl (\<lambda>x. x\<lparr>res_order := Some od\<rparr>) r w = (Inr y, w1)"
    using l unfolding link_reservation_def by (elim bindE_Inr_D) simp
  have w1: "w1 = w\<lparr>db_reservations := upd_where (\<lambda>x. row_id x = row_id r) (linked od (clock w)) (db_reservations w)\<rparr>"
    using save_fields_Inr(2) [OF s] by (simp add: linked_fun)
  have "upd_where (\<lambda>x. row_id x \<in> row_id ` set rs) (linked od now) (upd_where (\<lambda>x. row_id x = row_id r) (linked od now) xs)
      = upd_where (\<lambda>x. row_id x \<in> row_id ` set (r # rs)) (linked od now) xs" for now xs
    by (induction xs) (auto simp: linked_def)
  with Cons.IH [OF rest] w1 show ?case by simp
qed

lemma commit_linked:
  assumes I: "inv t ids w" and ps: "db_products w = reserve_rows items (set pids) ps"
    and rs: "rs = fresh_reservations cart t now expires items n pids"
    and res: "db_reservations w = rs0 @ map (linked od ln) rs" and d: "distinct pids"
    and run: "commit_reservations rs w = (Inr u, w')"
  shows "tables w' = tables (w\<lparr>db_products := sold_rows items (set pids) ps,
      db_reservations := rs0 @ map (\<lambda>r. set_res_status ResCommitted (clock w) (linked od ln r)) rs\<rparr>)"
    and "clock w' = clock w" and "tenant_ctx w' = tenant_ctx w"
proof -
  let ?rows = "map (linked od ln) rs"
  let ?w = "fold (settled sub_both ResCommitted) ?rows (enter_atomic w)"
  have ids: "map row_id ?rows = map row_id rs" by (simp add: comp_def)
  have d_rs: "distinct (map row_id ?rows)" unfolding ids unfolding rs by (rule distinct_fresh)
  have rows: "\<forall>x \<in> set ?rows. x \<in> set (db_reservations w) \<and> tenant_id x = t \<and> res_status x = ResActive"
    using res unfolding rs by (auto elim: set_fresh_reservations)
  have "commit_reservations rs w = (Inr (), commit w ?w)"
    unfolding commit_reservations_def
    by (rule settle_atomic [OF _ I _ d_rs rows]) (simp_all add: same_rows_def comp_def settlements)
  then have w': "w' = commit w ?w" using run by simp
  have "tbl_ok reservations_tbl (db_reservations w)" using I by (simp add: inv_def ledger_def)
  then have "row_id ` set rs0 \<inter> row_id ` set rs = {}" using res ids by (auto simp: reservations_ok)
  then have "upd_where (\<lambda>x. row_id x \<in> row_id ` set ?rows) (set_res_status ResCommitted (clock w)) rs0 = rs0"
    by (intro upd_where_none) (auto simp: image_image)
  moreover have "upd_where (\<lambda>x. row_id x \<in> row_id ` set ?rows) (set_res_status ResCommitted (clock w)) ?rows
      = map (set_res_status ResCommitted (clock w)) ?rows"
    by (rule upd_where_all) simp
  moreover have "fold (\<lambda>r. upd_where (\<lambda>p. row_id p = res_product r) (sub_both (res_quantity r))) ?rows
      (db_products w) = sold_rows items (set pids) ps"
    using fold_sell [OF d] unfolding ps rs by (simp add: fold_map comp_def)
  ultimately show "tables w' = tables (w\<lparr>db_products := sold_rows items (set pids) ps,
      db_reservations := rs0 @ map (\<lambda>r. set_res_status ResCommitted (clock w) (linked od ln r)) rs\<rparr>)"
    using res by (simp add: w' fold_settled enter_atomic_def commit_def tables_def comp_def)
  show "clock w' = clock w" "tenant_ctx w' = tenant_ctx w"
    by (simp_all add: w' commit_def enter_atomic_def)
qed

text \<open>
  \<open>fulfilled w v rs od st w'\<close>: the stock of \<open>w\<close> is decreased by what the cart holds, nothing of it stays
  reserved, the reservations of this checkout are committed to the order, the cart is converted, and the
  order \<open>od\<close> has been added as it is given.
\<close>

definition fulfilled :: "world \<Rightarrow> cart_view \<Rightarrow> order \<Rightarrow> world \<Rightarrow> bool" where
  "fulfilled w v od w' \<longleftrightarrow>
     (\<exists>ids rs now.
        ids = {i. \<exists>p \<in> set (db_products w). row_id p = i \<and> tenant_ctx w = Some (tenant_id p) \<and>
                    i \<in> item_product ` set (cv_items v)} \<and>
        db_products w' = sold_rows (cv_items v) ids (db_products w) \<and>
        db_reservations w' = db_reservations w @ rs \<and>
        (\<forall>r \<in> set rs. res_status r = ResCommitted \<and> res_order r = Some (row_id od)) \<and>
        res_product ` set rs = ids \<and>
        db_carts w' = converted_rows (row_id (cv_cart v)) now (db_carts w) \<and>
        db_orders w' = db_orders w @ [od] \<and> ord_cart od = Some (row_id (cv_cart v)))"

lemma upd_last:
  assumes "distinct (map row_id (xs @ [x]))"
  shows "upd_where (\<lambda>r. row_id r = row_id x) f (xs @ [x]) = xs @ [f x]"
proof -
  have "upd_where (\<lambda>r. row_id r = row_id x) f xs = xs"
    using assms by (intro upd_where_none) (auto simp: rev_image_eqI)
  then show ?thesis by simp
qed

lemma refresh_last:
  assumes "refresh_from_db orders_tbl od w = (Inr y, w')" and "db_orders w = os @ [x]" and "row_id od = row_id x"
    and "tbl_ok orders_tbl (db_orders w)"
  shows "y = x" and "w' = w"
proof -
  have "x \<in> set (db_orders w)" "y \<in> set (db_orders w)" "row_id y = row_id x"
    using refresh_Inr [OF assms(1)] assms(2,3) by simp_all
  with assms(4) show "y = x" by (auto simp: orders_ok distinct_map inj_on_def)
  show "w' = w" by (rule refresh_Inr(1) [OF assms(1)])
qed

lemma save_last:
  assumes "save_fields orders_tbl f od w = (Inr y, w')" and "db_orders w = os @ [od]"
    and "tbl_ok orders_tbl (db_orders w)"
  shows "y = (f od)\<lparr>updated_at := clock w\<rparr>" and "w' = w\<lparr>db_orders := os @ [y]\<rparr>" and "tbl_ok orders_tbl (os @ [y])"
proof -
  show y: "y = (f od)\<lparr>updated_at := clock w\<rparr>" by (rule save_fields_Inr(1) [OF assms(1)])
  have "distinct (map row_id (os @ [od]))" using assms(2,3) by (simp add: orders_ok)
  note eq = upd_last [OF this, of "\<lambda>r. (f r)\<lparr>updated_at := clock w\<rparr>"]
  show "w' = w\<lparr>db_orders := os @ [y]\<rparr>" and "tbl_ok orders_tbl (os @ [y])"
    using save_fields_Inr(2,3) [OF assms(1)] assms(2) y eq by simp_all
qed

lemma stays_db: "stays P R C n w \<Longrightarrow> db_products w = P \<and> db_reservations w = R \<and> db_carts w = C \<and> clock w = n"
  by (simp add: stays_def)

lemma link_fresh:
  assumes "inv t ids w" and "db_reservations w = rs0 @ rs"
  shows "upd_where (\<lambda>x. row_id x \<in> row_id ` set rs) (linked od now) (rs0 @ rs) = rs0 @ map (linked od now) rs"
proof -
  have "distinct (map row_id (rs0 @ rs))" using assms by (simp add: inv_def ledger_def reservations_ok)
  then have "row_id ` set rs0 \<inter> row_id ` set rs = {}" by auto
  then have "upd_where (\<lambda>x. row_id x \<in> row_id ` set rs) (linked od now) rs0 = rs0"
    by (intro upd_where_none) auto
  moreover have "upd_where (\<lambda>x. row_id x \<in> row_id ` set rs) (linked od now) rs = map (linked od now) rs"
    by (rule upd_where_all) simp
  ultimately show ?thesis by simp
qed

lemma phase_convert_Inr:
  assumes run: "phase_convert v rs od w = (Inr od', w')" and I: "inv t (in_hand rs) w"
    and S: "stays P (rs0 @ rs) (lock_rows (row_id (cv_cart v)) locked cs) n w"
    and os: "db_orders w = os @ [od]" and ok: "tbl_ok orders_tbl (db_orders w)"
  shows "od' = od\<lparr>ord_cart := Some (row_id (cv_cart v)), updated_at := n\<rparr>"
    and "stays P (rs0 @ map (linked (row_id od) n) rs) (converted_rows (row_id (cv_cart v)) n cs) n w'"
    and "db_orders w' = os @ [od']" and "tbl_ok orders_tbl (db_orders w')" and "inv t (in_hand rs) w'"
proof -
  let ?i = "row_id (cv_cart v)" and ?w0 = "enter_atomic w"
  obtain u w1 w2 u2 w3 where c: "convert_cart v ?w0 = (Inr u, w1)"
    and s: "save_fields orders_tbl (\<lambda>r. r\<lparr>ord_cart := Some ?i\<rparr>) od w1 = (Inr od', w2)"
    and l: "for_each (link_reservation (row_id od')) rs w2 = (Inr u2, w3)" and w': "w' = commit w w3"
    using run unfolding phase_convert_def seqE_def
    by (elim atomic_Inr_D bindE_Inr_D) auto
  have w0: "db_carts ?w0 = lock_rows ?i locked cs" "clock ?w0 = n" "db_orders ?w0 = os @ [od]"
    using S os by (simp_all add: stays_def enter_atomic_def)
  have w1: "w1 = ?w0\<lparr>db_carts := converted_rows ?i n cs\<rparr>"
    using convert_cart_Inr [OF c w0(1) refl] w0(2) by simp
  have os1: "db_orders w1 = os @ [od]" "tbl_ok orders_tbl (db_orders w1)" "clock w1 = n"
    using w1 w0 ok os by simp_all
  note od = save_last [OF s os1(1,2), unfolded os1(3)]
  show od': "od' = od\<lparr>ord_cart := Some ?i, updated_at := n\<rparr>" using od(1) by simp
  then have id: "row_id od' = row_id od" by simp
  have w3: "w3 = w2\<lparr>db_reservations := upd_where (\<lambda>x. row_id x \<in> row_id ` set rs) (linked (row_id od) n) (rs0 @ rs)\<rparr>"
    using link_list_Inr [OF l] od(2) os1(3) w1 S id by (simp add: stays_def enter_atomic_def)
  have "db_reservations w = rs0 @ rs" using S by (simp add: stays_def)
  note fresh = link_fresh [OF I this, of "row_id od" n]
  show "stays P (rs0 @ map (linked (row_id od) n) rs) (converted_rows ?i n cs) n w'"
    using S fresh by (simp add: stays_def w' w3 od(2) w1 commit_def enter_atomic_def)
  show "db_orders w' = os @ [od']" and "tbl_ok orders_tbl (db_orders w')"
    using od(2,3) by (simp_all add: w' w3 commit_def)
  show "inv t (in_hand rs) w'" using phase_convert_inv I run by (rule preservesD)
qed

lemma commit_part_Inr:
  assumes run: "commit_reservations rs w = (Inr u, w')" and I: "inv t (in_hand rs) w"
    and S: "stays (reserve_rows items (set pids) ps) (rs0 @ map (linked i n) rs) C n w"
    and rs: "rs = fresh_reservations cart t now expires items k pids" and d: "distinct pids"
  shows "stays (sold_rows items (set pids) ps) (rs0 @ map (\<lambda>r. set_res_status ResCommitted n (linked i n r)) rs) C n w'"
    and "db_orders w' = db_orders w"
proof -
  have db: "db_products w = reserve_rows items (set pids) ps" "db_reservations w = rs0 @ map (linked i n) rs"
    and ck: "clock w = n" and C: "db_carts w = C"
    using S by (simp_all add: stays_def)
  note c = commit_linked [OF I db(1) rs db(2) d run]
  show "stays (sold_rows items (set pids) ps) (rs0 @ map (\<lambda>r. set_res_status ResCommitted n (linked i n r)) rs) C n w'"
    and "db_orders w' = db_orders w"
    using tables_db [OF c(1)] c(2) ck C by (simp_all add: stays_def)
qed

lemma mark_paid_Inr:
  assumes run: "mark_paid_and_commit od rs w = (Inr od', w')" and I: "inv t (in_hand rs) w"
    and S: "stays (reserve_rows items (set pids) ps) (rs0 @ map (linked i n) rs) C n w"
    and rs: "rs = fresh_reservations cart t now expires items k pids" and d: "distinct pids"
    and os: "db_orders w = os @ [od]" and ok: "tbl_ok orders_tbl (db_orders w)"
  shows "od' = od\<lparr>ord_status := OrderPaid, updated_at := n\<rparr>" and "db_orders w' = os @ [od']"
    and "stays (sold_rows items (set pids) ps) (rs0 @ map (\<lambda>r. set_res_status ResCommitted n (linked i n r)) rs) C n w'"
proof -
  let ?w0 = "enter_atomic w"
  obtain od1 w1 w2 u w3 where r: "refresh_from_db orders_tbl od ?w0 = (Inr od1, w1)"
    and s: "save_fields orders_tbl (\<lambda>r. r\<lparr>ord_status := OrderPaid\<rparr>) od1 w1 = (Inr od', w2)"
    and c: "commit_reservations rs w2 = (Inr u, w3)" and w': "w' = commit w w3"
    using run unfolding mark_paid_and_commit_def seqE_def save_order_status_def
    by (elim atomic_Inr_D bindE_Inr_D) auto
  have os0: "db_orders ?w0 = os @ [od]" "tbl_ok orders_tbl (db_orders ?w0)" "clock ?w0 = n"
    using os ok S by (simp_all add: enter_atomic_def stays_def)
  have r1: "od1 = od" "w1 = ?w0" using refresh_last [OF r os0(1) refl os0(2)] by simp_all
  note od = save_last [OF s [unfolded r1] os0(1,2), unfolded os0(3)]
  show "od' = od\<lparr>ord_status := OrderPaid, updated_at := n\<rparr>" using od(1) by simp
  have I2: "inv t (in_hand rs) w2" using I od(3) by (simp add: od(2))
  have S2: "stays (reserve_rows items (set pids) ps) (rs0 @ map (linked i n) rs) C n w2"
    using S by (simp add: od(2)) (simp add: stays_def enter_atomic_def)
  note f = commit_part_Inr [OF c I2 S2 rs d]
  show "db_orders w' = os @ [od']" using f(2) od(2) by (simp add: w' commit_def)
  show "stays (sold_rows items (set pids) ps) (rs0 @ map (\<lambda>r. set_res_status ResCommitted n (linked i n r)) rs) C n w'"
    using f(1) by (simp add: w' commit_def stays_def)
qed

lemma capture_stays: "preserves (stays P R C n) (capture_payment e i)"
  unfolding capture_payment_def get_payment_def gateway_of_payment_def gateway_call_def Let_def
  by (intro op_intros stays_atomic) simp_all

lemma capture_orders: "preserves (\<lambda>w. db_orders w = os) (capture_payment e i)"
  unfolding capture_payment_def get_payment_def gateway_of_payment_def gateway_call_def Let_def
  by (intro op_intros orders_atomic) simp_all

lemma fulfilledI:
  assumes S: "stays (sold_rows (cv_items v) (set (map row_id ps)) (db_products w))
      (db_reservations w @ map (\<lambda>r. set_res_status ResCommitted n (linked (row_id od) n r)) rs)
      (converted_rows (row_id (cv_cart v)) n (db_carts w)) n w'"
    and rs: "rs = fresh_reservations cart t now expires (cv_items v) k (map row_id ps)"
    and ps: "set ps = {p \<in> set (db_products w). tenant_id p = t \<and> row_id p \<in> item_product ` set (cv_items v)}"
    and ctx: "tenant_ctx w = Some t"
    and os: "db_orders w' = db_orders w @ [od]" "ord_cart od = Some (row_id (cv_cart v))"
  shows "fulfilled w v od w'"
proof -
  have ids: "set (map row_id ps) = {i. \<exists>p \<in> set (db_products w). row_id p = i \<and> tenant_ctx w = Some (tenant_id p) \<and>
      i \<in> item_product ` set (cv_items v)}"
    using ps ctx by auto
  have "res_product ` set rs = set (map row_id ps)"
  proof -
    have "map res_product rs = map row_id ps"
      unfolding rs fresh_reservations_def by (simp add: comp_def case_prod_unfold)
    then show ?thesis by (metis list.set_map)
  qed
  then have prods: "res_product ` set (map (\<lambda>r. set_res_status ResCommitted n (linked (row_id od) n r)) rs) = set (map row_id ps)"
    by (simp add: image_image)
  show ?thesis unfolding fulfilled_def
  proof (rule exI [of _ "set (map row_id ps)"],
      rule exI [of _ "map (\<lambda>r. set_res_status ResCommitted n (linked (row_id od) n r)) rs"], rule exI [of _ n], intro conjI)
    show "set (map row_id ps) = {i. \<exists>p \<in> set (db_products w). row_id p = i \<and> tenant_ctx w = Some (tenant_id p) \<and>
      i \<in> item_product ` set (cv_items v)}" by (rule ids)
  qed (use prods S os in \<open>simp_all add: stays_def\<close>)
qed

lemma captured_fulfils:
  assumes I: "inv t {} w" and ok: "tbl_ok carts_tbl (db_carts w)"
    and prep: "prepare_order customer key expected w = (Inr (v, rs, od), w1)"
    and card: "card_path e v rs od pm cust key' extra w1 = (Inr r, w')" and c: "cr_payment_status r = ''captured''"
  shows "fulfilled w v (cr_order r) w'" and "ord_status (cr_order r) = OrderPaid"
    and "ord_grand_total (cr_order r) = tot_grand_total (cv_totals v)"
proof -
  obtain p w2 od2 w3 where auth: "phase_authorize e v rs od pm cust key' extra w1 = (Inr p, w2)"
    and conv: "phase_convert v rs od w2 = (Inr od2, w3)" and fin: "phase_finish e od2 rs p w3 = (Inr r, w')"
    using card unfolding card_path_def by (elim bindE_Inr_D)
  have m: "authorize_payment e (row_id od) (row_id pm) (ord_grand_total od) (ord_currency od) (key' @ '':auth'')
          (enriched_metadata od cust extra) w1 = (Inr p, w2)"
    using auth unfolding phase_authorize_def by (rule or_compensate_Inr)
  obtain q w4 od3 w5 where cap: "capture_payment e (row_id p) w3 = (Inr q, w4)"
    and mark: "mark_paid_and_commit od2 rs w4 = (Inr od3, w5)"
    and r: "r = pending_result ''captured'' JNull od3" and w': "\<exists>u. enqueue_post_payment_tasks od3 w5 = (Inr u, w')"
    using fin c
    by (auto simp: phase_finish_def phase_capture_def pending_result_def bindE_def seqE_def try_except_def
        split: if_splits prod.splits sum.splits)
  from I ok prep have "fulfilled w v od3 w' \<and> ord_status od3 = OrderPaid \<and> ord_grand_total od3 = tot_grand_total (cv_totals v)"
  proof (rule prepare_order_Inr)
    fix c' ps
    assume ps: "set ps = {p \<in> set (db_products w). tenant_id p = t \<and> row_id p \<in> item_product ` set (cv_items v)}"
      "distinct (map row_id ps)"
      and cv: "cv_cart v = c'\<lparr>cart_status := CartCheckingOut, updated_at := clock w\<rparr>"
      and rs: "rs = fresh_reservations (row_id c') t (clock w) (clock w + reservation_ttl) (cv_items v) (fresh_id w) (map row_id ps)"
      and S: "stays (reserve_rows (cv_items v) (row_id ` set ps) (db_products w)) (db_reservations w @ rs)
           (lock_rows (row_id c') (clock w) (db_carts w)) (clock w) w1"
      and os: "db_orders w1 = db_orders w @ [od]" and g: "ord_grand_total od = tot_grand_total (cv_totals v)"
      and oks: "tbl_ok orders_tbl (db_orders w1)" and I1: "inv t (in_hand rs) w1"
    have i: "row_id c' = row_id (cv_cart v)" by (simp add: cv)
    have S2: "stays (reserve_rows (cv_items v) (set (map row_id ps)) (db_products w)) (db_reservations w @ rs)
           (lock_rows (row_id (cv_cart v)) (clock w) (db_carts w)) (clock w) w2"
      using preservesD [OF authorize_stays S m] i by simp
    have os2: "db_orders w2 = db_orders w @ [od]" using preservesD [OF authorize_orders os m] .
    have ok2: "tbl_ok orders_tbl (db_orders w2)" using oks os os2 by simp
    have I2: "inv t (in_hand rs) w2" using authorize_payment_inv I1 m by (rule preservesD)
    note cv3 = phase_convert_Inr [OF conv I2 S2 os2 ok2]
    have S4: "stays (reserve_rows (cv_items v) (set (map row_id ps)) (db_products w))
        (db_reservations w @ map (linked (row_id od) (clock w)) rs)
        (converted_rows (row_id (cv_cart v)) (clock w) (db_carts w)) (clock w) w4"
      using capture_stays cv3(2) cap by (rule preservesD)
    have os4: "db_orders w4 = db_orders w @ [od2]" using preservesD [OF capture_orders cv3(3) cap] .
    have ok4: "tbl_ok orders_tbl (db_orders w4)" using cv3(3,4) os4 by simp
    have I4: "inv t (in_hand rs) w4" using capture_payment_inv cv3(5) cap by (rule preservesD)
    note mp = mark_paid_Inr [OF mark I4 S4 rs ps(2) os4 ok4]
    have w5: "stays P R C n w' = stays P R C n w5" "db_orders w' = db_orders w5" for P R C n
      using w' by (auto simp: enqueue_post_payment_tasks_def delay_def)
    have "row_id od3 = row_id od" using mp(1) cv3(1) by simp
    with mp(3) have S5: "stays (sold_rows (cv_items v) (set (map row_id ps)) (db_products w))
      (db_reservations w @ map (\<lambda>r. set_res_status ResCommitted (clock w) (linked (row_id od3) (clock w) r)) rs)
      (converted_rows (row_id (cv_cart v)) (clock w) (db_carts w)) (clock w) w'"
      by (simp add: w5)
    have "fulfilled w v od3 w'"
      using fulfilledI [OF S5 rs ps(1) inv_ctx [OF I]] mp(1,2) cv3(1) w5(2) by simp
    then show ?thesis using mp(1) cv3(1) g by simp
  qed
  then show "fulfilled w v (cr_order r) w'" and "ord_status (cr_order r) = OrderPaid"
    and "ord_grand_total (cr_order r) = tot_grand_total (cv_totals v)"
    by (simp_all add: r pending_result_def)
qed

text \<open>Purchase orders: the goods are sold before the invoice is paid; the order stays pending.\<close>

definition po_order :: "cart_view \<Rightarrow> payment_method \<Rightarrow> time \<Rightarrow> order \<Rightarrow> order" where
  "po_order v pm now od =
     od\<lparr>ord_payment_terms := or_default (pm_payment_terms pm) ''net_30'',
        ord_payment_due_date := Some (day_of (now + due_days (or_default (pm_payment_terms pm) ''net_30'') * day_us)),
        ord_cart := Some (row_id (cv_cart v)), updated_at := now\<rparr>"

lemma invoice_payment_stays:
  "preserves (stays P R C n) (create_invoice_pending_payment od amount currency key)"
  "preserves (\<lambda>w. db_orders w = os) (create_invoice_pending_payment od amount currency key)"
  unfolding create_invoice_pending_payment_def create_payment_def
  by (intro op_intros stays_atomic orders_atomic preserves_create_with_tenant; simp)+

lemma invoice_payment_inv: "preserves (inv t ids) (create_invoice_pending_payment od amount currency key)"
  unfolding create_invoice_pending_payment_def by (rule create_payment_inv)

lemma po_convert_Inr:
  assumes run: "atomic
       (bindE (refresh_from_db orders_tbl od) (\<lambda>od.
        bindE current_time (\<lambda>now.
        bindE (save_fields orders_tbl (f now) od) (\<lambda>od.
        seqE (convert_cart v)
        (seqE (for_each (link_reservation (row_id od)) rs)
        (seqE (commit_reservations rs)
        (ret od))))))) w = (Inr od', w')"
    and I: "inv t (in_hand rs) w" and f: "\<And>x now. row_id (f now x) = row_id x"
    and S: "stays (reserve_rows items (set pids) ps) (rs0 @ rs) (lock_rows (row_id (cv_cart v)) locked cs) n w"
    and rs: "rs = fresh_reservations cart t now expires items k pids" and d: "distinct pids"
    and os: "db_orders w = os @ [od]" and ok: "tbl_ok orders_tbl (db_orders w)"
  shows "od' = (f n od)\<lparr>updated_at := n\<rparr>" and "db_orders w' = os @ [od']"
    and "stays (sold_rows items (set pids) ps) (rs0 @ map (\<lambda>r. set_res_status ResCommitted n (linked (row_id od) n r)) rs)
      (converted_rows (row_id (cv_cart v)) n cs) n w'"
proof -
  let ?w0 = "enter_atomic w" and ?i = "row_id (cv_cart v)"
  obtain od1 w1 w2 u3 w3 u4 w4 u5 w5 where r: "refresh_from_db orders_tbl od ?w0 = (Inr od1, w1)"
    and s: "save_fields orders_tbl (f (clock w1)) od1 w1 = (Inr od', w2)"
    and c: "convert_cart v w2 = (Inr u3, w3)"
    and l: "for_each (link_reservation (row_id od')) rs w3 = (Inr u4, w4)"
    and cm: "commit_reservations rs w4 = (Inr u5, w5)" and w': "w' = commit w w5"
    using run unfolding seqE_def
    by (elim atomic_Inr_D bindE_Inr_D) (auto simp: current_time_def)
  have os0: "db_orders ?w0 = os @ [od]" "tbl_ok orders_tbl (db_orders ?w0)" "clock ?w0 = n"
    using os ok S by (simp_all add: enter_atomic_def stays_def)
  have r1: "od1 = od" "w1 = ?w0" using refresh_last [OF r os0(1) refl os0(2)] by simp_all
  note od = save_last [OF s [unfolded r1] os0(1,2), unfolded os0(3)]
  show "od' = (f n od)\<lparr>updated_at := n\<rparr>" by (rule od(1))
  then have id: "row_id od' = row_id od" using f by simp
  have c2: "db_carts w2 = lock_rows ?i locked cs" "clock w2 = n"
    using S by (simp_all add: od(2) stays_def enter_atomic_def)
  note w3 = convert_cart_Inr [OF c c2(1) refl, unfolded c2(2)]
  have I2: "inv t (in_hand rs) w2" using I od(3) by (simp add: od(2))
  have I3: "inv t (in_hand rs) w3" using convert_cart_inv I2 c by (rule preservesD)
  have res3: "db_reservations w3 = rs0 @ rs" and ck3: "clock w3 = n"
    using S by (simp_all add: w3 od(2) stays_def enter_atomic_def)
  have w4: "w4 = w3\<lparr>db_reservations := rs0 @ map (linked (row_id od) n) rs\<rparr>"
    using link_list_Inr [OF l] link_fresh [OF I3 res3, of "row_id od" n] by (simp only: id ck3 res3)
  have S4: "stays (reserve_rows items (set pids) ps) (rs0 @ map (linked (row_id od) n) rs) (converted_rows ?i n cs) n w4"
    using S by (simp add: w4 w3 od(2) stays_def enter_atomic_def)
  have "preserves (inv t (in_hand rs)) (for_each (link_reservation (row_id od')) rs)"
    by (intro preserves_for_each link_reservation_inv)
  then have I4: "inv t (in_hand rs) w4" using I3 l by (rule preservesD)
  note cp = commit_part_Inr [OF cm I4 S4 rs d]
  show "db_orders w' = os @ [od']" using cp(2) by (simp add: w' commit_def w4 w3 od(2))
  show "stays (sold_rows items (set pids) ps) (rs0 @ map (\<lambda>r. set_res_status ResCommitted n (linked (row_id od) n r)) rs)
      (converted_rows ?i n cs) n w'"
    using cp(1) by (simp add: w' commit_def stays_def)
qed

lemma invoiced_fulfils:
  assumes I: "inv t {} w" and ok: "tbl_ok carts_tbl (db_carts w)"
    and prep: "prepare_order customer key expected w = (Inr (v, rs, od), w1)"
    and po: "purchase_order_path v rs od pm key' w1 = (Inr r, w')"
  shows "fulfilled w v (cr_order r) w'" and "cr_payment_status r = ''invoice_pending''"
    and "cr_order r = po_order v pm (clock w) od" and "ord_status (cr_order r) = OrderPending"
proof -
  let ?terms = "or_default (pm_payment_terms pm) ''net_30''"
  let ?f = "\<lambda>now r. r\<lparr>ord_payment_terms := ?terms,
      ord_payment_due_date := Some (day_of (now + due_days ?terms * day_us)), ord_cart := Some (row_id (cv_cart v))\<rparr>"
  let ?inv = "create_invoice_pending_payment (row_id od) (ord_grand_total od) (ord_currency od) (key' @ '':po'')"
  obtain q w2 od3 w3 u where m0: "or_compensate ?inv any_exn (compensate_order v rs od) w1 = (Inr q, w2)"
    and a: "atomic
       (bindE (refresh_from_db orders_tbl od) (\<lambda>od.
        bindE current_time (\<lambda>now.
        bindE (save_fields orders_tbl (?f now) od) (\<lambda>od.
        seqE (convert_cart v)
        (seqE (for_each (link_reservation (row_id od)) rs)
        (seqE (commit_reservations rs)
        (ret od))))))) w2 = (Inr od3, w3)"
    and q: "enqueue_post_payment_tasks od3 w3 = (Inr u, w')"
    and r: "r = \<lparr>cr_order = od3, cr_payment_status = ''invoice_pending'', cr_next_action = JNull\<rparr>"
    using po unfolding purchase_order_path_def Let_def
    by (elim bindE_Inr_D) (auto simp: seqE_def elim!: bindE_Inr_D)
  have m: "?inv w1 = (Inr q, w2)" using m0 by (rule or_compensate_Inr)
  from I ok prep have "fulfilled w v od3 w' \<and> od3 = po_order v pm (clock w) od \<and> ord_status od3 = OrderPending"
  proof (rule prepare_order_Inr)
    fix c' ps
    assume ps: "set ps = {p \<in> set (db_products w). tenant_id p = t \<and> row_id p \<in> item_product ` set (cv_items v)}"
      "distinct (map row_id ps)"
      and cv: "cv_cart v = c'\<lparr>cart_status := CartCheckingOut, updated_at := clock w\<rparr>"
      and rs: "rs = fresh_reservations (row_id c') t (clock w) (clock w + reservation_ttl) (cv_items v) (fresh_id w) (map row_id ps)"
      and S: "stays (reserve_rows (cv_items v) (row_id ` set ps) (db_products w)) (db_reservations w @ rs)
           (lock_rows (row_id c') (clock w) (db_carts w)) (clock w) w1"
      and os: "db_orders w1 = db_orders w @ [od]" and st: "ord_status od = OrderPending"
      and oks: "tbl_ok orders_tbl (db_orders w1)" and I1: "inv t (in_hand rs) w1"
    have i: "row_id c' = row_id (cv_cart v)" by (simp add: cv)
    have S2: "stays (reserve_rows (cv_items v) (set (map row_id ps)) (db_products w)) (db_reservations w @ rs)
           (lock_rows (row_id (cv_cart v)) (clock w) (db_carts w)) (clock w) w2"
      using preservesD [OF invoice_payment_stays(1) S m] i by simp
    have os2: "db_orders w2 = db_orders w @ [od]" using preservesD [OF invoice_payment_stays(2) os m] .
    have ok2: "tbl_ok orders_tbl (db_orders w2)" using oks os os2 by simp
    have I2: "inv t (in_hand rs) w2" using invoice_payment_inv I1 m by (rule preservesD)
    have "row_id (?f now x) = row_id x" for x :: order and now by simp
    note pc = po_convert_Inr [OF a I2 this S2 rs ps(2) os2 ok2]
    have od3: "od3 = po_order v pm (clock w) od" using pc(1) by (simp add: po_order_def)
    then have id: "row_id od3 = row_id od" "ord_cart od3 = Some (row_id (cv_cart v))" "ord_status od3 = OrderPending"
      using st by (simp_all add: po_order_def)
    have w3: "stays P R C n w' = stays P R C n w3" "db_orders w' = db_orders w3" for P R C n
      using q by (auto simp: enqueue_post_payment_tasks_def delay_def)
    have S3: "stays (sold_rows (cv_items v) (set (map row_id ps)) (db_products w))
      (db_reservations w @ map (\<lambda>r. set_res_status ResCommitted (clock w) (linked (row_id od3) (clock w) r)) rs)
      (converted_rows (row_id (cv_cart v)) (clock w) (db_carts w)) (clock w) w'"
      using pc(3) by (simp only: w3 id)
    have "fulfilled w v od3 w'"
      using fulfilledI [OF S3 rs ps(1) inv_ctx [OF I]] pc(2) id w3(2) by simp
    with od3 id show ?thesis by simp
  qed
  moreover have "cr_order r = od3" and "cr_payment_status r = ''invoice_pending''" by (simp_all add: r)
  ultimately show "fulfilled w v (cr_order r) w'" and "cr_payment_status r = ''invoice_pending''"
    and "cr_order r = po_order v pm (clock w) od" and "ord_status (cr_order r) = OrderPending"
    by auto
qed

subsection \<open>The whole checkout, and replaying its key\<close>

definition active_view :: "uuid \<Rightarrow> world \<Rightarrow> cart_view \<Rightarrow> bool" where
  "active_view customer w v \<longleftrightarrow>
     (\<exists>c \<in> set (db_carts w). active_cart_of customer c \<and> row_id (cv_cart v) = row_id c \<and>
        cv_items v = items_of w (row_id c))"

lemma prepared_view:
  assumes I: "inv t {} w" and ok: "tbl_ok carts_tbl (db_carts w)"
    and prep: "prepare_order customer key expected w = (Inr (v, rs, od), w1)"
  shows "active_view customer w v" and "ord_idempotency_key od = key"
proof -
  show "active_view customer w v"
    using I ok prep by (rule prepare_order_Inr) (auto simp: active_view_def)
  show "ord_idempotency_key od = key" using I ok prep by (rule prepare_order_Inr)
qed

lemma run_saga_fulfils:
  assumes I: "inv t {} w" and ok: "tbl_ok carts_tbl (db_carts w)"
    and run: "run_saga e customer key expected extra w = (Inr r, w')"
    and st: "cr_payment_status r \<in> {''captured'', ''invoice_pending''}"
  shows "\<exists>v. active_view customer w v \<and> fulfilled w v (cr_order r) w' \<and>
    ord_status (cr_order r) = (if cr_payment_status r = ''captured'' then OrderPaid else OrderPending)"
proof -
  obtain v rs od w1 where prep: "prepare_order customer key expected w = (Inr (v, rs, od), w1)"
    and pay: "pay_order_step e v rs od key extra w1 = (Inr r, w')"
    using run unfolding run_saga_def by (elim bindE_Inr_D) auto
  obtain pm cust where step: "(if pm_method_type pm = PURCHASE_ORDER then purchase_order_path v rs od pm key
      else card_path e v rs od pm cust key extra) w1 = (Inr r, w')"
    using pay by (auto simp: pay_order_step_def split: option.splits)
  note view = prepared_view(1) [OF I ok prep]
  show ?thesis
  proof (cases "pm_method_type pm = PURCHASE_ORDER")
    case True
    with step have "purchase_order_path v rs od pm key w1 = (Inr r, w')" by simp
    from invoiced_fulfils [OF I ok prep this] view show ?thesis by auto
  next
    case False
    with step have card: "card_path e v rs od pm cust key extra w1 = (Inr r, w')" by simp
    then have "cr_payment_status r \<noteq> ''invoice_pending''"
      by (auto simp: card_path_def phase_finish_def phase_capture_def pending_result_def bindE_def seqE_def
          try_except_def split: if_splits prod.splits sum.splits)
    with st have "cr_payment_status r = ''captured''" by blast
    from captured_fulfils [OF I ok prep card this] view this show ?thesis by auto
  qed
qed

lemma replay:
  assumes ok: "tbl_ok orders_tbl (db_orders w)" and od: "od \<in> set (db_orders w)"
    and ctx: "tenant_ctx w = Some (tenant_id od)"
  shows "checkout e customer (ord_idempotency_key od) expected extra w
    = (Inr (result_of_order od (first_by (\<lambda>p. - created_at p)
        (filter (\<lambda>p. pay_order p = row_id od) (objects payments_tbl w)))), w)"
proof -
  have "distinct (map ord_idempotency_key (objects orders_tbl w))"
    using ok ctx by (simp add: objects_def orders_ok distinct_map_filter)
  moreover have "od \<in> set (objects orders_tbl w)" using od ctx by (simp add: objects_def)
  ultimately have "get_where (\<lambda>x. ord_idempotency_key x = ord_idempotency_key od) (objects orders_tbl w) = OneRow od"
    by (rule get_where_key)
  then show ?thesis
    by (simp add: checkout_def find_existing_checkout_def bindE_def latest_row_def)
qed

end
