(* ===== verification/Requests.thy ===== *)
theory Requests
  imports Saga
begin

section \<open>How a request reaches a view\<close>

text \<open>
  \<^verbatim>\<open>apps/core/middleware\<close>, the authentication and permission classes of the storefront, and the
  dispatch of a view under \<open>ATOMIC_REQUESTS\<close>: the request identifier, the tenant from the host name, the
  transaction of the tenant, the customer from the header, the view, and the answer to its exceptions. A
  handler is what a middleware calls \<open>get_response\<close>. The framework turns an exception that leaves a layer
  into a response with status 500; what the ORM makes of a text that is no UUID is a parameter.
\<close>

text \<open>
  What the paginator of the framework decides for a request: the slice of the result, the number of the page
  and how many there are, and the links to its neighbours. It is set up by the attributes of the class of the
  project. Text is ordered by the collation of the database, given by its sort key.
\<close>

record pagination_class =
  pc_page_size :: nat
  pc_page_size_query_param :: string
  pc_max_page_size :: nat

record page =
  pg_from :: nat
  pg_to :: nat
  pg_number :: nat
  pg_size :: nat
  pg_total :: nat
  pg_next :: json
  pg_previous :: json

type_synonym query = "(string \<times> string) list"

record settings =
  set_domain_suffix :: string
  set_reserved_subdomains :: "string list"
  set_debug :: bool
  set_default_subdomain :: string
  set_disable_auth :: bool
  set_to_uuid :: "string \<Rightarrow> exn + uuid"
  set_collate :: "string \<Rightarrow> string"
  set_paginate :: "pagination_class \<Rightarrow> http_request \<Rightarrow> query \<Rightarrow> nat \<Rightarrow> exn + page"

record req_ctx =
  rq_http :: http_request
  rq_id :: string
  rq_tenant :: "tenant option"
  rq_customer :: "customer option"

type_synonym handler = "req_ctx \<Rightarrow> http_response act"

subsection \<open>Responses of the framework\<close>

definition server_error :: http_response where
  "server_error = \<lparr>resp_status = 500, resp_content_type = ''text/html'', resp_headers = [],
     resp_body = OpaqueBody ''Server Error (500)''\<rparr>"

definition convert_exception :: "http_response act \<Rightarrow> http_response act" where
  "convert_exception m = try_except m any_exn (\<lambda>_. ret server_error)"

text \<open>\<open>_error\<close> and \<open>_unauthorized\<close>: the code is also the detail.\<close>

definition middleware_error :: "string \<Rightarrow> nat \<Rightarrow> string \<Rightarrow> http_response" where
  "middleware_error code st rid =
     json_response st [] (error_envelope [Some [(''code'', JStr code), (''detail'', JStr code)]] rid)"

subsection \<open>The request identifier\<close>

definition add_header :: "string \<Rightarrow> string \<Rightarrow> http_response \<Rightarrow> http_response" where
  "add_header k v r =
     r\<lparr>resp_headers := filter (\<lambda>(k', _). k' \<noteq> k) (resp_headers r) @ [(k, v)]\<rparr>"

definition request_id_middleware :: "handler \<Rightarrow> handler" where
  "request_id_middleware get_response r =
     bindE (let h = meta_get (req_meta (rq_http r)) ''HTTP_X_REQUEST_ID'' in
            if h \<noteq> [] then ret h else bindE new_uuid (\<lambda>i. ret (uuid_str i))) (\<lambda>rid.
     bindE (get_response (r\<lparr>rq_id := rid\<rparr>)) (\<lambda>resp.
     ret (add_header ''X-Request-ID'' rid resp)))"

subsection \<open>The tenant\<close>

definition ends_with :: "string \<Rightarrow> string \<Rightarrow> bool" where
  "ends_with s e \<longleftrightarrow> length e \<le> length s \<and> drop (length s - length e) s = e"

text \<open>\<open>s.split(".")[-1]\<close>.\<close>

definition last_label :: "string \<Rightarrow> string" where
  "last_label s = rev (takeWhile (\<lambda>c. c \<noteq> CHR ''.'') (rev s))"

definition extract_subdomain :: "settings \<Rightarrow> string \<Rightarrow> string option" where
  "extract_subdomain cfg get_host =
     (let host = lower (takeWhile (\<lambda>c. c \<noteq> CHR '':'') get_host);
          suffix = lower (set_domain_suffix cfg)
      in if host = suffix \<or> \<not> ends_with host (CHR ''.'' # suffix) then None
         else
           let candidate = last_label (take (length host - length suffix - 1) host) in
           if candidate \<in> set (set_reserved_subdomains cfg) then None
           else if candidate = [] then None
           else Some candidate)"

definition tenant_subdomain :: "settings \<Rightarrow> string \<Rightarrow> string option" where
  "tenant_subdomain cfg get_host =
     (case extract_subdomain cfg get_host of
        Some s \<Rightarrow> Some s
      | None \<Rightarrow>
          if set_debug cfg \<and> set_default_subdomain cfg \<noteq> [] then Some (set_default_subdomain cfg) else None)"

definition tenant_resolver :: "settings \<Rightarrow> handler \<Rightarrow> handler" where
  "tenant_resolver cfg get_response r =
     (if is_exempt (rq_http r) GLOBAL_EXEMPT_PATHS then get_response r
      else case tenant_subdomain cfg (req_host (rq_http r)) of
        None \<Rightarrow> ret (middleware_error ''tenant_required'' 400 (rq_id r))
      | Some s \<Rightarrow>
          bindE (gets (\<lambda>w. get_where (\<lambda>t. ten_subdomain t = s \<and> ten_is_active t) (all_objects tenants_tbl w))) (\<lambda>g.
          case g of
            NoRow \<Rightarrow> ret (middleware_error ''tenant_not_found'' 404 (rq_id r))
          | ManyRows \<Rightarrow> throw MultipleObjectsReturned
          | OneRow t \<Rightarrow> tenant_context (Some (ten_id t)) (get_response (r\<lparr>rq_tenant := Some t\<rparr>))))"

text \<open>\<open>SET LOCAL\<close> is for the policies of the database; the block is what matters to the state.\<close>

definition tenant_db_session :: "handler \<Rightarrow> handler" where
  "tenant_db_session get_response r =
     bindE get_current_tenant_id (\<lambda>t.
     case t of None \<Rightarrow> get_response r | Some _ \<Rightarrow> atomic (get_response r))"

subsection \<open>The customer\<close>

definition customer_lookup :: "settings \<Rightarrow> string \<Rightarrow> customer act" where
  "customer_lookup cfg text =
     bindE (lift_sum (set_to_uuid cfg text)) (\<lambda>i.
     get_row customers_tbl (\<lambda>c. row_id c = i) (DoesNotExist ''Customer''))"

definition no_such_customer :: "exn \<Rightarrow> bool" where
  "no_such_customer e \<longleftrightarrow> (\<exists>m. e = DoesNotExist m) \<or> (\<exists>m. e = ValueError m)"

definition customer_auth :: "settings \<Rightarrow> handler \<Rightarrow> handler" where
  "customer_auth cfg get_response r =
     (if is_exempt (rq_http r) GLOBAL_EXEMPT_PATHS \<or> is_exempt (rq_http r) AUTH_EXEMPT_PATHS \<or> set_disable_auth cfg
      then get_response r
      else
        let text = strip (meta_get (req_meta (rq_http r)) ''HTTP_X_CUSTOMER_ID'') in
        if text = [] then ret (middleware_error ''missing_customer_id'' 401 (rq_id r))
        else
          bindE (try_except (bindE (customer_lookup cfg text) (\<lambda>c. ret (Some c))) no_such_customer (\<lambda>_. ret None)) (\<lambda>found.
          case found of
            None \<Rightarrow> ret (middleware_error ''customer_not_found'' 401 (rq_id r))
          | Some c \<Rightarrow>
              if \<not> cust_is_active c then ret (middleware_error ''customer_not_found'' 401 (rq_id r))
              else get_response (r\<lparr>rq_customer := Some c\<rparr>)))"

subsection \<open>The view\<close>

text \<open>
  \<open>MiddlewareCustomerAuthentication\<close> and \<open>IsAuthenticatedCustomer\<close>; a view is a function of the customer.
\<close>

definition authenticate :: "req_ctx \<Rightarrow> customer option" where
  "authenticate r = rq_customer r"

definition customer_view :: "(customer \<Rightarrow> handler) \<Rightarrow> handler" where
  "customer_view view r =
     (case authenticate r of
        None \<Rightarrow> throw (NotAuthenticated ''Authentication credentials were not provided.'')
      | Some c \<Rightarrow> view c r)"

text \<open>
  \<open>APIView.dispatch\<close> answers the exceptions that the handler of the project knows; the view runs in the
  block of \<open>ATOMIC_REQUESTS\<close>. An answer keeps what the view has written, unless the framework's handler gave it and so
  marked the block: then the writes are taken back and the answer stands. Outside of the block only the
  unanswered exceptions get.
\<close>

definition answered :: "string \<Rightarrow> exn \<Rightarrow> bool" where
  "answered rid e \<longleftrightarrow> custom_exception_handler e rid \<noteq> None"

definition answer_exception :: "req_ctx \<Rightarrow> exn \<Rightarrow> http_response act" where
  "answer_exception r e =
     (case custom_exception_handler e (rq_id r) of Some resp \<Rightarrow> ret resp | None \<Rightarrow> throw e)"

definition dispatch :: "handler \<Rightarrow> handler" where
  "dispatch view r =
     try_except (view r) (\<lambda>e. answered (rq_id r) e \<and> \<not> sets_rollback e) (answer_exception r)"

definition atomic_request :: "handler \<Rightarrow> handler" where
  "atomic_request view r =
     convert_exception (try_except (atomic (dispatch view r)) sets_rollback (answer_exception r))"

text \<open>The middleware of the project in the order of the setting; the one for letter case is pure.\<close>

definition served :: "settings \<Rightarrow> handler \<Rightarrow> handler" where
  "served cfg view =
     request_id_middleware (\<lambda>r. convert_exception
       (tenant_resolver cfg (\<lambda>r. convert_exception
         (tenant_db_session (\<lambda>r. convert_exception
           (customer_auth cfg (atomic_request view) r)) r)) r))"

definition storefront :: "settings \<Rightarrow> (customer \<Rightarrow> handler) \<Rightarrow> handler" where
  "storefront cfg view = served cfg (customer_view view)"

subsection \<open>What the layers keep\<close>

lemma convert_exception_total: "\<exists>resp w'. convert_exception m w = (Inr resp, w')"
  by (auto simp: convert_exception_def try_except_def split: prod.split sum.split)

lemma convert_exception_cases:
  obtains resp w' where "m w = (Inr resp, w')" and "convert_exception m w = (Inr resp, w')"
  | e w' where "m w = (Inl e, w')" and "convert_exception m w = (Inr server_error, w')"
proof (cases "m w")
  case (Pair r w1)
  then show ?thesis
    using that by (cases r) (auto simp: convert_exception_def try_except_def)
qed

lemma tenant_context_ctx: "tenant_ctx (snd (tenant_context t m w)) = tenant_ctx w"
  by (simp add: tenant_context_def bindE_def set_current_tenant_id_def finally_do_def reset_current_tenant_id_def
      split: prod.split)

text \<open>
  The answer to an exception, and what becomes of the writes of the view, the phases of a saga included: they stay with
  the answers of the project, and are taken back with those of the framework and with a 500.
\<close>

lemma answer_exception_preserves [hoare_intros]: "preserves I (answer_exception r e)"
  unfolding answer_exception_def by (cases "custom_exception_handler e (rq_id r)") (auto intro: hoare_intros)

lemma tables_left [simp]: "tables (commit w0 w) = tables w" "tables (enter_atomic w) = tables w"
  by (simp_all add: tables_def commit_def enter_atomic_def)

lemma request_raised:
  assumes "view r (enter_atomic w) = (Inl e, w1)"
  obtains w' where "atomic_request view r w =
      (Inr (case custom_exception_handler e (rq_id r) of Some resp \<Rightarrow> resp | None \<Rightarrow> server_error), w')"
    and "tables w' = (if custom_exception_handler e (rq_id r) \<noteq> None \<and> \<not> sets_rollback e then tables w1 else tables w)"
proof -
  let ?h = "custom_exception_handler e (rq_id r)"
  have rb: "tables (rollback w w1) = tables w" by (simp add: tables_def rollback_def)
  show ?thesis
  proof (cases "?h \<noteq> None \<and> \<not> sets_rollback e")
    case True
    then obtain resp where "?h = Some resp" by auto
    with True assms have "atomic_request view r w = (Inr resp, commit w w1)"
      by (simp add: atomic_request_def dispatch_def answered_def answer_exception_def convert_exception_def try_except_def
          atomic_def atomic_with_def)
    with True \<open>?h = Some resp\<close> that show ?thesis by simp
  next
    case False
    with assms have "atomic (dispatch view r) w = (Inl e, rollback w w1)"
      by (auto simp: dispatch_def answered_def try_except_def atomic_def atomic_with_def)
    then have "atomic_request view r w = (Inr (case ?h of Some resp \<Rightarrow> resp | None \<Rightarrow> server_error), rollback w w1)"
      using False
      by (cases ?h) (auto simp: atomic_request_def answer_exception_def convert_exception_def try_except_def)
    then show ?thesis by (rule that) (use False rb in auto)
  qed
qed

text \<open>
  Fail closed: a view is reached only with an active customer of the tenant in context, whose identifier the
  header names; every other outcome is an error response (or an exception) that leaves the state alone.
\<close>

definition admitted :: "settings \<Rightarrow> req_ctx \<Rightarrow> world \<Rightarrow> customer \<Rightarrow> bool" where
  "admitted cfg r w c \<longleftrightarrow>
     c \<in> set (db_customers w) \<and> tenant_ctx w = Some (tenant_id c) \<and> cust_is_active c \<and>
     set_to_uuid cfg (strip (meta_get (req_meta (rq_http r)) ''HTTP_X_CUSTOMER_ID'')) = Inr (row_id c)"

text \<open>
  The three ways through: an active customer of the tenant in context reaches the view, a text the database refuses
  with an exception of its own raises it, and everything else is answered with 401, a customer of another tenant too.
\<close>

lemma customer_lookup_found:
  assumes "distinct (map row_id (db_customers w))" and "c \<in> set (db_customers w)" and "tenant_ctx w = Some (tenant_id c)"
    and "set_to_uuid cfg hdr = Inr (row_id c)"
  shows "customer_lookup cfg hdr w = (Inr c, w)"
proof -
  let ?rows = "filter (\<lambda>r. tenant_id r = tenant_id c) (db_customers w)"
  have "get_where (\<lambda>x. row_id x = row_id c) ?rows = OneRow c"
    using assms(1,2) by (intro get_where_key) (simp_all add: distinct_map_filter)
  then show ?thesis
    using assms(3,4) by (simp add: customer_lookup_def get_row_def objects_def customers_tbl_def one_or_raise_def)
qed

lemma customer_lookup_missing:
  assumes "\<not> (\<exists>c \<in> set (db_customers w). tenant_ctx w = Some (tenant_id c) \<and> row_id c = i)" and "set_to_uuid cfg hdr = Inr i"
  shows "customer_lookup cfg hdr w = (Inl (DoesNotExist ''Customer''), w)"
proof -
  have "get_where (\<lambda>x. row_id x = i) (objects customers_tbl w) = NoRow"
    using assms(1) unfolding get_where_NoRow_iff by (auto simp: objects_def customers_tbl_def split: option.splits)
  then show ?thesis using assms(2) by (simp add: customer_lookup_def get_row_def one_or_raise_def)
qed

lemma customer_auth_cases:
  assumes "\<not> is_exempt (rq_http r) GLOBAL_EXEMPT_PATHS" "\<not> is_exempt (rq_http r) AUTH_EXEMPT_PATHS" "\<not> set_disable_auth cfg"
    and keys: "distinct (map row_id (db_customers w))"
    and hdr: "hdr = strip (meta_get (req_meta (rq_http r)) ''HTTP_X_CUSTOMER_ID'')"
  shows "admitted cfg r w c \<Longrightarrow> hdr \<noteq> [] \<Longrightarrow> customer_auth cfg h r w = h (r\<lparr>rq_customer := Some c\<rparr>) w"
    and "hdr = [] \<Longrightarrow> customer_auth cfg h r w = (Inr (middleware_error ''missing_customer_id'' 401 (rq_id r)), w)"
    and "hdr \<noteq> [] \<Longrightarrow> set_to_uuid cfg hdr = Inl e \<Longrightarrow> customer_auth cfg h r w =
      (if no_such_customer e then Inr (middleware_error ''customer_not_found'' 401 (rq_id r)) else Inl e, w)"
    and "hdr \<noteq> [] \<Longrightarrow> set_to_uuid cfg hdr = Inr i \<Longrightarrow> \<forall>c. \<not> admitted cfg r w c \<Longrightarrow>
      customer_auth cfg h r w = (Inr (middleware_error ''customer_not_found'' 401 (rq_id r)), w)"
proof -
  note run = customer_auth_def Let_def bindE_def try_except_def hdr [symmetric] no_such_customer_def
  show "customer_auth cfg h r w = h (r\<lparr>rq_customer := Some c\<rparr>) w" if "admitted cfg r w c" "hdr \<noteq> []"
    using that customer_lookup_found [OF keys, of c cfg hdr] assms(1-3) by (simp add: run admitted_def)
  show "hdr = [] \<Longrightarrow> customer_auth cfg h r w = (Inr (middleware_error ''missing_customer_id'' 401 (rq_id r)), w)"
    using assms(1-3) by (simp add: run)
  show "customer_auth cfg h r w =
      (if no_such_customer e then Inr (middleware_error ''customer_not_found'' 401 (rq_id r)) else Inl e, w)"
    if "hdr \<noteq> []" "set_to_uuid cfg hdr = Inl e"
  proof -
    have "customer_lookup cfg hdr w = (Inl e, w)" using that(2) by (simp add: customer_lookup_def bindE_def lift_sum_def)
    then show ?thesis using that(1) assms(1-3) by (simp add: run)
  qed
  show "customer_auth cfg h r w = (Inr (middleware_error ''customer_not_found'' 401 (rq_id r)), w)"
    if "hdr \<noteq> []" "set_to_uuid cfg hdr = Inr i" "\<forall>c. \<not> admitted cfg r w c"
  proof (cases "\<exists>c \<in> set (db_customers w). tenant_ctx w = Some (tenant_id c) \<and> row_id c = i")
    case True
    then obtain c where c: "c \<in> set (db_customers w)" "tenant_ctx w = Some (tenant_id c)" "row_id c = i" by blast
    with that(2,3) have "\<not> cust_is_active c" by (auto simp: admitted_def hdr)
    then show ?thesis
      using customer_lookup_found [OF keys c(1,2), of cfg hdr] that(1,2) c(3) assms(1-3) by (simp add: run)
  next
    case False
    then show ?thesis using customer_lookup_missing [OF False that(2)] that(1) assms(1-3) by (simp add: run)
  qed
qed

text \<open>Whatever the view does, the context variable has its former value when the request is over.\<close>

lemma convert_exception_snd [simp]: "snd (convert_exception m w) = snd (m w)"
  by (simp add: convert_exception_def try_except_def split: prod.split sum.split)

lemma tenant_resolver_ctx:
  assumes "\<not> is_exempt (rq_http r) GLOBAL_EXEMPT_PATHS"
  shows "tenant_ctx (snd (tenant_resolver cfg h r w)) = tenant_ctx w"
  using assms
  by (simp add: tenant_context_ctx tenant_resolver_def bindE_def split: option.split get_result.split)

lemma request_id_snd:
  "snd (request_id_middleware h r w) =
     (let t = meta_get (req_meta (rq_http r)) ''HTTP_X_REQUEST_ID'' in
      if t \<noteq> [] then snd (h (r\<lparr>rq_id := t\<rparr>) w)
      else snd (h (r\<lparr>rq_id := uuid_str (fresh_id w)\<rparr>) (w\<lparr>fresh_id := Suc (fresh_id w)\<rparr>)))"
  by (simp add: request_id_middleware_def Let_def bindE_def new_uuid_def split: prod.split sum.split)

lemma served_ctx:
  assumes "\<not> is_exempt (rq_http r) GLOBAL_EXEMPT_PATHS"
  shows "tenant_ctx (snd (served cfg view r w)) = tenant_ctx w"
  using assms tenant_resolver_ctx
  by (simp add: served_def request_id_snd Let_def)

text \<open>A handler is reached in the context of the tenant of the host only.\<close>

lemma tenant_resolver_closed:
  assumes "\<not> is_exempt (rq_http r) GLOBAL_EXEMPT_PATHS"
  shows "(\<exists>t. t \<in> set (db_tenants w) \<and> ten_is_active t \<and>
        tenant_subdomain cfg (req_host (rq_http r)) = Some (ten_subdomain t) \<and>
        tenant_resolver cfg h r w = tenant_context (Some (ten_id t)) (h (r\<lparr>rq_tenant := Some t\<rparr>)) w) \<or>
    (\<exists>code st. st \<in> {400, 404} \<and> tenant_resolver cfg h r w = (Inr (middleware_error code st (rq_id r)), w)) \<or>
    tenant_resolver cfg h r w = (Inl MultipleObjectsReturned, w)"
proof (cases "tenant_subdomain cfg (req_host (rq_http r))")
  case None
  with assms show ?thesis by (auto simp: tenant_resolver_def)
next
  case (Some s)
  let ?g = "get_where (\<lambda>t. ten_subdomain t = s \<and> ten_is_active t) (db_tenants w)"
  have rows: "all_objects tenants_tbl w = db_tenants w" by (simp add: all_objects_def tenants_tbl_def)
  show ?thesis
  proof (cases ?g)
    case (OneRow t)
    then have "t \<in> set (db_tenants w) \<and> ten_subdomain t = s \<and> ten_is_active t" by (rule get_where_OneRowD)
    with Some OneRow rows assms show ?thesis by (auto simp: tenant_resolver_def)
  qed (use Some rows assms in \<open>auto simp: tenant_resolver_def\<close>)
qed

subsection \<open>Host names\<close>

lemma ends_with_append [simp]: "ends_with (s @ e) e"
  by (simp add: ends_with_def)

lemma last_label_no_dot: "CHR ''.'' \<notin> set (last_label s)"
  unfolding last_label_def by (metis (mono_tags, lifting) set_rev set_takeWhileD)

text \<open>The subdomain is a single label, not reserved; labels before it are dropped.\<close>

lemma extract_subdomain_label:
  assumes "extract_subdomain cfg host = Some s"
  shows "s \<noteq> []" and "CHR ''.'' \<notin> set s" and "s \<notin> set (set_reserved_subdomains cfg)"
  using assms last_label_no_dot by (auto simp: extract_subdomain_def Let_def split: if_splits)

lemma last_label_prefix: "CHR ''.'' \<notin> set s \<Longrightarrow> last_label (p @ CHR ''.'' # s) = s"
proof -
  assume "CHR ''.'' \<notin> set s"
  then have "takeWhile (\<lambda>c. c \<noteq> CHR ''.'') (rev s @ CHR ''.'' # rev p) = rev s"
    by (subst takeWhile_append2) auto
  then show ?thesis by (simp add: last_label_def)
qed

end
