(* ===== verification/Pagination.thy ===== *)
theory Pagination
  imports Requests "HOL-Library.List_Lexorder" "HOL-Library.Char_ord"
begin

section \<open>Lists and their pages\<close>

text \<open>
  \<^verbatim>\<open>apps/core/pagination.py\<close>: the class that cuts the result of a list view into pages and the
  envelope it answers with, and the order of the results. How the page of a request is found is the paginator
  of the framework, the parameter \<open>set_paginate\<close> of the settings; \<open>pages_cut\<close> states what its documentation
  says of the slice and of the links.
\<close>

subsection \<open>Query parameters\<close>

definition query_get :: "query \<Rightarrow> string \<Rightarrow> string" where
  "query_get q k = (case map_of q k of None \<Rightarrow> [] | Some v \<Rightarrow> v)"

subsection \<open>The order of a result\<close>

text \<open>\<open>order_by\<close> on a column of text, on flags that put \<open>True\<close> first, and on a time, newest first.\<close>

definition order_by_text :: "settings \<Rightarrow> ('r \<Rightarrow> string) \<Rightarrow> 'r list \<Rightarrow> 'r list" where
  "order_by_text cfg f = sort_key (\<lambda>r. set_collate cfg (f r))"

definition true_first :: "('r \<Rightarrow> bool) \<Rightarrow> 'r list \<Rightarrow> 'r list" where
  "true_first f = sort_key (\<lambda>r. if f r then 0 else 1 :: nat)"

definition newest_first :: "'a scoped list \<Rightarrow> 'a scoped list" where
  "newest_first = sort_key (\<lambda>r. - created_at r)"

subsection \<open>The envelope of a page\<close>

definition EnvelopePagination :: pagination_class where
  "EnvelopePagination = \<lparr>pc_page_size = 20, pc_page_size_query_param = ''page_size'', pc_max_page_size = 100\<rparr>"

definition page_slice :: "page \<Rightarrow> 'r list \<Rightarrow> 'r list" where
  "page_slice pg rs = take (pg_to pg - pg_from pg) (drop (pg_from pg) rs)"

definition pagination_meta :: "nat \<Rightarrow> page \<Rightarrow> dict" where
  "pagination_meta n pg =
     [(''pagination'', JObj
        [(''count'', JInt (int n)), (''page'', JInt (int (pg_number pg))), (''page_size'', JInt (int (pg_size pg))),
         (''total_pages'', JInt (int (pg_total pg))), (''next'', pg_next pg), (''previous'', pg_previous pg)])]"

definition get_paginated_response :: "json list \<Rightarrow> nat \<Rightarrow> page \<Rightarrow> string \<Rightarrow> http_response" where
  "get_paginated_response data n pg rid =
     json_response 200 [] (envelope (JList data) rid (pagination_meta n pg))"

text \<open>
  The list of a generic view: one page of the query set, shown by the serializer. The page size of the settings
  is not zero, so there always is a page.
\<close>

definition list_response :: "settings \<Rightarrow> req_ctx \<Rightarrow> query \<Rightarrow> ('r \<Rightarrow> json) \<Rightarrow> 'r list \<Rightarrow> http_response act" where
  "list_response cfg r q show qs =
     bindE (lift_sum (set_paginate cfg EnvelopePagination (rq_http r) q (length qs))) (\<lambda>pg.
     ret (get_paginated_response (map show (page_slice pg qs)) (length qs) pg (rq_id r)))"

text \<open>Views that answer with the whole result in the plain envelope.\<close>

definition plain_list :: "req_ctx \<Rightarrow> ('r \<Rightarrow> json) \<Rightarrow> 'r list \<Rightarrow> http_response act" where
  "plain_list r show qs = ret (json_response 200 [] (envelope (JList (map show qs)) (rq_id r) []))"

subsection \<open>What a list keeps and shows\<close>

lemma list_response_keeps [hoare_intros]: "preserves I (list_response cfg r q show qs)"
  unfolding list_response_def by (intro hoare_intros)

lemma list_response_cases:
  "list_response cfg r q show qs w =
     (case set_paginate cfg EnvelopePagination (rq_http r) q (length qs) of Inl e \<Rightarrow> (Inl e, w)
      | Inr pg \<Rightarrow> (Inr (get_paginated_response (map show (page_slice pg qs)) (length qs) pg (rq_id r)), w))"
  by (simp add: list_response_def bindE_def lift_sum_def split: sum.split)

lemma plain_list_keeps [hoare_intros]: "preserves I (plain_list r show qs)"
  unfolding plain_list_def by (intro hoare_intros)

lemma order_by_text_set [simp]: "set (order_by_text cfg f rs) = set rs" "length (order_by_text cfg f rs) = length rs"
  by (simp_all add: order_by_text_def)

lemma true_first_set [simp]: "set (true_first f rs) = set rs" "length (true_first f rs) = length rs"
  by (simp_all add: true_first_def)

lemma newest_first_set [simp]: "set (newest_first rs) = set rs" "length (newest_first rs) = length rs"
  by (simp_all add: newest_first_def)

lemma page_slice_set: "set (page_slice pg rs) \<subseteq> set rs"
  unfolding page_slice_def by (meson order_trans set_drop_subset set_take_subset)

lemma map_page_slice: "map f (page_slice pg rs) = page_slice pg (map f rs)"
  by (simp add: page_slice_def take_map drop_map)

lemma newest_first_sorted: "sorted (map (\<lambda>r. - created_at r) (newest_first rs))"
  by (simp add: newest_first_def)

lemma sorted_filter_map: "sorted (map f rs) \<Longrightarrow> sorted (map f (filter P rs))"
  by (induction rs) auto

lemma page_slice_sorted: "sorted (map f rs) \<Longrightarrow> sorted (map f (page_slice pg rs))"
  by (simp add: map_page_slice, simp add: page_slice_def sorted_wrt_take sorted_wrt_drop)

text \<open>
  The documented pages: numbered from one, all but the last of the full size, that size between one and the
  maximum of the class; a page has a link to its neighbour just when there is one.
\<close>

definition page_ok :: "nat \<Rightarrow> nat \<Rightarrow> page \<Rightarrow> bool" where
  "page_ok limit n pg \<longleftrightarrow>
     1 \<le> pg_size pg \<and> pg_size pg \<le> limit \<and> 1 \<le> pg_number pg \<and> pg_number pg \<le> pg_total pg \<and>
     pg_total pg = max 1 ((n + pg_size pg - 1) div pg_size pg) \<and>
     pg_from pg = (pg_number pg - 1) * pg_size pg \<and> pg_to pg = min n (pg_from pg + pg_size pg) \<and>
     (pg_next pg \<noteq> JNull \<longleftrightarrow> pg_number pg < pg_total pg) \<and> (pg_previous pg \<noteq> JNull \<longleftrightarrow> 1 < pg_number pg)"

definition pages_cut :: "settings \<Rightarrow> bool" where
  "pages_cut cfg \<longleftrightarrow>
     (\<forall>req q n pg. set_paginate cfg EnvelopePagination req q n = Inr pg \<longrightarrow>
        page_ok (pc_max_page_size EnvelopePagination) n pg)"

lemma page_slice_length:
  assumes "page_ok limit (length rs) pg"
  shows "length (page_slice pg rs) \<le> limit"
  using assms by (auto simp: page_ok_def page_slice_def)

text \<open>The row at place \<open>i\<close> of the result is on the page \<open>i div size + 1\<close>, at place \<open>i mod size\<close>.\<close>

lemma page_slice_nth:
  assumes "page_ok limit (length rs) pg" and "i < length rs" and "pg_number pg = i div pg_size pg + 1"
  shows "i mod pg_size pg < length (page_slice pg rs)" and "page_slice pg rs ! (i mod pg_size pg) = rs ! i"
proof -
  let ?s = "pg_size pg"
  have s: "0 < ?s" using assms(1) by (simp add: page_ok_def)
  have f: "pg_from pg = i div ?s * ?s" using assms(1,3) by (simp add: page_ok_def)
  have i: "i = i div ?s * ?s + i mod ?s" by simp
  have m: "i mod ?s < ?s" using s by simp
  have t: "pg_to pg = min (length rs) (pg_from pg + ?s)" using assms(1) by (simp add: page_ok_def)
  have lt: "i mod ?s < pg_to pg - pg_from pg" using t f i m assms(2) by linarith
  then show "i mod ?s < length (page_slice pg rs)"
    using t by (auto simp: page_slice_def)
  have "page_slice pg rs ! (i mod ?s) = rs ! (pg_from pg + i mod ?s)"
    using lt t assms(2) f i by (simp add: page_slice_def)
  also have "\<dots> = rs ! i" using f i by metis
  finally show "page_slice pg rs ! (i mod ?s) = rs ! i" .
qed

end
