(* ===== verification/StoreViews.thy ===== *)
theory StoreViews
  imports Pagination
begin

section \<open>The storefront endpoints\<close>

text \<open>
  The views of \<^verbatim>\<open>apps/carts/views\<close> and \<^verbatim>\<open>apps/orders/views\<close> with the serializers
  that check what a client sends and shape what it gets. A view takes the customer the request was
  authenticated as, the request and the parsed body, and returns a response or raises; the dispatch of the
  theory \<open>Requests\<close> answers what it raises.
\<close>

subsection \<open>Fields of a request body\<close>

text \<open>A field gives its value or the messages that go under its name.\<close>

type_synonym 'a field = "string list + 'a"

definition required :: "dict \<Rightarrow> string \<Rightarrow> (json \<Rightarrow> 'a field) \<Rightarrow> 'a field" where
  "required kvs name f =
     (case map_of kvs name of
        None \<Rightarrow> Inl [''This field is required.'']
      | Some JNull \<Rightarrow> Inl [''This field may not be null.'']
      | Some j \<Rightarrow> f j)"

text \<open>The text of a number loses a fraction of zeros, as \<open>re_decimal\<close> removes it.\<close>

definition drop_zero_fraction :: "string \<Rightarrow> string" where
  "drop_zero_fraction s =
     (let rest = dropWhile (\<lambda>c. c \<noteq> CHR ''.'') s in
      if rest \<noteq> [] \<and> list_all is_space (dropWhile (\<lambda>c. c = CHR ''0'') (tl rest))
      then takeWhile (\<lambda>c. c \<noteq> CHR ''.'') s else s)"

definition integer_field :: "int \<Rightarrow> int \<Rightarrow> json \<Rightarrow> int field" where
  "integer_field lo hi j =
     (case (case j of JInt i \<Rightarrow> Some i | JStr s \<Rightarrow> parse_int (drop_zero_fraction s) | _ \<Rightarrow> None) of
        None \<Rightarrow> Inl [''A valid integer is required.'']
      | Some q \<Rightarrow>
          if q < lo then Inl [''Ensure this value is greater than or equal to '' @ show_int lo @ ''.'']
          else if hi < q then Inl [''Ensure this value is less than or equal to '' @ show_int hi @ ''.'']
          else Inr q)"

definition char_field :: "nat \<Rightarrow> json \<Rightarrow> string field" where
  "char_field max_length j =
     (case (case j of JStr s \<Rightarrow> Some (strip s) | JInt i \<Rightarrow> Some (show_int i) | _ \<Rightarrow> None) of
        None \<Rightarrow> Inl [''Not a valid string.'']
      | Some s \<Rightarrow>
          if s = [] then Inl [''This field may not be blank.'']
          else if max_length < length s
          then Inl [''Ensure this field has no more than '' @ show_nat max_length @ '' characters.'']
          else Inr s)"

definition uuid_field :: "settings \<Rightarrow> json \<Rightarrow> uuid field" where
  "uuid_field cfg j =
     (case (case j of JStr s \<Rightarrow> set_to_uuid cfg s | _ \<Rightarrow> Inl (ValueError [])) of
        Inl _ \<Rightarrow> Inl [''Must be a valid UUID.'']
      | Inr i \<Rightarrow> Inr i)"

definition errors_under :: "string \<Rightarrow> 'a field \<Rightarrow> dict" where
  "errors_under name f = (case f of Inl ms \<Rightarrow> [(name, JList (map JStr ms))] | Inr _ \<Rightarrow> [])"

text \<open>\<open>is_valid(raise_exception=True)\<close> for one and for two fields: all errors are reported at once.\<close>

definition one_field :: "string \<Rightarrow> 'a field \<Rightarrow> exn + 'a" where
  "one_field name f =
     (case f of Inr x \<Rightarrow> Inr x | Inl _ \<Rightarrow> Inl (ValidationError (JObj (errors_under name f))))"

definition two_fields :: "string \<Rightarrow> 'a field \<Rightarrow> string \<Rightarrow> 'b field \<Rightarrow> exn + ('a \<times> 'b)" where
  "two_fields n f m g =
     (case (f, g) of
        (Inr x, Inr y) \<Rightarrow> Inr (x, y)
      | _ \<Rightarrow> Inl (ValidationError (JObj (errors_under n f @ errors_under m g))))"

definition add_cart_item_serializer :: "settings \<Rightarrow> dict \<Rightarrow> exn + (uuid \<times> int)" where
  "add_cart_item_serializer cfg kvs =
     two_fields ''product_id'' (required kvs ''product_id'' (uuid_field cfg))
                ''quantity'' (required kvs ''quantity'' (integer_field 1 999))"

definition update_cart_item_serializer :: "dict \<Rightarrow> exn + int" where
  "update_cart_item_serializer kvs = one_field ''quantity'' (required kvs ''quantity'' (integer_field 1 999))"

definition apply_coupon_serializer :: "dict \<Rightarrow> exn + string" where
  "apply_coupon_serializer kvs = one_field ''code'' (required kvs ''code'' (char_field 64))"

definition set_slot_serializer :: "settings \<Rightarrow> dict \<Rightarrow> exn + uuid" where
  "set_slot_serializer cfg kvs = one_field ''id'' (required kvs ''id'' (uuid_field cfg))"

definition metadata_field :: "dict \<Rightarrow> dict field" where
  "metadata_field kvs =
     (case map_of kvs ''payment_metadata'' of
        None \<Rightarrow> Inr []
      | Some JNull \<Rightarrow> Inl [''This field may not be null.'']
      | Some (JObj d) \<Rightarrow> Inr d
      | Some _ \<Rightarrow> Inl [''Expected a dictionary of items.''])"

definition checkout_serializer :: "dict \<Rightarrow> exn + dict" where
  "checkout_serializer kvs = one_field ''payment_metadata'' (metadata_field kvs)"

subsection \<open>The cart\<close>

definition cart_response :: "string \<Rightarrow> cart_view \<Rightarrow> http_response" where
  "cart_response rid v = json_response 200 [] (envelope (cart_json v) rid [])"

definition no_content :: http_response where
  "no_content = \<lparr>resp_status = 204, resp_content_type = '''', resp_headers = [], resp_body = EmptyBody\<rparr>"

definition cart_answer :: "req_ctx \<Rightarrow> cart_view act \<Rightarrow> http_response act" where
  "cart_answer r m = bindE m (\<lambda>v. ret (cart_response (rq_id r) v))"

definition cart_detail_get :: "customer \<Rightarrow> handler" where
  "cart_detail_get c r = cart_answer r (get_cart (row_id c))"

definition cart_detail_delete :: "customer \<Rightarrow> handler" where
  "cart_detail_delete c r = seqE (clear_cart (row_id c)) (ret no_content)"

definition cart_items_post :: "settings \<Rightarrow> dict \<Rightarrow> customer \<Rightarrow> handler" where
  "cart_items_post cfg body c r =
     bindE (lift_sum (add_cart_item_serializer cfg body)) (\<lambda>(p, q). cart_answer r (add_item (row_id c) p q))"

definition cart_item_detail_patch :: "uuid \<Rightarrow> dict \<Rightarrow> customer \<Rightarrow> handler" where
  "cart_item_detail_patch item body c r =
     bindE (lift_sum (update_cart_item_serializer body)) (\<lambda>q.
     cart_answer r (update_item_quantity (row_id c) item q))"

definition cart_item_detail_delete :: "uuid \<Rightarrow> customer \<Rightarrow> handler" where
  "cart_item_detail_delete item c r = cart_answer r (remove_item (row_id c) item)"

definition cart_coupons_post :: "dict \<Rightarrow> customer \<Rightarrow> handler" where
  "cart_coupons_post body c r =
     bindE (lift_sum (apply_coupon_serializer body)) (\<lambda>code. cart_answer r (apply_coupon (row_id c) code))"

definition cart_coupon_detail_delete :: "string \<Rightarrow> customer \<Rightarrow> handler" where
  "cart_coupon_detail_delete code c r = cart_answer r (remove_coupon (row_id c) code)"

definition cart_coupon_preview_post :: "dict \<Rightarrow> customer \<Rightarrow> handler" where
  "cart_coupon_preview_post body c r =
     bindE (lift_sum (apply_coupon_serializer body)) (\<lambda>code.
     bindE (preview_coupon (row_id c) code) (\<lambda>p.
     ret (json_response 200 [] (envelope (JObj (preview_json p)) (rq_id r) []))))"

definition cart_shipping_address_put :: "settings \<Rightarrow> dict \<Rightarrow> customer \<Rightarrow> handler" where
  "cart_shipping_address_put cfg body c r =
     bindE (lift_sum (set_slot_serializer cfg body)) (\<lambda>i. cart_answer r (set_shipping_address (row_id c) i))"

definition cart_billing_address_put :: "settings \<Rightarrow> dict \<Rightarrow> customer \<Rightarrow> handler" where
  "cart_billing_address_put cfg body c r =
     bindE (lift_sum (set_slot_serializer cfg body)) (\<lambda>i. cart_answer r (set_billing_address (row_id c) i))"

definition cart_payment_method_put :: "settings \<Rightarrow> dict \<Rightarrow> customer \<Rightarrow> handler" where
  "cart_payment_method_put cfg body c r =
     bindE (lift_sum (set_slot_serializer cfg body)) (\<lambda>i. cart_answer r (set_payment_method (row_id c) i))"

subsection \<open>Checkout\<close>

definition checkout_result_json :: "checkout_result \<Rightarrow> json" where
  "checkout_result_json res =
     (let od = cr_order res in
      JObj [(''order_id'', id_json (row_id od)), (''order_number'', JInt (ord_number od)),
        (''status'', JStr (order_status_value (ord_status od))),
        (''payment_status'', JStr (cr_payment_status res)),
        (''grand_total'', money_json (ord_grand_total od)), (''currency'', JStr (ord_currency od)),
        (''next_action'', cr_next_action res)])"

text \<open>\<open>int(if_match) if if_match else None\<close>.\<close>

definition expected_version :: "string \<Rightarrow> exn + int option" where
  "expected_version if_match =
     (if if_match = [] then Inr None
      else case parse_int if_match of
             None \<Rightarrow> Inl (ValueError (''invalid literal for int() with base 10: '' @ py_repr (JStr if_match)))
           | Some n \<Rightarrow> Inr (Some n))"

definition cart_checkout_post :: "env \<Rightarrow> dict \<Rightarrow> customer \<Rightarrow> handler" where
  "cart_checkout_post e body c r =
     (let key = meta_get (req_meta (rq_http r)) ''HTTP_IDEMPOTENCY_KEY'' in
      if key = [] then throw IdempotencyKeyRequired
      else
        bindE (lift_sum (expected_version (meta_get (req_meta (rq_http r)) ''HTTP_IF_MATCH''))) (\<lambda>expected.
        bindE (lift_sum (checkout_serializer body)) (\<lambda>extra.
        bindE (checkout e (row_id c) key expected extra) (\<lambda>res.
        ret (json_response (if cr_payment_status res = ''captured'' then 201 else 202) []
               (envelope (checkout_result_json res) (rq_id r) []))))))"

subsection \<open>Orders\<close>

definition order_item_json :: "order_item \<Rightarrow> json" where
  "order_item_json i =
     JObj [(''id'', id_json (row_id i)), (''product_id'', opt_id_json (oi_product i)),
       (''product_sku_snapshot'', JStr (oi_product_sku_snapshot i)),
       (''product_name_snapshot'', JStr (oi_product_name_snapshot i)), (''quantity'', JInt (oi_quantity i)),
       (''unit_price'', money_json (oi_unit_price i)), (''line_total'', money_json (oi_line_total i)),
       (''currency'', JStr (oi_currency i))]"

definition items_of_order :: "world \<Rightarrow> uuid \<Rightarrow> order_item list" where
  "items_of_order w i = filter (\<lambda>x. oi_order x = i) (objects order_items_tbl w)"

definition opt_int_json :: "int option \<Rightarrow> json" where
  "opt_int_json x = (case x of None \<Rightarrow> JNull | Some i \<Rightarrow> JInt i)"

definition order_fields :: "world \<Rightarrow> order \<Rightarrow> dict" where
  "order_fields w od =
     [(''status'', JStr (order_status_value (ord_status od))), (''subtotal'', money_json (ord_subtotal od)),
      (''discount_total'', money_json (ord_discount_total od)), (''grand_total'', money_json (ord_grand_total od)),
      (''currency'', JStr (ord_currency od)), (''shipping_address'', JObj (ord_shipping_address od)),
      (''billing_address'', JObj (ord_billing_address od)), (''is_b2b'', JBool (ord_is_b2b od)),
      (''tax_id'', JStr (ord_tax_id od)), (''payment_terms'', JStr (ord_payment_terms od)),
      (''po_number'', JStr (ord_po_number od)), (''payment_due_date'', opt_int_json (ord_payment_due_date od)),
      (''items'', JList (map order_item_json (items_of_order w (row_id od))))]"

definition order_json :: "world \<Rightarrow> order \<Rightarrow> json" where
  "order_json w od =
     JObj ([(''id'', id_json (row_id od)), (''order_number'', JInt (ord_number od))] @ order_fields w od
       @ [(''created_at'', JInt (created_at od)), (''updated_at'', JInt (updated_at od))])"

definition order_cancel_post :: "uuid \<Rightarrow> customer \<Rightarrow> handler" where
  "order_cancel_post i c r =
     bindE (cancel_order (row_id c) i) (\<lambda>od.
     bindE (gets (\<lambda>w. order_json w od)) (\<lambda>j.
     ret (json_response 200 [] (envelope j (rq_id r) []))))"

text \<open>The query sets: own orders, newest first; an unknown status gives nothing.\<close>

definition own_orders :: "uuid \<Rightarrow> world \<Rightarrow> order list" where
  "own_orders customer w =
     newest_first (filter (\<lambda>od. ord_customer od = customer) (objects orders_tbl w))"

definition order_list_queryset :: "customer \<Rightarrow> string \<Rightarrow> world \<Rightarrow> order list" where
  "order_list_queryset c status w =
     (if status = [] then own_orders (row_id c) w
      else filter (\<lambda>od. order_status_value (ord_status od) = status) (own_orders (row_id c) w))"

definition order_list_get :: "settings \<Rightarrow> query \<Rightarrow> customer \<Rightarrow> handler" where
  "order_list_get cfg q c r =
     bindE (gets (\<lambda>w. (order_list_queryset c (query_get q ''status'') w, w))) (\<lambda>(qs, w).
     list_response cfg r q (order_json w) qs)"

definition order_detail_lookup :: "uuid \<Rightarrow> customer \<Rightarrow> world \<Rightarrow> order get_result" where
  "order_detail_lookup i c w = get_where (\<lambda>od. row_id od = i) (own_orders (row_id c) w)"

text \<open>\<open>get_object_or_404\<close>, and the view that answers with the bare model.\<close>

definition quoted :: "string \<Rightarrow> string" where
  "quoted s = [CHR 0x27] @ s @ [CHR 0x27]"

definition not_found :: "string \<Rightarrow> exn" where
  "not_found model = Http404 (''{'' @ quoted ''detail'' @ '': ErrorDetail(string='' @
     quoted (''No '' @ model @ '' matches the given query.'') @ '', code='' @ quoted ''not_found'' @ '')}'')"

definition order_detail_get :: "uuid \<Rightarrow> customer \<Rightarrow> handler" where
  "order_detail_get i c r =
     bindE (gets (order_detail_lookup i c)) (\<lambda>g.
     bindE (lift_sum (one_or_raise (not_found ''Order'') g)) (\<lambda>od.
     bindE (gets (\<lambda>w. order_json w od)) (\<lambda>j. ret (json_response 200 [] j))))"

definition invoice_json :: "order \<Rightarrow> invoice \<Rightarrow> json" where
  "invoice_json od iv =
     JObj [(''id'', id_json (row_id iv)), (''order_id'', id_json (row_id od)),
       (''invoice_number'', JInt (inv_number iv)), (''pdf_url'', JStr (inv_pdf_url iv)),
       (''issued_at'', opt_int_json (inv_issued_at iv))]"

text \<open>The reverse one-to-one relation is followed through the base manager of the related model.\<close>

definition order_invoice_get :: "uuid \<Rightarrow> customer \<Rightarrow> handler" where
  "order_invoice_get i c r =
     bindE (get_row orders_tbl (\<lambda>od. row_id od = i \<and> ord_customer od = row_id c)
              (ResourceNotFound ''Order not found'')) (\<lambda>od.
     bindE (get_row_all invoices_tbl (\<lambda>iv. inv_order iv = row_id od)
              (ResourceNotFound ''Invoice not yet generated for this order'')) (\<lambda>iv.
     ret (json_response 200 [] (envelope (invoice_json od iv) (rq_id r) []))))"

subsection \<open>What the views keep\<close>

lemma integer_field_range: "integer_field lo hi j = Inr q \<Longrightarrow> lo \<le> q \<and> q \<le> hi"
  by (auto simp: integer_field_def split: option.splits if_splits)

lemma two_fields_Inr: "two_fields n f m g = Inr (x, y) \<Longrightarrow> f = Inr x \<and> g = Inr y"
  by (auto simp: two_fields_def split: sum.splits)

lemma one_field_Inr: "one_field n f = Inr x \<Longrightarrow> f = Inr x"
  by (auto simp: one_field_def split: sum.splits)

lemma required_Inr: "required kvs n f = Inr x \<Longrightarrow> \<exists>j. map_of kvs n = Some j \<and> f j = Inr x"
  by (auto simp: required_def split: option.splits json.splits)

lemma add_cart_item_range:
  "add_cart_item_serializer cfg kvs = Inr (p, q) \<Longrightarrow> 1 \<le> q \<and> q \<le> 999"
  unfolding add_cart_item_serializer_def
  by (auto dest!: two_fields_Inr required_Inr integer_field_range)

lemma update_cart_item_range: "update_cart_item_serializer kvs = Inr q \<Longrightarrow> 1 \<le> q \<and> q \<le> 999"
  unfolding update_cart_item_serializer_def
  by (auto dest!: one_field_Inr required_Inr integer_field_range)

text \<open>The orders of the history.\<close>

lemma order_list_queryset_set:
  "set (order_list_queryset c status w) =
     {od \<in> set (db_orders w). tenant_ctx w = Some (tenant_id od) \<and> ord_customer od = row_id c \<and>
       (status \<noteq> [] \<longrightarrow> order_status_value (ord_status od) = status)}"
  by (auto simp: order_list_queryset_def own_orders_def objects_def orders_tbl_def split: option.splits)

lemma order_list_queryset_sorted: "sorted (map (\<lambda>od. - created_at od) (order_list_queryset c status w))"
  by (simp add: order_list_queryset_def own_orders_def sorted_filter_map newest_first_sorted)

lemma order_list_run:
  "order_list_get cfg q c r w = list_response cfg r q (order_json w) (order_list_queryset c (query_get q ''status'') w) w"
  by (simp only: order_list_get_def bindE_def gets_def prod.case sum.case)

text \<open>Every view of the storefront keeps the ledger and the context.\<close>

lemma order_list_keeps: "preserves I (order_list_get cfg q c r)"
  unfolding order_list_get_def by (intro hoare_intros)

lemma cart_answer_inv: "preserves (inv t ids) m \<Longrightarrow> preserves (inv t ids) (cart_answer r m)"
  unfolding cart_answer_def by (intro hoare_intros)

lemma preview_coupon_inv: "preserves (inv t ids) (preview_coupon customer code)"
  unfolding preview_coupon_def get_cart_def find_coupon_def Let_def by (intro op_intros)

lemma views_inv:
  "preserves (inv t {}) (cart_detail_get c r)" "preserves (inv t {}) (cart_detail_delete c r)"
  "preserves (inv t {}) (cart_items_post cfg body c r)"
  "preserves (inv t {}) (cart_item_detail_patch item body c r)"
  "preserves (inv t {}) (cart_item_detail_delete item c r)"
  "preserves (inv t {}) (cart_coupons_post body c r)"
  "preserves (inv t {}) (cart_coupon_detail_delete code c r)"
  "preserves (inv t {}) (cart_coupon_preview_post body c r)"
  "preserves (inv t {}) (cart_shipping_address_put cfg body c r)"
  "preserves (inv t {}) (cart_billing_address_put cfg body c r)"
  "preserves (inv t {}) (cart_payment_method_put cfg body c r)"
  "preserves (inv t {}) (cart_checkout_post e body c r)"
  "preserves (inv t {}) (order_cancel_post i c r)" "preserves (inv t {}) (order_invoice_get i c r)"
  "preserves (inv t {}) (order_detail_get i c r)" "preserves (inv t {}) (order_list_get cfg q c r)"
  unfolding cart_detail_get_def cart_detail_delete_def cart_items_post_def cart_item_detail_patch_def
    cart_item_detail_delete_def cart_coupons_post_def cart_coupon_detail_delete_def cart_coupon_preview_post_def
    cart_shipping_address_put_def cart_billing_address_put_def cart_payment_method_put_def
    cart_checkout_post_def order_cancel_post_def order_invoice_get_def order_detail_get_def
    order_list_get_def Let_def
  by (intro hoare_intros cart_answer_inv get_cart_inv clear_cart_inv add_item_inv update_item_quantity_inv
      remove_item_inv apply_coupon_inv remove_coupon_inv preview_coupon_inv set_slots_inv checkout_inv
      cancel_order_inv)+

end
