(* ===== verification/Invoices.thy ===== *)
theory Invoices
  imports StoreViews
begin

section \<open>Invoices\<close>

text \<open>
  The task \<open>generate_invoice\<close> of \<^verbatim>\<open>apps/orders/tasks.py\<close>, the content of the document of
  \<^verbatim>\<open>invoice_renderer.py\<close>, the object storage of \<^verbatim>\<open>apps/files\<close>, and the base
  class of the tasks of a tenant. The layout library, the storage backend and the formatting of dates are
  parameters. The task runs in autocommit mode: what it wrote stays when a later step raises, and the next
  attempt goes on from there.
\<close>

subsection \<open>Object storage (\<^verbatim>\<open>apps/files/services\<close>)\<close>

text \<open>
  A backend is given by what \<open>save\<close> answers for an alias, the stored objects and a key -- the key that was
  really written -- and by the address of a key.
\<close>

record storage =
  st_save :: "string \<Rightarrow> (string \<times> string) list \<Rightarrow> string \<Rightarrow> exn + string"
  st_url :: "string \<Rightarrow> string \<Rightarrow> string"
  st_guess_type :: "string \<Rightarrow> string"

definition basename :: "string \<Rightarrow> string" where
  "basename key = rev (takeWhile (\<lambda>c. c \<noteq> CHR ''/'') (rev key))"

definition object_name :: "string \<Rightarrow> string \<Rightarrow> string" where
  "object_name alias key = alias @ '':'' @ key"

definition save_bytes :: "storage \<Rightarrow> string \<Rightarrow> string \<Rightarrow> string option \<Rightarrow> string option \<Rightarrow> string act" where
  "save_bytes st alias key filename content_type =
     (let name = (case filename of None \<Rightarrow> basename key | Some f \<Rightarrow> or_default f (basename key));
          ctype = (case content_type of None \<Rightarrow> st_guess_type st name | Some t \<Rightarrow> or_default t (st_guess_type st name))
      in
      bindE (gets stored_objects) (\<lambda>objs.
      bindE (lift_sum (st_save st alias objs key)) (\<lambda>saved.
      seqE (modify (\<lambda>w. w\<lparr>stored_objects := stored_objects w @ [(object_name alias saved, ctype)]\<rparr>))
      (ret saved))))"

text \<open>The content type of the upload is kept unless one is given.\<close>

definition save_uploaded_file :: "storage \<Rightarrow> string \<Rightarrow> string \<Rightarrow> string \<Rightarrow> string option \<Rightarrow> string act" where
  "save_uploaded_file st alias key upload_type content_type =
     save_bytes st alias key None
       (case content_type of Some t \<Rightarrow> Some (or_default t upload_type) | None \<Rightarrow> Some upload_type)"

definition url_for :: "storage \<Rightarrow> string \<Rightarrow> string \<Rightarrow> string" where
  "url_for st alias key = st_url st alias key"

definition object_exists :: "string \<Rightarrow> string \<Rightarrow> world \<Rightarrow> bool" where
  "object_exists alias key w \<longleftrightarrow> object_name alias key \<in> fst ` set (stored_objects w)"

definition delete_object :: "string \<Rightarrow> string \<Rightarrow> bool act" where
  "delete_object alias key =
     (if key = [] then ret False
      else bindE (gets (object_exists alias key)) (\<lambda>ex.
           if \<not> ex then ret False
           else seqE (modify (\<lambda>w. w\<lparr>stored_objects :=
                   filter (\<lambda>(n, _). n \<noteq> object_name alias key) (stored_objects w)\<rparr>))
                (ret True)))"

text \<open>
  \<open>validate_upload\<close>: the extension of the content type, in any letter case. The mapping is given in the order
  of its keys, which the message lists.
\<close>

definition mib :: int where
  "mib = 1024 * 1024"

definition join_with :: "string \<Rightarrow> string list \<Rightarrow> string" where
  "join_with sep xs = (case xs of [] \<Rightarrow> [] | y # ys \<Rightarrow> y @ concat (map (\<lambda>z. sep @ z) ys))"

definition validate_upload :: "(string \<times> string) list \<Rightarrow> int \<Rightarrow> int \<Rightarrow> string option \<Rightarrow> exn + string" where
  "validate_upload allowed max_bytes n_bytes content_type =
     (if max_bytes < n_bytes
      then Inl (ValidationError (JObj [(''file'', JStr (''Upload exceeds the '' @ show_int (max_bytes div mib) @ '' MiB limit.''))]))
      else
        let t = lower (case content_type of None \<Rightarrow> [] | Some c \<Rightarrow> c) in
        case map_of allowed t of
          None \<Rightarrow> Inl (ValidationError (JObj [(''file'', JStr (''Unsupported content type '' @ py_repr (JStr t) @
                    ''. Allowed: '' @ join_with '', '' (map fst allowed) @ ''.''))]))
        | Some ext \<Rightarrow> Inr ext)"

subsection \<open>The document\<close>

text \<open>What is printed, without the layout; text in UTF-8.\<close>

datatype cell = Text string | Cells "string list"

datatype block = Paragraph string | TableOf "cell list list" | Spacer

definition em_dash :: string where
  "em_dash = map char_of [226, 128, 148 :: nat]"

definition minus_sign :: string where
  "minus_sign = map char_of [226, 136, 146 :: nat]"

definition bullet :: string where
  "bullet = map char_of [226, 128, 162 :: nat]"

definition money_text :: "money \<Rightarrow> string \<Rightarrow> string" where
  "money_text amount currency = show_cents amount @ '' '' @ currency"

definition meta_strip :: "(time \<Rightarrow> string) \<Rightarrow> invoice \<Rightarrow> order \<Rightarrow> block" where
  "meta_strip fmt iv od = TableOf
     [[Text ''INVOICE NUMBER'', Text ''ISSUED'', Text ''ORDER'', Text ''CURRENCY''],
      [Text (''#'' @ show_int (inv_number iv)),
       Text (case inv_issued_at iv of None \<Rightarrow> em_dash | Some t \<Rightarrow> fmt t),
       Text (''#'' @ show_int (ord_number od)), Text (ord_currency od)]]"

definition addr_get :: "dict \<Rightarrow> string \<Rightarrow> string" where
  "addr_get a k = (case dict_get a k of JStr s \<Rightarrow> s | _ \<Rightarrow> [])"

definition party_cell :: "string \<Rightarrow> dict \<Rightarrow> customer option \<Rightarrow> string list" where
  "party_cell label address cust =
     upper label #
     (case cust of
        None \<Rightarrow> []
      | Some c \<Rightarrow>
          (let name = strip (or_default (cust_name c) (cust_email c)) in if name \<noteq> [] then [name] else []) @
          (if cust_company_name c \<noteq> [] then [cust_company_name c] else []) @
          (if cust_email c \<noteq> [] then [cust_email c] else [])) @
     (if address = [] then []
      else
        let street = addr_get address ''street'';
            postal = or_default (addr_get address ''postal_code'') (addr_get address ''postalCode'');
            loc = join_with '', '' (filter (\<lambda>p. p \<noteq> []) [addr_get address ''city'', postal, addr_get address ''country''])
        in (if street \<noteq> [] then [street] else []) @ (if loc \<noteq> [] then [loc] else []))"

definition addresses_differ :: "dict \<Rightarrow> dict \<Rightarrow> bool" where
  "addresses_differ a b \<longleftrightarrow>
     a \<noteq> [] \<and> b \<noteq> [] \<and>
     list_ex (\<lambda>k. dict_get a k \<noteq> dict_get b k) [''street'', ''city'', ''country'', ''postal_code'', ''postalCode'']"

definition party_columns :: "order \<Rightarrow> customer option \<Rightarrow> block" where
  "party_columns od cust =
     (let bill = party_cell ''Billed to'' (ord_billing_address od) cust;
          has_ship = ord_shipping_address od \<noteq> [] \<and> addresses_differ (ord_billing_address od) (ord_shipping_address od)
      in TableOf [[Cells bill, Cells (if has_ship then party_cell ''Ship to'' (ord_shipping_address od) None else [])]])"

definition b2b_badge :: "order \<Rightarrow> block" where
  "b2b_badge od = TableOf [[Text
     (if ord_tax_id od \<noteq> [] then ''  B2B  '' @ bullet @ ''  Tax ID  '' @ ord_tax_id od @ ''  '' else ''  B2B  '')]]"

definition line_items_table :: "order \<Rightarrow> order_item list \<Rightarrow> block" where
  "line_items_table od items = TableOf
     (map Text [''SKU'', ''Item'', ''Qty'', ''Unit price'', ''Line total''] #
      map (\<lambda>i. map Text [oi_product_sku_snapshot i, oi_product_name_snapshot i, show_int (oi_quantity i),
             money_text (oi_unit_price i) (ord_currency od), money_text (oi_line_total i) (ord_currency od)]) items)"

definition totals_table :: "order \<Rightarrow> block" where
  "totals_table od = TableOf
     ([map Text [''Subtotal'', money_text (ord_subtotal od) (ord_currency od)]] @
      (if ord_discount_total od \<noteq> 0
       then [map Text [''Discount'', minus_sign @ '' '' @ money_text (ord_discount_total od) (ord_currency od)]] else []) @
      [map Text [''Grand total'', money_text (ord_grand_total od) (ord_currency od)]])"

definition dash_terms :: "string \<Rightarrow> string" where
  "dash_terms s = upper (map (\<lambda>c. if c = CHR ''_'' then CHR ''-'' else c) s)"

definition footer_text :: "(int \<Rightarrow> string) \<Rightarrow> order \<Rightarrow> string" where
  "footer_text fmt_day od =
     (case ord_payment_due_date od of
        Some d \<Rightarrow>
          if ord_payment_terms od \<noteq> []
          then ''Payment terms: '' @ dash_terms (ord_payment_terms od) @ ''. Amount due on or before '' @ fmt_day d @
               ''. Remittance reference: order #'' @ show_int (ord_number od) @ ''.''
          else ''Thank you for your purchase. This invoice was generated automatically at the time of capture; the order record is the system of record.''
      | None \<Rightarrow> ''Thank you for your purchase. This invoice was generated automatically at the time of capture; the order record is the system of record.'')"

record layout =
  lay_time :: "time \<Rightarrow> string" \<comment> \<open>\<open>strftime("%d %b %Y")\<close> of a moment\<close>
  lay_day :: "int \<Rightarrow> string" \<comment> \<open>and of a day\<close>
  lay_build :: "block list \<Rightarrow> exn + string" \<comment> \<open>\<open>SimpleDocTemplate.build\<close>\<close>

definition invoice_story :: "layout \<Rightarrow> invoice \<Rightarrow> order \<Rightarrow> customer option \<Rightarrow> order_item list \<Rightarrow> block list" where
  "invoice_story lay iv od cust items =
     [meta_strip (lay_time lay) iv od, Spacer, party_columns od cust] @
     (if ord_is_b2b od then [Spacer, b2b_badge od] else []) @
     [Spacer, line_items_table od items, Spacer, totals_table od, Spacer, Paragraph (footer_text (lay_day lay) od)]"

definition render_invoice_pdf :: "layout \<Rightarrow> invoice \<Rightarrow> order \<Rightarrow> customer option \<Rightarrow> order_item list \<Rightarrow> exn + string" where
  "render_invoice_pdf lay iv od cust items = lay_build lay (invoice_story lay iv od cust items)"

subsection \<open>The task\<close>

definition upload_invoice_pdf :: "storage \<Rightarrow> uuid \<Rightarrow> uuid \<Rightarrow> string act" where
  "upload_invoice_pdf st t i =
     (let key = ''tenants/'' @ uuid_str t @ ''/invoices/'' @ uuid_str i @ ''.pdf'' in
      bindE (save_bytes st ''invoices'' key None None) (\<lambda>saved. ret (url_for st ''invoices'' saved)))"

definition next_invoice_number :: "uuid \<Rightarrow> int act" where
  "next_invoice_number t w =
     (case invoice_seq w t of
        None \<Rightarrow> (Inl (DatabaseError ''relation does not exist''), w)
      | Some n \<Rightarrow> (Inr (n + 1), w\<lparr>invoice_seq := (invoice_seq w)(t := Some (n + 1))\<rparr>))"

definition new_invoice :: "uuid \<Rightarrow> int \<Rightarrow> time \<Rightarrow> invoice" where
  "new_invoice od number now =
     \<lparr>row_id = 0, tenant_id = 0, created_at = 0, updated_at = 0, inv_order = od, inv_number = number,
      inv_pdf_url = '''', inv_issued_at = Some now\<rparr>"

definition invoice_of :: "world \<Rightarrow> order \<Rightarrow> invoice option" where
  "invoice_of w od = find (\<lambda>iv. inv_order iv = row_id od) (db_invoices w)"

definition create_invoice :: "uuid \<Rightarrow> order \<Rightarrow> invoice act" where
  "create_invoice t od =
     bindE (next_invoice_number t) (\<lambda>number.
     bindE current_time (\<lambda>now. create invoices_tbl (new_invoice (row_id od) number now)))"

definition upload_if_missing :: "layout \<Rightarrow> storage \<Rightarrow> uuid \<Rightarrow> order \<Rightarrow> invoice \<Rightarrow> unit act" where
  "upload_if_missing lay st t od iv =
     (if inv_pdf_url iv \<noteq> [] then ret ()
      else
        bindE (gets (\<lambda>w. (fk (db_customers w) (ord_customer od), items_of_order w (row_id od)))) (\<lambda>(cust, items).
        bindE (lift_sum (render_invoice_pdf lay iv od cust items)) (\<lambda>pdf.
        bindE (upload_invoice_pdf st t (row_id iv)) (\<lambda>url.
        bindE (save_fields invoices_tbl (\<lambda>r. r\<lparr>inv_pdf_url := url\<rparr>) iv) (\<lambda>_. ret ())))))"

definition generate_invoice :: "layout \<Rightarrow> storage \<Rightarrow> uuid \<Rightarrow> uuid \<Rightarrow> unit act" where
  "generate_invoice lay st t i =
     bindE (get_row orders_tbl (\<lambda>od. row_id od = i) (DoesNotExist ''Order'')) (\<lambda>od.
     bindE (gets (\<lambda>w. invoice_of w od)) (\<lambda>existing.
     bindE (case existing of Some iv \<Rightarrow> ret iv | None \<Rightarrow> create_invoice t od) (\<lambda>iv.
     upload_if_missing lay st t od iv)))"

text \<open>\<open>TenantAwareTask.__call__\<close>: the first argument is the tenant, whose context lasts as long as the run.\<close>

definition tenant_aware_task :: "uuid list \<Rightarrow> (uuid \<Rightarrow> 'a act) \<Rightarrow> 'a act" where
  "tenant_aware_task args run =
     (case args of
        [] \<Rightarrow> throw (TypeError ''task must be called with tenant_id as first argument'')
      | t # _ \<Rightarrow> tenant_context (Some t) (run t))"

subsection \<open>Retries converge\<close>

lemma next_invoice_number_inv: "preserves (inv t ids) (next_invoice_number s)"
  by (simp add: preserves_def next_invoice_number_def split: option.split)

lemma save_bytes_inv: "preserves (inv t ids) (save_bytes st alias key f c)"
  unfolding save_bytes_def Let_def by (intro op_intros preserves_modify) simp_all

lemma generate_invoice_inv: "preserves (inv t ids) (generate_invoice lay st s i)"
  unfolding generate_invoice_def create_invoice_def upload_if_missing_def upload_invoice_pdf_def Let_def
  by (intro op_intros next_invoice_number_inv save_bytes_inv) simp_all

text \<open>The numbers given out, and to which orders.\<close>

definition numbers :: "world \<Rightarrow> (uuid \<times> int) list" where
  "numbers w = map (\<lambda>iv. (inv_order iv, inv_number iv)) (db_invoices w)"

lemma numbers_frame [simp]:
  "numbers (w\<lparr>stored_objects := a\<rparr>) = numbers w" "numbers (w\<lparr>invoice_seq := b\<rparr>) = numbers w"
  by (simp_all add: numbers_def)

lemma upload_numbers:
  "preserves (\<lambda>w. numbers w = ns \<and> invoice_seq w = sq) (upload_if_missing lay st t od iv)"
  unfolding upload_if_missing_def upload_invoice_pdf_def save_bytes_def Let_def
  by (intro op_intros preserves_modify) (auto simp: numbers_def map_upd_where)

text \<open>An order that has an invoice gets no other number, however often the task runs and fails.\<close>

lemma generate_invoice_again:
  assumes "\<And>od. od \<in> set (db_orders w) \<Longrightarrow> row_id od = i \<Longrightarrow> invoice_of w od \<noteq> None"
    and run: "generate_invoice lay st t i w = (r, w')"
  shows "numbers w' = numbers w" and "invoice_seq w' = invoice_seq w"
proof -
  have "numbers w' = numbers w \<and> invoice_seq w' = invoice_seq w"
  proof (cases "get_row orders_tbl (\<lambda>od. row_id od = i) (DoesNotExist ''Order'') w")
    case (Pair r1 w1)
    show ?thesis
    proof (cases r1)
      case (Inl e)
      with Pair run get_row_Inl [of orders_tbl _ _ w e w1] show ?thesis
        by (auto simp: generate_invoice_def bindE_def)
    next
      case (Inr od)
      with Pair have g: "get_row orders_tbl (\<lambda>od. row_id od = i) (DoesNotExist ''Order'') w = (Inr od, w1)" by simp
      note od = get_row_Inr [OF g]
      then obtain iv where "invoice_of w od = Some iv" using assms(1) [of od] by auto
      with g od(1) run have "upload_if_missing lay st t od iv w = (r, w')"
        by (simp add: generate_invoice_def bindE_def)
      from preservesD [OF upload_numbers _ this, of "numbers w" "invoice_seq w"] show ?thesis by simp
    qed
  qed
  then show "numbers w' = numbers w" and "invoice_seq w' = invoice_seq w" by simp_all
qed

lemma invoices_ok:
  "tbl_ok invoices_tbl rs \<longleftrightarrow> distinct (map row_id rs) \<and> distinct (map inv_order rs) \<and>
     distinct (map (\<lambda>r. (tenant_id r, inv_number r)) rs)"
  by (simp add: invoices_tbl_def pk_ok_def)

lemma find_order:
  assumes "distinct (map inv_order rs)" and "iv \<in> set rs"
  shows "find (\<lambda>x. inv_order x = inv_order iv) rs = Some iv"
  using assms by (induction rs) auto

lemma upload_done:
  assumes ok: "tbl_ok invoices_tbl (db_invoices w)" and iv: "iv \<in> set (db_invoices w)" "inv_order iv = row_id od"
    and url: "\<And>a k. st_url st a k \<noteq> []" and run: "upload_if_missing lay st t od iv w = (Inr u, w')"
  shows "\<exists>iv'. invoice_of w' od = Some iv' \<and> inv_pdf_url iv' \<noteq> []"
    and "db_orders w' = db_orders w" and "tenant_ctx w' = tenant_ctx w"
proof -
  show "db_orders w' = db_orders w" "tenant_ctx w' = tenant_ctx w"
  proof -
    have "preserves (\<lambda>s. db_orders s = db_orders w \<and> tenant_ctx s = tenant_ctx w) (upload_if_missing lay st t od iv)"
      unfolding upload_if_missing_def upload_invoice_pdf_def save_bytes_def Let_def
      by (intro op_intros preserves_modify) simp_all
    with run show "db_orders w' = db_orders w" "tenant_ctx w' = tenant_ctx w" by (auto dest: preservesD)
  qed
  show "\<exists>iv'. invoice_of w' od = Some iv' \<and> inv_pdf_url iv' \<noteq> []"
  proof (cases "inv_pdf_url iv = []")
    case False
    with run have "w' = w" by (simp add: upload_if_missing_def)
    with ok iv False show ?thesis
      using find_order [of "db_invoices w" iv] by (simp add: invoice_of_def invoices_ok)
  next
    case True
    obtain k w1 y where up: "upload_invoice_pdf st t (row_id iv) w = (Inr k, w1)"
      and s: "save_fields invoices_tbl (\<lambda>r. r\<lparr>inv_pdf_url := k\<rparr>) iv w1 = (Inr y, w')"
      using run True unfolding upload_if_missing_def
      by (auto elim!: bindE_Inr_D)
    have "preserves (\<lambda>s. db_invoices s = db_invoices w) (upload_invoice_pdf st t (row_id iv))"
      unfolding upload_invoice_pdf_def save_bytes_def Let_def by (intro op_intros preserves_modify) simp_all
    with up have w1: "db_invoices w1 = db_invoices w" by (auto dest: preservesD)
    have k: "k \<noteq> []" using up url unfolding upload_invoice_pdf_def Let_def url_for_def
      by (auto elim!: bindE_Inr_D)
    let ?f = "\<lambda>r. r\<lparr>inv_pdf_url := k, updated_at := clock w1\<rparr>"
    have rows: "db_invoices w' = upd_where (\<lambda>r. row_id r = row_id iv) ?f (db_invoices w)"
      using save_fields_Inr(2) [OF s] w1 by simp
    have "?f iv \<in> set (db_invoices w')" using iv(1) rows by (auto simp: set_upd_where intro!: rev_image_eqI)
    moreover have "distinct (map inv_order (db_invoices w'))"
      using ok rows by (simp add: invoices_ok map_upd_where)
    ultimately have "find (\<lambda>x. inv_order x = inv_order (?f iv)) (db_invoices w') = Some (?f iv)"
      using find_order by blast
    with iv(2) k show ?thesis by (simp add: invoice_of_def)
  qed
qed

text \<open>After a run that succeeded, another one changes nothing.\<close>

lemma create_invoice_Inr:
  assumes "create_invoice t od w = (Inr iv, w')"
  shows "iv \<in> set (db_invoices w')" and "inv_order iv = row_id od" and "tbl_ok invoices_tbl (db_invoices w')"
    and "db_orders w' = db_orders w" and "tenant_ctx w' = tenant_ctx w"
  using assms unfolding create_invoice_def
  by (auto simp: bindE_def next_invoice_number_def current_time_def create_simp insert_row_def stamp_def
      new_invoice_def split: option.splits if_splits)

lemma generate_invoice_idempotent:
  assumes ok: "schema w" and url: "\<And>a k. st_url st a k \<noteq> []"
    and run: "generate_invoice lay st t i w = (Inr u, w')"
  shows "generate_invoice lay st t i w' = (Inr (), w')"
proof -
  obtain od w1 iv w2 where g: "get_row orders_tbl (\<lambda>od. row_id od = i) (DoesNotExist ''Order'') w = (Inr od, w1)"
    and c: "(case invoice_of w od of Some iv \<Rightarrow> ret iv | None \<Rightarrow> create_invoice t od) w = (Inr iv, w2)"
    and up: "upload_if_missing lay st t od iv w2 = (Inr u, w')"
    using run unfolding generate_invoice_def
    by (elim bindE_Inr_D) (auto dest: get_row_Inr(1) elim!: bindE_Inr_D)
  have "iv \<in> set (db_invoices w2) \<and> inv_order iv = row_id od \<and> tbl_ok invoices_tbl (db_invoices w2) \<and>
      db_orders w2 = db_orders w \<and> tenant_ctx w2 = tenant_ctx w"
  proof (cases "invoice_of w od")
    case None
    with c have "create_invoice t od w = (Inr iv, w2)" by simp
    note cr = create_invoice_Inr [OF this]
    then show ?thesis by simp
  next
    case (Some x)
    with c have x: "x = iv" "w2 = w" by simp_all
    from Some x have "iv \<in> set (db_invoices w)" "inv_order iv = row_id od"
      by (auto simp: invoice_of_def find_Some_iff)
    with x ok show ?thesis by (simp add: schema_get)
  qed
  then have w2: "iv \<in> set (db_invoices w2)" "inv_order iv = row_id od" "tbl_ok invoices_tbl (db_invoices w2)"
    "db_orders w2 = db_orders w" "tenant_ctx w2 = tenant_ctx w" by simp_all
  obtain iv' where iv': "invoice_of w' od = Some iv'" "inv_pdf_url iv' \<noteq> []"
    using upload_done(1) [OF w2(3,1,2) url up] by blast
  have same: "db_orders w' = db_orders w" "tenant_ctx w' = tenant_ctx w"
    using upload_done(2,3) [OF w2(3,1,2) url up] w2(4,5) by simp_all
  then have "objects orders_tbl w' = objects orders_tbl w" by (simp add: objects_def split: option.split)
  then have "get_row orders_tbl (\<lambda>od. row_id od = i) (DoesNotExist ''Order'') w' = (Inr od, w')"
    using g by (auto simp: get_row_def)
  with iv' show ?thesis by (simp add: generate_invoice_def bindE_def upload_if_missing_def)
qed

end
