(* ===== verification/Catalog.thy ===== *)
theory Catalog
  imports Invoices
begin

section \<open>The catalog\<close>

text \<open>
  \<^verbatim>\<open>apps/catalog\<close>: the products a storefront lists, and their administration, whose guards keep
  the stock of a product above what is reserved and its currency what open carts were filled with. A request
  body is given by the fields that passed the checks the framework makes for their column types.
\<close>

subsection \<open>Query parameters\<close>

text \<open>
  \<open>Decimal(text)\<close>: a mantissa and a power of ten; the texts for infinity and not-a-number are left out.
\<close>

definition digits_val :: "string \<Rightarrow> int" where
  "digits_val ds = foldl (\<lambda>a c. 10 * a + (of_char c - 48)) 0 ds"

definition read_sign :: "string \<Rightarrow> int \<times> string" where
  "read_sign t =
     (case t of
        c # cs \<Rightarrow> if c = CHR ''-'' then (-1, cs) else if c = CHR ''+'' then (1, cs) else (1, t)
      | [] \<Rightarrow> (1, []))"

definition read_exponent :: "string \<Rightarrow> int option" where
  "read_exponent t =
     (case t of
        [] \<Rightarrow> Some 0
      | c # cs \<Rightarrow>
          (let (sg, ds) = read_sign cs in
           if (c = CHR ''e'' \<or> c = CHR ''E'') \<and> ds \<noteq> [] \<and> list_all is_digit ds then Some (sg * digits_val ds) else None))"

definition decimal_text :: "string \<Rightarrow> (int \<times> int) option" where
  "decimal_text text =
     (let (sg, t) = read_sign (filter (\<lambda>c. c \<noteq> CHR ''_'') (strip text));
          ip = takeWhile is_digit t;
          r = dropWhile is_digit t;
          fp = (if r \<noteq> [] \<and> hd r = CHR ''.'' then takeWhile is_digit (tl r) else []);
          rest = (if r \<noteq> [] \<and> hd r = CHR ''.'' then dropWhile is_digit (tl r) else r)
      in if ip @ fp = [] then None
         else case read_exponent rest of
                None \<Rightarrow> None
              | Some e \<Rightarrow> Some (sg * digits_val (ip @ fp), e - int (length fp)))"

text \<open>A price in cents against the number \<open>m * 10 ^ e\<close>.\<close>

definition price_at_least :: "money \<Rightarrow> int \<times> int \<Rightarrow> bool" where
  "price_at_least c d =
     (case d of (m, e) \<Rightarrow> if 0 \<le> e + 2 then m * 10 ^ nat (e + 2) \<le> c else m \<le> c * 10 ^ nat (- (e + 2)))"

definition price_at_most :: "money \<Rightarrow> int \<times> int \<Rightarrow> bool" where
  "price_at_most c d =
     (case d of (m, e) \<Rightarrow> if 0 \<le> e + 2 then c \<le> m * 10 ^ nat (e + 2) else c * 10 ^ nat (- (e + 2)) \<le> m)"

definition parse_decimal :: "string \<Rightarrow> string \<Rightarrow> exn + int \<times> int" where
  "parse_decimal v name =
     (case decimal_text v of
        None \<Rightarrow> Inl (ValidationError (JObj [(name, JStr (''Must be a decimal number, got '' @ quoted v @ ''.''))]))
      | Some d \<Rightarrow> Inr d)"

definition parse_bool :: "string \<Rightarrow> string \<Rightarrow> exn + bool" where
  "parse_bool v name =
     (let s = lower v in
      if s \<in> {''true'', ''1'', ''yes''} then Inr True
      else if s \<in> {''false'', ''0'', ''no''} then Inr False
      else Inl (ValidationError (JObj [(name, JStr (''Must be true/false (or 1/0, yes/no), got '' @ quoted v @ ''.''))])))"

definition icontains :: "string \<Rightarrow> string \<Rightarrow> bool" where
  "icontains s x \<longleftrightarrow> contains (lower s) (lower x)"

subsection \<open>The storefront\<close>

definition active_products :: "world \<Rightarrow> product list" where
  "active_products w = filter prod_is_active (objects products_tbl w)"

definition opt_filter :: "string \<Rightarrow> (string \<Rightarrow> exn + ('r \<Rightarrow> bool)) \<Rightarrow> 'r list \<Rightarrow> exn + 'r list" where
  "opt_filter v f rs = (if v = [] then Inr rs else case f v of Inl e \<Rightarrow> Inl e | Inr P \<Rightarrow> Inr (filter P rs))"

definition map_sum_inr :: "('a \<Rightarrow> 'b) \<Rightarrow> 'e + 'a \<Rightarrow> 'e + 'b" where
  "map_sum_inr f m = bind_sum m (\<lambda>x. Inr (f x))"

definition matches_search :: "string \<Rightarrow> product \<Rightarrow> bool" where
  "matches_search x p \<longleftrightarrow> icontains (prod_sku p) x \<or> icontains (prod_name p) x \<or> icontains (prod_description p) x"

definition product_queryset :: "settings \<Rightarrow> query \<Rightarrow> world \<Rightarrow> exn + product list" where
  "product_queryset cfg q w =
     map_sum_inr (order_by_text cfg prod_sku) (
     bind_sum (opt_filter (query_get q ''search'') (\<lambda>x. Inr (matches_search x)) (active_products w)) (\<lambda>qs.
     bind_sum (opt_filter (query_get q ''sku'') (\<lambda>x. Inr (\<lambda>p. prod_sku p = x)) qs) (\<lambda>qs.
     bind_sum (opt_filter (query_get q ''currency'') (\<lambda>x. Inr (\<lambda>p. prod_currency p = upper x)) qs) (\<lambda>qs.
     bind_sum (opt_filter (query_get q ''minPrice'')
       (\<lambda>x. map_sum_inr (\<lambda>d p. price_at_least (prod_price p) d) (parse_decimal x ''minPrice'')) qs) (\<lambda>qs.
     bind_sum (opt_filter (query_get q ''maxPrice'')
       (\<lambda>x. map_sum_inr (\<lambda>d p. price_at_most (prod_price p) d) (parse_decimal x ''maxPrice'')) qs) (\<lambda>qs.
     opt_filter (query_get q ''inStock'')
       (\<lambda>x. map_sum_inr (\<lambda>b p. if b then prod_reserved_quantity p < prod_stock_quantity p
                              else prod_stock_quantity p \<le> prod_reserved_quantity p) (parse_bool x ''inStock'')) qs))))))"

definition image_url :: "storage \<Rightarrow> product \<Rightarrow> string" where
  "image_url st p = (if prod_image_key p = [] then [] else url_for st ''media'' (prod_image_key p))"

definition product_json :: "storage \<Rightarrow> product \<Rightarrow> json" where
  "product_json st p =
     JObj [(''id'', id_json (row_id p)), (''sku'', JStr (prod_sku p)), (''name'', JStr (prod_name p)),
       (''description'', JStr (prod_description p)), (''price'', money_json (prod_price p)),
       (''currency'', JStr (prod_currency p)), (''stock_quantity'', JInt (prod_stock_quantity p)),
       (''available_quantity'', JInt (available_quantity p)), (''is_active'', JBool (prod_is_active p)),
       (''image_url'', JStr (image_url st p))]"

definition storefront_product_list :: "settings \<Rightarrow> storage \<Rightarrow> query \<Rightarrow> customer \<Rightarrow> handler" where
  "storefront_product_list cfg st q c r =
     bindE (gets (product_queryset cfg q)) (\<lambda>qs.
     bindE (lift_sum qs) (list_response cfg r q (product_json st)))"

definition product_detail_lookup :: "uuid \<Rightarrow> world \<Rightarrow> product get_result" where
  "product_detail_lookup i w = get_where (\<lambda>p. row_id p = i) (active_products w)"

definition storefront_product_get :: "storage \<Rightarrow> uuid \<Rightarrow> customer \<Rightarrow> handler" where
  "storefront_product_get st i c r =
     bindE (gets (product_detail_lookup i)) (\<lambda>g.
     bindE (lift_sum (one_or_raise (not_found ''Product'') g)) (\<lambda>p. ret (json_response 200 [] (product_json st p))))"

subsection \<open>The administration of products\<close>

definition admin_product_json :: "storage \<Rightarrow> product \<Rightarrow> json" where
  "admin_product_json st p =
     JObj [(''id'', id_json (row_id p)), (''sku'', JStr (prod_sku p)), (''name'', JStr (prod_name p)),
       (''description'', JStr (prod_description p)), (''price'', money_json (prod_price p)),
       (''currency'', JStr (prod_currency p)), (''stock_quantity'', JInt (prod_stock_quantity p)),
       (''reserved_quantity'', JInt (prod_reserved_quantity p)),
       (''available_quantity'', JInt (available_quantity p)), (''is_active'', JBool (prod_is_active p)),
       (''image_key'', JStr (prod_image_key p)), (''image_url'', JStr (image_url st p)),
       (''created_at'', JInt (created_at p)), (''updated_at'', JInt (updated_at p))]"

definition product_response :: "nat \<Rightarrow> storage \<Rightarrow> req_ctx \<Rightarrow> product \<Rightarrow> http_response" where
  "product_response code st r p = json_response code [] (envelope (admin_product_json st p) (rq_id r) [])"

definition product_list_get :: "settings \<Rightarrow> storage \<Rightarrow> query \<Rightarrow> user \<Rightarrow> handler" where
  "product_list_get cfg st q u r =
     bindE (gets (\<lambda>w. order_by_text cfg prod_sku (objects products_tbl w)))
       (list_response cfg r q (admin_product_json st))"

definition get_product :: "uuid \<Rightarrow> product act" where
  "get_product i = get_row products_tbl (\<lambda>p. row_id p = i) (ResourceNotFound ''Product not found'')"

record product_input =
  prq_name :: "string option"
  prq_description :: "string option"
  prq_price :: "money option"
  prq_currency :: "string option"
  prq_stock_quantity :: "int option"
  prq_is_active :: "bool option"

definition currency_errors :: "string option \<Rightarrow> dict" where
  "currency_errors c =
     (case c of None \<Rightarrow> []
      | Some s \<Rightarrow> if currency_re s then [] else
          [(''currency'', JList [JStr ''Currency must be a three-letter uppercase ISO 4217 code (e.g. SAR, USD).''])])"

definition sku_errors :: "string \<Rightarrow> world \<Rightarrow> dict" where
  "sku_errors sku w =
     (if exists_where (\<lambda>p. prod_sku p = sku) (objects products_tbl w)
      then [(''sku'', JList [JStr (''SKU '' @ quoted sku @ '' already exists on this tenant.'')])] else [])"

definition raise_errors :: "dict \<Rightarrow> unit act" where
  "raise_errors errs = guard_that (errs = []) (ValidationError (JObj errs))"

definition apply_product :: "product_input \<Rightarrow> product \<Rightarrow> product" where
  "apply_product v p =
     p\<lparr>prod_name := opt_or (prq_name v) (prod_name p),
       prod_description := opt_or (prq_description v) (prod_description p),
       prod_price := opt_or (prq_price v) (prod_price p),
       prod_currency := opt_or (prq_currency v) (prod_currency p),
       prod_stock_quantity := opt_or (prq_stock_quantity v) (prod_stock_quantity p),
       prod_is_active := opt_or (prq_is_active v) (prod_is_active p)\<rparr>"

definition blank_product :: "string \<Rightarrow> product" where
  "blank_product sku =
     \<lparr>row_id = 0, tenant_id = 0, created_at = 0, updated_at = 0, prod_sku = sku, prod_name = '''',
      prod_description = '''', prod_price = 0, prod_currency = '''', prod_stock_quantity = 0,
      prod_reserved_quantity = 0, prod_is_active = True, prod_image_key = ''''\<rparr>"

definition product_create_post :: "storage \<Rightarrow> string \<Rightarrow> product_input \<Rightarrow> user \<Rightarrow> handler" where
  "product_create_post st sku v u r =
     bindE (gets (\<lambda>w. sku_errors sku w @ required_field ''name'' (prq_name v) @ required_field ''price'' (prq_price v) @
              required_field ''currency'' (prq_currency v) @ currency_errors (prq_currency v))) (\<lambda>errs.
     seqE (raise_errors errs)
       (bindE (create products_tbl (apply_product v (blank_product sku))) (\<lambda>p.
        ret (product_response 201 st r p))))"

definition stock_below_reserved :: "int \<Rightarrow> product \<Rightarrow> exn" where
  "stock_below_reserved n p = ValidationError (JObj [(''stock_quantity'', JStr
     (''Cannot set stock_quantity ('' @ show_int n @ '') below the currently reserved quantity ('' @
      show_int (prod_reserved_quantity p) @ '').''))])"

definition currency_in_use :: exn where
  "currency_in_use = ValidationError (JObj [(''currency'', JStr
     ''Cannot change currency while the product is in any active or in-flight cart.'')])"

text \<open>The items are those of the tenant; the cart of an item is joined as it is.\<close>

definition in_open_cart :: "uuid \<Rightarrow> world \<Rightarrow> bool" where
  "in_open_cart i w \<longleftrightarrow>
     exists_where (\<lambda>x. item_product x = i \<and>
         exists_where (\<lambda>c. row_id c = item_cart x \<and> (cart_status c = CartActive \<or> cart_status c = CartCheckingOut))
           (db_carts w))
       (objects cart_items_tbl w)"

definition patch_product_guards :: "product_input \<Rightarrow> product \<Rightarrow> unit act" where
  "patch_product_guards v p =
     seqE (raise_errors (currency_errors (prq_currency v)))
       (seqE (case prq_stock_quantity v of None \<Rightarrow> ret ()
              | Some n \<Rightarrow> guard_that (prod_reserved_quantity p \<le> n) (stock_below_reserved n p))
         (case prq_currency v of None \<Rightarrow> ret ()
          | Some c \<Rightarrow> if c = prod_currency p then ret ()
              else bindE (gets (in_open_cart (row_id p))) (\<lambda>used. guard_that (\<not> used) currency_in_use)))"

definition patch_product :: "uuid \<Rightarrow> product_input \<Rightarrow> product act" where
  "patch_product i v = atomic
     (bindE (get_product i) (\<lambda>p.
      seqE (patch_product_guards v p) (save_row products_tbl (apply_product v p))))"

definition product_detail_patch :: "storage \<Rightarrow> uuid \<Rightarrow> product_input \<Rightarrow> user \<Rightarrow> handler" where
  "product_detail_patch st i v u r = bindE (patch_product i v) (\<lambda>p. ret (product_response 200 st r p))"

definition product_detail_get :: "storage \<Rightarrow> uuid \<Rightarrow> user \<Rightarrow> handler" where
  "product_detail_get st i u r = bindE (get_product i) (\<lambda>p. ret (product_response 200 st r p))"

definition product_detail_delete :: "uuid \<Rightarrow> user \<Rightarrow> handler" where
  "product_detail_delete i u r =
     bindE (get_product i) (\<lambda>p.
     seqE (if prod_is_active p
           then bindE (save_fields products_tbl (\<lambda>x. x\<lparr>prod_is_active := False\<rparr>) p) (\<lambda>_. ret ()) else ret ())
       (ret no_content))"

lemma product_lists_keep:
  "preserves I (storefront_product_list cfg st q c r)" "preserves I (product_list_get cfg st q u r)"
  unfolding storefront_product_list_def product_list_get_def by (intro hoare_intros)+

subsection \<open>Images\<close>

record upload =
  up_bytes :: int
  up_content_type :: string

definition image_types :: "(string \<times> string) list" where
  "image_types = [(''image/jpeg'', ''jpg''), (''image/png'', ''png''), (''image/webp'', ''webp'')]"

definition image_key_for :: "uuid \<Rightarrow> uuid \<Rightarrow> string \<Rightarrow> string" where
  "image_key_for t p ext = ''tenants/'' @ uuid_str t @ ''/products/'' @ uuid_str p @ ''/main.'' @ ext"

definition upload_product_image :: "storage \<Rightarrow> uuid \<Rightarrow> uuid \<Rightarrow> upload \<Rightarrow> string act" where
  "upload_product_image st t p f =
     bindE (lift_sum (validate_upload image_types (5 * 1024 * 1024) (up_bytes f) (Some (up_content_type f)))) (\<lambda>ext.
     save_uploaded_file st ''media'' (image_key_for t p ext) (up_content_type f) None)"

definition delete_product_image :: "string \<Rightarrow> unit act" where
  "delete_product_image key = bindE (delete_object ''media'' key) (\<lambda>_. ret ())"

definition product_image_post :: "storage \<Rightarrow> uuid \<Rightarrow> upload option \<Rightarrow> user \<Rightarrow> handler" where
  "product_image_post st i file u r =
     bindE (get_product i) (\<lambda>p.
     case file of
       None \<Rightarrow> throw (ValidationError (JObj [(''file'', JStr ''Required.'')]))
     | Some f \<Rightarrow>
         bindE (upload_product_image st (tenant_id p) (row_id p) f) (\<lambda>new_key.
         bindE (save_fields products_tbl (\<lambda>x. x\<lparr>prod_image_key := new_key\<rparr>) p) (\<lambda>p'.
         seqE (if prod_image_key p \<noteq> [] \<and> prod_image_key p \<noteq> new_key
               then delete_product_image (prod_image_key p) else ret ())
           (ret (product_response 200 st r p')))))"

definition product_image_delete :: "uuid \<Rightarrow> user \<Rightarrow> handler" where
  "product_image_delete i u r =
     bindE (get_product i) (\<lambda>p.
     seqE (if prod_image_key p \<noteq> []
           then seqE (delete_product_image (prod_image_key p))
                  (bindE (save_fields products_tbl (\<lambda>x. x\<lparr>prod_image_key := ''''\<rparr>) p) (\<lambda>_. ret ()))
           else ret ())
       (ret no_content))"

subsection \<open>The ledger under administration\<close>

text \<open>A change that keeps identifier, tenant and reserved quantity of the rows it touches keeps the ledger.\<close>

lemma inv_products_upd:
  assumes i: "inv t ids w" and ok: "tbl_ok products_tbl (upd_where P f (db_products w))"
    and keep: "\<And>x. x \<in> set (db_products w) \<Longrightarrow> P x \<Longrightarrow>
      row_id (f x) = row_id x \<and> tenant_id (f x) = tenant_id x \<and> prod_reserved_quantity (f x) = prod_reserved_quantity x"
  shows "inv t ids (w\<lparr>db_products := upd_where P f (db_products w)\<rparr>)"
proof -
  let ?g = "\<lambda>x. if P x then f x else x"
  have set: "set (upd_where P f (db_products w)) = ?g ` set (db_products w)" by (rule set_upd_where)
  have same: "row_id (?g x) = row_id x \<and> tenant_id (?g x) = tenant_id x \<and> prod_reserved_quantity (?g x) = prod_reserved_quantity x"
    if "x \<in> set (db_products w)" for x using keep [OF that] by simp
  have l: "ledger w" using i by (simp add: inv_def)
  have "prod_reserved_quantity p = active_qty (db_reservations w) (row_id p)"
    if p: "p \<in> set (upd_where P f (db_products w))" for p
  proof -
    obtain x where x: "x \<in> set (db_products w)" "p = ?g x" using p unfolding set by blast
    then have "prod_reserved_quantity x = active_qty (db_reservations w) (row_id x)" using l by (simp add: ledger_def)
    with same [OF x(1)] x(2) show ?thesis by simp
  qed
  moreover have "backed (upd_where P f (db_products w)) r" if "r \<in> set (db_reservations w)" for r
  proof -
    have "backed (db_products w) r" using l that by (simp add: ledger_def)
    then obtain p where p: "p \<in> set (db_products w)" "row_id p = res_product r" "tenant_id p = tenant_id r" "0 \<le> res_quantity r"
      by (auto simp: backed_def)
    then have "?g p \<in> set (upd_where P f (db_products w))" unfolding set by (intro imageI)
    then show ?thesis unfolding backed_def using p(2-4) same [OF p(1)] by (intro conjI bexI [of _ "?g p"]) simp_all
  qed
  ultimately have "ledger (w\<lparr>db_products := upd_where P f (db_products w)\<rparr>)"
    using l ok by (simp add: ledger_def)
  with i ok show ?thesis by (simp add: inv_def owned_def)
qed

lemma inv_products_insert:
  assumes i: "inv t ids w" and ok: "tbl_ok products_tbl (db_products w @ [p])" and "prod_reserved_quantity p = 0"
  shows "inv t ids (w\<lparr>db_products := db_products w @ [p]\<rparr>)"
proof -
  have l: "ledger w" using i by (simp add: inv_def)
  have new: "row_id p \<notin> row_id ` set (db_products w)" using ok by (simp add: products_ok)
  have "\<not> holds_stock (row_id p) r" if "r \<in> set (db_reservations w)" for r
  proof -
    have "backed (db_products w) r" using l that by (simp add: ledger_def)
    with new show ?thesis by (auto simp: backed_def holds_stock_def image_iff)
  qed
  then have "filter (holds_stock (row_id p)) (db_reservations w) = []" by (simp add: filter_empty_conv)
  then have zero: "active_qty (db_reservations w) (row_id p) = 0" by (simp add: active_qty_def)
  have "backed (db_products w @ [p]) r" if "r \<in> set (db_reservations w)" for r
    using l that by (auto simp: ledger_def backed_def)
  with l ok zero assms(3) have "ledger (w\<lparr>db_products := db_products w @ [p]\<rparr>)" by (simp add: ledger_def)
  with i ok show ?thesis by (simp add: inv_def owned_def)
qed

lemma inv_product_unique:
  "inv t ids w \<Longrightarrow> x \<in> set (db_products w) \<Longrightarrow> y \<in> set (db_products w) \<Longrightarrow> row_id x = row_id y \<Longrightarrow> x = y"
  by (auto simp: inv_def ledger_def products_ok distinct_map dest: inj_onD)

lemma patch_guards_keep: "snd (patch_product_guards v p w) = w"
proof -
  have "preserves (\<lambda>s. s = w) (patch_product_guards v p)"
    unfolding patch_product_guards_def raise_errors_def by (intro hoare_intros)
  then show ?thesis by (simp add: preserves_def)
qed

lemma save_products_Inl:
  assumes "save_fields products_tbl f x w = (Inl e, w')"
  shows "w' = w"
proof -
  have same: "upd_where (\<lambda>r. row_id r = i) g rs = rs" if "filter (\<lambda>r. row_id r = i) rs = []" for i g and rs :: "product list"
    using that by (intro upd_where_none) (auto simp: filter_empty_conv)
  from assms show ?thesis
    by (auto simp: save_fields_def bindE_def update_where_def write_rows_def same split: if_splits)
qed

lemma patch_product_inv: "preserves (inv t ids) (patch_product i v)"
  unfolding patch_product_def
proof (rule preserves_inv_atomic)
  let ?I = "inv t ids"
  have "valid (\<lambda>w. ?I w \<and> p \<in> set (db_products w)) (seqE (patch_product_guards v p) (save_row products_tbl (apply_product v p)))
      (\<lambda>_. ?I) (\<lambda>_. ?I)" for p
  proof (rule valid_seqE)
    have "preserves (\<lambda>w. ?I w \<and> p \<in> set (db_products w)) (patch_product_guards v p)"
      unfolding patch_product_guards_def raise_errors_def by (intro hoare_intros)
    then show "valid (\<lambda>w. ?I w \<and> p \<in> set (db_products w)) (patch_product_guards v p)
        (\<lambda>_ w. ?I w \<and> p \<in> set (db_products w)) (\<lambda>_. ?I)"
      unfolding preserves_valid by (rule valid_weaken) auto
    show "valid (\<lambda>w. ?I w \<and> p \<in> set (db_products w)) (save_row products_tbl (apply_product v p)) (\<lambda>_. ?I) (\<lambda>_. ?I)"
    proof (rule validI)
      fix w e w' assume "?I w \<and> p \<in> set (db_products w)"
        and "save_row products_tbl (apply_product v p) w = (Inl e, w')"
      then show "?I w'"
        by (auto simp: save_row_def dest: save_products_Inl)
    next
      fix w y w' assume a: "?I w \<and> p \<in> set (db_products w)"
        and run: "save_row products_tbl (apply_product v p) w = (Inr y, w')"
      have same: "x = p" if "x \<in> set (db_products w)" "row_id x = row_id p" for x
        using inv_product_unique [of t ids w x p] a that by blast
      let ?x = "(apply_product v p)\<lparr>updated_at := clock w\<rparr>"
      have "inv t ids (w\<lparr>db_products := upd_where (\<lambda>r. row_id r = row_id (apply_product v p)) (\<lambda>_. ?x) (db_products w)\<rparr>)"
      proof (rule inv_products_upd)
        show "tbl_ok products_tbl (upd_where (\<lambda>r. row_id r = row_id (apply_product v p)) (\<lambda>_. ?x) (db_products w))"
          using save_fields_Inr(3) [OF run [unfolded save_row_def]] by simp
        fix x assume "x \<in> set (db_products w)" "row_id x = row_id (apply_product v p)"
        then have "x = p" by (intro same) (simp_all add: apply_product_def)
        then show "row_id ?x = row_id x \<and> tenant_id ?x = tenant_id x \<and> prod_reserved_quantity ?x = prod_reserved_quantity x"
          by (simp add: apply_product_def)
      qed (use a in simp)
      then show "?I w'" using save_fields_Inr(2) [OF run [unfolded save_row_def]] by simp
    qed
  qed
  then show "preserves ?I (bindE (get_product i) (\<lambda>p. seqE (patch_product_guards v p) (save_row products_tbl (apply_product v p))))"
    unfolding preserves_valid get_product_def
    by (intro valid_bindE [where R = "\<lambda>p w. inv t ids w \<and> p \<in> set (db_products w)"] valid_weaken [OF valid_get_row])
      auto
qed

lemma save_product_flag_inv:
  assumes "\<And>x. row_id (f x) = row_id x \<and> tenant_id (f x) = tenant_id x \<and> prod_reserved_quantity (f x) = prod_reserved_quantity x"
  shows "preserves (inv t ids) (save_fields products_tbl f p)"
  by (rule preserves_save_fields) (auto intro!: inv_products_upd simp: assms)

lemma delete_object_inv: "preserves (inv t ids) (delete_object alias key)"
  unfolding delete_object_def by (intro hoare_intros preserves_modify) simp_all

lemma catalog_views_inv:
  "preserves (inv t {}) (product_create_post st sku v u r)" "preserves (inv t {}) (product_detail_get st i u r)"
  "preserves (inv t {}) (product_detail_patch st i v u r)" "preserves (inv t {}) (product_detail_delete i u r)"
  "preserves (inv t {}) (product_image_post st i file u r)" "preserves (inv t {}) (product_image_delete i u r)"
proof -
  have "preserves (inv t {}) (create products_tbl (apply_product v (blank_product sku)))"
    by (rule preserves_create) (auto intro!: inv_products_insert [of _ _ "_\<lparr>fresh_id := _\<rparr>", simplified]
        simp: stamp_def apply_product_def blank_product_def)
  then show "preserves (inv t {}) (product_create_post st sku v u r)"
    unfolding product_create_post_def raise_errors_def by (intro hoare_intros)
  show "preserves (inv t {}) (product_detail_get st i u r)" "preserves (inv t {}) (product_detail_patch st i v u r)"
    "preserves (inv t {}) (product_detail_delete i u r)" "preserves (inv t {}) (product_image_post st i file u r)"
    "preserves (inv t {}) (product_image_delete i u r)"
    unfolding product_detail_get_def product_detail_patch_def product_detail_delete_def product_image_post_def
      product_image_delete_def get_product_def upload_product_image_def save_uploaded_file_def delete_product_image_def
    by (intro hoare_intros patch_product_inv save_product_flag_inv save_bytes_inv delete_object_inv; simp)+
qed

text \<open>Stock cannot go below what is reserved: the request is refused with a message, not by the database.\<close>

lemma patch_below_reserved:
  assumes "get_product i w = (Inr p, w)" and "currency_errors (prq_currency v) = []"
    and "prq_stock_quantity v = Some n" "n < prod_reserved_quantity p"
  shows "patch_product i v w = (Inl (stock_below_reserved n p), rollback w (enter_atomic w))"
proof -
  have "get_product i (enter_atomic w) = (Inr p, enter_atomic w)"
    using assms(1) by (auto simp: get_product_def get_row_def objects_def enter_atomic_def in_scope_def split: option.splits)
  with assms(2-4) show ?thesis
    by (simp add: patch_product_def atomic_def atomic_with_def bindE_def patch_product_guards_def raise_errors_def)
qed

text \<open>A patch that passes the guards and keeps the price non-negative is never refused by the database.\<close>

lemma patch_guards_Inr:
  assumes "patch_product_guards v p w = (Inr u, w')"
  shows "w' = w" and "\<forall>n. prq_stock_quantity v = Some n \<longrightarrow> prod_reserved_quantity p \<le> n"
    and "\<forall>c. prq_currency v = Some c \<longrightarrow> currency_re c \<and> (c = prod_currency p \<or> \<not> in_open_cart (row_id p) w)"
  using assms
  by (auto simp: patch_product_guards_def raise_errors_def currency_errors_def
      seqE_def bindE_def guard_that_def split: if_splits option.splits)

lemma product_rows_ok:
  assumes i: "inv t ids w" and p: "p \<in> set (db_products w)"
    and g: "\<forall>n. prq_stock_quantity v = Some n \<longrightarrow> prod_reserved_quantity p \<le> n"
    and price: "\<forall>c. prq_price v = Some c \<longrightarrow> 0 \<le> c"
  shows "tbl_ok products_tbl (upd_where (\<lambda>r. row_id r = row_id p) (\<lambda>_. (apply_product v p)\<lparr>updated_at := now\<rparr>) (db_products w))"
proof -
  have ok: "tbl_ok products_tbl (db_products w)" using i by (simp add: inv_def ledger_def)
  have same: "x = p" if "x \<in> set (db_products w)" "row_id x = row_id p" for x
    using inv_product_unique [OF i that(1) p that(2)] .
  have "product_ok p" using ok p by (simp add: products_ok list_all_iff)
  then have "product_ok ((apply_product v p)\<lparr>updated_at := now\<rparr>)"
    using g price by (auto simp: product_ok_def apply_product_def opt_or_def split: option.splits)
  moreover have "map row_id (upd_where (\<lambda>r. row_id r = row_id p) (\<lambda>_. (apply_product v p)\<lparr>updated_at := now\<rparr>) (db_products w)) =
      map row_id (db_products w)"
    by (rule map_upd_where_rows) (simp add: apply_product_def)
  moreover have "map (\<lambda>r. (tenant_id r, prod_sku r))
        (upd_where (\<lambda>r. row_id r = row_id p) (\<lambda>_. (apply_product v p)\<lparr>updated_at := now\<rparr>) (db_products w)) =
      map (\<lambda>r. (tenant_id r, prod_sku r)) (db_products w)"
    by (rule map_upd_where_rows) (auto simp: apply_product_def dest: same)
  ultimately show ?thesis using ok by (auto simp: products_ok list_all_iff set_upd_where)
qed

lemma patch_product_no_integrity_error:
  assumes i: "inv t ids w" and price: "\<forall>c. prq_price v = Some c \<longrightarrow> 0 \<le> c"
    and run: "patch_product i v w = (Inl e, w')"
  shows "e \<in> {ResourceNotFound ''Product not found'', MultipleObjectsReturned} \<or> (\<exists>j. e = ValidationError j)"
proof -
  let ?w = "enter_atomic w"
  obtain r w1 where inner: "bindE (get_product i) (\<lambda>p. seqE (patch_product_guards v p) (save_row products_tbl (apply_product v p))) ?w
      = (r, w1)" by fastforce
  have r: "r = Inl e" using run inner by (simp add: patch_product_def atomic_def atomic_with_def split: sum.splits)
  obtain g w2 where g: "get_product i ?w = (g, w2)" by fastforce
  show ?thesis
  proof (cases g)
    case (Inl e1)
    with inner r g have "e = e1" by (simp add: bindE_def)
    with get_row_Inl [OF g [unfolded get_product_def Inl]] show ?thesis by auto
  next
    case (Inr p)
    note p = get_row_Inr [OF g [unfolded get_product_def Inr]]
    obtain q w3 where q: "patch_product_guards v p ?w = (q, w3)" by fastforce
    have w3: "w3 = ?w" using patch_guards_keep [of v p ?w] q by simp
    have tail: "seqE (patch_product_guards v p) (save_row products_tbl (apply_product v p)) ?w = (Inl e, w1)"
      using inner r g p(1) Inr by (simp add: bindE_def)
    show ?thesis
    proof (cases q)
      case (Inl e1)
      with tail q have "e = e1" by (simp add: seqE_def bindE_def)
      with q Inl show ?thesis
        by (auto simp: patch_product_guards_def raise_errors_def seqE_def bindE_def guard_that_def stock_below_reserved_def
            currency_in_use_def split: if_splits option.splits)
    next
      case (Inr u)
      with tail q w3 have s: "save_row products_tbl (apply_product v p) ?w = (Inl e, w1)" by (simp add: seqE_def bindE_def)
      have "inv t ids ?w" using i by simp
      from product_rows_ok [OF this _ patch_guards_Inr(2) [OF q [unfolded Inr]] price, of "clock ?w"] p(2)
      have "tbl_ok products_tbl (upd_where (\<lambda>r. row_id r = row_id (apply_product v p))
          (\<lambda>_. (apply_product v p)\<lparr>updated_at := clock ?w\<rparr>) (db_products ?w))" by (simp add: apply_product_def)
      moreover have "filter (\<lambda>r. row_id r = row_id (apply_product v p)) (db_products ?w) \<noteq> []"
        using p(2) by (auto simp: filter_empty_conv apply_product_def)
      ultimately have False
        using s by (simp add: save_row_def save_fields_def bindE_def update_where_def write_rows_def)
      then show ?thesis ..
    qed
  qed
qed

text \<open>A successful change of currency means that no open cart of the tenant holds the product.\<close>

lemma patch_currency_guard:
  assumes run: "patch_product i v w = (Inr p', w')"
    and p: "get_product i (enter_atomic w) = (Inr p, enter_atomic w)" and "prod_currency p' \<noteq> prod_currency p"
  shows "\<not> in_open_cart i w"
proof -
  obtain w1 where "bindE (get_product i) (\<lambda>p. seqE (patch_product_guards v p) (save_row products_tbl (apply_product v p)))
      (enter_atomic w) = (Inr p', w1)" using run unfolding patch_product_def by (rule atomic_Inr_D)
  with p have tail: "seqE (patch_product_guards v p) (save_row products_tbl (apply_product v p)) (enter_atomic w) = (Inr p', w1)"
    by (simp add: bindE_def)
  then obtain u w2 where g: "patch_product_guards v p (enter_atomic w) = (Inr u, w2)"
    and s: "save_row products_tbl (apply_product v p) w2 = (Inr p', w1)"
    unfolding seqE_def by (rule bindE_Inr_D)
  have "prod_currency p' = opt_or (prq_currency v) (prod_currency p)"
    using save_fields_Inr(1) [OF s [unfolded save_row_def]] by (simp add: apply_product_def)
  with assms(3) obtain c where "prq_currency v = Some c" "c \<noteq> prod_currency p"
    by (cases "prq_currency v") (auto simp: opt_or_def)
  with patch_guards_Inr(3) [OF g] have "\<not> in_open_cart (row_id p) (enter_atomic w)" by blast
  moreover have "row_id p = i" using get_row_Inr(3) [OF p [unfolded get_product_def]] .
  ultimately show ?thesis by (auto simp: in_open_cart_def objects_def enter_atomic_def in_scope_def split: option.splits)
qed

end
