(* ===== verification/Customers.thy ===== *)
theory Customers
  imports Catalog
begin

section \<open>Customers and their addresses\<close>

text \<open>
  \<^verbatim>\<open>apps/customers\<close>: the address book a customer keeps, and the administration of customers, with
  the rule that a business customer has a tax number and a company. A request body is given by the fields that
  passed the checks the framework makes for their column types.
\<close>

subsection \<open>The address book\<close>

primrec address_label_value :: "address_label \<Rightarrow> string" where
  "address_label_value SHIPPING = ''shipping''"
| "address_label_value BILLING = ''billing''"
| "address_label_value BOTH = ''both''"

definition address_json :: "address \<Rightarrow> json" where
  "address_json a =
     JObj [(''id'', id_json (row_id a)), (''customer_id'', id_json (addr_customer a)),
       (''label'', JStr (address_label_value (addr_label a))), (''country'', JStr (addr_country a)),
       (''city'', JStr (addr_city a)), (''street'', JStr (addr_street a)),
       (''postal_code'', JStr (addr_postal_code a)), (''is_default'', JBool (addr_is_default a))]"

definition validate_country :: "string \<Rightarrow> exn + string" where
  "validate_country v =
     (let n = upper (strip v) in
      if country_re n then Inr n
      else Inl (field_error ''country''
        (''Country must be an ISO 3166-1 alpha-2 code (two letters, e.g. SA, AE), got '' @ quoted v @ ''.'')))"

record address_input =
  ai_label :: "address_label option"
  ai_country :: "string option"
  ai_city :: "string option"
  ai_street :: "string option"
  ai_postal_code :: "string option"
  ai_is_default :: "bool option"

text \<open>All fields are needed unless the update is partial or the column has a default.\<close>

definition address_validate :: "bool \<Rightarrow> address_input \<Rightarrow> exn + address_input" where
  "address_validate partial v =
     (let missing = (if partial then []
            else required_field ''country'' (ai_country v) @ required_field ''city'' (ai_city v) @
                 required_field ''street'' (ai_street v))
      in if missing \<noteq> [] then Inl (ValidationError (JObj missing))
         else case ai_country v of
                None \<Rightarrow> Inr v
              | Some c \<Rightarrow> bind_sum (validate_country c) (\<lambda>n. Inr (v\<lparr>ai_country := Some n\<rparr>)))"

definition apply_address :: "address_input \<Rightarrow> address \<Rightarrow> address" where
  "apply_address v a =
     a\<lparr>addr_label := opt_or (ai_label v) (addr_label a), addr_country := opt_or (ai_country v) (addr_country a),
       addr_city := opt_or (ai_city v) (addr_city a), addr_street := opt_or (ai_street v) (addr_street a),
       addr_postal_code := opt_or (ai_postal_code v) (addr_postal_code a),
       addr_is_default := opt_or (ai_is_default v) (addr_is_default a)\<rparr>"

definition blank_address :: "uuid \<Rightarrow> address" where
  "blank_address customer =
     \<lparr>row_id = 0, tenant_id = 0, created_at = 0, updated_at = 0, addr_customer = customer, addr_label = BOTH,
      addr_country = '''', addr_city = '''', addr_street = '''', addr_postal_code = '''', addr_is_default = False\<rparr>"

definition own_addresses :: "customer \<Rightarrow> uuid \<Rightarrow> world \<Rightarrow> exn + address list" where
  "own_addresses c customer_id w =
     (if row_id c \<noteq> customer_id then Inl (Forbidden ''You can only access your own addresses'')
      else Inr (filter (\<lambda>a. addr_customer a = customer_id) (objects addresses_tbl w)))"

definition get_address :: "customer \<Rightarrow> uuid \<Rightarrow> uuid \<Rightarrow> address act" where
  "get_address c customer_id i =
     bindE (gets (own_addresses c customer_id)) (\<lambda>qs.
     bindE (lift_sum qs) (\<lambda>rows. lift_sum (one_or_raise (not_found ''Address'') (get_where (\<lambda>a. row_id a = i) rows))))"

text \<open>The list is paginated like every other, whatever its documentation says.\<close>

definition address_list_get :: "settings \<Rightarrow> query \<Rightarrow> uuid \<Rightarrow> customer \<Rightarrow> handler" where
  "address_list_get cfg q customer_id c r =
     bindE (gets (own_addresses c customer_id)) (\<lambda>qs.
     bindE (lift_sum qs) (\<lambda>rows.
     list_response cfg r q address_json (true_first addr_is_default (order_by_text cfg addr_city rows))))"

text \<open>The path is compared with the customer after the body was checked.\<close>

definition address_list_post :: "uuid \<Rightarrow> address_input \<Rightarrow> customer \<Rightarrow> handler" where
  "address_list_post customer_id v c r =
     bindE (lift_sum (address_validate False v)) (\<lambda>v.
     seqE (guard_that (row_id c = customer_id) (Forbidden ''You can only access your own addresses''))
       (bindE (create addresses_tbl (apply_address v (blank_address customer_id))) (\<lambda>a.
        ret (json_response 201 [] (address_json a)))))"

definition address_detail_get :: "uuid \<Rightarrow> uuid \<Rightarrow> customer \<Rightarrow> handler" where
  "address_detail_get customer_id i c r =
     bindE (get_address c customer_id i) (\<lambda>a. ret (json_response 200 [] (address_json a)))"

definition address_detail_update :: "bool \<Rightarrow> uuid \<Rightarrow> uuid \<Rightarrow> address_input \<Rightarrow> customer \<Rightarrow> handler" where
  "address_detail_update partial customer_id i v c r =
     bindE (get_address c customer_id i) (\<lambda>a.
     bindE (lift_sum (address_validate partial v)) (\<lambda>v.
     bindE (save_row addresses_tbl (apply_address v a)) (\<lambda>a'. ret (json_response 200 [] (address_json a')))))"

text \<open>The slots of a cart are set to null when the address they name is deleted.\<close>

definition clear_slots :: "uuid \<Rightarrow> cart \<Rightarrow> cart" where
  "clear_slots i x =
     x\<lparr>cart_shipping_address := (if cart_shipping_address x = Some i then None else cart_shipping_address x),
       cart_billing_address := (if cart_billing_address x = Some i then None else cart_billing_address x)\<rparr>"

definition address_detail_delete :: "uuid \<Rightarrow> uuid \<Rightarrow> customer \<Rightarrow> handler" where
  "address_detail_delete customer_id i c r =
     bindE (get_address c customer_id i) (\<lambda>a.
     bindE (update_rows_all carts_tbl
              (\<lambda>x. cart_shipping_address x = Some (row_id a) \<or> cart_billing_address x = Some (row_id a))
              (clear_slots (row_id a))) (\<lambda>_.
     bindE (delete_where addresses_tbl (\<lambda>_ x. row_id x = row_id a)) (\<lambda>_. ret no_content)))"

subsection \<open>The administration of customers\<close>

definition customer_fields :: "customer \<Rightarrow> dict" where
  "customer_fields c =
     [(''email'', JStr (cust_email c)), (''name'', JStr (cust_name c)), (''phone'', JStr (cust_phone c)),
      (''customer_type'', JStr (customer_type_value (cust_type c))), (''tax_id'', JStr (cust_tax_id c)),
      (''company_name'', JStr (cust_company_name c)), (''is_b2b'', JBool (is_b2b c)),
      (''is_active'', JBool (cust_is_active c)), (''created_at'', JInt (created_at c)),
      (''updated_at'', JInt (updated_at c))]"

definition admin_customer_json :: "customer \<Rightarrow> json" where
  "admin_customer_json c = JObj ((''id'', id_json (row_id c)) # customer_fields c)"

definition customer_response :: "nat \<Rightarrow> req_ctx \<Rightarrow> customer \<Rightarrow> http_response" where
  "customer_response code r c = json_response code [] (envelope (admin_customer_json c) (rq_id r) [])"

record customer_input =
  cin_name :: "string option"
  cin_phone :: "string option"
  cin_customer_type :: "customer_type option"
  cin_tax_id :: "string option"
  cin_company_name :: "string option"
  cin_is_active :: "bool option"

definition validate_b2b_fields :: "customer_type option \<Rightarrow> string \<Rightarrow> string \<Rightarrow> exn + unit" where
  "validate_b2b_fields ctype tax_id company_name =
     (let missing = (if tax_id = [] then [''tax_id''] else []) @ (if company_name = [] then [''company_name''] else [])
      in if ctype = Some B2B \<and> missing \<noteq> []
         then Inl (ValidationError (JObj (map (\<lambda>f. (f, JStr ''Required for B2B customers.'')) missing)))
         else Inr ())"

definition validate_email :: "string \<Rightarrow> customer list \<Rightarrow> exn + string" where
  "validate_email v existing =
     (let n = lower (strip v) in
      if n = [] then Inl (field_error ''email'' ''Email is required.'')
      else if exists_where (\<lambda>c. cust_email c = n) existing
      then Inl (field_error ''email'' (''A customer with email '' @ quoted n @ '' already exists on this tenant.''))
      else Inr n)"

definition apply_customer :: "customer_input \<Rightarrow> customer \<Rightarrow> customer" where
  "apply_customer v c =
     c\<lparr>cust_name := opt_or (cin_name v) (cust_name c), cust_phone := opt_or (cin_phone v) (cust_phone c),
       cust_type := opt_or (cin_customer_type v) (cust_type c), cust_tax_id := opt_or (cin_tax_id v) (cust_tax_id c),
       cust_company_name := opt_or (cin_company_name v) (cust_company_name c),
       cust_is_active := opt_or (cin_is_active v) (cust_is_active c)\<rparr>"

definition blank_customer :: "string \<Rightarrow> customer" where
  "blank_customer email =
     \<lparr>row_id = 0, tenant_id = 0, created_at = 0, updated_at = 0, cust_email = email, cust_name = '''',
      cust_phone = '''', cust_type = B2C, cust_tax_id = '''', cust_company_name = '''', cust_is_active = True\<rparr>"

definition customer_create_post :: "string \<Rightarrow> customer_input \<Rightarrow> user \<Rightarrow> handler" where
  "customer_create_post email v u r =
     bindE (gets (\<lambda>w. validate_email email (objects customers_tbl w))) (\<lambda>checked.
     bindE (lift_sum checked) (\<lambda>n.
     bindE (lift_sum (validate_b2b_fields (cin_customer_type v) (opt_or (cin_tax_id v) [])
              (opt_or (cin_company_name v) []))) (\<lambda>_.
     bindE (create customers_tbl (apply_customer v (blank_customer n))) (\<lambda>c. ret (customer_response 201 r c)))))"

definition get_customer :: "uuid \<Rightarrow> customer act" where
  "get_customer i = get_row customers_tbl (\<lambda>c. row_id c = i) (CustomerNotFound ''Customer not found'')"

definition customer_detail_get :: "uuid \<Rightarrow> user \<Rightarrow> handler" where
  "customer_detail_get i u r = bindE (get_customer i) (\<lambda>c. ret (customer_response 200 r c))"

definition update_validate :: "customer_input \<Rightarrow> customer \<Rightarrow> exn + unit" where
  "update_validate v c =
     validate_b2b_fields (Some (opt_or (cin_customer_type v) (cust_type c)))
       (opt_or (cin_tax_id v) (cust_tax_id c)) (opt_or (cin_company_name v) (cust_company_name c))"

definition customer_detail_patch :: "uuid \<Rightarrow> customer_input \<Rightarrow> user \<Rightarrow> handler" where
  "customer_detail_patch i v u r =
     bindE (get_customer i) (\<lambda>c.
     bindE (lift_sum (update_validate v c)) (\<lambda>_.
     bindE (save_row customers_tbl (apply_customer v c)) (\<lambda>c'. ret (customer_response 200 r c'))))"

definition customer_detail_delete :: "uuid \<Rightarrow> user \<Rightarrow> handler" where
  "customer_detail_delete i u r =
     bindE (get_customer i) (\<lambda>c.
     seqE (if cust_is_active c
           then bindE (save_fields customers_tbl (\<lambda>x. x\<lparr>cust_is_active := False\<rparr>) c) (\<lambda>_. ret ()) else ret ())
       (ret no_content))"

definition customer_queryset :: "settings \<Rightarrow> query \<Rightarrow> world \<Rightarrow> exn + customer list" where
  "customer_queryset cfg q w =
     map_sum_inr (order_by_text cfg cust_email) (
     bind_sum (opt_filter (query_get q ''email'') (\<lambda>x. Inr (\<lambda>c. icontains (cust_email c) x)) (objects customers_tbl w)) (\<lambda>qs.
     bind_sum (opt_filter (query_get q ''customer_type'')
       (\<lambda>x. if upper x \<in> {''B2B'', ''B2C''} then Inr (\<lambda>c. customer_type_value (cust_type c) = upper x)
            else Inl (ValidationError (JObj [(''customer_type'', JStr (''Must be one of ['' @ quoted ''B2B'' @ '', '' @
                   quoted ''B2C'' @ ''], got '' @ quoted x @ ''.''))]))) qs) (\<lambda>qs.
     opt_filter (query_get q ''is_active'')
       (\<lambda>x. map_sum_inr (\<lambda>b c. cust_is_active c = b) (parse_bool x ''is_active'')) qs)))"

definition customer_list_get :: "settings \<Rightarrow> query \<Rightarrow> user \<Rightarrow> handler" where
  "customer_list_get cfg q u r =
     bindE (gets (customer_queryset cfg q)) (\<lambda>qs.
     bindE (lift_sum qs) (list_response cfg r q admin_customer_json))"

subsection \<open>The search of the platform\<close>

definition subdomain_of :: "world \<Rightarrow> customer \<Rightarrow> string option" where
  "subdomain_of w c = map_option ten_subdomain (find (\<lambda>t. ten_id t = tenant_id c) (db_tenants w))"

definition platform_customer_json :: "world \<Rightarrow> customer \<Rightarrow> json" where
  "platform_customer_json w c =
     JObj ([(''id'', id_json (row_id c)), (''tenant_id'', id_json (tenant_id c)),
       (''tenant_subdomain'', case subdomain_of w c of None \<Rightarrow> JNull | Some s \<Rightarrow> JStr s)] @ customer_fields c)"

definition platform_customer_search :: "settings \<Rightarrow> query \<Rightarrow> world \<Rightarrow> dict + customer list" where
  "platform_customer_search cfg q w =
     (let email = strip (query_get q ''email''); sub = query_get q ''tenant_subdomain'' in
      if email = []
      then Inl [(''code'', JStr ''email_query_required''),
             (''detail'', JStr ''Provide ?email= (case-insensitive substring); searching by tenant alone is not supported.'')]
      else if 254 < length email
      then Inl [(''code'', JStr ''email_query_too_long''), (''detail'', JStr ''Email query exceeds the 254-char cap.'')]
      else Inr (order_by_text cfg (\<lambda>c. opt_or (subdomain_of w c) []) (order_by_text cfg cust_email
           (filter (\<lambda>c. icontains (cust_email c) email \<and>
               (sub = [] \<or> exists_where (\<lambda>t. ten_id t = tenant_id c \<and> ten_subdomain t = sub) (db_tenants w)))
             (all_objects customers_tbl w)))))"

definition platform_customer_list_get :: "settings \<Rightarrow> query \<Rightarrow> user \<Rightarrow> handler" where
  "platform_customer_list_get cfg q u r =
     bindE (gets (\<lambda>w. (platform_customer_search cfg q w, w))) (\<lambda>(res, w).
     case res of
       Inl e \<Rightarrow> ret (json_response 400 [] (error_envelope [Some e] (rq_id r)))
     | Inr cs \<Rightarrow> list_response cfg r q (platform_customer_json w) cs)"

subsection \<open>What the views keep\<close>

lemma get_address_inv: "preserves I (get_address c cid i)"
  unfolding get_address_def by (intro hoare_intros)

lemma customer_views_inv:
  "preserves (inv t {}) (address_list_get cfg q cid c r)" "preserves (inv t {}) (address_list_post cid v c r)"
  "preserves (inv t {}) (address_detail_get cid i c r)" "preserves (inv t {}) (address_detail_update part cid i v c r)"
  "preserves (inv t {}) (address_detail_delete cid i c r)"
  "preserves (inv t {}) (customer_create_post email cv u r)" "preserves (inv t {}) (customer_detail_get i u r)"
  "preserves (inv t {}) (customer_detail_patch i cv u r)" "preserves (inv t {}) (customer_detail_delete i u r)"
  unfolding address_list_get_def address_list_post_def address_detail_get_def address_detail_update_def
    address_detail_delete_def customer_create_post_def customer_detail_get_def customer_detail_patch_def
    customer_detail_delete_def get_customer_def
  by (intro op_intros list_response_keeps get_address_inv; simp)+

lemma customer_list_keeps: "preserves I (customer_list_get cfg q u r)"
  unfolding customer_list_get_def by (intro hoare_intros)

text \<open>A business customer that the administration lets through can be invoiced.\<close>

definition invoiceable :: "customer \<Rightarrow> bool" where
  "invoiceable c \<longleftrightarrow> is_b2b c \<longrightarrow> cust_tax_id c \<noteq> [] \<and> cust_company_name c \<noteq> []"

definition all_invoiceable :: "world \<Rightarrow> bool" where
  "all_invoiceable w \<longleftrightarrow> (\<forall>c \<in> set (db_customers w). invoiceable c)"

lemma validate_b2b_Inr:
  "validate_b2b_fields ct tx co = Inr u \<Longrightarrow> ct = Some B2B \<Longrightarrow> tx \<noteq> [] \<and> co \<noteq> []"
  by (auto simp: validate_b2b_fields_def Let_def split: if_splits)

lemma update_validate_invoiceable: "update_validate v c = Inr u \<Longrightarrow> invoiceable ((apply_customer v c)\<lparr>updated_at := now\<rparr>)"
  unfolding update_validate_def
  by (auto dest: validate_b2b_Inr simp: invoiceable_def is_b2b_def apply_customer_def)

lemma create_invoiceable:
  assumes "validate_b2b_fields (cin_customer_type v) (opt_or (cin_tax_id v) []) (opt_or (cin_company_name v) []) = Inr u"
  shows "invoiceable (stamp i t now (apply_customer v (blank_customer n)))"
  using validate_b2b_Inr [OF assms]
  by (auto simp: invoiceable_def is_b2b_def apply_customer_def blank_customer_def stamp_def opt_or_def split: option.splits)

lemma customers_invoiceable:
  "preserves all_invoiceable (customer_create_post email v u r)"
  "preserves all_invoiceable (customer_detail_patch i v u r)"
  "preserves all_invoiceable (customer_detail_delete i u r)"
proof -
  have "preserves all_invoiceable (create customers_tbl (apply_customer v (blank_customer n)))"
    if "validate_b2b_fields (cin_customer_type v) (opt_or (cin_tax_id v) []) (opt_or (cin_company_name v) []) = Inr u" for n u
    using create_invoiceable [OF that]
    by (intro preserves_create) (auto simp: all_invoiceable_def)
  then show "preserves all_invoiceable (customer_create_post email v u r)"
    unfolding customer_create_post_def by (intro hoare_intros preserves_bind_lift_sum)
  have "preserves all_invoiceable (save_row customers_tbl (apply_customer v c))" if "update_validate v c = Inr u" for c u
    using update_validate_invoiceable [OF that]
    by (intro preserves_save_row) (auto simp: all_invoiceable_def set_upd_where)
  then show "preserves all_invoiceable (customer_detail_patch i v u r)"
    unfolding customer_detail_patch_def get_customer_def by (intro hoare_intros preserves_bind_lift_sum)
  show "preserves all_invoiceable (customer_detail_delete i u r)"
    unfolding customer_detail_delete_def get_customer_def
    by (intro hoare_intros preserves_save_fields)
      (auto simp: all_invoiceable_def set_upd_where invoiceable_def is_b2b_def)
qed

text \<open>A blocked customer is not admitted any more.\<close>

lemma blocked_not_admitted:
  assumes run: "customer_detail_delete i u r w = (Inr resp, w')" and "inv t {} w" and "row_id c = i"
  shows "\<not> admitted cfg rq w' c"
proof -
  obtain x w1 where g: "get_customer i w = (Inr x, w1)"
    and rest: "seqE (if cust_is_active x
           then bindE (save_fields customers_tbl (\<lambda>x. x\<lparr>cust_is_active := False\<rparr>) x) (\<lambda>_. ret ()) else ret ())
       (ret no_content) w1 = (Inr resp, w')"
    using run unfolding customer_detail_delete_def by (rule bindE_Inr_D)
  note x = get_row_Inr [OF g [unfolded get_customer_def]]
  have d: "distinct (map row_id (db_customers w))"
    using schema_get(4) [OF inv_schema [OF assms(2)]] by (simp add: customers_tbl_def pk_ok_def)
  show ?thesis
  proof (cases "cust_is_active x")
    case False
    with rest x(1) have "w' = w" by simp
    moreover have "y = x" if "y \<in> set (db_customers w)" "row_id y = i" for y
      using that x d by (auto simp: distinct_map dest: inj_onD)
    ultimately show ?thesis using False assms(3) by (auto simp: admitted_def)
  next
    case True
    with rest x(1) obtain y where "save_fields customers_tbl (\<lambda>x. x\<lparr>cust_is_active := False\<rparr>) x w = (Inr y, w')"
      unfolding seqE_def by (auto elim!: bindE_Inr_D)
    from save_fields_Inr(2) [OF this] x(3) assms(3) show ?thesis
      by (auto simp: admitted_def set_upd_where)
  qed
qed

end
