(* ===== verification/CouponViews.thy ===== *)
theory CouponViews
  imports StoreViews
begin

section \<open>The administration of coupons\<close>

text \<open>
  The views of \<^verbatim>\<open>apps/coupons\<close> around the operations of the theory \<open>Coupons\<close>, and what they
  keep of the state.
\<close>

definition opt_money_json :: "money option \<Rightarrow> json" where
  "opt_money_json x = (case x of None \<Rightarrow> JNull | Some m \<Rightarrow> money_json m)"

definition admin_coupon_json :: "coupon \<Rightarrow> json" where
  "admin_coupon_json c =
     JObj [(''id'', id_json (row_id c)), (''code'', JStr (coup_code c)),
       (''discount_type'', JStr (discount_type_value (coup_discount_type c))),
       (''discount_value'', money_json (coup_discount_value c)), (''currency'', JStr (coup_currency c)),
       (''min_cart_subtotal'', opt_money_json (coup_min_cart_subtotal c)),
       (''allowed_countries'', JList (map JStr (coup_allowed_countries c))),
       (''customer_type_restriction'', JStr (restriction_value (coup_customer_type_restriction c))),
       (''max_uses'', opt_int_json (coup_max_uses c)), (''uses_count'', JInt (coup_uses_count c)),
       (''valid_from'', opt_int_json (coup_valid_from c)), (''valid_until'', opt_int_json (coup_valid_until c)),
       (''is_active'', JBool (coup_is_active c)), (''created_at'', JInt (created_at c)),
       (''updated_at'', JInt (updated_at c))]"

definition coupon_response :: "nat \<Rightarrow> req_ctx \<Rightarrow> coupon \<Rightarrow> http_response" where
  "coupon_response code r c = json_response code [] (envelope (admin_coupon_json c) (rq_id r) [])"

definition coupon_list_get :: "settings \<Rightarrow> query \<Rightarrow> user \<Rightarrow> handler" where
  "coupon_list_get cfg q u r =
     bindE (gets (\<lambda>w. order_by_text cfg coup_code (objects coupons_tbl w))) (list_response cfg r q admin_coupon_json)"

definition coupon_create_post :: "coupon_input \<Rightarrow> user \<Rightarrow> handler" where
  "coupon_create_post ci u r = bindE (create_coupon ci) (\<lambda>c. ret (coupon_response 201 r c))"

definition coupon_detail_get :: "uuid \<Rightarrow> user \<Rightarrow> handler" where
  "coupon_detail_get i u r = bindE (get_coupon i) (\<lambda>c. ret (coupon_response 200 r c))"

definition coupon_detail_patch :: "uuid \<Rightarrow> coupon_input \<Rightarrow> user \<Rightarrow> handler" where
  "coupon_detail_patch i ci u r = bindE (patch_coupon i ci) (\<lambda>c. ret (coupon_response 200 r c))"

definition coupon_detail_delete :: "uuid \<Rightarrow> user \<Rightarrow> handler" where
  "coupon_detail_delete i u r = bindE (delete_coupon i) (\<lambda>_. ret no_content)"

lemma preserves_attempt: "preserves I m \<Longrightarrow> preserves I (attempt m)"
  by (auto simp: preserves_def attempt_def split: prod.splits)

lemma coupon_ops_inv:
  "preserves (inv t ids) (create_coupon ci)" "preserves (inv t ids) (patch_coupon i ci)"
  "preserves (inv t ids) (delete_coupon i)"
proof -
  show "preserves (inv t ids) (create_coupon ci)"
    unfolding create_coupon_def validate_code_def Let_def
    by (intro op_intros preserves_attempt) simp_all
  show "preserves (inv t ids) (patch_coupon i ci)"
    unfolding patch_coupon_def get_coupon_def
    by (intro op_intros preserves_patch_coupon_guards) simp_all
  show "preserves (inv t ids) (delete_coupon i)"
    unfolding delete_coupon_def get_coupon_def by (intro op_intros) simp_all
qed

lemma coupon_list_keeps: "preserves I (coupon_list_get cfg q u r)"
  unfolding coupon_list_get_def by (intro hoare_intros)

lemma coupon_views_inv:
  "preserves (inv t {}) (coupon_create_post ci u r)" "preserves (inv t {}) (coupon_detail_get i u r)"
  "preserves (inv t {}) (coupon_detail_patch i ci u r)" "preserves (inv t {}) (coupon_detail_delete i u r)"
  unfolding coupon_create_post_def coupon_detail_get_def coupon_detail_patch_def coupon_detail_delete_def get_coupon_def
  by (intro hoare_intros coupon_ops_inv)+

lemma coupon_views_wf:
  "preserves coupons_wf (coupon_create_post ci u r)" "preserves coupons_wf (coupon_detail_patch i ci u r)"
  "preserves coupons_wf (coupon_detail_delete i u r)"
  unfolding coupon_create_post_def coupon_detail_patch_def coupon_detail_delete_def
  by (intro hoare_intros create_coupon_wf patch_coupon_wf delete_coupon_wf)+

end
