(* ===== verification/PaymentViews.thy ===== *)
theory PaymentViews
  imports StoreViews
begin

section \<open>Payment methods and gateway configurations\<close>

text \<open>
  The views and serializers of \<^verbatim>\<open>apps/payments\<close>: a customer's saved payment methods, the gateways
  a storefront may offer, and the administration of a tenant's gateway configurations.
\<close>

subsection \<open>Saved payment methods\<close>

primrec payment_method_type_value :: "payment_method_type \<Rightarrow> string" where
  "payment_method_type_value CARD = ''card''"
| "payment_method_type_value PURCHASE_ORDER = ''purchase_order''"

definition config_name_json :: "world \<Rightarrow> uuid option \<Rightarrow> json" where
  "config_name_json w i =
     (case i of None \<Rightarrow> JNull
      | Some j \<Rightarrow> (case fk (db_gateway_configs w) j of None \<Rightarrow> JNull | Some c \<Rightarrow> JStr (gc_gateway_name c)))"

definition payment_method_json :: "world \<Rightarrow> payment_method \<Rightarrow> json" where
  "payment_method_json w pm =
     JObj [(''id'', id_json (row_id pm)), (''method_type'', JStr (payment_method_type_value (pm_method_type pm))),
       (''gateway_name'', config_name_json w (pm_gateway_config pm)), (''brand'', JStr (pm_brand pm)),
       (''last_four'', JStr (pm_last_four pm)), (''payment_terms'', JStr (pm_payment_terms pm)),
       (''po_account_label'', JStr (pm_po_account_label pm)), (''is_default'', JBool (pm_is_default pm)),
       (''created_at'', JInt (created_at pm))]"

definition method_response :: "nat \<Rightarrow> req_ctx \<Rightarrow> payment_method \<Rightarrow> http_response act" where
  "method_response st r pm =
     bindE (gets (\<lambda>w. payment_method_json w pm)) (\<lambda>j. ret (json_response st [] (envelope j (rq_id r) [])))"

definition own_account :: "customer \<Rightarrow> uuid \<Rightarrow> unit act" where
  "own_account c customer_id =
     guard_that (row_id c = customer_id) (Forbidden ''You can only access your own payment methods'')"

definition make_default :: "uuid \<Rightarrow> uuid \<Rightarrow> payment_method act" where
  "make_default customer_id method_id =
     bindE (get_row payment_methods_tbl (\<lambda>pm. row_id pm = method_id \<and> pm_customer pm = customer_id)
              (ResourceNotFound ''Payment method not found'')) (\<lambda>target.
     bindE (update_rows payment_methods_tbl
              (\<lambda>pm. pm_customer pm = customer_id \<and> pm_is_default pm \<and> row_id pm \<noteq> row_id target)
              (\<lambda>pm. pm\<lparr>pm_is_default := False\<rparr>)) (\<lambda>_.
     if pm_is_default target then ret target
     else save_fields payment_methods_tbl (\<lambda>pm. pm\<lparr>pm_is_default := True\<rparr>) target))"

definition payment_method_default_put :: "uuid \<Rightarrow> uuid \<Rightarrow> customer \<Rightarrow> handler" where
  "payment_method_default_put customer_id method_id c r =
     seqE (own_account c customer_id)
       (bindE (atomic (make_default customer_id method_id)) (method_response 200 r))"

definition own_payment_methods :: "uuid \<Rightarrow> world \<Rightarrow> payment_method list" where
  "own_payment_methods customer w = filter (\<lambda>pm. pm_customer pm = customer) (objects payment_methods_tbl w)"

definition sorted_payment_methods :: "uuid \<Rightarrow> world \<Rightarrow> payment_method list" where
  "sorted_payment_methods customer w =
     true_first pm_is_default (newest_first (own_payment_methods customer w))"

text \<open>The views for a list and for one method are the framework's: the list is paginated, the method is bare.\<close>

definition payment_method_list_get :: "settings \<Rightarrow> query \<Rightarrow> uuid \<Rightarrow> customer \<Rightarrow> handler" where
  "payment_method_list_get cfg q customer_id c r =
     seqE (own_account c customer_id)
       (bindE (gets (\<lambda>w. (sorted_payment_methods customer_id w, w))) (\<lambda>(qs, w).
        list_response cfg r q (payment_method_json w) qs))"

definition payment_method_detail_get :: "uuid \<Rightarrow> uuid \<Rightarrow> customer \<Rightarrow> handler" where
  "payment_method_detail_get customer_id method_id c r =
     seqE (own_account c customer_id)
       (bindE (get_row payment_methods_tbl (\<lambda>pm. row_id pm = method_id \<and> pm_customer pm = customer_id)
                 (not_found ''PaymentMethod'')) (\<lambda>pm.
        bindE (gets (\<lambda>w. payment_method_json w pm)) (\<lambda>j. ret (json_response 200 [] j))))"

text \<open>The slot of a cart is set to null when the method it names is deleted.\<close>

definition payment_method_detail_delete :: "uuid \<Rightarrow> uuid \<Rightarrow> customer \<Rightarrow> handler" where
  "payment_method_detail_delete customer_id method_id c r =
     seqE (own_account c customer_id)
       (bindE (get_row payment_methods_tbl (\<lambda>pm. row_id pm = method_id \<and> pm_customer pm = customer_id)
                 (not_found ''PaymentMethod'')) (\<lambda>pm.
        bindE (update_rows_all carts_tbl (\<lambda>x. cart_selected_payment_method x = Some (row_id pm))
                 (\<lambda>x. x\<lparr>cart_selected_payment_method := None\<rparr>)) (\<lambda>_.
        bindE (delete_where payment_methods_tbl (\<lambda>_ x. row_id x = row_id pm)) (\<lambda>_. ret no_content))))"

subsection \<open>Saving a payment method\<close>

record method_request =
  mq_method_type :: payment_method_type
  mq_gateway_name :: string
  mq_token :: string
  mq_brand :: string
  mq_last_four :: string
  mq_is_default :: bool
  mq_payment_terms :: string
  mq_po_account_label :: string

definition method_validate :: "method_request \<Rightarrow> exn + method_request" where
  "method_validate v =
     (case mq_method_type v of
        CARD \<Rightarrow> if mq_gateway_name v = [] then Inl (field_error ''gateway_name'' ''Required for card payment methods.'')
                else Inr v
      | PURCHASE_ORDER \<Rightarrow>
          if mq_payment_terms v = []
          then Inl (field_error ''payment_terms'' ''Required for purchase_order payment methods.'') else Inr v)"

definition store_method :: "uuid \<Rightarrow> payment_method \<Rightarrow> payment_method act" where
  "store_method customer_id pm = atomic
     (seqE (if pm_is_default pm
            then bindE (update_rows payment_methods_tbl (\<lambda>x. pm_customer x = customer_id \<and> pm_is_default x)
                          (\<lambda>x. x\<lparr>pm_is_default := False\<rparr>)) (\<lambda>_. ret ())
            else ret ())
       (create payment_methods_tbl pm))"

definition po_method :: "uuid \<Rightarrow> method_request \<Rightarrow> payment_method" where
  "po_method customer_id v =
     \<lparr>row_id = 0, tenant_id = 0, created_at = 0, updated_at = 0, pm_customer = customer_id,
      pm_method_type = PURCHASE_ORDER, pm_gateway_config = None, pm_token = '''', pm_brand = '''', pm_last_four = '''',
      pm_po_account_label = mq_po_account_label v, pm_payment_terms = or_default (mq_payment_terms v) ''net_30'',
      pm_is_default = mq_is_default v\<rparr>"

definition card_method :: "uuid \<Rightarrow> gateway_config \<Rightarrow> tokenized_payment_method \<Rightarrow> bool \<Rightarrow> payment_method" where
  "card_method customer_id gc tk dflt =
     \<lparr>row_id = 0, tenant_id = 0, created_at = 0, updated_at = 0, pm_customer = customer_id,
      pm_method_type = CARD, pm_gateway_config = Some (row_id gc), pm_token = tpm_gateway_token tk,
      pm_brand = tpm_brand tk, pm_last_four = tpm_last_four tk, pm_po_account_label = '''', pm_payment_terms = '''',
      pm_is_default = dflt\<rparr>"

definition tokenized_card :: "env \<Rightarrow> gateway_config \<Rightarrow> method_request \<Rightarrow> tokenized_payment_method act" where
  "tokenized_card e gc v =
     (if mq_token v \<noteq> []
      then ret \<lparr>tpm_gateway_token = mq_token v, tpm_brand = mq_brand v, tpm_last_four = mq_last_four v,
            tpm_raw_response = None\<rparr>
      else
        bindE (lift_sum (registry_get (env_registry e) (gc_gateway_name gc))) (\<lambda>g.
        gateway_call (CallTokenize (gw_name g) (or_default (mq_brand v) ''visa''))
          (\<lambda>n. gw_tokenize g n (build_credentials gc)
             [(''brand'', JStr (or_default (mq_brand v) ''visa'')),
              (''last_four'', JStr (or_default (mq_last_four v) ''4242''))])))"

definition payment_method_create :: "env \<Rightarrow> uuid \<Rightarrow> method_request \<Rightarrow> customer \<Rightarrow> handler" where
  "payment_method_create e customer_id req c r =
     seqE (own_account c customer_id)
       (bindE (lift_sum (method_validate req)) (\<lambda>v.
        case mq_method_type v of
          PURCHASE_ORDER \<Rightarrow>
            bindE (get_row customers_tbl (\<lambda>x. row_id x = customer_id) (DoesNotExist ''Customer'')) (\<lambda>cust.
            if \<not> is_b2b cust
            then throw (Forbidden ''Purchase-order payment methods are restricted to B2B customers'')
            else bindE (store_method customer_id (po_method customer_id v)) (method_response 201 r))
        | CARD \<Rightarrow>
            bindE (resolve_gateway_config e (mq_gateway_name v)) (\<lambda>gc.
            bindE (tokenized_card e gc v) (\<lambda>tk.
            bindE (store_method customer_id (card_method customer_id gc tk (mq_is_default v))) (method_response 201 r)))))"

subsection \<open>The gateways of a storefront\<close>

definition display_name :: "string \<Rightarrow> string" where
  "display_name name =
     (case find (\<lambda>g. gateway_name_value g = name) [MOCK, STRIPE, STRIPE_LIVE, HYPERPAY, TAP] of
        Some g \<Rightarrow> gateway_name_label g | None \<Rightarrow> name)"

definition public_gateway_queryset :: "settings \<Rightarrow> env \<Rightarrow> world \<Rightarrow> gateway_config list" where
  "public_gateway_queryset cfg e w =
     (let qs = true_first gc_is_default (order_by_text cfg gc_gateway_name
                 (filter gc_is_active (objects gateway_configs_tbl w)))
      in if env_allow_mock e then qs else filter (\<lambda>c. gc_gateway_name c \<noteq> gateway_name_value MOCK) qs)"

definition public_gateway_json :: "gateway_config \<Rightarrow> json" where
  "public_gateway_json c =
     JObj [(''name'', JStr (gc_gateway_name c)), (''display_name'', JStr (display_name (gc_gateway_name c))),
       (''is_default'', JBool (gc_is_default c))]"

definition public_gateway_list_get :: "settings \<Rightarrow> env \<Rightarrow> handler" where
  "public_gateway_list_get cfg e r =
     bindE (gets (public_gateway_queryset cfg e)) (plain_list r public_gateway_json)"

definition tokenization_value :: "tokenization \<Rightarrow> string" where
  "tokenization_value x = (case x of ClientSide \<Rightarrow> ''client'' | ServerSide \<Rightarrow> ''server'')"

definition gateway_in_quotes :: "string \<Rightarrow> string" where
  "gateway_in_quotes name = ''Gateway '' @ [CHR 0x27] @ name @ [CHR 0x27]"

definition public_gateway_detail_get :: "env \<Rightarrow> string \<Rightarrow> handler" where
  "public_gateway_detail_get e name r =
     (if name = gateway_name_value MOCK \<and> \<not> env_allow_mock e
      then throw (ResourceNotFound (gateway_in_quotes name @ '' is not available''))
      else
        bindE (get_row gateway_configs_tbl (\<lambda>c. gc_gateway_name c = name \<and> gc_is_active c)
          (ResourceNotFound (gateway_in_quotes name @ '' is not configured for this tenant'')))  (\<lambda>c.
        bindE (lift_sum (registry_get (env_registry e) (gc_gateway_name c))) (\<lambda>g.
        let caps = gw_describe g (build_credentials c) in
        ret (json_response 200 [] (envelope (JObj
          [(''name'', JStr (gc_gateway_name c)), (''display_name'', JStr (display_name (gc_gateway_name c))),
           (''is_default'', JBool (gc_is_default c)),
           (''supported_currencies'', JList (map JStr (cap_supported_currencies caps))),
           (''tokenization'', JStr (tokenization_value (cap_tokenization caps))),
           (''supports_3ds'', JBool (cap_supports_3ds caps)),
           (''public_credentials'', JObj (cap_public_credentials caps))]) (rq_id r) [])))))"

subsection \<open>The gateway configurations of a tenant\<close>

record config_request =
  cq_gateway_name :: "string option"
  cq_credentials :: "dict option"
  cq_is_active :: "bool option"
  cq_is_default :: "bool option"

definition gateway_config_json :: "gateway_config \<Rightarrow> json" where
  "gateway_config_json c =
     JObj [(''id'', id_json (row_id c)), (''gateway_name'', JStr (gc_gateway_name c)),
       (''credentials'', JObj (gc_credentials c)), (''is_active'', JBool (gc_is_active c)),
       (''is_default'', JBool (gc_is_default c)), (''created_at'', JInt (created_at c)),
       (''updated_at'', JInt (updated_at c))]"

definition config_response :: "nat \<Rightarrow> req_ctx \<Rightarrow> gateway_config \<Rightarrow> http_response" where
  "config_response st r c = json_response st [] (envelope (gateway_config_json c) (rq_id r) [])"

definition gateway_config_list_get :: "settings \<Rightarrow> user \<Rightarrow> handler" where
  "gateway_config_list_get cfg u r =
     bindE (gets (\<lambda>w. order_by_text cfg gc_gateway_name (objects gateway_configs_tbl w)))
       (plain_list r gateway_config_json)"

text \<open>The choices of the column; a create names the gateway, an update may.\<close>

definition config_validate :: "bool \<Rightarrow> config_request \<Rightarrow> exn + config_request" where
  "config_validate partial v =
     (case cq_gateway_name v of
        None \<Rightarrow> if partial then Inr v else Inl (field_error ''gateway_name'' ''This field is required.'')
      | Some n \<Rightarrow>
          if n \<in> gateway_name_value ` {MOCK, STRIPE, STRIPE_LIVE, HYPERPAY, TAP} then Inr v
          else Inl (field_error ''gateway_name'' (CHR 0x22 # n @ [CHR 0x22] @ '' is not a valid choice.'')))"

definition apply_config :: "config_request \<Rightarrow> gateway_config \<Rightarrow> gateway_config" where
  "apply_config v c =
     c\<lparr>gc_gateway_name := opt_or (cq_gateway_name v) (gc_gateway_name c),
       gc_credentials := opt_or (cq_credentials v) (gc_credentials c),
       gc_is_active := opt_or (cq_is_active v) (gc_is_active c),
       gc_is_default := opt_or (cq_is_default v) (gc_is_default c)\<rparr>"

definition blank_config :: gateway_config where
  "blank_config = \<lparr>row_id = 0, tenant_id = 0, created_at = 0, updated_at = 0, gc_gateway_name = '''',
     gc_credentials = [], gc_is_active = True, gc_is_default = False\<rparr>"

definition clear_default_config :: "(gateway_config \<Rightarrow> bool) \<Rightarrow> config_request \<Rightarrow> unit act" where
  "clear_default_config other v =
     (if opt_or (cq_is_default v) False
      then bindE (update_rows gateway_configs_tbl (\<lambda>c. gc_is_default c \<and> other c) (\<lambda>c. c\<lparr>gc_is_default := False\<rparr>))
             (\<lambda>_. ret ())
      else ret ())"

definition gateway_config_create :: "config_request \<Rightarrow> user \<Rightarrow> handler" where
  "gateway_config_create req u r =
     bindE (lift_sum (config_validate False req)) (\<lambda>v.
     bindE (atomic (seqE (clear_default_config (\<lambda>_. True) v)
              (create gateway_configs_tbl (apply_config v blank_config)))) (\<lambda>c.
     ret (config_response 201 r c)))"

definition get_gateway_config :: "uuid \<Rightarrow> gateway_config act" where
  "get_gateway_config i =
     get_row gateway_configs_tbl (\<lambda>c. row_id c = i) (ResourceNotFound ''Gateway config not found'')"

definition gateway_config_patch :: "uuid \<Rightarrow> config_request \<Rightarrow> user \<Rightarrow> handler" where
  "gateway_config_patch i req u r =
     bindE (get_gateway_config i) (\<lambda>c.
     bindE (lift_sum (config_validate True req)) (\<lambda>v.
     bindE (atomic (seqE (clear_default_config (\<lambda>x. row_id x \<noteq> row_id c) v)
              (save_row gateway_configs_tbl (apply_config v c)))) (\<lambda>c'.
     ret (config_response 200 r c'))))"

definition gateway_config_get :: "uuid \<Rightarrow> user \<Rightarrow> handler" where
  "gateway_config_get i u r = bindE (get_gateway_config i) (\<lambda>c. ret (config_response 200 r c))"

text \<open>Methods and payments protect the configuration they name.\<close>

definition gateway_config_delete :: "uuid \<Rightarrow> user \<Rightarrow> handler" where
  "gateway_config_delete i u r =
     bindE (get_gateway_config i) (\<lambda>c.
     bindE (gets (\<lambda>w. exists_where (\<lambda>pm. pm_gateway_config pm = Some (row_id c)) (db_payment_methods w) \<or>
                      exists_where (\<lambda>p. pay_gateway_config p = Some (row_id c)) (db_payments w))) (\<lambda>protected.
     if protected then throw (IntegrityError ''PaymentGatewayConfig'')
     else bindE (delete_where gateway_configs_tbl (\<lambda>_ x. row_id x = row_id c)) (\<lambda>_. ret no_content)))"

subsection \<open>What the views keep\<close>

lemma preserves_case_method [hoare_intros]:
  assumes "preserves I a" "preserves I b"
  shows "preserves I (case m of CARD \<Rightarrow> a | PURCHASE_ORDER \<Rightarrow> b)"
  using assms by (cases m) simp_all

lemma payment_lists_keep:
  "preserves I (payment_method_list_get cfg q cid c r)" "preserves I (public_gateway_list_get cfg e r)"
  "preserves I (gateway_config_list_get cfg u r)"
  unfolding payment_method_list_get_def public_gateway_list_get_def gateway_config_list_get_def own_account_def
  by (intro hoare_intros)+

lemma payment_views_inv:
  "preserves (inv t {}) (payment_method_default_put cid mid c r)"
  "preserves (inv t {}) (payment_method_detail_get cid mid c r)"
  "preserves (inv t {}) (payment_method_detail_delete cid mid c r)"
  "preserves (inv t {}) (payment_method_create e cid req c r)"
  "preserves (inv t {}) (public_gateway_detail_get e name r)"
  "preserves (inv t {}) (gateway_config_create cq u r)" "preserves (inv t {}) (gateway_config_patch i cq u r)"
  "preserves (inv t {}) (gateway_config_get i u r)" "preserves (inv t {}) (gateway_config_delete i u r)"
  unfolding payment_method_default_put_def make_default_def payment_method_detail_get_def payment_method_detail_delete_def
    payment_method_create_def public_gateway_detail_get_def gateway_config_create_def gateway_config_patch_def
    gateway_config_get_def gateway_config_delete_def get_gateway_config_def clear_default_config_def
    tokenized_card_def store_method_def method_response_def own_account_def resolve_gateway_config_def Let_def
  by (intro op_intros preserves_case_method gateway_call_inv; simp)+


subsection \<open>One default, and only one's own methods\<close>

definition default_ids :: "uuid \<Rightarrow> world \<Rightarrow> uuid list" where
  "default_ids customer w =
     map row_id (filter (\<lambda>pm. pm_customer pm = customer \<and> pm_is_default pm) (db_payment_methods w))"

lemma sole_default:
  assumes "tbl_ok payment_methods_tbl (db_payment_methods w)" and "x \<in> set (db_payment_methods w)"
    and "pm_is_default x"
  shows "default_ids (pm_customer x) w = [row_id x]"
proof -
  have "distinct (map pm_customer (filter pm_is_default (db_payment_methods w)))"
    using assms(1) by (simp add: payment_methods_tbl_def)
  from filter_key_distinct [OF this, of x] assms(2,3)
  have "filter (\<lambda>pm. pm_customer pm = pm_customer x) (filter pm_is_default (db_payment_methods w)) = [x]" by simp
  then have "filter (\<lambda>pm. pm_customer pm = pm_customer x \<and> pm_is_default pm) (db_payment_methods w) = [x]"
    by (simp only: filter_filter) (metis (no_types, lifting) filter_cong)
  then show ?thesis by (simp add: default_ids_def)
qed

lemma own_account_Inr: "own_account c i w = (Inr u, w') \<Longrightarrow> row_id c = i \<and> w' = w"
  by (auto simp: own_account_def guard_that_def split: if_splits)

lemma own_account_bind:
  assumes "seqE (own_account c i) m w = (Inr x, w')"
  shows "row_id c = i \<and> m w = (Inr x, w')"
  using assms by (cases "row_id c = i") (auto simp: own_account_def)

lemma method_response_keeps: "method_response st r pm w = (res, w') \<Longrightarrow> w' = w"
  by (simp add: method_response_def)

lemma default_target:
  assumes "(if pm_is_default target then ret target
      else save_fields payment_methods_tbl (\<lambda>pm. pm\<lparr>pm_is_default := True\<rparr>) target) w = (Inr pm, w')"
    and "target \<in> set (db_payment_methods w)"
  shows "\<exists>x \<in> set (db_payment_methods w'). pm_is_default x \<and> row_id x = row_id target \<and> pm_customer x = pm_customer target"
proof (cases "pm_is_default target")
  case True
  with assms show ?thesis by auto
next
  case False
  with assms(1) have "save_fields payment_methods_tbl (\<lambda>pm. pm\<lparr>pm_is_default := True\<rparr>) target w = (Inr pm, w')" by simp
  note saved = save_fields_Inr(2) [OF this]
  note row = upd_where_member [OF assms(2), of "\<lambda>r. row_id r = row_id target",
      where f = "\<lambda>r. r\<lparr>pm_is_default := True, updated_at := clock w\<rparr>"]
  from row saved show ?thesis
    by (intro bexI [of _ "target\<lparr>pm_is_default := True, updated_at := clock w\<rparr>"]) auto
qed

text \<open>After the request the method is the one default of the customer.\<close>

lemma make_default_target:
  assumes "make_default cid mid w = (Inr pm, w')"
  shows "\<exists>x \<in> set (db_payment_methods w'). pm_is_default x \<and> row_id x = mid \<and> pm_customer x = cid"
proof -
  obtain target w2 where g: "get_row payment_methods_tbl (\<lambda>pm. row_id pm = mid \<and> pm_customer pm = cid)
      (ResourceNotFound ''Payment method not found'') w = (Inr target, w2)"
    and tail: "bindE (update_rows payment_methods_tbl
        (\<lambda>pm. pm_customer pm = cid \<and> pm_is_default pm \<and> row_id pm \<noteq> row_id target)
        (\<lambda>pm. pm\<lparr>pm_is_default := False\<rparr>)) (\<lambda>_. if pm_is_default target then ret target
        else save_fields payment_methods_tbl (\<lambda>pm. pm\<lparr>pm_is_default := True\<rparr>) target) w2 = (Inr pm, w')"
    using assms unfolding make_default_def by (rule bindE_Inr_D)
  note target = get_row_Inr [OF g]
  obtain n w3 where cl: "update_rows payment_methods_tbl
        (\<lambda>pm. pm_customer pm = cid \<and> pm_is_default pm \<and> row_id pm \<noteq> row_id target)
        (\<lambda>pm. pm\<lparr>pm_is_default := False\<rparr>) w2 = (Inr n, w3)"
    and st: "(if pm_is_default target then ret target
        else save_fields payment_methods_tbl (\<lambda>pm. pm\<lparr>pm_is_default := True\<rparr>) target) w3 = (Inr pm, w')"
    using tail by (rule bindE_Inr_D)
  have "target \<in> set (db_payment_methods w3)"
    using target payment_methods.update_where_Inr(1) [OF cl [unfolded update_rows_def]]
    by (auto simp: set_upd_where image_iff)
  from default_target [OF st this] target(3) show ?thesis by auto
qed

lemma default_put_sole:
  assumes i: "inv t {} w" and run: "payment_method_default_put cid mid c r w = (Inr resp, w')"
  shows "row_id c = cid \<and> default_ids cid w' = [mid]"
proof -
  have ok: "inv t {} w'" by (rule preservesD [OF payment_views_inv(1) i run])
  from own_account_bind [OF run [unfolded payment_method_default_put_def]]
  have own: "row_id c = cid"
    and rest: "bindE (atomic (make_default cid mid)) (method_response 200 r) w = (Inr resp, w')" by auto
  from rest obtain pm where "atomic (make_default cid mid) w = (Inr pm, w')"
    by (elim bindE_Inr_D) (auto dest: method_response_keeps)
  then obtain w1 where inner: "make_default cid mid (enter_atomic w) = (Inr pm, w1)" and w': "w' = commit w w1"
    by (elim atomic_Inr_D)
  from make_default_target [OF inner] w'
  obtain x where x: "x \<in> set (db_payment_methods w')" "pm_is_default x" "row_id x = mid" "pm_customer x = cid"
    by (auto simp: commit_def split: if_splits)
  with sole_default [OF schema_get(11) [OF inv_schema [OF ok]] x(1,2)] own show ?thesis by simp
qed

text \<open>Whatever a customer asks for, the methods of the other customers are as before.\<close>

definition others_methods :: "uuid \<Rightarrow> payment_method list \<Rightarrow> world \<Rightarrow> bool" where
  "others_methods customer pms w \<longleftrightarrow>
     schema w \<and> filter (\<lambda>pm. pm_customer pm \<noteq> customer) (db_payment_methods w) = pms"

lemma others_methods_frame [simp]:
  "others_methods c pms (w\<lparr>fresh_id := n\<rparr>) = others_methods c pms w"
  "others_methods c pms (w\<lparr>gateway_log := l\<rparr>) = others_methods c pms w"
  "others_methods c pms (enter_atomic w) = others_methods c pms w"
  "others_methods c pms (commit w0 w) = others_methods c pms w"
  "others_methods c pms w \<Longrightarrow> tbl_ok carts_tbl cs \<Longrightarrow> others_methods c pms (w\<lparr>db_carts := cs\<rparr>)"
  by (simp_all add: others_methods_def enter_atomic_def commit_def)

lemma others_methods_rollback [simp]:
  "others_methods c pms w0 \<Longrightarrow> others_methods c pms (rollback w0 w)"
  by (simp add: others_methods_def) (simp add: rollback_def)

lemma others_methods_upd:
  assumes "others_methods c pms w" and "tbl_ok payment_methods_tbl (upd_where P f (db_payment_methods w))"
    and "\<And>x. x \<in> set (db_payment_methods w) \<Longrightarrow> P x \<Longrightarrow> pm_customer x = c \<and> pm_customer (f x) = c"
  shows "others_methods c pms (w\<lparr>db_payment_methods := upd_where P f (db_payment_methods w)\<rparr>)"
proof -
  have "filter (\<lambda>pm. pm_customer pm \<noteq> c) (upd_where P f rs) = filter (\<lambda>pm. pm_customer pm \<noteq> c) rs"
    if "\<And>x. x \<in> set rs \<Longrightarrow> P x \<Longrightarrow> pm_customer x = c \<and> pm_customer (f x) = c" for rs
    using that by (induction rs) auto
  with assms show ?thesis by (simp add: others_methods_def)
qed


lemma others_methods_unique:
  assumes "others_methods c pms w" and "x \<in> set (db_payment_methods w)" "y \<in> set (db_payment_methods w)"
    and "row_id x = row_id y"
  shows "x = y"
  using schema_get(11) [of w] assms
  by (auto simp: others_methods_def payment_methods_tbl_def pk_ok_def distinct_map dest: inj_onD)

lemma others_methods_create:
  assumes "pm_customer pm = c"
  shows "preserves (others_methods c pms) (create payment_methods_tbl pm)"
  using assms by (intro preserves_create) (auto simp: others_methods_def stamp_def)

lemma others_methods_store:
  assumes "pm_customer pm = c"
  shows "preserves (others_methods c pms) (store_method c pm)"
  unfolding store_method_def
  by (intro preserves_atomic hoare_intros preserves_update_rows others_methods_create)
    (auto intro!: others_methods_upd simp: assms)

lemma others_methods_delete:
  assumes "x \<in> set (db_payment_methods w)" "pm_customer x = c" "others_methods c pms w"
  shows "others_methods c pms (w\<lparr>db_payment_methods := filter (\<lambda>y. row_id y \<noteq> row_id x) (db_payment_methods w)\<rparr>)"
proof -
  have "y = x" if "y \<in> set (db_payment_methods w)" "row_id y = row_id x" for y
    using others_methods_unique [OF assms(3) that(1) assms(1) that(2)] .
  then have "filter (\<lambda>pm. pm_customer pm \<noteq> c) (filter (\<lambda>y. row_id y \<noteq> row_id x) (db_payment_methods w)) =
      filter (\<lambda>pm. pm_customer pm \<noteq> c) (db_payment_methods w)"
    using assms(2) by (auto simp: filter_filter intro!: filter_cong)
  with assms(3) show ?thesis by (simp add: others_methods_def)
qed

text \<open>A change of rows with one identifier, when one of them is a method of the customer.\<close>

lemma valid_own_method:
  "valid (others_methods c pms) (get_row payment_methods_tbl (\<lambda>pm. row_id pm = i \<and> pm_customer pm = c) e)
     (\<lambda>x w. others_methods c pms w \<and> x \<in> set (db_payment_methods w) \<and> pm_customer x = c)
     (\<lambda>_. others_methods c pms)"
  by (rule valid_weaken [OF valid_get_row]) auto

definition has_own :: "uuid \<Rightarrow> uuid \<Rightarrow> payment_method list \<Rightarrow> world \<Rightarrow> bool" where
  "has_own c i pms w \<longleftrightarrow> others_methods c pms w \<and> (\<exists>x \<in> set (db_payment_methods w). row_id x = i \<and> pm_customer x = c)"

lemma has_own_all:
  assumes "has_own c i pms w" and "x \<in> set (db_payment_methods w)" and "row_id x = i"
  shows "pm_customer x = c"
proof -
  obtain y where y: "y \<in> set (db_payment_methods w)" "row_id y = i" "pm_customer y = c" and o: "others_methods c pms w"
    using assms(1) by (auto simp: has_own_def)
  have "x = y" by (rule others_methods_unique [OF o assms(2) y(1)]) (simp add: assms(3) y(2))
  with y(3) show ?thesis by simp
qed

lemma has_own_upd:
  assumes "has_own c i pms w" and "tbl_ok payment_methods_tbl (upd_where P f (db_payment_methods w))"
    and "\<And>x. x \<in> set (db_payment_methods w) \<Longrightarrow> P x \<Longrightarrow> pm_customer x = c"
    and "\<And>x. pm_customer (f x) = pm_customer x" "\<And>x. row_id (f x) = row_id x"
  shows "has_own c i pms (w\<lparr>db_payment_methods := upd_where P f (db_payment_methods w)\<rparr>)"
proof -
  obtain x where x: "x \<in> set (db_payment_methods w)" "row_id x = i" "pm_customer x = c"
    using assms(1) by (auto simp: has_own_def)
  let ?y = "if P x then f x else x"
  have y: "?y \<in> set (upd_where P f (db_payment_methods w))" using x(1) unfolding set_upd_where by (rule imageI)
  have "others_methods c pms w" using assms(1) by (simp add: has_own_def)
  then have "others_methods c pms (w\<lparr>db_payment_methods := upd_where P f (db_payment_methods w)\<rparr>)"
    by (rule others_methods_upd [OF _ assms(2)]) (simp add: assms(3,4))
  moreover have "row_id ?y = i" "pm_customer ?y = c" using x assms(4,5) by simp_all
  ultimately show ?thesis using y unfolding has_own_def by auto
qed


lemma has_own_frame [simp]:
  "has_own c i pms (enter_atomic w) = has_own c i pms w" "has_own c i pms (commit w0 w) = has_own c i pms w"
  "has_own c i pms w \<Longrightarrow> tbl_ok carts_tbl cs \<Longrightarrow> has_own c i pms (w\<lparr>db_carts := cs\<rparr>)"
  by (simp_all add: has_own_def) (simp_all add: enter_atomic_def commit_def)

lemma make_default_others:
  "valid (others_methods cid pms) (make_default cid mid) (\<lambda>_. others_methods cid pms) (\<lambda>_. others_methods cid pms)"
proof -
  let ?I = "others_methods cid pms"
  have save: "valid (has_own cid i pms) (save_fields payment_methods_tbl (\<lambda>pm. pm\<lparr>pm_is_default := True\<rparr>) x)
      (\<lambda>_. has_own cid i pms) (\<lambda>_. has_own cid i pms)" if "row_id x = i" for x i
    unfolding preserves_valid [symmetric]
    by (rule preserves_save_fields) (auto intro!: has_own_upd dest: has_own_all simp: that)
  have clear: "valid (has_own cid i pms) (update_rows payment_methods_tbl
      (\<lambda>pm. pm_customer pm = cid \<and> pm_is_default pm \<and> row_id pm \<noteq> i) (\<lambda>pm. pm\<lparr>pm_is_default := False\<rparr>))
      (\<lambda>_. has_own cid i pms) (\<lambda>_. has_own cid i pms)" for i
    unfolding preserves_valid [symmetric]
    by (rule preserves_update_rows) (auto intro!: has_own_upd)
  have own: "has_own cid i pms w \<Longrightarrow> ?I w" for i w by (simp add: has_own_def)
  show ?thesis unfolding make_default_def
  proof (rule valid_bindE)
    show "valid ?I (get_row payment_methods_tbl (\<lambda>pm. row_id pm = mid \<and> pm_customer pm = cid)
        (ResourceNotFound ''Payment method not found''))
        (\<lambda>x w. has_own cid (row_id x) pms w) (\<lambda>_. ?I)"
      by (rule valid_weaken [OF valid_get_row]) (auto simp: has_own_def)
    show "valid (has_own cid (row_id target) pms) (bindE (update_rows payment_methods_tbl
          (\<lambda>pm. pm_customer pm = cid \<and> pm_is_default pm \<and> row_id pm \<noteq> row_id target)
          (\<lambda>pm. pm\<lparr>pm_is_default := False\<rparr>)) (\<lambda>_.
        if pm_is_default target then ret target
        else save_fields payment_methods_tbl (\<lambda>pm. pm\<lparr>pm_is_default := True\<rparr>) target)) (\<lambda>_. ?I) (\<lambda>_. ?I)" for target
      by (rule valid_weaken [OF valid_bindE [OF clear, where Q = "\<lambda>_. has_own cid (row_id target) pms"]])
        (auto intro: valid_ret save own)
  qed
qed

lemma delete_own_others:
  "valid (others_methods cid pms) (bindE (get_row payment_methods_tbl (\<lambda>pm. row_id pm = mid \<and> pm_customer pm = cid) e)
     (\<lambda>pm. bindE (update_rows_all carts_tbl (\<lambda>x. cart_selected_payment_method x = Some (row_id pm))
                (\<lambda>x. x\<lparr>cart_selected_payment_method := None\<rparr>)) (\<lambda>_.
        bindE (delete_where payment_methods_tbl (\<lambda>_ x. row_id x = row_id pm)) (\<lambda>_. ret no_content))))
     (\<lambda>_. others_methods cid pms) (\<lambda>_. others_methods cid pms)"
proof (rule valid_bindE)
  let ?I = "others_methods cid pms"
  show "valid ?I (get_row payment_methods_tbl (\<lambda>pm. row_id pm = mid \<and> pm_customer pm = cid) e)
      (\<lambda>x w. ?I w \<and> x \<in> set (db_payment_methods w) \<and> pm_customer x = cid) (\<lambda>_. ?I)"
    by (rule valid_weaken [OF valid_own_method]) auto
  fix pm
  let ?J = "\<lambda>w. ?I w \<and> pm \<in> set (db_payment_methods w) \<and> pm_customer pm = cid"
  show "valid ?J (bindE (update_rows_all carts_tbl (\<lambda>x. cart_selected_payment_method x = Some (row_id pm))
                (\<lambda>x. x\<lparr>cart_selected_payment_method := None\<rparr>)) (\<lambda>_.
        bindE (delete_where payment_methods_tbl (\<lambda>_ x. row_id x = row_id pm)) (\<lambda>_. ret no_content)))
      (\<lambda>_. ?I) (\<lambda>_. ?I)"
  proof (rule valid_bindE)
    have "preserves ?J (update_rows_all carts_tbl (\<lambda>x. cart_selected_payment_method x = Some (row_id pm))
        (\<lambda>x. x\<lparr>cart_selected_payment_method := None\<rparr>))"
      by (rule preserves_update_rows_all) auto
    then show "valid ?J (update_rows_all carts_tbl (\<lambda>x. cart_selected_payment_method x = Some (row_id pm))
        (\<lambda>x. x\<lparr>cart_selected_payment_method := None\<rparr>)) (\<lambda>_. ?J) (\<lambda>_. ?I)"
      unfolding preserves_valid by (rule valid_weaken) auto
    show "valid ?J (bindE (delete_where payment_methods_tbl (\<lambda>_ x. row_id x = row_id pm)) (\<lambda>_. ret no_content))
        (\<lambda>_. ?I) (\<lambda>_. ?I)" for n
      by (auto simp: valid_def bindE_def delete_where_def intro!: others_methods_delete)
  qed
qed

lemma method_views_others:
  "preserves (others_methods (row_id c) pms) (payment_method_default_put cid mid c r)"
  "preserves (others_methods (row_id c) pms) (payment_method_detail_delete cid mid c r)"
  "preserves (others_methods (row_id c) pms) (payment_method_create e cid req c r)"
proof -
  have atomic: "preserves (others_methods (row_id c) pms) (atomic (make_default (row_id c) mid))"
    by (intro preserves_atomic) (simp_all add: preserves_valid make_default_others)
  show "preserves (others_methods (row_id c) pms) (payment_method_default_put cid mid c r)"
    unfolding payment_method_default_put_def own_account_def method_response_def
    by (cases "row_id c = cid") (auto intro!: hoare_intros atomic)
  show "preserves (others_methods (row_id c) pms) (payment_method_detail_delete cid mid c r)"
    unfolding payment_method_detail_delete_def own_account_def
    by (cases "row_id c = cid") (auto simp: preserves_valid delete_own_others intro!: valid_throw)
  have call: "preserves (others_methods (row_id c) pms) (gateway_call x f)" for x and f :: "uuid \<Rightarrow> exn + 'b"
    unfolding gateway_call_def by (intro hoare_intros preserves_new_uuid preserves_log_call) simp_all
  show "preserves (others_methods (row_id c) pms) (payment_method_create e cid req c r)"
    unfolding payment_method_create_def own_account_def method_response_def resolve_gateway_config_def
      tokenized_card_def
    by (cases "row_id c = cid")
      (auto intro!: hoare_intros call others_methods_store simp: po_method_def card_method_def)
qed

end
