(* ===== verification/Iam.thy ===== *)
theory Iam
  imports Invoices
begin

section \<open>Administrators and tenants\<close>

text \<open>
  \<^verbatim>\<open>apps/iam\<close> and \<^verbatim>\<open>apps/tenants\<close>: the tokens of administrators and their age, the two
  permission classes, login and logout, memberships, and the creation of tenants with their sequences.
  Tokens and users are tables of the framework; \<open>check_password\<close> is equality with the password the
  user has, and the key of a new token is a parameter.
\<close>

subsection \<open>Tokens\<close>

definition second_us :: int where
  "second_us = 1000000"

definition token_expired :: "int \<Rightarrow> time \<Rightarrow> auth_token \<Rightarrow> bool" where
  "token_expired ttl now tok \<longleftrightarrow> 0 < ttl \<and> tok_created tok < now - ttl * second_us"

definition token_expires_at :: "int \<Rightarrow> auth_token \<Rightarrow> time option" where
  "token_expires_at ttl tok = (if ttl \<le> 0 then None else Some (tok_created tok + ttl * second_us))"

definition user_by_id :: "nat \<Rightarrow> world \<Rightarrow> user option" where
  "user_by_id i w = find (\<lambda>u. user_id u = i) (db_users w)"

definition authenticate_credentials :: "int \<Rightarrow> string \<Rightarrow> (user \<times> auth_token) act" where
  "authenticate_credentials ttl key =
     bindE (get_row_all tokens_tbl (\<lambda>t. tok_key t = key) (AuthenticationFailed ''Invalid token.'')) (\<lambda>tok.
     bindE (gets (user_by_id (tok_user tok))) (\<lambda>u.
     case u of
       None \<Rightarrow> throw (DoesNotExist ''User'')
     | Some u \<Rightarrow>
         if \<not> user_is_active u then throw (AuthenticationFailed ''User inactive or deleted.'')
         else bindE current_time (\<lambda>now.
              if token_expired ttl now tok then throw (AuthenticationFailed ''Token has expired'')
              else ret (u, tok))))"

text \<open>A request without credentials has no user.\<close>

definition token_authentication :: "int \<Rightarrow> string option \<Rightarrow> user option act" where
  "token_authentication ttl key =
     (case key of None \<Rightarrow> ret None | Some k \<Rightarrow> bindE (authenticate_credentials ttl k) (\<lambda>(u, _). ret (Some u)))"

subsection \<open>Permissions\<close>

definition is_platform_admin :: "user option \<Rightarrow> bool" where
  "is_platform_admin u = (case u of None \<Rightarrow> False | Some x \<Rightarrow> user_is_superuser x)"

definition is_tenant_admin :: "user option \<Rightarrow> tenant option \<Rightarrow> world \<Rightarrow> bool" where
  "is_tenant_admin u t w =
     (case (u, t) of
        (Some x, Some y) \<Rightarrow>
          user_is_superuser x \<or>
          exists_where (\<lambda>m. mem_user m = user_id x \<and> mem_tenant m = ten_id y \<and> mem_role m = TENANT_ADMIN)
            (db_memberships w)
      | _ \<Rightarrow> False)"

definition permission_denied :: "user option \<Rightarrow> string \<Rightarrow> 'a act" where
  "permission_denied u why =
     (case u of None \<Rightarrow> throw (NotAuthenticated ''Authentication credentials were not provided.'')
      | Some _ \<Rightarrow> throw (PermissionDenied why))"

text \<open>\<open>TenantAdminAPIView\<close> and \<open>PlatformAdminAPIView\<close>.\<close>

definition tenant_admin_view :: "int \<Rightarrow> string option \<Rightarrow> (user \<Rightarrow> handler) \<Rightarrow> handler" where
  "tenant_admin_view ttl key view r =
     bindE (token_authentication ttl key) (\<lambda>u.
     bindE (gets (is_tenant_admin u (rq_tenant r))) (\<lambda>ok.
     case u of
       Some x \<Rightarrow> if ok then view x r else permission_denied u ''Tenant admin credentials required.''
     | None \<Rightarrow> permission_denied u ''Tenant admin credentials required.''))"

definition platform_admin_view :: "int \<Rightarrow> string option \<Rightarrow> (user \<Rightarrow> handler) \<Rightarrow> handler" where
  "platform_admin_view ttl key view r =
     bindE (token_authentication ttl key) (\<lambda>u.
     case u of
       Some x \<Rightarrow> if is_platform_admin u then view x r
                 else permission_denied u ''Platform admin credentials required.''
     | None \<Rightarrow> permission_denied u ''Platform admin credentials required.'')"

text \<open>The views that any administrator may call.\<close>

definition authenticated_view :: "int \<Rightarrow> string option \<Rightarrow> (user \<Rightarrow> handler) \<Rightarrow> handler" where
  "authenticated_view ttl key view r =
     bindE (token_authentication ttl key) (\<lambda>u. case u of Some x \<Rightarrow> view x r | None \<Rightarrow> permission_denied u '''')"

subsection \<open>Login and logout\<close>

definition membership_json :: "world \<Rightarrow> tenant_membership \<Rightarrow> json" where
  "membership_json w m =
     JObj [(''tenant_id'', id_json (mem_tenant m)),
       (''tenant_subdomain'', case find (\<lambda>t. ten_id t = mem_tenant m) (db_tenants w) of
          None \<Rightarrow> JNull | Some t \<Rightarrow> JStr (ten_subdomain t)),
       (''role'', JStr ''tenant_admin'')]"

definition serialize_user :: "user \<Rightarrow> world \<Rightarrow> json" where
  "serialize_user u w =
     JObj [(''id'', JInt (int (user_id u))), (''email'', JStr (user_email u)),
       (''is_superuser'', JBool (user_is_superuser u)),
       (''memberships'', JList (map (membership_json w) (filter (\<lambda>m. mem_user m = user_id u) (db_memberships w))))]"

definition invalid_credentials :: "string \<Rightarrow> http_response" where
  "invalid_credentials rid =
     json_response 401 [] (error_envelope
       [Some [(''code'', JStr ''invalid_credentials''), (''detail'', JStr ''Invalid email or password'')]] rid)"

definition rotate_token :: "(uuid \<Rightarrow> string) \<Rightarrow> user \<Rightarrow> auth_token act" where
  "rotate_token new_key u =
     bindE (delete_where tokens_tbl (\<lambda>_ t. tok_user t = user_id u)) (\<lambda>_.
     bindE new_uuid (\<lambda>i.
     bindE current_time (\<lambda>now.
     insert_row tokens_tbl \<lparr>tok_key = new_key i, tok_user = user_id u, tok_created = now\<rparr>)))"

definition login_post :: "int \<Rightarrow> (uuid \<Rightarrow> string) \<Rightarrow> string \<Rightarrow> string \<Rightarrow> handler" where
  "login_post ttl new_key email password r =
     bindE (gets (\<lambda>w. get_where (\<lambda>u. lower (user_email u) = lower email \<and> user_is_active u) (db_users w))) (\<lambda>g.
     case g of
       NoRow \<Rightarrow> ret (invalid_credentials (rq_id r))
     | ManyRows \<Rightarrow> throw MultipleObjectsReturned
     | OneRow u \<Rightarrow>
         if user_password u \<noteq> password then ret (invalid_credentials (rq_id r))
         else
           bindE (rotate_token new_key u) (\<lambda>tok.
           bindE (gets (serialize_user u)) (\<lambda>j.
           ret (json_response 200 [] (envelope
             (JObj [(''token'', JStr (tok_key tok)), (''expires_at'', opt_int_json (token_expires_at ttl tok)),
               (''user'', j)]) (rq_id r) [])))))"

definition logout_post :: "user \<Rightarrow> handler" where
  "logout_post u r = bindE (delete_where tokens_tbl (\<lambda>_ t. tok_user t = user_id u)) (\<lambda>_. ret no_content)"

definition me_get :: "user \<Rightarrow> handler" where
  "me_get u r = bindE (gets (serialize_user u)) (\<lambda>j. ret (json_response 200 [] (envelope j (rq_id r) [])))"

text \<open>The cache keys of the two login throttles.\<close>

definition throttle_key :: "string \<Rightarrow> string \<Rightarrow> string" where
  "throttle_key scope ident = ''throttle_'' @ scope @ ''_'' @ ident"

definition login_ip_key :: "string \<Rightarrow> string" where
  "login_ip_key ident = throttle_key ''login_ip'' ident"

definition login_email_key :: "dict \<Rightarrow> string" where
  "login_email_key data =
     throttle_key ''login_email''
       (case map_of data ''email'' of
          Some (JStr raw) \<Rightarrow> if strip raw \<noteq> [] then lower (strip raw) else ''__missing__''
        | _ \<Rightarrow> ''__missing__'')"

subsection \<open>Memberships\<close>

record membership_request =
  mr_email :: string
  mr_role :: role
  mr_create_user_if_missing :: bool
  mr_initial_password :: string
  mr_first_name :: string
  mr_last_name :: string

definition membership_validate :: "membership_request \<Rightarrow> exn + membership_request" where
  "membership_validate v =
     (let missing = map (\<lambda>(n, _). (n, JStr ''Required when createUserIfMissing=true.''))
            (filter (\<lambda>(_, x). x = [])
              [(''initial_password'', mr_initial_password v), (''first_name'', mr_first_name v),
               (''last_name'', mr_last_name v)])
      in if mr_create_user_if_missing v \<and> missing \<noteq> [] then Inl (ValidationError (JObj missing)) else Inr v)"

definition create_user :: "membership_request \<Rightarrow> user act" where
  "create_user v =
     bindE new_uuid (\<lambda>i.
     let u = \<lparr>user_id = i, user_email = mr_email v, user_password = mr_initial_password v,
              user_is_active = True, user_is_superuser = False\<rparr> in
     seqE (modify (\<lambda>w. w\<lparr>db_users := db_users w @ [u]\<rparr>)) (ret u))"

definition find_or_create_user :: "membership_request \<Rightarrow> user act" where
  "find_or_create_user v =
     bindE (gets (\<lambda>w. get_where (\<lambda>u. lower (user_email u) = lower (mr_email v)) (db_users w))) (\<lambda>g.
     case g of
       OneRow u \<Rightarrow> ret u
     | ManyRows \<Rightarrow> throw MultipleObjectsReturned
     | NoRow \<Rightarrow>
         if mr_create_user_if_missing v then create_user v
         else throw (ResourceNotFound ''User not found. Set createUserIfMissing=true to provision them.''))"

definition set_membership :: "user \<Rightarrow> tenant \<Rightarrow> role \<Rightarrow> tenant_membership act" where
  "set_membership u t rl =
     bindE (gets (\<lambda>w. get_where (\<lambda>m. mem_user m = user_id u \<and> mem_tenant m = ten_id t) (db_memberships w))) (\<lambda>g.
     case g of
       OneRow m \<Rightarrow>
         bindE (update_where memberships_tbl (\<lambda>_ x. mem_id x = mem_id m) (\<lambda>x. x\<lparr>mem_role := rl\<rparr>)) (\<lambda>_.
         ret (m\<lparr>mem_role := rl\<rparr>))
     | ManyRows \<Rightarrow> throw MultipleObjectsReturned
     | NoRow \<Rightarrow>
         bindE new_uuid (\<lambda>i.
         bindE (gets clock) (\<lambda>now.
         insert_row memberships_tbl \<lparr>mem_id = i, mem_user = user_id u, mem_tenant = ten_id t,
           mem_role = rl, mem_created_at = now\<rparr>)))"

text \<open>\<open>MembershipSerializer\<close>, and the slim row inside a tenant, where the number of a user is a text.\<close>

definition membership_detail_json :: "world \<Rightarrow> tenant_membership \<Rightarrow> json" where
  "membership_detail_json w m =
     JObj [(''id'', id_json (mem_id m)), (''user_id'', JInt (int (mem_user m))),
       (''user_email'', case user_by_id (mem_user m) w of None \<Rightarrow> JNull | Some u \<Rightarrow> JStr (user_email u)),
       (''tenant_id'', id_json (mem_tenant m)),
       (''tenant_subdomain'', case find (\<lambda>t. ten_id t = mem_tenant m) (db_tenants w) of
          None \<Rightarrow> JNull | Some t \<Rightarrow> JStr (ten_subdomain t)),
       (''role'', JStr ''tenant_admin''), (''created_at'', JInt (mem_created_at m))]"

definition tenant_admin_json :: "world \<Rightarrow> tenant_membership \<Rightarrow> json" where
  "tenant_admin_json w m =
     JObj [(''id'', id_json (mem_id m)), (''user_id'', JStr (show_nat (mem_user m))),
       (''user_email'', case user_by_id (mem_user m) w of None \<Rightarrow> JNull | Some u \<Rightarrow> JStr (user_email u)),
       (''role'', JStr ''tenant_admin''), (''created_at'', JInt (mem_created_at m))]"

definition membership_create_post :: "uuid \<Rightarrow> membership_request \<Rightarrow> user \<Rightarrow> handler" where
  "membership_create_post tid req admin r =
     bindE (lift_sum (membership_validate req)) (\<lambda>v.
     bindE (get_row_all tenants_tbl (\<lambda>t. ten_id t = tid) (ResourceNotFound ''Tenant not found'')) (\<lambda>t.
     bindE (atomic (bindE (find_or_create_user v) (\<lambda>u. set_membership u t (mr_role v)))) (\<lambda>m.
     bindE (gets (\<lambda>w. membership_detail_json w m)) (\<lambda>j.
     ret (json_response 201 [] (envelope j (rq_id r) []))))))"

definition membership_delete :: "uuid \<Rightarrow> user \<Rightarrow> handler" where
  "membership_delete i admin r =
     bindE (delete_where memberships_tbl (\<lambda>_ m. mem_id m = i)) (\<lambda>n.
     if n = 0 then throw (ResourceNotFound ''Membership not found'') else ret no_content)"

subsection \<open>Tenants\<close>

record tenant_request =
  tr_name :: string
  tr_subdomain :: string
  tr_default_currency :: string
  tr_is_active :: bool

definition slug_char :: "char \<Rightarrow> bool" where
  "slug_char c \<longleftrightarrow> is_lower c \<or> is_upper c \<or> is_digit c \<or> c = CHR ''-'' \<or> c = CHR ''_''"

text \<open>The field's own checks (a slug of at most 63 characters, unique), then the one of the serializer.\<close>

definition validate_subdomain :: "string list \<Rightarrow> tenant list \<Rightarrow> string \<Rightarrow> exn + string" where
  "validate_subdomain reserved existing s =
     (if s = [] then Inl (field_error ''subdomain'' ''This field may not be blank.'')
      else if \<not> list_all slug_char s
      then Inl (field_error ''subdomain'' ''Enter a valid slug consisting of letters, numbers, underscores or hyphens.'')
      else if 63 < length s then Inl (field_error ''subdomain'' ''Ensure this field has no more than 63 characters.'')
      else if s \<in> ten_subdomain ` set existing
      then Inl (field_error ''subdomain'' ''tenant with this subdomain already exists.'')
      else if s \<in> set reserved then Inl (field_error ''subdomain'' (''`'' @ s @ ''` is a reserved subdomain.''))
      else Inr s)"

text \<open>\<open>CREATE SEQUENCE IF NOT EXISTS ... START 1000\<close>: the first number given out is 1000.\<close>

definition create_per_tenant_sequences :: "uuid \<Rightarrow> unit act" where
  "create_per_tenant_sequences t = modify (\<lambda>w.
     w\<lparr>order_seq := (order_seq w)(t := (case order_seq w t of None \<Rightarrow> Some 999 | Some n \<Rightarrow> Some n)),
       invoice_seq := (invoice_seq w)(t := (case invoice_seq w t of None \<Rightarrow> Some 999 | Some n \<Rightarrow> Some n))\<rparr>)"

definition tenant_json :: "world \<Rightarrow> tenant \<Rightarrow> json" where
  "tenant_json w t =
     JObj [(''id'', id_json (ten_id t)), (''name'', JStr (ten_name t)), (''subdomain'', JStr (ten_subdomain t)),
       (''default_currency'', JStr (ten_default_currency t)), (''is_active'', JBool (ten_is_active t)),
       (''created_at'', JInt (ten_created_at t)), (''updated_at'', JInt (ten_updated_at t)),
       (''tenant_admins'', JList (map (tenant_admin_json w) (filter (\<lambda>m. mem_tenant m = ten_id t) (db_memberships w))))]"

definition tenant_response :: "nat \<Rightarrow> req_ctx \<Rightarrow> tenant \<Rightarrow> http_response act" where
  "tenant_response code r t =
     bindE (gets (\<lambda>w. tenant_json w t)) (\<lambda>j. ret (json_response code [] (envelope j (rq_id r) [])))"

definition tenant_list_get :: "settings \<Rightarrow> query \<Rightarrow> user \<Rightarrow> handler" where
  "tenant_list_get cfg q admin r =
     bindE (gets (\<lambda>w. (order_by_text cfg ten_subdomain (db_tenants w), w))) (\<lambda>(qs, w).
     list_response cfg r q (tenant_json w) qs)"

definition tenant_create_post :: "settings \<Rightarrow> tenant_request \<Rightarrow> user \<Rightarrow> handler" where
  "tenant_create_post cfg v admin r =
     bindE (gets db_tenants) (\<lambda>existing.
     bindE (lift_sum (validate_subdomain (set_reserved_subdomains cfg) existing (tr_subdomain v))) (\<lambda>s.
     bindE (atomic
       (bindE new_uuid (\<lambda>i.
        bindE (gets clock) (\<lambda>now.
        bindE (insert_row tenants_tbl
                 \<lparr>ten_id = i, ten_name = tr_name v, ten_subdomain = s, ten_default_currency = tr_default_currency v,
                  ten_is_active = tr_is_active v, ten_created_at = now, ten_updated_at = now\<rparr>) (\<lambda>t.
        seqE (create_per_tenant_sequences (ten_id t)) (ret t)))))) (tenant_response 201 r)))"

definition get_tenant :: "uuid \<Rightarrow> tenant act" where
  "get_tenant i = get_row_all tenants_tbl (\<lambda>t. ten_id t = i) (ResourceNotFound ''Tenant not found'')"

definition tenant_detail_get :: "uuid \<Rightarrow> user \<Rightarrow> handler" where
  "tenant_detail_get i admin r = bindE (get_tenant i) (tenant_response 200 r)"

record tenant_patch =
  tp_name :: "string option"
  tp_default_currency :: "string option"
  tp_is_active :: "bool option"

definition patched_tenant :: "tenant_patch \<Rightarrow> time \<Rightarrow> tenant \<Rightarrow> tenant" where
  "patched_tenant p now t =
     t\<lparr>ten_name := opt_or (tp_name p) (ten_name t),
       ten_default_currency := opt_or (tp_default_currency p) (ten_default_currency t),
       ten_is_active := opt_or (tp_is_active p) (ten_is_active t), ten_updated_at := now\<rparr>"

definition tenant_detail_patch :: "uuid \<Rightarrow> tenant_patch \<Rightarrow> user \<Rightarrow> handler" where
  "tenant_detail_patch i p admin r =
     bindE (get_tenant i) (\<lambda>t.
     bindE (gets clock) (\<lambda>now.
     bindE (update_where tenants_tbl (\<lambda>_ x. ten_id x = ten_id t) (\<lambda>_. patched_tenant p now t)) (\<lambda>_.
     tenant_response 200 r (patched_tenant p now t))))"

subsection \<open>Who an administrator is\<close>

text \<open>What a token that authenticates is worth: an active user, and a token younger than the limit.\<close>

definition authenticated :: "int \<Rightarrow> string \<Rightarrow> world \<Rightarrow> user \<Rightarrow> auth_token \<Rightarrow> bool" where
  "authenticated ttl key w u tok \<longleftrightarrow>
     tok \<in> set (db_tokens w) \<and> tok_key tok = key \<and> u \<in> set (db_users w) \<and> user_id u = tok_user tok \<and>
     user_is_active u \<and> (0 < ttl \<longrightarrow> clock w - ttl * second_us \<le> tok_created tok)"

lemma authenticate_credentials_closed:
  assumes "authenticate_credentials ttl key w = (Inr (u, tok), w')"
  shows "w' = w \<and> authenticated ttl key w u tok"
proof -
  obtain tok0 where t: "get_row_all tokens_tbl (\<lambda>t. tok_key t = key) (AuthenticationFailed ''Invalid token.'') w = (Inr tok0, w)"
    and rest: "(case user_by_id (tok_user tok0) w of None \<Rightarrow> throw (DoesNotExist ''User'') | Some u \<Rightarrow>
        if \<not> user_is_active u then throw (AuthenticationFailed ''User inactive or deleted.'')
        else bindE current_time (\<lambda>now. if token_expired ttl now tok0
          then throw (AuthenticationFailed ''Token has expired'') else ret (u, tok0))) w = (Inr (u, tok), w')"
    using assms unfolding authenticate_credentials_def
    by (elim bindE_Inr_D) (auto dest: get_row_all_Inr(1))
  have keys: "tok0 \<in> set (db_tokens w)" "tok_key tok0 = key"
    using get_row_all_Inr(2,3) [OF t] by simp_all
  obtain u0 where u: "user_by_id (tok_user tok0) w = Some u0"
    using rest by (cases "user_by_id (tok_user tok0) w") auto
  then have "u0 \<in> set (db_users w)" "user_id u0 = tok_user tok0"
    unfolding user_by_id_def by (auto simp: find_Some_iff)
  with rest u keys show ?thesis
    by (auto simp: current_time_def token_expired_def authenticated_def split: if_splits)
qed

lemma token_authentication_Some:
  assumes "token_authentication ttl key w = (Inr (Some u), w')"
  shows "w' = w \<and> (\<exists>k tok. key = Some k \<and> authenticated ttl k w u tok)"
proof -
  obtain k where k: "key = Some k" using assms by (cases key) (auto simp: token_authentication_def)
  obtain r w1 where run: "authenticate_credentials ttl k w = (r, w1)" by fastforce
  show ?thesis
    using assms k run authenticate_credentials_closed [of ttl k w]
    by (cases r) (auto simp: token_authentication_def bindE_def)
qed

lemma token_authentication_keeps: "snd (token_authentication ttl key w) = w"
proof -
  have "preserves (\<lambda>s. s = w) (token_authentication ttl key)"
    unfolding token_authentication_def authenticate_credentials_def by (intro hoare_intros)
  then show ?thesis by (simp add: preserves_def)
qed

definition tenant_admin :: "user \<Rightarrow> tenant \<Rightarrow> world \<Rightarrow> bool" where
  "tenant_admin u t w \<longleftrightarrow> user_is_superuser u \<or>
     (\<exists>m \<in> set (db_memberships w). mem_user m = user_id u \<and> mem_tenant m = ten_id t \<and> mem_role m = TENANT_ADMIN)"

text \<open>A view of a tenant's administration runs for an authenticated administrator of that tenant only.\<close>

lemma tenant_admin_view_closed:
  "(\<exists>u t k tok. key = Some k \<and> authenticated ttl k w u tok \<and> rq_tenant r = Some t \<and> tenant_admin u t w \<and>
      tenant_admin_view ttl key view r w = view u r w) \<or>
   (\<exists>e. tenant_admin_view ttl key view r w = (Inl e, w))"
proof -
  obtain a w1 where run: "token_authentication ttl key w = (a, w1)" by fastforce
  have w1: "w1 = w" using token_authentication_keeps [of ttl key w] run by simp
  show ?thesis
  proof (cases "\<exists>u t. a = Inr (Some u) \<and> rq_tenant r = Some t \<and> tenant_admin u t w")
    case True
    then obtain u t where a: "a = Inr (Some u)" "rq_tenant r = Some t" "tenant_admin u t w" by blast
    with token_authentication_Some [of ttl key w u w1] run
    obtain k tok where "key = Some k" "authenticated ttl k w u tok" by blast
    moreover have "tenant_admin_view ttl key view r w = view u r w"
      using a run w1 by (simp add: tenant_admin_view_def is_tenant_admin_def tenant_admin_def bindE_def)
    ultimately show ?thesis using a by blast
  next
    case False
    then show ?thesis
      using run w1
      by (auto simp: tenant_admin_view_def is_tenant_admin_def tenant_admin_def permission_denied_def bindE_def
          split: sum.split option.split)
  qed
qed

lemma platform_admin_view_closed:
  "(\<exists>u k tok. key = Some k \<and> authenticated ttl k w u tok \<and> user_is_superuser u \<and>
      platform_admin_view ttl key view r w = view u r w) \<or>
   (\<exists>e. platform_admin_view ttl key view r w = (Inl e, w))"
proof -
  obtain a w1 where run: "token_authentication ttl key w = (a, w1)" by fastforce
  have w1: "w1 = w" using token_authentication_keeps [of ttl key w] run by simp
  show ?thesis
  proof (cases "\<exists>u. a = Inr (Some u) \<and> user_is_superuser u")
    case True
    then obtain u where a: "a = Inr (Some u)" "user_is_superuser u" by blast
    with token_authentication_Some [of ttl key w u w1] run
    obtain k tok where "key = Some k" "authenticated ttl k w u tok" by blast
    moreover have "platform_admin_view ttl key view r w = view u r w"
      using a run w1 by (simp add: platform_admin_view_def is_platform_admin_def bindE_def)
    ultimately show ?thesis using a by blast
  next
    case False
    then show ?thesis
      using run w1
      by (auto simp: platform_admin_view_def is_platform_admin_def permission_denied_def bindE_def
          split: sum.split option.split)
  qed
qed

subsection \<open>Sessions and memberships\<close>

text \<open>A login leaves the user exactly one token, issued now; a refused one changes nothing and does not say why.\<close>

lemma tokens_insert_Inr:
  assumes "insert_row tokens_tbl x w = (Inr tok, w')"
  shows "tok = x" and "w' = w\<lparr>db_tokens := db_tokens w @ [x]\<rparr>"
  using tokens.insert_row_Inr [OF assms] by simp_all

lemma rotate_token_Inr:
  assumes "rotate_token new_key u w = (Inr tok, w')"
  shows "tok_user tok = user_id u" and "tok_created tok = clock w"
    and "db_tokens w' = filter (\<lambda>t. tok_user t \<noteq> user_id u) (db_tokens w) @ [tok]"
    and "db_users w' = db_users w"
proof -
  have i: "insert_row tokens_tbl \<lparr>tok_key = new_key (fresh_id w), tok_user = user_id u, tok_created = clock w\<rparr>
      (w\<lparr>db_tokens := filter (\<lambda>t. tok_user t \<noteq> user_id u) (db_tokens w), fresh_id := Suc (fresh_id w)\<rparr>) = (Inr tok, w')"
    using assms by (simp add: rotate_token_def bindE_def delete_where_def new_uuid_def current_time_def)
  note facts = tokens_insert_Inr [OF i]
  show "tok_user tok = user_id u" and "tok_created tok = clock w" using facts by simp_all
  show "db_tokens w' = filter (\<lambda>t. tok_user t \<noteq> user_id u) (db_tokens w) @ [tok]"
    and "db_users w' = db_users w" using facts by simp_all
qed

lemma login_rotates:
  assumes "login_post ttl new_key email password r w = (Inr resp, w')"
  shows "resp = invalid_credentials (rq_id r) \<and> w' = w \<or>
    (\<exists>u tok. u \<in> set (db_users w) \<and> user_is_active u \<and> lower (user_email u) = lower email \<and> user_password u = password \<and>
       tok_created tok = clock w \<and> filter (\<lambda>t. tok_user t = user_id u) (db_tokens w') = [tok] \<and>
       filter (\<lambda>t. tok_user t \<noteq> user_id u) (db_tokens w') = filter (\<lambda>t. tok_user t \<noteq> user_id u) (db_tokens w))"
proof (cases "get_where (\<lambda>u. lower (user_email u) = lower email \<and> user_is_active u) (db_users w)")
  case NoRow
  with assms show ?thesis by (simp add: login_post_def)
next
  case ManyRows
  with assms show ?thesis by (simp add: login_post_def)
next
  case (OneRow u)
  note u = get_where_OneRowD [OF OneRow]
  show ?thesis
  proof (cases "user_password u = password")
    case False
    with OneRow assms show ?thesis by (simp add: login_post_def)
  next
    case True
    with OneRow assms obtain tok w1 where rot: "rotate_token new_key u w = (Inr tok, w1)" and "w' = w1"
      by (auto simp: login_post_def bindE_def split: prod.splits sum.splits)
    with rotate_token_Inr [OF rot] u True show ?thesis
      by (intro disjI2 exI [of _ u] exI [of _ tok]) simp
  qed
qed

lemma get_where_filtered: "(\<And>x. x \<in> set xs \<Longrightarrow> \<not> P x) \<Longrightarrow> get_where P xs = NoRow"
  by (simp add: get_where_NoRow_iff)

lemma logout_revokes:
  assumes "distinct (map tok_key (db_tokens w))" and tok: "tok \<in> set (db_tokens w)" "tok_user tok = user_id u"
    and run: "logout_post u r w = (res, w')"
  shows "res = Inr no_content"
    and "authenticate_credentials ttl (tok_key tok) w' = (Inl (AuthenticationFailed ''Invalid token.''), w')"
proof -
  have w': "w' = w\<lparr>db_tokens := filter (\<lambda>t. tok_user t \<noteq> user_id u) (db_tokens w)\<rparr>" and res: "res = Inr no_content"
    using run by (simp_all add: logout_post_def bindE_def delete_where_def)
  have "\<not> tok_key t = tok_key tok" if "t \<in> set (db_tokens w')" for t
    using that w' tok assms(1) by (auto simp: distinct_map dest: inj_onD)
  then have "get_where (\<lambda>t. tok_key t = tok_key tok) (db_tokens w') = NoRow"
    by (rule get_where_filtered)
  then show "authenticate_credentials ttl (tok_key tok) w' = (Inl (AuthenticationFailed ''Invalid token.''), w')"
    by (simp add: authenticate_credentials_def get_row_all_def one_or_raise_def bindE_def)
  show "res = Inr no_content" by (rule res)
qed

text \<open>A revoked membership is gone with the next request.\<close>

lemma membership_revoked:
  assumes "schema w" and m: "m \<in> set (db_memberships w)" "mem_user m = user_id u" "mem_tenant m = ten_id t"
    and "\<not> user_is_superuser u" and run: "membership_delete (mem_id m) admin r w = (res, w')"
  shows "res = Inr no_content \<and> \<not> is_tenant_admin (Some u) (Some t) w'"
proof -
  have pair: "distinct (map (\<lambda>r. (mem_user r, mem_tenant r)) (db_memberships w))"
    using schema_get(2) [OF assms(1)] by (simp add: memberships_tbl_def)
  have "filter (\<lambda>x. mem_id x = mem_id m) (db_memberships w) \<noteq> []"
    using m by (auto simp: filter_empty_conv)
  then have w': "w' = w\<lparr>db_memberships := filter (\<lambda>x. mem_id x \<noteq> mem_id m) (db_memberships w)\<rparr>"
    and "res = Inr no_content"
    using run by (auto simp: membership_delete_def bindE_def delete_where_def split: if_splits)
  moreover have "x = m" if "x \<in> set (db_memberships w)" "mem_user x = user_id u" "mem_tenant x = ten_id t" for x
    using inj_onD [of "\<lambda>r. (mem_user r, mem_tenant r)" "set (db_memberships w)" x m] pair that m
    by (simp add: distinct_map)
  ultimately show ?thesis using assms(5) by (auto simp: is_tenant_admin_def)
qed

subsection \<open>New tenants\<close>

lemma validate_subdomain_Inr:
  assumes "validate_subdomain reserved existing s = Inr x"
  shows "x = s" and "s \<noteq> []" and "length s \<le> 63" and "list_all slug_char s" and "s \<notin> set reserved"
    and "s \<notin> ten_subdomain ` set existing"
  using assms by (auto simp: validate_subdomain_def split: if_splits)

lemma tenants_insert_Inr:
  assumes "insert_row tenants_tbl x w = (Inr t, w')"
  shows "t = x" and "w' = w\<lparr>db_tenants := db_tenants w @ [x]\<rparr>"
  using tenants.insert_row_Inr [OF assms] by simp_all

text \<open>A new tenant has a valid, unique name and sequences of its own, whose first numbers are 1000.\<close>

lemma tenant_create_run:
  assumes "tenant_create_post cfg v admin r w = (Inr resp, w')"
    and "order_seq w (fresh_id w) = None" "invoice_seq w (fresh_id w) = None"
  shows "\<exists>t. db_tenants w' = db_tenants w @ [t] \<and> ten_id t = fresh_id w \<and> ten_subdomain t = tr_subdomain v \<and>
    list_all slug_char (ten_subdomain t) \<and> ten_subdomain t \<notin> set (set_reserved_subdomains cfg) \<and>
    ten_subdomain t \<notin> ten_subdomain ` set (db_tenants w) \<and>
    fst (next_order_number (ten_id t) w') = Inr 1000 \<and> fst (next_invoice_number (ten_id t) w') = Inr 1000"
proof -
  let ?row = "\<lambda>i now. \<lparr>ten_id = i, ten_name = tr_name v, ten_subdomain = tr_subdomain v,
      ten_default_currency = tr_default_currency v, ten_is_active = tr_is_active v, ten_created_at = now,
      ten_updated_at = now\<rparr>"
  let ?make = "bindE new_uuid (\<lambda>i. bindE (gets clock) (\<lambda>now. bindE (insert_row tenants_tbl (?row i now))
      (\<lambda>t. seqE (create_per_tenant_sequences (ten_id t)) (ret t))))"
  obtain s where s: "validate_subdomain (set_reserved_subdomains cfg) (db_tenants w) (tr_subdomain v) = Inr s"
    using assms(1) by (cases "validate_subdomain (set_reserved_subdomains cfg) (db_tenants w) (tr_subdomain v)")
      (auto simp: tenant_create_post_def)
  note name = validate_subdomain_Inr [OF s]
  have "bindE (atomic ?make) (tenant_response 201 r) w = (Inr resp, w')"
    using assms(1) s name(1) by (simp add: tenant_create_post_def)
  then obtain t where "atomic ?make w = (Inr t, w')" by (elim bindE_Inr_D) (auto simp: tenant_response_def bindE_def)
  from atomic_Inr_D [OF this] obtain w1 where run: "?make (enter_atomic w) = (Inr t, w1)" and w': "w' = commit w w1"
    by blast
  then obtain w2 where ins: "insert_row tenants_tbl (?row (fresh_id w) (clock w))
      ((enter_atomic w)\<lparr>fresh_id := Suc (fresh_id w)\<rparr>) = (Inr t, w2)"
    and seq: "seqE (create_per_tenant_sequences (ten_id t)) (ret t) w2 = (Inr t, w1)"
    by (auto simp: new_uuid_def bindE_def seqE_def enter_atomic_def create_per_tenant_sequences_def
        split: prod.splits sum.splits)
  note t = tenants_insert_Inr [OF ins]
  show ?thesis
    using t seq w' name assms(2,3)
    by (intro exI [of _ t])
      (auto simp: create_per_tenant_sequences_def enter_atomic_def commit_def next_order_number_def
        next_invoice_number_def)
qed

lemma lower_no_upper: "c \<in> set (lower s) \<Longrightarrow> \<not> is_upper c"
proof -
  have "\<not> is_upper (to_lower d)" for d
    by (auto simp: to_lower_def is_upper_def)
  then show "c \<in> set (lower s) \<Longrightarrow> \<not> is_upper c" by (auto simp: lower_def)
qed

text \<open>A subdomain with a capital letter passes the serializer, but no host name resolves to it.\<close>

lemma set_last_label: "set (last_label xs) \<subseteq> set xs"
  by (auto simp: last_label_def dest: set_takeWhileD)

lemma extract_subdomain_lower:
  assumes "extract_subdomain cfg host = Some s" and "c \<in> set s"
  shows "\<not> is_upper c"
proof -
  let ?h = "lower (takeWhile (\<lambda>c. c \<noteq> CHR '':'') host)"
  have "s = last_label (take (length ?h - length (lower (set_domain_suffix cfg)) - 1) ?h)"
    using assms(1) by (auto simp: extract_subdomain_def Let_def split: if_splits)
  then have "set s \<subseteq> set ?h"
    using set_last_label set_take_subset by (metis subset_trans)
  with assms(2) show ?thesis using lower_no_upper by blast
qed

lemma capital_subdomain_unreachable:
  assumes "\<not> set_debug cfg" and "c \<in> set s" and "is_upper c"
  shows "tenant_subdomain cfg host \<noteq> Some s"
  using assms extract_subdomain_lower [of cfg host s c]
  by (auto simp: tenant_subdomain_def split: option.splits)

subsection \<open>What the handlers keep\<close>

lemma sound_identity [simp]:
  "sound w \<Longrightarrow> tbl_ok tenants_tbl a \<Longrightarrow> sound (w\<lparr>db_tenants := a\<rparr>)"
  "sound w \<Longrightarrow> tbl_ok memberships_tbl b \<Longrightarrow> sound (w\<lparr>db_memberships := b\<rparr>)"
  "sound w \<Longrightarrow> tbl_ok tokens_tbl c \<Longrightarrow> sound (w\<lparr>db_tokens := c\<rparr>)"
  "sound (w\<lparr>db_users := d\<rparr>) = sound w" "sound (w\<lparr>fresh_id := n\<rparr>) = sound w"
  "sound (w\<lparr>order_seq := f\<rparr>) = sound w" "sound (w\<lparr>invoice_seq := f\<rparr>) = sound w"
  by (simp_all add: sound_def ledger_def)

lemma sound_deletes [simp]:
  "sound w \<Longrightarrow> sound (w\<lparr>db_tenants := filter P (db_tenants w)\<rparr>)"
  "sound w \<Longrightarrow> sound (w\<lparr>db_memberships := filter Q (db_memberships w)\<rparr>)"
  "sound w \<Longrightarrow> sound (w\<lparr>db_tokens := filter R (db_tokens w)\<rparr>)"
  by (simp_all add: sound_def ledger_def)

lemma preserves_sound_atomic: "preserves sound m \<Longrightarrow> preserves sound (atomic m)"
  by (rule preserves_atomic)
    (auto simp: sound_def ledger_of_tables rollback_def commit_def enter_atomic_def ledger_def schema_def)

lemma tenant_lists_keep: "preserves I (tenant_list_get cfg q u r)" "preserves I (tenant_detail_get i u r)"
  unfolding tenant_list_get_def tenant_detail_get_def tenant_response_def get_tenant_def
  by (intro hoare_intros)+

lemma iam_sound:
  "preserves sound (login_post ttl new_key email password r)" "preserves sound (logout_post u r)"
  "preserves sound (me_get u r)" "preserves sound (membership_create_post tid req u r)"
  "preserves sound (membership_delete i u r)" "preserves sound (tenant_create_post cfg v u r)"
  "preserves sound (tenant_detail_patch i p u r)" 
  unfolding login_post_def rotate_token_def logout_post_def me_get_def membership_create_post_def membership_delete_def
    tenant_create_post_def tenant_detail_patch_def find_or_create_user_def create_user_def set_membership_def
    create_per_tenant_sequences_def tenant_response_def get_tenant_def Let_def
  by (intro hoare_intros preserves_sound_atomic preserves_update_where preserves_delete_where preserves_insert_row
      preserves_new_uuid preserves_modify; simp)+

text \<open>Authentication and permissions write nothing.\<close>

lemma admin_views_preserve:
  assumes "\<And>u. preserves I (view u r)"
  shows "preserves I (tenant_admin_view ttl key view r)" "preserves I (platform_admin_view ttl key view r)"
    "preserves I (authenticated_view ttl key view r)"
  unfolding tenant_admin_view_def platform_admin_view_def authenticated_view_def token_authentication_def authenticate_credentials_def
    permission_denied_def
  by (intro hoare_intros assms)+

end
