(* ===== verification/AdminOrders.thy ===== *)
theory AdminOrders
  imports PaymentViews Iam
begin

section \<open>The administration of orders\<close>

text \<open>
  \<^verbatim>\<open>apps/orders/views/admin\<close> and \<^verbatim>\<open>apps/orders/serializers/admin_order.py\<close>: the
  order with its payment attempts and its invoice, and the manual settlement of a purchase order.
\<close>

subsection \<open>What an administrator sees\<close>

definition admin_payment_json :: "world \<Rightarrow> payment \<Rightarrow> json" where
  "admin_payment_json w p =
     JObj [(''id'', id_json (row_id p)), (''status'', JStr (payment_status_value (pay_status p))),
       (''amount'', money_json (pay_amount p)), (''currency'', JStr (pay_currency p)),
       (''gateway_name'', config_name_json w (pay_gateway_config p)),
       (''gateway_transaction_id'', JStr (pay_gateway_transaction_id p)),
       (''idempotency_key'', JStr (pay_idempotency_key p)),
       (''gateway_response'', JObj (pay_gateway_response p)), (''created_at'', JInt (created_at p)),
       (''updated_at'', JInt (updated_at p))]"

definition payments_of_order :: "world \<Rightarrow> uuid \<Rightarrow> payment list" where
  "payments_of_order w i =
     newest_first (filter (\<lambda>p. pay_order p = i) (objects payments_tbl w))"

definition admin_invoice_json :: "world \<Rightarrow> order \<Rightarrow> json" where
  "admin_invoice_json w od =
     (case invoice_of w od of
        None \<Rightarrow> JNull
      | Some iv \<Rightarrow> JObj [(''id'', id_json (row_id iv)), (''invoice_number'', JInt (inv_number iv)),
          (''pdf_url'', JStr (inv_pdf_url iv)), (''issued_at'', opt_int_json (inv_issued_at iv))])"

definition admin_order_json :: "world \<Rightarrow> order \<Rightarrow> json" where
  "admin_order_json w od =
     JObj ([(''id'', id_json (row_id od)), (''order_number'', JInt (ord_number od)),
            (''customer_id'', id_json (ord_customer od))] @ order_fields w od
       @ [(''payments'', JList (map (admin_payment_json w) (payments_of_order w (row_id od)))),
          (''invoice'', admin_invoice_json w od),
          (''created_at'', JInt (created_at od)), (''updated_at'', JInt (updated_at od))])"

definition admin_order_response :: "req_ctx \<Rightarrow> order \<Rightarrow> http_response act" where
  "admin_order_response r od =
     bindE (gets (\<lambda>w. admin_order_json w od)) (\<lambda>j. ret (json_response 200 [] (envelope j (rq_id r) [])))"

definition admin_get_order :: "uuid \<Rightarrow> order act" where
  "admin_get_order i = get_row orders_tbl (\<lambda>od. row_id od = i) (ResourceNotFound ''Order not found'')"

definition admin_order_detail_get :: "uuid \<Rightarrow> user \<Rightarrow> handler" where
  "admin_order_detail_get i u r = bindE (admin_get_order i) (admin_order_response r)"

definition admin_order_payments_get :: "uuid \<Rightarrow> user \<Rightarrow> handler" where
  "admin_order_payments_get i u r =
     bindE (admin_get_order i) (\<lambda>od.
     bindE (gets (\<lambda>w. JList (map (admin_payment_json w) (payments_of_order w (row_id od))))) (\<lambda>j.
     ret (json_response 200 [] (envelope j (rq_id r) []))))"

text \<open>The customer of the query is a text that the database layer reads as an identifier.\<close>

definition admin_order_queryset :: "settings \<Rightarrow> string \<Rightarrow> string \<Rightarrow> world \<Rightarrow> exn + order list" where
  "admin_order_queryset cfg status customer w =
     (let qs = newest_first (objects orders_tbl w);
          qs = (if status = [] then qs else filter (\<lambda>od. order_status_value (ord_status od) = status) qs)
      in if customer = [] then Inr qs
         else case set_to_uuid cfg customer of
                Inl e \<Rightarrow> Inl e
              | Inr i \<Rightarrow> Inr (filter (\<lambda>od. ord_customer od = i) qs))"

definition admin_order_list_get :: "settings \<Rightarrow> query \<Rightarrow> user \<Rightarrow> handler" where
  "admin_order_list_get cfg q u r =
     bindE (gets (\<lambda>w. (admin_order_queryset cfg (query_get q ''status'') (query_get q ''customer_id'') w, w))) (\<lambda>(qs, w).
     bindE (lift_sum qs) (list_response cfg r q (admin_order_json w)))"

subsection \<open>Settlement of a purchase order\<close>

definition reference_field :: "dict \<Rightarrow> string field" where
  "reference_field kvs =
     (case map_of kvs ''reference'' of
        None \<Rightarrow> Inr ''''
      | Some JNull \<Rightarrow> Inl [''This field may not be null.'']
      | Some (JStr s) \<Rightarrow> Inr (strip s)
      | Some (JInt i) \<Rightarrow> Inr (show_int i)
      | Some _ \<Rightarrow> Inl [''Not a valid string.''])"

definition not_payable :: "order \<Rightarrow> exn" where
  "not_payable od = OrderNotCancellable
     (''Cannot mark paid: order is in status '' @ [CHR 0x27] @ order_status_value (ord_status od) @ [CHR 0x27])
     [(''order_id'', id_json (row_id od)), (''status'', JStr (order_status_value (ord_status od)))]"

definition no_invoice_payment :: "order \<Rightarrow> exn" where
  "no_invoice_payment od = OrderNotCancellable ''Order has no invoice-pending payment; not a PO order.''
     [(''order_id'', id_json (row_id od))]"

definition settle_invoice :: "order \<Rightarrow> payment \<Rightarrow> string \<Rightarrow> order act" where
  "settle_invoice od p reference = atomic
     (bindE (mark_invoice_paid (row_id p) reference) (\<lambda>_.
      bindE (refresh_from_db orders_tbl od) (\<lambda>od.
      if ord_status od \<noteq> OrderPaid
      then save_fields orders_tbl (\<lambda>x. x\<lparr>ord_status := OrderPaid\<rparr>) od
      else ret od)))"

definition order_mark_paid_post :: "uuid \<Rightarrow> dict \<Rightarrow> user \<Rightarrow> handler" where
  "order_mark_paid_post i body u r =
     bindE (lift_sum (one_field ''reference'' (reference_field body))) (\<lambda>reference.
     bindE (admin_get_order i) (\<lambda>od.
     if ord_status od = OrderPaid then admin_order_response r od
     else if ord_status od \<noteq> OrderPending then throw (not_payable od)
     else
       bindE (latest_row payments_tbl (\<lambda>p. pay_order p = row_id od \<and> pay_status p = PayInvoicePending)) (\<lambda>found.
       case found of
         None \<Rightarrow> throw (no_invoice_payment od)
       | Some p \<Rightarrow>
           bindE (settle_invoice od p reference) (\<lambda>od.
           bindE (refresh_from_db orders_tbl od) (admin_order_response r)))))"

subsection \<open>What settlement does\<close>

lemma admin_order_list_keeps: "preserves I (admin_order_list_get cfg q u r)"
  unfolding admin_order_list_get_def by (intro hoare_intros)

lemma admin_order_views_inv:
  "preserves (inv t {}) (admin_order_detail_get i u r)" "preserves (inv t {}) (admin_order_payments_get i u r)"
  "preserves (inv t {}) (order_mark_paid_post i body u r)"
  unfolding admin_order_detail_get_def admin_order_payments_get_def order_mark_paid_post_def admin_get_order_def
    admin_order_response_def settle_invoice_def
  by (intro op_intros mark_invoice_paid_inv; simp)+

lemma admin_order_response_keeps: "admin_order_response r od w = (res, w') \<Longrightarrow> w' = w"
  by (simp add: admin_order_response_def)

text \<open>An order that is paid already is answered as it is.\<close>

lemma mark_paid_again:
  assumes "get_row orders_tbl (\<lambda>od. row_id od = i) (ResourceNotFound ''Order not found'') w = (Inr od, w)"
    and "ord_status od = OrderPaid" and "reference_field body = Inr x"
  shows "order_mark_paid_post i body u r w =
    (Inr (json_response 200 [] (envelope (admin_order_json w od) (rq_id r) [])), w)"
  using assms by (simp add: order_mark_paid_post_def one_field_def admin_get_order_def bindE_def admin_order_response_def)

text \<open>An order that was not sold on invoice is refused, and nothing changes.\<close>

lemma mark_paid_refused:
  assumes "get_row orders_tbl (\<lambda>od. row_id od = i) (ResourceNotFound ''Order not found'') w = (Inr od, w)"
    and "ord_status od \<noteq> OrderPaid"
    and "\<forall>p \<in> set (objects payments_tbl w). pay_order p = i \<longrightarrow> pay_status p \<noteq> PayInvoicePending"
    and "reference_field body = Inr x"
  shows "order_mark_paid_post i body u r w =
    (Inl (if ord_status od = OrderPending then no_invoice_payment od else not_payable od), w)"
proof -
  have id: "row_id od = i" using get_row_Inr(3) [OF assms(1)] .
  then have none: "filter (\<lambda>p. pay_order p = row_id od \<and> pay_status p = PayInvoicePending) (objects payments_tbl w) = []"
    using assms(3) by (auto simp: filter_empty_conv)
  then show ?thesis
    using assms id
    by (simp add: order_mark_paid_post_def one_field_def admin_get_order_def bindE_def latest_row_def first_by_def)
qed

lemma mark_invoice_paid_Inr:
  assumes "mark_invoice_paid i reference w = (Inr p, w')"
  shows "\<exists>q \<in> set (db_payments w). row_id q = i \<and>
    (\<exists>q' \<in> set (db_payments w'). row_id q' = i \<and> pay_order q' = pay_order q \<and> pay_status q' = PayCaptured)"
    and "db_orders w' = db_orders w"
proof -
  obtain w1 where run: "bindE (get_payment i) (\<lambda>p.
      if pay_status p = PayCaptured then ret p
      else if pay_status p \<noteq> PayInvoicePending
      then throw (PaymentFailed (Some (''Cannot mark paid: payment is in status '' @
             payment_status_value (pay_status p))) None)
      else save_fields payments_tbl
             (set_status_response PayCaptured
               (dict_update (pay_gateway_response p) [(''marked_paid_reference'', JStr reference)])) p)
      (enter_atomic w) = (Inr p, w1)" and w': "w' = commit w w1"
    using assms unfolding mark_invoice_paid_def by (rule atomic_Inr_D)
  obtain q w2 where g: "get_payment i (enter_atomic w) = (Inr q, w2)"
    and rest: "(if pay_status q = PayCaptured then ret q
      else if pay_status q \<noteq> PayInvoicePending
      then throw (PaymentFailed (Some (''Cannot mark paid: payment is in status '' @
             payment_status_value (pay_status q))) None)
      else save_fields payments_tbl
             (set_status_response PayCaptured
               (dict_update (pay_gateway_response q) [(''marked_paid_reference'', JStr reference)])) q) w2 = (Inr p, w1)"
    using run by (rule bindE_Inr_D)
  note q = get_row_Inr [OF g [unfolded get_payment_def]]
  have "(\<exists>q' \<in> set (db_payments w1). row_id q' = i \<and> pay_order q' = pay_order q \<and> pay_status q' = PayCaptured) \<and>
      db_orders w1 = db_orders w"
  proof (cases "pay_status q = PayCaptured")
    case True
    with rest q show ?thesis by (auto simp: enter_atomic_def)
  next
    case False
    with rest have s: "save_fields payments_tbl (set_status_response PayCaptured
        (dict_update (pay_gateway_response q) [(''marked_paid_reference'', JStr reference)])) q w2 = (Inr p, w1)"
      by (auto split: if_splits)
    let ?f = "\<lambda>r. (set_status_response PayCaptured
        (dict_update (pay_gateway_response q) [(''marked_paid_reference'', JStr reference)]) r)\<lparr>updated_at := clock w2\<rparr>"
    have "?f q \<in> set (upd_where (\<lambda>r. row_id r = row_id q) ?f (db_payments w2))"
      using q by (intro upd_where_member) simp_all
    with save_fields_Inr(2) [OF s] q show ?thesis
      by (intro conjI bexI [of _ "?f q"]) (simp_all add: set_status_response_def enter_atomic_def)
  qed
  with q w' show "\<exists>q \<in> set (db_payments w). row_id q = i \<and>
    (\<exists>q' \<in> set (db_payments w'). row_id q' = i \<and> pay_order q' = pay_order q \<and> pay_status q' = PayCaptured)"
    and "db_orders w' = db_orders w" by (auto simp: enter_atomic_def commit_def)
qed

lemma settle_invoice_Inr:
  assumes "settle_invoice od p reference w = (Inr od', w')" and "inv t {} w"
  shows "(\<exists>x \<in> set (db_orders w'). row_id x = row_id od \<and> ord_status x = OrderPaid) \<and>
    (\<exists>q \<in> set (db_payments w'). row_id q = row_id p \<and> pay_status q = PayCaptured)"
proof -
  let ?set = "\<lambda>od. if ord_status od \<noteq> OrderPaid then save_fields orders_tbl (\<lambda>x. x\<lparr>ord_status := OrderPaid\<rparr>) od
      else ret od"
  obtain w1 where run: "bindE (mark_invoice_paid (row_id p) reference) (\<lambda>_. bindE (refresh_from_db orders_tbl od) ?set)
      (enter_atomic w) = (Inr od', w1)" and w': "w' = commit w w1"
    using assms(1) unfolding settle_invoice_def by (rule atomic_Inr_D)
  obtain p' w2 where m: "mark_invoice_paid (row_id p) reference (enter_atomic w) = (Inr p', w2)"
    and r1: "bindE (refresh_from_db orders_tbl od) ?set w2 = (Inr od', w1)" using run by (rule bindE_Inr_D)
  obtain x w3 where f: "refresh_from_db orders_tbl od w2 = (Inr x, w3)" and s: "?set x w3 = (Inr od', w1)"
    using r1 by (rule bindE_Inr_D)
  note x = refresh_Inr [OF f]
  have "(\<exists>y \<in> set (db_orders w1). row_id y = row_id od \<and> ord_status y = OrderPaid) \<and> db_payments w1 = db_payments w2"
  proof (cases "ord_status x = OrderPaid")
    case True
    with s x show ?thesis by auto
  next
    case False
    with s have "save_fields orders_tbl (\<lambda>x. x\<lparr>ord_status := OrderPaid\<rparr>) x w3 = (Inr od', w1)" by simp
    note saved = save_fields_Inr(2) [OF this]
    let ?f = "\<lambda>r. r\<lparr>ord_status := OrderPaid, updated_at := clock w3\<rparr>"
    have "?f x \<in> set (upd_where (\<lambda>r. row_id r = row_id x) ?f (db_orders w2))"
      using x by (intro upd_where_member) simp_all
    with saved x show ?thesis by (intro conjI bexI [of _ "?f x"]) simp_all
  qed
  with mark_invoice_paid_Inr(1) [OF m] w' show ?thesis by (auto simp: commit_def)
qed

text \<open>A purchase order that is settled is paid, and so is a payment of it.\<close>

lemma mark_paid_settles:
  assumes "order_mark_paid_post i body u r w = (Inr resp, w')" and "inv t {} w"
  shows "\<exists>od \<in> set (db_orders w'). row_id od = i \<and> ord_status od = OrderPaid"
proof -
  obtain reference where "bindE (admin_get_order i) (\<lambda>od.
     if ord_status od = OrderPaid then admin_order_response r od
     else if ord_status od \<noteq> OrderPending then throw (not_payable od)
     else
       bindE (latest_row payments_tbl (\<lambda>p. pay_order p = row_id od \<and> pay_status p = PayInvoicePending)) (\<lambda>found.
       case found of
         None \<Rightarrow> throw (no_invoice_payment od)
       | Some p \<Rightarrow>
           bindE (settle_invoice od p reference) (\<lambda>od.
           bindE (refresh_from_db orders_tbl od) (admin_order_response r)))) w = (Inr resp, w')"
    using assms(1) unfolding order_mark_paid_post_def by (rule bindE_Inr_D) auto
  then obtain od w1 where g: "admin_get_order i w = (Inr od, w1)" and rest: "(
     if ord_status od = OrderPaid then admin_order_response r od
     else if ord_status od \<noteq> OrderPending then throw (not_payable od)
     else
       bindE (latest_row payments_tbl (\<lambda>p. pay_order p = row_id od \<and> pay_status p = PayInvoicePending)) (\<lambda>found.
       case found of
         None \<Rightarrow> throw (no_invoice_payment od)
       | Some p \<Rightarrow>
           bindE (settle_invoice od p reference) (\<lambda>od.
           bindE (refresh_from_db orders_tbl od) (admin_order_response r)))) w1 = (Inr resp, w')"
    by (rule bindE_Inr_D)
  note od = get_row_Inr [OF g [unfolded admin_get_order_def]]
  show ?thesis
  proof (cases "ord_status od = OrderPaid")
    case True
    with rest od show ?thesis by (auto dest: admin_order_response_keeps)
  next
    case False
    with rest od(1) obtain p where "bindE (settle_invoice od p reference) (\<lambda>od.
        bindE (refresh_from_db orders_tbl od) (admin_order_response r)) w = (Inr resp, w')"
      by (auto simp: latest_row_def split: if_splits option.splits)
    then obtain od' w2 where s: "settle_invoice od p reference w = (Inr od', w2)"
      and tail: "bindE (refresh_from_db orders_tbl od') (admin_order_response r) w2 = (Inr resp, w')"
      by (rule bindE_Inr_D)
    from tail have "w' = w2"
      by (elim bindE_Inr_D) (auto dest: refresh_Inr(1) admin_order_response_keeps)
    with settle_invoice_Inr [OF s assms(2)] od(3) show ?thesis by auto
  qed
qed

end
