(* ===== verification/Examples.thy ===== *)
theory Examples
  imports Saga
begin

section \<open>A small shop\<close>

text \<open>
  A concrete tenant with one customer, one product, a card of the mock gateway and a cart ready for checkout:
  the states on which the witnesses of the properties evaluate the program.
\<close>

definition empty_world :: world where
  "empty_world = \<lparr>db_tenants = [], db_users = [], db_memberships = [], db_tokens = [], db_customers = [],
     db_addresses = [], db_products = [], db_coupons = [], db_carts = [], db_cart_items = [],
     db_applied_coupons = [], db_payment_methods = [], db_gateway_configs = [], db_orders = [],
     db_order_items = [], db_reservations = [], db_payments = [], db_invoices = [], db_webhook_events = [],
     on_commit_hooks = [], order_seq = (\<lambda>_. None), invoice_seq = (\<lambda>_. None), task_queue = [],
     gateway_log = [], stored_objects = [], fresh_id = 1000, clock = 0, tenant_ctx = None, atomic_depth = 0\<rparr>"

definition shop_customer :: customer where
  "shop_customer = \<lparr>row_id = 10, tenant_id = 1, created_at = 0, updated_at = 0, cust_email = ''a@b.c'',
     cust_name = ''Ann'', cust_phone = '''', cust_type = B2C, cust_tax_id = '''', cust_company_name = '''',
     cust_is_active = True\<rparr>"

definition shop_address :: address where
  "shop_address = \<lparr>row_id = 20, tenant_id = 1, created_at = 0, updated_at = 0, addr_customer = 10,
     addr_label = BOTH, addr_country = ''SA'', addr_city = ''R'', addr_street = ''S'', addr_postal_code = ''1'',
     addr_is_default = True\<rparr>"

definition shop_product :: product where
  "shop_product = \<lparr>row_id = 30, tenant_id = 1, created_at = 0, updated_at = 0, prod_sku = ''P'', prod_name = ''Pen'',
     prod_description = '''', prod_price = 250, prod_currency = ''USD'', prod_stock_quantity = 5,
     prod_reserved_quantity = 0, prod_is_active = True, prod_image_key = ''''\<rparr>"

definition shop_config :: gateway_config where
  "shop_config = \<lparr>row_id = 40, tenant_id = 1, created_at = 0, updated_at = 0, gc_gateway_name = ''mock'',
     gc_credentials = [], gc_is_active = True, gc_is_default = True\<rparr>"

definition shop_card :: payment_method where
  "shop_card = \<lparr>row_id = 50, tenant_id = 1, created_at = 0, updated_at = 0, pm_customer = 10,
     pm_method_type = CARD, pm_gateway_config = Some 40, pm_token = ''tok'', pm_brand = ''visa'',
     pm_last_four = ''4242'', pm_po_account_label = '''', pm_payment_terms = '''', pm_is_default = True\<rparr>"

definition shop_po :: payment_method where
  "shop_po = shop_card\<lparr>row_id := 51, pm_method_type := PURCHASE_ORDER, pm_gateway_config := None,
     pm_payment_terms := ''net_15'', pm_is_default := False\<rparr>"

definition shop_cart :: cart where
  "shop_cart = \<lparr>row_id = 60, tenant_id = 1, created_at = 0, updated_at = 0, cart_customer = 10,
     cart_status = CartActive, cart_currency = ''USD'', cart_version = 1, cart_shipping_address = Some 20,
     cart_billing_address = Some 20, cart_selected_payment_method = Some 50\<rparr>"

definition shop_item :: cart_item where
  "shop_item = \<lparr>row_id = 70, tenant_id = 1, created_at = 0, updated_at = 0, item_cart = 60, item_product = 30,
     item_quantity = 2, item_unit_price_snapshot = 250, item_currency = ''USD''\<rparr>"

definition shop :: world where
  "shop = empty_world\<lparr>db_customers := [shop_customer], db_addresses := [shop_address],
     db_products := [shop_product], db_gateway_configs := [shop_config], db_payment_methods := [shop_card, shop_po],
     db_carts := [shop_cart], db_cart_items := [shop_item], order_seq := (\<lambda>t. if t = 1 then Some 1000 else None),
     invoice_seq := (\<lambda>t. if t = 1 then Some 5000 else None), clock := 100, tenant_ctx := Some 1\<rparr>"

text \<open>The same with the purchase order chosen.\<close>

definition po_shop :: world where
  "po_shop = shop\<lparr>db_carts := [shop_cart\<lparr>cart_selected_payment_method := Some 51\<rparr>]\<rparr>"

definition mock_env :: env where
  "mock_env = \<lparr>env_allow_mock = True, env_registry = [(''mock'', mock_gateway (\<lambda>_. ''event''))],
     env_locks_outer_joins = False\<rparr>"

lemmas shop_defs = empty_world_def shop_customer_def shop_address_def shop_product_def shop_config_def
  shop_card_def shop_po_def shop_cart_def shop_item_def shop_def po_shop_def

subsection \<open>Running the program on it\<close>

text \<open>
  One step of a program once its first part has been evaluated, and congruence rules that keep the
  simplifier from rewriting the parts that have not been reached.
\<close>

lemma bindE_step:
  "m s = (r, s') \<Longrightarrow> bindE m f s = (case r of Inl e \<Rightarrow> (Inl e, s') | Inr x \<Rightarrow> f x s')"
  by (simp add: bindE_def)

lemma seqE_step:
  "m s = (r, s') \<Longrightarrow> seqE m n s = (case r of Inl e \<Rightarrow> (Inl e, s') | Inr x \<Rightarrow> n s')"
  by (simp add: seqE_def bindE_def)

lemma try_step:
  "m s = (r, s') \<Longrightarrow>
   try_except m c h s = (case r of Inl e \<Rightarrow> if c e then h e s' else (Inl e, s') | Inr x \<Rightarrow> (Inr x, s'))"
  by (simp add: try_except_def)

lemma atomic_step:
  "m (enter_atomic s) = (r, s') \<Longrightarrow>
   atomic m s = (case r of Inl e \<Rightarrow> (Inl e, rollback s s') | Inr x \<Rightarrow> (Inr x, commit s s'))"
  by (simp add: atomic_def atomic_with_def)

lemma eval_weak:
  "m = m' \<Longrightarrow> s = s' \<Longrightarrow> bindE m f s = bindE m' f s'" "m = m' \<Longrightarrow> s = s' \<Longrightarrow> seqE m n s = seqE m' n s'"
  "m = m' \<Longrightarrow> s = s' \<Longrightarrow> try_except m c h s = try_except m' c h s'" "s = s' \<Longrightarrow> atomic k s = atomic k s'"
  by simp_all

lemmas run_steps = bindE_step seqE_step try_step atomic_step

lemmas run_database = get_row_def get_row_all_def get_where_def one_or_raise_def objects_def all_objects_def
  filter_rows_def exists_row_def first_row_def latest_row_def first_by_def follow_def refresh_from_db_def
  save_fields_def update_where_def update_rows_def update_rows_all_def write_rows_def create_simp
  create_with_tenant_simp insert_row_def stamp_def in_scope_def new_uuid_def current_time_def log_call_def
  delay_def on_commit_def get_current_tenant_id_def enter_atomic_def commit_def rollback_def keep_seq_def
  tbl_defs pk_ok_def product_ok_def is_active_cart_def fk_def fk_opt_def List.map_filter_def

lemmas run_checkout = run_saga_def prepare_order_def phase_lock_def lock_and_validate_cart_def active_cart_of_def
  load_cart_def items_of_def applied_of_def coupons_of_def phase_validate_def or_compensate_def
  validate_preconditions_def phase_reserve_def reserve_stock_def reserve_product_def insufficient_items_def
  available_quantity_def qty_of_def item_qtys_def dict_of_pairs_def dict_update_def new_reservation_def
  reservation_ttl_def add_reserved_def phase_order_def create_order_def next_order_number_def new_order_def
  new_order_item_def create_order_item_def cv_totals_def compute_totals_def compute_subtotal_def line_total_def
  is_b2b_def pay_order_step_def card_path_def phase_authorize_def phase_convert_def phase_finish_def
  phase_capture_def convert_cart_def link_reservation_def mark_paid_and_commit_def save_order_status_def
  commit_reservations_def settle_if_def settle_def sub_both_def sub_reserved_def enqueue_post_payment_tasks_def
  pending_result_def

lemmas run_payments = authorize_payment_def resolve_gateway_config_def registry_get_def mock_env_def
  mock_gateway_def create_pending_payment_def create_payment_def new_payment_def call_authorize_def
  gateway_call_def mock_authorize_def record_intent_def record_payment_result_def
  default_supports_currency_def build_credentials_def enriched_metadata_def mock_txn_prefix_def raw_or_empty_def
  set_result_def response_of_def capture_payment_def get_payment_def gateway_of_payment_def
  mock_capture_def set_status_response_def

lemmas run_defs = run_steps run_database run_checkout run_payments Let_def

lemma ledger_empty: "ledger empty_world"
  by (simp add: ledger_def empty_world_def products_ok reservations_ok)

lemma shop_inv: "inv 1 {} shop"
  by (simp add: inv_def ledger_def owned_def schema_def shop_defs tbl_defs pk_ok_def product_ok_def
      is_active_cart_def active_qty_def)

lemma shop_carts: "tbl_ok carts_tbl (db_carts shop)"
  by (simp add: carts_ok shop_defs)

end
