(* ===== verification/System.thy ===== *)
theory System
  imports Customers CouponViews AdminOrders Examples
begin

section \<open>The whole system\<close>

text \<open>
  What can happen to the state: requests to the storefront, to the administration of a tenant and to that of
  the platform, webhooks of a gateway, tasks that a worker takes from the queue, the periodic tasks, and time.
  Each is one step; a reachable state comes from a database with no more than user accounts in it. A request
  runs to its end in its transaction before the next step is taken, so the steps are the serializations that
  the row locks of the code allow.
\<close>

subsection \<open>The installation\<close>

text \<open>
  \<open>site_token\<close> is the key in the \<open>Authorization\<close> header as the framework reads it.
\<close>

record site =
  site_settings :: settings
  site_env :: env
  site_storage :: storage
  site_layout :: layout
  site_ttl :: int
  site_new_key :: "uuid \<Rightarrow> string"
  site_token :: "http_request \<Rightarrow> string option"

subsection \<open>The endpoints\<close>

datatype (plugins only: code size) shop_call =
    CartGet | CartDelete | ItemsPost dict | ItemPatch uuid dict | ItemDelete uuid
  | CouponsPost dict | CouponDelete string | CouponPreview dict
  | ShippingPut dict | BillingPut dict | PaymentPut dict | CheckoutPost dict
  | OrderGet uuid | OrderCancel uuid | InvoiceGet uuid | ProductGet uuid
  | ProductList query | OrderList query | MethodList query uuid | GatewayList
  | AddressList query uuid | AddressPost uuid address_input | AddressGet uuid uuid
  | AddressUpdate bool uuid uuid address_input | AddressDelete uuid uuid
  | MethodDefault uuid uuid | MethodGet uuid uuid | MethodDelete uuid uuid | MethodPost uuid method_request
  | GatewayGet string

primrec shop_view :: "site \<Rightarrow> shop_call \<Rightarrow> customer \<Rightarrow> handler" where
  "shop_view s CartGet = cart_detail_get"
| "shop_view s CartDelete = cart_detail_delete"
| "shop_view s (ItemsPost b) = cart_items_post (site_settings s) b"
| "shop_view s (ItemPatch i b) = cart_item_detail_patch i b"
| "shop_view s (ItemDelete i) = cart_item_detail_delete i"
| "shop_view s (CouponsPost b) = cart_coupons_post b"
| "shop_view s (CouponDelete code) = cart_coupon_detail_delete code"
| "shop_view s (CouponPreview b) = cart_coupon_preview_post b"
| "shop_view s (ShippingPut b) = cart_shipping_address_put (site_settings s) b"
| "shop_view s (BillingPut b) = cart_billing_address_put (site_settings s) b"
| "shop_view s (PaymentPut b) = cart_payment_method_put (site_settings s) b"
| "shop_view s (CheckoutPost b) = cart_checkout_post (site_env s) b"
| "shop_view s (OrderGet i) = order_detail_get i"
| "shop_view s (OrderCancel i) = order_cancel_post i"
| "shop_view s (InvoiceGet i) = order_invoice_get i"
| "shop_view s (ProductGet i) = storefront_product_get (site_storage s) i"
| "shop_view s (ProductList q) = storefront_product_list (site_settings s) (site_storage s) q"
| "shop_view s (OrderList q) = order_list_get (site_settings s) q"
| "shop_view s (MethodList q c) = payment_method_list_get (site_settings s) q c"
| "shop_view s GatewayList = (\<lambda>c. public_gateway_list_get (site_settings s) (site_env s))"
| "shop_view s (AddressList q c) = address_list_get (site_settings s) q c"
| "shop_view s (AddressPost c v) = address_list_post c v"
| "shop_view s (AddressGet c i) = address_detail_get c i"
| "shop_view s (AddressUpdate part c i v) = address_detail_update part c i v"
| "shop_view s (AddressDelete c i) = address_detail_delete c i"
| "shop_view s (MethodDefault c i) = payment_method_default_put c i"
| "shop_view s (MethodGet c i) = payment_method_detail_get c i"
| "shop_view s (MethodDelete c i) = payment_method_detail_delete c i"
| "shop_view s (MethodPost c v) = payment_method_create (site_env s) c v"
| "shop_view s (GatewayGet name) = (\<lambda>c. public_gateway_detail_get (site_env s) name)"

datatype (plugins only: code size) admin_call =
    ProductPost string product_input | AdminProductGet uuid | ProductPatch uuid product_input | ProductDelete uuid
  | ImagePost uuid "upload option" | ImageDelete uuid
  | CouponPost coupon_input | CouponGet uuid | CouponPatch uuid coupon_input | AdminCouponDelete uuid
  | CustomerPost string customer_input | CustomerGet uuid | CustomerPatch uuid customer_input | CustomerDelete uuid
  | AdminOrderGet uuid | AdminOrderPayments uuid | MarkPaid uuid dict
  | AdminProductList query | CouponList query | CustomerList query | AdminOrderList query | ConfigList
  | ConfigPost config_request | ConfigGet uuid | ConfigPatch uuid config_request | ConfigDelete uuid

primrec admin_view :: "site \<Rightarrow> admin_call \<Rightarrow> user \<Rightarrow> handler" where
  "admin_view s (ProductPost sku v) = product_create_post (site_storage s) sku v"
| "admin_view s (AdminProductGet i) = product_detail_get (site_storage s) i"
| "admin_view s (ProductPatch i v) = product_detail_patch (site_storage s) i v"
| "admin_view s (ProductDelete i) = product_detail_delete i"
| "admin_view s (ImagePost i f) = product_image_post (site_storage s) i f"
| "admin_view s (ImageDelete i) = product_image_delete i"
| "admin_view s (CouponPost v) = coupon_create_post v"
| "admin_view s (CouponGet i) = coupon_detail_get i"
| "admin_view s (CouponPatch i v) = coupon_detail_patch i v"
| "admin_view s (AdminCouponDelete i) = coupon_detail_delete i"
| "admin_view s (CustomerPost m v) = customer_create_post m v"
| "admin_view s (CustomerGet i) = customer_detail_get i"
| "admin_view s (CustomerPatch i v) = customer_detail_patch i v"
| "admin_view s (CustomerDelete i) = customer_detail_delete i"
| "admin_view s (AdminOrderGet i) = admin_order_detail_get i"
| "admin_view s (AdminOrderPayments i) = admin_order_payments_get i"
| "admin_view s (MarkPaid i b) = order_mark_paid_post i b"
| "admin_view s (AdminProductList q) = product_list_get (site_settings s) (site_storage s) q"
| "admin_view s (CouponList q) = coupon_list_get (site_settings s) q"
| "admin_view s (CustomerList q) = customer_list_get (site_settings s) q"
| "admin_view s (AdminOrderList q) = admin_order_list_get (site_settings s) q"
| "admin_view s ConfigList = gateway_config_list_get (site_settings s)"
| "admin_view s (ConfigPost v) = gateway_config_create v"
| "admin_view s (ConfigGet i) = gateway_config_get i"
| "admin_view s (ConfigPatch i v) = gateway_config_patch i v"
| "admin_view s (ConfigDelete i) = gateway_config_delete i"

datatype (plugins only: code size) platform_call =
    Login string string | Logout | Me
  | TenantPost tenant_request | TenantPatch uuid tenant_patch
  | MembershipPost uuid membership_request | MembershipDelete uuid
  | TenantList query | TenantGet uuid
  | Reconcile "string option" | CustomerSearch query

definition summary_json :: "summary \<Rightarrow> json" where
  "summary_json x =
     JObj [(''scanned'', JInt (int (sum_scanned x))), (''converged'', JInt (int (sum_converged x))),
       (''cancelled'', JInt (int (sum_cancelled x))), (''still_pending'', JInt (int (sum_still_pending x)))]"

definition reconcile_post :: "env \<Rightarrow> string option \<Rightarrow> user \<Rightarrow> handler" where
  "reconcile_post e raw u r =
     bindE (reconcile_trigger_view e raw) (\<lambda>x. ret (json_response 200 [] (envelope (summary_json x) (rq_id r) [])))"

primrec platform_view :: "site \<Rightarrow> platform_call \<Rightarrow> string option \<Rightarrow> handler" where
  "platform_view s (Login email pw) key = login_post (site_ttl s) (site_new_key s) email pw"
| "platform_view s Logout key = authenticated_view (site_ttl s) key logout_post"
| "platform_view s Me key = authenticated_view (site_ttl s) key me_get"
| "platform_view s (TenantPost v) key = platform_admin_view (site_ttl s) key (tenant_create_post (site_settings s) v)"
| "platform_view s (TenantPatch i v) key = platform_admin_view (site_ttl s) key (tenant_detail_patch i v)"
| "platform_view s (MembershipPost t v) key = platform_admin_view (site_ttl s) key (membership_create_post t v)"
| "platform_view s (MembershipDelete i) key = platform_admin_view (site_ttl s) key (membership_delete i)"
| "platform_view s (Reconcile raw) key = platform_admin_view (site_ttl s) key (reconcile_post (site_env s) raw)"
| "platform_view s (CustomerSearch q) key =
     platform_admin_view (site_ttl s) key (platform_customer_list_get (site_settings s) q)"
| "platform_view s (TenantList q) key = platform_admin_view (site_ttl s) key (tenant_list_get (site_settings s) q)"
| "platform_view s (TenantGet i) key = platform_admin_view (site_ttl s) key (tenant_detail_get i)"

definition webhook_view :: "env \<Rightarrow> string \<Rightarrow> handler" where
  "webhook_view e name r =
     bindE (payment_webhook_view e name (rq_http r)) (\<lambda>st. ret (no_content\<lparr>resp_status := st\<rparr>))"

definition fresh_request :: "http_request \<Rightarrow> req_ctx" where
  "fresh_request req = \<lparr>rq_http = req, rq_id = [], rq_tenant = None, rq_customer = None\<rparr>"

subsection \<open>The worker\<close>

text \<open>
  One attempt at a task. The worker comes back to it when it raises, and a message whose delivery was not acknowledged is
  delivered again; in the steps below a task may stay in the queue whatever its attempt did.
\<close>

definition run_task :: "site \<Rightarrow> task \<Rightarrow> unit act" where
  "run_task s tk =
     (case tk of
        GenerateInvoice t i \<Rightarrow>
          tenant_aware_task [t, i] (\<lambda>t. generate_invoice (site_layout s) (site_storage s) t i)
      | ProcessWebhookEvent a \<Rightarrow> tenant_aware_task [wa_tenant a] (\<lambda>_. process_webhook_event a)
      | ReconcilePendingPayments m \<Rightarrow> bindE (reconcile_pending_payments (site_env s) m) (\<lambda>_. ret ()))"

subsection \<open>Steps\<close>

inductive step :: "site \<Rightarrow> world \<Rightarrow> world \<Rightarrow> bool" for s where
  shop: "step s w w'"
    if "\<not> is_exempt req GLOBAL_EXEMPT_PATHS"
      and "storefront (site_settings s) (shop_view s call) (fresh_request req) w = (res, w')"
| admin: "step s w w'"
    if "\<not> is_exempt req GLOBAL_EXEMPT_PATHS"
      and "served (site_settings s) (tenant_admin_view (site_ttl s) (site_token s req) (admin_view s acall))
             (fresh_request req) w = (res, w')"
| platform: "step s w w'"
    if "is_exempt req GLOBAL_EXEMPT_PATHS"
      and "served (site_settings s) (platform_view s pcall (site_token s req)) (fresh_request req) w = (res, w')"
| webhook: "step s w w'"
    if "is_exempt req GLOBAL_EXEMPT_PATHS"
      and "served (site_settings s) (webhook_view (site_env s) name) (fresh_request req) w = (res, w')"
| worker: "step s w w'"
    if "tk \<in> set (task_queue w)" and "q \<in> {task_queue w, remove1 tk (task_queue w)}"
      and "run_task s tk (w\<lparr>task_queue := q\<rparr>) = (done, w')"
| release: "step s w w'" if "release_expired_reservations w = Some (n, w')"
| abandon: "step s w w'" if "abandon_stale_carts 30 w = (n, w')"
| reconcile: "step s w w'" if "reconcile_pending_payments (site_env s) reconcile_stale_minutes w = (n, w')"
| clock: "step s w (w\<lparr>clock := now\<rparr>)" if "clock w \<le> now"

definition start_world :: "user list \<Rightarrow> time \<Rightarrow> world" where
  "start_world us now = empty_world\<lparr>db_users := us, clock := now\<rparr>"

inductive reachable :: "site \<Rightarrow> world \<Rightarrow> bool" for s where
  start: "reachable s (start_world us now)"
| step: "reachable s w \<Longrightarrow> step s w w' \<Longrightarrow> reachable s w'"

inductive_cases clock_only: "step s w (w\<lparr>clock := now\<rparr>)"

subsection \<open>Every request keeps the invariant\<close>

text \<open>Between steps no tenant is in context, the ledger balances and every table meets its constraints.\<close>

definition idle :: "world \<Rightarrow> bool" where
  "idle w \<longleftrightarrow> sound w \<and> tenant_ctx w = None"

lemma convert_exception_preserves: "preserves I m \<Longrightarrow> preserves I (convert_exception m)"
  unfolding convert_exception_def by (intro hoare_intros)

lemma dispatch_preserves: "preserves I (view r) \<Longrightarrow> preserves I (dispatch view r)"
  unfolding dispatch_def by (intro hoare_intros)

lemma atomic_request_inv:
  "preserves (inv t {}) (view r) \<Longrightarrow> preserves (inv t {}) (atomic_request view r)"
  unfolding atomic_request_def by (intro convert_exception_preserves hoare_intros preserves_inv_atomic dispatch_preserves)

lemma customer_auth_preserves: "(\<And>r. preserves I (h r)) \<Longrightarrow> preserves I (customer_auth cfg h r)"
  unfolding customer_auth_def customer_lookup_def Let_def by (intro hoare_intros)

lemma tenant_db_session_inv: "preserves (inv t {}) (h r) \<Longrightarrow> preserves (inv t {}) (tenant_db_session h r)"
  unfolding tenant_db_session_def by (intro hoare_intros)

lemma request_id_preserves:
  assumes "\<And>r. preserves I (h r)" and "\<And>w n. I w \<Longrightarrow> I (w\<lparr>fresh_id := n\<rparr>)"
  shows "preserves I (request_id_middleware h r)"
  unfolding request_id_middleware_def Let_def by (intro hoare_intros preserves_new_uuid assms)

lemma tenant_request_sound:
  assumes "\<not> is_exempt (rq_http r) GLOBAL_EXEMPT_PATHS" and "\<And>t r. preserves (inv t {}) (view r)"
  shows "preserves sound (served cfg view r)"
proof -
  have inner: "preserves (inv t {}) (convert_exception (tenant_db_session (\<lambda>r. convert_exception
      (customer_auth cfg (atomic_request view) r)) r))" for t r
    by (intro convert_exception_preserves tenant_db_session_inv customer_auth_preserves atomic_request_inv assms(2))
  have resolver: "preserves sound (tenant_resolver cfg (\<lambda>r. convert_exception (tenant_db_session (\<lambda>r. convert_exception
      (customer_auth cfg (atomic_request view) r)) r)) r)" if "\<not> is_exempt (rq_http r) GLOBAL_EXEMPT_PATHS" for r
    unfolding tenant_resolver_def using that
    by (simp add: that) (intro hoare_intros tenant_context_sound inner)
  have "preserves sound (request_id_middleware (\<lambda>r'. convert_exception
      (tenant_resolver cfg (\<lambda>r. convert_exception (tenant_db_session (\<lambda>r. convert_exception
        (customer_auth cfg (atomic_request view) r)) r)) (r'\<lparr>rq_http := rq_http r\<rparr>))) r)"
    by (intro request_id_preserves convert_exception_preserves resolver) (simp_all add: assms(1) sound_def ledger_def)
  moreover have "request_id_middleware (\<lambda>r'. convert_exception
      (tenant_resolver cfg (\<lambda>r. convert_exception (tenant_db_session (\<lambda>r. convert_exception
        (customer_auth cfg (atomic_request view) r)) r)) (r'\<lparr>rq_http := rq_http r\<rparr>))) r = served cfg view r"
    by (simp add: served_def request_id_middleware_def)
  ultimately show ?thesis by simp
qed

lemma tenant_request_idle:
  assumes "\<not> is_exempt (rq_http r) GLOBAL_EXEMPT_PATHS" and "\<And>t r. preserves (inv t {}) (view r)"
  shows "preserves idle (served cfg view r)"
  using tenant_request_sound [of r view cfg, OF assms] served_ctx [OF assms(1), of cfg view]
  by (auto simp: preserves_def idle_def)


lemma platform_request_idle:
  assumes "is_exempt (rq_http r) GLOBAL_EXEMPT_PATHS" and "\<And>r. preserves idle (view r)"
  shows "preserves idle (served cfg view r)"
proof -
  have atomic: "preserves idle (atomic m)" if "preserves idle m" for m :: "http_response act"
    using that
    by (intro preserves_atomic)
      (auto simp: idle_def sound_def ledger_of_tables rollback_def commit_def enter_atomic_def ledger_def schema_def)
  have inner: "preserves idle (convert_exception (tenant_db_session (\<lambda>r. convert_exception
      (customer_auth cfg (atomic_request view) r)) r))" for r
    unfolding tenant_db_session_def atomic_request_def
    by (intro hoare_intros convert_exception_preserves customer_auth_preserves atomic dispatch_preserves assms(2))
  have "tenant_resolver cfg (\<lambda>r. convert_exception (tenant_db_session (\<lambda>r. convert_exception
      (customer_auth cfg (atomic_request view) r)) r)) r' = convert_exception (tenant_db_session (\<lambda>r. convert_exception
      (customer_auth cfg (atomic_request view) r)) r')" if "is_exempt (rq_http r') GLOBAL_EXEMPT_PATHS" for r'
    using that by (simp add: tenant_resolver_def)
  then have "served cfg view r = request_id_middleware (\<lambda>r'. convert_exception (convert_exception
      (tenant_db_session (\<lambda>r. convert_exception (customer_auth cfg (atomic_request view) r)) r'))) r"
    using assms(1) by (simp add: served_def request_id_middleware_def)
  then show ?thesis
    by (auto intro!: request_id_preserves convert_exception_preserves inner simp: idle_def sound_def ledger_def)
qed

lemma idle_frame [simp]:
  "idle w \<Longrightarrow> tbl_ok tenants_tbl a \<Longrightarrow> idle (w\<lparr>db_tenants := a\<rparr>)"
  "idle w \<Longrightarrow> tbl_ok memberships_tbl b \<Longrightarrow> idle (w\<lparr>db_memberships := b\<rparr>)"
  "idle w \<Longrightarrow> tbl_ok tokens_tbl c \<Longrightarrow> idle (w\<lparr>db_tokens := c\<rparr>)"
  "idle w \<Longrightarrow> idle (w\<lparr>db_memberships := filter Q (db_memberships w)\<rparr>)"
  "idle w \<Longrightarrow> idle (w\<lparr>db_tokens := filter R (db_tokens w)\<rparr>)"
  "idle (w\<lparr>db_users := d\<rparr>) = idle w" "idle (w\<lparr>fresh_id := n\<rparr>) = idle w"
  "idle (w\<lparr>order_seq := f\<rparr>) = idle w" "idle (w\<lparr>invoice_seq := f\<rparr>) = idle w"
  "idle (w\<lparr>task_queue := q\<rparr>) = idle w" "idle (w\<lparr>clock := now\<rparr>) = idle w"
  by (simp_all add: idle_def sound_def ledger_def)

lemma preserves_idle_atomic: "preserves idle m \<Longrightarrow> preserves idle (atomic m)"
  by (rule preserves_atomic)
    (auto simp: idle_def sound_def ledger_of_tables rollback_def commit_def enter_atomic_def ledger_def schema_def)

lemma iam_idle:
  "preserves idle (login_post ttl new_key email password r)" "preserves idle (logout_post u r)"
  "preserves idle (me_get u r)" "preserves idle (membership_create_post tid req u r)"
  "preserves idle (membership_delete i u r)" "preserves idle (tenant_create_post cfg v u r)"
  "preserves idle (tenant_detail_patch i p u r)"
  unfolding login_post_def rotate_token_def logout_post_def me_get_def membership_create_post_def membership_delete_def
    tenant_create_post_def tenant_detail_patch_def find_or_create_user_def create_user_def set_membership_def
    create_per_tenant_sequences_def tenant_response_def get_tenant_def Let_def
  by (intro hoare_intros preserves_idle_atomic preserves_update_where preserves_delete_where preserves_insert_row
      preserves_new_uuid preserves_modify; simp)+

lemma preserves_idle_I:
  assumes "preserves sound m" and "preserves (\<lambda>w. tenant_ctx w = None) m"
  shows "preserves idle m"
  using preserves_conj [OF assms] by (simp add: idle_def [abs_def])

lemma tenant_context_none: "preserves (\<lambda>w. tenant_ctx w = None) (tenant_context t m)"
  using tenant_context_ctx [of t m] by (auto simp: preserves_def)

lemma reconcile_idle: "preserves idle (reconcile_pending_payments e m)"
proof (rule preserves_idle_I [OF reconcile_pending_payments_sound])
  have one: "preserves (\<lambda>w. tenant_ctx w = None) (reconcile_one e i)" for i
    unfolding reconcile_one_def first_pending_def by (intro hoare_intros tenant_context_none)
  have "preserves (\<lambda>w. tenant_ctx w = None) (reconcile_all e is x)" for "is" x
    by (induction "is" arbitrary: x) (auto intro!: hoare_intros one)
  then show "preserves (\<lambda>w. tenant_ctx w = None) (reconcile_pending_payments e m)"
    unfolding reconcile_pending_payments_def by (intro hoare_intros)
qed

lemma platform_view_idle: "preserves idle (platform_view s pcall key r)"
proof (cases pcall)
  case (Reconcile raw)
  then show ?thesis
    by (auto simp: reconcile_post_def reconcile_trigger_view_def
        intro!: admin_views_preserve hoare_intros reconcile_idle split: option.splits)
next
  case (CustomerSearch q)
  then show ?thesis by (auto simp: platform_customer_list_get_def intro!: admin_views_preserve hoare_intros)
qed (auto intro!: admin_views_preserve iam_idle tenant_lists_keep)

lemma webhook_view_idle: "preserves idle (webhook_view e name r)"
  unfolding webhook_view_def payment_webhook_view_def webhook_credentials_def
  by (intro hoare_intros preserves_delay) simp_all

text \<open>A list reads, whatever else holds.\<close>

lemmas lists_keep = product_lists_keep order_list_keeps payment_lists_keep coupon_list_keeps customer_list_keeps
  admin_order_list_keeps tenant_lists_keep

lemma shop_view_inv: "preserves (inv t {}) (shop_view s call c r)"
proof (cases call)
  case (ProductGet i)
  then show ?thesis by (auto simp: storefront_product_get_def intro!: hoare_intros)
qed (simp_all add: views_inv customer_views_inv payment_views_inv lists_keep)

lemma admin_view_inv: "preserves (inv t {}) (admin_view s call u r)"
  by (cases call)
    (simp_all add: lists_keep catalog_views_inv coupon_views_inv customer_views_inv admin_order_views_inv payment_views_inv)

lemma run_task_idle: "preserves idle (run_task s tk)"
proof (cases tk)
  case (ReconcilePendingPayments m)
  then show ?thesis by (auto simp: run_task_def intro!: hoare_intros reconcile_idle)
qed (rule preserves_idle_I; simp add: run_task_def tenant_aware_task_def tenant_context_none tenant_context_sound
  generate_invoice_inv process_webhook_event_inv)+

lemma expire_batch_idle: "preserves idle (expire_batch now)"
proof (rule preservesI)
  fix w r w' assume i: "idle w" and run: "expire_batch now w = (r, w')"
  have l: "ledger w" using i by (simp add: idle_def sound_def)
  have "ledger w'"
  proof (cases r)
    case (Inl e)
    then have "tables w' = tables w" using expire_batch_cases [OF l, of now] run by simp
    then show ?thesis using l ledger_tables [of w' w] by simp
  next
    case (Inr n)
    then show ?thesis using expire_batch_cases [OF l, of now] run by simp
  qed
  moreover have "preserves schema (expire_one res)" for res
    unfolding expire_one_def settle_unscoped_def revert_checking_out_def
    by (intro hoare_intros preserves_update_rows_all preserves_save_fields) simp_all
  then have "preserves schema (expire_batch now)"
    unfolding expire_batch_def by (intro hoare_intros preserves_schema_atomic)
  then have "schema w'" using i run by (auto simp: idle_def sound_def dest: preservesD)
  moreover have "preserves (\<lambda>w. tenant_ctx w = None) (expire_one res)" for res
    unfolding expire_one_def settle_unscoped_def revert_checking_out_def
    by (intro hoare_intros preserves_update_rows_all preserves_save_fields) simp_all
  then have "preserves (\<lambda>w. tenant_ctx w = None) (expire_batch now)"
    unfolding expire_batch_def
    by (intro hoare_intros preserves_atomic) (simp_all add: enter_atomic_def rollback_def commit_def)
  then have "tenant_ctx w' = None" using i run by (auto simp: idle_def dest: preservesD)
  ultimately show "idle w'" by (simp add: idle_def sound_def)
qed

lemma expire_loop_keeps:
  assumes "preserves I (expire_batch now)" and "expire_loop now n w = Some res" and "I w"
  shows "I (snd res)"
proof -
  have "I w \<longrightarrow> preserves I (expire_batch now) \<longrightarrow> I (snd res)"
  proof (rule expire_loop.raw_induct [OF _ assms(2)])
    fix loop now n w res
    assume IH: "\<And>now n w res. loop now n w = Some res \<Longrightarrow> I w \<longrightarrow> preserves I (expire_batch now) \<longrightarrow> I (snd res)"
      and run: "(case expire_batch now w of (Inl e, w') \<Rightarrow> Some (Inl e, w')
        | (Inr k, w') \<Rightarrow> if k = 0 then Some (Inr n, w') else loop now (n + k) w') = Some res"
    show "I w \<longrightarrow> preserves I (expire_batch now) \<longrightarrow> I (snd res)"
    proof (intro impI)
      assume i: "I w" and keep: "preserves I (expire_batch now)"
      obtain r w1 where b: "expire_batch now w = (r, w1)" by fastforce
      have "I w1" using preservesD [OF keep i b] .
      with run b keep show "I (snd res)"
        by (cases r) (auto split: if_splits dest: IH)
    qed
  qed
  with assms(1,3) show ?thesis by blast
qed

lemma abandon_idle: "preserves idle (abandon_stale_carts d)"
  unfolding abandon_stale_carts_def
  by (intro hoare_intros preserves_update_rows_all) (simp add: idle_def sound_def ledger_def)

theorem step_idle: "step s w w' \<Longrightarrow> idle w \<Longrightarrow> idle w'"
proof (induction rule: step.induct)
  case (shop req call w res w')
  have "preserves idle (storefront (site_settings s) (shop_view s call) (fresh_request req))"
    unfolding storefront_def
    by (rule tenant_request_idle) (auto simp: fresh_request_def shop customer_view_def intro!: hoare_intros shop_view_inv)
  then show ?case using shop.prems shop.hyps(2) by (rule preservesD)
next
  case (admin req acall w res w')
  have "preserves idle (served (site_settings s) (tenant_admin_view (site_ttl s) (site_token s req) (admin_view s acall))
      (fresh_request req))"
    by (rule tenant_request_idle) (simp_all add: fresh_request_def admin admin_views_preserve admin_view_inv)
  then show ?case using admin.prems admin.hyps(2) by (rule preservesD)
next
  case (platform req pcall w res w')
  have "preserves idle (served (site_settings s) (platform_view s pcall (site_token s req)) (fresh_request req))"
    by (rule platform_request_idle) (simp_all add: fresh_request_def platform platform_view_idle)
  then show ?case using platform.prems platform.hyps(2) by (rule preservesD)
next
  case (webhook req name w res w')
  have "preserves idle (served (site_settings s) (webhook_view (site_env s) name) (fresh_request req))"
    by (rule platform_request_idle) (simp_all add: fresh_request_def webhook webhook_view_idle)
  then show ?case using webhook.prems webhook.hyps(2) by (rule preservesD)
next
  case (worker tk w q r w')
  have "idle (w\<lparr>task_queue := q\<rparr>)" using worker.prems by simp
  with run_task_idle show ?case using worker.hyps(3) by (rule preservesD)
next
  case (release w n w')
  have "expire_loop (clock w) 0 w = Some (n, w')" using release.hyps by (simp add: release_expired_reservations_def)
  from expire_loop_keeps [OF expire_batch_idle this release.prems] show ?case by simp
next
  case (abandon w n w')
  show ?case by (rule preservesD [OF abandon_idle abandon.prems abandon.hyps])
next
  case (reconcile w n w')
  show ?case by (rule preservesD [OF reconcile_idle reconcile.prems reconcile.hyps])
next
  case (clock w now)
  then show ?case by simp
qed

lemma start_idle: "idle (start_world us now)"
  by (simp add: start_world_def idle_def sound_def ledger_def schema_def empty_world_def tbl_defs pk_ok_def)

theorem reachable_idle: "reachable s w \<Longrightarrow> idle w"
  by (induction rule: reachable.induct) (simp_all add: start_idle step_idle)


subsection \<open>An installation to run the examples on\<close>

text \<open>An instance of the paginator, after its documentation.\<close>

definition example_page :: "nat \<Rightarrow> nat \<Rightarrow> nat \<Rightarrow> exn + page" where
  "example_page sz n k =
     (let total = max 1 ((n + sz - 1) div sz) in
      if 1 \<le> k \<and> k \<le> total
      then Inr \<lparr>pg_from = (k - 1) * sz, pg_to = min n ((k - 1) * sz + sz), pg_number = k, pg_size = sz,
             pg_total = total, pg_next = (if k < total then JStr (''?page='' @ show_nat (Suc k)) else JNull),
             pg_previous = (if 1 < k then JStr (''?page='' @ show_nat (k - 1)) else JNull)\<rparr>
      else Inl (Http404 ''Invalid page.''))"

definition example_page_size :: "pagination_class \<Rightarrow> query \<Rightarrow> nat" where
  "example_page_size pc q =
     (case parse_int (query_get q (pc_page_size_query_param pc)) of
        Some k \<Rightarrow> if 1 \<le> k then min (nat k) (pc_max_page_size pc) else pc_page_size pc
      | None \<Rightarrow> pc_page_size pc)"

definition example_pages :: "pagination_class \<Rightarrow> http_request \<Rightarrow> query \<Rightarrow> nat \<Rightarrow> exn + page" where
  "example_pages pc req q n =
     (case query_get q ''page'' of
        [] \<Rightarrow> example_page (example_page_size pc q) n 1
      | t \<Rightarrow> (case parse_int t of
                Some k \<Rightarrow> example_page (example_page_size pc q) n (nat k)
              | None \<Rightarrow> Inl (Http404 ''Invalid page.'')))"

definition example_settings :: settings where
  "example_settings =
     \<lparr>set_domain_suffix = ''shop.test'', set_reserved_subdomains = [''www'', ''admin''], set_debug = False,
      set_default_subdomain = [], set_disable_auth = False,
      set_to_uuid = (\<lambda>s. if s = ''ann'' then Inr 10 else Inl (ValueError ''badly formed UUID'')),
      set_collate = (\<lambda>s. s), set_paginate = example_pages\<rparr>"

definition example_site :: site where
  "example_site =
     \<lparr>site_settings = example_settings, site_env = mock_env,
      site_storage = \<lparr>st_save = (\<lambda>alias objs key. Inr key), st_url = (\<lambda>alias key. alias @ ''/'' @ key),
        st_guess_type = (\<lambda>_. ''application/pdf'')\<rparr>,
      site_layout = \<lparr>lay_time = show_int, lay_day = show_int, lay_build = (\<lambda>_. Inr ''pdf'')\<rparr>,
      site_ttl = 28800, site_new_key = uuid_str, site_token = (\<lambda>_. Some ''key'')\<rparr>"

lemma example_pages_cut: "pages_cut example_settings"
proof -
  have page: "page_ok 100 n pg" if "example_page sz n k = Inr pg" "1 \<le> sz" "sz \<le> 100" for sz n k pg
    using that by (auto simp: example_page_def page_ok_def Let_def split: if_splits)
  have sz: "1 \<le> example_page_size EnvelopePagination q" "example_page_size EnvelopePagination q \<le> 100" for q
    by (auto simp: example_page_size_def EnvelopePagination_def split: option.split)
  have "page_ok 100 n pg" if "example_pages EnvelopePagination req q n = Inr pg" for req q n pg
    using that page [OF _ sz] by (auto simp: example_pages_def split: list.splits option.splits)
  then show ?thesis by (simp add: pages_cut_def example_settings_def EnvelopePagination_def)
qed

text \<open>The shop between two requests, with its tenant.\<close>

definition quiet_shop :: world where
  "quiet_shop = shop\<lparr>tenant_ctx := None, db_tenants := [\<lparr>ten_id = 1, ten_name = ''Acme'', ten_subdomain = ''acme'',
     ten_default_currency = ''USD'', ten_is_active = True, ten_created_at = 0, ten_updated_at = 0\<rparr>]\<rparr>"

lemmas site_defs = example_site_def example_settings_def quiet_shop_def

lemma quiet_idle: "idle quiet_shop"
  by (simp add: idle_def sound_def ledger_def schema_def quiet_shop_def shop_defs tbl_defs pk_ok_def product_ok_def
      is_active_cart_def active_qty_def)


text \<open>A whole request, through every layer: the customer of the shop pays for the cart.\<close>

definition checkout_request :: http_request where
  "checkout_request =
     \<lparr>req_path = ''/api/v1/cart/checkout'', req_host = ''acme.shop.test'',
      req_meta = [(''HTTP_X_CUSTOMER_ID'', ''ann''), (''HTTP_IDEMPOTENCY_KEY'', ''k'')], req_body = EmptyBody\<rparr>"

lemmas run_requests = storefront_def served_def request_id_middleware_def tenant_resolver_def tenant_subdomain_def
  extract_subdomain_def tenant_db_session_def customer_auth_def customer_lookup_def atomic_request_def dispatch_def
  customer_view_def authenticate_def convert_exception_def tenant_context_def set_current_tenant_id_def
  reset_current_tenant_id_def finally_do_def is_exempt_def GLOBAL_EXEMPT_PATHS_def AUTH_EXEMPT_PATHS_def
  startswith_def ends_with_def last_label_def lower_def to_lower_def is_upper_def strip_def is_space_def
  add_header_def json_response_def fresh_request_def meta_get_def

lemmas run_checkout_view = cart_checkout_post_def expected_version_def checkout_serializer_def one_field_def
  metadata_field_def checkout_def find_existing_checkout_def

lemma shop_sale:
  "\<exists>resp w. storefront example_settings (shop_view example_site (CheckoutPost [])) (fresh_request checkout_request)
       quiet_shop = (Inr resp, w) \<and> resp_status resp = 201 \<and> tenant_ctx w = None \<and>
     map prod_stock_quantity (db_products w) = [3] \<and> map prod_reserved_quantity (db_products w) = [0] \<and>
     map ord_status (db_orders w) = [OrderPaid] \<and> map cart_status (db_carts w) = [CartConverted] \<and>
     map pay_status (db_payments w) = [PayCaptured]"
  by (simp add: run_requests run_checkout_view checkout_request_def run_defs shop_defs site_defs cong: eval_weak)

lemma shop_step:
  obtains w where "step example_site quiet_shop w" and "map prod_stock_quantity (db_products w) = [3]"
    and "map ord_status (db_orders w) = [OrderPaid]"
proof -
  obtain resp w where run: "storefront (site_settings example_site) (shop_view example_site (CheckoutPost []))
      (fresh_request checkout_request) quiet_shop = (Inr resp, w)"
    and w: "map prod_stock_quantity (db_products w) = [3]" "map ord_status (db_orders w) = [OrderPaid]"
    using shop_sale by (auto simp: example_site_def)
  have "\<not> is_exempt checkout_request GLOBAL_EXEMPT_PATHS"
    by (simp add: is_exempt_def GLOBAL_EXEMPT_PATHS_def startswith_def checkout_request_def)
  from that [OF step.shop [OF this run] w] show ?thesis .
qed

lemma steps_idle: "(step s)\<^sup>*\<^sup>* w w' \<Longrightarrow> idle w \<Longrightarrow> idle w'"
  by (induction rule: rtranclp_induct) (simp_all add: step_idle)

end
