(* ===== verification/Isolation.thy ===== *)
theory Isolation
  imports System
begin

section \<open>One tenant at a time\<close>

text \<open>
  What a request of one tenant leaves alone: the rows of the other tenants in every table, the numbers of their
  orders and invoices, and what belongs to the platform. Most writes go through the scoped manager; the others name
  the row of an instance, so the proof follows each instance back to the scoped query that gave it.
\<close>

subsection \<open>Programs that keep an invariant and return a value with a property\<close>

definition keeps :: "(world \<Rightarrow> bool) \<Rightarrow> 'a act \<Rightarrow> ('a \<Rightarrow> bool) \<Rightarrow> bool" where
  "keeps I m Q \<longleftrightarrow> (\<forall>w r w'. I w \<longrightarrow> m w = (r, w') \<longrightarrow> I w' \<and> (\<forall>x. r = Inr x \<longrightarrow> Q x))"

named_theorems tenant_intros "one rule per construct, and one per operation that heads a sequence or ends it"

lemma keepsI:
  assumes "\<And>w r w'. I w \<Longrightarrow> m w = (r, w') \<Longrightarrow> I w'" and "\<And>w x w'. I w \<Longrightarrow> m w = (Inr x, w') \<Longrightarrow> Q x"
  shows "keeps I m Q"
  using assms by (simp add: keeps_def)

lemma keepsD: "keeps I m Q \<Longrightarrow> I w \<Longrightarrow> m w = (r, w') \<Longrightarrow> I w'"
  by (simp add: keeps_def)

lemma keeps_Inr: "keeps I m Q \<Longrightarrow> I w \<Longrightarrow> m w = (Inr x, w') \<Longrightarrow> Q x"
  by (simp add: keeps_def)

lemma keeps_of_preserves: "preserves I m \<Longrightarrow> keeps I m (\<lambda>_. True)"
  by (auto simp: keeps_def dest: preservesD)

lemma preserves_of_keeps: "keeps I m Q \<Longrightarrow> preserves I m"
  by (auto simp: keeps_def intro: preservesI)

lemma keeps_weaken: "keeps I m Q \<Longrightarrow> (\<And>x. Q x \<Longrightarrow> R x) \<Longrightarrow> keeps I m R"
  by (simp add: keeps_def)

lemma keeps_any: "keeps I m Q \<Longrightarrow> keeps I m (\<lambda>_. True)"
  by (rule keeps_weaken) simp_all

lemma keeps_ret [tenant_intros]: "Q x \<Longrightarrow> keeps I (ret x) Q"
  by (auto simp: keeps_def)

lemma keeps_throw [tenant_intros]: "keeps I (throw e) Q"
  by (auto simp: keeps_def)

lemma keeps_lift_sum: "keeps I (lift_sum r) (\<lambda>x. r = Inr x)"
  by (auto simp: keeps_def)

lemma keeps_guard_that: "keeps I (guard_that b e) (\<lambda>_. b)"
  by (cases b) (auto simp: keeps_def)

lemma keeps_gets: "keeps I (gets f) (\<lambda>x. \<exists>w. I w \<and> x = f w)"
  by (auto simp: keeps_def)

lemma keeps_bindE:
  assumes "keeps I m Q" and "\<And>x. Q x \<Longrightarrow> keeps I (f x) R"
  shows "keeps I (bindE m f) R"
proof -
  have "I w' \<and> (\<forall>x. r = Inr x \<longrightarrow> R x)" if I: "I w" and run: "bindE m f w = (r, w')" for w r w'
  proof -
    obtain r1 w1 where m: "m w = (r1, w1)" by fastforce
    show ?thesis
    proof (cases r1)
      case (Inl e)
      with m run keepsD [OF assms(1) I] show ?thesis by (auto simp: bindE_def)
    next
      case (Inr x)
      with m run have "f x w1 = (r, w')" by (simp add: bindE_def)
      moreover have "I w1" "Q x" using assms(1) I m Inr by (auto simp: keeps_def)
      ultimately show ?thesis using assms(2) [of x] by (auto simp: keeps_def)
    qed
  qed
  then show ?thesis by (auto simp: keeps_def)
qed

lemma keeps_bind_any:
  "keeps I m (\<lambda>_. True) \<Longrightarrow> (\<And>x. keeps I (f x) R) \<Longrightarrow> keeps I (bindE m f) R"
  by (rule keeps_bindE)

lemma keeps_seqE [tenant_intros]: "keeps I m (\<lambda>_. True) \<Longrightarrow> keeps I n R \<Longrightarrow> keeps I (seqE m n) R"
  unfolding seqE_def by (rule keeps_bindE)

lemma keeps_seq_guard [tenant_intros]:
  "(b \<Longrightarrow> keeps I n R) \<Longrightarrow> keeps I (seqE (guard_that b e) n) R"
  unfolding seqE_def by (rule keeps_bindE [OF keeps_guard_that])

lemma keeps_if [tenant_intros]:
  "(b \<Longrightarrow> keeps I m Q) \<Longrightarrow> (\<not> b \<Longrightarrow> keeps I n Q) \<Longrightarrow> keeps I (if b then m else n) Q"
  by simp

lemma keeps_do_when [tenant_intros]: "(b \<Longrightarrow> keeps I m (\<lambda>_. True)) \<Longrightarrow> keeps I (do_when b m) (\<lambda>_. True)"
  by (cases b) (simp_all add: keeps_ret)

lemma keeps_case_option [tenant_intros]:
  "(x = None \<Longrightarrow> keeps I m Q) \<Longrightarrow> (\<And>y. x = Some y \<Longrightarrow> keeps I (f y) Q) \<Longrightarrow>
   keeps I (case x of None \<Rightarrow> m | Some y \<Rightarrow> f y) Q"
  by (cases x) simp_all

lemma keeps_case_sum [tenant_intros]:
  "(\<And>e. x = Inl e \<Longrightarrow> keeps I (f e) Q) \<Longrightarrow> (\<And>y. x = Inr y \<Longrightarrow> keeps I (g y) Q) \<Longrightarrow>
   keeps I (case x of Inl e \<Rightarrow> f e | Inr y \<Rightarrow> g y) Q"
  by (cases x) simp_all

lemma keeps_case_prod [tenant_intros]:
  "(\<And>a b. x = (a, b) \<Longrightarrow> keeps I (f a b) Q) \<Longrightarrow> keeps I (case x of (a, b) \<Rightarrow> f a b) Q"
  by (cases x) simp

lemma keeps_case_get_result [tenant_intros]:
  "(x = NoRow \<Longrightarrow> keeps I m Q) \<Longrightarrow> (\<And>y. x = OneRow y \<Longrightarrow> keeps I (f y) Q) \<Longrightarrow> (x = ManyRows \<Longrightarrow> keeps I n Q) \<Longrightarrow>
   keeps I (case x of NoRow \<Rightarrow> m | OneRow y \<Rightarrow> f y | ManyRows \<Rightarrow> n) Q"
  by (cases x) simp_all

lemma keeps_let [tenant_intros]: "(\<And>y. y = x \<Longrightarrow> keeps I (f y) Q) \<Longrightarrow> keeps I (let y = x in f y) Q"
  by simp

lemma keeps_try_except [tenant_intros]:
  "keeps I m Q \<Longrightarrow> (\<And>e. c e \<Longrightarrow> keeps I (h e) Q) \<Longrightarrow> keeps I (try_except m c h) Q"
proof (rule keepsI)
  fix w r w' assume m: "keeps I m Q" and h: "\<And>e. c e \<Longrightarrow> keeps I (h e) Q" and I: "I w"
  show "try_except m c h w = (r, w') \<Longrightarrow> I w'"
    using keepsD [OF m I] keepsD [OF h] by (auto simp: try_except_def split: prod.splits sum.splits if_splits)
next
  fix w x w' assume m: "keeps I m Q" and h: "\<And>e. c e \<Longrightarrow> keeps I (h e) Q" and I: "I w"
  show "try_except m c h w = (Inr x, w') \<Longrightarrow> Q x"
    using keepsD [OF m I] keeps_Inr [OF m I] keeps_Inr [OF h]
    by (auto simp: try_except_def split: prod.splits sum.splits if_splits)
qed

lemma keeps_for_each [tenant_intros]:
  "(\<And>x. x \<in> set xs \<Longrightarrow> keeps I (f x) (\<lambda>_. True)) \<Longrightarrow> keeps I (for_each f xs) (\<lambda>_. True)"
  by (intro keeps_of_preserves preserves_for_each preserves_of_keeps)

lemma keeps_map_each:
  assumes "\<And>x. x \<in> set xs \<Longrightarrow> keeps I (f x) Q"
  shows "keeps I (map_each f xs) (\<lambda>ys. \<forall>y \<in> set ys. Q y)"
  using assms
proof (induction xs)
  case Nil
  then show ?case by (simp add: keeps_def)
next
  case (Cons x xs)
  then show ?case by (auto intro!: keeps_bindE [where Q = Q] keeps_bindE [where Q = "\<lambda>ys. \<forall>y \<in> set ys. Q y"] keeps_ret)
qed

lemma keeps_reads:
  "keeps I (exists_row tb1 P1) (\<lambda>_. True)" "keeps I (get_row_all tb3 P3 e) (\<lambda>_. True)"
  "keeps I current_time (\<lambda>_. True)" "keeps I (follow tb2 i) (\<lambda>_. True)"
  by (intro keeps_of_preserves hoare_intros)+

lemmas read_rules [tenant_intros] =
  keeps_gets [THEN keeps_bindE] keeps_gets [THEN keeps_weaken] keeps_lift_sum [THEN keeps_bindE]
  keeps_lift_sum [THEN keeps_weaken] keeps_guard_that [THEN keeps_weaken]
  keeps_reads [THEN keeps_bind_any] keeps_reads [THEN keeps_weaken]

subsection \<open>The rest of the database\<close>

abbreviation others :: "uuid \<Rightarrow> 'a scoped list \<Rightarrow> 'a scoped list" where
  "others t rs \<equiv> filter (\<lambda>r. tenant_id r \<noteq> t) rs"

text \<open>
  \<open>elsewhere t w\<close> is what of the state does not belong to the tenant \<open>t\<close>. The list of the events of gateways, the
  queue of the broker and the object storage are shared by the tenants and left out.
\<close>

definition elsewhere :: "uuid \<Rightarrow> world \<Rightarrow> world" where
  "elsewhere t w = (tables w)\<lparr>
     db_customers := others t (db_customers w), db_addresses := others t (db_addresses w),
     db_products := others t (db_products w), db_coupons := others t (db_coupons w),
     db_carts := others t (db_carts w), db_cart_items := others t (db_cart_items w),
     db_applied_coupons := others t (db_applied_coupons w), db_payment_methods := others t (db_payment_methods w),
     db_gateway_configs := others t (db_gateway_configs w), db_orders := others t (db_orders w),
     db_order_items := others t (db_order_items w), db_reservations := others t (db_reservations w),
     db_payments := others t (db_payments w), db_invoices := others t (db_invoices w), db_webhook_events := [],
     order_seq := (order_seq w)(t := None), invoice_seq := (invoice_seq w)(t := None)\<rparr>"

definition apart :: "uuid \<Rightarrow> world \<Rightarrow> world \<Rightarrow> bool" where
  "apart t E w \<longleftrightarrow> tenant_ctx w = Some t \<and> schema w \<and> elsewhere t w = E"

lemma apart_ctx: "apart t E w \<Longrightarrow> tenant_ctx w = Some t"
  by (simp add: apart_def)

lemma apart_frame [simp]:
  "apart t E (w\<lparr>on_commit_hooks := hs\<rparr>) = apart t E w" "apart t E (w\<lparr>task_queue := q\<rparr>) = apart t E w"
  "apart t E (w\<lparr>gateway_log := l\<rparr>) = apart t E w" "apart t E (w\<lparr>stored_objects := s\<rparr>) = apart t E w"
  "apart t E (w\<lparr>fresh_id := n\<rparr>) = apart t E w" "apart t E (w\<lparr>atomic_depth := d\<rparr>) = apart t E w"
  "apart t E (w\<lparr>order_seq := (order_seq w)(t := x)\<rparr>) = apart t E w"
  "apart t E (w\<lparr>invoice_seq := (invoice_seq w)(t := x)\<rparr>) = apart t E w"
  by (simp_all add: apart_def elsewhere_def tables_def)

lemma apart_enter [simp]: "apart t E (enter_atomic w) = apart t E w"
  by (simp add: enter_atomic_def)

lemma apart_commit [simp]: "apart t E (commit w0 w) = apart t E w"
  by (simp add: commit_def)

lemma keep_seq_upd: "(keep_seq f g)(t := None) = keep_seq (f(t := None)) (g(t := None))"
  by (auto simp: keep_seq_def fun_eq_iff split: option.splits)

lemma keep_seq_same [simp]: "keep_seq f f = f"
  by (auto simp: keep_seq_def fun_eq_iff split: option.splits)

lemma apart_rollback: "apart t E w \<Longrightarrow> apart t E w' \<Longrightarrow> apart t E (rollback w w')"
proof -
  assume w: "apart t E w" and w': "apart t E w'"
  have "order_seq (elsewhere t w) = order_seq (elsewhere t w')" "invoice_seq (elsewhere t w) = invoice_seq (elsewhere t w')"
    using w w' by (simp_all add: apart_def)
  then have "(order_seq w)(t := None) = (order_seq w')(t := None)" "(invoice_seq w)(t := None) = (invoice_seq w')(t := None)"
    by (simp_all add: elsewhere_def)
  then have "elsewhere t (rollback w w') = elsewhere t w"
    by (simp add: elsewhere_def rollback_def tables_def keep_seq_upd)
  then show ?thesis using w w' by (simp add: apart_def) (simp add: rollback_def)
qed

lemma keeps_atomic [tenant_intros]:
  assumes "keeps (apart t E) m Q"
  shows "keeps (apart t E) (atomic m) Q"
proof (rule keepsI)
  fix w r w' assume I: "apart t E w" and run: "atomic m w = (r, w')"
  have "preserves (apart t E) (atomic m)"
    using preserves_of_keeps [OF assms] by (rule preserves_atomic) (simp_all add: apart_rollback)
  then show "apart t E w'" using I run by (rule preservesD)
next
  fix w x w' assume I: "apart t E w" and run: "atomic m w = (Inr x, w')"
  then obtain w1 where "m (enter_atomic w) = (Inr x, w1)" by (elim atomic_Inr_D)
  with keeps_Inr [OF assms, of "enter_atomic w" x w1] I show "Q x" by simp
qed

lemma keeps_effects:
  "keeps (apart t E) (delay tk) (\<lambda>_. True)" "keeps (apart t E) (on_commit tk) (\<lambda>_. True)"
  "keeps (apart t E) (log_call c) (\<lambda>_. True)" "keeps (apart t E) new_uuid (\<lambda>_. True)"
  by (intro keeps_of_preserves preserves_delay preserves_on_commit preserves_log_call preserves_new_uuid; simp)+

lemma keeps_tenant: "keeps (apart t E) get_current_tenant_id (\<lambda>x. x = Some t)"
  by (auto simp: keeps_def get_current_tenant_id_def apart_ctx)

lemmas effect_rules [tenant_intros] =
  keeps_effects [THEN keeps_bind_any] keeps_effects [THEN keeps_weaken] keeps_tenant [THEN keeps_bindE]

text \<open>A row of the tenant, in a table whose other rows are those of \<open>E\<close>.\<close>

definition own :: "'a scoped tbl \<Rightarrow> uuid \<Rightarrow> world \<Rightarrow> 'a scoped \<Rightarrow> bool" where
  "own tb t E x \<longleftrightarrow> tenant_id x = t \<and> row_id x \<notin> row_id ` set (tbl_rows tb E)"

lemma own_tenant: "own tb t E x \<Longrightarrow> tenant_id x = t"
  by (simp add: own_def)

lemma own_same: "own tb t E x \<Longrightarrow> row_id y = row_id x \<Longrightarrow> tenant_id y = tenant_id x \<Longrightarrow> own tb t E y"
  by (simp add: own_def)

locale tenant_rows = scoped_table tb
  for tb :: "'a tenant_scoped_model_scheme tbl" +
  assumes rows_elsewhere: "tbl_rows tb (elsewhere t w) = others t (tbl_rows tb w)"
    and rows_ok: "schema w \<Longrightarrow> tbl_ok tb (tbl_rows tb w)"
    and apart_put: "apart t E w \<Longrightarrow> tbl_ok tb rs \<Longrightarrow> others t rs = others t (tbl_rows tb w) \<Longrightarrow> apart t E (tbl_put tb rs w)"
begin

lemma others_rows: "apart t E w \<Longrightarrow> others t (tbl_rows tb w) = tbl_rows tb E"
  using rows_elsewhere by (auto simp: apart_def)

lemma row_of_tenant:
  assumes "apart t E w" and "x \<in> set (tbl_rows tb w)"
  shows "own tb t E x \<longleftrightarrow> tenant_id x = t" and "own tb t E x \<longleftrightarrow> row_id x \<notin> row_id ` set (tbl_rows tb E)"
proof -
  have d: "distinct (map row_id (tbl_rows tb w))" using assms(1) by (intro ok_pk rows_ok) (simp add: apart_def)
  have "row_id x \<in> row_id ` set (tbl_rows tb E) \<longleftrightarrow> tenant_id x \<noteq> t"
    using assms(2) d unfolding others_rows [OF assms(1), symmetric]
    by (auto simp: distinct_map inj_on_def)
  then show "own tb t E x \<longleftrightarrow> tenant_id x = t" "own tb t E x \<longleftrightarrow> row_id x \<notin> row_id ` set (tbl_rows tb E)"
    by (auto simp: own_def)
qed

lemma scoped_own: "apart t E w \<Longrightarrow> x \<in> set (objects tb w) \<Longrightarrow> own tb t E x"
  using row_of_tenant(1) apart_ctx by (fastforce simp: objects_def)

lemma keeps_get_row: "keeps (apart t E) (get_row tb P e) (\<lambda>x. own tb t E x \<and> P x)"
proof (rule keepsI)
  fix w x w' assume I: "apart t E w" and run: "get_row tb P e w = (Inr x, w')"
  from get_row_Inr [OF run] have "x \<in> set (objects tb w)" "P x" by (simp_all add: objects_in_scope)
  then show "own tb t E x \<and> P x" using scoped_own [OF I] by simp
qed (auto simp: get_row_def)

lemma keeps_get_where:
  "keeps (apart t E) (gets (\<lambda>w. get_where P (objects tb w))) (\<lambda>g. \<forall>x. g = OneRow x \<longrightarrow> own tb t E x \<and> P x)"
  by (auto simp: keeps_def dest: get_where_OneRowD scoped_own)

lemma keeps_first_row: "keeps (apart t E) (first_row tb P) (\<lambda>x. \<forall>r. x = Some r \<longrightarrow> own tb t E r \<and> P r)"
proof (rule keepsI)
  fix w x w' assume I: "apart t E w" and run: "first_row tb P w = (Inr x, w')"
  show "\<forall>r. x = Some r \<longrightarrow> own tb t E r \<and> P r" 
  proof (intro allI impI)
    fix r assume "x = Some r"
    then have "filter P (objects tb w) \<noteq> []" and "r = arg_min_list pk_order (filter P (objects tb w))"
      using run by (auto simp: first_row_def first_by_def split: list.splits)
    then have "r \<in> set (filter P (objects tb w))" using arg_min_list_in by metis
    then show "own tb t E r \<and> P r" using scoped_own [OF I] by simp
  qed
qed (auto simp: first_row_def)

lemma keeps_filter_rows: "keeps (apart t E) (filter_rows tb P) (\<lambda>rs. \<forall>r \<in> set rs. own tb t E r \<and> P r)"
  by (auto simp: keeps_def filter_rows_def dest: scoped_own)

lemma keeps_follow_own:
  assumes "i \<notin> row_id ` set (tbl_rows tb E)"
  shows "keeps (apart t E) (follow tb i) (\<lambda>x. own tb t E x \<and> row_id x = i)"
proof (rule keepsI)
  fix w x w' assume I: "apart t E w" and run: "follow tb i w = (Inr x, w')"
  from get_row_all_Inr [OF run [unfolded follow_def]] show "own tb t E x \<and> row_id x = i"
    using row_of_tenant(2) [OF I, of x] assms by simp
qed (auto simp: follow_def get_row_all_def)

lemma keeps_refresh: "own tb t E x \<Longrightarrow> keeps (apart t E) (refresh_from_db tb x) (\<lambda>y. own tb t E y \<and> row_id y = row_id x)"
  unfolding refresh_from_db_def by (rule keeps_follow_own) (simp add: own_def)

lemma keeps_update_where:
  assumes "\<And>w r. apart t E w \<Longrightarrow> r \<in> set (tbl_rows tb w) \<Longrightarrow> P w r \<Longrightarrow> tenant_id r = t \<and> tenant_id (f r) = t"
  shows "keeps (apart t E) (update_where tb P f) (\<lambda>_. True)"
proof (intro keeps_of_preserves preserves_update_where)
  fix w assume I: "apart t E w" and ok: "tbl_ok tb (upd_where (P w) f (tbl_rows tb w))"
  have "others t (upd_where (P w) f rs) = others t rs" if "set rs \<subseteq> set (tbl_rows tb w)" for rs
    using that assms [OF I] by (induction rs) auto
  with I ok show "apart t E (tbl_put tb (upd_where (P w) f (tbl_rows tb w)) w)" by (intro apart_put) simp_all
qed

lemma keeps_update_rows:
  assumes "\<And>r. tenant_id (f r) = tenant_id r"
  shows "keeps (apart t E) (update_rows tb P f) (\<lambda>_. True)"
  unfolding update_rows_def using assms by (intro keeps_update_where) (auto simp: in_scope_def apart_ctx)

lemma keeps_save_with:
  assumes "own tb t E x" and "\<And>r. tenant_id r = t \<Longrightarrow> tenant_id (f r) = t" and "row_id (f x) = row_id x"
  shows "keeps (apart t E) (save_fields tb f x) (\<lambda>y. own tb t E y \<and> row_id y = row_id x)"
proof -
  have "keeps (apart t E) (update_where tb (\<lambda>w r. row_id r = row_id x) (\<lambda>r. (f r)\<lparr>updated_at := now\<rparr>)) (\<lambda>_. True)" for now
  proof (rule keeps_update_where)
    fix w r assume I: "apart t E w" and r: "r \<in> set (tbl_rows tb w)" and eq: "row_id r = row_id x"
    have "tenant_id r = t" using row_of_tenant [OF I r] assms(1) eq by (simp add: own_def)
    then show "tenant_id r = t \<and> tenant_id ((f r)\<lparr>updated_at := now\<rparr>) = t" using assms(2) [of r] by simp
  qed
  moreover have "own tb t E ((f x)\<lparr>updated_at := now\<rparr>)" for now
    using assms by (auto simp: own_def)
  ultimately show ?thesis
    unfolding save_fields_def using assms(3)
    by (intro keeps_bindE [OF keeps_gets] keeps_bindE [where Q = "\<lambda>_. True"] keeps_if keeps_throw keeps_ret) auto
qed

lemma keeps_save_fields:
  assumes "own tb t E x" and "\<And>r. tenant_id (f r) = tenant_id r" and "row_id (f x) = row_id x"
  shows "keeps (apart t E) (save_fields tb f x) (\<lambda>y. own tb t E y \<and> row_id y = row_id x)"
  using assms by (intro keeps_save_with) simp_all

lemma keeps_save_row:
  "own tb t E x \<Longrightarrow> keeps (apart t E) (save_row tb x) (\<lambda>y. own tb t E y \<and> row_id y = row_id x)"
  unfolding save_row_def by (rule keeps_save_with) (simp_all add: own_def)

lemma keeps_create_with_tenant:
  assumes "tid = t"
  shows "keeps (apart t E) (create_with_tenant tb tid r) (own tb t E)"
  unfolding assms
proof (rule keepsI)
  fix w x w' assume I: "apart t E w" and run: "create_with_tenant tb t r w = (x, w')"
  let ?new = "stamp (fresh_id w) t (clock w) r"
  show "apart t E w'"
    using run I apart_put [of t E "w\<lparr>fresh_id := Suc (fresh_id w)\<rparr>" "tbl_rows tb w @ [?new]"]
    by (auto simp: create_with_tenant_simp insert_row_def stamp_def split: if_splits)
next
  fix w x w' assume I: "apart t E w" and run: "create_with_tenant tb t r w = (Inr x, w')"
  let ?new = "stamp (fresh_id w) t (clock w) r"
  have x: "x = ?new" and ok: "tbl_ok tb (tbl_rows tb w @ [?new])"
    using run by (auto simp: create_with_tenant_simp insert_row_def split: if_splits)
  from ok_pk [OF ok] have "row_id ?new \<notin> row_id ` set (tbl_rows tb w)" by auto
  then show "own tb t E x" unfolding own_def others_rows [OF I, symmetric] x by (auto simp: stamp_def)
qed

lemma keeps_create: "keeps (apart t E) (create tb r) (own tb t E)"
  unfolding create_def by (rule keeps_bindE [OF keeps_tenant]) (simp add: keeps_create_with_tenant)

lemma keeps_delete_where:
  assumes "\<And>w r. apart t E w \<Longrightarrow> r \<in> set (tbl_rows tb w) \<Longrightarrow> P w r \<Longrightarrow> tenant_id r = t"
  shows "keeps (apart t E) (delete_where tb P) (\<lambda>_. True)"
proof (intro keeps_of_preserves preserves_delete_where)
  fix w assume I: "apart t E w"
  have "others t (filter (\<lambda>r. \<not> P w r) rs) = others t rs" if "set rs \<subseteq> set (tbl_rows tb w)" for rs
    using that assms [OF I] by (induction rs) auto
  moreover have "tbl_ok tb (filter (\<lambda>r. \<not> P w r) (tbl_rows tb w))"
    using I by (intro ok_filter rows_ok) (simp add: apart_def)
  ultimately show "apart t E (tbl_put tb (filter (\<lambda>r. \<not> P w r) (tbl_rows tb w)) w)"
    using I by (intro apart_put) simp_all
qed

lemma keeps_delete_rows: "keeps (apart t E) (delete_rows tb P) (\<lambda>_. True)"
  unfolding delete_rows_def by (rule keeps_delete_where) (auto simp: in_scope_def apart_ctx)

lemma keeps_delete_own:
  "own tb t E x \<Longrightarrow> keeps (apart t E) (delete_where tb (\<lambda>_ r. row_id r = row_id x)) (\<lambda>_. True)"
  by (rule keeps_delete_where) (metis own_def row_of_tenant)

lemmas rules [tenant_intros] =
  keeps_bindE [OF keeps_get_row] keeps_weaken [OF keeps_get_row]
  keeps_bindE [OF keeps_get_where] keeps_bindE [OF keeps_first_row] keeps_bindE [OF keeps_filter_rows]
  keeps_bindE [OF keeps_refresh] keeps_bindE [OF keeps_create] keeps_weaken [OF keeps_create]
  keeps_bindE [OF keeps_create_with_tenant] keeps_weaken [OF keeps_create_with_tenant]
  keeps_bind_any [OF keeps_update_rows] keeps_weaken [OF keeps_update_rows]
  keeps_bindE [OF keeps_save_fields] keeps_weaken [OF keeps_save_fields]
  keeps_bindE [OF keeps_save_row] keeps_weaken [OF keeps_save_row]
  keeps_bind_any [OF keeps_delete_rows] keeps_weaken [OF keeps_delete_rows]
  keeps_bind_any [OF keeps_delete_own] keeps_weaken [OF keeps_delete_own]

end

lemmas tenant_laws = apart_def elsewhere_def tables_def

interpretation own_customers: tenant_rows customers_tbl
  by unfold_locales (auto simp: tenant_laws schema_get)
interpretation own_addresses: tenant_rows addresses_tbl
  by unfold_locales (auto simp: tenant_laws schema_get)
interpretation own_products: tenant_rows products_tbl
  by unfold_locales (auto simp: tenant_laws schema_get)
interpretation own_coupons: tenant_rows coupons_tbl
  by unfold_locales (auto simp: tenant_laws schema_get)
interpretation own_carts: tenant_rows carts_tbl
  by unfold_locales (auto simp: tenant_laws schema_get)
interpretation own_items: tenant_rows cart_items_tbl
  by unfold_locales (auto simp: tenant_laws schema_get)
interpretation own_applied: tenant_rows applied_coupons_tbl
  by unfold_locales (auto simp: tenant_laws schema_get)
interpretation own_methods: tenant_rows payment_methods_tbl
  by unfold_locales (auto simp: tenant_laws schema_get)
interpretation own_configs: tenant_rows gateway_configs_tbl
  by unfold_locales (auto simp: tenant_laws schema_get)
interpretation own_orders: tenant_rows orders_tbl
  by unfold_locales (auto simp: tenant_laws schema_get)
interpretation own_order_items: tenant_rows order_items_tbl
  by unfold_locales (auto simp: tenant_laws schema_get)
interpretation own_reservations: tenant_rows reservations_tbl
  by unfold_locales (auto simp: tenant_laws schema_get)
interpretation own_payments: tenant_rows payments_tbl
  by unfold_locales (auto simp: tenant_laws schema_get)
interpretation own_invoices: tenant_rows invoices_tbl
  by unfold_locales (auto simp: tenant_laws schema_get)


subsection \<open>The cart\<close>

lemma keeps_load_cart: "keeps I (gets (\<lambda>w. load_cart w c)) (\<lambda>v. cv_cart v = c)"
  by (auto simp: keeps_def load_cart_def)

lemmas load_rules [tenant_intros] = keeps_load_cart [THEN keeps_bindE] keeps_load_cart [THEN keeps_weaken]

lemma lock_active_cart_own: "keeps (apart t E) (lock_active_cart customer) (own carts_tbl t E)"
  unfolding lock_active_cart_def by (intro tenant_intros) simp

lemma bump_own: "own carts_tbl t E c \<Longrightarrow> keeps (apart t E) (bump_and_return c) (\<lambda>_. True)"
  unfolding bump_and_return_def by (intro tenant_intros) simp_all

lemma get_cart_own: "keeps (apart t E) (get_cart customer) (\<lambda>v. own carts_tbl t E (cv_cart v))"
  unfolding get_cart_def by (intro tenant_intros) simp_all

lemma get_or_create_cart_own: "keeps (apart t E) (get_or_create_cart customer) (own carts_tbl t E)"
  unfolding get_or_create_cart_def by (intro tenant_intros) simp_all

lemmas cart_rules [tenant_intros] =
  keeps_bindE [OF lock_active_cart_own] keeps_bindE [OF get_cart_own] keeps_weaken [OF get_cart_own]
  keeps_bindE [OF get_or_create_cart_own] keeps_weaken [OF bump_own]

lemma lock_currency_own: "own carts_tbl t E c \<Longrightarrow> keeps (apart t E) (lock_currency c p) (own carts_tbl t E)"
  unfolding lock_currency_def by (intro tenant_intros) simp_all

lemma put_item_own: "keeps (apart t E) (put_item c p q existing) (\<lambda>_. True)"
  unfolding put_item_def by (intro tenant_intros) simp_all

lemma clear_currency_own: "own carts_tbl t E c \<Longrightarrow> keeps (apart t E) (clear_currency_if_empty c) (\<lambda>_. True)"
  unfolding clear_currency_if_empty_def by (intro tenant_intros) simp_all

lemma validate_on_cart_own: "keeps (apart t E) (validate_on_cart cp c) (\<lambda>_. True)"
  unfolding validate_on_cart_def by (intro tenant_intros keeps_bind_any) simp_all

lemmas cart_item_rules [tenant_intros] =
  keeps_bindE [OF lock_currency_own] put_item_own clear_currency_own validate_on_cart_own

lemma add_item_own: "keeps (apart t E) (add_item customer product q) (\<lambda>_. True)"
  unfolding add_item_def by (intro tenant_intros) simp_all

lemma remove_item_own: "keeps (apart t E) (remove_item customer item) (\<lambda>_. True)"
  unfolding remove_item_def by (intro tenant_intros) simp_all

lemma update_item_own: "keeps (apart t E) (update_item_quantity customer item q) (\<lambda>_. True)"
  unfolding update_item_quantity_def by (intro tenant_intros) simp_all

lemma clear_cart_own: "keeps (apart t E) (clear_cart customer) (\<lambda>_. True)"
  unfolding clear_cart_def by (intro tenant_intros) simp_all

lemma apply_coupon_own: "keeps (apart t E) (apply_coupon customer code) (\<lambda>_. True)"
  unfolding apply_coupon_def find_coupon_def by (intro tenant_intros) simp_all

lemma remove_coupon_own: "keeps (apart t E) (remove_coupon customer code) (\<lambda>_. True)"
  unfolding remove_coupon_def
  by (intro tenant_intros keeps_bind_any own_applied.keeps_delete_where) (auto simp: in_scope_def apart_ctx)

lemma preview_coupon_own: "keeps (apart t E) (preview_coupon customer code) (\<lambda>_. True)"
  unfolding preview_coupon_def find_coupon_def by (intro tenant_intros) simp_all

lemma set_slots_own:
  "keeps (apart t E) (set_shipping_address customer address) (\<lambda>_. True)"
  "keeps (apart t E) (set_billing_address customer address) (\<lambda>_. True)"
  "keeps (apart t E) (set_payment_method customer method) (\<lambda>_. True)"
  unfolding set_shipping_address_def set_billing_address_def set_payment_method_def
  by (intro tenant_intros; simp)+

lemmas cart_calls =
  add_item_own remove_item_own update_item_own clear_cart_own apply_coupon_own remove_coupon_own preview_coupon_own
  set_slots_own keeps_any [OF get_cart_own]


subsection \<open>The saga\<close>

abbreviation own_view :: "uuid \<Rightarrow> world \<Rightarrow> cart_view \<Rightarrow> bool" where
  "own_view t E v \<equiv> own carts_tbl t E (cv_cart v)"

abbreviation own_all :: "uuid \<Rightarrow> world \<Rightarrow> reservation list \<Rightarrow> bool" where
  "own_all t E rs \<equiv> \<forall>r \<in> set rs. own reservations_tbl t E r"

lemma lock_and_validate_own: "keeps (apart t E) (lock_and_validate_cart customer expected) (own_view t E)"
  unfolding lock_and_validate_cart_def by (intro tenant_intros) simp_all

lemma phase_lock_own: "keeps (apart t E) (phase_lock customer expected) (own_view t E)"
  unfolding phase_lock_def by (intro tenant_intros keeps_bindE [OF lock_and_validate_own]) simp_all

lemma revert_cart_own: "keeps (apart t E) (revert_cart_to_active i) (\<lambda>_. True)"
  unfolding revert_cart_to_active_def by (intro tenant_intros) simp_all

lemma or_compensate_own:
  "keeps I m Q \<Longrightarrow> keeps I undo (\<lambda>_. True) \<Longrightarrow> keeps I (or_compensate m caught undo) Q"
  unfolding or_compensate_def by (intro tenant_intros) simp_all

lemma phase_validate_own: "keeps (apart t E) (phase_validate v) (\<lambda>_. True)"
  unfolding phase_validate_def validate_preconditions_def check_coupon_def Let_def
  by (intro or_compensate_own revert_cart_own tenant_intros) simp_all

lemma add_reserved_frame [simp]: "tenant_id (add_reserved q p) = tenant_id p" "row_id (add_reserved q p) = row_id p"
  by (simp_all add: add_reserved_def)

lemma reserve_product_own: "keeps (apart t E) (reserve_product cart expires items p) (own reservations_tbl t E)"
  unfolding reserve_product_def by (intro tenant_intros) simp_all

lemma reserve_stock_own: "keeps (apart t E) (reserve_stock cart items) (own_all t E)"
  unfolding reserve_stock_def
  by (intro tenant_intros keeps_weaken [OF keeps_map_each [where Q = "own reservations_tbl t E"]] reserve_product_own) simp_all

lemma phase_reserve_own: "keeps (apart t E) (phase_reserve v) (own_all t E)"
  unfolding phase_reserve_def by (intro or_compensate_own reserve_stock_own revert_cart_own)

text \<open>The adjustments of the stock keep the tenant of a product.\<close>

lemma adjust_frame [simp]:
  "tenant_id (sub_reserved q p) = tenant_id p" "tenant_id (sub_both q p) = tenant_id p" "tenant_id (add_stock q p) = tenant_id p"
  by (simp_all add: adjust_defs)

lemma settle_own_row:
  assumes "own reservations_tbl t E r" and "\<And>q p. tenant_id (f q p) = tenant_id p"
  shows "keeps (apart t E) (settle f st r) (\<lambda>_. True)"
  unfolding settle_def using assms by (intro tenant_intros) simp_all

lemma settle_if_own:
  assumes "own reservations_tbl t E r" and "\<And>q p. tenant_id (f q p) = tenant_id p"
  shows "keeps (apart t E) (settle_if old f st r) (\<lambda>_. True)"
  unfolding settle_if_def using assms by (intro tenant_intros settle_own_row) simp_all

lemma settle_reservations_own:
  assumes "own_all t E rs"
  shows "keeps (apart t E) (release_reservations rs) (\<lambda>_. True)"
    "keeps (apart t E) (commit_reservations rs) (\<lambda>_. True)"
    "keeps (apart t E) (reverse_committed_reservations rs) (\<lambda>_. True)"
  unfolding release_reservations_def commit_reservations_def reverse_committed_reservations_def
  using assms by (intro tenant_intros settle_if_own; simp)+

lemma settle_for_order_own:
  "keeps (apart t E) (commit_reservations_for_order i) (\<lambda>_. True)"
  "keeps (apart t E) (release_reservations_for_order i) (\<lambda>_. True)"
  unfolding commit_reservations_for_order_def release_reservations_for_order_def
  by (intro tenant_intros settle_own_row; simp)+

lemma next_order_number_own: "tid = t \<Longrightarrow> keeps (apart t E) (next_order_number tid) (\<lambda>_. True)"
  by (rule keeps_of_preserves) (simp add: preserves_def next_order_number_def split: option.split)

lemma use_coupon_own: "keeps (apart t E) (use_coupon a) (\<lambda>_. True)"
  unfolding use_coupon_def by (intro tenant_intros) simp_all

lemma create_order_item_own: "own_view t E v \<Longrightarrow> keeps (apart t E) (create_order_item v od i) (\<lambda>_. True)"
  unfolding create_order_item_def by (intro tenant_intros) (simp_all add: own_tenant)

lemma create_order_own: "own_view t E v \<Longrightarrow> keeps (apart t E) (create_order v key) (own orders_tbl t E)"
  unfolding create_order_def
  by (intro tenant_intros use_coupon_own create_order_item_own keeps_bind_any [OF next_order_number_own])
    (simp_all add: own_tenant)

lemma phase_order_own:
  "own_view t E v \<Longrightarrow> own_all t E rs \<Longrightarrow> keeps (apart t E) (phase_order v rs key) (own orders_tbl t E)"
  unfolding phase_order_def
  by (intro or_compensate_own create_order_own keeps_seqE settle_reservations_own revert_cart_own)

lemma cancel_order_row_own: "own orders_tbl t E od \<Longrightarrow> keeps (apart t E) (cancel_order_row od) (\<lambda>_. True)"
  unfolding cancel_order_row_def save_order_status_def by (intro tenant_intros) simp_all

lemma compensate_order_own:
  "own orders_tbl t E od \<Longrightarrow> own_all t E rs \<Longrightarrow> keeps (apart t E) (compensate_order v rs od) (\<lambda>_. True)"
  unfolding compensate_order_def
  by (intro keeps_seqE cancel_order_row_own settle_reservations_own revert_cart_own)

lemma convert_cart_own: "own_view t E v \<Longrightarrow> keeps (apart t E) (convert_cart v) (\<lambda>_. True)"
  unfolding convert_cart_def by (intro tenant_intros) simp_all

lemma link_reservation_own: "own reservations_tbl t E r \<Longrightarrow> keeps (apart t E) (link_reservation od r) (\<lambda>_. True)"
  unfolding link_reservation_def by (intro tenant_intros) simp_all


subsection \<open>Payments\<close>

lemma create_payment_own: "keeps (apart t E) (create_payment caller p) (own payments_tbl t E)"
  unfolding create_payment_def
  by (rule keeps_bindE [OF keeps_tenant]) (simp, intro tenant_intros own_payments.keeps_create_with_tenant refl)

lemma pending_payments_own:
  "keeps (apart t E) (create_pending_payment od config amount currency key) (own payments_tbl t E)"
  "keeps (apart t E) (create_invoice_pending_payment od amount currency key) (own payments_tbl t E)"
  unfolding create_pending_payment_def create_invoice_pending_payment_def by (rule create_payment_own)+

lemma set_payment_frame [simp]:
  "tenant_id (set_result txn st response p) = tenant_id p" "tenant_id (set_status_response st response p) = tenant_id p"
  "row_id (set_result txn st response p) = row_id p" "row_id (set_status_response st response p) = row_id p"
  by (simp_all add: set_result_def set_status_response_def)

lemma gateway_call_own: "keeps (apart t E) (gateway_call c f) (\<lambda>_. True)"
  unfolding gateway_call_def by (intro tenant_intros keeps_effects) simp_all

lemma record_payment_own:
  "keeps (apart t E) (record_payment_result i txn st response) (\<lambda>_. True)"
  "keeps (apart t E) (record_payment_error i m) (\<lambda>_. True)"
  unfolding record_payment_result_def record_payment_error_def by (intro tenant_intros; simp)+

lemma resolve_config_own: "keeps (apart t E) (resolve_gateway_config e name) (own gateway_configs_tbl t E)"
  unfolding resolve_gateway_config_def by (intro tenant_intros) simp_all

lemma authorize_payment_own:
  "keeps (apart t E) (authorize_payment e od pm amount currency key m) (own payments_tbl t E)"
proof -
  have call: "keeps (apart t E) (call_authorize g cr p token m) (\<lambda>_. True)" for g cr p token m
    unfolding call_authorize_def by (intro tenant_intros gateway_call_own record_payment_own)
  have intent: "own payments_tbl t E p \<Longrightarrow> keeps (apart t E) (record_intent p i) (own payments_tbl t E)" for p i
    unfolding record_intent_def by (intro tenant_intros record_payment_own) (simp add: own_def)
  show ?thesis
    unfolding authorize_payment_def
    by (intro tenant_intros keeps_bindE [OF resolve_config_own] keeps_bindE [OF pending_payments_own(1)]
        keeps_bind_any [OF call] intent)
qed

lemma gateway_of_payment_own: "keeps (apart t E) (gateway_of_payment e p) (\<lambda>_. True)"
  unfolding gateway_of_payment_def by (intro tenant_intros) simp_all

lemma get_payment_own: "keeps (apart t E) (get_payment i) (own payments_tbl t E)"
  unfolding get_payment_def by (intro tenant_intros) simp_all

lemma capture_payment_own: "keeps (apart t E) (capture_payment e i) (\<lambda>_. True)"
  unfolding capture_payment_def
  by (intro tenant_intros keeps_bindE [OF get_payment_own] keeps_any [OF get_payment_own] gateway_call_own
      gateway_of_payment_own keeps_bind_any) simp_all

lemma mark_invoice_paid_own: "keeps (apart t E) (mark_invoice_paid i reference) (\<lambda>_. True)"
  unfolding mark_invoice_paid_def by (intro tenant_intros keeps_bindE [OF get_payment_own]) simp_all

subsection \<open>The end of the saga\<close>

lemma post_payment_own: "keeps (apart t E) (enqueue_post_payment_tasks od) (\<lambda>_. True)"
  unfolding enqueue_post_payment_tasks_def by (rule keeps_effects)

lemma purchase_order_own:
  assumes "own_view t E v" and "own_all t E rs" and "own orders_tbl t E od"
  shows "keeps (apart t E) (purchase_order_path v rs od pm key) (\<lambda>_. True)"
proof -
  have pay: "keeps (apart t E) (or_compensate
      (create_invoice_pending_payment (row_id od) (ord_grand_total od) (ord_currency od) (key @ '':po''))
      any_exn (compensate_order v rs od)) (\<lambda>_. True)"
    using assms by (intro or_compensate_own keeps_any [OF pending_payments_own(2)] compensate_order_own)
  show ?thesis
    unfolding purchase_order_path_def
    by (intro keeps_bind_any [OF pay] tenant_intros keeps_bind_any post_payment_own convert_cart_own link_reservation_own
        settle_reservations_own) (use assms in simp_all)
qed

lemma phase_convert_own:
  assumes "own_view t E v" and "own_all t E rs" and "own orders_tbl t E od"
  shows "keeps (apart t E) (phase_convert v rs od) (own orders_tbl t E)"
  unfolding phase_convert_def
  using assms by (intro tenant_intros convert_cart_own link_reservation_own) simp_all

lemma mark_paid_and_commit_own:
  assumes "own_all t E rs" and "own orders_tbl t E od"
  shows "keeps (apart t E) (mark_paid_and_commit od rs) (own orders_tbl t E)"
  unfolding mark_paid_and_commit_def save_order_status_def
  using assms by (intro tenant_intros settle_reservations_own) simp_all

lemma phase_finish_own:
  assumes "own_all t E rs" and "own orders_tbl t E od"
  shows "keeps (apart t E) (phase_finish e od rs p) (\<lambda>_. True)"
  unfolding phase_finish_def phase_capture_def
  using assms by (intro tenant_intros keeps_bind_any keeps_any [OF capture_payment_own] post_payment_own
      keeps_any [OF mark_paid_and_commit_own]) simp_all

lemma pay_order_step_own:
  assumes "own_view t E v" and "own_all t E rs" and "own orders_tbl t E od"
  shows "keeps (apart t E) (pay_order_step e v rs od key extra) (\<lambda>_. True)"
  unfolding pay_order_step_def card_path_def phase_authorize_def
  using assms
  by (intro tenant_intros purchase_order_own keeps_bind_any
      [OF or_compensate_own [OF keeps_any [OF authorize_payment_own] compensate_order_own]]
      keeps_bindE [OF phase_convert_own] phase_finish_own) simp_all

lemma prepare_order_own:
  "keeps (apart t E) (prepare_order customer key expected)
     (\<lambda>(v, rs, od). own_view t E v \<and> own_all t E rs \<and> own orders_tbl t E od)"
  unfolding prepare_order_def
  by (intro keeps_bindE [OF phase_lock_own] keeps_seqE phase_validate_own keeps_bindE [OF phase_reserve_own]
      keeps_bindE [OF phase_order_own] tenant_intros) simp_all

lemma checkout_own: "keeps (apart t E) (checkout e customer key expected extra) (\<lambda>_. True)"
proof -
  have "keeps (apart t E) (run_saga e customer key expected extra) (\<lambda>_. True)"
    unfolding run_saga_def
    by (rule keeps_bindE [OF prepare_order_own]) (auto intro: pay_order_step_own)
  then show ?thesis
    unfolding checkout_def find_existing_checkout_def latest_row_def
    by (intro keeps_bind_any tenant_intros) simp_all
qed

lemma cancel_order_own: "keeps (apart t E) (cancel_order customer i) (own orders_tbl t E)"
  unfolding cancel_order_def save_order_status_def
  by (intro tenant_intros settle_reservations_own) simp_all


subsection \<open>The storefront endpoints\<close>

lemma cart_answer_own: "keeps (apart t E) m Q \<Longrightarrow> keeps (apart t E) (cart_answer r m) (\<lambda>_. True)"
  unfolding cart_answer_def by (intro keeps_bindE tenant_intros) simp_all

lemma cart_views_own:
  "keeps (apart t E) (cart_detail_get c r) (\<lambda>_. True)" "keeps (apart t E) (cart_detail_delete c r) (\<lambda>_. True)"
  "keeps (apart t E) (cart_items_post cfg body c r) (\<lambda>_. True)"
  "keeps (apart t E) (cart_item_detail_patch item body c r) (\<lambda>_. True)"
  "keeps (apart t E) (cart_item_detail_delete item c r) (\<lambda>_. True)"
  "keeps (apart t E) (cart_coupons_post body c r) (\<lambda>_. True)"
  "keeps (apart t E) (cart_coupon_detail_delete code c r) (\<lambda>_. True)"
  "keeps (apart t E) (cart_coupon_preview_post body c r) (\<lambda>_. True)"
  "keeps (apart t E) (cart_shipping_address_put cfg body c r) (\<lambda>_. True)"
  "keeps (apart t E) (cart_billing_address_put cfg body c r) (\<lambda>_. True)"
  "keeps (apart t E) (cart_payment_method_put cfg body c r) (\<lambda>_. True)"
  "keeps (apart t E) (cart_checkout_post e body c r) (\<lambda>_. True)"
  "keeps (apart t E) (order_cancel_post i c r) (\<lambda>_. True)" "keeps (apart t E) (order_invoice_get i c r) (\<lambda>_. True)"
  "keeps (apart t E) (order_detail_get i c r) (\<lambda>_. True)"
  unfolding cart_detail_get_def cart_detail_delete_def cart_items_post_def cart_item_detail_patch_def
    cart_item_detail_delete_def cart_coupons_post_def cart_coupon_detail_delete_def cart_coupon_preview_post_def
    cart_shipping_address_put_def cart_billing_address_put_def cart_payment_method_put_def
    cart_checkout_post_def order_cancel_post_def order_invoice_get_def order_detail_get_def Let_def
  by (intro tenant_intros cart_answer_own [OF cart_calls(1)] cart_answer_own [OF cart_calls(2)]
      cart_answer_own [OF cart_calls(3)] cart_answer_own [OF cart_calls(5)] cart_answer_own [OF cart_calls(6)]
      cart_answer_own [OF cart_calls(8)] cart_answer_own [OF cart_calls(9)] cart_answer_own [OF cart_calls(10)]
      cart_answer_own [OF cart_calls(11)] cart_calls keeps_bind_any [OF preview_coupon_own] keeps_bind_any [OF checkout_own]
      keeps_bindE [OF cancel_order_own]; simp)+

text \<open>No cart of another tenant names an address or a payment method of the tenant.\<close>

definition slots_closed :: "world \<Rightarrow> bool" where
  "slots_closed E \<longleftrightarrow> (\<forall>c \<in> set (db_carts E).
     (\<forall>i. cart_shipping_address c = Some i \<or> cart_billing_address c = Some i \<longrightarrow> i \<in> row_id ` set (db_addresses E)) \<and>
     (\<forall>i. cart_selected_payment_method c = Some i \<longrightarrow> i \<in> row_id ` set (db_payment_methods E)))"

lemma apply_frame [simp]:
  "tenant_id (apply_address v a) = tenant_id a" "row_id (apply_address v a) = row_id a"
  "tenant_id (apply_customer cv c) = tenant_id c" "row_id (apply_customer cv c) = row_id c"
  "tenant_id (apply_config gv g) = tenant_id g" "row_id (apply_config gv g) = row_id g"
  "tenant_id (apply_product pv p) = tenant_id p" "row_id (apply_product pv p) = row_id p"
  "tenant_id (apply_coupon_input cs ci k) = tenant_id k" "row_id (apply_coupon_input cs ci k) = row_id k"
  by (simp_all add: apply_address_def apply_customer_def apply_config_def apply_product_def apply_coupon_input_def)

lemma own_apply [simp]:
  "own addresses_tbl t E (apply_address v a) = own addresses_tbl t E a"
  "own customers_tbl t E (apply_customer cv c) = own customers_tbl t E c"
  "own gateway_configs_tbl t E (apply_config gv g) = own gateway_configs_tbl t E g"
  "own products_tbl t E (apply_product pv p) = own products_tbl t E p"
  "own coupons_tbl t E (apply_coupon_input cs ci k) = own coupons_tbl t E k"
  by (simp_all add: own_def)

lemma get_address_own: "keeps (apart t E) (get_address c cid i) (own addresses_tbl t E)"
proof -
  have "own addresses_tbl t E x"
    if "apart t E w" "Inr rows = own_addresses c cid w" "one_or_raise e (get_where P rows) = Inr x" for w rows x e P
    using that own_addresses.scoped_own [OF that(1)]
    by (auto simp: own_addresses_def one_or_raise_def split: if_splits get_result.splits dest: get_where_OneRowD)
  then show ?thesis unfolding get_address_def by (intro tenant_intros) auto
qed

lemma cascade_own:
  assumes "\<And>x. x \<in> set (db_carts E) \<Longrightarrow> \<not> P x" and "\<And>x. tenant_id (f x) = tenant_id x"
  shows "keeps (apart t E) (update_rows_all carts_tbl P f) (\<lambda>_. True)"
  unfolding update_rows_all_def
proof (rule own_carts.keeps_update_where)
  fix w x assume I: "apart t E w" and x: "x \<in> set (tbl_rows carts_tbl w)" "P x"
  then have "x \<notin> set (others t (tbl_rows carts_tbl w))" using own_carts.others_rows [OF I] assms(1) by auto
  then have "tenant_id x = t" using x(1) by simp
  then show "tenant_id x = t \<and> tenant_id (f x) = t" using assms(2) by simp
qed

lemma clear_slots_frame [simp]: "tenant_id (clear_slots i x) = tenant_id x"
  by (simp add: clear_slots_def)

lemma address_views_own:
  "keeps (apart t E) (address_list_post cid v c r) (\<lambda>_. True)"
  "keeps (apart t E) (address_detail_get cid i c r) (\<lambda>_. True)"
  "keeps (apart t E) (address_detail_update part cid i v c r) (\<lambda>_. True)"
  "slots_closed E \<Longrightarrow> keeps (apart t E) (address_detail_delete cid i c r) (\<lambda>_. True)"
proof -
  show "keeps (apart t E) (address_list_post cid v c r) (\<lambda>_. True)"
    "keeps (apart t E) (address_detail_get cid i c r) (\<lambda>_. True)"
    "keeps (apart t E) (address_detail_update part cid i v c r) (\<lambda>_. True)"
    unfolding address_list_post_def address_detail_get_def address_detail_update_def
    by (intro tenant_intros keeps_bindE [OF get_address_own]; simp)+
  assume "slots_closed E"
  then show "keeps (apart t E) (address_detail_delete cid i c r) (\<lambda>_. True)"
    unfolding address_detail_delete_def
    by (intro tenant_intros keeps_bindE [OF get_address_own] keeps_bind_any [OF cascade_own])
      (auto simp: own_def slots_closed_def)
qed

lemma keeps_case_method [tenant_intros]:
  "keeps I a Q \<Longrightarrow> keeps I b Q \<Longrightarrow> keeps I (case m of CARD \<Rightarrow> a | PURCHASE_ORDER \<Rightarrow> b) Q"
  by (cases m) simp_all

lemma method_response_own: "keeps I (method_response st r pm) (\<lambda>_. True)"
  unfolding method_response_def by (intro tenant_intros) simp_all

lemma store_method_own: "keeps (apart t E) (store_method cid pm) (\<lambda>_. True)"
  unfolding store_method_def by (intro tenant_intros) simp_all

lemma tokenized_card_own: "keeps (apart t E) (tokenized_card e gc v) (\<lambda>_. True)"
  unfolding tokenized_card_def by (intro tenant_intros gateway_call_own) simp_all

lemma make_default_own: "keeps (apart t E) (make_default cid mid) (\<lambda>_. True)"
  unfolding make_default_def by (intro tenant_intros) simp_all

lemma method_views_own:
  "keeps (apart t E) (payment_method_default_put cid mid c r) (\<lambda>_. True)"
  "keeps (apart t E) (payment_method_detail_get cid mid c r) (\<lambda>_. True)"
  "keeps (apart t E) (payment_method_create e cid req c r) (\<lambda>_. True)"
  "keeps (apart t E) (public_gateway_detail_get e name r) (\<lambda>_. True)"
  "slots_closed E \<Longrightarrow> keeps (apart t E) (payment_method_detail_delete cid mid c r) (\<lambda>_. True)"
proof -
  show "keeps (apart t E) (payment_method_default_put cid mid c r) (\<lambda>_. True)"
    "keeps (apart t E) (payment_method_detail_get cid mid c r) (\<lambda>_. True)"
    "keeps (apart t E) (payment_method_create e cid req c r) (\<lambda>_. True)"
    "keeps (apart t E) (public_gateway_detail_get e name r) (\<lambda>_. True)"
    unfolding payment_method_default_put_def payment_method_detail_get_def payment_method_create_def
      public_gateway_detail_get_def own_account_def
    by (intro tenant_intros method_response_own keeps_bind_any [OF keeps_atomic [OF make_default_own]]
        keeps_bindE [OF resolve_config_own] keeps_bind_any [OF store_method_own] keeps_bind_any [OF tokenized_card_own]; simp)+
  assume "slots_closed E"
  then show "keeps (apart t E) (payment_method_detail_delete cid mid c r) (\<lambda>_. True)"
    unfolding payment_method_detail_delete_def own_account_def
    by (intro tenant_intros keeps_bind_any [OF cascade_own]) (auto simp: own_def slots_closed_def)
qed

lemma shop_view_own: "slots_closed E \<Longrightarrow> keeps (apart t E) (shop_view s call c r) (\<lambda>_. True)"
proof (cases call)
  case (ProductGet i)
  then show ?thesis by (simp add: storefront_product_get_def) (intro tenant_intros; simp)
next
  case (AddressList q i)
  then show ?thesis by (auto simp: address_list_get_def intro!: keeps_of_preserves hoare_intros)
qed (simp_all add: cart_views_own address_views_own method_views_own keeps_of_preserves lists_keep)


subsection \<open>The endpoints of the administration\<close>

lemma keeps_attempt: "keeps I m Q \<Longrightarrow> keeps I (attempt m) (\<lambda>_. True)"
  by (auto simp: keeps_def attempt_def split: prod.splits)

lemma coupon_ops_own:
  "keeps (apart t E) (create_coupon ci) (\<lambda>_. True)" "keeps (apart t E) (patch_coupon i ci) (\<lambda>_. True)"
  "keeps (apart t E) (delete_coupon i) (\<lambda>_. True)"
proof -
  have code: "keeps (apart t E) (validate_code v) (\<lambda>_. True)" for v
    unfolding validate_code_def Let_def by (intro tenant_intros) simp_all
  show "keeps (apart t E) (create_coupon ci) (\<lambda>_. True)"
    unfolding create_coupon_def Let_def
    by (intro keeps_bind_any [OF keeps_attempt [OF code]] tenant_intros) simp_all
  have guards: "keeps (apart t E) (patch_coupon_guards c ci) (\<lambda>_. True)" for c
    unfolding patch_coupon_guards_def coupon_in_use_def Let_def by (intro tenant_intros) simp_all
  show "keeps (apart t E) (patch_coupon i ci) (\<lambda>_. True)"
    unfolding patch_coupon_def get_coupon_def by (intro tenant_intros guards) simp_all
  show "keeps (apart t E) (delete_coupon i) (\<lambda>_. True)"
    unfolding delete_coupon_def get_coupon_def by (intro tenant_intros) simp_all
qed

lemma coupon_views_own:
  "keeps (apart t E) (coupon_create_post ci u r) (\<lambda>_. True)" "keeps (apart t E) (coupon_detail_get i u r) (\<lambda>_. True)"
  "keeps (apart t E) (coupon_detail_patch i ci u r) (\<lambda>_. True)" "keeps (apart t E) (coupon_detail_delete i u r) (\<lambda>_. True)"
  unfolding coupon_create_post_def coupon_detail_get_def coupon_detail_patch_def coupon_detail_delete_def get_coupon_def
  by (intro tenant_intros keeps_bind_any [OF coupon_ops_own(1)] keeps_bind_any [OF coupon_ops_own(2)]
      keeps_bind_any [OF coupon_ops_own(3)]; simp)+

lemma keeps_modify: "(\<And>w. I w \<Longrightarrow> I (f w)) \<Longrightarrow> keeps I (modify f) (\<lambda>_. True)"
  by (intro keeps_of_preserves preserves_modify)

lemma storage_own:
  "keeps (apart t E) (save_bytes st alias key fn ct) (\<lambda>_. True)" "keeps (apart t E) (delete_object alias key) (\<lambda>_. True)"
  unfolding save_bytes_def delete_object_def Let_def
  by (intro tenant_intros keeps_modify; simp)+

lemma product_views_own:
  "keeps (apart t E) (product_create_post st sku v u r) (\<lambda>_. True)" "keeps (apart t E) (product_detail_get st i u r) (\<lambda>_. True)"
  "keeps (apart t E) (product_detail_patch st i v u r) (\<lambda>_. True)" "keeps (apart t E) (product_detail_delete i u r) (\<lambda>_. True)"
  "keeps (apart t E) (product_image_post st i f u r) (\<lambda>_. True)" "keeps (apart t E) (product_image_delete i u r) (\<lambda>_. True)"
proof -
  have guards: "keeps (apart t E) (patch_product_guards v p) (\<lambda>_. True)" for p
    unfolding patch_product_guards_def raise_errors_def by (intro tenant_intros) simp_all
  have patch: "keeps (apart t E) (patch_product i v) (\<lambda>_. True)"
    unfolding patch_product_def get_product_def by (intro tenant_intros guards) simp_all
  have upload: "keeps (apart t E) (upload_product_image st tn p f) (\<lambda>_. True)" for tn p f
    unfolding upload_product_image_def save_uploaded_file_def by (intro tenant_intros storage_own)
  have drop: "keeps (apart t E) (delete_product_image key) (\<lambda>_. True)" for key
    unfolding delete_product_image_def by (intro keeps_bind_any [OF storage_own(2)] tenant_intros) simp
  show "keeps (apart t E) (product_create_post st sku v u r) (\<lambda>_. True)"
    "keeps (apart t E) (product_detail_get st i u r) (\<lambda>_. True)"
    "keeps (apart t E) (product_detail_patch st i v u r) (\<lambda>_. True)"
    "keeps (apart t E) (product_detail_delete i u r) (\<lambda>_. True)"
    "keeps (apart t E) (product_image_post st i f u r) (\<lambda>_. True)"
    "keeps (apart t E) (product_image_delete i u r) (\<lambda>_. True)"
    unfolding product_create_post_def product_detail_get_def product_detail_patch_def product_detail_delete_def
      product_image_post_def product_image_delete_def get_product_def raise_errors_def
    by (intro tenant_intros keeps_bind_any [OF patch] keeps_bind_any [OF upload] drop; simp)+
qed

lemma customer_admin_own:
  "keeps (apart t E) (customer_create_post email v u r) (\<lambda>_. True)" "keeps (apart t E) (customer_detail_get i u r) (\<lambda>_. True)"
  "keeps (apart t E) (customer_detail_patch i v u r) (\<lambda>_. True)" "keeps (apart t E) (customer_detail_delete i u r) (\<lambda>_. True)"
  unfolding customer_create_post_def customer_detail_get_def customer_detail_patch_def customer_detail_delete_def
    get_customer_def
  by (intro tenant_intros; simp)+

lemma order_admin_own:
  "keeps (apart t E) (admin_order_detail_get i u r) (\<lambda>_. True)" "keeps (apart t E) (admin_order_payments_get i u r) (\<lambda>_. True)"
  "keeps (apart t E) (order_mark_paid_post i body u r) (\<lambda>_. True)"
proof -
  have answer: "keeps I (admin_order_response r od) (\<lambda>_. True)" for I od
    unfolding admin_order_response_def by (intro tenant_intros) simp_all
  have settle: "own orders_tbl t E od \<Longrightarrow> keeps (apart t E) (settle_invoice od p reference) (own orders_tbl t E)" for od p reference
    unfolding settle_invoice_def by (intro tenant_intros keeps_bind_any [OF mark_invoice_paid_own]) simp_all
  show "keeps (apart t E) (admin_order_detail_get i u r) (\<lambda>_. True)"
    "keeps (apart t E) (admin_order_payments_get i u r) (\<lambda>_. True)"
    "keeps (apart t E) (order_mark_paid_post i body u r) (\<lambda>_. True)"
    unfolding admin_order_detail_get_def admin_order_payments_get_def order_mark_paid_post_def admin_get_order_def
      latest_row_def
    by (intro tenant_intros answer keeps_bindE [OF settle]; simp)+
qed

lemma config_admin_own:
  "keeps (apart t E) (gateway_config_create q u r) (\<lambda>_. True)" "keeps (apart t E) (gateway_config_patch i q u r) (\<lambda>_. True)"
  "keeps (apart t E) (gateway_config_get i u r) (\<lambda>_. True)" "keeps (apart t E) (gateway_config_delete i u r) (\<lambda>_. True)"
proof -
  have clear: "keeps (apart t E) (clear_default_config other v) (\<lambda>_. True)" for other v
    unfolding clear_default_config_def by (intro tenant_intros) simp_all
  show "keeps (apart t E) (gateway_config_create q u r) (\<lambda>_. True)"
    "keeps (apart t E) (gateway_config_patch i q u r) (\<lambda>_. True)"
    "keeps (apart t E) (gateway_config_get i u r) (\<lambda>_. True)" "keeps (apart t E) (gateway_config_delete i u r) (\<lambda>_. True)"
    unfolding gateway_config_create_def gateway_config_patch_def gateway_config_get_def gateway_config_delete_def
      get_gateway_config_def
    by (intro tenant_intros clear keeps_bind_any; simp)+
qed

lemma admin_view_own: "keeps (apart t E) (admin_view s acall u r) (\<lambda>_. True)"
  by (cases acall)
    (simp_all add: keeps_of_preserves lists_keep product_views_own coupon_views_own customer_admin_own order_admin_own config_admin_own)


subsection \<open>A whole request\<close>

lemma preserves_apart_atomic: "preserves (apart t E) m \<Longrightarrow> preserves (apart t E) (atomic m)"
  by (rule preserves_of_keeps [OF keeps_atomic [OF keeps_of_preserves]])

lemma inner_request_apart:
  assumes "\<And>r. preserves (apart t E) (view r)"
  shows "preserves (apart t E) (convert_exception (tenant_db_session (\<lambda>r. convert_exception
    (customer_auth cfg (atomic_request view) r)) r))"
  unfolding tenant_db_session_def atomic_request_def
  by (intro convert_exception_preserves hoare_intros preserves_apart_atomic customer_auth_preserves dispatch_preserves assms)

lemma elsewhere_frame [simp]:
  "elsewhere t (w\<lparr>tenant_ctx := c\<rparr>) = elsewhere t w" "elsewhere t (w\<lparr>fresh_id := n\<rparr>) = elsewhere t w"
  by (simp_all add: elsewhere_def tables_def)

lemma tenant_context_apart:
  assumes "preserves (apart t (elsewhere t w)) m" and "schema w" and "tenant_context (Some t) m w = (res, w')"
  shows "elsewhere t w' = elsewhere t w"
proof -
  obtain r w1 where run: "m (w\<lparr>tenant_ctx := Some t\<rparr>) = (r, w1)" by fastforce
  have "apart t (elsewhere t w) (w\<lparr>tenant_ctx := Some t\<rparr>)" using assms(2) by (simp add: apart_def)
  then have "apart t (elsewhere t w) w1" using run by (rule preservesD [OF assms(1)])
  moreover have "w' = w1\<lparr>tenant_ctx := tenant_ctx w\<rparr>"
    using assms(3) run
    by (simp add: tenant_context_def bindE_def set_current_tenant_id_def finally_do_def reset_current_tenant_id_def)
  ultimately show ?thesis by (simp add: apart_def)
qed

lemma resolver_apart:
  assumes "\<not> is_exempt (rq_http r) GLOBAL_EXEMPT_PATHS" and "schema w" and "\<And>t r. preserves (apart t (elsewhere t w)) (h r)"
    and "tenant_resolver cfg h r w = (res, w')"
  shows "w' = w \<or> (\<exists>t \<in> set (db_tenants w). ten_is_active t \<and>
    tenant_subdomain cfg (req_host (rq_http r)) = Some (ten_subdomain t) \<and> elsewhere (ten_id t) w' = elsewhere (ten_id t) w)"
  using tenant_resolver_closed [OF assms(1), of w cfg h]
proof (elim disjE exE conjE)
  fix x
  assume x: "x \<in> set (db_tenants w)" "ten_is_active x" "tenant_subdomain cfg (req_host (rq_http r)) = Some (ten_subdomain x)"
    and "tenant_resolver cfg h r w = tenant_context (Some (ten_id x)) (h (r\<lparr>rq_tenant := Some x\<rparr>)) w"
  then have "tenant_context (Some (ten_id x)) (h (r\<lparr>rq_tenant := Some x\<rparr>)) w = (res, w')" using assms(4) by simp
  from tenant_context_apart [OF assms(3,2) this] x show ?thesis by blast
qed (use assms(4) in simp_all)

lemma served_resolver:
  "\<exists>rid n. snd (served cfg view r w) = snd (tenant_resolver cfg (\<lambda>r. convert_exception (tenant_db_session (\<lambda>r. convert_exception
     (customer_auth cfg (atomic_request view) r)) r)) (r\<lparr>rq_id := rid\<rparr>) (w\<lparr>fresh_id := n\<rparr>))"
proof -
  let ?t = "meta_get (req_meta (rq_http r)) ''HTTP_X_REQUEST_ID''"
  have same: "w\<lparr>fresh_id := fresh_id w\<rparr> = w" by simp
  show ?thesis
  proof (cases "?t = []")
    case True
    then show ?thesis
      by (intro exI [of _ "uuid_str (fresh_id w)"] exI [of _ "Suc (fresh_id w)"]) (simp add: served_def request_id_snd)
  next
    case False
    then show ?thesis
      by (intro exI [of _ ?t] exI [of _ "fresh_id w"]) (simp add: served_def request_id_snd)
  qed
qed

text \<open>
  A request to a view that keeps to its tenant: it is the tenant of the host, and all that is not his stays as it was,
  or no table changes at all.
\<close>

lemma request_apart:
  assumes "\<not> is_exempt (rq_http r) GLOBAL_EXEMPT_PATHS" and "schema w"
    and "\<And>t r. preserves (apart t (elsewhere t w)) (view r)" and "served cfg view r w = (res, w')"
  shows "tables w' = tables w \<or> (\<exists>t \<in> set (db_tenants w). ten_is_active t \<and>
    tenant_subdomain cfg (req_host (rq_http r)) = Some (ten_subdomain t) \<and> elsewhere (ten_id t) w' = elsewhere (ten_id t) w)"
proof -
  let ?h = "\<lambda>r. convert_exception (tenant_db_session (\<lambda>r. convert_exception (customer_auth cfg (atomic_request view) r)) r)"
  obtain rid n where w': "w' = snd (tenant_resolver cfg ?h (r\<lparr>rq_id := rid\<rparr>) (w\<lparr>fresh_id := n\<rparr>))"
    using served_resolver [of cfg view r w] assms(4) by auto
  have ex: "\<not> is_exempt (rq_http (r\<lparr>rq_id := rid\<rparr>)) GLOBAL_EXEMPT_PATHS" using assms(1) by simp
  have s: "schema (w\<lparr>fresh_id := n\<rparr>)" using assms(2) by simp
  have "preserves (apart t (elsewhere t (w\<lparr>fresh_id := n\<rparr>))) (?h r)" for t r
    by (simp add: inner_request_apart assms(3))
  from resolver_apart [where h = ?h and cfg = cfg, OF ex s this surjective_pairing, folded w']
  have "w' = w\<lparr>fresh_id := n\<rparr> \<or> (\<exists>t \<in> set (db_tenants w). ten_is_active t \<and>
      tenant_subdomain cfg (req_host (rq_http r)) = Some (ten_subdomain t) \<and> elsewhere (ten_id t) w' = elsewhere (ten_id t) w)"
    by simp
  moreover have "tables (w\<lparr>fresh_id := n\<rparr>) = tables w" by (simp add: tables_def)
  ultimately show ?thesis by auto
qed

text \<open>The slots of a cart name addresses and payment methods of its tenant.\<close>

definition slots_own :: "world \<Rightarrow> bool" where
  "slots_own w \<longleftrightarrow> (\<forall>c \<in> set (db_carts w).
     (\<forall>i. cart_shipping_address c = Some i \<or> cart_billing_address c = Some i \<longrightarrow>
       (\<exists>a \<in> set (db_addresses w). row_id a = i \<and> tenant_id a = tenant_id c)) \<and>
     (\<forall>i. cart_selected_payment_method c = Some i \<longrightarrow>
       (\<exists>m \<in> set (db_payment_methods w). row_id m = i \<and> tenant_id m = tenant_id c)))"

lemma slots_own_closed: "slots_own w \<Longrightarrow> slots_closed (elsewhere t w)"
  by (fastforce simp: slots_own_def slots_closed_def elsewhere_def)

lemma customer_view_apart:
  assumes "slots_closed E"
  shows "preserves (apart t E) (customer_view (shop_view s call) r)"
  unfolding customer_view_def by (intro hoare_intros preserves_of_keeps [OF shop_view_own] assms)

lemma admin_request_apart: "preserves (apart t E) (tenant_admin_view ttl key (admin_view s acall) r)"
  by (intro admin_views_preserve preserves_of_keeps [OF admin_view_own])

lemmas storefront_apart = request_apart [OF _ _ customer_view_apart [OF slots_own_closed]]
lemmas admin_apart = request_apart [OF _ _ admin_request_apart]

end
