(* ===== verification/Slots.thy ===== *)
theory Slots
  imports Isolation
begin

section \<open>What a cart may name\<close>

text \<open>
  The addresses and the payment method in the slots of a cart belong to the tenant of the cart, in every reachable
  state. All but a few operations leave the slots, the addresses and the methods as they are.
\<close>

subsection \<open>What most operations do not touch\<close>

type_synonym slot_view =
  "(uuid \<times> uuid \<times> uuid option \<times> uuid option \<times> uuid option) list \<times> (uuid \<times> uuid) list \<times> (uuid \<times> uuid) list"

definition slots :: "world \<Rightarrow> slot_view" where
  "slots w =
     (map (\<lambda>c. (row_id c, tenant_id c, cart_shipping_address c, cart_billing_address c, cart_selected_payment_method c)) (db_carts w),
      map (\<lambda>a. (row_id a, tenant_id a)) (db_addresses w), map (\<lambda>m. (row_id m, tenant_id m)) (db_payment_methods w))"

definition slots_are :: "slot_view \<Rightarrow> world \<Rightarrow> bool" where
  "slots_are S w \<longleftrightarrow> slots w = S"

lemma slots_frame [simp]:
  "slots_are S (w\<lparr>db_tenants := x0\<rparr>) = slots_are S w" "slots_are S (w\<lparr>db_users := x1\<rparr>) = slots_are S w"
  "slots_are S (w\<lparr>db_memberships := x2\<rparr>) = slots_are S w" "slots_are S (w\<lparr>db_tokens := x3\<rparr>) = slots_are S w"
  "slots_are S (w\<lparr>db_customers := x4\<rparr>) = slots_are S w" "slots_are S (w\<lparr>db_products := x5\<rparr>) = slots_are S w"
  "slots_are S (w\<lparr>db_coupons := x6\<rparr>) = slots_are S w" "slots_are S (w\<lparr>db_cart_items := x7\<rparr>) = slots_are S w"
  "slots_are S (w\<lparr>db_applied_coupons := x8\<rparr>) = slots_are S w" "slots_are S (w\<lparr>db_gateway_configs := x9\<rparr>) = slots_are S w"
  "slots_are S (w\<lparr>db_orders := x10\<rparr>) = slots_are S w" "slots_are S (w\<lparr>db_order_items := x11\<rparr>) = slots_are S w"
  "slots_are S (w\<lparr>db_reservations := x12\<rparr>) = slots_are S w" "slots_are S (w\<lparr>db_payments := x13\<rparr>) = slots_are S w"
  "slots_are S (w\<lparr>db_invoices := x14\<rparr>) = slots_are S w" "slots_are S (w\<lparr>db_webhook_events := x15\<rparr>) = slots_are S w"
  "slots_are S (w\<lparr>on_commit_hooks := x16\<rparr>) = slots_are S w" "slots_are S (w\<lparr>order_seq := x17\<rparr>) = slots_are S w"
  "slots_are S (w\<lparr>invoice_seq := x18\<rparr>) = slots_are S w" "slots_are S (w\<lparr>task_queue := x19\<rparr>) = slots_are S w"
  "slots_are S (w\<lparr>gateway_log := x20\<rparr>) = slots_are S w" "slots_are S (w\<lparr>stored_objects := x21\<rparr>) = slots_are S w"
  "slots_are S (w\<lparr>fresh_id := x22\<rparr>) = slots_are S w" "slots_are S (w\<lparr>clock := x23\<rparr>) = slots_are S w"
  "slots_are S (w\<lparr>tenant_ctx := x24\<rparr>) = slots_are S w" "slots_are S (w\<lparr>atomic_depth := x25\<rparr>) = slots_are S w"
  by (simp_all add: slots_are_def slots_def)

lemma slots_carts [simp]:
  assumes "\<And>c. (row_id (f c), tenant_id (f c), cart_shipping_address (f c), cart_billing_address (f c), cart_selected_payment_method (f c)) =
    (row_id c, tenant_id c, cart_shipping_address c, cart_billing_address c, cart_selected_payment_method c)"
  shows "slots_are S (w\<lparr>db_carts := upd_where P f (db_carts w)\<rparr>) = slots_are S w"
  using assms by (simp add: slots_are_def slots_def map_upd_where)

lemma slots_methods [simp]:
  assumes "\<And>m. (row_id (f m), tenant_id (f m)) = (row_id m, tenant_id m)"
  shows "slots_are S (w\<lparr>db_payment_methods := upd_where P f (db_payment_methods w)\<rparr>) = slots_are S w"
  using assms by (simp add: slots_are_def slots_def map_upd_where)

lemma slots_transaction [simp]:
  "slots_are S (enter_atomic w) = slots_are S w" "slots_are S (commit w0 w) = slots_are S w"
  "slots_are S (rollback w w1) = slots_are S w"
  by (simp_all add: slots_are_def slots_def enter_atomic_def commit_def rollback_def)

lemma slots_atomic: "preserves (slots_are S) m \<Longrightarrow> preserves (slots_are S) (atomic m)"
  by (rule preserves_atomic) simp_all

lemmas slot_intros = op_intros slots_atomic preserves_create_with_tenant preserves_modify

lemma slots_cart_ops:
  "preserves (slots_are S) (bump_and_return c)" "preserves (slots_are S) (get_cart customer)"
  "preserves (slots_are S) (remove_item customer item)" "preserves (slots_are S) (update_item_quantity customer item q)"
  "preserves (slots_are S) (apply_coupon customer code)" "preserves (slots_are S) (remove_coupon customer code)"
  "preserves (slots_are S) (preview_coupon customer code)"
  unfolding bump_and_return_def get_cart_def remove_item_def lock_active_cart_def clear_currency_if_empty_def
    update_item_quantity_def apply_coupon_def find_coupon_def validate_on_cart_def remove_coupon_def preview_coupon_def
  by (intro slot_intros; simp)+

lemma slots_numbers: "preserves (slots_are S) (next_order_number n)" "preserves (slots_are S) (next_invoice_number n)"
  by (simp_all add: preserves_def next_order_number_def next_invoice_number_def split: option.split)

lemma slots_saga:
  "preserves (slots_are S) (phase_lock customer expected)" "preserves (slots_are S) (revert_cart_to_active i)"
  "preserves (slots_are S) (phase_validate v)" "preserves (slots_are S) (reserve_stock cart items)"
  "preserves (slots_are S) (release_reservations rs)" "preserves (slots_are S) (commit_reservations rs)"
  "preserves (slots_are S) (reverse_committed_reservations rs)"
  "preserves (slots_are S) (cancel_order_row od)" "preserves (slots_are S) (convert_cart v)"
  "preserves (slots_are S) (link_reservation i r)" "preserves (slots_are S) (create_payment caller p)"
  "preserves (slots_are S) (gateway_call c g)" "preserves (slots_are S) (record_payment_error j m)"
  "preserves (slots_are S) (record_payment_result j txn st response)" "preserves (slots_are S) (resolve_gateway_config e name)"
  "preserves (slots_are S) (gateway_of_payment e p)" "preserves (slots_are S) (mark_invoice_paid j reference)"
  unfolding phase_lock_def lock_and_validate_cart_def revert_cart_to_active_def phase_validate_def or_compensate_def
    validate_preconditions_def check_coupon_def reserve_stock_def reserve_product_def release_reservations_def
    commit_reservations_def reverse_committed_reservations_def settle_if_def settle_def
    cancel_order_row_def save_order_status_def convert_cart_def link_reservation_def create_payment_def gateway_call_def
    record_payment_error_def record_payment_result_def resolve_gateway_config_def gateway_of_payment_def
    mark_invoice_paid_def get_payment_def Let_def
  by (intro slot_intros; simp)+

lemma slots_order:
  "preserves (slots_are S) (create_order v key)" "preserves (slots_are S) (compensate_order v rs od)"
  "preserves (slots_are S) (phase_order v rs key)" "preserves (slots_are S) (capture_payment e j)"
  "preserves (slots_are S) (mark_paid_and_commit od rs)" "preserves (slots_are S) (enqueue_post_payment_tasks od)"
  "preserves (slots_are S) (phase_convert v rs od)" "preserves (slots_are S) (cancel_order customer i)"
  unfolding create_order_def use_coupon_def create_order_item_def compensate_order_def phase_order_def or_compensate_def
    capture_payment_def get_payment_def mark_paid_and_commit_def save_order_status_def enqueue_post_payment_tasks_def
    phase_convert_def cancel_order_def Let_def
  by (intro slot_intros slots_saga slots_numbers; simp)+

lemma slots_payment:
  "preserves (slots_are S) (authorize_payment e od pm amount currency key m)"
  "preserves (slots_are S) (create_invoice_pending_payment od amount currency key)"
  "preserves (slots_are S) (phase_finish e odr rs p)"
  unfolding authorize_payment_def create_pending_payment_def call_authorize_def record_intent_def
    create_invoice_pending_payment_def phase_finish_def phase_capture_def Let_def
  by (intro slot_intros slots_saga slots_order; simp)+

lemma slots_checkout: "preserves (slots_are S) (checkout e customer key expected extra)"
  unfolding checkout_def find_existing_checkout_def run_saga_def prepare_order_def phase_reserve_def pay_order_step_def
    card_path_def purchase_order_path_def phase_authorize_def or_compensate_def Let_def
  by (intro slot_intros slots_saga slots_order slots_payment; simp)

lemma slots_tasks:
  "preserves (slots_are S) (process_webhook_event a)" "preserves (slots_are S) (reconcile_locked e i)"
  "preserves (slots_are S) (generate_invoice lay st t j)"
proof -
  have od: "preserves (slots_are S) (apply_order_paid od)" "preserves (slots_are S) (apply_order_cancelled od)" for od
    unfolding apply_order_paid_def apply_order_cancelled_def save_order_status_def commit_reservations_for_order_def
      release_reservations_for_order_def settle_def enqueue_invoice_on_commit_def revert_cart_if_checking_out_def
      revert_checking_out_def
    by (intro slot_intros; simp)+
  show "preserves (slots_are S) (process_webhook_event a)"
    unfolding process_webhook_event_def record_event_def mutate_for_event_def get_payment_def apply_event_def
      save_order_status_def
    by (intro slot_intros od) simp_all
  show "preserves (slots_are S) (reconcile_locked e i)"
    unfolding reconcile_locked_def first_pending_def reconcile_known_intent_def reconcile_unknown_intent_def
      apply_retrieved_def save_reconciled_def mark_order_paid_def mark_order_cancelled_and_release_def Let_def
    by (intro slot_intros od slots_saga) simp_all
  show "preserves (slots_are S) (generate_invoice lay st t j)"
    unfolding generate_invoice_def create_invoice_def upload_if_missing_def upload_invoice_pdf_def
      save_bytes_def Let_def
    by (intro slot_intros slots_numbers; simp)
qed


subsection \<open>The operations that fill and empty slots\<close>

lemma pair_in_table: "(\<exists>r \<in> set rs. row_id r = i \<and> tenant_id r = u) \<longleftrightarrow> (i, u) \<in> set (map (\<lambda>r. (row_id r, tenant_id r)) rs)"
  by force

lemma slots_own_view:
  "slots_own w \<longleftrightarrow> (\<forall>(r, u, sh, bi, pm) \<in> set (fst (slots w)).
     (\<forall>i. sh = Some i \<or> bi = Some i \<longrightarrow> (i, u) \<in> set (fst (snd (slots w)))) \<and>
     (\<forall>i. pm = Some i \<longrightarrow> (i, u) \<in> set (snd (snd (slots w)))))"
  unfolding slots_own_def pair_in_table by (simp add: slots_def)

lemma slots_own_slots: "slots w = slots w' \<Longrightarrow> slots_own w = slots_own w'"
  by (simp add: slots_own_view)

lemma slots_own_kept: "(\<And>S. preserves (slots_are S) m) \<Longrightarrow> preserves slots_own m"
proof (rule preservesI)
  fix w r w' assume keep: "\<And>S. preserves (slots_are S) m" and own: "slots_own w" and run: "m w = (r, w')"
  have "slots_are (slots w) w'" using keep _ run by (rule preservesD) (simp add: slots_are_def)
  then have "slots w' = slots w" by (simp add: slots_are_def)
  with own slots_own_slots show "slots_own w'" by blast
qed

lemma slots_own_tables: "tables w = tables w' \<Longrightarrow> slots_own w = slots_own w'"
proof (rule slots_own_slots)
  have eq: "slots (tables w) = slots w" for w by (simp add: slots_def tables_def)
  assume "tables w = tables w'"
  then show "slots w = slots w'" using eq [of w] eq [of w'] by simp
qed

lemma slots_own_atomic: "preserves slots_own m \<Longrightarrow> preserves slots_own (atomic m)"
  by (rule preserves_atomic) (auto simp: enter_atomic_def commit_def rollback_def slots_own_def)

lemma slots_own_more [simp]:
  "slots_own w \<Longrightarrow> as = db_addresses w \<Longrightarrow> slots_own (w\<lparr>db_addresses := as @ as'\<rparr>)"
  "slots_own w \<Longrightarrow> ms = db_payment_methods w \<Longrightarrow> slots_own (w\<lparr>db_payment_methods := ms @ ms'\<rparr>)"
  "slots_own (w\<lparr>fresh_id := n\<rparr>) = slots_own w"
  by (fastforce simp: slots_own_def)+

lemma add_item_slots: "preserves slots_own (add_item customer product q)"
proof -
  have make: "preserves slots_own (get_or_create_cart customer)"
    unfolding get_or_create_cart_def
    by (intro hoare_intros slots_own_atomic preserves_create) (auto simp: slots_own_def stamp_def new_cart_def)
  have bump: "preserves slots_own (bump_and_return c)" for c
    by (intro slots_own_kept slots_cart_ops)
  have lock: "preserves slots_own (lock_currency c p)" for c p
    unfolding lock_currency_def by (intro slots_own_kept slot_intros) simp_all
  have put: "preserves slots_own (put_item c p q i)" for c p i
    unfolding put_item_def by (intro slots_own_kept slot_intros) simp_all
  show ?thesis
    unfolding add_item_def Let_def by (intro slots_own_atomic hoare_intros make bump lock put)
qed

lemma clear_cart_slots: "preserves slots_own (clear_cart customer)"
proof -
  have "preserves slots_own (delete_rows cart_items_tbl P)" "preserves slots_own (delete_rows applied_coupons_tbl Q)" for P Q
    by (intro slots_own_kept slot_intros; simp)+
  moreover have "slots_own (w\<lparr>db_carts := upd_where P (\<lambda>r. r\<lparr>cart_shipping_address := None, cart_billing_address := None,
      cart_selected_payment_method := None, cart_currency := '''', cart_status := CartAbandoned, updated_at := n\<rparr>) (db_carts w)\<rparr>)"
    if "slots_own w" for w P n
    using that by (auto simp: slots_own_def set_upd_where)
  ultimately show ?thesis
    unfolding clear_cart_def by (intro slots_own_atomic hoare_intros preserves_save_fields) simp_all
qed

text \<open>A slot is filled with a row that was found in the scope of the cart.\<close>

lemma fill_slot:
  assumes I: "inv t {} w" and own: "slots_own w" and c: "c \<in> set (db_carts w)" "tenant_id c = t"
    and f: "\<And>x. tenant_id (f x) = tenant_id x"
    and slots: "\<And>x i. x \<in> set (db_carts w) \<Longrightarrow> row_id x = row_id c \<Longrightarrow>
        cart_shipping_address (f x) = Some i \<or> cart_billing_address (f x) = Some i \<Longrightarrow>
        cart_shipping_address x = Some i \<or> cart_billing_address x = Some i \<or>
          (\<exists>a \<in> set (db_addresses w). row_id a = i \<and> tenant_id a = t)"
      "\<And>x i. x \<in> set (db_carts w) \<Longrightarrow> row_id x = row_id c \<Longrightarrow> cart_selected_payment_method (f x) = Some i \<Longrightarrow>
        cart_selected_payment_method x = Some i \<or> (\<exists>m \<in> set (db_payment_methods w). row_id m = i \<and> tenant_id m = t)"
  shows "slots_own (w\<lparr>db_carts := upd_where (\<lambda>r. row_id r = row_id c) f (db_carts w)\<rparr>)"
proof -
  have "distinct (map row_id (db_carts w))" using schema_get(8) [OF inv_schema [OF I]] by (simp add: carts_ok)
  with c have same: "tenant_id x = t" if "x \<in> set (db_carts w)" "row_id x = row_id c" for x
    using that by (auto simp: distinct_map inj_on_def)
  show ?thesis
    unfolding slots_own_def
  proof (intro ballI)
    fix y assume "y \<in> set (db_carts (w\<lparr>db_carts := upd_where (\<lambda>r. row_id r = row_id c) f (db_carts w)\<rparr>))"
    then obtain x where x: "x \<in> set (db_carts w)" and y: "y = (if row_id x = row_id c then f x else x)"
      by (auto simp: set_upd_where)
    have old: "(\<forall>i. cart_shipping_address x = Some i \<or> cart_billing_address x = Some i \<longrightarrow>
        (\<exists>a \<in> set (db_addresses w). row_id a = i \<and> tenant_id a = tenant_id x)) \<and>
      (\<forall>i. cart_selected_payment_method x = Some i \<longrightarrow>
        (\<exists>m \<in> set (db_payment_methods w). row_id m = i \<and> tenant_id m = tenant_id x))"
      using own x unfolding slots_own_def by blast
    show "(\<forall>i. cart_shipping_address y = Some i \<or> cart_billing_address y = Some i \<longrightarrow>
        (\<exists>a \<in> set (db_addresses (w\<lparr>db_carts := upd_where (\<lambda>r. row_id r = row_id c) f (db_carts w)\<rparr>)).
          row_id a = i \<and> tenant_id a = tenant_id y)) \<and>
      (\<forall>i. cart_selected_payment_method y = Some i \<longrightarrow>
        (\<exists>m \<in> set (db_payment_methods (w\<lparr>db_carts := upd_where (\<lambda>r. row_id r = row_id c) f (db_carts w)\<rparr>)).
          row_id m = i \<and> tenant_id m = tenant_id y))"
    proof (cases "row_id x = row_id c")
      case True
      with same [OF x] old slots [OF x] f y show ?thesis by simp metis
    next
      case False
      with y old show ?thesis by simp
    qed
  qed
qed


text \<open>What the three operations have in common.\<close>

lemma fill_slot_run:
  fixes tb :: "'a scoped tbl"
  assumes I: "inv t {} w" and own: "slots_own w"
    and run: "atomic (bindE (lock_active_cart customer) (\<lambda>c. bindE (get_row tb P e) (\<lambda>a.
      bindE (save_fields carts_tbl (f (row_id a)) c) (\<lambda>c. bump_and_return c)))) w = (r, w')"
    and f: "\<And>i x. tenant_id (f i x) = tenant_id x"
    and slots: "\<And>a x i u. a \<in> set (tbl_rows tb u) \<Longrightarrow> tenant_id a = t \<Longrightarrow>
        cart_shipping_address (f (row_id a) x) = Some i \<or> cart_billing_address (f (row_id a) x) = Some i \<Longrightarrow>
        cart_shipping_address x = Some i \<or> cart_billing_address x = Some i \<or>
          (\<exists>a \<in> set (db_addresses u). row_id a = i \<and> tenant_id a = t)"
      "\<And>a x i u. a \<in> set (tbl_rows tb u) \<Longrightarrow> tenant_id a = t \<Longrightarrow> cart_selected_payment_method (f (row_id a) x) = Some i \<Longrightarrow>
        cart_selected_payment_method x = Some i \<or> (\<exists>m \<in> set (db_payment_methods u). row_id m = i \<and> tenant_id m = t)"
  shows "slots_own w'"
proof (cases r)
  case (Inl x)
  with run have "tables w' = tables w" by (auto dest: atomic_failed_tables)
  then show ?thesis using own slots_own_tables by blast
next
  case (Inr v)
  obtain c w1 a w2 c2 w3 w4 where c: "lock_active_cart customer (enter_atomic w) = (Inr c, w1)"
    and a: "get_row tb P e w1 = (Inr a, w2)" and s: "save_fields carts_tbl (f (row_id a)) c w2 = (Inr c2, w3)"
    and b: "bump_and_return c2 w3 = (Inr v, w4)" and w': "w' = commit w w4"
    using run unfolding Inr by (elim atomic_Inr_D bindE_Inr_D) (rule that)
  have w2: "w2 = enter_atomic w" using get_row_Inr(1) [OF c [unfolded lock_active_cart_def]] get_row_Inr(1) [OF a] by simp
  have I2: "inv t {} w2" and own2: "slots_own w2" using I own w2 slots_own_tables [of w "enter_atomic w"] by simp_all
  have ctx: "tenant_ctx w2 = Some t" by (rule inv_ctx [OF I2])
  have c': "c \<in> set (db_carts w2)" "tenant_id c = t"
    using get_row_Inr(2,4) [OF c [unfolded lock_active_cart_def]] w2 ctx by (simp_all add: in_scope_def)
  have a': "a \<in> set (tbl_rows tb w2)" "tenant_id a = t"
    using get_row_Inr(1,2,4) [OF a] ctx by (simp_all add: in_scope_def)
  have "slots_own w3"
    unfolding save_fields_Inr(2) [OF s] table_put
    using fill_slot [OF I2 own2 c', of "\<lambda>r. (f (row_id a) r)\<lparr>updated_at := clock w2\<rparr>"] f slots [OF a'] by simp
  then have "slots_own w4" using preservesD [OF slots_own_kept [OF slots_cart_ops(1)] _ b] by simp
  then show ?thesis using w' slots_own_tables [of w' w4] by simp
qed

lemma fill_slots:
  assumes "inv t {} w" and "slots_own w"
  shows "set_shipping_address customer address w = (r, w') \<Longrightarrow> slots_own w'"
    and "set_billing_address customer address w = (r, w') \<Longrightarrow> slots_own w'"
    and "set_payment_method customer method w = (r, w') \<Longrightarrow> slots_own w'"
proof -
  show "set_shipping_address customer address w = (r, w') \<Longrightarrow> slots_own w'"
    unfolding set_shipping_address_def
    by (erule fill_slot_run [where f = "\<lambda>i r. r\<lparr>cart_shipping_address := Some i\<rparr>", OF assms]) auto
  show "set_billing_address customer address w = (r, w') \<Longrightarrow> slots_own w'"
    unfolding set_billing_address_def
    by (erule fill_slot_run [where f = "\<lambda>i r. r\<lparr>cart_billing_address := Some i\<rparr>", OF assms]) auto
  show "set_payment_method customer method w = (r, w') \<Longrightarrow> slots_own w'"
    unfolding set_payment_method_def
    by (erule fill_slot_run [where f = "\<lambda>i r. r\<lparr>cart_selected_payment_method := Some i\<rparr>", OF assms]) auto
qed


lemma create_slots:
  "preserves slots_own (create addresses_tbl a)" "preserves slots_own (create payment_methods_tbl m)"
  by (intro preserves_create; simp)+

lemma get_address_Inr:
  assumes "get_address c cid i w = (Inr a, w')" and "tenant_ctx w = Some t"
  shows "w' = w" and "a \<in> set (db_addresses w)" and "tenant_id a = t"
proof -
  show "w' = w" using assms(1) unfolding get_address_def by (auto elim!: bindE_Inr_D)
  have "a \<in> set (objects addresses_tbl w)"
    using assms(1) unfolding get_address_def own_addresses_def one_or_raise_def
    by (auto elim!: bindE_Inr_D split: if_splits get_result.splits dest: get_where_OneRowD)
  then show "a \<in> set (db_addresses w)" and "tenant_id a = t" using assms(2) by (simp_all add: objects_def)
qed

lemma address_update_slots:
  assumes I: "inv t {} w" and own: "slots_own w" and run: "address_detail_update part cid i v c r w = (res, w')"
  shows "slots_own w'"
proof -
  obtain x w1 where g: "get_address c cid i w = (x, w1)" by fastforce
  show ?thesis
  proof (cases x)
    case (Inl e)
    have "w1 = w" using get_address_inv [of "\<lambda>s. s = w" c cid i] g by (auto dest: preservesD)
    with g Inl run own show ?thesis by (simp add: address_detail_update_def bindE_def)
  next
    case (Inr a)
    with g have "get_address c cid i w = (Inr a, w1)" by simp
    note a = get_address_Inr [OF this inv_ctx [OF I]]
    have d: "distinct (map row_id (db_addresses w))"
      using schema_get(5) [OF inv_schema [OF I]] by (simp add: addresses_tbl_def pk_ok_def)
    have same: "map (\<lambda>a. (row_id a, tenant_id a)) (upd_where (\<lambda>r. row_id r = row_id a) (\<lambda>_. y) (db_addresses w)) =
        map (\<lambda>a. (row_id a, tenant_id a)) (db_addresses w)"
      if "row_id y = row_id a" "tenant_id y = tenant_id a" for y
    proof -
      have "x = a" if "x \<in> set (db_addresses w)" "row_id x = row_id a" for x
        using that a(2) d by (auto simp: distinct_map inj_on_def)
      then show ?thesis using that by (auto simp: upd_where_def)
    qed
    have keep: "slots (w\<lparr>db_addresses := upd_where (\<lambda>r. row_id r = row_id a) (\<lambda>_. y) (db_addresses w)\<rparr>) = slots w"
      if "row_id y = row_id a" "tenant_id y = tenant_id a" for y
      using same [OF that] by (simp add: slots_def)
    have "slots w' = slots w"
      using run g Inr a(1)
      by (auto simp: address_detail_update_def bindE_def save_row_def save_fields_def update_where_def write_rows_def
          keep split: sum.splits if_splits)
    then show ?thesis using own slots_own_slots by blast
  qed
qed

text \<open>Deleting a row that slots name empties those slots first.\<close>

lemma empty_slots:
  assumes own: "slots_own w" and t: "\<And>x. tenant_id (f x) = tenant_id x"
    and a: "\<And>x i. cart_shipping_address (f x) = Some i \<or> cart_billing_address (f x) = Some i \<Longrightarrow>
      (cart_shipping_address x = Some i \<or> cart_billing_address x = Some i) \<and> A i"
    and m: "\<And>x i. cart_selected_payment_method (f x) = Some i \<Longrightarrow> cart_selected_payment_method x = Some i \<and> M i"
    and w': "db_carts w' = map f (db_carts w)" "db_addresses w' = filter (\<lambda>a. A (row_id a)) (db_addresses w)"
      "db_payment_methods w' = filter (\<lambda>m. M (row_id m)) (db_payment_methods w)"
  shows "slots_own w'"
  unfolding slots_own_def
proof (intro ballI conjI allI impI)
  fix y i assume "y \<in> set (db_carts w')"
  then obtain x where x: "x \<in> set (db_carts w)" "y = f x" using w'(1) by auto
  show "\<exists>a \<in> set (db_addresses w'). row_id a = i \<and> tenant_id a = tenant_id y"
    if "cart_shipping_address y = Some i \<or> cart_billing_address y = Some i"
    using own x that a [of x i] t unfolding slots_own_def w'(2) by fastforce
  show "\<exists>m \<in> set (db_payment_methods w'). row_id m = i \<and> tenant_id m = tenant_id y"
    if "cart_selected_payment_method y = Some i"
    using own x that m [of x i] t unfolding slots_own_def w'(3) by fastforce
qed

lemma address_delete_slots:
  assumes I: "inv t {} w" and own: "slots_own w" and run: "address_detail_delete cid i c r w = (res, w')"
  shows "slots_own w'"
proof -
  obtain x w1 where g: "get_address c cid i w = (x, w1)" by fastforce
  have w1: "w1 = w" using get_address_inv [of "\<lambda>s. s = w" c cid i] g by (auto dest: preservesD)
  show ?thesis
  proof (cases x)
    case (Inl e)
    with g w1 run own show ?thesis by (simp add: address_detail_delete_def bindE_def)
  next
    case (Inr a)
    let ?cs = "upd_where (\<lambda>x. cart_shipping_address x = Some (row_id a) \<or> cart_billing_address x = Some (row_id a))
        (clear_slots (row_id a)) (db_carts w)"
    have "w' = w \<or> w' = w\<lparr>db_carts := ?cs, db_addresses := filter (\<lambda>y. row_id y \<noteq> row_id a) (db_addresses w)\<rparr>"
      using run g w1 Inr
      by (auto simp: address_detail_delete_def bindE_def update_rows_all_def update_where_def write_rows_def delete_where_def
          split: sum.splits if_splits)
    moreover have "slots_own (w\<lparr>db_carts := ?cs, db_addresses := filter (\<lambda>y. row_id y \<noteq> row_id a) (db_addresses w)\<rparr>)"
      by (rule empty_slots [OF own, of "\<lambda>x. if cart_shipping_address x = Some (row_id a) \<or> cart_billing_address x = Some (row_id a)
          then clear_slots (row_id a) x else x" "\<lambda>i. i \<noteq> row_id a" "\<lambda>_. True"])
        (auto simp: upd_where_def clear_slots_def split: if_splits)
    ultimately show ?thesis using own by auto
  qed
qed

lemma method_delete_slots:
  assumes own: "slots_own w" and run: "payment_method_detail_delete cid mid c r w = (res, w')"
  shows "slots_own w'"
proof -
  have "w' = w \<or> (\<exists>i. w' = w\<lparr>db_carts := upd_where (\<lambda>x. cart_selected_payment_method x = Some i)
      (\<lambda>x. x\<lparr>cart_selected_payment_method := None\<rparr>) (db_carts w),
      db_payment_methods := filter (\<lambda>y. row_id y \<noteq> i) (db_payment_methods w)\<rparr>)"
    using run
    by (auto simp: payment_method_detail_delete_def own_account_def guard_that_def seqE_def bindE_def get_row_def
        update_rows_all_def update_where_def write_rows_def delete_where_def split: sum.splits if_splits)
  moreover have "slots_own (w\<lparr>db_carts := upd_where (\<lambda>x. cart_selected_payment_method x = Some i)
      (\<lambda>x. x\<lparr>cart_selected_payment_method := None\<rparr>) (db_carts w),
      db_payment_methods := filter (\<lambda>y. row_id y \<noteq> i) (db_payment_methods w)\<rparr>)" for i
    by (rule empty_slots [OF own, of "\<lambda>x. if cart_selected_payment_method x = Some i
        then x\<lparr>cart_selected_payment_method := None\<rparr> else x" "\<lambda>_. True" "\<lambda>j. j \<noteq> i"])
      (auto simp: upd_where_def split: if_splits)
  ultimately show ?thesis using own by auto
qed


subsection \<open>Every step\<close>

definition ties :: "uuid \<Rightarrow> world \<Rightarrow> bool" where
  "ties t w \<longleftrightarrow> inv t {} w \<and> slots_own w"

lemma tiesI: "preserves (inv t {}) m \<Longrightarrow> preserves slots_own m \<Longrightarrow> preserves (ties t) m"
  using preserves_conj [of "inv t {}" m slots_own] by (simp add: ties_def [abs_def])

lemma ties_kept: "preserves (inv t {}) m \<Longrightarrow> (\<And>S. preserves (slots_are S) m) \<Longrightarrow> preserves (ties t) m"
  by (intro tiesI slots_own_kept)

lemma ties_cart:
  "preserves (ties t) (get_cart customer)" "preserves (ties t) (add_item customer product q)"
  "preserves (ties t) (remove_item customer item)" "preserves (ties t) (update_item_quantity customer item q)"
  "preserves (ties t) (clear_cart customer)" "preserves (ties t) (apply_coupon customer code)"
  "preserves (ties t) (remove_coupon customer code)" "preserves (ties t) (preview_coupon customer code)"
  "preserves (ties t) (checkout e customer key expected extra)" "preserves (ties t) (cancel_order customer i)"
  by (intro ties_kept tiesI get_cart_inv add_item_inv remove_item_inv update_item_quantity_inv clear_cart_inv
      apply_coupon_inv remove_coupon_inv preview_coupon_inv checkout_inv cancel_order_inv slots_cart_ops slots_order
      slots_checkout add_item_slots clear_cart_slots)+

lemma ties_slots:
  "preserves (ties t) (set_shipping_address customer address)" "preserves (ties t) (set_billing_address customer address)"
  "preserves (ties t) (set_payment_method customer method)"
  by (rule preservesI; auto simp: ties_def intro: preservesD [OF set_slots_inv(1)] preservesD [OF set_slots_inv(2)]
      preservesD [OF set_slots_inv(3)] fill_slots)+

lemma ties_views:
  "preserves (ties t) (cart_detail_get c r)" "preserves (ties t) (cart_detail_delete c r)"
  "preserves (ties t) (cart_items_post cfg body c r)" "preserves (ties t) (cart_item_detail_patch item body c r)"
  "preserves (ties t) (cart_item_detail_delete item c r)" "preserves (ties t) (cart_coupons_post body c r)"
  "preserves (ties t) (cart_coupon_detail_delete code c r)" "preserves (ties t) (cart_coupon_preview_post body c r)"
  "preserves (ties t) (cart_shipping_address_put cfg body c r)"
  "preserves (ties t) (cart_billing_address_put cfg body c r)"
  "preserves (ties t) (cart_payment_method_put cfg body c r)" "preserves (ties t) (cart_checkout_post e body c r)"
  "preserves (ties t) (order_cancel_post i c r)" "preserves (ties t) (order_invoice_get i c r)"
  "preserves (ties t) (order_detail_get i c r)"
  unfolding cart_detail_get_def cart_detail_delete_def cart_items_post_def cart_item_detail_patch_def
    cart_item_detail_delete_def cart_coupons_post_def cart_coupon_detail_delete_def cart_coupon_preview_post_def
    cart_shipping_address_put_def cart_billing_address_put_def cart_payment_method_put_def
    cart_checkout_post_def order_cancel_post_def order_invoice_get_def order_detail_get_def cart_answer_def Let_def
  by (intro hoare_intros ties_cart ties_slots)+

lemma ties_account:
  "preserves (ties t) (address_list_get cfg q cid c r)" "preserves (ties t) (address_list_post cid v c r)"
  "preserves (ties t) (address_detail_get cid i c r)" "preserves (ties t) (address_detail_update part cid i v c r)"
  "preserves (ties t) (address_detail_delete cid i c r)"
  "preserves (ties t) (payment_method_default_put cid mid c r)" "preserves (ties t) (payment_method_detail_get cid mid c r)"
  "preserves (ties t) (payment_method_detail_delete cid mid c r)" "preserves (ties t) (payment_method_create e cid req c r)"
  "preserves (ties t) (public_gateway_detail_get e name r)"
proof -
  show "preserves (ties t) (address_list_get cfg q cid c r)" "preserves (ties t) (address_detail_get cid i c r)"
    unfolding address_list_get_def address_detail_get_def by (intro hoare_intros get_address_inv)+
  have "preserves slots_own (address_list_post cid v c r)"
    unfolding address_list_post_def by (intro hoare_intros create_slots)
  then show "preserves (ties t) (address_list_post cid v c r)" by (intro tiesI customer_views_inv)
  show "preserves (ties t) (address_detail_update part cid i v c r)" "preserves (ties t) (address_detail_delete cid i c r)"
    "preserves (ties t) (payment_method_detail_delete cid mid c r)"
    by (rule preservesI; auto simp: ties_def intro: preservesD [OF customer_views_inv(4)] preservesD [OF customer_views_inv(5)]
        preservesD [OF payment_views_inv(3)] address_update_slots address_delete_slots method_delete_slots)+
  have "preserves (slots_are S) (payment_method_default_put cid mid c r)" "preserves (slots_are S) (payment_method_detail_get cid mid c r)"
    "preserves (slots_are S) (public_gateway_detail_get e name r)" for S
    unfolding payment_method_default_put_def make_default_def payment_method_detail_get_def public_gateway_detail_get_def
      own_account_def method_response_def Let_def
    by (intro slot_intros; simp)+
  then show "preserves (ties t) (payment_method_default_put cid mid c r)" "preserves (ties t) (payment_method_detail_get cid mid c r)"
    "preserves (ties t) (public_gateway_detail_get e name r)"
    by (intro ties_kept payment_views_inv; simp)+
  have clear: "preserves slots_own (update_rows payment_methods_tbl P (\<lambda>x. x\<lparr>pm_is_default := False\<rparr>))" for P
    by (intro slots_own_kept slot_intros) simp
  have "preserves slots_own (payment_method_create e cid req c r)"
    unfolding payment_method_create_def own_account_def store_method_def tokenized_card_def method_response_def
    by (intro hoare_intros slots_own_atomic create_slots clear slots_own_kept [OF slots_saga(15)]
        slots_own_kept [OF slots_saga(12)] preserves_case_method)
  then show "preserves (ties t) (payment_method_create e cid req c r)" by (intro tiesI payment_views_inv)
qed

lemma shop_view_ties: "preserves (ties t) (shop_view s call c r)"
proof (cases call)
  case (ProductGet i)
  then show ?thesis by (auto simp: storefront_product_get_def intro!: hoare_intros)
qed (simp_all add: ties_views ties_account lists_keep)


lemma slots_admin: "preserves (slots_are S) (admin_view s acall u r)"
proof -
  have code: "preserves (slots_are S) (create_coupon ci)" "preserves (slots_are S) (patch_coupon i ci)"
    "preserves (slots_are S) (delete_coupon i)" "preserves (slots_are S) (get_coupon i)" for ci i
    unfolding create_coupon_def validate_code_def patch_coupon_def get_coupon_def delete_coupon_def Let_def
    by (intro slot_intros preserves_attempt preserves_patch_coupon_guards; simp)+
  have image: "preserves (slots_are S) (delete_object store key)" "preserves (slots_are S) (save_bytes st store key f ct)"
    for store key st f ct
    unfolding delete_object_def save_bytes_def Let_def by (intro slot_intros; simp)+
  have "preserves (slots_are S) (product_create_post st sku v u r)" "preserves (slots_are S) (product_detail_get st i u r)"
    "preserves (slots_are S) (product_detail_patch st i v u r)" "preserves (slots_are S) (product_detail_delete i u r)"
    "preserves (slots_are S) (product_image_post st i fl u r)" "preserves (slots_are S) (product_image_delete i u r)"
    for st sku v i fl
    unfolding product_create_post_def product_detail_get_def product_detail_patch_def product_detail_delete_def
      product_image_post_def product_image_delete_def get_product_def patch_product_def patch_product_guards_def
      raise_errors_def upload_product_image_def save_uploaded_file_def delete_product_image_def
    by (intro slot_intros image; simp)+
  moreover have "preserves (slots_are S) (coupon_create_post ci u r)" "preserves (slots_are S) (coupon_detail_get i u r)"
    "preserves (slots_are S) (coupon_detail_patch i ci u r)" "preserves (slots_are S) (coupon_detail_delete i u r)" for ci i
    unfolding coupon_create_post_def coupon_detail_get_def coupon_detail_patch_def coupon_detail_delete_def
    by (intro hoare_intros code)+
  moreover have "preserves (slots_are S) (customer_create_post m v u r)" "preserves (slots_are S) (customer_detail_get i u r)"
    "preserves (slots_are S) (customer_detail_patch i v u r)" "preserves (slots_are S) (customer_detail_delete i u r)" for m v i
    unfolding customer_create_post_def customer_detail_get_def customer_detail_patch_def customer_detail_delete_def
      get_customer_def
    by (intro slot_intros; simp)+
  moreover have "preserves (slots_are S) (admin_order_detail_get i u r)" "preserves (slots_are S) (admin_order_payments_get i u r)"
    "preserves (slots_are S) (order_mark_paid_post i body u r)" for i body
    unfolding admin_order_detail_get_def admin_order_payments_get_def order_mark_paid_post_def admin_get_order_def
      admin_order_response_def settle_invoice_def
    by (intro slot_intros slots_saga; simp)+
  moreover have "preserves (slots_are S) (gateway_config_create q u r)" "preserves (slots_are S) (gateway_config_get i u r)"
    "preserves (slots_are S) (gateway_config_patch i q u r)" "preserves (slots_are S) (gateway_config_delete i u r)" for q i
    unfolding gateway_config_create_def gateway_config_get_def gateway_config_patch_def gateway_config_delete_def
      get_gateway_config_def clear_default_config_def
    by (intro slot_intros; simp)+
  ultimately show ?thesis by (cases acall) (simp_all add: lists_keep)
qed

lemma slots_context: "preserves (slots_are S) m \<Longrightarrow> preserves (slots_are S) (tenant_context t m)"
  unfolding tenant_context_def
  by (intro preserves_bindE preserves_finally_do)
    (simp_all add: preserves_def set_current_tenant_id_def reset_current_tenant_id_def)

lemma slots_reconcile: "preserves (slots_are S) (reconcile_pending_payments e m)"
proof -
  have one: "preserves (slots_are S) (reconcile_one e i)" for i
    unfolding reconcile_one_def first_pending_def by (intro hoare_intros slots_context slots_tasks)
  have "preserves (slots_are S) (reconcile_all e is x)" for "is" x
    by (induction "is" arbitrary: x) (auto intro!: hoare_intros one)
  then show ?thesis unfolding reconcile_pending_payments_def by (intro hoare_intros)
qed

lemma slots_platform: "preserves (slots_are S) (platform_view s pcall key r)"
proof -
  have "preserves (slots_are S) (login_post ttl new_key email password r)" "preserves (slots_are S) (logout_post u r)"
    "preserves (slots_are S) (me_get u r)" "preserves (slots_are S) (membership_create_post tid req u r)"
    "preserves (slots_are S) (membership_delete i u r)" "preserves (slots_are S) (tenant_create_post cfg v u r)"
    "preserves (slots_are S) (tenant_detail_patch i p u r)" for ttl new_key email password tid req i cfg v p u
    unfolding login_post_def rotate_token_def logout_post_def me_get_def membership_create_post_def membership_delete_def
      tenant_create_post_def tenant_detail_patch_def find_or_create_user_def create_user_def set_membership_def
      create_per_tenant_sequences_def tenant_response_def get_tenant_def Let_def
    by (intro slot_intros; simp)+
  moreover have "preserves (slots_are S) (reconcile_post e raw u r)" for e raw u
    unfolding reconcile_post_def reconcile_trigger_view_def
    by (auto intro!: hoare_intros slots_reconcile split: option.splits)
  moreover have "preserves (slots_are S) (platform_customer_list_get cfg q u r)" for cfg q u
    unfolding platform_customer_list_get_def by (intro hoare_intros)
  ultimately show ?thesis by (cases pcall) (auto intro!: admin_views_preserve tenant_lists_keep)
qed


lemma slots_served:
  assumes "\<And>r. preserves (slots_are S) (view r)"
  shows "preserves (slots_are S) (served cfg view r)"
  unfolding served_def tenant_resolver_def tenant_db_session_def atomic_request_def
  by (intro request_id_preserves convert_exception_preserves hoare_intros slots_context slots_atomic
      customer_auth_preserves dispatch_preserves assms) simp_all

lemma request_slots:
  assumes "\<not> is_exempt (rq_http r) GLOBAL_EXEMPT_PATHS" and "idle w" and "slots_own w"
    and view: "\<And>t r. preserves (ties t) (view r)" and run: "served cfg view r w = (res, w')"
  shows "slots_own w'"
proof -
  let ?h = "\<lambda>r. convert_exception (tenant_db_session (\<lambda>r. convert_exception (customer_auth cfg (atomic_request view) r)) r)"
  obtain rid n where w': "w' = snd (tenant_resolver cfg ?h (r\<lparr>rq_id := rid\<rparr>) (w\<lparr>fresh_id := n\<rparr>))"
    using served_resolver [of cfg view r w] run by auto
  let ?r = "r\<lparr>rq_id := rid\<rparr>" and ?w = "w\<lparr>fresh_id := n\<rparr>"
  have ties_atomic: "preserves (ties t) (atomic m)" if "preserves (ties t) m" for t and m :: "http_response act"
    using that
    by (intro preserves_atomic)
      (auto simp: ties_def inv_rollback inv_ctx slots_own_tables [of "rollback _ _"] slots_own_tables [of "commit _ _"]
        slots_own_tables [of "enter_atomic _"])
  have h: "preserves (ties t) (?h r)" for t r
    unfolding tenant_db_session_def atomic_request_def
    by (intro convert_exception_preserves hoare_intros ties_atomic customer_auth_preserves dispatch_preserves view)
  have "slots_own ?w" using assms(3) by simp
  moreover have "slots_own (snd (tenant_context (Some t) (?h q) ?w))" for t q
  proof -
    obtain x w1 where m: "?h q (?w\<lparr>tenant_ctx := Some t\<rparr>) = (x, w1)" by fastforce
    have "ties t (?w\<lparr>tenant_ctx := Some t\<rparr>)"
      using assms(2,3) by (simp add: ties_def inv_sound idle_def sound_def ledger_def slots_own_def)
    with h have "ties t w1" using m by (rule preservesD)
    then have "slots_own w1" by (simp add: ties_def)
    then show ?thesis
      using m by (simp add: tenant_context_def bindE_def set_current_tenant_id_def finally_do_def reset_current_tenant_id_def
          slots_own_def)
  qed
  ultimately show ?thesis
    using tenant_resolver_closed [of ?r ?w cfg ?h] assms(1) unfolding w' by auto
qed

theorem step_slots: "step s w w' \<Longrightarrow> idle w \<Longrightarrow> slots_own w \<Longrightarrow> slots_own w'"
proof (induction rule: step.induct)
  case (shop req call w res w')
  have "preserves (ties t) (customer_view (shop_view s call) r)" for t r
    unfolding customer_view_def by (intro hoare_intros shop_view_ties)
  from request_slots [OF _ shop.prems this shop.hyps(2) [unfolded storefront_def]] shop.hyps(1)
  show ?case by (simp add: fresh_request_def)
next
  case (admin req acall w res w')
  have "preserves (ties t) (tenant_admin_view (site_ttl s) (site_token s req) (admin_view s acall) r)" for t r
    by (intro admin_views_preserve ties_kept admin_view_inv slots_admin)
  from request_slots [OF _ admin.prems this admin.hyps(2)] admin.hyps(1) show ?case by (simp add: fresh_request_def)
next
  case (platform req pcall w res w')
  have "preserves slots_own (served (site_settings s) (platform_view s pcall (site_token s req)) (fresh_request req))"
    by (intro slots_own_kept slots_served slots_platform)
  then show ?case using platform.prems(2) platform.hyps(2) by (rule preservesD)
next
  case (webhook req name w res w')
  have "preserves (slots_are S) (webhook_view (site_env s) name r)" for S r
    unfolding webhook_view_def payment_webhook_view_def webhook_credentials_def by (intro slot_intros) simp_all
  then have "preserves slots_own (served (site_settings s) (webhook_view (site_env s) name) (fresh_request req))"
    by (intro slots_own_kept slots_served)
  then show ?case using webhook.prems(2) webhook.hyps(2) by (rule preservesD)
next
  case (worker tk w q r w')
  have "preserves (slots_are S) (run_task s tk)" for S
    by (auto simp: run_task_def tenant_aware_task_def
        intro!: slots_context slots_tasks hoare_intros slots_reconcile split: task.splits)
  then have "preserves slots_own (run_task s tk)" by (rule slots_own_kept)
  moreover have "slots_own (w\<lparr>task_queue := q\<rparr>)" using worker.prems(2) by (simp add: slots_own_def)
  ultimately show ?case using worker.hyps(3) by (rule preservesD)
next
  case (release w n w')
  have "preserves (slots_are S) (expire_one res)" for S res
    unfolding expire_one_def settle_unscoped_def revert_checking_out_def by (intro slot_intros) simp_all
  then have "preserves (slots_are S) (expire_batch now)" for S now
    unfolding expire_batch_def by (intro hoare_intros slots_atomic)
  then have "preserves slots_own (expire_batch now)" for now by (rule slots_own_kept)
  from expire_loop_keeps [OF this release.hyps [unfolded release_expired_reservations_def] release.prems(2)]
  show ?case by simp
next
  case (abandon w n w')
  have "preserves slots_own (abandon_stale_carts 30)"
    unfolding abandon_stale_carts_def by (intro slots_own_kept slot_intros) simp
  then show ?case using abandon.prems(2) abandon.hyps by (rule preservesD)
next
  case (reconcile w n w')
  show ?case by (rule preservesD [OF slots_own_kept [OF slots_reconcile] reconcile.prems(2) reconcile.hyps])
next
  case (clock w now)
  then show ?case by (simp add: slots_own_def)
qed

lemma steps_slots: "(step s)\<^sup>*\<^sup>* w w' \<Longrightarrow> idle w \<Longrightarrow> slots_own w \<Longrightarrow> slots_own w'"
proof (induction rule: rtranclp_induct)
  case (step y z)
  then have "idle y" using steps_idle by blast
  with step show ?case using step_slots by blast
qed simp

lemma reachable_slots: "reachable s w \<Longrightarrow> slots_own w"
proof (induction rule: reachable.induct)
  case (start us now)
  show ?case by (simp add: slots_own_def start_world_def empty_world_def)
next
  case (step w w')
  then show ?case using step_slots reachable_idle by blast
qed

end
