(* ===== verification/Urls.thy ===== *)
theory Urls
  imports Errors
begin

section \<open>URL patterns\<close>

text \<open>
  The routes of the framework as the URL tables of \<^verbatim>\<open>config/urls.py\<close> and \<^verbatim>\<open>apps/*/urls*.py\<close> use them: a
  route is a sequence of texts and of converters for an identifier or a text without a slash, a table lists
  routes and includes of other tables under a prefix, and the first route that fits a path gives the view and
  the arguments. The converter for text takes all it can; in the tables it stands at the end of a route, where
  this is what the regular expression of the framework does.
\<close>

subsection \<open>Identifiers in paths\<close>

definition is_hex :: "char \<Rightarrow> bool" where
  "is_hex c \<longleftrightarrow> is_digit c \<or> (97 \<le> (of_char c :: nat) \<and> (of_char c :: nat) \<le> 102)"

definition hex_value :: "char \<Rightarrow> nat" where
  "hex_value c = (if is_digit c then of_char c - 48 else of_char c - 87)"

definition read_hex :: "string \<Rightarrow> nat" where
  "read_hex = foldl (\<lambda>a c. 16 * a + hex_value c) 0"

definition uuid_hex :: "string \<Rightarrow> string" where
  "uuid_hex t = take 8 t @ take 4 (drop 9 t) @ take 4 (drop 14 t) @ take 4 (drop 19 t) @ drop 24 t"

definition uuid_shape :: "string \<Rightarrow> bool" where
  "uuid_shape t \<longleftrightarrow>
     length t = 36 \<and> take 1 (drop 8 t) = ''-'' \<and> take 1 (drop 13 t) = ''-'' \<and> take 1 (drop 18 t) = ''-'' \<and>
     take 1 (drop 23 t) = ''-'' \<and> list_all is_hex (uuid_hex t)"

definition read_uuid :: "string \<Rightarrow> uuid option" where
  "read_uuid t = (if uuid_shape t then Some (read_hex (uuid_hex t)) else None)"

subsection \<open>Routes\<close>

datatype piece = Lit string | UuidArg | StrArg

datatype arg = U uuid | S string

datatype 'v pattern = Path "piece list" 'v | Include "piece list" "'v pattern list"

fun match_pieces :: "piece list \<Rightarrow> string \<Rightarrow> (arg list \<times> string) option" where
  "match_pieces [] s = Some ([], s)"
| "match_pieces (Lit l # ps) s = (if startswith s l then match_pieces ps (drop (length l) s) else None)"
| "match_pieces (UuidArg # ps) s =
     (case read_uuid (take 36 s) of
        None \<Rightarrow> None
      | Some u \<Rightarrow> map_option (\<lambda>(as, rest). (U u # as, rest)) (match_pieces ps (drop 36 s)))"
| "match_pieces (StrArg # ps) s =
     (let v = takeWhile (\<lambda>c. c \<noteq> CHR ''/'') s in
      if v = [] then None
      else map_option (\<lambda>(as, rest). (S v # as, rest)) (match_pieces ps (drop (length v) s)))"

fun resolve :: "'v pattern list \<Rightarrow> string \<Rightarrow> ('v \<times> arg list) option" where
  "resolve [] s = None"
| "resolve (Path ps v # us) s =
     (case match_pieces ps s of
        Some (as, []) \<Rightarrow> Some (v, as)
      | _ \<Rightarrow> resolve us s)"
| "resolve (Include ps qs # us) s =
     (case match_pieces ps s of
        None \<Rightarrow> resolve us s
      | Some (as, rest) \<Rightarrow>
          (case resolve qs rest of
             Some (v, bs) \<Rightarrow> Some (v, as @ bs)
           | None \<Rightarrow> resolve us s))"

text \<open>The path of a route with given arguments.\<close>

fun build :: "piece list \<Rightarrow> arg list \<Rightarrow> string option" where
  "build [] [] = Some []"
| "build (Lit l # ps) as = map_option (\<lambda>s. l @ s) (build ps as)"
| "build (UuidArg # ps) (U u # as) =
     (if u < 16 ^ 32 then map_option (\<lambda>s. uuid_str u @ s) (build ps as) else None)"
| "build (StrArg # ps) (S v # as) =
     (if v \<noteq> [] \<and> CHR ''/'' \<notin> set v then map_option (\<lambda>s. v @ s) (build ps as) else None)"
| "build _ _ = None"

fun routes :: "'v pattern list \<Rightarrow> (piece list \<times> 'v) list" where
  "routes [] = []"
| "routes (Path ps v # us) = (ps, v) # routes us"
| "routes (Include ps qs # us) = map (\<lambda>(r, v). (ps @ r, v)) (routes qs) @ routes us"

subsection \<open>Identifiers round trip\<close>

lemma is_hex_digit: "n < 16 \<Longrightarrow> is_hex (hex_digit n)"
  by (auto simp: is_hex_def hex_digit_def is_digit_def)

lemma hex_value_digit: "n < 16 \<Longrightarrow> hex_value (hex_digit n) = n"
  by (auto simp: hex_value_def hex_digit_def is_digit_def)

lemma hex_digit_value: "is_hex c \<Longrightarrow> hex_digit (hex_value c) = c"
  by (auto simp: is_hex_def hex_value_def hex_digit_def is_digit_def)

lemma hex_value_less: "is_hex c \<Longrightarrow> hex_value c < 16"
  by (auto simp: is_hex_def hex_value_def is_digit_def)

lemma read_hex_snoc: "read_hex (ds @ [d]) = 16 * read_hex ds + hex_value d"
  by (simp add: read_hex_def)

lemma read_hex_digits: "read_hex (hex_digits k n) = n mod 16 ^ k"
proof (induction k arbitrary: n)
  case 0
  then show ?case by (simp add: read_hex_def)
next
  case (Suc k)
  have "n mod 16 ^ Suc k = 16 * ((n div 16) mod 16 ^ k) + n mod 16"
    by (metis mod_mult2_eq power_Suc)
  then show ?case using Suc by (simp add: read_hex_snoc hex_value_digit)
qed

lemma hex_digits_hex: "list_all is_hex (hex_digits k n)"
  by (induction k arbitrary: n) (simp_all add: is_hex_digit)

lemma hex_digits_read: "list_all is_hex ds \<Longrightarrow> hex_digits (length ds) (read_hex ds) = ds"
proof (induction ds rule: rev_induct)
  case (snoc d ds)
  then have d: "hex_value d < 16" "hex_digit (hex_value d) = d" by (simp_all add: hex_value_less hex_digit_value)
  then show ?case using snoc by (simp add: read_hex_snoc)
qed simp

lemma read_hex_less: "list_all is_hex ds \<Longrightarrow> read_hex ds < 16 ^ length ds"
proof (induction ds rule: rev_induct)
  case (snoc d ds)
  then show ?case using hex_value_less [of d] by (simp add: read_hex_snoc)
qed (simp add: read_hex_def)

lemma next_cut: "k = m + n \<Longrightarrow> take n (drop m s) @ drop k s = drop m s"
  using append_take_drop_id [of n "drop m s"] by (simp add: add.commute)

lemma cut_eq: "take 8 h @ take 4 (drop 8 h) @ take 4 (drop 12 h) @ take 4 (drop 16 h) @ drop 20 h = h"
  by (simp add: next_cut)

lemma uuid_str_parts:
  assumes "h = hex_digits 32 u"
  shows "length (uuid_str u) = 36" and "uuid_hex (uuid_str u) = h" and "uuid_shape (uuid_str u)"
proof -
  have l: "length h = 32" using assms by simp
  then obtain a b c d e where h: "h = a @ b @ c @ d @ e"
    and len: "length a = 8" "length b = 4" "length c = 4" "length d = 4" "length e = 12"
    by (intro that [of "take 8 h" "take 4 (drop 8 h)" "take 4 (drop 12 h)" "take 4 (drop 16 h)" "drop 20 h"])
      (simp_all add: cut_eq)
  have s: "uuid_str u = a @ ''-'' @ b @ ''-'' @ c @ ''-'' @ d @ ''-'' @ e"
    using h len by (simp add: uuid_str_def Let_def flip: assms)
  show "length (uuid_str u) = 36" by (simp add: s len)
  show hx: "uuid_hex (uuid_str u) = h" by (simp add: s len uuid_hex_def h)
  have "list_all is_hex h" unfolding assms by (rule hex_digits_hex)
  then show "uuid_shape (uuid_str u)" unfolding uuid_shape_def hx by (simp add: s len)
qed

lemma read_uuid_str: "u < 16 ^ 32 \<Longrightarrow> read_uuid (uuid_str u) = Some u"
  using uuid_str_parts [OF refl, of u] by (simp add: read_uuid_def read_hex_digits del: power_numeral)

lemma read_uuid_Some:
  assumes "read_uuid t = Some u"
  shows "uuid_str u = t" and "u < 16 ^ 32" and "length t = 36"
proof -
  have sh: "uuid_shape t" and u: "u = read_hex (uuid_hex t)"
    using assms by (auto simp: read_uuid_def split: if_splits)
  have lt: "length t = 36" using sh by (simp add: uuid_shape_def)
  then have lh: "length (uuid_hex t) = 32" by (simp add: uuid_hex_def)
  have hex: "list_all is_hex (uuid_hex t)" using sh by (simp add: uuid_shape_def)
  have h: "hex_digits 32 u = uuid_hex t" using hex_digits_read [OF hex] by (simp add: lh u)
  show "u < 16 ^ 32" using read_hex_less [OF hex] by (simp add: lh u)
  show "length t = 36" by (rule lt)
  have cut: "t = take 8 t @ take 1 (drop 8 t) @ take 4 (drop 9 t) @ take 1 (drop 13 t) @ take 4 (drop 14 t) @
      take 1 (drop 18 t) @ take 4 (drop 19 t) @ take 1 (drop 23 t) @ drop 24 t"
    by (simp add: next_cut)
  show "uuid_str u = t"
  proof -
    have "uuid_str u = take 8 t @ take 1 (drop 8 t) @ take 4 (drop 9 t) @ take 1 (drop 13 t) @ take 4 (drop 14 t) @
      take 1 (drop 18 t) @ take 4 (drop 19 t) @ take 1 (drop 23 t) @ drop 24 t"
      using sh lt by (simp add: uuid_str_def Let_def h uuid_hex_def uuid_shape_def)
    with cut show ?thesis by simp
  qed
qed

subsection \<open>A path and its arguments\<close>

text \<open>A converter for text stops at a slash, so what follows it in a route must start with one.\<close>

fun slash_next :: "piece list \<Rightarrow> bool" where
  "slash_next [] \<longleftrightarrow> True"
| "slash_next (Lit l # ps) \<longleftrightarrow> l \<noteq> [] \<and> hd l = CHR ''/''"
| "slash_next _ \<longleftrightarrow> False"

fun route_ok :: "piece list \<Rightarrow> bool" where
  "route_ok [] \<longleftrightarrow> True"
| "route_ok (StrArg # ps) \<longleftrightarrow> slash_next ps \<and> route_ok ps"
| "route_ok (_ # ps) \<longleftrightarrow> route_ok ps"

lemma startswith_append [simp]: "startswith (l @ s) l"
  by (simp add: startswith_def)

lemma startswithD: "startswith s l \<Longrightarrow> s = l @ drop (length l) s"
  unfolding startswith_def by (metis append_take_drop_id)

lemma takeWhile_text:
  "CHR ''/'' \<notin> set v \<Longrightarrow> takeWhile (\<lambda>c. c \<noteq> CHR ''/'') v = v"
  "CHR ''/'' \<notin> set v \<Longrightarrow> takeWhile (\<lambda>c. c \<noteq> CHR ''/'') (v @ CHR ''/'' # t) = v"
  by (induction v) auto

lemma match_build:
  assumes "match_pieces ps s = Some (as, rest)"
  shows "\<exists>p. build ps as = Some p \<and> s = p @ rest"
  using assms
proof (induction ps s arbitrary: as rest rule: match_pieces.induct)
  case (2 l ps s)
  then show ?case by (fastforce split: if_splits dest: startswithD)
next
  case (3 ps s)
  then obtain u bs where u: "read_uuid (take 36 s) = Some u" and m: "match_pieces ps (drop 36 s) = Some (bs, rest)"
    and as: "as = U u # bs"
    by (auto split: option.splits)
  from 3(1) [OF u m] obtain p where p: "build ps bs = Some p" "drop 36 s = p @ rest" by blast
  then have "s = uuid_str u @ p @ rest" using append_take_drop_id [of 36 s] read_uuid_Some(1) [OF u] by metis
  then show ?case using p as read_uuid_Some(2) [OF u] by simp
next
  case (4 ps s)
  let ?v = "takeWhile (\<lambda>c. c \<noteq> CHR ''/'') s"
  obtain bs where v: "?v \<noteq> []" and m: "match_pieces ps (drop (length ?v) s) = Some (bs, rest)" and as: "as = S ?v # bs"
    using 4(2) by (auto simp: Let_def split: if_splits)
  from 4(1) [OF refl v m] obtain p where p: "build ps bs = Some p" "drop (length ?v) s = p @ rest" by blast
  then have "s = ?v @ p @ rest" by (metis append_take_drop_id takeWhile_eq_take)
  moreover have "CHR ''/'' \<notin> set ?v" by (auto dest: set_takeWhileD)
  ultimately show ?case using p as v by simp
qed simp

lemma build_match:
  assumes "build ps as = Some p" and "route_ok ps" and "rest = [] \<or> hd rest = CHR ''/'' \<and> rest \<noteq> []"
  shows "match_pieces ps (p @ rest) = Some (as, rest)"
  using assms
proof (induction ps as arbitrary: p rule: build.induct)
  case (3 ps u as)
  then obtain q where q: "build ps as = Some q" "p = uuid_str u @ q" "u < 16 ^ 32" by (auto split: if_splits)
  then have "take 36 (p @ rest) = uuid_str u" "drop 36 (p @ rest) = q @ rest"
    using uuid_str_parts(1) [OF refl, of u] by simp_all
  then show ?case using 3 q read_uuid_str [OF q(3)] by simp
next
  case (4 ps v as)
  then obtain q where q: "build ps as = Some q" "p = v @ q" "v \<noteq> []" "CHR ''/'' \<notin> set v" by (auto split: if_splits)
  have "q @ rest = [] \<or> (\<exists>t. q @ rest = CHR ''/'' # t)"
    using q(1) 4(3,4) by (cases ps; cases as) (auto elim!: slash_next.elims simp: neq_Nil_conv)
  then have "takeWhile (\<lambda>c. c \<noteq> CHR ''/'') (v @ (q @ rest)) = v"
    by (elim disjE exE; simp only: append_Nil2 takeWhile_text [OF q(4)])
  then have "takeWhile (\<lambda>c. c \<noteq> CHR ''/'') (p @ rest) = v" by (simp only: q(2) append_assoc)
  then show ?case using 4 q by simp
qed auto

subsection \<open>A table is the list of its routes\<close>

fun first_route :: "(piece list \<times> 'v) list \<Rightarrow> string \<Rightarrow> ('v \<times> arg list) option" where
  "first_route [] s = None"
| "first_route ((ps, v) # rs) s =
     (case match_pieces ps s of
        Some (as, []) \<Rightarrow> Some (v, as)
      | _ \<Rightarrow> first_route rs s)"

lemma match_append:
  "match_pieces (ps @ qs) s =
     (case match_pieces ps s of None \<Rightarrow> None
      | Some (as, rest) \<Rightarrow> map_option (\<lambda>(bs, r). (as @ bs, r)) (match_pieces qs rest))"
  by (induction ps s rule: match_pieces.induct) 
    (auto simp: Let_def option.map_comp comp_def case_prod_unfold option.map_id0 option.map_ident split: option.split)

lemma first_route_append:
  "first_route (rs @ qs) s = (case first_route rs s of None \<Rightarrow> first_route qs s | Some x \<Rightarrow> Some x)"
  by (induction rs s rule: first_route.induct) (auto split: option.split list.split)

lemma first_route_include:
  "first_route (map (\<lambda>(r, v). (ps @ r, v)) rs) s =
     (case match_pieces ps s of None \<Rightarrow> None
      | Some (as, rest) \<Rightarrow> map_option (\<lambda>(v, bs). (v, as @ bs)) (first_route rs rest))"
  by (induction rs) (auto simp: match_append split: option.split list.split)

theorem resolve_first: "resolve us s = first_route (routes us) s"
proof (induction us s rule: resolve.induct)
  case (3 ps qs us s)
  then show ?case
    by (simp add: first_route_append first_route_include split: option.split)
qed (auto split: option.split list.split)

text \<open>What a path resolves to is a route of the table, and the path is that of the route with the arguments.\<close>

lemma first_route_Some:
  assumes "first_route rs s = Some (v, as)"
  shows "\<exists>ps. (ps, v) \<in> set rs \<and> build ps as = Some s"
  using assms
proof (induction rs)
  case (Cons r rs)
  obtain ps u where r: "r = (ps, u)" by fastforce
  show ?case
  proof (cases "\<exists>bs. match_pieces ps s = Some (bs, [])")
    case True
    then obtain bs where m: "match_pieces ps s = Some (bs, [])" ..
    with Cons.prems r have "u = v" "bs = as" by simp_all
    with match_build [OF m] r show ?thesis by auto
  next
    case False
    with Cons.prems r have "first_route rs s = Some (v, as)" by (auto split: option.splits list.splits)
    with Cons.IH show ?thesis by auto
  qed
qed simp

lemma resolve_Some:
  assumes "resolve us s = Some (v, as)"
  shows "\<exists>ps. (ps, v) \<in> set (routes us) \<and> build ps as = Some s"
  using first_route_Some assms unfolding resolve_first .

end
