(* ===== verification/Routing.thy ===== *)
theory Routing
  imports Slots Urls
begin

section \<open>From a path to a view\<close>

text \<open>
  The URL tables of the project (\<^verbatim>\<open>config/urls.py\<close>, \<^verbatim>\<open>apps/*/urls.py\<close>,
  \<^verbatim>\<open>apps/*/urls_admin.py\<close>), and the methods each
  view class answers and whom it admits. The tables of the framework's own sites
  (the admin site of Django, the debug toolbar) are parameters.
\<close>

subsection \<open>View classes\<close>

datatype http_method = GET | POST | PUT | PATCH | DELETE | HEAD | OPTIONS | OtherMethod string

text \<open>A view class with a \<open>get\<close> answers \<open>HEAD\<close> with it.\<close>

primrec handled_as :: "http_method \<Rightarrow> http_method" where
  "handled_as GET = GET" | "handled_as POST = POST" | "handled_as PUT = PUT" | "handled_as PATCH = PATCH"
| "handled_as DELETE = DELETE" | "handled_as HEAD = GET" | "handled_as OPTIONS = OPTIONS"
| "handled_as (OtherMethod s) = OtherMethod s"

datatype app_call =
    Shop shop_call | Admin admin_call | Platform platform_call | Webhook string | Health

text \<open>
  The bodies of requests as the serializers see them: what the framework makes of the fields by their declared
  types, or the error it raises. The checks of the project's own serializers are in the views.
\<close>

record inputs =
  in_body :: "http_request \<Rightarrow> exn + dict"
  in_address :: "http_request \<Rightarrow> exn + address_input"
  in_method :: "http_request \<Rightarrow> exn + method_request"
  in_product :: "http_request \<Rightarrow> exn + (string \<times> product_input)"
  in_product_patch :: "http_request \<Rightarrow> exn + product_input"
  in_upload :: "http_request \<Rightarrow> upload option"
  in_coupon :: "http_request \<Rightarrow> exn + coupon_input"
  in_customer :: "http_request \<Rightarrow> exn + (string \<times> customer_input)"
  in_customer_patch :: "http_request \<Rightarrow> exn + customer_input"
  in_config :: "http_request \<Rightarrow> exn + config_request"
  in_tenant :: "http_request \<Rightarrow> exn + tenant_request"
  in_tenant_patch :: "http_request \<Rightarrow> exn + tenant_patch"
  in_membership :: "http_request \<Rightarrow> exn + membership_request"
  in_login :: "http_request \<Rightarrow> exn + (string \<times> string)"

text \<open>The permission classes: storefront customers are the default.\<close>

datatype audience = Storefront | TenantAdmins | PlatformAdmins | AnyAdmin | Anyone | Foreign

type_synonym methods = "inputs \<Rightarrow> http_request \<Rightarrow> query \<Rightarrow> http_method \<Rightarrow> arg list \<Rightarrow> (exn + app_call) option"

record view_class =
  vc_audience :: audience
  vc_methods :: methods

definition storefront_class :: "(inputs \<Rightarrow> http_request \<Rightarrow> query \<Rightarrow> http_method \<Rightarrow> arg list \<Rightarrow> (exn + shop_call) option) \<Rightarrow> view_class" where
  "storefront_class f = \<lparr>vc_audience = Storefront,
     vc_methods = (\<lambda>inp req q m as. map_option (map_sum_inr Shop) (f inp req q m as))\<rparr>"

definition TenantAdminAPIView :: "(inputs \<Rightarrow> http_request \<Rightarrow> query \<Rightarrow> http_method \<Rightarrow> arg list \<Rightarrow> (exn + admin_call) option) \<Rightarrow> view_class" where
  "TenantAdminAPIView f = \<lparr>vc_audience = TenantAdmins,
     vc_methods = (\<lambda>inp req q m as. map_option (map_sum_inr Admin) (f inp req q m as))\<rparr>"

definition platform_class :: "audience \<Rightarrow> (inputs \<Rightarrow> http_request \<Rightarrow> query \<Rightarrow> http_method \<Rightarrow> arg list \<Rightarrow> (exn + platform_call) option) \<Rightarrow> view_class" where
  "platform_class a f = \<lparr>vc_audience = a,
     vc_methods = (\<lambda>inp req q m as. map_option (map_sum_inr Platform) (f inp req q m as))\<rparr>"

definition PlatformAdminAPIView :: "(inputs \<Rightarrow> http_request \<Rightarrow> query \<Rightarrow> http_method \<Rightarrow> arg list \<Rightarrow> (exn + platform_call) option) \<Rightarrow> view_class" where
  "PlatformAdminAPIView = platform_class PlatformAdmins"

definition open_class :: "(http_method \<Rightarrow> arg list \<Rightarrow> app_call option) \<Rightarrow> view_class" where
  "open_class f = \<lparr>vc_audience = Anyone, vc_methods = (\<lambda>inp req q m as. map_option Inr (f m as))\<rparr>"

definition foreign_class :: view_class where
  "foreign_class = \<lparr>vc_audience = Foreign, vc_methods = (\<lambda>_ _ _ _ _. None)\<rparr>"

definition parsed :: "('a \<Rightarrow> 'c) \<Rightarrow> exn + 'a \<Rightarrow> (exn + 'c) option" where
  "parsed f x = Some (map_sum_inr f x)"

definition calls :: "'c \<Rightarrow> (exn + 'c) option" where
  "calls x = Some (Inr x)"

subsection \<open>The views of the cart\<close>

definition CartDetailView :: view_class where
  "CartDetailView = storefront_class (\<lambda>inp req q m as.
     case m of GET \<Rightarrow> calls CartGet | DELETE \<Rightarrow> calls CartDelete | _ \<Rightarrow> None)"

definition CartItemsView :: view_class where
  "CartItemsView = storefront_class (\<lambda>inp req q m as.
     case m of POST \<Rightarrow> parsed ItemsPost (in_body inp req) | _ \<Rightarrow> None)"

definition CartItemDetailView :: view_class where
  "CartItemDetailView = storefront_class (\<lambda>inp req q m as.
     case (m, as) of (PATCH, [U i]) \<Rightarrow> parsed (ItemPatch i) (in_body inp req)
     | (DELETE, [U i]) \<Rightarrow> calls (ItemDelete i) | _ \<Rightarrow> None)"

definition CartCouponsView :: view_class where
  "CartCouponsView = storefront_class (\<lambda>inp req q m as.
     case m of POST \<Rightarrow> parsed CouponsPost (in_body inp req) | _ \<Rightarrow> None)"

definition CartCouponPreviewView :: view_class where
  "CartCouponPreviewView = storefront_class (\<lambda>inp req q m as.
     case m of POST \<Rightarrow> parsed CouponPreview (in_body inp req) | _ \<Rightarrow> None)"

definition CartCouponDetailView :: view_class where
  "CartCouponDetailView = storefront_class (\<lambda>inp req q m as.
     case (m, as) of (DELETE, [S code]) \<Rightarrow> calls (CouponDelete code) | _ \<Rightarrow> None)"

definition CartShippingAddressView :: view_class where
  "CartShippingAddressView = storefront_class (\<lambda>inp req q m as.
     case m of PUT \<Rightarrow> parsed ShippingPut (in_body inp req) | _ \<Rightarrow> None)"

definition CartBillingAddressView :: view_class where
  "CartBillingAddressView = storefront_class (\<lambda>inp req q m as.
     case m of PUT \<Rightarrow> parsed BillingPut (in_body inp req) | _ \<Rightarrow> None)"

definition CartPaymentMethodView :: view_class where
  "CartPaymentMethodView = storefront_class (\<lambda>inp req q m as.
     case m of PUT \<Rightarrow> parsed PaymentPut (in_body inp req) | _ \<Rightarrow> None)"

definition CartCheckoutView :: view_class where
  "CartCheckoutView = storefront_class (\<lambda>inp req q m as.
     case m of POST \<Rightarrow> parsed CheckoutPost (in_body inp req) | _ \<Rightarrow> None)"

subsection \<open>The other views of the storefront\<close>

definition ProductListView :: view_class where
  "ProductListView = storefront_class (\<lambda>inp req q m as. case m of GET \<Rightarrow> calls (ProductList q) | _ \<Rightarrow> None)"

definition ProductDetailView :: view_class where
  "ProductDetailView = storefront_class (\<lambda>inp req q m as.
     case (m, as) of (GET, [U i]) \<Rightarrow> calls (ProductGet i) | _ \<Rightarrow> None)"

definition CustomerAddressListCreateView :: view_class where
  "CustomerAddressListCreateView = storefront_class (\<lambda>inp req q m as.
     case (m, as) of (GET, [U c]) \<Rightarrow> calls (AddressList q c)
     | (POST, [U c]) \<Rightarrow> parsed (AddressPost c) (in_address inp req) | _ \<Rightarrow> None)"

definition CustomerAddressDetailView :: view_class where
  "CustomerAddressDetailView = storefront_class (\<lambda>inp req q m as.
     case (m, as) of (GET, [U c, U i]) \<Rightarrow> calls (AddressGet c i)
     | (PUT, [U c, U i]) \<Rightarrow> parsed (AddressUpdate False c i) (in_address inp req)
     | (PATCH, [U c, U i]) \<Rightarrow> parsed (AddressUpdate True c i) (in_address inp req)
     | (DELETE, [U c, U i]) \<Rightarrow> calls (AddressDelete c i) | _ \<Rightarrow> None)"

definition PublicGatewayListView :: view_class where
  "PublicGatewayListView = storefront_class (\<lambda>inp req q m as. case m of GET \<Rightarrow> calls GatewayList | _ \<Rightarrow> None)"

definition PublicGatewayDetailView :: view_class where
  "PublicGatewayDetailView = storefront_class (\<lambda>inp req q m as.
     case (m, as) of (GET, [S name]) \<Rightarrow> calls (GatewayGet name) | _ \<Rightarrow> None)"

definition CustomerPaymentMethodListCreateView :: view_class where
  "CustomerPaymentMethodListCreateView = storefront_class (\<lambda>inp req q m as.
     case (m, as) of (GET, [U c]) \<Rightarrow> calls (MethodList q c)
     | (POST, [U c]) \<Rightarrow> parsed (MethodPost c) (in_method inp req) | _ \<Rightarrow> None)"

definition CustomerPaymentMethodDetailView :: view_class where
  "CustomerPaymentMethodDetailView = storefront_class (\<lambda>inp req q m as.
     case (m, as) of (GET, [U c, U i]) \<Rightarrow> calls (MethodGet c i)
     | (DELETE, [U c, U i]) \<Rightarrow> calls (MethodDelete c i) | _ \<Rightarrow> None)"

definition CustomerPaymentMethodDefaultView :: view_class where
  "CustomerPaymentMethodDefaultView = storefront_class (\<lambda>inp req q m as.
     case (m, as) of (PUT, [U c, U i]) \<Rightarrow> calls (MethodDefault c i) | _ \<Rightarrow> None)"

definition OrderListView :: view_class where
  "OrderListView = storefront_class (\<lambda>inp req q m as. case m of GET \<Rightarrow> calls (OrderList q) | _ \<Rightarrow> None)"

definition OrderDetailView :: view_class where
  "OrderDetailView = storefront_class (\<lambda>inp req q m as.
     case (m, as) of (GET, [U i]) \<Rightarrow> calls (OrderGet i) | _ \<Rightarrow> None)"

definition OrderInvoiceView :: view_class where
  "OrderInvoiceView = storefront_class (\<lambda>inp req q m as.
     case (m, as) of (GET, [U i]) \<Rightarrow> calls (InvoiceGet i) | _ \<Rightarrow> None)"

definition OrderCancelView :: view_class where
  "OrderCancelView = storefront_class (\<lambda>inp req q m as.
     case (m, as) of (POST, [U i]) \<Rightarrow> calls (OrderCancel i) | _ \<Rightarrow> None)"

definition PaymentWebhookView :: view_class where
  "PaymentWebhookView = open_class (\<lambda>m as.
     case (m, as) of (POST, [S name]) \<Rightarrow> Some (Webhook name) | _ \<Rightarrow> None)"

definition HealthView :: view_class where
  "HealthView = open_class (\<lambda>m as. case m of GET \<Rightarrow> Some Health | _ \<Rightarrow> None)"

subsection \<open>The views of the administration\<close>

definition AdminProductListCreateView :: view_class where
  "AdminProductListCreateView = TenantAdminAPIView (\<lambda>inp req q m as.
     case m of GET \<Rightarrow> calls (AdminProductList q)
     | POST \<Rightarrow> parsed (\<lambda>(sku, v). ProductPost sku v) (in_product inp req) | _ \<Rightarrow> None)"

definition AdminProductDetailView :: view_class where
  "AdminProductDetailView = TenantAdminAPIView (\<lambda>inp req q m as.
     case (m, as) of (GET, [U i]) \<Rightarrow> calls (AdminProductGet i)
     | (PATCH, [U i]) \<Rightarrow> parsed (ProductPatch i) (in_product_patch inp req)
     | (DELETE, [U i]) \<Rightarrow> calls (ProductDelete i) | _ \<Rightarrow> None)"

definition AdminProductImageView :: view_class where
  "AdminProductImageView = TenantAdminAPIView (\<lambda>inp req q m as.
     case (m, as) of (POST, [U i]) \<Rightarrow> calls (ImagePost i (in_upload inp req))
     | (DELETE, [U i]) \<Rightarrow> calls (ImageDelete i) | _ \<Rightarrow> None)"

definition AdminCouponListCreateView :: view_class where
  "AdminCouponListCreateView = TenantAdminAPIView (\<lambda>inp req q m as.
     case m of GET \<Rightarrow> calls (CouponList q) | POST \<Rightarrow> parsed CouponPost (in_coupon inp req) | _ \<Rightarrow> None)"

definition AdminCouponDetailView :: view_class where
  "AdminCouponDetailView = TenantAdminAPIView (\<lambda>inp req q m as.
     case (m, as) of (GET, [U i]) \<Rightarrow> calls (CouponGet i)
     | (PATCH, [U i]) \<Rightarrow> parsed (CouponPatch i) (in_coupon inp req)
     | (DELETE, [U i]) \<Rightarrow> calls (AdminCouponDelete i) | _ \<Rightarrow> None)"

definition AdminGatewayConfigListCreateView :: view_class where
  "AdminGatewayConfigListCreateView = TenantAdminAPIView (\<lambda>inp req q m as.
     case m of GET \<Rightarrow> calls ConfigList | POST \<Rightarrow> parsed ConfigPost (in_config inp req) | _ \<Rightarrow> None)"

definition AdminGatewayConfigDetailView :: view_class where
  "AdminGatewayConfigDetailView = TenantAdminAPIView (\<lambda>inp req q m as.
     case (m, as) of (GET, [U i]) \<Rightarrow> calls (ConfigGet i)
     | (PATCH, [U i]) \<Rightarrow> parsed (ConfigPatch i) (in_config inp req)
     | (DELETE, [U i]) \<Rightarrow> calls (ConfigDelete i) | _ \<Rightarrow> None)"

definition AdminOrderListView :: view_class where
  "AdminOrderListView = TenantAdminAPIView (\<lambda>inp req q m as. case m of GET \<Rightarrow> calls (AdminOrderList q) | _ \<Rightarrow> None)"

definition AdminOrderDetailView :: view_class where
  "AdminOrderDetailView = TenantAdminAPIView (\<lambda>inp req q m as.
     case (m, as) of (GET, [U i]) \<Rightarrow> calls (AdminOrderGet i) | _ \<Rightarrow> None)"

definition AdminOrderPaymentListView :: view_class where
  "AdminOrderPaymentListView = TenantAdminAPIView (\<lambda>inp req q m as.
     case (m, as) of (GET, [U i]) \<Rightarrow> calls (AdminOrderPayments i) | _ \<Rightarrow> None)"

definition AdminOrderMarkPaidView :: view_class where
  "AdminOrderMarkPaidView = TenantAdminAPIView (\<lambda>inp req q m as.
     case (m, as) of (POST, [U i]) \<Rightarrow> parsed (MarkPaid i) (in_body inp req) | _ \<Rightarrow> None)"

definition AdminCustomerListCreateView :: view_class where
  "AdminCustomerListCreateView = TenantAdminAPIView (\<lambda>inp req q m as.
     case m of GET \<Rightarrow> calls (CustomerList q)
     | POST \<Rightarrow> parsed (\<lambda>(email, v). CustomerPost email v) (in_customer inp req) | _ \<Rightarrow> None)"

definition AdminCustomerDetailView :: view_class where
  "AdminCustomerDetailView = TenantAdminAPIView (\<lambda>inp req q m as.
     case (m, as) of (GET, [U i]) \<Rightarrow> calls (CustomerGet i)
     | (PATCH, [U i]) \<Rightarrow> parsed (CustomerPatch i) (in_customer_patch inp req)
     | (DELETE, [U i]) \<Rightarrow> calls (CustomerDelete i) | _ \<Rightarrow> None)"

subsection \<open>The views of the platform\<close>

definition AdminLoginView :: view_class where
  "AdminLoginView = platform_class Anyone (\<lambda>inp req q m as.
     case m of POST \<Rightarrow> parsed (\<lambda>(email, pw). Login email pw) (in_login inp req) | _ \<Rightarrow> None)"

definition AdminLogoutView :: view_class where
  "AdminLogoutView = platform_class AnyAdmin (\<lambda>inp req q m as. case m of POST \<Rightarrow> calls Logout | _ \<Rightarrow> None)"

definition AdminMeView :: view_class where
  "AdminMeView = platform_class AnyAdmin (\<lambda>inp req q m as. case m of GET \<Rightarrow> calls Me | _ \<Rightarrow> None)"

definition PlatformTenantListCreateView :: view_class where
  "PlatformTenantListCreateView = PlatformAdminAPIView (\<lambda>inp req q m as.
     case m of GET \<Rightarrow> calls (TenantList q) | POST \<Rightarrow> parsed TenantPost (in_tenant inp req) | _ \<Rightarrow> None)"

definition PlatformTenantDetailView :: view_class where
  "PlatformTenantDetailView = PlatformAdminAPIView (\<lambda>inp req q m as.
     case (m, as) of (GET, [U i]) \<Rightarrow> calls (TenantGet i)
     | (PATCH, [U i]) \<Rightarrow> parsed (TenantPatch i) (in_tenant_patch inp req) | _ \<Rightarrow> None)"

definition PlatformMembershipCreateView :: view_class where
  "PlatformMembershipCreateView = PlatformAdminAPIView (\<lambda>inp req q m as.
     case (m, as) of (POST, [U i]) \<Rightarrow> parsed (MembershipPost i) (in_membership inp req) | _ \<Rightarrow> None)"

definition PlatformMembershipDeleteView :: view_class where
  "PlatformMembershipDeleteView = PlatformAdminAPIView (\<lambda>inp req q m as.
     case (m, as) of (DELETE, [U i]) \<Rightarrow> calls (MembershipDelete i) | _ \<Rightarrow> None)"

definition PlatformReconcilePaymentsView :: view_class where
  "PlatformReconcilePaymentsView = PlatformAdminAPIView (\<lambda>inp req q m as.
     case m of POST \<Rightarrow> calls (Reconcile (map_of q ''stale_after_minutes'')) | _ \<Rightarrow> None)"

definition PlatformCustomerListView :: view_class where
  "PlatformCustomerListView = PlatformAdminAPIView (\<lambda>inp req q m as.
     case m of GET \<Rightarrow> calls (CustomerSearch q) | _ \<Rightarrow> None)"

text \<open>The dashboard is a page of HTML; the schema and its pages are made by the framework.\<close>

definition DashboardView :: view_class where
  "DashboardView = foreign_class"

subsection \<open>The URL tables\<close>

type_synonym url_table = "view_class pattern list"

definition catalog_urls :: url_table where
  "catalog_urls =
     [Path [Lit ''products''] ProductListView,
      Path [Lit ''products/'', UuidArg] ProductDetailView]"

definition customers_urls :: url_table where
  "customers_urls =
     [Path [Lit ''customers/'', UuidArg, Lit ''/addresses''] CustomerAddressListCreateView,
      Path [Lit ''customers/'', UuidArg, Lit ''/addresses/'', UuidArg] CustomerAddressDetailView]"

definition coupons_urls :: url_table where
  "coupons_urls = []"

definition payments_urls :: url_table where
  "payments_urls =
     [Path [Lit ''payment-gateways''] PublicGatewayListView,
      Path [Lit ''payment-gateways/'', StrArg] PublicGatewayDetailView,
      Path [Lit ''customers/'', UuidArg, Lit ''/payment-methods''] CustomerPaymentMethodListCreateView,
      Path [Lit ''customers/'', UuidArg, Lit ''/payment-methods/'', UuidArg] CustomerPaymentMethodDetailView,
      Path [Lit ''customers/'', UuidArg, Lit ''/payment-methods/'', UuidArg, Lit ''/default'']
        CustomerPaymentMethodDefaultView,
      Path [Lit ''webhooks/payments/'', StrArg] PaymentWebhookView]"

definition carts_urls :: url_table where
  "carts_urls =
     [Path [Lit ''cart''] CartDetailView,
      Path [Lit ''cart/items''] CartItemsView,
      Path [Lit ''cart/items/'', UuidArg] CartItemDetailView,
      Path [Lit ''cart/coupons''] CartCouponsView,
      Path [Lit ''cart/coupons/preview''] CartCouponPreviewView,
      Path [Lit ''cart/coupons/'', StrArg] CartCouponDetailView,
      Path [Lit ''cart/shipping-address''] CartShippingAddressView,
      Path [Lit ''cart/billing-address''] CartBillingAddressView,
      Path [Lit ''cart/payment-method''] CartPaymentMethodView,
      Path [Lit ''cart/checkout''] CartCheckoutView]"

definition orders_urls :: url_table where
  "orders_urls =
     [Path [Lit ''orders''] OrderListView,
      Path [Lit ''orders/'', UuidArg] OrderDetailView,
      Path [Lit ''orders/'', UuidArg, Lit ''/invoice''] OrderInvoiceView,
      Path [Lit ''orders/'', UuidArg, Lit ''/cancel''] OrderCancelView]"

definition core_urls :: url_table where
  "core_urls = [Path [] HealthView]"

definition catalog_urls_admin :: url_table where
  "catalog_urls_admin =
     [Path [Lit ''products''] AdminProductListCreateView,
      Path [Lit ''products/'', UuidArg] AdminProductDetailView,
      Path [Lit ''products/'', UuidArg, Lit ''/image''] AdminProductImageView]"

definition coupons_urls_admin :: url_table where
  "coupons_urls_admin =
     [Path [Lit ''coupons''] AdminCouponListCreateView,
      Path [Lit ''coupons/'', UuidArg] AdminCouponDetailView]"

definition payments_urls_admin :: url_table where
  "payments_urls_admin =
     [Path [Lit ''payment-gateways''] AdminGatewayConfigListCreateView,
      Path [Lit ''payment-gateways/'', UuidArg] AdminGatewayConfigDetailView]"

definition orders_urls_admin :: url_table where
  "orders_urls_admin =
     [Path [Lit ''orders''] AdminOrderListView,
      Path [Lit ''orders/'', UuidArg] AdminOrderDetailView,
      Path [Lit ''orders/'', UuidArg, Lit ''/payments''] AdminOrderPaymentListView,
      Path [Lit ''orders/'', UuidArg, Lit ''/mark-paid''] AdminOrderMarkPaidView]"

definition customers_urls_admin :: url_table where
  "customers_urls_admin =
     [Path [Lit ''customers''] AdminCustomerListCreateView,
      Path [Lit ''customers/'', UuidArg] AdminCustomerDetailView,
      Path [Lit ''platform/customers''] PlatformCustomerListView]"

definition iam_urls_admin :: url_table where
  "iam_urls_admin =
     [Path [Lit ''auth/login''] AdminLoginView,
      Path [Lit ''auth/logout''] AdminLogoutView,
      Path [Lit ''auth/me''] AdminMeView,
      Path [Lit ''platform/tenants''] PlatformTenantListCreateView,
      Path [Lit ''platform/tenants/'', UuidArg] PlatformTenantDetailView,
      Path [Lit ''platform/tenants/'', UuidArg, Lit ''/memberships''] PlatformMembershipCreateView,
      Path [Lit ''platform/memberships/'', UuidArg] PlatformMembershipDeleteView,
      Path [Lit ''platform/ops/reconcile-payments''] PlatformReconcilePaymentsView,
      Include [] catalog_urls_admin,
      Include [] coupons_urls_admin,
      Include [] payments_urls_admin,
      Include [] orders_urls_admin,
      Include [] customers_urls_admin]"

text \<open>The toolbar is there when \<open>DEBUG\<close> is set.\<close>

definition urlpatterns :: "bool \<Rightarrow> url_table \<Rightarrow> url_table \<Rightarrow> url_table" where
  "urlpatterns debug admin_site toolbar =
     [Include [Lit ''admin/''] admin_site,
      Path [Lit ''dashboard/''] DashboardView,
      Include [Lit ''api/v1/health''] core_urls,
      Path [Lit ''api/v1/schema/''] foreign_class,
      Path [Lit ''api/v1/docs/''] foreign_class,
      Include [Lit ''api/v1/''] catalog_urls,
      Include [Lit ''api/v1/''] customers_urls,
      Include [Lit ''api/v1/''] coupons_urls,
      Include [Lit ''api/v1/''] payments_urls,
      Include [Lit ''api/v1/''] carts_urls,
      Include [Lit ''api/v1/''] orders_urls,
      Include [Lit ''api/v1/admin/''] iam_urls_admin]
     @ (if debug then [Include [Lit ''__debug__/''] toolbar] else [])"

subsection \<open>Prefixes decide\<close>

fun lit_prefix :: "piece list \<Rightarrow> string" where
  "lit_prefix (Lit l # ps) = l @ lit_prefix ps"
| "lit_prefix _ = []"

lemma build_prefix: "build ps as = Some p \<Longrightarrow> \<exists>x. p = lit_prefix ps @ x"
  by (induction ps as arbitrary: p rule: build.induct) auto

lemma startswith_Cons [simp]:
  "startswith s []" "startswith [] (d # l) = False" "startswith (c # s) (d # l) = (c = d \<and> startswith s l)"
  by (simp_all add: startswith_def)

lemma startswith_take_more: "startswith s p \<Longrightarrow> startswith (s @ x) p"
proof (induction p arbitrary: s)
  case (Cons d p)
  then show ?case by (cases s) auto
qed simp

lemma startswith_less: "startswith (s @ x) p \<Longrightarrow> startswith s p \<or> startswith p s"
proof (induction p arbitrary: s)
  case (Cons d p)
  then show ?case by (cases s) auto
qed simp

definition exempt_prefix :: "string \<Rightarrow> string list \<Rightarrow> bool" where
  "exempt_prefix l paths \<longleftrightarrow> list_ex (startswith (CHR ''/'' # l)) paths"

definition decided :: "string \<Rightarrow> string list \<Rightarrow> bool" where
  "decided l paths \<longleftrightarrow> list_all (\<lambda>p. startswith (CHR ''/'' # l) p \<or> \<not> startswith p (CHR ''/'' # l)) paths"

lemma exempt_decided:
  assumes "decided l paths" and "req_path req = CHR ''/'' # l @ x"
  shows "is_exempt req paths \<longleftrightarrow> exempt_prefix l paths"
proof -
  have "startswith ((CHR ''/'' # l) @ x) p \<longleftrightarrow> startswith (CHR ''/'' # l) p" if "p \<in> set paths" for p
  proof
    assume s: "startswith ((CHR ''/'' # l) @ x) p"
    show "startswith (CHR ''/'' # l) p"
      using startswith_less [OF s] assms(1) that unfolding decided_def list_all_iff by blast
  qed (rule startswith_take_more)
  then show ?thesis using assms(2) by (auto simp: is_exempt_def exempt_prefix_def list_ex_iff)
qed

text \<open>Whom a view admits decides what the middleware skips; the probe of the health is the exception.\<close>

definition tier_ok :: "piece list \<times> view_class \<Rightarrow> bool" where
  "tier_ok = (\<lambda>(ps, v).
     let l = lit_prefix ps in
     decided l GLOBAL_EXEMPT_PATHS \<and> decided l AUTH_EXEMPT_PATHS \<and>
     (exempt_prefix l GLOBAL_EXEMPT_PATHS \<longleftrightarrow>
        vc_audience v \<notin> {Storefront, TenantAdmins} \<and> ps \<noteq> [Lit ''api/v1/health'']) \<and>
     (exempt_prefix l GLOBAL_EXEMPT_PATHS \<or> exempt_prefix l AUTH_EXEMPT_PATHS \<longleftrightarrow> vc_audience v \<noteq> Storefront))"

lemmas class_defs = storefront_class_def TenantAdminAPIView_def PlatformAdminAPIView_def platform_class_def open_class_def
  foreign_class_def

lemma audiences [simp]:
  "vc_audience (storefront_class f) = Storefront" "vc_audience (TenantAdminAPIView g) = TenantAdmins"
  "vc_audience (platform_class a h) = a" "vc_audience (PlatformAdminAPIView h) = PlatformAdmins"
  "vc_audience (open_class k) = Anyone" "vc_audience foreign_class = Foreign"
  by (simp_all add: class_defs)

lemmas storefront_views = CartDetailView_def CartItemsView_def CartItemDetailView_def CartCouponsView_def
  CartCouponPreviewView_def CartCouponDetailView_def CartShippingAddressView_def CartBillingAddressView_def
  CartPaymentMethodView_def CartCheckoutView_def ProductListView_def ProductDetailView_def
  CustomerAddressListCreateView_def CustomerAddressDetailView_def PublicGatewayListView_def PublicGatewayDetailView_def
  CustomerPaymentMethodListCreateView_def CustomerPaymentMethodDetailView_def CustomerPaymentMethodDefaultView_def
  OrderListView_def OrderDetailView_def OrderInvoiceView_def OrderCancelView_def

lemmas tenant_views = AdminProductListCreateView_def AdminProductDetailView_def AdminProductImageView_def
  AdminCouponListCreateView_def AdminCouponDetailView_def AdminGatewayConfigListCreateView_def
  AdminGatewayConfigDetailView_def AdminOrderListView_def AdminOrderDetailView_def AdminOrderPaymentListView_def
  AdminOrderMarkPaidView_def AdminCustomerListCreateView_def AdminCustomerDetailView_def

lemmas platform_views = AdminLoginView_def AdminLogoutView_def AdminMeView_def PlatformTenantListCreateView_def
  PlatformTenantDetailView_def PlatformMembershipCreateView_def PlatformMembershipDeleteView_def
  PlatformReconcilePaymentsView_def PlatformCustomerListView_def

lemmas open_views = PaymentWebhookView_def HealthView_def DashboardView_def

lemmas own_tables = catalog_urls_def customers_urls_def coupons_urls_def payments_urls_def carts_urls_def
  orders_urls_def core_urls_def catalog_urls_admin_def coupons_urls_admin_def payments_urls_admin_def
  orders_urls_admin_def customers_urls_admin_def iam_urls_admin_def

lemma view_audiences [simp]:
  "vc_audience CartDetailView = Storefront" "vc_audience CartItemsView = Storefront"
  "vc_audience CartItemDetailView = Storefront" "vc_audience CartCouponsView = Storefront"
  "vc_audience CartCouponPreviewView = Storefront" "vc_audience CartCouponDetailView = Storefront"
  "vc_audience CartShippingAddressView = Storefront" "vc_audience CartBillingAddressView = Storefront"
  "vc_audience CartPaymentMethodView = Storefront" "vc_audience CartCheckoutView = Storefront"
  "vc_audience ProductListView = Storefront" "vc_audience ProductDetailView = Storefront"
  "vc_audience CustomerAddressListCreateView = Storefront" "vc_audience CustomerAddressDetailView = Storefront"
  "vc_audience PublicGatewayListView = Storefront" "vc_audience PublicGatewayDetailView = Storefront"
  "vc_audience CustomerPaymentMethodListCreateView = Storefront"
  "vc_audience CustomerPaymentMethodDetailView = Storefront"
  "vc_audience CustomerPaymentMethodDefaultView = Storefront" "vc_audience OrderListView = Storefront"
  "vc_audience OrderDetailView = Storefront" "vc_audience OrderInvoiceView = Storefront"
  "vc_audience OrderCancelView = Storefront" "vc_audience AdminProductListCreateView = TenantAdmins"
  "vc_audience AdminProductDetailView = TenantAdmins" "vc_audience AdminProductImageView = TenantAdmins"
  "vc_audience AdminCouponListCreateView = TenantAdmins" "vc_audience AdminCouponDetailView = TenantAdmins"
  "vc_audience AdminGatewayConfigListCreateView = TenantAdmins"
  "vc_audience AdminGatewayConfigDetailView = TenantAdmins" "vc_audience AdminOrderListView = TenantAdmins"
  "vc_audience AdminOrderDetailView = TenantAdmins" "vc_audience AdminOrderPaymentListView = TenantAdmins"
  "vc_audience AdminOrderMarkPaidView = TenantAdmins" "vc_audience AdminCustomerListCreateView = TenantAdmins"
  "vc_audience AdminCustomerDetailView = TenantAdmins" "vc_audience AdminLoginView = Anyone"
  "vc_audience AdminLogoutView = AnyAdmin" "vc_audience AdminMeView = AnyAdmin"
  "vc_audience PlatformTenantListCreateView = PlatformAdmins" "vc_audience PlatformTenantDetailView = PlatformAdmins"
  "vc_audience PlatformMembershipCreateView = PlatformAdmins"
  "vc_audience PlatformMembershipDeleteView = PlatformAdmins"
  "vc_audience PlatformReconcilePaymentsView = PlatformAdmins" "vc_audience PlatformCustomerListView = PlatformAdmins"
  "vc_audience PaymentWebhookView = Anyone" "vc_audience HealthView = Anyone" "vc_audience DashboardView = Foreign"
  by (simp_all only: storefront_views tenant_views platform_views open_views audiences)

lemma own_tiers: "list_all tier_ok (routes (urlpatterns False [] []))"
  by (simp add: urlpatterns_def own_tables tier_ok_def Let_def decided_def exempt_prefix_def GLOBAL_EXEMPT_PATHS_def
      AUTH_EXEMPT_PATHS_def)

lemma foreign_tiers: "vc_audience v = Foreign \<Longrightarrow> tier_ok (Lit ''admin/'' # ps, v)"
  by (simp add: tier_ok_def Let_def decided_def exempt_prefix_def GLOBAL_EXEMPT_PATHS_def AUTH_EXEMPT_PATHS_def)

lemma routes_append [simp]: "routes (us @ ts) = routes us @ routes ts"
  by (induction us rule: routes.induct) simp_all

lemma routes_split:
  "set (routes (urlpatterns False admin_site tb)) =
     (\<lambda>(r, v). (Lit ''admin/'' # r, v)) ` set (routes admin_site) \<union> set (routes (urlpatterns False [] []))"
  by (auto simp: urlpatterns_def)

definition foreign_table :: "url_table \<Rightarrow> bool" where
  "foreign_table us \<longleftrightarrow> (\<forall>(ps, v) \<in> set (routes us). vc_audience v = Foreign)"

lemma all_tiers:
  assumes "foreign_table admin_site" and "(ps, v) \<in> set (routes (urlpatterns False admin_site tb))"
  shows "tier_ok (ps, v)"
proof -
  consider r where "ps = Lit ''admin/'' # r" "(r, v) \<in> set (routes admin_site)"
    | "(ps, v) \<in> set (routes (urlpatterns False [] []))"
    using assms(2) by (subst (asm) routes_split) auto
  then show ?thesis
  proof cases
    case 1
    then have "vc_audience v = Foreign" using assms(1) by (auto simp: foreign_table_def)
    with 1 show ?thesis by (simp add: foreign_tiers)
  next
    case 2
    with own_tiers show ?thesis unfolding list_all_iff by blast
  qed
qed

lemma route_tier:
  assumes "resolve (urlpatterns False admin_site tb) p = Some (v, as)" and "foreign_table admin_site"
    and "req_path req = CHR ''/'' # p"
  shows "is_exempt req GLOBAL_EXEMPT_PATHS \<longleftrightarrow>
      vc_audience v \<notin> {Storefront, TenantAdmins} \<and> p \<noteq> ''api/v1/health''"
    and "is_exempt req GLOBAL_EXEMPT_PATHS \<or> is_exempt req AUTH_EXEMPT_PATHS \<longleftrightarrow> vc_audience v \<noteq> Storefront"
proof -
  obtain ps where ps: "(ps, v) \<in> set (routes (urlpatterns False admin_site tb))" and b: "build ps as = Some p"
    using resolve_Some [OF assms(1)] by blast
  have t: "tier_ok (ps, v)" using all_tiers [OF assms(2) ps] .
  obtain x where x: "p = lit_prefix ps @ x" using build_prefix [OF b] by blast
  have e: "is_exempt req GLOBAL_EXEMPT_PATHS \<longleftrightarrow> exempt_prefix (lit_prefix ps) GLOBAL_EXEMPT_PATHS"
    "is_exempt req AUTH_EXEMPT_PATHS \<longleftrightarrow> exempt_prefix (lit_prefix ps) AUTH_EXEMPT_PATHS"
    using exempt_decided [of "lit_prefix ps" _ req x] t assms(3) x by (simp_all add: tier_ok_def Let_def)
  show "is_exempt req GLOBAL_EXEMPT_PATHS \<or> is_exempt req AUTH_EXEMPT_PATHS \<longleftrightarrow> vc_audience v \<noteq> Storefront"
    using e t unfolding tier_ok_def Let_def case_prod_conv by blast
  have h: "ps = [Lit ''api/v1/health''] \<longleftrightarrow> p = ''api/v1/health''"
    if "vc_audience v \<notin> {Storefront, TenantAdmins}"
  proof
    assume "p = ''api/v1/health''"
    moreover have "\<not> is_exempt (req\<lparr>req_path := ''/api/v1/health''\<rparr>) GLOBAL_EXEMPT_PATHS"
      by (simp add: is_exempt_def GLOBAL_EXEMPT_PATHS_def)
    ultimately have "\<not> is_exempt req GLOBAL_EXEMPT_PATHS" using assms(3) by (simp add: is_exempt_def)
    then show "ps = [Lit ''api/v1/health'']" using e(1) t that by (simp add: tier_ok_def Let_def)
  qed (use b in \<open>cases as; simp\<close>)
  show "is_exempt req GLOBAL_EXEMPT_PATHS \<longleftrightarrow>
      vc_audience v \<notin> {Storefront, TenantAdmins} \<and> p \<noteq> ''api/v1/health''"
    using e(1) t h unfolding tier_ok_def Let_def case_prod_conv by blast
qed

subsection \<open>Every route is reached\<close>

lemma build_iff:
  "build [] as = Some p \<longleftrightarrow> as = [] \<and> p = []"
  "build (Lit l # ps) as = Some p \<longleftrightarrow> (\<exists>q. build ps as = Some q \<and> p = l @ q)"
  "build (UuidArg # ps) as = Some p \<longleftrightarrow>
     (\<exists>u bs q. as = U u # bs \<and> u < 16 ^ 32 \<and> build ps bs = Some q \<and> p = uuid_str u @ q)"
  "build (StrArg # ps) as = Some p \<longleftrightarrow>
     (\<exists>x bs q. as = S x # bs \<and> x \<noteq> [] \<and> CHR ''/'' \<notin> set x \<and> build ps bs = Some q \<and> p = x @ q)"
proof -
  show "build [] as = Some p \<longleftrightarrow> as = [] \<and> p = []" by (cases as) auto
  show "build (Lit l # ps) as = Some p \<longleftrightarrow> (\<exists>q. build ps as = Some q \<and> p = l @ q)" by auto
  show "build (UuidArg # ps) as = Some p \<longleftrightarrow>
     (\<exists>u bs q. as = U u # bs \<and> u < 16 ^ 32 \<and> build ps bs = Some q \<and> p = uuid_str u @ q)"
    by (cases "(UuidArg # ps, as)" rule: build.cases) (auto simp del: power_numeral)
  show "build (StrArg # ps) as = Some p \<longleftrightarrow>
     (\<exists>x bs q. as = S x # bs \<and> x \<noteq> [] \<and> CHR ''/'' \<notin> set x \<and> build ps bs = Some q \<and> p = x @ q)"
    by (cases "(StrArg # ps, as)" rule: build.cases) auto
qed

lemma match_uuid:
  "u < 16 ^ 32 \<Longrightarrow> match_pieces (UuidArg # ps) (uuid_str u @ s) =
     map_option (\<lambda>(as, rest). (U u # as, rest)) (match_pieces ps s)"
  "u < 16 ^ 32 \<Longrightarrow> match_pieces (UuidArg # ps) (uuid_str u) =
     map_option (\<lambda>(as, rest). (U u # as, rest)) (match_pieces ps [])"
  by (simp_all add: uuid_str_parts(1) [OF refl] read_uuid_str)

lemma match_text:
  "x \<noteq> [] \<Longrightarrow> CHR ''/'' \<notin> set x \<Longrightarrow> match_pieces [StrArg] x = Some ([S x], [])"
  by (simp add: takeWhile_text)

lemma match_lit [simp]:
  "match_pieces (Lit [] # ps) s = match_pieces ps s"
  "match_pieces (Lit (d # l) # ps) [] = None"
  "match_pieces (Lit (d # l) # ps) (c # s) = (if c = d then match_pieces (Lit l # ps) s else None)"
  by simp_all

lemma startswith_all: "startswith s l \<Longrightarrow> drop (length l) s = [] \<Longrightarrow> s = l"
  using startswithD [of s l] by simp

definition reached :: "url_table \<Rightarrow> url_table \<Rightarrow> piece list \<times> view_class \<Rightarrow> bool" where
  "reached admin_site tb = (\<lambda>(ps, v). \<forall>as p.
     build ps as = Some p \<and> \<not> (as = [S ''preview''] \<and> p = ''api/v1/cart/coupons/preview'') \<longrightarrow>
     resolve (urlpatterns False admin_site tb) p = Some (v, as))"

fun all_built :: "piece list \<Rightarrow> (arg list \<Rightarrow> string \<Rightarrow> bool) \<Rightarrow> bool" where
  "all_built [] P = P [] []"
| "all_built (Lit l # ps) P = all_built ps (\<lambda>as q. P as (l @ q))"
| "all_built (UuidArg # ps) P = (\<forall>u. u < 16 ^ 32 \<longrightarrow> all_built ps (\<lambda>as q. P (U u # as) (uuid_str u @ q)))"
| "all_built (StrArg # ps) P =
     (\<forall>x. x \<noteq> [] \<and> CHR ''/'' \<notin> set x \<longrightarrow> all_built ps (\<lambda>as q. P (S x # as) (x @ q)))"

lemma all_built: "all_built ps P \<longleftrightarrow> (\<forall>as p. build ps as = Some p \<longrightarrow> P as p)"
  by (induction ps P rule: all_built.induct) (auto simp: build_iff simp del: power_numeral)

lemma reached_built: "reached admin_site tb (ps, v) \<longleftrightarrow>
   all_built ps (\<lambda>as p. \<not> (as = [S ''preview''] \<and> p = ''api/v1/cart/coupons/preview'') \<longrightarrow>
     resolve (urlpatterns False admin_site tb) p = Some (v, as))"
  by (auto simp: reached_def all_built)

text \<open>Unfold a table to its paths, then resolve them.\<close>

lemmas stage1 = own_tables routes.simps list.map prod.case append.simps list.pred_inject(1) list.pred_inject(2) reached_built all_built.simps
lemmas stage2 = urlpatterns_def own_tables match_uuid match_text


lemma lit_case:
  "x \<noteq> l \<Longrightarrow> (case match_pieces [Lit l] x of None \<Rightarrow> r | Some (as, []) \<Rightarrow> Some (v, as) | Some (as, _ # _) \<Rightarrow> r) = r"
  by (auto split: list.split dest: startswith_all)

lemma storefront_reached: "list_all (reached admin_site tb) (map (\<lambda>(r, v). (Lit ''api/v1/'' # r, v)) (routes catalog_urls @ routes customers_urls @ routes payments_urls))"
  unfolding stage1
  by (simp add: stage2 lit_case del: match_pieces.simps(2-4) power_numeral)

lemma orders_reached: "list_all (reached admin_site tb) (map (\<lambda>(r, v). (Lit ''api/v1/'' # r, v)) (routes orders_urls))"
  unfolding stage1
  by (simp add: stage2 lit_case del: match_pieces.simps(2-4) power_numeral)

lemma carts_reached: "list_all (reached admin_site tb) (map (\<lambda>(r, v). (Lit ''api/v1/'' # r, v)) (routes carts_urls))"
  unfolding stage1
  by (simp add: stage2 lit_case del: match_pieces.simps(2-4) power_numeral)

lemma platform_reached:
  "list_all (reached admin_site tb) (map (\<lambda>(r, v). (Lit ''api/v1/admin/'' # r, v)) (routes (take 8 iam_urls_admin)))"
  by (simp add: iam_urls_admin_def, simp only: stage1)
    (simp add: stage2 lit_case del: match_pieces.simps(2-4) power_numeral)

lemma open_reached:
  "list_all (reached admin_site tb) [([Lit ''dashboard/''], DashboardView), ([Lit ''api/v1/health''], HealthView),
     ([Lit ''api/v1/schema/''], foreign_class), ([Lit ''api/v1/docs/''], foreign_class)]"
  unfolding stage1 by (simp add: stage2 lit_case del: match_pieces.simps(2-4) power_numeral)

lemma admin_reached: "list_all (reached admin_site tb) (map (\<lambda>(r, v). (Lit ''api/v1/admin/'' # r, v)) (routes catalog_urls_admin @ routes coupons_urls_admin @ routes payments_urls_admin))"
  unfolding stage1
  by (simp add: stage2 lit_case del: match_pieces.simps(2-4) power_numeral)

lemma admin2_reached: "list_all (reached admin_site tb) (map (\<lambda>(r, v). (Lit ''api/v1/admin/'' # r, v)) (routes orders_urls_admin @ routes customers_urls_admin))"
  unfolding stage1
  by (simp add: stage2 lit_case del: match_pieces.simps(2-4) power_numeral)

lemma own_reached: "list_all (reached admin_site tb) (routes (urlpatterns False [] []))"
  using open_reached storefront_reached orders_reached carts_reached platform_reached admin_reached admin2_reached
  by (simp add: urlpatterns_def [of _ "[]" "[]"] coupons_urls_def core_urls_def iam_urls_admin_def)

text \<open>The preview of a coupon stands before the coupon of that name; every other path leads to its route.\<close>

lemma resolve_reached:
  assumes "(ps, v) \<in> set (routes (urlpatterns False [] []))" and "build ps as = Some p"
    and "\<not> (as = [S ''preview''] \<and> p = ''api/v1/cart/coupons/preview'')"
  shows "resolve (urlpatterns False admin_site tb) p = Some (v, as)"
  using own_reached [of admin_site tb] assms unfolding list_all_iff reached_def by blast

end
