(* ===== verification/Server.thy ===== *)
theory Server
  imports Routing
begin

section \<open>The server\<close>

text \<open>
  The whole of a request: the conversion of the keys, the middleware around the view that the path leads to, and
  the health view. It connects the URL tables with the steps of the system: a request to a view of the
  project is one step of the system or leaves the tables alone.
\<close>

subsection \<open>A request from end to end\<close>

text \<open>
  What is the framework's: the page for a path that is not there, the text of its refusal of a method, the description of a view
  that it answers \<open>OPTIONS\<close> with, and the views of its own sites. The errors of the three probes of the health are inputs.
\<close>

record server =
  srv_site :: site
  srv_inputs :: inputs
  srv_admin_site :: url_table
  srv_toolbar :: url_table
  srv_foreign :: handler
  srv_not_found :: http_response
  srv_not_allowed :: "http_method \<Rightarrow> string"
  srv_metadata :: "http_request \<Rightarrow> http_response"
  srv_db_error :: "string option"
  srv_redis_error :: "string option"
  srv_rabbitmq_error :: "string option"

definition check_json :: "string option \<Rightarrow> json" where
  "check_json e =
     (case e of None \<Rightarrow> JObj [(''ok'', JBool True)] | Some t \<Rightarrow> JObj [(''ok'', JBool False), (''error'', JStr t)])"

definition health_get :: "server \<Rightarrow> handler" where
  "health_get srv r =
     (let all_ok = (srv_db_error srv = None \<and> srv_redis_error srv = None \<and> srv_rabbitmq_error srv = None) in
      ret (json_response (if all_ok then 200 else 503) [] (envelope
        (JObj [(''status'', JStr (if all_ok then ''ok'' else ''degraded'')),
          (''checks'', JObj [(''database'', check_json (srv_db_error srv)), (''redis'', check_json (srv_redis_error srv)),
             (''rabbitmq'', check_json (srv_rabbitmq_error srv))])]) (rq_id r) [])))"

text \<open>A method that the view does not have, and a body that the fields of its serializer refuse.\<close>

definition refused :: "server \<Rightarrow> http_request \<Rightarrow> http_method \<Rightarrow> (exn + app_call) option \<Rightarrow> http_response act" where
  "refused srv req m c =
     (case c of
        Some (Inl e) \<Rightarrow> throw e
      | _ \<Rightarrow> if m = OPTIONS then ret (srv_metadata srv req) else throw (ApiException 405 (srv_not_allowed srv m)))"

definition view_handler :: "server \<Rightarrow> view_class \<Rightarrow> query \<Rightarrow> http_method \<Rightarrow> arg list \<Rightarrow> handler" where
  "view_handler srv v q m as r =
     (let s = srv_site srv; req = rq_http r; ttl = site_ttl s; key = site_token s req;
          c = vc_methods v (srv_inputs srv) req q (handled_as m) as
      in case vc_audience v of
           Storefront \<Rightarrow>
             customer_view (\<lambda>cust r. case c of Some (Inr (Shop x)) \<Rightarrow> shop_view s x cust r | _ \<Rightarrow> refused srv req m c) r
         | TenantAdmins \<Rightarrow>
             tenant_admin_view ttl key (\<lambda>u r. case c of Some (Inr (Admin x)) \<Rightarrow> admin_view s x u r | _ \<Rightarrow> refused srv req m c) r
         | PlatformAdmins \<Rightarrow>
             (case c of Some (Inr (Platform x)) \<Rightarrow> platform_view s x key r
              | _ \<Rightarrow> platform_admin_view ttl key (\<lambda>u r. refused srv req m c) r)
         | AnyAdmin \<Rightarrow>
             (case c of Some (Inr (Platform x)) \<Rightarrow> platform_view s x key r
              | _ \<Rightarrow> authenticated_view ttl key (\<lambda>u r. refused srv req m c) r)
         | Anyone \<Rightarrow>
             (case c of Some (Inr (Platform x)) \<Rightarrow> platform_view s x key r
              | Some (Inr (Webhook name)) \<Rightarrow> webhook_view (site_env s) name r
              | Some (Inr Health) \<Rightarrow> health_get srv r
              | _ \<Rightarrow> refused srv req m c)
         | Foreign \<Rightarrow> srv_foreign srv r)"

definition route_of :: "server \<Rightarrow> http_request \<Rightarrow> (view_class \<times> arg list) option" where
  "route_of srv req =
     resolve (urlpatterns (set_debug (site_settings (srv_site srv))) (srv_admin_site srv) (srv_toolbar srv))
       (tl (req_path req))"

definition routed :: "server \<Rightarrow> query \<Rightarrow> http_method \<Rightarrow> handler" where
  "routed srv q m r =
     (case route_of srv (rq_http r) of
        None \<Rightarrow> ret (srv_not_found srv)
      | Some (v, as) \<Rightarrow> view_handler srv v q m as r)"

text \<open>What the views get, and the middleware that makes it: the keys are converted on the way in and on the way out.\<close>

definition inner_request :: "http_request \<Rightarrow> http_request" where
  "inner_request req = (if is_exempt req CAMEL_CASE_EXEMPT_PATHS then req else decamelize_request req)"

definition camel_case :: "handler \<Rightarrow> handler" where
  "camel_case get_response r =
     (let exempt = is_exempt (rq_http r) CAMEL_CASE_EXEMPT_PATHS in
      bindE (get_response (if exempt then r else r\<lparr>rq_http := decamelize_request (rq_http r)\<rparr>)) (\<lambda>resp.
      ret (if exempt then resp else camelize_response resp)))"

text \<open>The layers under the letter case: the tenant, its transaction, the customer and the view.\<close>

definition tenant_layers :: "settings \<Rightarrow> handler \<Rightarrow> handler" where
  "tenant_layers cfg view =
     tenant_resolver cfg (\<lambda>r. convert_exception
       (tenant_db_session (\<lambda>r. convert_exception
         (customer_auth cfg (atomic_request view) r)) r))"

definition handle :: "server \<Rightarrow> query \<Rightarrow> http_method \<Rightarrow> http_request \<Rightarrow> http_response act" where
  "handle srv q m req =
     request_id_middleware (\<lambda>r. convert_exception
       (camel_case (\<lambda>r. convert_exception
         (tenant_layers (site_settings (srv_site srv)) (routed srv q m) r)) r)) (fresh_request req)"

text \<open>The letter case can as well be seen from outside, since it leaves the headers alone.\<close>

lemma inner_meta [simp]: "req_meta (inner_request req) = req_meta req"
  by (simp add: inner_request_def decamelize_request_def split: http_body.split)

lemma camelize_add_header [simp]: "camelize_response (add_header k v resp) = add_header k v (camelize_response resp)"
  by (simp add: camelize_response_def add_header_def split: http_body.split)

lemma convert_exception_answers:
  "convert_exception (bindE (convert_exception n) (\<lambda>resp. ret (f resp))) = bindE (convert_exception n) (\<lambda>resp. ret (f resp))"
proof
  fix w
  obtain resp w' where "convert_exception n w = (Inr resp, w')" using convert_exception_total by blast
  then show "convert_exception (bindE (convert_exception n) (\<lambda>resp. ret (f resp))) w = bindE (convert_exception n) (\<lambda>resp. ret (f resp)) w"
    by (simp add: convert_exception_def [of "bindE _ _"] try_except_def bindE_def)
qed

lemma handle_served:
  "handle srv q m req =
     bindE (served (site_settings (srv_site srv)) (routed srv q m) (fresh_request (inner_request req))) (\<lambda>resp.
     ret (if is_exempt req CAMEL_CASE_EXEMPT_PATHS then resp else camelize_response resp))"
proof -
  let ?L = "\<lambda>r. convert_exception (tenant_layers (site_settings (srv_site srv)) (routed srv q m) r)"
  let ?f = "\<lambda>resp. if is_exempt req CAMEL_CASE_EXEMPT_PATHS then resp else camelize_response resp"
  have case_r: "convert_exception (camel_case ?L ((fresh_request req)\<lparr>rq_id := rid\<rparr>)) =
      bindE (?L ((fresh_request (inner_request req))\<lparr>rq_id := rid\<rparr>)) (\<lambda>resp. ret (?f resp))" for rid
    by (simp add: camel_case_def fresh_request_def inner_request_def convert_exception_answers)
  have header: "bindE (bindE n (\<lambda>resp. ret (?f resp))) (\<lambda>resp. ret (add_header k rid resp)) =
      bindE (bindE n (\<lambda>resp. ret (add_header k rid resp))) (\<lambda>resp. ret (?f resp))" for n :: "http_response act" and k rid
    by (rule ext) (simp add: bindE_def split: prod.split sum.split)
  have "served (site_settings (srv_site srv)) (routed srv q m) = request_id_middleware ?L"
    by (simp add: served_def tenant_layers_def)
  then show ?thesis
    unfolding handle_def request_id_middleware_def case_r
    by (intro ext) (simp add: fresh_request_def bindE_def header split: prod.split sum.split)
qed

subsection \<open>Only the request and its customer and tenant reach the view\<close>

lemma customer_auth_cong:
  assumes "\<And>c. h (r\<lparr>rq_customer := c\<rparr>) = h' (r\<lparr>rq_customer := c\<rparr>)" and "h r = h' r"
  shows "customer_auth cfg h r = customer_auth cfg h' r"
  using assms by (simp add: customer_auth_def Let_def cong: if_cong)

lemma served_cong:
  assumes "\<And>r'. rq_http r' = rq_http r \<Longrightarrow> view r' = view' r'"
  shows "served cfg view r = served cfg view' r"
proof -
  have a: "customer_auth cfg (atomic_request view) r' = customer_auth cfg (atomic_request view') r'"
    if "rq_http r' = rq_http r" for r'
    by (rule customer_auth_cong) (simp_all add: atomic_request_def dispatch_def assms that)
  have t: "tenant_resolver cfg (\<lambda>r. convert_exception (tenant_db_session (\<lambda>r. convert_exception
        (customer_auth cfg (atomic_request view) r)) r)) r' =
      tenant_resolver cfg (\<lambda>r. convert_exception (tenant_db_session (\<lambda>r. convert_exception
        (customer_auth cfg (atomic_request view') r)) r)) r'" if "rq_http r' = rq_http r" for r'
    using that by (simp add: tenant_resolver_def tenant_db_session_def a cong: if_cong option.case_cong get_result.case_cong)
  show ?thesis by (simp add: served_def request_id_middleware_def t)
qed

lemma tables_frame [simp]:
  "tables (w\<lparr>tenant_ctx := c\<rparr>) = tables w" "tables (w\<lparr>fresh_id := n\<rparr>) = tables w"
  by (simp_all add: tables_def)

lemma preserves_tables_atomic: "preserves (\<lambda>w. tables w = T) m \<Longrightarrow> preserves (\<lambda>w. tables w = T) (atomic m)"
  by (rule preserves_atomic) (simp_all add: tables_def enter_atomic_def rollback_def commit_def)

lemma preserves_tables_context:
  "preserves (\<lambda>w. tables w = T) m \<Longrightarrow> preserves (\<lambda>w. tables w = T) (tenant_context t m)"
  unfolding tenant_context_def
  by (intro preserves_bindE preserves_finally_do)
    (simp_all add: preserves_def set_current_tenant_id_def reset_current_tenant_id_def)

lemma served_tables:
  assumes "\<And>r. preserves (\<lambda>w. tables w = T) (view r)"
  shows "preserves (\<lambda>w. tables w = T) (served cfg view r)"
  unfolding served_def tenant_resolver_def tenant_db_session_def atomic_request_def
  by (intro request_id_preserves convert_exception_preserves hoare_intros preserves_tables_context preserves_tables_atomic
      customer_auth_preserves dispatch_preserves assms) simp_all

subsection \<open>A request is a step of the system\<close>

lemma exempt_inner [simp]: "is_exempt (inner_request req) paths = is_exempt req paths"
  by (simp add: inner_request_def decamelize_request_def is_exempt_def split: http_body.split)

lemma path_inner [simp]: "req_path (inner_request req) = req_path req"
  by (simp add: inner_request_def decamelize_request_def split: http_body.split)

lemma refused_tables: "preserves (\<lambda>w. tables w = T) (refused srv req m c)"
  unfolding refused_def by (intro hoare_intros)

lemma token_authentication_any: "preserves I (token_authentication ttl key)"
  using token_authentication_keeps by (simp add: preserves_def)

lemma permission_denied_any: "preserves I (permission_denied u why)"
  unfolding permission_denied_def by (intro hoare_intros)

lemmas refusal_intros = hoare_intros token_authentication_any permission_denied_any refused_tables

lemma refusals_keep_tables:
  "preserves (\<lambda>w. tables w = T) (customer_view (\<lambda>_ _. refused srv req m c) r)"
  "preserves (\<lambda>w. tables w = T) (tenant_admin_view ttl key (\<lambda>_ _. refused srv req m c) r)"
  "preserves (\<lambda>w. tables w = T) (platform_admin_view ttl key (\<lambda>_ _. refused srv req m c) r)"
  "preserves (\<lambda>w. tables w = T) (authenticated_view ttl key (\<lambda>_ _. refused srv req m c) r)"
  "preserves (\<lambda>w. tables w = T) (health_get srv r)"
  unfolding customer_view_def tenant_admin_view_def platform_admin_view_def authenticated_view_def health_get_def Let_def
  by (intro refusal_intros)+

text \<open>Every view is one of the views of the system, by the audience of its class, or a refusal.\<close>

definition app_view :: "server \<Rightarrow> string option \<Rightarrow> audience \<Rightarrow> handler \<Rightarrow> bool" where
  "app_view srv key a h \<longleftrightarrow>
     (\<exists>x. a = Storefront \<and> h = customer_view (shop_view (srv_site srv) x))
   \<or> (\<exists>x. a = TenantAdmins \<and> h = tenant_admin_view (site_ttl (srv_site srv)) key (admin_view (srv_site srv) x))
   \<or> (\<exists>x. a \<in> {PlatformAdmins, AnyAdmin, Anyone} \<and> h = platform_view (srv_site srv) x key)
   \<or> (\<exists>name. a = Anyone \<and> h = webhook_view (site_env (srv_site srv)) name)
   \<or> (\<forall>T r. preserves (\<lambda>w. tables w = T) (h r))"

lemma answer_cases:
  fixes c :: "(exn + app_call) option"
  obtains "c = None" | e where "c = Some (Inl e)" | x where "c = Some (Inr (Shop x))"
    | x where "c = Some (Inr (Admin x))" | x where "c = Some (Inr (Platform x))" | name where "c = Some (Inr (Webhook name))"
    | "c = Some (Inr Health)"
proof (cases c)
  case (Some y)
  show ?thesis
  proof (cases y)
    case (Inr x)
    then show ?thesis using that Some by (cases x) auto
  qed (use that Some in blast)
qed (use that in blast)

lemma view_is_app_view:
  assumes "vc_audience v \<noteq> Foreign"
  obtains h where "app_view srv (site_token (srv_site srv) req) (vc_audience v) h"
    and "\<And>r. rq_http r = req \<Longrightarrow> view_handler srv v q m as r = h r"
proof -
  let ?key = "site_token (srv_site srv) req"
  obtain c where c: "vc_methods v (srv_inputs srv) req q (handled_as m) as = c" by simp
  define h where "h r = (case vc_audience v of
       Storefront \<Rightarrow> customer_view (\<lambda>cust r. case c of Some (Inr (Shop x)) \<Rightarrow> shop_view (srv_site srv) x cust r | _ \<Rightarrow> refused srv req m c) r
     | TenantAdmins \<Rightarrow> tenant_admin_view (site_ttl (srv_site srv)) ?key (\<lambda>u r. case c of
           Some (Inr (Admin x)) \<Rightarrow> admin_view (srv_site srv) x u r | _ \<Rightarrow> refused srv req m c) r
     | PlatformAdmins \<Rightarrow> (case c of Some (Inr (Platform x)) \<Rightarrow> platform_view (srv_site srv) x ?key r
              | _ \<Rightarrow> platform_admin_view (site_ttl (srv_site srv)) ?key (\<lambda>u r. refused srv req m c) r)
     | AnyAdmin \<Rightarrow> (case c of Some (Inr (Platform x)) \<Rightarrow> platform_view (srv_site srv) x ?key r
              | _ \<Rightarrow> authenticated_view (site_ttl (srv_site srv)) ?key (\<lambda>u r. refused srv req m c) r)
     | Anyone \<Rightarrow> (case c of Some (Inr (Platform x)) \<Rightarrow> platform_view (srv_site srv) x ?key r
              | Some (Inr (Webhook name)) \<Rightarrow> webhook_view (site_env (srv_site srv)) name r
              | Some (Inr Health) \<Rightarrow> health_get srv r
              | _ \<Rightarrow> refused srv req m c)
     | Foreign \<Rightarrow> srv_foreign srv r)" for r
  have "view_handler srv v q m as r = h r" if "rq_http r = req" for r
    using that by (simp only: view_handler_def Let_def h_def c)
  moreover have "app_view srv ?key (vc_audience v) h"
    using assms
    by (rule_tac answer_cases [of c]; cases "vc_audience v";
        auto simp: h_def [abs_def] app_view_def refusals_keep_tables refused_tables)
  ultimately show ?thesis using that by blast
qed

lemma health_route:
  "resolve (urlpatterns False admin_site tb) ''api/v1/health'' = Some (HealthView, [])"
  by (rule resolve_reached [of "[Lit ''api/v1/health'']"])
    (simp_all add: urlpatterns_def own_tables)

lemma health_keeps_tables: "preserves (\<lambda>w. tables w = T) (view_handler srv HealthView q m [] r)"
  by (cases m) (simp_all add: view_handler_def HealthView_def open_class_def Let_def refusals_keep_tables refused_tables)

lemma served_closed:
  assumes "\<And>T r. preserves (\<lambda>w. tables w = T) (view r)" and "served cfg view r w = (res, w')"
  shows "tables w' = tables w"
  using served_tables [of "tables w" view cfg r] assms by (fastforce simp: preserves_def)

lemma handle_steps:
  assumes "handle srv q m req w = (res, w')" and "foreign_table (srv_admin_site srv)"
    and "\<not> set_debug (site_settings (srv_site srv))" and "req_path req = CHR ''/'' # p"
    and "\<And>v as. route_of srv req = Some (v, as) \<Longrightarrow> vc_audience v \<noteq> Foreign"
  shows "step (srv_site srv) w w' \<or> tables w' = tables w"
proof -
  let ?cfg = "site_settings (srv_site srv)" and ?req = "inner_request req"
  obtain res0 where run: "served ?cfg (routed srv q m) (fresh_request ?req) w = (res0, w')"
    using assms(1) by (cases "served ?cfg (routed srv q m) (fresh_request ?req) w")
      (auto simp: handle_served bindE_def split: sum.splits)
  have as_h: "served ?cfg h (fresh_request ?req) w = (res0, w')"
    if "\<And>r. rq_http r = ?req \<Longrightarrow> routed srv q m r = h r" for h
    using run served_cong [of "fresh_request ?req" "routed srv q m" h ?cfg] that by (simp add: fresh_request_def)
  have inner: "route_of srv ?req = route_of srv req" by (simp add: route_of_def)
  show ?thesis
  proof (cases "route_of srv req")
    case None
    have "served ?cfg (\<lambda>_. ret (srv_not_found srv)) (fresh_request ?req) w = (res0, w')"
      by (rule as_h) (simp add: routed_def None inner)
    then have "tables w' = tables w" by (rule served_closed [rotated]) (rule preserves_ret)
    then show ?thesis ..
  next
    case (Some y)
    obtain v as where y: "y = (v, as)" by (cases y)
    have found: "resolve (urlpatterns False (srv_admin_site srv) (srv_toolbar srv)) p = Some (v, as)"
      using Some assms(3,4) y by (simp add: route_of_def)
    have routed: "routed srv q m r = view_handler srv v q m as r" if "rq_http r = ?req" for r
      using that Some y inner by (simp add: routed_def)
    have tier: "is_exempt ?req GLOBAL_EXEMPT_PATHS \<longleftrightarrow> vc_audience v \<notin> {Storefront, TenantAdmins} \<and> p \<noteq> ''api/v1/health''"
      using route_tier(1) [OF found assms(2), of ?req] assms(4) by simp
    show ?thesis
    proof (cases "p = ''api/v1/health''")
      case True
      then have "v = HealthView" "as = []" using found health_route by simp_all
      then have "served ?cfg (view_handler srv HealthView q m []) (fresh_request ?req) w = (res0, w')"
        using as_h [of "view_handler srv HealthView q m []"] routed by simp
      then have "tables w' = tables w" by (rule served_closed [rotated]) (rule health_keeps_tables)
      then show ?thesis ..
    next
      case False
      obtain h where h: "app_view srv (site_token (srv_site srv) ?req) (vc_audience v) h"
          "\<And>r. rq_http r = ?req \<Longrightarrow> view_handler srv v q m as r = h r"
        using view_is_app_view assms(5) Some y by metis
      have run_h: "served ?cfg h (fresh_request ?req) w = (res0, w')"
        by (rule as_h) (simp add: routed h(2))
      from h(1) show ?thesis unfolding app_view_def
        using run_h tier False step.shop [of ?req "srv_site srv" _ w res0 w'] step.admin [of ?req "srv_site srv" _ w res0 w']
          step.platform [of ?req "srv_site srv" _ w res0 w'] step.webhook [of ?req "srv_site srv" _ w res0 w']
          served_closed [of h ?cfg "fresh_request ?req" w res0 w']
        by (auto simp: storefront_def)
    qed
  qed
qed

subsection \<open>A server\<close>

definition example_inputs :: "exn \<Rightarrow> inputs" where
  "example_inputs e =
     \<lparr>in_body = (\<lambda>_. Inr []), in_address = (\<lambda>_. Inl e), in_method = (\<lambda>_. Inl e), in_product = (\<lambda>_. Inl e),
       in_product_patch = (\<lambda>_. Inl e), in_upload = (\<lambda>_. None), in_coupon = (\<lambda>_. Inl e), in_customer = (\<lambda>_. Inl e),
       in_customer_patch = (\<lambda>_. Inl e), in_config = (\<lambda>_. Inl e), in_tenant = (\<lambda>_. Inl e), in_tenant_patch = (\<lambda>_. Inl e),
       in_membership = (\<lambda>_. Inl e), in_login = (\<lambda>_. Inl e)\<rparr>"

definition example_server :: server where
  "example_server =
     \<lparr>srv_site = example_site, srv_inputs = example_inputs (ValidationError JNull), srv_admin_site = [], srv_toolbar = [],
      srv_foreign = (\<lambda>_. ret no_content), srv_not_found = no_content\<lparr>resp_status := 404\<rparr>,
      srv_not_allowed = (\<lambda>_. ''Method not allowed.''), srv_metadata = (\<lambda>_. no_content), srv_db_error = None, srv_redis_error = None,
      srv_rabbitmq_error = None\<rparr>"

lemma example_route: "route_of example_server checkout_request = Some (CartCheckoutView, [])"
proof -
  have "resolve (urlpatterns False [] []) ''api/v1/cart/checkout'' = Some (CartCheckoutView, [])"
    by (rule resolve_reached [of "[Lit ''api/v1/'', Lit ''cart/checkout'']"]) (simp_all add: urlpatterns_def own_tables)
  then show ?thesis
    by (simp add: route_of_def example_server_def example_site_def example_settings_def checkout_request_def)
qed

text \<open>The sale of the shop, from the path of the request to its answer.\<close>

lemma example_sale:
  obtains resp w where "handle example_server [] POST checkout_request quiet_shop = (Inr resp, w)"
    and "resp_status resp = 201" and "map prod_stock_quantity (db_products w) = [3]" and "map ord_status (db_orders w) = [OrderPaid]"
proof -
  obtain resp w where run: "storefront example_settings (shop_view example_site (CheckoutPost [])) (fresh_request checkout_request)
       quiet_shop = (Inr resp, w)" and w: "resp_status resp = 201"
     "map prod_stock_quantity (db_products w) = [3]" "map ord_status (db_orders w) = [OrderPaid]"
    using shop_sale by (elim exE conjE) (rule that)
  have inner: "inner_request checkout_request = checkout_request"
    by (simp add: inner_request_def decamelize_request_def checkout_request_def)
  have c: "vc_methods CartCheckoutView (srv_inputs example_server) checkout_request [] POST [] = Some (Inr (Shop (CheckoutPost [])))"
    by (simp add: CartCheckoutView_def storefront_class_def parsed_def map_sum_inr_def bind_sum_def example_server_def example_inputs_def)
  have site: "srv_site example_server = example_site" by (simp add: example_server_def)
  have v: "routed example_server [] POST r = customer_view (shop_view example_site (CheckoutPost [])) r"
    if "rq_http r = checkout_request" for r
    using that example_route c by (simp add: routed_def view_handler_def Let_def site del: shop_view.simps)
  have "served example_settings (routed example_server [] POST) (fresh_request checkout_request) =
      storefront example_settings (shop_view example_site (CheckoutPost [])) (fresh_request checkout_request)"
    unfolding storefront_def by (rule served_cong) (simp add: v fresh_request_def)
  then have "handle example_server [] POST checkout_request quiet_shop =
      (Inr (if is_exempt checkout_request CAMEL_CASE_EXEMPT_PATHS then resp else camelize_response resp), w)"
    using run by (simp add: handle_served inner bindE_def example_server_def example_site_def)
  moreover have "resp_status (camelize_response resp) = resp_status resp"
    by (simp add: camelize_response_def split: http_body.split)
  ultimately show ?thesis using that w by (simp split: if_splits)
qed

end
