(* ===== verification/Settlements.thy ===== *)
theory Settlements
  imports Saga
begin

section \<open>What happens to a settled order\<close>

text \<open>
  The full effect of cancelling an order and of the events of a gateway: the reservations of the order, the stock
  they held, its payments and its status, and nothing else.
\<close>

subsection \<open>Units\<close>

definition units :: "reservation list \<Rightarrow> uuid \<Rightarrow> int" where
  "units rs p = sum_list (map res_quantity (filter (\<lambda>r. res_product r = p) rs))"

lemma units_Nil [simp]: "units [] p = 0"
  by (simp add: units_def)

lemma units_Cons [simp]: "units (r # rs) p = (if res_product r = p then res_quantity r else 0) + units rs p"
  by (simp add: units_def)

text \<open>Settling a list of reservations moves, for each product, their units at once.\<close>

lemma fold_units:
  assumes "\<And>a b p. f a (f b p) = f (a + b) p" and "\<And>p. f 0 p = p" and "\<And>q p. row_id (f q p) = row_id p"
  shows "fold (\<lambda>r. upd_where (\<lambda>p. row_id p = res_product r) (f (res_quantity r))) rs ps =
    map (\<lambda>p. f (units rs (row_id p)) p) ps"
proof (induction rs arbitrary: ps)
  case Nil
  then show ?case by (simp add: assms(2))
next
  case (Cons r rs)
  have "map (\<lambda>p. f (units rs (row_id p)) p) (upd_where (\<lambda>p. row_id p = res_product r) (f (res_quantity r)) ps) =
      map (\<lambda>p. f (units (r # rs) (row_id p)) p) ps"
    by (induction ps) (auto simp: assms add.commute)
  then show ?case using Cons by simp
qed

lemma fold_settled_units:
  assumes "settlement f old st"
  shows "fold (settled f st) rs w =
    w\<lparr>db_products := map (\<lambda>p. f (units rs (row_id p)) p) (db_products w),
      db_reservations := upd_where (\<lambda>x. row_id x \<in> row_id ` set rs) (set_res_status st (clock w)) (db_reservations w)\<rparr>"
proof -
  have "fold (\<lambda>r. upd_where (\<lambda>p. row_id p = res_product r) (f (res_quantity r))) rs ps =
      map (\<lambda>p. f (units rs (row_id p)) p) ps" for ps
    using assms by (intro fold_units) (auto simp: settlement_def adjust_defs algebra_simps)
  then show ?thesis by (simp add: fold_settled)
qed

text \<open>The rows with the identifiers of a filtered table are the filtered rows.\<close>

lemma upd_where_ids:
  assumes "distinct (map row_id rs)"
  shows "upd_where (\<lambda>x. row_id x \<in> row_id ` set (filter P rs)) f rs = upd_where P f rs"
proof (rule upd_where_cong)
  fix x assume "x \<in> set rs"
  then show "row_id x \<in> row_id ` set (filter P rs) \<longleftrightarrow> P x"
    using assms by (auto simp: distinct_map inj_on_def)
qed

subsection \<open>Settling some of the tenant's reservations\<close>

definition own_in :: "uuid \<Rightarrow> (reservation \<Rightarrow> bool) \<Rightarrow> world \<Rightarrow> reservation list" where
  "own_in t P w = filter (\<lambda>r. tenant_id r = t \<and> P r) (db_reservations w)"

definition settle_own ::
  "(int \<Rightarrow> product \<Rightarrow> product) \<Rightarrow> reservation_status \<Rightarrow> uuid \<Rightarrow> (reservation \<Rightarrow> bool) \<Rightarrow> world \<Rightarrow> world" where
  "settle_own f st t P w =
     w\<lparr>db_products := map (\<lambda>p. f (units (own_in t P w) (row_id p)) p) (db_products w),
       db_reservations := upd_where (\<lambda>r. tenant_id r = t \<and> P r) (set_res_status st (clock w)) (db_reservations w)\<rparr>"

lemma filter_objects_own:
  "tenant_ctx w = Some t \<Longrightarrow> filter P (objects reservations_tbl w) = own_in t P w"
  by (simp add: objects_def own_in_def conj_commute)

lemma settle_own_frame [simp]:
  "tenant_ctx (settle_own f st t P w) = tenant_ctx w" "clock (settle_own f st t P w) = clock w"
  "db_orders (settle_own f st t P w) = db_orders w" "db_payments (settle_own f st t P w) = db_payments w"
  "db_carts (settle_own f st t P w) = db_carts w"
  by (simp_all add: settle_own_def)

lemma fold_settle_own:
  assumes "inv t ids w" and "settlement f old st"
  shows "fold (settled f st) (own_in t P w) w = settle_own f st t P w"
proof -
  have "distinct (map row_id (db_reservations w))" using assms(1) by (simp add: inv_def ledger_def reservations_ok)
  from upd_where_ids [OF this, of "\<lambda>r. tenant_id r = t \<and> P r"]
  show ?thesis by (simp add: fold_settled_units [OF assms(2)] settle_own_def own_in_def)
qed

lemma own_ready:
  assumes "inv t ids w" and "settlement f old st" and "\<And>r. P r \<Longrightarrow> res_status r = old"
  shows "settle_ready f st (own_in t P w) w"
  using assms unfolding settle_ready_def own_in_def
  by (auto simp: inv_def ledger_def reservations_ok distinct_map_filter)

lemma settle_own_inv:
  assumes "inv t ids w" and "settlement f old st" and "\<And>r. P r \<Longrightarrow> res_status r = old"
  shows "inv t ids (settle_own f st t P w)"
proof -
  note ready = own_ready [OF assms(1,2), of P, OF assms(3)]
  have "inv t ids (fold (settled f st) (own_in t P w) w)"
    using assms(1) ledger_settled_list [OF ready] schema_fold_settled [OF ready] by (simp add: inv_def owned_fold_settled)
  then show ?thesis by (simp add: fold_settle_own [OF assms(1,2)])
qed

text \<open>The helpers of checkout, which do nothing for an empty list, settle exactly those.\<close>

lemma settle_own_run:
  assumes I: "inv t {} w" and f: "settlement f old st" and P: "\<And>r. P r \<Longrightarrow> res_status r = old"
  obtains w' where "do_when (own_in t P w \<noteq> []) (atomic (for_each (settle_if old f st) (own_in t P w))) w = (Inr (), w')"
    and "tables w' = tables (settle_own f st t P w)" and "clock w' = clock w" and "inv t {} w'"
proof (cases "own_in t P w = []")
  case True
  then have "fold (settled f st) (own_in t P w) w = w" by simp
  then have "settle_own f st t P w = w" using fold_settle_own [OF I f, of P] by simp
  with True I that [of w] show ?thesis by simp
next
  case False
  let ?rs = "own_in t P w"
  have d: "distinct (map row_id ?rs)"
    using I by (simp add: own_in_def inv_def ledger_def reservations_ok distinct_map_filter)
  have "\<forall>x \<in> set ?rs. x \<in> set (db_reservations w) \<and> tenant_id x = t \<and> res_status x = old"
    using P by (auto simp: own_in_def)
  then have run: "atomic (for_each (settle_if old f st) ?rs) w
      = (Inr (), commit w (fold (settled f st) ?rs (enter_atomic w)))"
    by (intro settle_atomic [OF _ I f d]) (simp_all add: same_rows_def)
  have own: "own_in t P (enter_atomic w) = ?rs" by (simp add: own_in_def enter_atomic_def)
  have eq: "fold (settled f st) ?rs (enter_atomic w) = settle_own f st t P (enter_atomic w)"
    using fold_settle_own [of t "{}" "enter_atomic w" f old st P] I f own by simp
  have tb: "tables (settle_own f st t P (enter_atomic w)) = tables (settle_own f st t P w)"
    by (simp add: settle_own_def own_in_def enter_atomic_def tables_def)
  show ?thesis
  proof (rule that)
    show "do_when (?rs \<noteq> []) (atomic (for_each (settle_if old f st) ?rs)) w = (Inr (), commit w (settle_own f st t P (enter_atomic w)))"
      using False run eq by simp
    show "tables (commit w (settle_own f st t P (enter_atomic w))) = tables (settle_own f st t P w)" by (simp add: tb)
    show "clock (commit w (settle_own f st t P (enter_atomic w))) = clock w" by (simp add: commit_def enter_atomic_def)
    show "inv t {} (commit w (settle_own f st t P (enter_atomic w)))"
      using settle_own_inv [of t "{}" "enter_atomic w" f old st P] I f P by simp
  qed
qed

subsection \<open>Cancellation\<close>

definition cancelled_payments :: "uuid \<Rightarrow> uuid \<Rightarrow> payment list \<Rightarrow> payment list" where
  "cancelled_payments t i ps =
     upd_where (\<lambda>p. tenant_id p = t \<and> pay_order p = i \<and> open_payment_status (pay_status p))
       (\<lambda>p. p\<lparr>pay_status := PayCancelled\<rparr>) ps"

text \<open>
  The state after an order is cancelled: what its active reservations held is available again, what its committed
  ones had taken is back in stock, its open payments and the order itself are cancelled.
\<close>

definition order_cancelled :: "uuid \<Rightarrow> uuid \<Rightarrow> world \<Rightarrow> world" where
  "order_cancelled t i w =
     w\<lparr>db_products := map (\<lambda>p. add_stock (units (own_in t (of_order_in i ResCommitted) w) (row_id p))
           (sub_reserved (units (own_in t (of_order_in i ResActive) w) (row_id p)) p)) (db_products w),
       db_reservations := upd_where (\<lambda>r. tenant_id r = t \<and> res_order r = Some i \<and> res_status r \<in> {ResActive, ResCommitted})
           (set_res_status ResReleased (clock w)) (db_reservations w),
       db_payments := cancelled_payments t i (db_payments w),
       db_orders := cancelled_rows i (clock w) (db_orders w)\<rparr>"

lemma tables_upd_payments: "tables (w\<lparr>db_payments := ps\<rparr>) = (tables w)\<lparr>db_payments := ps\<rparr>"
  by (simp add: tables_def)

lemma settle_own_tables:
  assumes "tables w = tables w'" and "clock w = clock w'"
  shows "tables (settle_own f st t P w) = tables (settle_own f st t P w')"
  using assms tables_db [OF assms(1)] by (simp add: settle_own_def own_in_def tables_upd)

lemma own_in_released:
  assumes "st \<noteq> old" and "st \<noteq> new"
  shows "own_in t (of_order_in i old) (settle_own f st t (of_order_in i new) w) =
    (if old = new then [] else own_in t (of_order_in i old) w)"
proof -
  have "filter (\<lambda>r. tenant_id r = t \<and> of_order_in i old r)
      (upd_where (\<lambda>r. tenant_id r = t \<and> of_order_in i new r) (set_res_status st (clock w)) rs) =
    (if old = new then [] else filter (\<lambda>r. tenant_id r = t \<and> of_order_in i old r) rs)" for rs
    using assms by (induction rs) (auto simp: of_order_in_def)
  then show ?thesis by (simp add: own_in_def settle_own_def)
qed

lemma released_twice:
  "upd_where (\<lambda>r. tenant_id r = t \<and> of_order_in i ResCommitted r) (set_res_status ResReleased n)
     (upd_where (\<lambda>r. tenant_id r = t \<and> of_order_in i ResActive r) (set_res_status ResReleased n) rs) =
   upd_where (\<lambda>r. tenant_id r = t \<and> res_order r = Some i \<and> res_status r \<in> {ResActive, ResCommitted})
     (set_res_status ResReleased n) rs"
  by (induction rs) (auto simp: of_order_in_def)

lemma payments_upd_ok:
  assumes "tbl_ok payments_tbl ps" and "\<And>p. row_id (f p) = row_id p" and "\<And>p. pay_idempotency_key (f p) = pay_idempotency_key p"
  shows "tbl_ok payments_tbl (upd_where P f ps)"
  using assms by (simp add: payments_tbl_def pk_ok_def map_upd_where)

lemma save_order_run:
  assumes "schema w" and "od \<in> set (db_orders w)"
  shows "save_order_status st od w =
    (Inr (od\<lparr>ord_status := st, updated_at := clock w\<rparr>),
     w\<lparr>db_orders := upd_where (\<lambda>r. row_id r = row_id od) (\<lambda>r. r\<lparr>ord_status := st, updated_at := clock w\<rparr>) (db_orders w)\<rparr>)"
proof -
  have ok: "tbl_ok orders_tbl (db_orders w)" using assms(1) by (rule schema_get)
  then have "tbl_ok orders_tbl (upd_where P (\<lambda>r. r\<lparr>ord_status := st, updated_at := n\<rparr>) (db_orders w))" for P n
    by (simp add: orders_ok map_upd_where)
  moreover have "filter (\<lambda>r. row_id r = row_id od) (db_orders w) \<noteq> []" using assms(2) by (auto simp: filter_empty_conv)
  ultimately show ?thesis
    by (simp add: save_order_status_def save_fields_def bindE_def update_where_def write_rows_def)
qed

lemma get_own_order:
  assumes I: "inv t ids w" and od: "od \<in> set (db_orders w)" "tenant_id od = t" and P: "P od" "\<And>x. P x \<Longrightarrow> row_id x = row_id od"
  shows "get_row orders_tbl P e w = (Inr od, w)"
proof -
  have "distinct (map row_id (db_orders w))" using schema_get(13) [OF inv_schema [OF I]] by (simp add: orders_ok)
  then have "distinct (map row_id (objects orders_tbl w))"
    using inv_ctx [OF I] by (simp add: objects_def distinct_map_filter)
  moreover have "od \<in> set (objects orders_tbl w)" using od inv_ctx [OF I] by (simp add: objects_def)
  ultimately have one: "get_where (\<lambda>x. row_id x = row_id od) (objects orders_tbl w) = OneRow od"
    by (rule get_where_key)
  have "P x \<longleftrightarrow> row_id x = row_id od" if x: "x \<in> set (objects orders_tbl w)" for x
  proof
    assume "row_id x = row_id od"
    then have "x = od" by (rule get_where_unique [OF one x])
    with P(1) show "P x" by simp
  qed (rule P(2))
  then have "filter P (objects orders_tbl w) = filter (\<lambda>x. row_id x = row_id od) (objects orders_tbl w)"
    by (rule filter_cong [OF refl])
  from get_where_cong_filter [OF this] one have "get_where P (objects orders_tbl w) = OneRow od" by simp
  then show ?thesis by (simp add: get_row_def one_or_raise_def)
qed


lemma order_cancelled_steps:
  assumes "tables w1 = tables (settle_own sub_reserved ResReleased t (of_order_in i ResActive) w)" and "clock w1 = clock w"
    and "tables w2 = tables (settle_own add_stock ResReleased t (of_order_in i ResCommitted) w1)"
  shows "tables (w2\<lparr>db_payments := cancelled_payments t i (db_payments w2),
      db_orders := cancelled_rows i (clock w) (db_orders w2)\<rparr>) = tables (order_cancelled t i w)"
proof -
  have "tables w2 = tables (settle_own add_stock ResReleased t (of_order_in i ResCommitted)
      (settle_own sub_reserved ResReleased t (of_order_in i ResActive) w))"
    using assms settle_own_tables [OF assms(1)] by simp
  moreover have "own_in t (of_order_in i ResCommitted) (settle_own sub_reserved ResReleased t (of_order_in i ResActive) w) =
      own_in t (of_order_in i ResCommitted) w"
    by (simp add: own_in_released)
  ultimately have eq: "tables w2 = tables (w\<lparr>db_products := db_products (order_cancelled t i w),
      db_reservations := db_reservations (order_cancelled t i w)\<rparr>)"
    by (simp add: settle_own_def order_cancelled_def released_twice comp_def tables_def)
  have "db_payments w2 = db_payments w" "db_orders w2 = db_orders w" using tables_db [OF eq] by simp_all
  then have "tables (w2\<lparr>db_payments := cancelled_payments t i (db_payments w2),
      db_orders := cancelled_rows i (clock w) (db_orders w2)\<rparr>) =
    (tables w2)\<lparr>db_payments := cancelled_payments t i (db_payments w), db_orders := cancelled_rows i (clock w) (db_orders w)\<rparr>"
    by (simp add: tables_def)
  also have "\<dots> = tables (order_cancelled t i w)" unfolding eq by (simp add: order_cancelled_def tables_def)
  finally show ?thesis .
qed

lemma cancel_order_run:
  assumes I: "inv t {} w" and od: "od \<in> set (db_orders w)" "tenant_id od = t" and st: "ord_status od = OrderPending"
  obtains w' where "cancel_order (ord_customer od) (row_id od) w =
      (Inr (od\<lparr>ord_status := OrderCancelled, updated_at := clock w\<rparr>), w')"
    and "tables w' = tables (order_cancelled t (row_id od) w)"
proof -
  let ?i = "row_id od" and ?w = "enter_atomic w"
  have I0: "inv t {} ?w" and ck0: "clock ?w = clock w" using I by (simp_all add: enter_atomic_def)
  have tb0: "tables ?w = tables w" by simp
  obtain w1 where r1: "do_when (own_in t (of_order_in ?i ResActive) ?w \<noteq> [])
        (atomic (for_each (settle_if ResActive sub_reserved ResReleased) (own_in t (of_order_in ?i ResActive) ?w))) ?w = (Inr (), w1)"
    and t1: "tables w1 = tables (settle_own sub_reserved ResReleased t (of_order_in ?i ResActive) ?w)"
    and c1: "clock w1 = clock ?w" and I1: "inv t {} w1"
    using settle_own_run [OF I0 settlements(1), of "of_order_in ?i ResActive"] by (auto simp: of_order_in_def)
  obtain w2 where r2: "do_when (own_in t (of_order_in ?i ResCommitted) w1 \<noteq> [])
        (atomic (for_each (settle_if ResCommitted add_stock ResReleased) (own_in t (of_order_in ?i ResCommitted) w1))) w1 = (Inr (), w2)"
    and t2: "tables w2 = tables (settle_own add_stock ResReleased t (of_order_in ?i ResCommitted) w1)"
    and c2: "clock w2 = clock w1" and I2: "inv t {} w2"
    using settle_own_run [OF I1 settlements(3), of "of_order_in ?i ResCommitted"] by (auto simp: of_order_in_def)
  let ?w3 = "w2\<lparr>db_payments := cancelled_payments t ?i (db_payments w2)\<rparr>"
  have ok: "tbl_ok payments_tbl (db_payments w2)" using I2 by (intro schema_get inv_schema)
  then have ok3: "tbl_ok payments_tbl (cancelled_payments t ?i (db_payments w2))"
    unfolding cancelled_payments_def by (intro payments_upd_ok) simp_all
  have "update_rows payments_tbl (\<lambda>p. pay_order p = ?i \<and> open_payment_status (pay_status p))
      (\<lambda>p. p\<lparr>pay_status := PayCancelled\<rparr>) w2 =
    (Inr (length (filter (\<lambda>p. tenant_id p = t \<and> pay_order p = ?i \<and> open_payment_status (pay_status p)) (db_payments w2))), ?w3)"
    using ok3 inv_ctx [OF I2]
    by (simp add: update_rows_def update_where_def write_rows_def in_scope_def cancelled_payments_def eq_commute [of t])
  moreover have I3: "inv t {} ?w3" using I2 ok3 by simp
  have os: "db_orders w2 = db_orders w" using tables_db [OF t2] tables_db [OF t1] by (simp add: enter_atomic_def)
  have "save_order_status OrderCancelled od ?w3 = (Inr (od\<lparr>ord_status := OrderCancelled, updated_at := clock w\<rparr>),
      ?w3\<lparr>db_orders := cancelled_rows ?i (clock w) (db_orders w2)\<rparr>)"
    using save_order_run [of ?w3 od OrderCancelled] I3 od(1) os c1 c2 ck0 by (simp add: inv_schema cancelled_rows_def)
  moreover have "get_row orders_tbl (\<lambda>x. ord_customer x = ord_customer od \<and> row_id x = ?i)
      (ResourceNotFound ''Order not found'') ?w = (Inr od, ?w)"
    using I0 od by (intro get_own_order) (simp_all add: enter_atomic_def)
  ultimately have run: "cancel_order (ord_customer od) ?i w = (Inr (od\<lparr>ord_status := OrderCancelled, updated_at := clock w\<rparr>),
      commit w (?w3\<lparr>db_orders := cancelled_rows ?i (clock w) (db_orders w2)\<rparr>))"
    unfolding cancel_order_def release_reservations_def reverse_committed_reservations_def
    using r1 r2 st inv_ctx [OF I0] inv_ctx [OF I1]
    by (intro atomic_Inr) (simp add: bindE_def seqE_def filter_rows_def filter_objects_own)
  have "tables (?w3\<lparr>db_orders := cancelled_rows ?i (clock w) (db_orders w2)\<rparr>) = tables (order_cancelled t ?i ?w)"
    using order_cancelled_steps [OF t1 c1 t2] by (simp add: ck0)
  moreover have "tables (order_cancelled t ?i ?w) = tables (order_cancelled t ?i w)"
    by (simp add: order_cancelled_def own_in_def enter_atomic_def tables_def)
  ultimately show ?thesis by (intro that [OF run]) simp
qed


subsection \<open>Events of a gateway\<close>

definition event_recorded :: "webhook_args \<Rightarrow> world \<Rightarrow> bool" where
  "event_recorded a w \<longleftrightarrow>
     (\<exists>e \<in> set (db_webhook_events w). pwe_gateway_name e = wa_gateway_name a \<and> pwe_event_id e = wa_event_id a)"

lemma webhook_events_ok:
  "tbl_ok webhook_events_tbl es \<longleftrightarrow> distinct (map (\<lambda>e. (pwe_gateway_name e, pwe_event_id e)) es)"
  by (simp add: webhook_events_tbl_def)

lemma rollback_enter [simp]: "rollback w (enter_atomic w) = w"
  by (simp add: rollback_def enter_atomic_def keep_seq_def fun_eq_iff split: option.split)

text \<open>A second delivery runs into the constraint and takes nothing with it.\<close>

lemma recorded_event_ignored:
  assumes "event_recorded a w"
  shows "process_webhook_event a w = (Inr (), w)"
proof -
  have "\<not> tbl_ok webhook_events_tbl (db_webhook_events w @ [e])"
    if "pwe_gateway_name e = wa_gateway_name a" "pwe_event_id e = wa_event_id a" for e
    using assms that by (force simp: event_recorded_def webhook_events_ok)
  then have "record_event a (enter_atomic w) = (Inl (IntegrityError (tbl_name webhook_events_tbl)), enter_atomic w)"
    by (simp add: record_event_def bindE_def insert_row_def enter_atomic_def)
  then have "atomic (seqE (record_event a) (mutate_for_event a)) w = (Inl (IntegrityError (tbl_name webhook_events_tbl)), w)"
    by (simp add: atomic_def atomic_with_def seqE_def bindE_def)
  then show ?thesis by (simp add: process_webhook_event_def try_except_def is_integrity_error_def)
qed

definition event_row :: "webhook_args \<Rightarrow> processed_webhook_event" where
  "event_row a = \<lparr>pwe_gateway_name = wa_gateway_name a, pwe_event_id = wa_event_id a, pwe_event_type = wa_event_type a\<rparr>"

definition with_event :: "webhook_args \<Rightarrow> world \<Rightarrow> world" where
  "with_event a w =
     w\<lparr>db_webhook_events := db_webhook_events w @ [event_row a],
       db_payments := upd_where (\<lambda>p. row_id p = wa_payment a)
         (\<lambda>p. (set_status_response (wa_new_status a) (wa_raw_payload a) p)\<lparr>updated_at := clock w\<rparr>) (db_payments w)\<rparr>"

definition with_order_status :: "order_status \<Rightarrow> uuid \<Rightarrow> world \<Rightarrow> world" where
  "with_order_status st i w =
     w\<lparr>db_orders := upd_where (\<lambda>r. row_id r = i) (\<lambda>r. r\<lparr>ord_status := st, updated_at := clock w\<rparr>) (db_orders w)\<rparr>"

lemma get_own:
  assumes d: "distinct (map row_id (tbl_rows tb w))" and x: "x \<in> set (tbl_rows tb w)" and ctx: "tenant_ctx w = Some (tenant_id x)"
    and P: "P x" "\<And>y. P y \<Longrightarrow> row_id y = row_id x"
  shows "get_row tb P e w = (Inr x, w)"
proof -
  have "distinct (map row_id (objects tb w))" "x \<in> set (objects tb w)"
    using d x ctx by (simp_all add: objects_def distinct_map_filter)
  then have one: "get_where (\<lambda>y. row_id y = row_id x) (objects tb w) = OneRow x" by (rule get_where_key)
  have "P y \<longleftrightarrow> row_id y = row_id x" if y: "y \<in> set (objects tb w)" for y
  proof
    assume "row_id y = row_id x"
    then have "y = x" by (rule get_where_unique [OF one y])
    with P(1) show "P y" by simp
  qed (rule P(2))
  then have "filter P (objects tb w) = filter (\<lambda>y. row_id y = row_id x) (objects tb w)"
    by (rule filter_cong [OF refl])
  from get_where_cong_filter [OF this] one have "get_where P (objects tb w) = OneRow x" by simp
  then show ?thesis by (simp add: get_row_def one_or_raise_def)
qed

lemma payments_ok:
  "tbl_ok payments_tbl ps \<longleftrightarrow> distinct (map row_id ps) \<and> distinct (map pay_idempotency_key ps)"
  by (simp add: payments_tbl_def pk_ok_def)

lemma with_event_inv:
  assumes "inv t ids w" and "\<not> event_recorded a w"
  shows "inv t ids (with_event a w)"
proof -
  have "tbl_ok payments_tbl (upd_where P (\<lambda>p. (set_status_response st j p)\<lparr>updated_at := n\<rparr>) (db_payments w))" for P st j n
    using schema_get(16) [OF inv_schema [OF assms(1)]] by (intro payments_upd_ok) (simp_all add: set_status_response_def)
  moreover have "tbl_ok webhook_events_tbl (db_webhook_events w @ [event_row a])"
    using schema_get(18) [OF inv_schema [OF assms(1)]] assms(2)
    by (auto simp: webhook_events_ok event_recorded_def event_row_def)
  ultimately show ?thesis using assms(1) by (simp add: with_event_def)
qed

lemma event_written:
  assumes I: "inv t ids w" and new: "\<not> event_recorded a w" and p: "p \<in> set (db_payments w)" "tenant_id p = t" "row_id p = wa_payment a"
    and od: "od \<in> set (db_orders w)" "tenant_id od = t" "row_id od = pay_order p"
  shows "seqE (record_event a) (mutate_for_event a) w = apply_event (wa_event_type a) od (with_event a w)"
proof -
  let ?w1 = "w\<lparr>db_webhook_events := db_webhook_events w @ [event_row a]\<rparr>"
  let ?p = "(set_status_response (wa_new_status a) (wa_raw_payload a) p)\<lparr>updated_at := clock w\<rparr>"
  have ok: "tbl_ok webhook_events_tbl (db_webhook_events w @ [event_row a])"
    using schema_get(18) [OF inv_schema [OF I]] new by (auto simp: webhook_events_ok event_recorded_def event_row_def)
  then have r: "record_event a w = (Inr (), ?w1)"
    by (simp add: record_event_def bindE_def insert_row_def event_row_def)
  have g: "get_payment (wa_payment a) ?w1 = (Inr p, ?w1)"
    unfolding get_payment_def using schema_get(16) [OF inv_schema [OF I]] p inv_ctx [OF I]
    by (intro get_own) (auto simp: payments_ok)
  have okp: "tbl_ok payments_tbl (upd_where (\<lambda>x. row_id x = wa_payment a)
      (\<lambda>p. (set_status_response (wa_new_status a) (wa_raw_payload a) p)\<lparr>updated_at := clock w\<rparr>) (db_payments w))"
    using schema_get(16) [OF inv_schema [OF I]] by (intro payments_upd_ok) (simp_all add: set_status_response_def)
  have "filter (\<lambda>x. row_id x = row_id p) (db_payments w) \<noteq> []" using p by (auto simp: filter_empty_conv)
  with okp have s: "save_fields payments_tbl (set_status_response (wa_new_status a) (wa_raw_payload a)) p ?w1
      = (Inr ?p, with_event a w)"
    using p(3) by (simp add: save_fields_def bindE_def update_where_def write_rows_def with_event_def)
  have po: "pay_order ?p = row_id od" using od(3) by (simp add: set_status_response_def)
  have o: "get_row orders_tbl (\<lambda>x. row_id x = pay_order ?p) (DoesNotExist ''Order'') (with_event a w)
      = (Inr od, with_event a w)"
    using schema_get(13) [OF inv_schema [OF I]] od inv_ctx [OF I]
    by (intro get_own) (auto simp: orders_ok with_event_def set_status_response_def)
  show ?thesis
    unfolding mutate_for_event_def using r g s o by (simp add: seqE_def bindE_def)
qed


lemma with_order_status_inv: "inv t ids w \<Longrightarrow> inv t ids (with_order_status st i w)"
  using schema_get(13) [OF inv_schema [of t ids w]]
  by (simp add: with_order_status_def orders_ok map_upd_where)

lemma with_order_status_frame [simp]:
  "tenant_ctx (with_order_status st i w) = tenant_ctx w" "clock (with_order_status st i w) = clock w"
  "db_reservations (with_order_status st i w) = db_reservations w"
  "on_commit_hooks (with_order_status st i w) = on_commit_hooks w"
  "atomic_depth (with_order_status st i w) = atomic_depth w" "db_carts (with_order_status st i w) = db_carts w"
  by (simp_all add: with_order_status_def)

text \<open>The reservations of the order are settled with its status.\<close>

definition order_settled ::
  "(int \<Rightarrow> product \<Rightarrow> product) \<Rightarrow> reservation_status \<Rightarrow> order_status \<Rightarrow> order \<Rightarrow> world \<Rightarrow> world" where
  "order_settled f rst ost od w =
     settle_own f rst (tenant_id od) (active_of_order (row_id od)) (with_order_status ost (row_id od) w)"

lemma settle_order_run:
  assumes I: "inv t ids w" and od: "od \<in> set (db_orders w)" "tenant_id od = t" and f: "settlement f ResActive rst"
  shows "save_order_status ost od w =
      (Inr (od\<lparr>ord_status := ost, updated_at := clock w\<rparr>), with_order_status ost (row_id od) w)"
    and "bindE (filter_rows reservations_tbl (active_of_order (row_id od))) (for_each (settle f rst))
      (with_order_status ost (row_id od) w) = (Inr (), order_settled f rst ost od w)"
proof -
  show "save_order_status ost od w =
      (Inr (od\<lparr>ord_status := ost, updated_at := clock w\<rparr>), with_order_status ost (row_id od) w)"
    using save_order_run [OF inv_schema [OF I] od(1)] by (simp add: with_order_status_def)
  note I' = with_order_status_inv [OF I, of ost "row_id od"]
  show "bindE (filter_rows reservations_tbl (active_of_order (row_id od))) (for_each (settle f rst))
      (with_order_status ost (row_id od) w) = (Inr (), order_settled f rst ost od w)"
    using for_order_run [OF I' f] fold_settle_own [OF I' f] inv_ctx [OF I'] od(2)
    by (simp add: filter_objects_own order_settled_def)
qed

lemma apply_order_paid_run:
  assumes I: "inv t ids w" and od: "od \<in> set (db_orders w)" "tenant_id od = t" and st: "ord_status od = OrderPending"
    and d: "atomic_depth w \<noteq> 0"
  shows "apply_order_paid od w = (Inr (),
    (order_settled sub_both ResCommitted OrderPaid od w)\<lparr>on_commit_hooks := on_commit_hooks w @ [GenerateInvoice t (row_id od)]\<rparr>)"
proof -
  note run = settle_order_run [OF I od settlements(2), of OrderPaid]
  have "on_commit_hooks (order_settled f rst ost od w) = on_commit_hooks w"
    "atomic_depth (order_settled f rst ost od w) = atomic_depth w" for f rst ost
    by (simp_all add: order_settled_def settle_own_def)
  then show ?thesis
    using run st d od(2)
    by (simp add: apply_order_paid_def commit_reservations_for_order_def enqueue_invoice_on_commit_def on_commit_def
        bindE_def [of "save_order_status OrderPaid od"] seqE_Inr)
qed

text \<open>The cart is looked for while it is in checkout; a converted cart stays converted.\<close>

lemma apply_order_cancelled_run:
  assumes I: "inv t ids w" and od: "od \<in> set (db_orders w)" "tenant_id od = t" and st: "ord_status od = OrderPending"
    and cart: "\<forall>c \<in> set (db_carts w). ord_cart od = Some (row_id c) \<longrightarrow> cart_status c \<noteq> CartCheckingOut"
  shows "apply_order_cancelled od w = (Inr (), order_settled sub_reserved ResReleased OrderCancelled od w)"
proof -
  let ?w = "order_settled sub_reserved ResReleased OrderCancelled od w"
  note run = settle_order_run [OF I od settlements(1), of OrderCancelled]
  have carts: "db_carts ?w = db_carts w" by (simp add: order_settled_def)
  have ok: "carts.constraints ?w"
    using schema_get(8) [OF inv_schema [OF I]] carts by simp
  have "revert_cart_if_checking_out (od\<lparr>ord_status := OrderCancelled, updated_at := clock w\<rparr>) ?w = (Inr (), ?w)"
  proof (cases "ord_cart od")
    case None
    then show ?thesis by (simp add: revert_cart_if_checking_out_def)
  next
    case (Some c)
    have "update_rows_all carts_tbl (\<lambda>x. row_id x = c \<and> cart_status x = CartCheckingOut) (\<lambda>x. x\<lparr>cart_status := CartActive\<rparr>) ?w
        = (Inr 0, ?w)"
      unfolding update_rows_all_def using ok cart Some carts by (intro carts.update_where_no_match) auto
    then show ?thesis using Some by (simp add: revert_cart_if_checking_out_def revert_checking_out_def bindE_def)
  qed
  then show ?thesis
    using run st
    by (simp add: apply_order_cancelled_def release_reservations_for_order_def
        bindE_def [of "save_order_status OrderCancelled od"] seqE_Inr)
qed

text \<open>What the first delivery of an event does to a pending order.\<close>

lemma event_applied:
  assumes I: "inv t {} w" and new: "\<not> event_recorded a w"
    and p: "p \<in> set (db_payments w)" "tenant_id p = t" "row_id p = wa_payment a"
    and od: "od \<in> set (db_orders w)" "tenant_id od = t" "row_id od = pay_order p" and st: "ord_status od = OrderPending"
    and ev: "wa_event_type a = ''payment.captured'' \<or> wa_event_type a \<in> {''payment.failed'', ''payment.cancelled''} \<and>
      (\<forall>c \<in> set (db_carts w). ord_cart od = Some (row_id c) \<longrightarrow> cart_status c \<noteq> CartCheckingOut)"
  obtains w' where "process_webhook_event a w = (Inr (), w')"
    and "tables w' = tables (if wa_event_type a = ''payment.captured''
      then order_settled sub_both ResCommitted OrderPaid od (with_event a w)
      else order_settled sub_reserved ResReleased OrderCancelled od (with_event a w))"
    and "event_recorded a w'"
    and "wa_event_type a = ''payment.captured'' \<Longrightarrow> atomic_depth w = 0 \<Longrightarrow>
      task_queue w' = task_queue w @ on_commit_hooks w @ [GenerateInvoice t (row_id od)]"
proof -
  let ?w = "enter_atomic w"
  have I0: "inv t {} ?w" and new0: "\<not> event_recorded a ?w" using I new by (simp_all add: event_recorded_def enter_atomic_def)
  have rows: "db_payments ?w = db_payments w" "db_orders ?w = db_orders w" "db_carts ?w = db_carts w"
    by (simp_all add: enter_atomic_def)
  note written = event_written [OF I0 new0, of p od, unfolded rows, OF p od]
  note I1 = with_event_inv [OF I0 new0]
  have od1: "od \<in> set (db_orders (with_event a ?w))" and d: "atomic_depth (with_event a ?w) \<noteq> 0"
    and carts: "db_carts (with_event a ?w) = db_carts w"
    using od(1) by (simp_all add: with_event_def enter_atomic_def)
  let ?goal = "if wa_event_type a = ''payment.captured''
      then order_settled sub_both ResCommitted OrderPaid od (with_event a ?w)
      else order_settled sub_reserved ResReleased OrderCancelled od (with_event a ?w)"
  have "\<exists>w1. apply_event (wa_event_type a) od (with_event a ?w) = (Inr (), w1) \<and> tables w1 = tables ?goal \<and>
      (wa_event_type a = ''payment.captured'' \<longrightarrow> task_queue w1 = task_queue w \<and>
        on_commit_hooks w1 = on_commit_hooks w @ [GenerateInvoice t (row_id od)])"
  proof (cases "wa_event_type a = ''payment.captured''")
    case True
    then show ?thesis
      using apply_order_paid_run [OF I1 od1 od(2) st d]
      by (simp add: apply_event_def tables_def order_settled_def settle_own_def with_order_status_def with_event_def enter_atomic_def)
  next
    case False
    with ev carts show ?thesis
      using apply_order_cancelled_run [OF I1 od1 od(2) st] by (auto simp: apply_event_def)
  qed
  then obtain w1 where run: "apply_event (wa_event_type a) od (with_event a ?w) = (Inr (), w1)"
    and tb: "tables w1 = tables ?goal"
    and sent: "wa_event_type a = ''payment.captured'' \<Longrightarrow> task_queue w1 = task_queue w \<and>
        on_commit_hooks w1 = on_commit_hooks w @ [GenerateInvoice t (row_id od)]"
    by blast
  have "process_webhook_event a w = (Inr (), commit w w1)"
    using run written by (simp add: process_webhook_event_def try_except_def atomic_def atomic_with_def)
  moreover have "tables ?goal = tables (if wa_event_type a = ''payment.captured''
      then order_settled sub_both ResCommitted OrderPaid od (with_event a w)
      else order_settled sub_reserved ResReleased OrderCancelled od (with_event a w))"
    by (simp add: order_settled_def settle_own_def own_in_def with_order_status_def with_event_def enter_atomic_def tables_def)
  moreover have "db_webhook_events w1 = db_webhook_events w @ [event_row a]"
  proof -
    have "db_webhook_events w1 = db_webhook_events (tables ?goal)" unfolding tb [symmetric] by (simp add: tables_def)
    also have "\<dots> = db_webhook_events w @ [event_row a]"
      by (simp add: order_settled_def settle_own_def with_order_status_def with_event_def enter_atomic_def tables_def)
    finally show ?thesis .
  qed
  then have "event_recorded a (commit w w1)" by (simp add: event_recorded_def commit_def event_row_def)
  moreover have "task_queue (commit w w1) = task_queue w @ on_commit_hooks w @ [GenerateInvoice t (row_id od)]"
    if "wa_event_type a = ''payment.captured''" "atomic_depth w = 0"
    using sent [OF that(1)] that(2) by (simp add: commit_def)
  ultimately show ?thesis using tb by (intro that) simp_all
qed


text \<open>An order that is no longer pending is left alone, but the status of its payment is overwritten.\<close>

lemma event_late:
  assumes I: "inv t {} w" and new: "\<not> event_recorded a w"
    and p: "p \<in> set (db_payments w)" "tenant_id p = t" "row_id p = wa_payment a"
    and od: "od \<in> set (db_orders w)" "tenant_id od = t" "row_id od = pay_order p" and st: "ord_status od \<noteq> OrderPending"
    and ev: "wa_event_type a \<noteq> ''payment.refunded''"
  obtains w' where "process_webhook_event a w = (Inr (), w')" and "tables w' = tables (with_event a w)"
proof -
  let ?w = "enter_atomic w"
  have I0: "inv t {} ?w" and new0: "\<not> event_recorded a ?w" using I new by (simp_all add: event_recorded_def enter_atomic_def)
  have rows: "db_payments ?w = db_payments w" "db_orders ?w = db_orders w" by (simp_all add: enter_atomic_def)
  note written = event_written [OF I0 new0, of p od, unfolded rows, OF p od]
  have "apply_event (wa_event_type a) od (with_event a ?w) = (Inr (), with_event a ?w)"
    using st ev by (simp add: apply_event_def apply_order_paid_def apply_order_cancelled_def)
  then have "process_webhook_event a w = (Inr (), commit w (with_event a ?w))"
    using written by (simp add: process_webhook_event_def try_except_def atomic_def atomic_with_def)
  moreover have "tables (commit w (with_event a ?w)) = tables (with_event a w)"
    by (simp add: with_event_def enter_atomic_def commit_def tables_def)
  ultimately show ?thesis by (rule that)
qed

end
