(* ===== verification/Sweeps.thy ===== *)
theory Sweeps
  imports Settlements
begin

section \<open>What the sweep of the pending payments achieves\<close>

text \<open>
  The sweep of \<^verbatim>\<open>apps/payments/tasks.py\<close> locks each payment with a query that PostgreSQL refuses, so on
  PostgreSQL it leaves everything as it was and reports that it has settled nothing. What it is meant to do is shown for a
  database that takes the query: a payment that its gateway has captured does not stay pending, the sweep that picks it
  records the capture and pays its order, whatever happens to the other payments of the batch.
\<close>

subsection \<open>On PostgreSQL\<close>

lemma refused_one:
  assumes "\<not> env_locks_outer_joins e" and "p \<in> set (db_payments w)" "row_id p = i" "pay_status p = PayPending"
  obtains x where "reconcile_one e i w = (Inl x, w)"
proof -
  let ?x = "DatabaseError ''FOR UPDATE cannot be applied to the nullable side of an outer join''"
  have "pending_with_id i p" using assms(3,4) by (simp add: pending_with_id_def)
  with assms(2) have "filter (pending_with_id i) (db_payments w) \<noteq> []" by (auto simp: filter_empty_conv)
  then obtain q where found: "first_pending i w = (Inr (Some q), w)"
    by (cases "filter (pending_with_id i) (db_payments w)")
      (auto simp: first_pending_def all_objects_def payments_tbl_def first_by_def)
  have same: "keep_seq f f = f" for f by (auto simp: keep_seq_def fun_eq_iff split: option.splits)
  have "reconcile_locked e i u = (Inl ?x, u)" for u
    using assms(1)
    by (simp add: reconcile_locked_def lock_joined_def atomic_def atomic_with_def bindE_def rollback_def enter_atomic_def same)
  then have "tenant_context t (reconcile_locked e i) w = (Inl ?x, w)" for t
    by (simp add: tenant_context_def bindE_def set_current_tenant_id_def finally_do_def reset_current_tenant_id_def)
  with found show ?thesis by (intro that [of ?x]) (simp add: reconcile_one_def bindE_def)
qed

lemma refused_all:
  assumes "\<not> env_locks_outer_joins e" and "\<forall>i \<in> set is. \<exists>p \<in> set (db_payments w). row_id p = i \<and> pay_status p = PayPending"
  shows "reconcile_all e is s w = (Inr s, w)"
  using assms(2)
proof (induction "is")
  case (Cons i "is")
  then obtain p where "p \<in> set (db_payments w)" "row_id p = i" "pay_status p = PayPending" by auto
  then obtain x where "reconcile_one e i w = (Inl x, w)" by (rule refused_one [OF assms(1)])
  with Cons show ?case by (simp add: bindE_def try_except_def)
qed (simp add: ret_def)

lemma candidates_pending:
  "i \<in> set (candidate_ids cutoff w) \<Longrightarrow> \<exists>p \<in> set (db_payments w). row_id p = i \<and> pay_status p = PayPending"
  by (auto simp: candidate_ids_def all_objects_def payments_tbl_def stale_pending_def dest!: in_set_takeD)

lemma sweep_refused:
  assumes "\<not> env_locks_outer_joins e"
  shows "reconcile_pending_payments e m w =
    (Inr \<lparr>sum_scanned = length (candidate_ids (clock w - m * minute_us) w), sum_converged = 0, sum_cancelled = 0,
       sum_still_pending = 0\<rparr>, w)"
  using refused_all [OF assms, of "candidate_ids (clock w - m * minute_us) w" w] candidates_pending
  by (simp add: reconcile_pending_payments_def bindE_def current_time_def)

subsection \<open>One payment\<close>

lemma first_by_single: "filter P xs = [x] \<Longrightarrow> first_by k (filter P xs) = Some x"
  by (simp add: first_by_def)

lemma first_by_mem: "first_by k xs = Some x \<Longrightarrow> x \<in> set xs"
  using arg_min_list_in [of xs k] by (cases xs) (simp_all add: first_by_def)

lemma first_pending_Inr:
  assumes "first_pending i w = (r, w')"
  shows "w' = w" and "\<exists>found. r = Inr found \<and> (\<forall>p. found = Some p \<longrightarrow>
    p \<in> set (db_payments w) \<and> row_id p = i \<and> pay_status p = PayPending)"
  using assms by (auto simp: first_pending_def gets_def pending_with_id_def all_objects_def payments_tbl_def dest!: first_by_mem)

lemma filter_single:
  assumes "distinct (map f xs)" and "x \<in> set xs"
  shows "filter (\<lambda>y. f y = f x) xs = [x]"
  using assms by (induction xs) (auto simp: filter_empty_conv rev_image_eqI)

lemma first_pending_run:
  assumes "distinct (map row_id (db_payments w))" and "p \<in> set (db_payments w)" and "pay_status p = PayPending"
  shows "first_pending (row_id p) w = (Inr (Some p), w)"
proof -
  have "filter (pending_with_id (row_id p)) (db_payments w) =
      filter (\<lambda>q. pay_status q = PayPending) (filter (\<lambda>q. row_id q = row_id p) (db_payments w))"
    by (auto simp: pending_with_id_def intro: filter_cong)
  then have "filter (pending_with_id (row_id p)) (db_payments w) = [p]"
    using filter_single [OF assms(1,2)] assms(3) by simp
  then show ?thesis by (simp add: first_pending_def gets_def all_objects_def payments_tbl_def first_by_def)
qed

text \<open>The gateway of a payment has captured it, whenever it is asked.\<close>

definition gateway_captured :: "env \<Rightarrow> gateway_config \<Rightarrow> payment \<Rightarrow> bool" where
  "gateway_captured e gc p \<longleftrightarrow>
     pay_gateway_config p = Some (row_id gc) \<and> pay_gateway_transaction_id p \<noteq> [] \<and>
     (\<exists>g. registry_get (env_registry e) (gc_gateway_name gc) = Inr g \<and>
       (\<forall>n. \<exists>i. gw_retrieve_payment g n (build_credentials gc) (pay_gateway_transaction_id p) = Inr (Some i) \<and>
          pi_status i = GwCaptured))"

definition with_capture :: "payment \<Rightarrow> payment_intent \<Rightarrow> world \<Rightarrow> world" where
  "with_capture p i w =
     w\<lparr>db_payments := upd_where (\<lambda>q. row_id q = row_id p)
        (\<lambda>q. (set_status_response PayCaptured (dict_update (pay_gateway_response p)
          [(''reconciled'', JBool True), (''reconciled_intent'', JObj (raw_or_empty i))]) q)\<lparr>updated_at := clock w\<rparr>)
        (db_payments w)\<rparr>"

lemma reconciled_ok:
  assumes "schema w"
  shows "tbl_ok payments_tbl (upd_where (\<lambda>q. row_id q = i) (\<lambda>q. (set_status_response st j q)\<lparr>updated_at := n\<rparr>) (db_payments w))"
  using schema_get(16) [OF assms] by (intro payments_upd_ok) (simp_all add: set_status_response_def)

lemma with_capture_inv: "inv t {} w \<Longrightarrow> inv t {} (with_capture p i w)"
  using reconciled_ok [OF inv_schema, of t "{}" w] by (simp add: with_capture_def)

lemma captured_recorded:
  assumes "schema w" and "p \<in> set (db_payments w)" and "pi_status i = GwCaptured"
  shows "save_reconciled (map_gateway_status (pi_status i)) [(''reconciled'', JBool True), (''reconciled_intent'', JObj (raw_or_empty i))] p w =
    (Inr ((set_status_response PayCaptured (dict_update (pay_gateway_response p)
          [(''reconciled'', JBool True), (''reconciled_intent'', JObj (raw_or_empty i))]) p)\<lparr>updated_at := clock w\<rparr>), with_capture p i w)"
proof -
  have "filter (\<lambda>x. row_id x = row_id p) (db_payments w) \<noteq> []" using assms(2) by (auto simp: filter_empty_conv)
  then show ?thesis
    using reconciled_ok [OF assms(1)] assms(3)
    by (simp add: save_reconciled_def save_fields_def bindE_def update_where_def write_rows_def with_capture_def)
qed

lemma get_all_key:
  assumes "distinct (map row_id (tbl_rows tb w))" and "x \<in> set (tbl_rows tb w)"
  shows "get_row_all tb (\<lambda>r. row_id r = row_id x) e w = (Inr x, w)"
  using get_where_key [OF assms] by (simp add: get_row_all_def one_or_raise_def)

text \<open>The sweep asks the gateway, records what it says and settles the order.\<close>

lemma captured_locked:
  assumes I: "inv t {} w" and p: "p \<in> set (db_payments w)" "pay_status p = PayPending"
    and gc: "gc \<in> set (db_gateway_configs w)" and g: "gateway_captured e gc p"
    and od: "od \<in> set (db_orders w)" "tenant_id od = t" "row_id od = pay_order p" and st: "ord_status od = OrderPending"
    and locks: "env_locks_outer_joins e"
  obtains i w' where "reconcile_locked e (row_id p) w = (Inr Converged, w')"
    and "tables w' = tables (order_settled sub_both ResCommitted OrderPaid od (with_capture p i w))"
proof -
  let ?w = "enter_atomic w"
  have I0: "inv t {} ?w" using I by (simp add: enter_atomic_def)
  note sch = inv_schema [OF I0]
  have rows: "db_payments ?w = db_payments w" "db_orders ?w = db_orders w" "db_gateway_configs ?w = db_gateway_configs w"
    by (simp_all add: enter_atomic_def)
  from g obtain gt where reg: "registry_get (env_registry e) (gc_gateway_name gc) = Inr gt"
    and ask: "\<And>n. \<exists>i. gw_retrieve_payment gt n (build_credentials gc) (pay_gateway_transaction_id p) = Inr (Some i) \<and> pi_status i = GwCaptured"
    and cfg: "pay_gateway_config p = Some (row_id gc)" and tx: "pay_gateway_transaction_id p \<noteq> []"
    by (auto simp: gateway_captured_def)
  have gw: "gateway_of_payment e p ?w = (Inr (gt, build_credentials gc), ?w)"
    using get_all_key [of gateway_configs_tbl ?w gc] schema_get [OF sch] gc cfg reg
    by (simp add: gateway_of_payment_def follow_def bindE_def gateway_configs_tbl_def pk_ok_def rows)
  obtain i where i: "gw_retrieve_payment gt (fresh_id ?w) (build_credentials gc) (pay_gateway_transaction_id p) = Inr (Some i)"
    "pi_status i = GwCaptured"
    using ask by blast
  define w2 where "w2 = ?w\<lparr>fresh_id := Suc (fresh_id ?w), gateway_log := gateway_log ?w @ [CallRetrieve (gw_name gt) (pay_gateway_transaction_id p)]\<rparr>"
  have I2: "inv t {} w2" using I0 by (simp add: w2_def)
  have rows2: "db_payments w2 = db_payments w" "db_orders w2 = db_orders w" "atomic_depth w2 \<noteq> 0"
    by (simp_all add: w2_def enter_atomic_def)
  note I3 = with_capture_inv [OF I2, of p i]
  have rows3: "db_orders (with_capture p i w2) = db_orders w" "atomic_depth (with_capture p i w2) \<noteq> 0"
    using rows2 by (simp_all add: with_capture_def)
  have call: "gateway_call (CallRetrieve (gw_name gt) (pay_gateway_transaction_id p))
      (\<lambda>n. gw_retrieve_payment gt n (build_credentials gc) (pay_gateway_transaction_id p)) ?w = (Inr (Some i), w2)"
    using i by (simp add: gateway_call_def new_uuid_def bindE_def seqE_def log_call_def modify_def lift_sum_def w2_def)
  have rec: "apply_retrieved p i w2 = (Inr Converged, (order_settled sub_both ResCommitted OrderPaid od (with_capture p i w2))
      \<lparr>on_commit_hooks := on_commit_hooks (with_capture p i w2) @ [GenerateInvoice t (row_id od)]\<rparr>)"
    using captured_recorded [OF inv_schema [OF I2], of p i] p rows2(1) i(2)
      get_all_key [of orders_tbl "with_capture p i w2" od] schema_get(13) [OF inv_schema [OF I3]] od rows3
      apply_order_paid_run [OF I3 _ od(2) st rows3(2)]
    by (simp add: apply_retrieved_def mark_order_paid_def bindE_def seqE_def orders_tbl_def pk_ok_def)
  have found: "first_pending (row_id p) ?w = (Inr (Some p), ?w)"
    using first_pending_run [of ?w p] schema_get(16) [OF sch] p by (simp add: rows payments_ok)
  let ?w4 = "(order_settled sub_both ResCommitted OrderPaid od (with_capture p i w2))
      \<lparr>on_commit_hooks := on_commit_hooks (with_capture p i w2) @ [GenerateInvoice t (row_id od)]\<rparr>"
  have run: "reconcile_locked e (row_id p) w = (Inr Converged, commit w ?w4)"
    unfolding reconcile_locked_def lock_joined_def
    using locks found tx gw call rec i(2) by (intro atomic_Inr) (simp add: bindE_def reconcile_known_intent_def try_except_def)
  have "tables (commit w ?w4) = tables (order_settled sub_both ResCommitted OrderPaid od (with_capture p i w2))"
    unfolding tables_commit by (simp add: tables_def)
  also have "\<dots> = tables (order_settled sub_both ResCommitted OrderPaid od (with_capture p i w))"
    by (simp add: order_settled_def settle_own_def own_in_def with_order_status_def with_capture_def w2_def enter_atomic_def tables_def)
  finally show ?thesis using run by (intro that)
qed

subsection \<open>The other payments of the batch\<close>

text \<open>The rows of a payment, of its order and of its gateway stand, and the order has no other payment.\<close>

definition stands :: "payment \<Rightarrow> order \<Rightarrow> gateway_config \<Rightarrow> world \<Rightarrow> bool" where
  "stands p od gc w \<longleftrightarrow>
     distinct (map row_id (db_payments w)) \<and> p \<in> set (db_payments w) \<and> od \<in> set (db_orders w) \<and>
     gc \<in> set (db_gateway_configs w) \<and> (\<forall>q \<in> set (db_payments w). pay_order q = row_id od \<longrightarrow> row_id q = row_id p)"

lemma stands_frame [simp]:
  "stands p od gc (w\<lparr>db_products := x0\<rparr>) = stands p od gc w" "stands p od gc (w\<lparr>db_reservations := x1\<rparr>) = stands p od gc w"
  "stands p od gc (w\<lparr>db_carts := x2\<rparr>) = stands p od gc w" "stands p od gc (w\<lparr>on_commit_hooks := x3\<rparr>) = stands p od gc w"
  "stands p od gc (w\<lparr>task_queue := x4\<rparr>) = stands p od gc w" "stands p od gc (w\<lparr>gateway_log := x5\<rparr>) = stands p od gc w"
  "stands p od gc (w\<lparr>fresh_id := x6\<rparr>) = stands p od gc w" "stands p od gc (w\<lparr>tenant_ctx := x7\<rparr>) = stands p od gc w"
  by (simp_all add: stands_def)

lemma stands_atomic: "preserves (stands p od gc) m \<Longrightarrow> preserves (stands p od gc) (atomic m)"
  by (rule preserves_atomic) (simp_all add: stands_def enter_atomic_def commit_def rollback_def)

lemma stands_context:
  "preserves (stands p od gc) m \<Longrightarrow> preserves (stands p od gc) (tenant_context t m)"
  unfolding tenant_context_def
  by (intro preserves_bindE preserves_finally_do)
    (simp_all add: preserves_def set_current_tenant_id_def reset_current_tenant_id_def)

lemmas stand_intros = op_intros stands_atomic preserves_modify

lemma preserves_bind_get_row_all:
  assumes "\<And>x. P x \<Longrightarrow> preserves I (f x)"
  shows "preserves I (bindE (get_row_all t P e) f)"
proof (rule preservesI)
  fix w r w' assume I: "I w" and run: "bindE (get_row_all t P e) f w = (r, w')"
  obtain r1 w1 where g: "get_row_all t P e w = (r1, w1)" by fastforce
  show "I w'"
  proof (cases r1)
    case (Inl e1)
    then show ?thesis using I run g get_row_all_Inl [of t P e w e1 w1] by (simp add: bindE_def)
  next
    case (Inr x)
    then have x: "w1 = w" "P x" using get_row_all_Inr [of t P e w x w1] g by simp_all
    from assms [OF x(2)] I show ?thesis by (rule preservesD) (use run g Inr x(1) in \<open>simp add: bindE_def\<close>)
  qed
qed

lemma stands_order:
  assumes "row_id x \<noteq> row_id od"
  shows "preserves (stands p od gc) (apply_order_paid x)" "preserves (stands p od gc) (apply_order_cancelled x)"
proof -
  have s: "preserves (stands p od gc) (save_order_status st x)" for st
    unfolding save_order_status_def
    by (intro preserves_save_fields) (use assms in \<open>auto simp: stands_def orders_tbl_def upd_where_def\<close>)
  show "preserves (stands p od gc) (apply_order_paid x)" "preserves (stands p od gc) (apply_order_cancelled x)"
    unfolding apply_order_paid_def apply_order_cancelled_def commit_reservations_for_order_def
      release_reservations_for_order_def settle_def enqueue_invoice_on_commit_def revert_cart_if_checking_out_def
      revert_checking_out_def
    by (intro stand_intros s; simp)+
qed

lemma stands_marked:
  assumes "i \<noteq> row_id od"
  shows "preserves (stands p od gc) (mark_order_paid i)" "preserves (stands p od gc) (mark_order_cancelled_and_release i)"
  unfolding mark_order_paid_def mark_order_cancelled_and_release_def
  using assms by (auto intro!: preserves_bind_get_row_all stands_order)

lemma stands_saved:
  assumes "row_id q \<noteq> row_id p"
  shows "preserves (stands p od gc) (save_reconciled st ex q)"
  unfolding save_reconciled_def
  by (intro preserves_save_fields)
    (use assms in \<open>auto simp: stands_def payments_ok upd_where_def payments_tbl_def pk_ok_def set_status_response_def\<close>)

lemma stands_one:
  assumes "i \<noteq> row_id p"
  shows "preserves (stands p od gc) (reconcile_one e i)"
proof -
  have one: "preserves (stands p od gc) (if pay_gateway_transaction_id q \<noteq> [] then reconcile_known_intent e q else reconcile_unknown_intent q)"
    if "row_id q \<noteq> row_id p" "pay_order q \<noteq> row_id od" for q
    unfolding reconcile_known_intent_def reconcile_unknown_intent_def apply_retrieved_def gateway_of_payment_def
      gateway_call_def Let_def
    by (intro stand_intros stands_marked stands_saved that; simp)
  have "preserves (stands p od gc) (reconcile_locked e i)"
    unfolding reconcile_locked_def
  proof (rule stands_atomic, rule lock_joined_bind, rule preservesI)
    fix w r w'
    assume st: "stands p od gc w" and run: "bindE (first_pending i) (\<lambda>found. case found of None \<Rightarrow> ret StillPending
      | Some p \<Rightarrow> if pay_gateway_transaction_id p \<noteq> [] then reconcile_known_intent e p else reconcile_unknown_intent p) w = (r, w')"
    obtain found where f: "first_pending i w = (Inr found, w)"
      and q: "\<And>q. found = Some q \<Longrightarrow> q \<in> set (db_payments w) \<and> row_id q = i \<and> pay_status q = PayPending"
      using first_pending_Inr [of i w] by (metis prod.collapse)
    show "stands p od gc w'"
    proof (cases found)
      case (Some q)
      then have "row_id q \<noteq> row_id p" "pay_order q \<noteq> row_id od" using q assms st by (auto simp: stands_def)
      from preservesD [OF one [OF this] st] show ?thesis using run f Some by (simp add: bindE_def)
    qed (use run f st in \<open>simp add: bindE_def ret_def\<close>)
  qed
  then show ?thesis
    unfolding reconcile_one_def first_pending_def by (intro stand_intros stands_context)
qed

text \<open>The payment and its order when their turn comes, and after the whole batch.\<close>

lemma context_run:
  assumes "m (w\<lparr>tenant_ctx := Some t\<rparr>) = (r, w')"
  shows "tenant_context (Some t) m w = (r, w'\<lparr>tenant_ctx := tenant_ctx w\<rparr>)"
  using assms by (simp add: tenant_context_def bindE_def set_current_tenant_id_def finally_do_def reset_current_tenant_id_def)

lemma captured_one:
  assumes s: "sound w" and st: "stands p od gc w" and p: "pay_status p = PayPending" and g: "gateway_captured e gc p"
    and od: "tenant_id od = tenant_id p" "row_id od = pay_order p" "ord_status od = OrderPending"
    and locks: "env_locks_outer_joins e"
  obtains w' p' od' where "reconcile_one e (row_id p) w = (Inr Converged, w')" and "stands p' od' gc w'"
    and "row_id p' = row_id p" "pay_status p' = PayCaptured" "row_id od' = row_id od" "ord_status od' = OrderPaid"
proof -
  let ?w = "w\<lparr>tenant_ctx := Some (tenant_id p)\<rparr>"
  have I: "inv (tenant_id p) {} ?w" using s by (simp add: inv_sound)
  have in_w: "p \<in> set (db_payments w)" "od \<in> set (db_orders w)" "gc \<in> set (db_gateway_configs w)"
    "distinct (map row_id (db_payments w))" "\<And>q. q \<in> set (db_payments w) \<Longrightarrow> pay_order q = row_id od \<Longrightarrow> row_id q = row_id p"
    using st by (simp_all add: stands_def)
  obtain i w1 where run: "reconcile_locked e (row_id p) ?w = (Inr Converged, w1)"
    and tb: "tables w1 = tables (order_settled sub_both ResCommitted OrderPaid od (with_capture p i ?w))"
    by (rule captured_locked [OF I _ p _ g _ od locks]) (use in_w in simp_all)
  let ?f = "\<lambda>q. (set_status_response PayCaptured (dict_update (pay_gateway_response p)
          [(''reconciled'', JBool True), (''reconciled_intent'', JObj (raw_or_empty i))]) q)\<lparr>updated_at := clock w\<rparr>"
  let ?g = "\<lambda>r. r\<lparr>ord_status := OrderPaid, updated_at := clock w\<rparr>"
  have rows: "db_payments w1 = upd_where (\<lambda>q. row_id q = row_id p) ?f (db_payments w)"
    "db_orders w1 = upd_where (\<lambda>r. row_id r = row_id od) ?g (db_orders w)" "db_gateway_configs w1 = db_gateway_configs w"
    using tables_db [OF tb] arg_cong [OF tb, of db_gateway_configs]
    by (simp_all add: tables_def order_settled_def settle_own_def with_order_status_def with_capture_def)
  have "stands (?f p) (?g od) gc (w1\<lparr>tenant_ctx := tenant_ctx w\<rparr>)"
    using in_w by (auto simp: stands_def rows map_upd_where set_upd_where set_status_response_def)
  moreover have "reconcile_one e (row_id p) w = (Inr Converged, w1\<lparr>tenant_ctx := tenant_ctx w\<rparr>)"
    using first_pending_run [OF in_w(4,1) p] context_run [of "reconcile_locked e (row_id p)", OF run] by (simp add: reconcile_one_def bindE_def)
  ultimately show ?thesis by (intro that [of "w1\<lparr>tenant_ctx := tenant_ctx w\<rparr>" "?f p" "?g od"]) (simp_all add: set_status_response_def)
qed

lemma sweep_never_raises: "\<exists>x w'. reconcile_all e is s w = (Inr x, w')"
  by (induction "is" arbitrary: s w) (auto simp: bindE_def try_except_def ret_def split: prod.split sum.split)

lemma stands_all: "row_id p \<notin> set is \<Longrightarrow> preserves (stands p od gc) (reconcile_all e is s)"
  by (induction "is" arbitrary: s) (auto intro!: stand_intros stands_one)

lemma captured_in_sweep:
  assumes "sound w" and "stands p od gc w" and "row_id p \<in> set is" and "distinct is"
    and "pay_status p = PayPending" and "gateway_captured e gc p"
    and "tenant_id od = tenant_id p" "row_id od = pay_order p" "ord_status od = OrderPending"
    and "reconcile_all e is s w = (r, w')" and "env_locks_outer_joins e"
  shows "\<exists>p' od'. stands p' od' gc w' \<and> row_id p' = row_id p \<and> pay_status p' = PayCaptured \<and>
    row_id od' = row_id od \<and> ord_status od' = OrderPaid"
  using assms
proof (induction "is" arbitrary: s w)
  case (Cons j js)
  obtain x w1 where one: "reconcile_one e j w = (x, w1)" by fastforce
  obtain s1 where rest: "reconcile_all e js s1 w1 = (r, w')"
    using Cons.prems(10) one by (cases x) (auto simp: bindE_def try_except_def ret_def)
  show ?case
  proof (cases "j = row_id p")
    case True
    obtain p' od' where "stands p' od' gc w1" "row_id p' = row_id p" "pay_status p' = PayCaptured" "row_id od' = row_id od"
      "ord_status od' = OrderPaid"
      using captured_one [OF Cons.prems(1,2,5-9,11)] one True by (metis prod.inject)
    moreover have "row_id p' \<notin> set js" using Cons.prems(4) True calculation(2) by simp
    ultimately show ?thesis using preservesD [OF stands_all _ rest] by blast
  next
    case False
    show ?thesis
      by (rule Cons.IH [OF preservesD [OF reconcile_one_sound Cons.prems(1) one] preservesD [OF stands_one [OF False] Cons.prems(2) one]
          _ _ Cons.prems(5-9) rest Cons.prems(11)])
        (use Cons.prems(3,4) False in simp_all)
  qed
qed simp

lemma candidates_distinct:
  assumes "distinct (map row_id (db_payments w))"
  shows "distinct (candidate_ids cutoff w)"
proof -
  have "distinct (map row_id (filter (stale_pending cutoff) (db_payments w)))"
    using assms by (simp add: distinct_map_filter)
  then have "distinct (map row_id (sort_key updated_at (filter (stale_pending cutoff) (db_payments w))))"
    by (simp only: distinct_map distinct_sort set_sort)
  then show ?thesis by (simp add: candidate_ids_def all_objects_def payments_tbl_def take_map [symmetric] distinct_take)
qed

lemma captured_payment_converges:
  assumes "sound w" and "stands p od gc w" and "row_id p \<in> set (candidate_ids (clock w - m * minute_us) w)"
    and "pay_status p = PayPending" and "gateway_captured e gc p"
    and "tenant_id od = tenant_id p" "row_id od = pay_order p" "ord_status od = OrderPending" and "env_locks_outer_joins e"
  obtains x w' p' od' where "reconcile_pending_payments e m w = (Inr x, w')"
    and "p' \<in> set (db_payments w')" "row_id p' = row_id p" "pay_status p' = PayCaptured"
    and "od' \<in> set (db_orders w')" "row_id od' = row_id od" "ord_status od' = OrderPaid"
proof -
  let ?is = "candidate_ids (clock w - m * minute_us) w"
  let ?s = "\<lparr>sum_scanned = length ?is, sum_converged = 0, sum_cancelled = 0, sum_still_pending = 0\<rparr>"
  obtain x w' where run: "reconcile_all e ?is ?s w = (Inr x, w')" using sweep_never_raises by blast
  have "distinct ?is" using assms(2) by (intro candidates_distinct) (simp add: stands_def)
  from captured_in_sweep [OF assms(1-3) this assms(4-8) run assms(9)]
  obtain p' od' where "stands p' od' gc w'" "row_id p' = row_id p" "pay_status p' = PayCaptured" "row_id od' = row_id od"
    "ord_status od' = OrderPaid"
    by blast
  moreover have "reconcile_pending_payments e m w = (Inr x, w')"
    using run by (simp add: reconcile_pending_payments_def bindE_def current_time_def gets_def)
  ultimately show ?thesis by (intro that [of x w' p' od']) (auto simp: stands_def)
qed

end
