(* ===== verification/Worker.thy ===== *)
theory Worker
  imports System Sweeps "HOL-Library.Multiset"
begin

section \<open>The queue and the worker\<close>

text \<open>
  \<^verbatim>\<open>config/celery.py\<close>, \<^verbatim>\<open>apps/core/celery_helpers.py\<close>, \<^verbatim>\<open>apps/core/request_context.py\<close> and
  \<^verbatim>\<open>apps/core/logging_filters.py\<close>: the queues and where their dead letters go, the identifier of a request on its
  way through the queue into the lines of the log, the attempts at a task and the record of a task that was
  given up. The broker is the framework's: a direct exchange takes a message to the queues bound with its key, a retried
  task is a new message with one more retry, and the headers of a message stay with it.
\<close>

subsection \<open>The identifier of a request\<close>

text \<open>The context variable and the tokens of the tasks that have set it; a token is the value from before.\<close>

record context_vars =
  cv_request_id :: "string option"
  cv_tokens :: "uuid \<Rightarrow> string option option"

definition REQUEST_ID_HEADER :: string where
  "REQUEST_ID_HEADER = ''x-request-id''"

definition attach_request_id_header :: "string option \<Rightarrow> (string \<times> string) list \<Rightarrow> (string \<times> string) list" where
  "attach_request_id_header rid headers =
     (case rid of
        None \<Rightarrow> headers
      | Some i \<Rightarrow>
          if i \<noteq> [] \<and> map_of headers REQUEST_ID_HEADER = None then headers @ [(REQUEST_ID_HEADER, i)] else headers)"

definition enter_request_context :: "uuid \<Rightarrow> (string \<times> string) list \<Rightarrow> context_vars \<Rightarrow> context_vars" where
  "enter_request_context task_id headers v =
     (case map_of headers REQUEST_ID_HEADER of
        None \<Rightarrow> v
      | Some i \<Rightarrow>
          if i = [] then v
          else v\<lparr>cv_tokens := (cv_tokens v)(task_id := Some (cv_request_id v)), cv_request_id := Some i\<rparr>)"

definition exit_request_context :: "uuid \<Rightarrow> context_vars \<Rightarrow> context_vars" where
  "exit_request_context task_id v =
     (case cv_tokens v task_id of
        None \<Rightarrow> v
      | Some old \<Rightarrow> v\<lparr>cv_tokens := (cv_tokens v)(task_id := None), cv_request_id := old\<rparr>)"

lemma exit_enter [simp]:
  "cv_tokens v task_id = None \<Longrightarrow> exit_request_context task_id (enter_request_context task_id headers v) = v"
  by (auto simp: exit_request_context_def enter_request_context_def fun_upd_idem split: option.split)

lemma entered_attached:
  assumes "i \<noteq> []" and "map_of headers REQUEST_ID_HEADER = None"
  shows "cv_request_id (enter_request_context task_id (attach_request_id_header (Some i) headers) v) = Some i"
  using assms by (simp add: enter_request_context_def attach_request_id_header_def map_add_def)

subsection \<open>Lines of the log\<close>

definition or_dash :: "string option \<Rightarrow> string" where
  "or_dash x = (case x of None \<Rightarrow> ''-'' | Some s \<Rightarrow> if s = [] then ''-'' else s)"

text \<open>What the filter injects: the request and the tenant of the moment.\<close>

definition request_context_filter :: "context_vars \<Rightarrow> world \<Rightarrow> string \<times> string" where
  "request_context_filter v w = (or_dash (cv_request_id v), or_dash (map_option uuid_str (tenant_ctx w)))"

text \<open>A record, with its attributes in order; a value that is no JSON is kept as its \<open>repr\<close>.\<close>

record log_record =
  lr_created :: time
  lr_levelname :: string
  lr_name :: string
  lr_message :: string
  lr_request_id :: "string option"
  lr_tenant_id :: "string option"
  lr_exc_info :: "string option"
  lr_stack_info :: "string option"
  lr_attributes :: "(string \<times> (string + json)) list"

text \<open>The attributes that every record has, after the documentation of the standard library.\<close>

definition stdlib_attributes :: "string list" where
  "stdlib_attributes =
     [''name'', ''msg'', ''args'', ''levelname'', ''levelno'', ''pathname'', ''filename'', ''module'', ''exc_info'',
      ''exc_text'', ''stack_info'', ''lineno'', ''funcName'', ''created'', ''msecs'', ''relativeCreated'', ''thread'',
      ''threadName'', ''processName'', ''process'', ''taskName'', ''request_id'', ''tenant_id'']"

definition json_value :: "string + json \<Rightarrow> json" where
  "json_value x = (case x of Inl r \<Rightarrow> JStr r | Inr j \<Rightarrow> j)"

definition add_extra :: "(string \<times> (string + json)) \<Rightarrow> dict \<Rightarrow> dict" where
  "add_extra kv payload =
     (if fst kv \<in> set stdlib_attributes \<or> fst kv \<in> set (map fst payload) then payload
      else payload @ [(fst kv, json_value (snd kv))])"

definition json_format :: "(time \<Rightarrow> string) \<Rightarrow> log_record \<Rightarrow> json" where
  "json_format fmt r =
     (let payload = [(''timestamp'', JStr (fmt (lr_created r))), (''level'', JStr (lr_levelname r)),
            (''logger'', JStr (lr_name r)), (''message'', JStr (lr_message r)),
            (''request_id'', JStr (case lr_request_id r of None \<Rightarrow> ''-'' | Some i \<Rightarrow> i)),
            (''tenant_id'', JStr (case lr_tenant_id r of None \<Rightarrow> ''-'' | Some i \<Rightarrow> i))]
          @ (case lr_exc_info r of None \<Rightarrow> [] | Some t \<Rightarrow> [(''exc_info'', JStr t)])
          @ (case lr_stack_info r of None \<Rightarrow> [] | Some t \<Rightarrow> [(''stack_info'', JStr t)])
      in JObj (fold add_extra (lr_attributes r) payload))"

text \<open>Extras take no key of the line, and every line is a dictionary.\<close>

lemma add_extra_keeps: "map_of payload k = Some x \<Longrightarrow> map_of (add_extra kv payload) k = Some x"
  by (simp add: add_extra_def map_add_def)

lemma extras_keep: "map_of payload k = Some x \<Longrightarrow> map_of (fold add_extra kvs payload) k = Some x"
  by (induction kvs arbitrary: payload) (simp_all add: add_extra_keeps)

lemma extras_distinct: "distinct (map fst payload) \<Longrightarrow> distinct (map fst (fold add_extra kvs payload))"
  by (induction kvs arbitrary: payload) (simp_all add: add_extra_def)

lemma log_line:
  obtains kvs where "json_format fmt r = JObj kvs" and "distinct (map fst kvs)"
    and "map_of kvs ''request_id'' = Some (JStr (case lr_request_id r of None \<Rightarrow> ''-'' | Some i \<Rightarrow> i))"
    and "map_of kvs ''tenant_id'' = Some (JStr (case lr_tenant_id r of None \<Rightarrow> ''-'' | Some i \<Rightarrow> i))"
  by (rule that; simp only: json_format_def Let_def json.inject)
    (auto intro!: extras_keep extras_distinct split: option.split)

subsection \<open>Queues\<close>

record queue_decl =
  qd_name :: string
  qd_exchange :: string
  qd_routing_key :: string
  qd_dead_letter :: "(string \<times> string) option"

definition task_queues :: "queue_decl list" where
  "task_queues =
     [\<lparr>qd_name = ''acme.default'', qd_exchange = ''acme'', qd_routing_key = ''acme.default'',
       qd_dead_letter = Some (''acme.dlx'', ''acme.dlq'')\<rparr>,
      \<lparr>qd_name = ''acme.dlq'', qd_exchange = ''acme.dlx'', qd_routing_key = ''acme.dlq'', qd_dead_letter = None\<rparr>]"

definition task_default_route :: "string \<times> string" where
  "task_default_route = (''acme'', ''acme.default'')"

text \<open>Where \<open>_publish_death_certificate\<close> sends its record.\<close>

definition dlq_route :: "string \<times> string" where
  "dlq_route = (''acme.dlx'', ''acme.dlq'')"

definition routed_to :: "queue_decl list \<Rightarrow> string \<times> string \<Rightarrow> string list" where
  "routed_to qs r = map qd_name (filter (\<lambda>q. (qd_exchange q, qd_routing_key q) = r) qs)"

definition dead_letters_of :: "queue_decl list \<Rightarrow> string \<Rightarrow> string list" where
  "dead_letters_of qs name =
     concat (map (\<lambda>q. case qd_dead_letter q of None \<Rightarrow> [] | Some r \<Rightarrow> routed_to qs r)
       (filter (\<lambda>q. qd_name q = name) qs))"

text \<open>Tasks go to the one queue, rejected messages and certificates to the other, which is the end.\<close>

lemma topology:
  "routed_to task_queues task_default_route = [''acme.default'']" "routed_to task_queues dlq_route = [''acme.dlq'']"
  "dead_letters_of task_queues ''acme.default'' = [''acme.dlq'']" "dead_letters_of task_queues ''acme.dlq'' = []"
  by (simp_all add: routed_to_def dead_letters_of_def task_queues_def task_default_route_def dlq_route_def)

subsection \<open>Tasks\<close>

datatype job = Queued task | ReleaseExpired | AbandonStale int

primrec job_name :: "job \<Rightarrow> string" where
  "job_name (Queued tk) = (case tk of
       GenerateInvoice _ _ \<Rightarrow> ''apps.orders.tasks.generate_invoice''
     | ProcessWebhookEvent _ \<Rightarrow> ''apps.payments.tasks.process_webhook_event''
     | ReconcilePendingPayments _ \<Rightarrow> ''apps.payments.tasks.reconcile_pending_payments'')"
| "job_name ReleaseExpired = ''apps.orders.tasks.release_expired_reservations''"
| "job_name (AbandonStale _) = ''apps.carts.tasks.abandon_stale_carts''"

text \<open>The arguments a call passes; the periodic tasks are sent without any and use their defaults.\<close>

primrec job_args :: "job \<Rightarrow> json list" where
  "job_args (Queued tk) = (case tk of
       GenerateInvoice t i \<Rightarrow> [JStr (uuid_str t), JStr (uuid_str i)]
     | ProcessWebhookEvent a \<Rightarrow>
         [JStr (uuid_str (wa_tenant a)), JStr (uuid_str (wa_payment a)), JStr (wa_event_type a),
          JStr (payment_status_value (wa_new_status a)), JObj (wa_raw_payload a), JStr (wa_gateway_name a),
          JStr (wa_event_id a)]
     | ReconcilePendingPayments m \<Rightarrow> if m = reconcile_stale_minutes then [] else [JInt m])"
| "job_args ReleaseExpired = []"
| "job_args (AbandonStale d) = (if d = 30 then [] else [JInt d])"

primrec max_retries :: "job \<Rightarrow> nat" where
  "max_retries (Queued tk) =
     (case tk of GenerateInvoice _ _ \<Rightarrow> 5 | ProcessWebhookEvent _ \<Rightarrow> 5 | ReconcilePendingPayments _ \<Rightarrow> 3)"
| "max_retries ReleaseExpired = 3"
| "max_retries (AbandonStale _) = 3"

definition seconds_us :: "int \<Rightarrow> int" where
  "seconds_us n = n * 1000000"

definition beat_schedule :: "(string \<times> job \<times> int) list" where
  "beat_schedule =
     [(''release-expired-reservations'', ReleaseExpired, seconds_us 30),
      (''abandon-stale-carts'', AbandonStale 30, seconds_us (60 * 60)),
      (''reconcile-pending-payments'', Queued (ReconcilePendingPayments reconcile_stale_minutes), seconds_us (5 * 60))]"

text \<open>One attempt at a task, in the world it finds.\<close>

fun attempt :: "site \<Rightarrow> job \<Rightarrow> world \<Rightarrow> ((exn + unit) \<times> world) option" where
  "attempt s (Queued tk) w = Some (run_task s tk w)"
| "attempt s ReleaseExpired w =
     map_option (\<lambda>(r, w'). (map_sum id (\<lambda>_. ()) r, w')) (release_expired_reservations w)"
| "attempt s (AbandonStale d) w = Some ((\<lambda>(r, w'). (map_sum id (\<lambda>_. ()) r, w')) (abandon_stale_carts d w))"

subsection \<open>Messages\<close>

record message =
  msg_id :: uuid
  msg_job :: job
  msg_headers :: "(string \<times> string) list"
  msg_retries :: nat

record broker =
  bk_default :: "message list"
  bk_dlq :: "json list"
  bk_vars :: context_vars
  bk_next :: uuid

text \<open>\<open>delay\<close>, in whatever context it is called.\<close>

definition publish :: "job \<Rightarrow> broker \<Rightarrow> broker" where
  "publish j b = b\<lparr>bk_default := bk_default b @
       [\<lparr>msg_id = bk_next b, msg_job = j, msg_headers = attach_request_id_header (cv_request_id (bk_vars b)) [],
         msg_retries = 0\<rparr>],
     bk_next := Suc (bk_next b)\<rparr>"

text \<open>\<open>_publish_death_certificate\<close>; the texts of the exception and of the time are given.\<close>

definition death_certificate :: "message \<Rightarrow> string \<times> string \<Rightarrow> string \<Rightarrow> json" where
  "death_certificate m e failed_at =
     JObj [(''task'', JStr (job_name (msg_job m))), (''task_id'', JStr (uuid_str (msg_id m))),
       (''args'', JList (job_args (msg_job m))), (''kwargs'', JObj []), (''exception_class'', JStr (fst e)),
       (''exception_message'', JStr (snd e)), (''failed_at'', JStr failed_at)]"

text \<open>
  What stands around the program here: how exceptions and times are written, and whether the broker takes a
  certificate; when it does not, the failure is in the log only.
\<close>

record surroundings =
  su_exception :: "exn \<Rightarrow> string \<times> string"
  su_isoformat :: "time \<Rightarrow> string"
  su_dlq_up :: bool

definition on_failure :: "surroundings \<Rightarrow> message \<Rightarrow> exn \<Rightarrow> time \<Rightarrow> broker \<Rightarrow> broker" where
  "on_failure su m e now b =
     (if su_dlq_up su
      then b\<lparr>bk_dlq := bk_dlq b @ [death_certificate m (su_exception su e) (su_isoformat su now)]\<rparr>
      else b)"

text \<open>
  The worker takes a message: it enters the context of the request, attempts the task, publishes what the task sent,
  and leaves the context; a task that raised is sent again while it has retries left, else it is given up.
\<close>

definition consume :: "site \<Rightarrow> surroundings \<Rightarrow> message \<Rightarrow> broker \<times> world \<Rightarrow> (broker \<times> world) option" where
  "consume s su m bw =
     (let b = (fst bw)\<lparr>bk_default := remove1 m (bk_default (fst bw)),
            bk_vars := enter_request_context (msg_id m) (msg_headers m) (bk_vars (fst bw))\<rparr>
      in case attempt s (msg_job m) (snd bw) of
           None \<Rightarrow> None
         | Some (r, w) \<Rightarrow>
             (let b = fold (\<lambda>tk. publish (Queued tk)) (task_queue w) b;
                  b = (case r of
                         Inr _ \<Rightarrow> b
                       | Inl e \<Rightarrow>
                           if msg_retries m < max_retries (msg_job m)
                           then b\<lparr>bk_default := bk_default b @ [m\<lparr>msg_retries := Suc (msg_retries m)\<rparr>]\<rparr>
                           else on_failure su m e (clock w) b)
              in Some (b\<lparr>bk_vars := exit_request_context (msg_id m) (bk_vars b)\<rparr>, w\<lparr>task_queue := []\<rparr>)))"

subsection \<open>What tasks send\<close>

definition sends :: "(task \<Rightarrow> bool) \<Rightarrow> world \<Rightarrow> bool" where
  "sends P w \<longleftrightarrow> list_all P (task_queue w) \<and> list_all P (on_commit_hooks w)"

lemma sends_frame [simp]:
  "sends P (w\<lparr>db_tenants := x0\<rparr>) = sends P w" "sends P (w\<lparr>db_users := x1\<rparr>) = sends P w"
  "sends P (w\<lparr>db_memberships := x2\<rparr>) = sends P w" "sends P (w\<lparr>db_tokens := x3\<rparr>) = sends P w"
  "sends P (w\<lparr>db_customers := x4\<rparr>) = sends P w" "sends P (w\<lparr>db_addresses := x5\<rparr>) = sends P w"
  "sends P (w\<lparr>db_products := x6\<rparr>) = sends P w" "sends P (w\<lparr>db_coupons := x7\<rparr>) = sends P w"
  "sends P (w\<lparr>db_carts := x8\<rparr>) = sends P w" "sends P (w\<lparr>db_cart_items := x9\<rparr>) = sends P w"
  "sends P (w\<lparr>db_applied_coupons := x10\<rparr>) = sends P w" "sends P (w\<lparr>db_payment_methods := x11\<rparr>) = sends P w"
  "sends P (w\<lparr>db_gateway_configs := x12\<rparr>) = sends P w" "sends P (w\<lparr>db_orders := x13\<rparr>) = sends P w"
  "sends P (w\<lparr>db_order_items := x14\<rparr>) = sends P w" "sends P (w\<lparr>db_reservations := x15\<rparr>) = sends P w"
  "sends P (w\<lparr>db_payments := x16\<rparr>) = sends P w" "sends P (w\<lparr>db_invoices := x17\<rparr>) = sends P w"
  "sends P (w\<lparr>db_webhook_events := x18\<rparr>) = sends P w" "sends P (w\<lparr>order_seq := x19\<rparr>) = sends P w"
  "sends P (w\<lparr>invoice_seq := x20\<rparr>) = sends P w" "sends P (w\<lparr>gateway_log := x21\<rparr>) = sends P w"
  "sends P (w\<lparr>stored_objects := x22\<rparr>) = sends P w" "sends P (w\<lparr>fresh_id := x23\<rparr>) = sends P w"
  "sends P (w\<lparr>clock := x24\<rparr>) = sends P w" "sends P (w\<lparr>tenant_ctx := x25\<rparr>) = sends P w"
  "sends P (w\<lparr>atomic_depth := x26\<rparr>) = sends P w"
  by (simp_all add: sends_def)

lemma sends_atomic: "preserves (sends P) m \<Longrightarrow> preserves (sends P) (atomic m)"
  by (rule preserves_atomic) (simp_all add: sends_def enter_atomic_def commit_def rollback_def)

lemma sends_context: "preserves (sends P) m \<Longrightarrow> preserves (sends P) (tenant_context t m)"
  unfolding tenant_context_def
  by (intro preserves_bindE preserves_finally_do)
    (simp_all add: preserves_def set_current_tenant_id_def reset_current_tenant_id_def)

lemma sends_on_commit: "P tk \<Longrightarrow> preserves (sends P) (on_commit tk)"
  by (simp add: on_commit_def preserves_def modify_def sends_def)

lemmas send_intros = op_intros sends_atomic sends_context preserves_create_with_tenant preserves_modify

definition is_invoice :: "task \<Rightarrow> bool" where
  "is_invoice tk \<longleftrightarrow> (\<exists>t i. tk = GenerateInvoice t i)"

lemma sends_orders:
  "preserves (sends is_invoice) (apply_order_paid od)" "preserves (sends P) (apply_order_cancelled od)"
  unfolding apply_order_paid_def apply_order_cancelled_def save_order_status_def commit_reservations_for_order_def
    release_reservations_for_order_def settle_def enqueue_invoice_on_commit_def revert_cart_if_checking_out_def
    revert_checking_out_def
  by (intro send_intros sends_on_commit; simp add: is_invoice_def)+

lemma sends_event: "preserves (sends is_invoice) (process_webhook_event a)"
  unfolding process_webhook_event_def record_event_def mutate_for_event_def get_payment_def apply_event_def
    save_order_status_def
  by (intro send_intros sends_orders) simp_all

lemma sends_reconcile: "preserves (sends is_invoice) (reconcile_pending_payments e m)"
proof -
  have "preserves (sends is_invoice) (reconcile_locked e i)" for i
    unfolding reconcile_locked_def first_pending_def reconcile_known_intent_def reconcile_unknown_intent_def
      apply_retrieved_def save_reconciled_def mark_order_paid_def mark_order_cancelled_and_release_def gateway_of_payment_def
      gateway_call_def Let_def
    by (intro send_intros sends_orders) simp_all
  then have "preserves (sends is_invoice) (reconcile_one e i)" for i
    unfolding reconcile_one_def first_pending_def by (intro send_intros)
  then have "preserves (sends is_invoice) (reconcile_all e is x)" for "is" x
    by (induction "is" arbitrary: x) (auto intro!: send_intros)
  then show ?thesis unfolding reconcile_pending_payments_def by (intro send_intros)
qed

lemma sends_invoice: "preserves (sends P) (generate_invoice lay st t i)"
proof -
  have "preserves (sends P) (next_invoice_number n)" for n
    by (simp add: preserves_def next_invoice_number_def split: option.split)
  then show ?thesis
    unfolding generate_invoice_def create_invoice_def upload_if_missing_def upload_invoice_pdf_def save_bytes_def Let_def
    by (intro send_intros) simp_all
qed

text \<open>Outside of transactions nothing waits for a commit, and every task leaves it so.\<close>

definition quiet :: "world \<Rightarrow> bool" where
  "quiet w \<longleftrightarrow> atomic_depth w = 0 \<and> on_commit_hooks w = []"

lemma quiet_atomic: "preserves quiet (atomic m)"
  by (rule preservesI)
    (auto simp: quiet_def atomic_def atomic_with_def commit_def rollback_def split: prod.splits sum.splits)

lemma quiet_frame [simp]:
  "quiet (w\<lparr>db_products := x0\<rparr>) = quiet w" "quiet (w\<lparr>db_reservations := x1\<rparr>) = quiet w"
  "quiet (w\<lparr>db_carts := x2\<rparr>) = quiet w" "quiet (w\<lparr>db_invoices := x3\<rparr>) = quiet w"
  "quiet (w\<lparr>invoice_seq := x4\<rparr>) = quiet w" "quiet (w\<lparr>stored_objects := x5\<rparr>) = quiet w"
  "quiet (w\<lparr>fresh_id := x6\<rparr>) = quiet w" "quiet (w\<lparr>tenant_ctx := x7\<rparr>) = quiet w"
  "quiet (w\<lparr>task_queue := x8\<rparr>) = quiet w"
  by (simp_all add: quiet_def)

lemma quiet_context: "preserves quiet m \<Longrightarrow> preserves quiet (tenant_context t m)"
  unfolding tenant_context_def
  by (intro preserves_bindE preserves_finally_do)
    (simp_all add: preserves_def set_current_tenant_id_def reset_current_tenant_id_def)

lemmas quiet_intros = op_intros quiet_atomic quiet_context preserves_create_with_tenant preserves_modify

lemma quiet_task: "preserves quiet (run_task s tk)"
proof -
  have "preserves quiet (next_invoice_number n)" for n
    by (simp add: preserves_def next_invoice_number_def split: option.split)
  then have "preserves quiet (generate_invoice lay st t i)" for lay st t i
    unfolding generate_invoice_def create_invoice_def upload_if_missing_def upload_invoice_pdf_def save_bytes_def Let_def
    by (intro quiet_intros) simp_all
  moreover have "preserves quiet (process_webhook_event a)" for a
    unfolding process_webhook_event_def by (intro quiet_intros)
  moreover have "preserves quiet (reconcile_pending_payments e m)" for e m
  proof -
    have "preserves quiet (reconcile_one e i)" for i
      unfolding reconcile_one_def first_pending_def reconcile_locked_def by (intro quiet_intros)
    then have "preserves quiet (reconcile_all e is x)" for "is" x
      by (induction "is" arbitrary: x) (auto intro!: quiet_intros)
    then show ?thesis unfolding reconcile_pending_payments_def by (intro quiet_intros)
  qed
  ultimately show ?thesis
    by (auto simp: run_task_def tenant_aware_task_def intro!: quiet_intros split: task.split)
qed

lemma sends_task:
  "preserves (sends is_invoice) (run_task s tk)" "is_invoice tk \<Longrightarrow> preserves (sends P) (run_task s tk)"
  by (auto simp: run_task_def tenant_aware_task_def is_invoice_def
      intro!: send_intros sends_invoice sends_event sends_reconcile split: task.split)

lemma housekeeping_sends:
  "preserves (sends P) (expire_batch now)" "preserves quiet (expire_batch now)"
  "preserves (sends P) (abandon_stale_carts d)" "preserves quiet (abandon_stale_carts d)"
proof -
  have "preserves (sends P) (expire_one res)" for res
    unfolding expire_one_def settle_unscoped_def revert_checking_out_def by (intro send_intros) simp_all
  then show "preserves (sends P) (expire_batch now)" unfolding expire_batch_def by (intro send_intros)
  show "preserves quiet (expire_batch now)" unfolding expire_batch_def by (intro quiet_intros)
  show "preserves (sends P) (abandon_stale_carts d)" "preserves quiet (abandon_stale_carts d)"
    unfolding abandon_stale_carts_def by (intro send_intros quiet_intros; simp)+
qed

definition light :: "job \<Rightarrow> bool" where
  "light j \<longleftrightarrow> (\<forall>tk. j = Queued tk \<longrightarrow> is_invoice tk)"

lemma attempt_sends:
  assumes "attempt s j w = Some (r, w')" and "quiet w" and "task_queue w = []"
  shows "quiet w'" and "list_all is_invoice (task_queue w')" and "light j \<Longrightarrow> task_queue w' = []"
proof -
  have none: "sends (\<lambda>_. False) w" and some: "sends is_invoice w"
    using assms(2,3) by (simp_all add: sends_def quiet_def)
  have no_task: "task_queue v = []" if "sends (\<lambda>_. False) v" for v
    using that by (cases "task_queue v") (simp_all add: sends_def)
  have "quiet w' \<and> list_all is_invoice (task_queue w') \<and> (light j \<longrightarrow> task_queue w' = [])"
  proof (cases j)
    case (Queued tk)
    then have run: "run_task s tk w = (r, w')" using assms(1) by simp
    show ?thesis
      using preservesD [OF quiet_task assms(2) run] preservesD [OF sends_task(1) some run]
        preservesD [OF sends_task(2) none run] no_task Queued
      by (auto simp: light_def sends_def)
  next
    case ReleaseExpired
    then obtain r0 where "expire_loop (clock w) 0 w = Some (r0, w')"
      using assms(1) by (auto simp: release_expired_reservations_def)
    then have "quiet w'" "sends (\<lambda>_. False) w'"
      using expire_loop_keeps [OF housekeeping_sends(2) _ assms(2)] expire_loop_keeps [OF housekeeping_sends(1) _ none] by force+
    then show ?thesis using no_task by simp
  next
    case (AbandonStale d)
    then obtain r0 where run: "abandon_stale_carts d w = (r0, w')" using assms(1) by (auto split: prod.splits)
    show ?thesis
      using preservesD [OF housekeeping_sends(4) assms(2) run] no_task [OF preservesD [OF housekeeping_sends(3) none run]]
      by simp
  qed
  then show "quiet w'" "list_all is_invoice (task_queue w')" "light j \<Longrightarrow> task_queue w' = []" by blast+
qed

subsection \<open>The queue drains\<close>

inductive works :: "site \<Rightarrow> surroundings \<Rightarrow> broker \<times> world \<Rightarrow> broker \<times> world \<Rightarrow> bool" for s su where
  consumes: "works s su bw bw'" if "m \<in> set (bk_default (fst bw))" and "consume s su m bw = Some bw'"

text \<open>
  The rank of a message: whether its task may send others, and the attempts that are left. A task that is tried again
  loses an attempt, and what a task sends ranks below it.
\<close>

definition rank :: "message \<Rightarrow> nat \<times> nat" where
  "rank m = (if light (msg_job m) then 0 else 1, max_retries (msg_job m) - msg_retries m)"

definition ranks :: "broker \<times> world \<Rightarrow> (nat \<times> nat) multiset" where
  "ranks bw = image_mset rank (mset (bk_default (fst bw)))"

definition at_rest :: "broker \<times> world \<Rightarrow> bool" where
  "at_rest bw \<longleftrightarrow> quiet (snd bw) \<and> task_queue (snd bw) = []"

lemma publish_simps [simp]:
  "bk_vars (publish j b) = bk_vars b" "bk_next (publish j b) = Suc (bk_next b)"
  "(publish j b)\<lparr>bk_default := x, bk_next := y\<rparr> = b\<lparr>bk_default := x, bk_next := y\<rparr>"
  by (simp_all add: publish_def)

lemma published:
  obtains ms where "fold (\<lambda>tk. publish (Queued tk)) tks b = b\<lparr>bk_default := bk_default b @ ms, bk_next := bk_next b + length tks\<rparr>"
    and "map msg_job ms = map Queued tks" and "\<forall>m \<in> set ms. msg_retries m = 0 \<and>
      msg_headers m = attach_request_id_header (cv_request_id (bk_vars b)) []"
proof -
  have "\<exists>ms. fold (\<lambda>tk. publish (Queued tk)) tks b = b\<lparr>bk_default := bk_default b @ ms, bk_next := bk_next b + length tks\<rparr> \<and>
      map msg_job ms = map Queued tks \<and> (\<forall>m \<in> set ms. msg_retries m = 0 \<and>
      msg_headers m = attach_request_id_header (cv_request_id (bk_vars b)) [])"
  proof (induction tks arbitrary: b)
    case (Cons tk tks)
    let ?m = "\<lparr>msg_id = bk_next b, msg_job = Queued tk, msg_headers = attach_request_id_header (cv_request_id (bk_vars b)) [],
       msg_retries = 0\<rparr>"
    have q: "bk_default (publish (Queued tk) b) = bk_default b @ [?m]" by (simp add: publish_def)
    from Cons [of "publish (Queued tk) b"] obtain ms where
      "fold (\<lambda>tk. publish (Queued tk)) tks (publish (Queued tk) b) =
        b\<lparr>bk_default := bk_default b @ ?m # ms, bk_next := bk_next b + Suc (length tks)\<rparr>"
      "map msg_job ms = map Queued tks" "\<forall>m \<in> set ms. msg_retries m = 0 \<and>
      msg_headers m = attach_request_id_header (cv_request_id (bk_vars b)) []"
      by (auto simp: q)
    then show ?case by (intro exI [of _ "?m # ms"]) simp
  qed simp
  then show ?thesis using that by blast
qed

text \<open>What consuming a message does to the queue: what the attempt sent, and the message again if it is retried.\<close>

lemma consumed:
  assumes "consume s su m (b, w) = Some (b', w')" and "attempt s (msg_job m) w = Some (r, w1)"
  obtains ms where "bk_default b' = remove1 m (bk_default b) @ ms @
      (case r of Inr _ \<Rightarrow> [] | Inl _ \<Rightarrow> if msg_retries m < max_retries (msg_job m) then [m\<lparr>msg_retries := Suc (msg_retries m)\<rparr>] else [])"
    and "map msg_job ms = map Queued (task_queue w1)"
    and "\<forall>x \<in> set ms. msg_retries x = 0 \<and> msg_headers x = attach_request_id_header
      (cv_request_id (enter_request_context (msg_id m) (msg_headers m) (bk_vars b))) []"
    and "bk_vars b' = exit_request_context (msg_id m) (enter_request_context (msg_id m) (msg_headers m) (bk_vars b))"
    and "w' = w1\<lparr>task_queue := []\<rparr>"
    and "bk_dlq b' = bk_dlq b @ (case r of Inr _ \<Rightarrow> [] | Inl e \<Rightarrow>
      if msg_retries m < max_retries (msg_job m) \<or> \<not> su_dlq_up su then []
      else [death_certificate m (su_exception su e) (su_isoformat su (clock w1))])"
proof -
  let ?b = "b\<lparr>bk_default := remove1 m (bk_default b), bk_vars := enter_request_context (msg_id m) (msg_headers m) (bk_vars b)\<rparr>"
  obtain ms where ms: "fold (\<lambda>tk. publish (Queued tk)) (task_queue w1) ?b =
      ?b\<lparr>bk_default := bk_default ?b @ ms, bk_next := bk_next ?b + length (task_queue w1)\<rparr>"
    "map msg_job ms = map Queued (task_queue w1)"
    "\<forall>x \<in> set ms. msg_retries x = 0 \<and> msg_headers x = attach_request_id_header (cv_request_id (bk_vars ?b)) []"
    by (rule published)
  show ?thesis
    using assms ms by (intro that [of ms]) (auto simp: consume_def Let_def on_failure_def split: sum.splits if_splits)
qed

lemma works_lowers:
  assumes "works s su bw bw'" and "at_rest bw"
  shows "at_rest bw'" and "(ranks bw', ranks bw) \<in> mult (less_than <*lex*> less_than)"
proof -
  obtain m where m: "m \<in> set (bk_default (fst bw))" and con: "consume s su m bw = Some bw'"
    using assms(1) by (auto simp: works.simps)
  obtain b w b' w' where bw: "bw = (b, w)" "bw' = (b', w')" by fastforce
  obtain r w1 where att: "attempt s (msg_job m) w = Some (r, w1)"
    using con bw by (auto simp: consume_def Let_def split: option.splits)
  note sends = attempt_sends [OF att] and rest = assms(2) [unfolded at_rest_def bw snd_conv]
  let ?again = "case r of Inr _ \<Rightarrow> [] | Inl _ \<Rightarrow> if msg_retries m < max_retries (msg_job m) then [m\<lparr>msg_retries := Suc (msg_retries m)\<rparr>] else []"
  obtain ms where b': "bk_default b' = remove1 m (bk_default b) @ ms @ ?again"
    and jobs: "map msg_job ms = map Queued (task_queue w1)" and w': "w' = w1\<lparr>task_queue := []\<rparr>"
    by (rule consumed [OF con [unfolded bw] att])
  show "at_rest bw'" using sends(1) rest w' bw by (simp add: at_rest_def)
  have ms_light: "light (msg_job x)" if "x \<in> set ms" for x
  proof -
    have "msg_job x \<in> set (map Queued (task_queue w1))" using that jobs by (metis list.set_map image_eqI)
    then show ?thesis using sends(2) rest by (auto simp: light_def list_all_iff)
  qed
  have none: "ms = []" if "light (msg_job m)" using sends(3) rest that jobs by simp
  have below: "\<forall>k \<in># image_mset rank (mset (ms @ ?again)). \<exists>j \<in># {#rank m#}. (k, j) \<in> less_than <*lex*> less_than"
    using ms_light none by (cases "light (msg_job m)") (auto simp: rank_def split: sum.splits if_splits)
  have split: "mset (bk_default b) = mset (remove1 m (bk_default b)) + {#m#}" using m bw by simp
  have "ranks bw = image_mset rank (mset (remove1 m (bk_default b))) + {#rank m#}"
    unfolding ranks_def bw fst_conv split by simp
  moreover have "ranks bw' = image_mset rank (mset (remove1 m (bk_default b))) + image_mset rank (mset (ms @ ?again))"
    by (simp add: ranks_def bw b')
  ultimately show "(ranks bw', ranks bw) \<in> mult (less_than <*lex*> less_than)"
    using one_step_implies_mult [OF _ below] by simp
qed

lemma queue_ends:
  assumes "at_rest (f 0)"
  shows "\<exists>n. \<not> works s su (f n) (f (Suc n))"
proof (rule ccontr)
  assume "\<not> ?thesis"
  then have st: "works s su (f n) (f (Suc n))" for n by blast
  have rest: "at_rest (f n)" for n
    by (induction n) (use assms works_lowers(1) [OF st] in auto)
  have "(ranks (f (Suc n)), ranks (f n)) \<in> mult (less_than <*lex*> less_than)" for n
    by (rule works_lowers(2) [OF st rest])
  then have "\<exists>g. \<forall>n. (g (Suc n), g n) \<in> mult (less_than <*lex*> less_than)" by (intro exI [of _ "\<lambda>n. ranks (f n)"]) simp
  moreover have "wf (mult (less_than <*lex*> less_than :: ((nat \<times> nat) \<times> nat \<times> nat) set))"
    by (intro wf_mult wf_lex_prod wf_less_than)
  ultimately show False unfolding wf_iff_no_infinite_down_chain by blast
qed

text \<open>Every attempt at a task ends, whatever it does, so a message that is queued can be taken.\<close>

lemma attempt_ends:
  assumes "idle w"
  obtains r w' where "attempt s j w = Some (r, w')" and "idle w'"
proof (cases j)
  case (Queued tk)
  obtain r w' where "run_task s tk w = (r, w')" by fastforce
  moreover from run_task_idle assms this have "idle w'" by (rule preservesD)
  ultimately show ?thesis using that Queued by simp
next
  case ReleaseExpired
  have "ledger w" using assms by (simp add: idle_def sound_def)
  then obtain r w' where run: "release_expired_reservations w = Some (r, w')"
    using expire_loop_total [of w "clock w" 0] by (auto simp: release_expired_reservations_def)
  then have "idle w'" by (rule step_idle [OF step.release assms])
  with run show ?thesis using that ReleaseExpired by simp
next
  case (AbandonStale d)
  obtain r w' where "abandon_stale_carts d w = (r, w')" by fastforce
  moreover from abandon_idle assms this have "idle w'" by (rule preservesD)
  ultimately show ?thesis using that AbandonStale by simp
qed

lemma works_idle: "works s su bw bw' \<Longrightarrow> idle (snd bw) \<Longrightarrow> idle (snd bw')"
proof (induction rule: works.induct)
  case (consumes m bw bw')
  obtain r w1 where att: "attempt s (msg_job m) (snd bw) = Some (r, w1)" and i: "idle w1"
    by (rule attempt_ends [OF consumes.prems])
  have "snd bw' = w1\<lparr>task_queue := []\<rparr>"
    using consumes.hyps(2) att by (auto simp: consume_def Let_def)
  with i show ?case by simp
qed

lemma works_on:
  assumes "idle (snd bw)" and "m \<in> set (bk_default (fst bw))"
  obtains bw' where "consume s su m bw = Some bw'" and "works s su bw bw'"
proof -
  obtain r w1 where att: "attempt s (msg_job m) (snd bw) = Some (r, w1)"
    by (rule attempt_ends [OF assms(1)])
  then obtain bw' where run: "consume s su m bw = Some bw'" by (auto simp: consume_def Let_def)
  from that [OF run works.consumes [OF assms(2) run]] show ?thesis .
qed

lemma runs_keep:
  assumes "(works s su)\<^sup>*\<^sup>* bw bw'" and "at_rest bw" and "idle (snd bw)"
  shows "at_rest bw' \<and> idle (snd bw')"
  using assms by (induction rule: rtranclp_induct) (auto dest: works_lowers(1) works_idle)

lemma queue_empties:
  assumes "at_rest bw" and "idle (snd bw)"
  shows "\<exists>bw'. (works s su)\<^sup>*\<^sup>* bw bw' \<and> bk_default (fst bw') = []"
proof -
  have "wf (inv_image (mult (less_than <*lex*> less_than)) ranks)"
    by (intro wf_inv_image wf_mult wf_lex_prod wf_less_than)
  then show ?thesis using assms
  proof (induction bw rule: wf_induct_rule)
    case (less bw)
    show ?case
    proof (cases "bk_default (fst bw)")
      case (Cons m ms)
      then have "m \<in> set (bk_default (fst bw))" by simp
      then obtain bw1 where st: "works s su bw bw1" by (rule works_on [OF less.prems(2)])
      have "(bw1, bw) \<in> inv_image (mult (less_than <*lex*> less_than)) ranks"
        using works_lowers(2) [OF st less.prems(1)] by simp
      from less.IH [OF this works_lowers(1) [OF st less.prems(1)] works_idle [OF st less.prems(2)]]
      obtain bw' where "(works s su)\<^sup>*\<^sup>* bw1 bw'" "bk_default (fst bw') = []" by blast
      with st show ?thesis by (meson converse_rtranclp_into_rtranclp)
    qed (intro exI [of _ bw]; simp)
  qed
qed

subsection \<open>An event, from the queue to the paid order\<close>

lemma event_delivered:
  assumes rest: "at_rest (b, w)" and s: "sound w" and m: "m \<in> set (bk_default b)" and job: "msg_job m = Queued (ProcessWebhookEvent a)"
    and rid: "map_of (msg_headers m) REQUEST_ID_HEADER = Some rid" "rid \<noteq> []" and new: "\<not> event_recorded a w"
    and p: "p \<in> set (db_payments w)" "tenant_id p = wa_tenant a" "row_id p = wa_payment a"
    and od: "od \<in> set (db_orders w)" "tenant_id od = wa_tenant a" "row_id od = pay_order p" "ord_status od = OrderPending"
    and captured: "wa_event_type a = ''payment.captured''"
  obtains b' w' x where "consume st su m (b, w) = Some (b', w')"
    and "tables w' = tables (order_settled sub_both ResCommitted OrderPaid od (with_event a w))"
    and "bk_default b' = remove1 m (bk_default b) @ [x]" and "msg_job x = Queued (GenerateInvoice (tenant_id od) (row_id od))"
    and "map_of (msg_headers x) REQUEST_ID_HEADER = Some rid" and "bk_dlq b' = bk_dlq b"
proof -
  let ?w = "w\<lparr>tenant_ctx := Some (wa_tenant a)\<rparr>"
  have I: "inv (wa_tenant a) {} ?w" using s by (simp add: inv_sound)
  have new': "\<not> event_recorded a ?w" using new by (simp add: event_recorded_def)
  obtain w1 where run: "process_webhook_event a ?w = (Inr (), w1)"
    and tb: "tables w1 = tables (order_settled sub_both ResCommitted OrderPaid od (with_event a ?w))"
    and q: "atomic_depth ?w = 0 \<Longrightarrow> task_queue w1 = task_queue ?w @ on_commit_hooks ?w @ [GenerateInvoice (wa_tenant a) (row_id od)]"
    by (rule event_applied [OF I new', of p od]) (use p od captured in auto)
  let ?w2 = "w1\<lparr>tenant_ctx := tenant_ctx w\<rparr>"
  have att: "attempt st (msg_job m) w = Some (Inr (), ?w2)"
    using context_run [of "process_webhook_event a", OF run] by (simp add: job run_task_def tenant_aware_task_def)
  have sent: "task_queue ?w2 = [GenerateInvoice (wa_tenant a) (row_id od)]"
    using q rest by (simp add: at_rest_def quiet_def)
  obtain b' w' where con: "consume st su m (b, w) = Some (b', w')"
    using att by (auto simp: consume_def Let_def)
  obtain ms where b': "bk_default b' = remove1 m (bk_default b) @ ms @ []" "map msg_job ms = map Queued (task_queue ?w2)"
    "\<forall>x \<in> set ms. msg_retries x = 0 \<and> msg_headers x = attach_request_id_header
      (cv_request_id (enter_request_context (msg_id m) (msg_headers m) (bk_vars b))) []"
    "w' = ?w2\<lparr>task_queue := []\<rparr>" "bk_dlq b' = bk_dlq b @ []"
    by (rule consumed [OF con att]) simp
  obtain x where ms: "ms = [x]" "msg_job x = Queued (GenerateInvoice (wa_tenant a) (row_id od))"
    using b'(2) sent by (auto simp: map_eq_Cons_conv)
  have "cv_request_id (enter_request_context (msg_id m) (msg_headers m) (bk_vars b)) = Some rid"
    using rid by (simp add: enter_request_context_def)
  then have "map_of (msg_headers x) REQUEST_ID_HEADER = Some rid"
    using b'(3) ms(1) rid(2) by (simp add: attach_request_id_header_def)
  moreover have "tables w' = tables w1" using b'(4) by (simp add: tables_def)
  moreover have "tables (order_settled sub_both ResCommitted OrderPaid od (with_event a ?w)) =
      tables (order_settled sub_both ResCommitted OrderPaid od (with_event a w))"
    by (simp add: order_settled_def settle_own_def own_in_def with_order_status_def with_event_def tables_def)
  ultimately show ?thesis using con b'(1,5) ms od(2) tb by (intro that [of b' w' x]) simp_all
qed

text \<open>A task leaves the context of the worker as it was, and what it sends carries the identifier it ran under.\<close>

lemma consume_context:
  assumes "consume s su m (b, w) = Some (b', w')" and "cv_tokens (bk_vars b) (msg_id m) = None"
  shows "bk_vars b' = bk_vars b"
proof -
  obtain r w1 where att: "attempt s (msg_job m) w = Some (r, w1)"
    using assms(1) by (auto simp: consume_def Let_def split: option.splits)
  show ?thesis by (rule consumed [OF assms(1) att]) (use assms(2) in simp)
qed

end
