(* ===== verification/CartContents.thy ===== *)
theory CartContents
  imports Saga
begin

section \<open>A cart as a bag of products\<close>

text \<open>
  What the operations of \<open>CartService\<close> promise about the contents of a cart: an abstract cart maps products to
  quantities, and each operation that succeeds does to the rows what its abstract counterpart does to the map, for the
  customer's active cart and for no other.
\<close>

type_synonym bag = "uuid \<Rightarrow> int"

datatype cart_op = AddOp uuid int | SetOp uuid int | RemoveOp uuid

fun apply_op :: "cart_op \<Rightarrow> bag \<Rightarrow> bag" where
  "apply_op (AddOp p q) b = b(p := b p + q)"
| "apply_op (SetOp p q) b = b(p := q)"
| "apply_op (RemoveOp p) b = b(p := 0)"

text \<open>The bag of a cart, and the calls of the service that stand for an operation.\<close>

definition bag_of :: "cart_item list \<Rightarrow> bag" where
  "bag_of items p = sum_list (map item_quantity (filter (\<lambda>i. item_product i = p) items))"

abbreviation cart_bag :: "world \<Rightarrow> uuid \<Rightarrow> bag" where
  "cart_bag w c \<equiv> bag_of (items_of w c)"

fun cart_call :: "uuid \<Rightarrow> cart_op \<Rightarrow> world \<Rightarrow> cart_view \<Rightarrow> world \<Rightarrow> bool" where
  "cart_call customer (AddOp p q) w v w' \<longleftrightarrow> add_item customer p q w = (Inr v, w')"
| "cart_call customer (SetOp p q) w v w' \<longleftrightarrow>
     (\<exists>i \<in> set (db_cart_items w). item_product i = p \<and> update_item_quantity customer (row_id i) q w = (Inr v, w'))"
| "cart_call customer (RemoveOp p) w v w' \<longleftrightarrow>
     (\<exists>i \<in> set (db_cart_items w). item_product i = p \<and> remove_item customer (row_id i) w = (Inr v, w'))"

lemma bag_of_Nil [simp]: "bag_of [] p = 0"
  by (simp add: bag_of_def)

lemma bag_of_Cons [simp]: "bag_of (i # is) p = (if item_product i = p then item_quantity i else 0) + bag_of is p"
  by (simp add: bag_of_def)

lemma bag_of_append [simp]: "bag_of (is @ js) p = bag_of is p + bag_of js p"
  by (simp add: bag_of_def)

lemma bag_of_none: "(\<And>i. i \<in> set is \<Longrightarrow> item_product i \<noteq> p) \<Longrightarrow> bag_of is p = 0"
  by (induction "is") auto

subsection \<open>Steps on the rows\<close>

definition set_quantity :: "(int \<Rightarrow> int) \<Rightarrow> cart_item \<Rightarrow> cart_item" where
  "set_quantity g i = i\<lparr>item_quantity := g (item_quantity i)\<rparr>"

lemma set_quantity_simps [simp]:
  "row_id (set_quantity g i) = row_id i" "tenant_id (set_quantity g i) = tenant_id i"
  "item_cart (set_quantity g i) = item_cart i" "item_product (set_quantity g i) = item_product i"
  "item_quantity (set_quantity g i) = g (item_quantity i)"
  by (simp_all add: set_quantity_def)

text \<open>The rows of a cart when one row of the table is rewritten, removed or added.\<close>

definition items_in :: "cart_item list \<Rightarrow> uuid \<Rightarrow> uuid \<Rightarrow> cart_item list" where
  "items_in rows t c = filter (\<lambda>i. tenant_id i = t \<and> item_cart i = c) rows"

lemma items_of_in: "tenant_ctx w = Some t \<Longrightarrow> items_of w c = items_in (db_cart_items w) t c"
  by (simp add: items_of_def items_in_def objects_def conj_commute)

lemma bag_update_row:
  assumes "distinct (map row_id rows)" and "i \<in> set rows" and "tenant_id i = t"
  shows "bag_of (items_in (upd_where (\<lambda>r. row_id r = row_id i) (set_quantity g) rows) t c) =
    (if item_cart i = c
     then (bag_of (items_in rows t c))(item_product i := bag_of (items_in rows t c) (item_product i) + g (item_quantity i) - item_quantity i)
     else bag_of (items_in rows t c))"
  using assms
proof (induction rows)
  case Nil
  then show ?case by simp
next
  case (Cons x rows)
  show ?case
  proof (cases "x = i")
    case True
    then have "upd_where (\<lambda>r. row_id r = row_id i) (set_quantity g) rows = rows"
      using Cons.prems(1) by (intro upd_where_none) (auto simp: image_iff)
    then show ?thesis using True Cons.prems(3) by (auto simp: items_in_def fun_eq_iff)
  next
    case False
    then have "row_id x \<noteq> row_id i" using Cons.prems by (auto simp: image_iff)
    then show ?thesis using Cons False by (auto simp: items_in_def fun_eq_iff)
  qed
qed

lemma bag_remove_row:
  assumes "distinct (map row_id rows)" and "i \<in> set rows" and "tenant_id i = t"
  shows "bag_of (items_in (filter (\<lambda>r. row_id r \<noteq> row_id i) rows) t c) =
    (if item_cart i = c
     then (bag_of (items_in rows t c))(item_product i := bag_of (items_in rows t c) (item_product i) - item_quantity i)
     else bag_of (items_in rows t c))"
  using assms
proof (induction rows)
  case Nil
  then show ?case by simp
next
  case (Cons x rows)
  show ?case
  proof (cases "x = i")
    case True
    then have "filter (\<lambda>r. row_id r \<noteq> row_id i) rows = rows"
      using Cons.prems(1) by (intro filter_True) (auto simp: image_iff)
    then show ?thesis using True Cons.prems(3) by (auto simp: items_in_def fun_eq_iff)
  next
    case False
    then have "row_id x \<noteq> row_id i" using Cons.prems by (auto simp: image_iff)
    then show ?thesis using Cons False by (auto simp: items_in_def fun_eq_iff)
  qed
qed

text \<open>A product is in a cart once.\<close>

lemma bag_of_unique:
  assumes "distinct (map (\<lambda>r. (item_cart r, item_product r)) rows)" and "i \<in> set rows" and "tenant_id i = t"
  shows "bag_of (items_in rows t (item_cart i)) (item_product i) = item_quantity i"
  using assms
proof (induction rows)
  case Nil
  then show ?case by simp
next
  case (Cons x rows)
  show ?case
  proof (cases "x = i")
    case True
    then have "bag_of (items_in rows t (item_cart i)) (item_product i) = 0"
      using Cons.prems(1) True by (intro bag_of_none) (auto simp: items_in_def image_iff)
    then show ?thesis using True Cons.prems(3) by (simp add: items_in_def)
  next
    case False
    with Cons.prems have i: "i \<in> set rows" by simp
    then have "\<not> (item_cart x = item_cart i \<and> item_product x = item_product i)"
      using Cons.prems(1) by (auto simp: image_iff)
    with Cons i show ?thesis by (auto simp: items_in_def)
  qed
qed

subsection \<open>The operations\<close>

definition rows_are :: "cart_item list \<Rightarrow> uuid \<Rightarrow> world \<Rightarrow> bool" where
  "rows_are rows t w \<longleftrightarrow> db_cart_items w = rows \<and> tenant_ctx w = Some t"

lemma rows_are_frame [simp]:
  "rows_are rows t (w\<lparr>db_carts := cs\<rparr>) = rows_are rows t w" "rows_are rows t (w\<lparr>fresh_id := n\<rparr>) = rows_are rows t w"
  "rows_are rows t (enter_atomic w) = rows_are rows t w" "rows_are rows t (commit w0 w) = rows_are rows t w"
  by (simp_all add: rows_are_def enter_atomic_def commit_def)

lemma rows_are_rollback: "rows_are rows t w0 \<Longrightarrow> rows_are rows t w \<Longrightarrow> rows_are rows t (rollback w0 w)"
  by (simp add: rows_are_def rollback_def)

lemma keep_items:
  "preserves (rows_are rows t) (bump_and_return c)" "preserves (rows_are rows t) (get_or_create_cart customer)"
  "preserves (rows_are rows t) (lock_currency c p)" "preserves (rows_are rows t) (clear_currency_if_empty c)"
  "preserves (rows_are rows t) (lock_active_cart customer)"
  unfolding bump_and_return_def get_or_create_cart_def lock_currency_def clear_currency_if_empty_def lock_active_cart_def
  by (intro hoare_intros preserves_update_rows preserves_save_fields preserves_create preserves_atomic;
      simp add: rows_are_rollback)+

lemma bump_cart:
  assumes "bump_and_return c w = (Inr v, w')"
  shows "row_id (cv_cart v) = row_id c" and "cv_items v = items_of w' (row_id c)"
    and "get_row carts_tbl (\<lambda>r. row_id r = row_id c) (DoesNotExist ''Cart'') w' = (Inr (cv_cart v), w')"
proof -
  obtain w1 c' where g: "get_row carts_tbl (\<lambda>r. row_id r = row_id c) (DoesNotExist ''Cart'') w1 = (Inr c', w1)"
    and v: "v = load_cart w1 c'" "w' = w1"
    using assms unfolding bump_and_return_def
    by (elim bindE_Inr_D) (auto dest: refresh_Inr(1) get_row_Inr(1))
  from get_row_Inr(3) [OF g] g v show "row_id (cv_cart v) = row_id c" "cv_items v = items_of w' (row_id c)"
    and "get_row carts_tbl (\<lambda>r. row_id r = row_id c) (DoesNotExist ''Cart'') w' = (Inr (cv_cart v), w')"
    by (simp_all add: load_cart_def)
qed

lemma first_row_Inr:
  assumes "first_row tb P w = (Inr x, w')"
  shows "w' = w" and "\<And>r. x = Some r \<Longrightarrow> r \<in> set (objects tb w) \<and> P r"
proof -
  have x: "x = first_by pk_order (filter P (objects tb w))" and w: "w' = w"
    using assms by (auto simp: first_row_def)
  then show "w' = w" by simp
  fix r assume "x = Some r"
  with x have "filter P (objects tb w) \<noteq> []" and "r = arg_min_list pk_order (filter P (objects tb w))"
    by (auto simp: first_by_def split: list.splits)
  then have "r \<in> set (filter P (objects tb w))" using arg_min_list_in by metis
  then show "r \<in> set (objects tb w) \<and> P r" by simp
qed

lemma scoped_row:
  assumes "distinct (map row_id rows)" and "i \<in> set rows" and "tenant_ctx w = Some (tenant_id i)"
  shows "upd_where (\<lambda>r. in_scope w r \<and> row_id r = row_id i) f rows = upd_where (\<lambda>r. row_id r = row_id i) f rows"
  using assms by (intro upd_where_cong) (auto simp: in_scope_def distinct_map inj_on_def)

lemma put_item_rows:
  assumes "put_item c p q existing w = (Inr u, w')" and "rows_are rows t w" and "distinct (map row_id rows)"
    and "\<And>i. existing = Some i \<Longrightarrow> i \<in> set rows \<and> tenant_id i = t \<and> item_cart i = row_id c \<and> item_product i = row_id p"
  shows "tenant_ctx w' = Some t" and "bag_of (items_in (db_cart_items w') t c') =
    (if c' = row_id c then apply_op (AddOp (row_id p) q) (bag_of (items_in rows t c')) else bag_of (items_in rows t c'))"
proof -
  have rows: "db_cart_items w = rows" and ctx: "tenant_ctx w = Some t" using assms(2) by (simp_all add: rows_are_def)
  have "tenant_ctx w' = Some t \<and> bag_of (items_in (db_cart_items w') t c') =
    (if c' = row_id c then apply_op (AddOp (row_id p) q) (bag_of (items_in rows t c')) else bag_of (items_in rows t c'))"
  proof (cases existing)
    case (Some i)
    note i = assms(4) [OF Some]
    have "(\<lambda>r. r\<lparr>item_quantity := item_quantity r + q\<rparr>) = set_quantity (\<lambda>n. n + q)"
      by (simp add: set_quantity_def fun_eq_iff)
    then have "w' = w\<lparr>db_cart_items := upd_where (\<lambda>r. row_id r = row_id i) (set_quantity (\<lambda>n. n + q)) rows\<rparr>"
      using assms(1) Some rows scoped_row [OF assms(3), of i w] i ctx
      by (auto simp: put_item_def bindE_def update_rows_def update_where_def write_rows_def split: if_splits)
    then show ?thesis using bag_update_row [OF assms(3), of i t "\<lambda>n. n + q" c'] i ctx by (auto simp: fun_eq_iff)
  next
    case None
    then have "w' = w\<lparr>db_cart_items := rows @ [stamp (fresh_id w) t (clock w) (new_cart_item (row_id c) p q)], fresh_id := Suc (fresh_id w)\<rparr>"
      using assms(1) rows ctx
      by (auto simp: put_item_def bindE_def create_simp insert_row_def split: if_splits)
    then show ?thesis using ctx by (auto simp: items_in_def stamp_def new_cart_item_def fun_eq_iff)
  qed
  then show "tenant_ctx w' = Some t" and "bag_of (items_in (db_cart_items w') t c') =
    (if c' = row_id c then apply_op (AddOp (row_id p) q) (bag_of (items_in rows t c')) else bag_of (items_in rows t c'))"
    by simp_all
qed


lemma inv_rows: "inv t ids w \<Longrightarrow> rows_are (db_cart_items w) t (enter_atomic w)"
  by (simp add: rows_are_def enter_atomic_def inv_ctx)

lemma item_rows:
  assumes "inv t ids w"
  shows "distinct (map row_id (db_cart_items w))"
    and "distinct (map (\<lambda>r. (item_cart r, item_product r)) (db_cart_items w))"
  using schema_get(9) [OF inv_schema [OF assms]] by (simp_all add: cart_items_tbl_def pk_ok_def)

text \<open>The last step of every operation returns the cart as it is.\<close>

lemma bump_bag:
  assumes "bump_and_return c w = (Inr v, w1)" and "tenant_ctx w = Some t" and "w' = commit w0 w1"
  shows "row_id (cv_cart v) = row_id c" and "cv_items v = items_in (db_cart_items w) t (row_id c)"
    and "cart_bag w' c' = bag_of (items_in (db_cart_items w) t c')" and "db_cart_items w' = db_cart_items w"
proof -
  have "rows_are (db_cart_items w) t w" using assms(2) by (simp add: rows_are_def)
  from preservesD [OF keep_items(1) this assms(1)] have r: "db_cart_items w1 = db_cart_items w" "tenant_ctx w1 = Some t"
    by (simp_all add: rows_are_def)
  show "row_id (cv_cart v) = row_id c" by (rule bump_cart [OF assms(1)])
  show "cv_items v = items_in (db_cart_items w) t (row_id c)"
    using bump_cart(2) [OF assms(1)] r by (simp add: items_of_in)
  have "tenant_ctx w' = Some t" using assms(3) r by (simp add: commit_def)
  then show "cart_bag w' c' = bag_of (items_in (db_cart_items w) t c')"
    using assms(3) r by (simp add: items_of_in commit_def)
  show "db_cart_items w' = db_cart_items w" using assms(3) r by (simp add: commit_def)
qed

lemma add_item_bag:
  assumes I: "inv t {} w" and run: "add_item customer product q w = (Inr v, w')"
  shows "bag_of (cv_items v) = apply_op (AddOp product q) (cart_bag w (row_id (cv_cart v)))"
    and "c' \<noteq> row_id (cv_cart v) \<Longrightarrow> cart_bag w' c' = cart_bag w c'"
proof -
  let ?rows = "db_cart_items w"
  obtain c w1 p w2 c2 w3 existing w4 g w5 u w6 w7 where c: "get_or_create_cart customer (enter_atomic w) = (Inr c, w1)"
    and p: "get_row products_tbl (\<lambda>p. row_id p = product \<and> prod_is_active p) (ProductNotFound product) w1 = (Inr p, w2)"
    and l: "lock_currency c p w2 = (Inr c2, w3)"
    and ex: "first_row cart_items_tbl (\<lambda>i. item_cart i = row_id c2 \<and> item_product i = product) w3 = (Inr existing, w4)"
    and g: "guard_that ((case existing of None \<Rightarrow> 0 | Some i \<Rightarrow> item_quantity i) + q \<le> available_quantity p)
      (InsufficientStock product (available_quantity p) ((case existing of None \<Rightarrow> 0 | Some i \<Rightarrow> item_quantity i) + q)) w4
      = (Inr g, w5)"
    and put: "put_item c2 p q existing w5 = (Inr u, w6)" and b: "bump_and_return c2 w6 = (Inr v, w7)"
    and w': "w' = commit w w7"
    using run unfolding add_item_def seqE_def Let_def by (elim atomic_Inr_D bindE_Inr_D) (rule that)
  have w: "w2 = w1" "w4 = w3" "w5 = w3"
    using get_row_Inr(1) [OF p] first_row_Inr(1) [OF ex] g by (simp_all add: guard_that_def split: if_splits)
  have r1: "rows_are ?rows t w1" using keep_items(2) inv_rows [OF I] c by (rule preservesD)
  have r3: "rows_are ?rows t w5" using preservesD [OF keep_items(3) _ l] r1 by (simp add: w)
  have pid: "row_id p = product" using get_row_Inr(3) [OF p] by simp
  have exi: "i \<in> set ?rows \<and> tenant_id i = t \<and> item_cart i = row_id c2 \<and> item_product i = row_id p" if "existing = Some i" for i
    using first_row_Inr(2) [OF ex that] r3 pid by (simp add: objects_def rows_are_def w)
  note put_rows = put_item_rows [OF put r3 item_rows(1) [OF I] exi]
  note bb = bump_bag [OF b put_rows(1) w']
  have own: "cart_bag w c' = bag_of (items_in ?rows t c')" for c'
    using inv_ctx [OF I] by (simp add: items_of_in)
  show "bag_of (cv_items v) = apply_op (AddOp product q) (cart_bag w (row_id (cv_cart v)))"
    using bb put_rows(2) pid own by simp
  show "c' \<noteq> row_id (cv_cart v) \<Longrightarrow> cart_bag w' c' = cart_bag w c'"
    using bb put_rows(2) own by simp
qed


lemma update_item_bag:
  assumes I: "inv t {} w" and run: "update_item_quantity customer i q w = (Inr v, w')"
    and x: "x \<in> set (db_cart_items w)" "row_id x = i"
  shows "bag_of (cv_items v) = apply_op (SetOp (item_product x) q) (cart_bag w (row_id (cv_cart v)))"
    and "c' \<noteq> row_id (cv_cart v) \<Longrightarrow> cart_bag w' c' = cart_bag w c'"
proof -
  let ?rows = "db_cart_items w"
  obtain c w1 y w2 p w3 g w4 n w5 w6 where c: "lock_active_cart customer (enter_atomic w) = (Inr c, w1)"
    and y: "get_row cart_items_tbl (\<lambda>r. item_cart r = row_id c \<and> row_id r = i) (CartNotFound ''Cart item not found'') w1 = (Inr y, w2)"
    and p: "follow products_tbl (item_product y) w2 = (Inr p, w3)"
    and g: "guard_that (q \<le> available_quantity p) (InsufficientStock (item_product y) (available_quantity p) q) w3 = (Inr g, w4)"
    and u: "update_rows cart_items_tbl (\<lambda>r. row_id r = row_id y) (\<lambda>r. r\<lparr>item_quantity := q\<rparr>) w4 = (Inr n, w5)"
    and b: "bump_and_return c w5 = (Inr v, w6)" and w': "w' = commit w w6"
    using run unfolding update_item_quantity_def seqE_def by (elim atomic_Inr_D bindE_Inr_D) (rule that)
  have r1: "rows_are ?rows t w1" using keep_items(5) inv_rows [OF I] c by (rule preservesD)
  have "w2 = w1" using get_row_Inr(1) [OF y] .
  moreover have "w3 = w2" using p by (auto simp: follow_def dest: get_row_all_Inr(1))
  ultimately have w4: "w4 = w1" using g by (simp add: guard_that_def split: if_splits)
  from get_row_Inr(2-4) [OF y] r1 have y': "y \<in> set ?rows" "item_cart y = row_id c" "row_id y = i" "tenant_id y = t"
    by (simp_all add: rows_are_def in_scope_def)
  note d = item_rows [OF I]
  have xy: "x = y" using x y' d(1) by (auto simp: distinct_map inj_on_def)
  have ctx: "tenant_ctx w1 = Some (tenant_id y)" and rows: "db_cart_items w1 = ?rows" using r1 y' by (simp_all add: rows_are_def)
  have "(\<lambda>r. r\<lparr>item_quantity := q\<rparr>) = set_quantity (\<lambda>_. q)" by (simp add: set_quantity_def fun_eq_iff)
  then have w5: "w5 = w1\<lparr>db_cart_items := upd_where (\<lambda>r. row_id r = row_id y) (set_quantity (\<lambda>_. q)) ?rows\<rparr>"
    using u w4 scoped_row [OF d(1) y'(1) ctx] rows
    by (auto simp: update_rows_def update_where_def write_rows_def split: if_splits)
  have t5: "tenant_ctx w5 = Some t" using w5 r1 by (simp add: rows_are_def)
  note bb = bump_bag [OF b t5 w']
  have own: "cart_bag w c' = bag_of (items_in ?rows t c')" for c'
    using inv_ctx [OF I] by (simp add: items_of_in)
  have one: "bag_of (items_in ?rows t (row_id c)) (item_product y) = item_quantity y"
    using bag_of_unique [OF d(2) y'(1,4)] y'(2) by simp
  show "bag_of (cv_items v) = apply_op (SetOp (item_product x) q) (cart_bag w (row_id (cv_cart v)))"
    using bb(1,2) own one w5 xy y'(2) bag_update_row [OF d(1) y'(1,4), of "\<lambda>_. q" "row_id c"] by (simp add: fun_eq_iff)
  show "c' \<noteq> row_id (cv_cart v) \<Longrightarrow> cart_bag w' c' = cart_bag w c'"
    using bb(1,3) own w5 y'(2) bag_update_row [OF d(1) y'(1,4), of "\<lambda>_. q" c'] by simp
qed

lemma remove_item_bag:
  assumes I: "inv t {} w" and run: "remove_item customer i w = (Inr v, w')"
    and x: "x \<in> set (db_cart_items w)" "row_id x = i"
  shows "bag_of (cv_items v) = apply_op (RemoveOp (item_product x)) (cart_bag w (row_id (cv_cart v)))"
    and "c' \<noteq> row_id (cv_cart v) \<Longrightarrow> cart_bag w' c' = cart_bag w c'"
proof -
  let ?rows = "db_cart_items w"
  obtain c w1 n w2 g w3 u w4 w5 where c: "lock_active_cart customer (enter_atomic w) = (Inr c, w1)"
    and dl: "delete_rows cart_items_tbl (\<lambda>r. item_cart r = row_id c \<and> row_id r = i) w1 = (Inr n, w2)"
    and g: "guard_that (n \<noteq> 0) (CartNotFound ''Cart item not found'') w2 = (Inr g, w3)"
    and cl: "clear_currency_if_empty c w3 = (Inr u, w4)" and b: "bump_and_return c w4 = (Inr v, w5)" and w': "w' = commit w w5"
    using run unfolding remove_item_def seqE_def by (elim atomic_Inr_D bindE_Inr_D) (rule that)
  have r1: "db_cart_items w1 = ?rows" "tenant_ctx w1 = Some t"
    using preservesD [OF keep_items(5) inv_rows [OF I] c] by (simp_all add: rows_are_def)
  note d = item_rows [OF I]
  have w2: "w2 = w1\<lparr>db_cart_items := filter (\<lambda>r. \<not> (in_scope w1 r \<and> item_cart r = row_id c \<and> row_id r = i)) ?rows\<rparr>"
    and n: "n = length (filter (\<lambda>r. in_scope w1 r \<and> item_cart r = row_id c \<and> row_id r = i) ?rows)"
    using dl r1(1) by (auto simp: delete_rows_def delete_where_def)
  have "n \<noteq> 0" and w3: "w3 = w2" using g by (simp_all add: guard_that_def split: if_splits)
  then obtain y where "y \<in> set ?rows" "in_scope w1 y" "item_cart y = row_id c" "row_id y = i"
    using n by (auto simp: filter_empty_conv)
  with x d(1) r1(2) have x': "tenant_id x = t" "item_cart x = row_id c"
    by (auto simp: distinct_map inj_on_def in_scope_def)
  have "filter (\<lambda>r. \<not> (in_scope w1 r \<and> item_cart r = row_id c \<and> row_id r = i)) ?rows = filter (\<lambda>r. row_id r \<noteq> row_id x) ?rows"
    using x x' d(1) r1(2) by (intro filter_cong) (auto simp: in_scope_def distinct_map inj_on_def)
  with w2 w3 have rows3: "rows_are (filter (\<lambda>r. row_id r \<noteq> row_id x) ?rows) t w3" using r1(2) by (simp add: rows_are_def)
  have r4: "db_cart_items w4 = filter (\<lambda>r. row_id r \<noteq> row_id x) ?rows" "tenant_ctx w4 = Some t"
    using preservesD [OF keep_items(4) rows3 cl] by (simp_all add: rows_are_def)
  note bb = bump_bag [OF b r4(2) w']
  have own: "cart_bag w c' = bag_of (items_in ?rows t c')" for c'
    using inv_ctx [OF I] by (simp add: items_of_in)
  have one: "bag_of (items_in ?rows t (row_id c)) (item_product x) = item_quantity x"
    using bag_of_unique [OF d(2) x(1) x'(1)] x'(2) by simp
  show "bag_of (cv_items v) = apply_op (RemoveOp (item_product x)) (cart_bag w (row_id (cv_cart v)))"
    using bb(1,2) own one r4(1) x'(2) bag_remove_row [OF d(1) x(1) x'(1), of "row_id c"] by (simp add: fun_eq_iff)
  show "c' \<noteq> row_id (cv_cart v) \<Longrightarrow> cart_bag w' c' = cart_bag w c'"
    using bb(1,3) own r4(1) x'(2) bag_remove_row [OF d(1) x(1) x'(1), of c'] by simp
qed

text \<open>The service refines the abstract cart.\<close>

lemma cart_refinement:
  assumes "inv t {} w" and "cart_call customer op w v w'"
  shows "bag_of (cv_items v) = apply_op op (cart_bag w (row_id (cv_cart v))) \<and>
    (\<forall>c. c \<noteq> row_id (cv_cart v) \<longrightarrow> cart_bag w' c = cart_bag w c)"
  using assms(2)
proof (cases op)
  case (AddOp p q)
  then show ?thesis using add_item_bag [OF assms(1)] assms(2) by simp
next
  case (SetOp p q)
  with assms(2) obtain i where "i \<in> set (db_cart_items w)" "item_product i = p"
    "update_item_quantity customer (row_id i) q w = (Inr v, w')"
    by auto
  with SetOp update_item_bag [OF assms(1)] show ?thesis by blast
next
  case (RemoveOp p)
  with assms(2) obtain i where "i \<in> set (db_cart_items w)" "item_product i = p" "remove_item customer (row_id i) w = (Inr v, w')"
    by auto
  with RemoveOp remove_item_bag [OF assms(1)] show ?thesis by blast
qed

end
