(* ===== verification/Links.thy ===== *)
theory Links
  imports Slots
begin

section \<open>Foreign keys that stay with their tenant\<close>

text \<open>
  The database checks that the row a foreign key names exists, not that it is of the same tenant. The keys that
  the views follow with managers that are not scoped (the product of an item, the coupon on a cart, the gateway
  configuration of a method and of a payment, the order of an invoice) stay with their tenant in every reachable state.
\<close>

subsection \<open>The keys\<close>

definition refs :: "'a scoped list \<Rightarrow> (uuid \<times> uuid) set" where
  "refs rs = (\<lambda>r. (row_id r, tenant_id r)) ` set rs"

definition names_own :: "('a scoped \<Rightarrow> uuid option) \<Rightarrow> 'a scoped list \<Rightarrow> 'b scoped list \<Rightarrow> bool" where
  "names_own f rs ts \<longleftrightarrow> (\<forall>r \<in> set rs. \<forall>i. f r = Some i \<longrightarrow> (i, tenant_id r) \<in> refs ts)"

definition keys_own :: "world \<Rightarrow> bool" where
  "keys_own w \<longleftrightarrow>
     names_own (\<lambda>i. Some (item_product i)) (db_cart_items w) (db_products w) \<and>
     names_own (\<lambda>a. Some (ac_coupon a)) (db_applied_coupons w) (db_coupons w) \<and>
     names_own pm_gateway_config (db_payment_methods w) (db_gateway_configs w) \<and>
     names_own pay_gateway_config (db_payments w) (db_gateway_configs w) \<and>
     names_own (\<lambda>v. Some (inv_order v)) (db_invoices w) (db_orders w)"

lemma refs_iff: "(i, t) \<in> refs ts \<longleftrightarrow> (\<exists>x \<in> set ts. row_id x = i \<and> tenant_id x = t)"
  by (auto simp: refs_def)

lemma refs_append [simp]: "refs (rs @ rs') = refs rs \<union> refs rs'"
  by (auto simp: refs_def)

lemma refs_upd [simp]:
  assumes "\<And>r. row_id (g r) = row_id r" and "\<And>r. tenant_id (g r) = tenant_id r"
  shows "refs (upd_where P g rs) = refs rs"
proof -
  have "(\<lambda>r. (row_id r, tenant_id r)) ` set (upd_where P g rs) = (\<lambda>r. (row_id r, tenant_id r)) ` set rs"
    using assms unfolding upd_where_def set_map image_image by (intro image_cong) auto
  then show ?thesis by (simp add: refs_def)
qed

lemma names_own_more: "names_own f rs ts \<Longrightarrow> refs ts \<subseteq> refs ts' \<Longrightarrow> names_own f rs ts'"
  by (auto simp: names_own_def)

lemma names_own_same: "refs ts = refs ts' \<Longrightarrow> names_own f rs ts = names_own f rs ts'"
  by (simp add: names_own_def)

lemma names_own_filter: "names_own f rs ts \<Longrightarrow> names_own f (filter P rs) ts"
  by (auto simp: names_own_def)

lemma names_own_append [simp]:
  "names_own f (rs @ rs') ts \<longleftrightarrow> names_own f rs ts \<and> names_own f rs' ts"
  by (auto simp: names_own_def)

lemma names_own_single: "names_own f [r] ts \<longleftrightarrow> (\<forall>i. f r = Some i \<longrightarrow> (i, tenant_id r) \<in> refs ts)"
  by (simp add: names_own_def)

lemma names_own_upd [simp]:
  assumes "\<And>r. f (g r) = f r" and "\<And>r. tenant_id (g r) = tenant_id r"
  shows "names_own f (upd_where P g rs) ts = names_own f rs ts"
  unfolding names_own_def upd_where_def set_map ball_simps using assms by auto

lemma names_own_target [simp]:
  assumes "\<And>r. row_id (g r) = row_id r" and "\<And>r. tenant_id (g r) = tenant_id r"
  shows "names_own f rs (upd_where P g ts) = names_own f rs ts"
  using assms by (intro names_own_same) simp

subsection \<open>States in which rows are held\<close>

text \<open>
  While an operation runs, the rows it has read stay: products \<open>P\<close>, coupons \<open>C\<close>, configurations \<open>G\<close> and orders \<open>D\<close>.
\<close>

type_synonym refset = "(uuid \<times> uuid) set"

definition held :: "uuid option \<Rightarrow> refset \<Rightarrow> refset \<Rightarrow> refset \<Rightarrow> refset \<Rightarrow> world \<Rightarrow> bool" where
  "held c P C G D w \<longleftrightarrow> keys_own w \<and> tenant_ctx w = c \<and> P \<subseteq> refs (db_products w) \<and> C \<subseteq> refs (db_coupons w) \<and>
     G \<subseteq> refs (db_gateway_configs w) \<and> D \<subseteq> refs (db_orders w)"

lemma held_frame [simp]:
  "held c P C G D (w\<lparr>db_tenants := x0\<rparr>) = held c P C G D w" "held c P C G D (w\<lparr>db_users := x1\<rparr>) = held c P C G D w"
  "held c P C G D (w\<lparr>db_memberships := x2\<rparr>) = held c P C G D w" "held c P C G D (w\<lparr>db_tokens := x3\<rparr>) = held c P C G D w"
  "held c P C G D (w\<lparr>db_customers := x4\<rparr>) = held c P C G D w" "held c P C G D (w\<lparr>db_addresses := x5\<rparr>) = held c P C G D w"
  "held c P C G D (w\<lparr>db_carts := x6\<rparr>) = held c P C G D w" "held c P C G D (w\<lparr>db_order_items := x7\<rparr>) = held c P C G D w"
  "held c P C G D (w\<lparr>db_reservations := x8\<rparr>) = held c P C G D w"
  "held c P C G D (w\<lparr>db_webhook_events := x9\<rparr>) = held c P C G D w"
  "held c P C G D (w\<lparr>on_commit_hooks := x10\<rparr>) = held c P C G D w" "held c P C G D (w\<lparr>order_seq := x11\<rparr>) = held c P C G D w"
  "held c P C G D (w\<lparr>invoice_seq := x12\<rparr>) = held c P C G D w" "held c P C G D (w\<lparr>task_queue := x13\<rparr>) = held c P C G D w"
  "held c P C G D (w\<lparr>gateway_log := x14\<rparr>) = held c P C G D w" "held c P C G D (w\<lparr>stored_objects := x15\<rparr>) = held c P C G D w"
  "held c P C G D (w\<lparr>fresh_id := x16\<rparr>) = held c P C G D w" "held c P C G D (w\<lparr>clock := x17\<rparr>) = held c P C G D w"
  "held c P C G D (w\<lparr>atomic_depth := x18\<rparr>) = held c P C G D w"
  by (simp_all add: held_def keys_own_def)

lemma held_upd [simp]:
  "(\<And>r. (row_id (f1 r), tenant_id (f1 r)) = (row_id r, tenant_id r)) \<Longrightarrow>
    held c P C G D (w\<lparr>db_products := upd_where Q f1 (db_products w)\<rparr>) = held c P C G D w"
  "(\<And>r. (row_id (f2 r), tenant_id (f2 r)) = (row_id r, tenant_id r)) \<Longrightarrow>
    held c P C G D (w\<lparr>db_coupons := upd_where Q2 f2 (db_coupons w)\<rparr>) = held c P C G D w"
  "(\<And>r. (row_id (f3 r), tenant_id (f3 r)) = (row_id r, tenant_id r)) \<Longrightarrow>
    held c P C G D (w\<lparr>db_gateway_configs := upd_where Q3 f3 (db_gateway_configs w)\<rparr>) = held c P C G D w"
  "(\<And>r. (row_id (f4 r), tenant_id (f4 r)) = (row_id r, tenant_id r)) \<Longrightarrow>
    held c P C G D (w\<lparr>db_orders := upd_where Q4 f4 (db_orders w)\<rparr>) = held c P C G D w"
  "(\<And>r. (item_product (f5 r), tenant_id (f5 r)) = (item_product r, tenant_id r)) \<Longrightarrow>
    held c P C G D (w\<lparr>db_cart_items := upd_where Q5 f5 (db_cart_items w)\<rparr>) = held c P C G D w"
  "(\<And>r. (pm_gateway_config (f6 r), tenant_id (f6 r)) = (pm_gateway_config r, tenant_id r)) \<Longrightarrow>
    held c P C G D (w\<lparr>db_payment_methods := upd_where Q6 f6 (db_payment_methods w)\<rparr>) = held c P C G D w"
  "(\<And>r. (pay_gateway_config (f7 r), tenant_id (f7 r)) = (pay_gateway_config r, tenant_id r)) \<Longrightarrow>
    held c P C G D (w\<lparr>db_payments := upd_where Q7 f7 (db_payments w)\<rparr>) = held c P C G D w"
  "(\<And>r. (inv_order (f8 r), tenant_id (f8 r)) = (inv_order r, tenant_id r)) \<Longrightarrow>
    held c P C G D (w\<lparr>db_invoices := upd_where Q8 f8 (db_invoices w)\<rparr>) = held c P C G D w"
  by (simp_all add: held_def keys_own_def)

lemma held_delete [simp]:
  "held c P C G D w \<Longrightarrow> a = db_cart_items w \<Longrightarrow> held c P C G D (w\<lparr>db_cart_items := filter Q a\<rparr>)"
  "held c P C G D w \<Longrightarrow> b = db_applied_coupons w \<Longrightarrow> held c P C G D (w\<lparr>db_applied_coupons := filter R b\<rparr>)"
  "held c P C G D w \<Longrightarrow> d = db_payment_methods w \<Longrightarrow> held c P C G D (w\<lparr>db_payment_methods := filter S d\<rparr>)"
  by (auto simp: held_def keys_own_def intro: names_own_filter)

lemma held_insert [simp]:
  "held c P C G D w \<Longrightarrow> a = db_products w \<Longrightarrow> held c P C G D (w\<lparr>db_products := a @ a'\<rparr>)"
  "held c P C G D w \<Longrightarrow> b = db_coupons w \<Longrightarrow> held c P C G D (w\<lparr>db_coupons := b @ b'\<rparr>)"
  "held c P C G D w \<Longrightarrow> g = db_gateway_configs w \<Longrightarrow> held c P C G D (w\<lparr>db_gateway_configs := g @ g'\<rparr>)"
  "held c P C G D w \<Longrightarrow> od = db_orders w \<Longrightarrow> held c P C G D (w\<lparr>db_orders := od @ od'\<rparr>)"
  by (auto simp: held_def keys_own_def elim!: names_own_more)

lemma held_transaction [simp]:
  "held c P C G D (enter_atomic w) = held c P C G D w" "held c P C G D (commit w0 w) = held c P C G D w"
  "held c P C G D w \<Longrightarrow> tenant_ctx w1 = c \<Longrightarrow> held c P C G D (rollback w w1)"
  by (simp_all add: enter_atomic_def commit_def rollback_def) (simp add: held_def keys_own_def)

lemma held_ctx: "held c P C G D w \<Longrightarrow> tenant_ctx w = c"
  by (simp add: held_def)

lemma held_atomic: "preserves (held c P C G D) m \<Longrightarrow> preserves (held c P C G D) (atomic m)"
  by (rule preserves_atomic) (simp_all add: held_ctx)

lemmas held_intros = op_intros list_response_keeps plain_list_keeps held_atomic preserves_create_with_tenant preserves_modify

text \<open>A row that a scoped query finds is held from then on; a key may be set to what is held.\<close>

lemma held_get:
  "(\<And>p. preserves (held (Some t) (insert (row_id p, t) P) C G D) (f p)) \<Longrightarrow>
    preserves (held (Some t) P C G D) (bindE (get_row products_tbl Q1 e1) f)"
  "(\<And>k. preserves (held (Some t) P (insert (row_id k, t) C) G D) (g k)) \<Longrightarrow>
    preserves (held (Some t) P C G D) (bindE (get_row coupons_tbl Q2 e2) g)"
  "(\<And>x. preserves (held (Some t) P C (insert (row_id x, t) G) D) (h x)) \<Longrightarrow>
    preserves (held (Some t) P C G D) (bindE (get_row gateway_configs_tbl Q3 e3) h)"
  "(\<And>od. preserves (held (Some t) P C G (insert (row_id od, t) D)) (k od)) \<Longrightarrow>
    preserves (held (Some t) P C G D) (bindE (get_row orders_tbl Q4 e4) k)"
proof -
  have step: "preserves (held (Some t) P C G D) (bindE (get_row tb Q e) f)"
    if more: "\<And>x w. held (Some t) P C G D w \<Longrightarrow> x \<in> set (tbl_rows tb w) \<Longrightarrow> tenant_id x = t \<Longrightarrow> J x w"
      and keep: "\<And>x. preserves (J x) (f x)" and weaker: "\<And>x w. J x w \<Longrightarrow> held (Some t) P C G D w"
    for tb :: "'x scoped tbl" and Q e and f :: "'x scoped \<Rightarrow> 'y act" and J
  proof (rule preservesI)
    fix w r w' assume I: "held (Some t) P C G D w" and run: "bindE (get_row tb Q e) f w = (r, w')"
    show "held (Some t) P C G D w'"
    proof (cases "get_where Q (objects tb w)")
      case (OneRow x)
      then have g: "get_row tb Q e w = (Inr x, w)" by (simp add: get_row_def one_or_raise_def)
      have "J x w" using get_row_Inr(2,4) [OF g] held_ctx [OF I] by (intro more [OF I]) (simp_all add: in_scope_def)
      moreover have "f x w = (r, w')" using run g by (simp add: bindE_def)
      ultimately show ?thesis by (rule weaker [OF preservesD [OF keep]])
    qed (use I run in \<open>auto simp: bindE_def get_row_def one_or_raise_def\<close>)
  qed
  show "(\<And>p. preserves (held (Some t) (insert (row_id p, t) P) C G D) (f p)) \<Longrightarrow>
      preserves (held (Some t) P C G D) (bindE (get_row products_tbl Q1 e1) f)"
    by (erule step [rotated]) (auto simp: held_def refs_iff)
  show "(\<And>k. preserves (held (Some t) P (insert (row_id k, t) C) G D) (g k)) \<Longrightarrow>
      preserves (held (Some t) P C G D) (bindE (get_row coupons_tbl Q2 e2) g)"
    by (erule step [rotated]) (auto simp: held_def refs_iff)
  show "(\<And>x. preserves (held (Some t) P C (insert (row_id x, t) G) D) (h x)) \<Longrightarrow>
      preserves (held (Some t) P C G D) (bindE (get_row gateway_configs_tbl Q3 e3) h)"
    by (erule step [rotated]) (auto simp: held_def refs_iff)
  show "(\<And>od. preserves (held (Some t) P C G (insert (row_id od, t) D)) (k od)) \<Longrightarrow>
      preserves (held (Some t) P C G D) (bindE (get_row orders_tbl Q4 e4) k)"
    by (erule step [rotated]) (auto simp: held_def refs_iff)
qed

lemma held_create:
  "(item_product i, t) \<in> P \<Longrightarrow> preserves (held (Some t) P C G D) (create cart_items_tbl i)"
  "(ac_coupon a, t) \<in> C \<Longrightarrow> preserves (held (Some t) P C G D) (create applied_coupons_tbl a)"
  "(\<And>j. pm_gateway_config m = Some j \<Longrightarrow> (j, t) \<in> G) \<Longrightarrow> preserves (held (Some t) P C G D) (create payment_methods_tbl m)"
  "(\<And>j. pay_gateway_config p = Some j \<Longrightarrow> (j, t) \<in> G) \<Longrightarrow>
    preserves (held (Some t) P C G D) (create_with_tenant payments_tbl t p)"
  "(inv_order v, t) \<in> D \<Longrightarrow> preserves (held (Some t) P C G D) (create invoices_tbl v)"
  by ((rule preserves_create preserves_create_with_tenant);
    auto simp: held_def keys_own_def names_own_single stamp_def)+

subsection \<open>The storefront\<close>

lemma held_cart_ops:
  "preserves (held c P C G D) (bump_and_return k)" "preserves (held c P C G D) (get_cart customer)"
  "preserves (held c P C G D) (remove_item customer item)" "preserves (held c P C G D) (update_item_quantity customer item q)"
  "preserves (held c P C G D) (remove_coupon customer code)" "preserves (held c P C G D) (preview_coupon customer code)"
  "preserves (held c P C G D) (clear_cart customer)" "preserves (held c P C G D) (get_or_create_cart customer)"
  "preserves (held c P C G D) (lock_currency k p)"
  "preserves (held c P C G D) (set_shipping_address customer i)" "preserves (held c P C G D) (set_billing_address customer i)"
  "preserves (held c P C G D) (set_payment_method customer i)" "preserves (held c P C G D) (validate_on_cart cp k)"
  unfolding bump_and_return_def get_cart_def remove_item_def lock_active_cart_def clear_currency_if_empty_def
    update_item_quantity_def find_coupon_def validate_on_cart_def remove_coupon_def preview_coupon_def clear_cart_def
    get_or_create_cart_def lock_currency_def set_shipping_address_def set_billing_address_def set_payment_method_def
  by (intro held_intros; simp)+

lemma held_put_item: "(row_id p, t) \<in> P \<Longrightarrow> preserves (held (Some t) P C G D) (put_item k p q existing)"
  unfolding put_item_def by (intro hoare_intros held_create(1) preserves_update_rows) (simp_all add: new_cart_item_def)

lemma held_add_item: "preserves (held (Some t) P C G D) (add_item customer product q)"
  unfolding add_item_def Let_def
  by (intro held_atomic held_get preserves_bindE [OF held_cart_ops(8)] hoare_intros held_cart_ops held_put_item) simp

lemma held_apply_coupon: "preserves (held (Some t) P C G D) (apply_coupon customer code)"
  unfolding apply_coupon_def find_coupon_def lock_active_cart_def
  by (intro held_atomic held_get hoare_intros held_cart_ops held_create) (simp add: new_applied_coupon_def)

lemma held_numbers: "preserves (held c P C G D) (next_order_number n)" "preserves (held c P C G D) (next_invoice_number n)"
  by (simp_all add: preserves_def next_order_number_def next_invoice_number_def split: option.split)

lemma held_saga:
  "preserves (held c P C G D) (phase_lock customer expected)" "preserves (held c P C G D) (revert_cart_to_active i)"
  "preserves (held c P C G D) (phase_validate v)" "preserves (held c P C G D) (reserve_stock cart items)"
  "preserves (held c P C G D) (release_reservations rs)" "preserves (held c P C G D) (commit_reservations rs)"
  "preserves (held c P C G D) (reverse_committed_reservations rs)"
  "preserves (held c P C G D) (cancel_order_row od)" "preserves (held c P C G D) (convert_cart v)"
  "preserves (held c P C G D) (link_reservation i r)"
  "preserves (held c P C G D) (gateway_call cl g)" "preserves (held c P C G D) (record_payment_error j m)"
  "preserves (held c P C G D) (record_payment_result j txn st response)"
  "preserves (held c P C G D) (gateway_of_payment e p)" "preserves (held c P C G D) (mark_invoice_paid j reference)"
  unfolding phase_lock_def lock_and_validate_cart_def revert_cart_to_active_def phase_validate_def or_compensate_def
    validate_preconditions_def check_coupon_def reserve_stock_def reserve_product_def release_reservations_def
    commit_reservations_def reverse_committed_reservations_def settle_if_def settle_def
    cancel_order_row_def save_order_status_def convert_cart_def link_reservation_def gateway_call_def
    record_payment_error_def record_payment_result_def gateway_of_payment_def
    mark_invoice_paid_def get_payment_def Let_def
  by (intro held_intros; simp add: adjust_defs add_reserved_def set_result_def set_status_response_def)+

lemma held_order:
  "preserves (held c P C G D) (create_order v key)" "preserves (held c P C G D) (compensate_order v rs od)"
  "preserves (held c P C G D) (phase_order v rs key)" "preserves (held c P C G D) (capture_payment e j)"
  "preserves (held c P C G D) (mark_paid_and_commit od rs)" "preserves (held c P C G D) (enqueue_post_payment_tasks od)"
  "preserves (held c P C G D) (phase_convert v rs od)" "preserves (held c P C G D) (cancel_order customer i)"
  unfolding create_order_def use_coupon_def create_order_item_def compensate_order_def phase_order_def or_compensate_def
    capture_payment_def get_payment_def mark_paid_and_commit_def save_order_status_def enqueue_post_payment_tasks_def
    phase_convert_def cancel_order_def Let_def
  by (intro held_intros held_saga held_numbers; simp add: set_status_response_def)+

lemma held_create_payment:
  assumes "\<And>j. pay_gateway_config p = Some j \<Longrightarrow> (j, t) \<in> G"
  shows "preserves (held (Some t) P C G D) (create_payment caller p)"
proof (rule preservesI)
  fix w r w' assume I: "held (Some t) P C G D w" and run: "create_payment caller p w = (r, w')"
  have "atomic (create_with_tenant payments_tbl t p) w = (r, w')"
    using run held_ctx [OF I] by (simp add: create_payment_def get_current_tenant_id_def)
  with held_atomic [OF held_create(4) [OF assms]] I show "held (Some t) P C G D w'" by (rule preservesD)
qed

lemma held_payment:
  "preserves (held (Some t) P C G D) (authorize_payment e od pm amount currency key m)"
  "preserves (held (Some t) P C G D) (create_invoice_pending_payment od amount currency key)"
  "preserves (held c P C G D) (phase_finish e odr rs p)"
proof -
  have pending: "preserves (held (Some t) P C (insert (i, t) G) D) (create_pending_payment od i amount currency key)" for i
    unfolding create_pending_payment_def by (rule held_create_payment) (simp add: new_payment_def)
  have call: "preserves (held c P C G D) (call_authorize g cr p tok m)" "preserves (held c P C G D) (record_intent p i)"
    for c P C G D g cr p tok i
    unfolding call_authorize_def record_intent_def Let_def by (intro hoare_intros held_saga)+
  have resolve: "preserves (held (Some t) P C G D) (bindE (resolve_gateway_config e n) f)"
    if "\<And>x. preserves (held (Some t) P C (insert (row_id x, t) G) D) (f x)" for n and f :: "gateway_config \<Rightarrow> payment act"
    unfolding resolve_gateway_config_def
    by (cases "n = gateway_name_value MOCK \<and> \<not> env_allow_mock e") (auto intro!: held_get that hoare_intros)
  have read: "preserves I (get_row payment_methods_tbl Q x)" "preserves I (follow gateway_configs_tbl k)" for I Q x k
    by (rule hoare_intros)+
  show "preserves (held (Some t) P C G D) (authorize_payment e od pm amount currency key m)"
    unfolding authorize_payment_def
    by (intro preserves_bindE [OF read(1)] preserves_bindE [OF read(2)] preserves_case_option preserves_throw resolve
        preserves_bindE [OF preserves_lift_sum] preserves_if preserves_bindE [OF pending] preserves_bindE [OF call(1)] call(2))
  show "preserves (held (Some t) P C G D) (create_invoice_pending_payment od amount currency key)"
    unfolding create_invoice_pending_payment_def by (rule held_create_payment) (simp add: new_payment_def)
  show "preserves (held c P C G D) (phase_finish e odr rs p)"
    unfolding phase_finish_def phase_capture_def Let_def by (intro hoare_intros held_order)
qed

lemma held_checkout: "preserves (held (Some t) P C G D) (checkout e customer key expected extra)"
  unfolding checkout_def find_existing_checkout_def run_saga_def prepare_order_def phase_reserve_def pay_order_step_def
    card_path_def purchase_order_path_def phase_authorize_def or_compensate_def Let_def
  by (intro held_intros held_saga held_order held_payment; simp)

lemma held_views:
  "preserves (held (Some t) P C G D) (cart_detail_get k r)" "preserves (held (Some t) P C G D) (cart_detail_delete k r)"
  "preserves (held (Some t) P C G D) (cart_items_post cfg body k r)"
  "preserves (held (Some t) P C G D) (cart_item_detail_patch item body k r)"
  "preserves (held (Some t) P C G D) (cart_item_detail_delete item k r)"
  "preserves (held (Some t) P C G D) (cart_coupons_post body k r)"
  "preserves (held (Some t) P C G D) (cart_coupon_detail_delete code k r)"
  "preserves (held (Some t) P C G D) (cart_coupon_preview_post body k r)"
  "preserves (held (Some t) P C G D) (cart_shipping_address_put cfg body k r)"
  "preserves (held (Some t) P C G D) (cart_billing_address_put cfg body k r)"
  "preserves (held (Some t) P C G D) (cart_payment_method_put cfg body k r)"
  "preserves (held (Some t) P C G D) (cart_checkout_post e body k r)"
  "preserves (held (Some t) P C G D) (order_cancel_post i k r)" "preserves (held (Some t) P C G D) (order_invoice_get i k r)"
  "preserves (held (Some t) P C G D) (order_detail_get i k r)"
  unfolding cart_detail_get_def cart_detail_delete_def cart_items_post_def cart_item_detail_patch_def
    cart_item_detail_delete_def cart_coupons_post_def cart_coupon_detail_delete_def cart_coupon_preview_post_def
    cart_shipping_address_put_def cart_billing_address_put_def cart_payment_method_put_def
    cart_checkout_post_def order_cancel_post_def order_invoice_get_def order_detail_get_def cart_answer_def Let_def
  by (intro hoare_intros held_cart_ops held_add_item held_apply_coupon held_checkout held_order)+

lemma held_account:
  "preserves (held (Some t) P C G D) (address_list_get cfg q cid k r)"
  "preserves (held (Some t) P C G D) (address_list_post cid v k r)"
  "preserves (held (Some t) P C G D) (address_detail_get cid i k r)"
  "preserves (held (Some t) P C G D) (address_detail_update part cid i v k r)"
  "preserves (held (Some t) P C G D) (address_detail_delete cid i k r)"
  "preserves (held (Some t) P C G D) (payment_method_default_put cid mid k r)"
  "preserves (held (Some t) P C G D) (payment_method_detail_get cid mid k r)"
  "preserves (held (Some t) P C G D) (payment_method_detail_delete cid mid k r)"
  "preserves (held (Some t) P C G D) (public_gateway_detail_get e name r)"
  unfolding address_list_get_def address_list_post_def address_detail_get_def address_detail_update_def address_detail_delete_def
    payment_method_default_put_def make_default_def payment_method_detail_get_def payment_method_detail_delete_def
    public_gateway_detail_get_def own_account_def method_response_def get_address_def Let_def
  by (intro held_intros; simp)+

lemma held_method_create: "preserves (held (Some t) P C G D) (payment_method_create e cid req k r)"
proof -
  have store: "preserves (held (Some t) P C G D) (store_method cid m)"
    if "\<And>j. pm_gateway_config m = Some j \<Longrightarrow> (j, t) \<in> G" for G m
    unfolding store_method_def
    by (intro held_atomic hoare_intros held_create preserves_update_rows that) simp_all
  have resolve: "preserves (held (Some t) P C G D) (bindE (resolve_gateway_config e n) f)"
    if "\<And>x. preserves (held (Some t) P C (insert (row_id x, t) G) D) (f x)" for n and f :: "gateway_config \<Rightarrow> http_response act"
    unfolding resolve_gateway_config_def
    by (cases "n = gateway_name_value MOCK \<and> \<not> env_allow_mock e") (auto intro!: held_get that hoare_intros)
  show ?thesis
    unfolding payment_method_create_def own_account_def tokenized_card_def method_response_def
    by (intro resolve hoare_intros held_saga store preserves_case_method) (simp_all add: po_method_def card_method_def)
qed

lemma held_shop: "preserves (held (Some t) P C G D) (shop_view s call k r)"
proof (cases call)
  case (ProductGet i)
  then show ?thesis by (auto simp: storefront_product_get_def intro!: hoare_intros)
qed (simp_all add: held_views held_account held_method_create lists_keep)

subsection \<open>The administration\<close>

text \<open>
  Saving a whole row keeps its identifier and its tenant, since the row was read in the same scope and no other row has
  its identifier: the references of the table stay what they are.
\<close>

definition same_refs :: "'a scoped tbl \<Rightarrow> refset \<Rightarrow> (world \<Rightarrow> bool) \<Rightarrow> world \<Rightarrow> bool" where
  "same_refs tb S I w \<longleftrightarrow> I w \<and> refs (tbl_rows tb w) = S \<and> single_valued S"

lemma refs_single: "distinct (map row_id rs) \<Longrightarrow> single_valued (refs rs)"
  by (auto simp: single_valued_def refs_def distinct_map inj_on_def)

lemma refs_save:
  assumes "single_valued (refs rs)" and "(row_id y, tenant_id y) \<in> refs rs" and "row_id z = row_id y" "tenant_id z = tenant_id y"
  shows "refs (upd_where (\<lambda>r. row_id r = row_id y) (\<lambda>_. z) rs) = refs rs"
proof -
  have "(row_id (if row_id r = row_id y then z else r), tenant_id (if row_id r = row_id y then z else r)) =
      (row_id r, tenant_id r)" if "r \<in> set rs" for r
  proof -
    have "(row_id r, tenant_id r) \<in> refs rs" using that by (auto simp: refs_def)
    with assms show ?thesis by (auto simp: single_valued_def)
  qed
  then show ?thesis
    unfolding refs_def upd_where_def set_map image_image by (intro image_cong) auto
qed

locale saved_table = scoped_table tb for tb :: "'a tenant_scoped_model_scheme tbl" +
  assumes held_put: "held c P C G D w \<Longrightarrow> refs rs = refs (tbl_rows tb w) \<Longrightarrow> held c P C G D (tbl_put tb rs w)"
    and rows_transaction: "tbl_rows tb (enter_atomic w) = tbl_rows tb w" "tbl_rows tb (commit w0 w) = tbl_rows tb w"
      "tbl_rows tb (rollback w w1) = tbl_rows tb w"
begin

lemma save_row_held:
  assumes "(row_id y, tenant_id y) \<in> S"
  shows "preserves (same_refs tb S (held c P C G D)) (save_row tb y)"
proof (rule preserves_save_row)
  fix w n assume I: "same_refs tb S (held c P C G D) w"
  then have "refs (upd_where (\<lambda>r. row_id r = row_id y) (\<lambda>_. y\<lparr>updated_at := n\<rparr>) (tbl_rows tb w)) = refs (tbl_rows tb w)"
    using assms by (intro refs_save) (simp_all add: same_refs_def)
  then show "same_refs tb S (held c P C G D)
      (tbl_put tb (upd_where (\<lambda>r. row_id r = row_id y) (\<lambda>_. y\<lparr>updated_at := n\<rparr>) (tbl_rows tb w)) w)"
    using I by (simp add: same_refs_def held_put)
qed

lemma read_row_held:
  assumes "\<And>x. (row_id x, tenant_id x) \<in> S \<Longrightarrow> preserves (same_refs tb S (held c P C G D)) (f x)"
  shows "preserves (same_refs tb S (held c P C G D)) (bindE (get_row tb Q e) f)"
proof (rule preserves_bind_get_row)
  fix x w assume "same_refs tb S (held c P C G D) w" and "x \<in> set (tbl_rows tb w)"
  then have "(row_id x, tenant_id x) \<in> S" by (auto simp: same_refs_def refs_def)
  then show "preserves (same_refs tb S (held c P C G D)) (f x)" by (rule assms)
qed

lemma atomic_held:
  "preserves (same_refs tb S (held c P C G D)) m \<Longrightarrow> preserves (same_refs tb S (held c P C G D)) (atomic m)"
  by (rule preserves_atomic) (auto simp: same_refs_def rows_transaction held_ctx)

lemma held_run:
  assumes "\<And>S. preserves (same_refs tb S (held c P C G D)) m" and "held c P C G D w" and "tbl_ok tb (tbl_rows tb w)"
    and "m w = (r, w')"
  shows "held c P C G D w'"
proof -
  have "same_refs tb (refs (tbl_rows tb w)) (held c P C G D) w"
    using assms(2) refs_single [OF ok_pk [OF assms(3)]] by (simp add: same_refs_def)
  from preservesD [OF assms(1) this assms(4)] show ?thesis by (simp add: same_refs_def)
qed

end

interpretation saved_products: saved_table products_tbl
  by unfold_locales (auto simp: held_def keys_own_def names_own_def enter_atomic_def commit_def rollback_def)
interpretation saved_coupons: saved_table coupons_tbl
  by unfold_locales (auto simp: held_def keys_own_def names_own_def enter_atomic_def commit_def rollback_def)
interpretation saved_configs: saved_table gateway_configs_tbl
  by unfold_locales (auto simp: held_def keys_own_def names_own_def enter_atomic_def commit_def rollback_def)

lemma held_patches:
  "preserves (same_refs coupons_tbl S (held c P C G D)) (patch_coupon i ci)"
  "preserves (same_refs products_tbl S (held c P C G D)) (patch_product j v)"
  "preserves (same_refs gateway_configs_tbl S (held c P C G D)) (gateway_config_patch l q u r)"
proof -
  show "preserves (same_refs coupons_tbl S (held c P C G D)) (patch_coupon i ci)"
    unfolding patch_coupon_def get_coupon_def
    by (intro saved_coupons.atomic_held saved_coupons.read_row_held preserves_seqE preserves_patch_coupon_guards
        preserves_bindE [OF preserves_lift_sum] saved_coupons.save_row_held) (simp add: apply_coupon_input_def)
  show "preserves (same_refs products_tbl S (held c P C G D)) (patch_product j v)"
    unfolding patch_product_def get_product_def patch_product_guards_def raise_errors_def
    by (intro saved_products.atomic_held saved_products.read_row_held preserves_seqE saved_products.save_row_held hoare_intros)
      (simp add: apply_product_def)
  have clear: "preserves (same_refs gateway_configs_tbl S (held c P C G D)) (clear_default_config other v)" for other v
    unfolding clear_default_config_def
    by (intro hoare_intros preserves_update_rows) (simp add: same_refs_def)
  show "preserves (same_refs gateway_configs_tbl S (held c P C G D)) (gateway_config_patch l q u r)"
    unfolding gateway_config_patch_def get_gateway_config_def
    by (intro saved_configs.read_row_held preserves_bindE [OF preserves_lift_sum] preserves_bindE
        [OF saved_configs.atomic_held] preserves_seqE clear saved_configs.save_row_held preserves_ret)
      (simp add: apply_config_def)
qed

text \<open>A configuration is deleted when nothing names it.\<close>

lemma config_delete_held:
  assumes I: "held c {} {} {} {} w" and run: "gateway_config_delete i u r w = (res, w')"
  shows "held c {} {} {} {} w'"
proof -
  have "w' = w \<or> (\<exists>j. (\<forall>m \<in> set (db_payment_methods w). pm_gateway_config m \<noteq> Some j) \<and>
      (\<forall>p \<in> set (db_payments w). pay_gateway_config p \<noteq> Some j) \<and>
      w' = w\<lparr>db_gateway_configs := filter (\<lambda>x. row_id x \<noteq> j) (db_gateway_configs w)\<rparr>)"
    using run
    by (auto simp: gateway_config_delete_def get_gateway_config_def bindE_def get_row_def delete_where_def exists_where_def
        list_ex_iff split: sum.splits if_splits)
  moreover have "held c {} {} {} {} (w\<lparr>db_gateway_configs := filter (\<lambda>x. row_id x \<noteq> j) (db_gateway_configs w)\<rparr>)"
    if "\<forall>m \<in> set (db_payment_methods w). pm_gateway_config m \<noteq> Some j"
      and "\<forall>p \<in> set (db_payments w). pay_gateway_config p \<noteq> Some j" for j
    using I that by (fastforce simp: held_def keys_own_def names_own_def refs_iff)
  ultimately show ?thesis using I by auto
qed

definition bonds :: "uuid \<Rightarrow> world \<Rightarrow> bool" where
  "bonds t w \<longleftrightarrow> inv t {} w \<and> held (Some t) {} {} {} {} w"

lemma bondsI: "preserves (inv t {}) m \<Longrightarrow> preserves (held (Some t) {} {} {} {}) m \<Longrightarrow> preserves (bonds t) m"
  using preserves_conj [of "inv t {}" m "held (Some t) {} {} {} {}"] by (simp add: bonds_def [abs_def])

lemma bonds_run:
  assumes "preserves (inv t {}) m" and "\<And>w r w'. bonds t w \<Longrightarrow> m w = (r, w') \<Longrightarrow> held (Some t) {} {} {} {} w'"
  shows "preserves (bonds t) m"
proof (rule preservesI)
  fix w r w' assume I: "bonds t w" and run: "m w = (r, w')"
  have "inv t {} w'" using preservesD [OF assms(1) _ run] I by (simp add: bonds_def)
  then show "bonds t w'" using assms(2) [OF I run] by (simp add: bonds_def)
qed

lemma held_admin_ops:
  "preserves (held c P C G D) (create_coupon ci)" "preserves (held c P C G D) (delete_coupon i)"
  "preserves (held c P C G D) (product_create_post st sku v u r)" "preserves (held c P C G D) (product_detail_get st i u r)"
  "preserves (held c P C G D) (product_detail_delete i u r)" "preserves (held c P C G D) (product_image_post st i fl u r)"
  "preserves (held c P C G D) (product_image_delete i u r)"
  "preserves (held c P C G D) (coupon_detail_get i u r)"
  "preserves (held c P C G D) (customer_create_post m cv u r)" "preserves (held c P C G D) (customer_detail_get i u r)"
  "preserves (held c P C G D) (customer_detail_patch i cv u r)" "preserves (held c P C G D) (customer_detail_delete i u r)"
  "preserves (held c P C G D) (admin_order_detail_get i u r)" "preserves (held c P C G D) (admin_order_payments_get i u r)"
  "preserves (held c P C G D) (order_mark_paid_post i body u r)"
  "preserves (held c P C G D) (gateway_config_create q u r)" "preserves (held c P C G D) (gateway_config_get i u r)"
proof -
  have obj: "preserves (held c P C G D) (delete_object store key)" "preserves (held c P C G D) (save_bytes st store key f ct)"
    for store key st f ct
    unfolding delete_object_def save_bytes_def Let_def by (intro held_intros; simp)+
  show "preserves (held c P C G D) (create_coupon ci)" "preserves (held c P C G D) (delete_coupon i)"
    "preserves (held c P C G D) (product_create_post st sku v u r)" "preserves (held c P C G D) (product_detail_get st i u r)"
    "preserves (held c P C G D) (product_detail_delete i u r)" "preserves (held c P C G D) (product_image_post st i fl u r)"
    "preserves (held c P C G D) (product_image_delete i u r)"
    "preserves (held c P C G D) (coupon_detail_get i u r)"
    "preserves (held c P C G D) (customer_create_post m cv u r)" "preserves (held c P C G D) (customer_detail_get i u r)"
    "preserves (held c P C G D) (customer_detail_patch i cv u r)" "preserves (held c P C G D) (customer_detail_delete i u r)"
    "preserves (held c P C G D) (admin_order_detail_get i u r)" "preserves (held c P C G D) (admin_order_payments_get i u r)"
    "preserves (held c P C G D) (order_mark_paid_post i body u r)"
    "preserves (held c P C G D) (gateway_config_create q u r)" "preserves (held c P C G D) (gateway_config_get i u r)"
    unfolding create_coupon_def validate_code_def get_coupon_def delete_coupon_def product_create_post_def product_detail_get_def
      product_detail_delete_def product_image_post_def product_image_delete_def get_product_def raise_errors_def
      upload_product_image_def save_uploaded_file_def delete_product_image_def coupon_detail_get_def
      customer_create_post_def customer_detail_get_def customer_detail_patch_def customer_detail_delete_def get_customer_def
      admin_order_detail_get_def admin_order_payments_get_def order_mark_paid_post_def admin_get_order_def
      admin_order_response_def settle_invoice_def gateway_config_create_def gateway_config_get_def get_gateway_config_def
      clear_default_config_def Let_def
    by (intro held_intros preserves_attempt obj held_saga; simp)+
qed

lemma bonds_admin: "preserves (bonds t) (admin_view s acall u r)"
proof (rule bonds_run [OF admin_view_inv])
  fix w res w' assume I: "bonds t w" and run: "admin_view s acall u r w = (res, w')"
  let ?H = "held (Some t) {} {} {} {}"
  have h: "?H w" and sc: "schema w" using I by (auto simp: bonds_def intro: inv_schema)
  consider i v where "acall = ProductPatch i v" | i v where "acall = CouponPatch i v" | i v where "acall = ConfigPatch i v"
    | i where "acall = ConfigDelete i" | "preserves ?H (admin_view s acall u r)"
    by (cases acall)
      (simp_all add: held_admin_ops lists_keep coupon_create_post_def coupon_detail_delete_def preserves_bindE preserves_seqE
        preserves_ret held_admin_ops(1,2))
  then show "?H w'"
  proof cases
    case (1 i v)
    have "preserves (same_refs products_tbl S ?H) (admin_view s acall u r)" for S
      unfolding 1 by (simp add: product_detail_patch_def) (intro hoare_intros held_patches)
    from saved_products.held_run [OF this h _ run] schema_get(6) [OF sc] show ?thesis by simp
  next
    case (2 i v)
    have "preserves (same_refs coupons_tbl S ?H) (admin_view s acall u r)" for S
      unfolding 2 by (simp add: coupon_detail_patch_def) (intro hoare_intros held_patches)
    from saved_coupons.held_run [OF this h _ run] schema_get(7) [OF sc] show ?thesis by simp
  next
    case (3 i v)
    have "preserves (same_refs gateway_configs_tbl S ?H) (admin_view s acall u r)" for S
      unfolding 3 by (simp add: held_patches)
    from saved_configs.held_run [OF this h _ run] schema_get(12) [OF sc] show ?thesis by simp
  next
    case (4 i)
    with run config_delete_held [OF h] show ?thesis by simp
  next
    case 5
    then show ?thesis using h run by (rule preservesD)
  qed
qed

subsection \<open>Tasks and the platform\<close>

lemma held_order_settled:
  "preserves (held c P C G D) (apply_order_paid od)" "preserves (held c P C G D) (apply_order_cancelled od)"
  unfolding apply_order_paid_def apply_order_cancelled_def save_order_status_def commit_reservations_for_order_def
    release_reservations_for_order_def settle_def enqueue_invoice_on_commit_def revert_cart_if_checking_out_def
    revert_checking_out_def
  by (intro held_intros; simp add: adjust_defs)+

lemma held_tasks:
  "preserves (held c P C G D) (process_webhook_event a)" "preserves (held c P C G D) (reconcile_locked e i)"
  "preserves (held (Some t) P C G D) (generate_invoice lay st t j)"
proof -
  show "preserves (held c P C G D) (process_webhook_event a)"
    unfolding process_webhook_event_def record_event_def mutate_for_event_def get_payment_def apply_event_def
      save_order_status_def
    by (intro held_intros held_order_settled) (simp_all add: set_status_response_def)
  show "preserves (held c P C G D) (reconcile_locked e i)"
    unfolding reconcile_locked_def first_pending_def reconcile_known_intent_def reconcile_unknown_intent_def
      apply_retrieved_def save_reconciled_def mark_order_paid_def mark_order_cancelled_and_release_def Let_def
    by (intro held_intros held_order_settled held_saga) (simp_all add: set_status_response_def)
  have upload: "preserves (held c P C G D) (upload_if_missing lay st t od iv)" for c P C G D od iv
    unfolding upload_if_missing_def upload_invoice_pdf_def save_bytes_def Let_def by (intro held_intros) simp_all
  have new: "preserves (held (Some t) P C G (insert (row_id od, t) D)) (create_invoice t od)" for od
    unfolding create_invoice_def by (intro hoare_intros held_numbers held_create) (simp add: new_invoice_def)
  show "preserves (held (Some t) P C G D) (generate_invoice lay st t j)"
    unfolding generate_invoice_def by (intro held_get hoare_intros upload new)
qed

lemma keys_own_held: "keys_own w \<longleftrightarrow> held (tenant_ctx w) {} {} {} {} w"
  by (simp add: held_def)

lemma keys_own_frame [simp]: "keys_own (w\<lparr>tenant_ctx := t\<rparr>) = keys_own w" "keys_own (w\<lparr>fresh_id := n\<rparr>) = keys_own w"
  "keys_own (w\<lparr>task_queue := q\<rparr>) = keys_own w" "keys_own (w\<lparr>clock := now\<rparr>) = keys_own w"
  by (simp_all add: keys_own_def)

text \<open>Inside a tenant's context and after it.\<close>

lemma context_held: "preserves (held t {} {} {} {}) m \<Longrightarrow> preserves (held c {} {} {} {}) (tenant_context t m)"
proof (rule preservesI)
  fix w r w' assume m: "preserves (held t {} {} {} {}) m" and I: "held c {} {} {} {} w" and run: "tenant_context t m w = (r, w')"
  obtain x w1 where x: "m (w\<lparr>tenant_ctx := t\<rparr>) = (x, w1)" by fastforce
  have "held t {} {} {} {} (w\<lparr>tenant_ctx := t\<rparr>)" using I by (simp add: held_def)
  with m have "held t {} {} {} {} w1" using x by (rule preservesD)
  moreover have "w' = w1\<lparr>tenant_ctx := tenant_ctx w\<rparr>"
    using run x by (simp add: tenant_context_def bindE_def set_current_tenant_id_def finally_do_def reset_current_tenant_id_def)
  ultimately show "held c {} {} {} {} w'" using I by (simp add: held_def)
qed

lemma held_reconcile: "preserves (held c {} {} {} {}) (reconcile_pending_payments e m)"
proof -
  have one: "preserves (held c {} {} {} {}) (reconcile_one e i)" for i
    unfolding reconcile_one_def first_pending_def by (intro hoare_intros context_held held_tasks)
  have "preserves (held c {} {} {} {}) (reconcile_all e is x)" for "is" x
    by (induction "is" arbitrary: x) (auto intro!: hoare_intros one)
  then show ?thesis unfolding reconcile_pending_payments_def by (intro hoare_intros)
qed

lemma held_platform: "preserves (held c {} {} {} {}) (platform_view s pcall key r)"
proof -
  have "preserves (held c {} {} {} {}) (login_post ttl new_key email password r)" "preserves (held c {} {} {} {}) (logout_post u r)"
    "preserves (held c {} {} {} {}) (me_get u r)" "preserves (held c {} {} {} {}) (membership_create_post tid req u r)"
    "preserves (held c {} {} {} {}) (membership_delete i u r)" "preserves (held c {} {} {} {}) (tenant_create_post cfg v u r)"
    "preserves (held c {} {} {} {}) (tenant_detail_patch i p u r)" for ttl new_key email password tid req i cfg v p u
    unfolding login_post_def rotate_token_def logout_post_def me_get_def membership_create_post_def membership_delete_def
      tenant_create_post_def tenant_detail_patch_def find_or_create_user_def create_user_def set_membership_def
      create_per_tenant_sequences_def tenant_response_def get_tenant_def Let_def
    by (intro held_intros; simp)+
  moreover have "preserves (held c {} {} {} {}) (reconcile_post e raw u r)" for e raw u
    unfolding reconcile_post_def reconcile_trigger_view_def
    by (auto intro!: hoare_intros held_reconcile split: option.splits)
  moreover have "preserves (held c {} {} {} {}) (platform_customer_list_get cfg q u r)" for cfg q u
    unfolding platform_customer_list_get_def by (intro hoare_intros)
  ultimately show ?thesis by (cases pcall) (auto intro!: admin_views_preserve tenant_lists_keep)
qed

lemma held_served:
  assumes "is_exempt (rq_http r) GLOBAL_EXEMPT_PATHS" and "\<And>r. preserves (held c {} {} {} {}) (view r)"
  shows "preserves (held c {} {} {} {}) (served cfg view r)"
proof -
  have h: "preserves (held c {} {} {} {}) (convert_exception (tenant_db_session (\<lambda>r. convert_exception
      (customer_auth cfg (atomic_request view) r)) r))" for r
    unfolding tenant_db_session_def atomic_request_def
    by (intro convert_exception_preserves hoare_intros held_atomic customer_auth_preserves dispatch_preserves assms)
  have "preserves (held c {} {} {} {}) (request_id_middleware (\<lambda>r'. convert_exception (convert_exception
      (tenant_db_session (\<lambda>r. convert_exception (customer_auth cfg (atomic_request view) r)) r'))) r)"
    by (intro request_id_preserves convert_exception_preserves h) simp
  moreover have "served cfg view r = request_id_middleware (\<lambda>r'. convert_exception (convert_exception
      (tenant_db_session (\<lambda>r. convert_exception (customer_auth cfg (atomic_request view) r)) r'))) r"
    using assms(1) by (simp add: served_def request_id_middleware_def tenant_resolver_def)
  ultimately show ?thesis by simp
qed

subsection \<open>Every step\<close>

lemma bonds_atomic: "preserves (bonds t) m \<Longrightarrow> preserves (bonds t) (atomic m)"
  by (rule preserves_atomic) (auto simp: bonds_def inv_rollback inv_ctx held_ctx)

lemma request_keys:
  assumes "\<not> is_exempt (rq_http r) GLOBAL_EXEMPT_PATHS" and "idle w" and "keys_own w"
    and view: "\<And>t r. preserves (bonds t) (view r)" and run: "served cfg view r w = (res, w')"
  shows "keys_own w'"
proof -
  let ?h = "\<lambda>r. convert_exception (tenant_db_session (\<lambda>r. convert_exception (customer_auth cfg (atomic_request view) r)) r)"
  obtain rid n where w': "w' = snd (tenant_resolver cfg ?h (r\<lparr>rq_id := rid\<rparr>) (w\<lparr>fresh_id := n\<rparr>))"
    using served_resolver [of cfg view r w] run by auto
  let ?r = "r\<lparr>rq_id := rid\<rparr>" and ?w = "w\<lparr>fresh_id := n\<rparr>"
  have h: "preserves (bonds t) (?h r)" for t r
    unfolding tenant_db_session_def atomic_request_def
    by (intro convert_exception_preserves hoare_intros bonds_atomic customer_auth_preserves dispatch_preserves view)
  have "keys_own (snd (tenant_context (Some t) (?h q) ?w))" for t q
  proof -
    obtain x w1 where m: "?h q (?w\<lparr>tenant_ctx := Some t\<rparr>) = (x, w1)" by fastforce
    have "inv t {} (?w\<lparr>tenant_ctx := Some t\<rparr>)" using assms(2) by (simp add: inv_sound idle_def sound_def ledger_def)
    then have "bonds t (?w\<lparr>tenant_ctx := Some t\<rparr>)" using assms(3) by (simp add: bonds_def held_def)
    with h have "bonds t w1" using m by (rule preservesD)
    then have "keys_own w1" by (simp add: bonds_def held_def)
    then show ?thesis
      using m by (simp add: tenant_context_def bindE_def set_current_tenant_id_def finally_do_def reset_current_tenant_id_def)
  qed
  then show ?thesis
    using tenant_resolver_closed [of ?r ?w cfg ?h] assms(1,3) unfolding w' by auto
qed

lemma keys_kept: "(\<And>c. preserves (held c {} {} {} {}) m) \<Longrightarrow> keys_own w \<Longrightarrow> m w = (r, w') \<Longrightarrow> keys_own w'"
  using preservesD [of "held (tenant_ctx w) {} {} {} {}" m w r w'] by (auto simp: held_def)

theorem step_keys: "step s w w' \<Longrightarrow> idle w \<Longrightarrow> keys_own w \<Longrightarrow> keys_own w'"
proof (induction rule: step.induct)
  case (shop req call w res w')
  have "preserves (bonds t) (customer_view (shop_view s call) r)" for t r
    unfolding customer_view_def by (intro hoare_intros bondsI shop_view_inv held_shop)
  from request_keys [OF _ shop.prems this shop.hyps(2) [unfolded storefront_def]] shop.hyps(1)
  show ?case by (simp add: fresh_request_def)
next
  case (admin req acall w res w')
  have "preserves (bonds t) (tenant_admin_view (site_ttl s) (site_token s req) (admin_view s acall) r)" for t r
    by (intro admin_views_preserve bonds_admin)
  from request_keys [OF _ admin.prems this admin.hyps(2)] admin.hyps(1) show ?case by (simp add: fresh_request_def)
next
  case (platform req pcall w res w')
  have "preserves (held c {} {} {} {}) (served (site_settings s) (platform_view s pcall (site_token s req)) (fresh_request req))" for c
    using platform.hyps(1) by (intro held_served held_platform) (simp add: fresh_request_def)
  then show ?case using platform.prems(2) platform.hyps(2) by (rule keys_kept)
next
  case (webhook req name w res w')
  have "preserves (held c {} {} {} {}) (webhook_view (site_env s) name r)" for c r
    unfolding webhook_view_def payment_webhook_view_def webhook_credentials_def by (intro held_intros) simp_all
  then have "preserves (held c {} {} {} {}) (served (site_settings s) (webhook_view (site_env s) name) (fresh_request req))" for c
    using webhook.hyps(1) by (intro held_served) (simp_all add: fresh_request_def)
  then show ?case using webhook.prems(2) webhook.hyps(2) by (rule keys_kept)
next
  case (worker tk w q r w')
  have "preserves (held c {} {} {} {}) (run_task s tk)" for c
    by (auto simp: run_task_def tenant_aware_task_def
        intro!: context_held held_tasks hoare_intros held_reconcile split: task.splits)
  moreover have "keys_own (w\<lparr>task_queue := q\<rparr>)" using worker.prems(2) by simp
  ultimately show ?case using worker.hyps(3) by (rule keys_kept)
next
  case (release w n w')
  have "preserves (held c {} {} {} {}) (expire_one res)" for c res
    unfolding expire_one_def settle_unscoped_def revert_checking_out_def by (intro held_intros) (simp_all add: adjust_defs)
  then have "preserves (held c {} {} {} {}) (expire_batch now)" for c now
    unfolding expire_batch_def by (intro hoare_intros held_atomic)
  then have "preserves keys_own (expire_batch now)" for now
    by (intro preservesI) (rule keys_kept)
  from expire_loop_keeps [OF this release.hyps [unfolded release_expired_reservations_def] release.prems(2)]
  show ?case by simp
next
  case (abandon w n w')
  have "preserves (held c {} {} {} {}) (abandon_stale_carts 30)" for c
    unfolding abandon_stale_carts_def by (intro held_intros) simp
  then show ?case using abandon.prems(2) abandon.hyps by (rule keys_kept)
next
  case (reconcile w n w')
  show ?case by (rule keys_kept [OF held_reconcile reconcile.prems(2) reconcile.hyps])
next
  case (clock w now)
  then show ?case by simp
qed

lemma steps_keys: "(step s)\<^sup>*\<^sup>* w w' \<Longrightarrow> idle w \<Longrightarrow> keys_own w \<Longrightarrow> keys_own w'"
proof (induction rule: rtranclp_induct)
  case (step y z)
  then have "idle y" using steps_idle by blast
  with step show ?case using step_keys by blast
qed simp

lemma reachable_keys: "reachable s w \<Longrightarrow> keys_own w"
proof (induction rule: reachable.induct)
  case (start us now)
  show ?case by (simp add: keys_own_def names_own_def start_world_def empty_world_def)
next
  case (step w w')
  then show ?case using step_keys reachable_idle by blast
qed

end
