(* ===== verification/Readings.thy ===== *)
theory Readings
  imports Links
begin

section \<open>What a tenant can read\<close>

text \<open>
  The answer to a read depends on nothing but the rows of its own tenant and on what the platform shares. Most queries go
  through the scoped manager; where a view follows a foreign key, with a manager that is not scoped, the answer
  depends on its leading to a row of the same tenant, as it does in every reachable state (theory \<open>Links\<close>).
\<close>

subsection \<open>What is seen\<close>

abbreviation mine :: "uuid \<Rightarrow> 'a scoped list \<Rightarrow> 'a scoped list" where
  "mine t rs \<equiv> filter (\<lambda>r. tenant_id r = t) rs"

text \<open>
  \<open>seen t w\<close>: the rows of the tenant \<open>t\<close>, the tables of the platform, the clock and the supply of identifiers. The other
  tenants, the numbers of orders and invoices, the queue, the events of gateways and the stored objects are left out.
\<close>

definition seen :: "uuid \<Rightarrow> world \<Rightarrow> world" where
  "seen t w = (tables w)\<lparr>
     db_customers := mine t (db_customers w), db_addresses := mine t (db_addresses w),
     db_products := mine t (db_products w), db_coupons := mine t (db_coupons w),
     db_carts := mine t (db_carts w), db_cart_items := mine t (db_cart_items w),
     db_applied_coupons := mine t (db_applied_coupons w), db_payment_methods := mine t (db_payment_methods w),
     db_gateway_configs := mine t (db_gateway_configs w), db_orders := mine t (db_orders w),
     db_order_items := mine t (db_order_items w), db_reservations := mine t (db_reservations w),
     db_payments := mine t (db_payments w), db_invoices := mine t (db_invoices w), db_webhook_events := [],
     clock := clock w, fresh_id := fresh_id w, tenant_ctx := Some t\<rparr>"

text \<open>A state in which the tenant sees \<open>V\<close>.\<close>

definition twin :: "uuid \<Rightarrow> world \<Rightarrow> world \<Rightarrow> bool" where
  "twin t V w \<longleftrightarrow> tenant_ctx w = Some t \<and> schema w \<and> keys_own w \<and> seen t w = V"

lemma twin_get: "twin t V w \<Longrightarrow> tenant_ctx w = Some t" "twin t V w \<Longrightarrow> schema w" "twin t V w \<Longrightarrow> keys_own w"
  by (simp_all add: twin_def)

lemma twin_platform:
  assumes "twin t V w"
  shows "tenant_ctx V = Some t" and "db_tenants w = db_tenants V" and "db_users w = db_users V"
    and "db_memberships w = db_memberships V" and "db_tokens w = db_tokens V" and "clock w = clock V"
  using assms by (auto simp: twin_def seen_def tables_def)

lemma twin_enter: "twin t V w \<Longrightarrow> twin t V (enter_atomic w)"
  by (auto simp: twin_def seen_def tables_def enter_atomic_def keys_own_def schema_def)

subsection \<open>Programs that read what is seen\<close>

text \<open>\<open>fixed\<close>: the result is a function of what is seen, and the state is left alone. \<open>answers\<close>: the result alone.\<close>

definition fixed :: "uuid \<Rightarrow> world \<Rightarrow> 'a act \<Rightarrow> bool" where
  "fixed t V m \<longleftrightarrow> (\<exists>r. \<forall>w. twin t V w \<longrightarrow> m w = (r, w))"

definition answers :: "uuid \<Rightarrow> world \<Rightarrow> 'a act \<Rightarrow> bool" where
  "answers t V m \<longleftrightarrow> (\<exists>r. \<forall>w. twin t V w \<longrightarrow> fst (m w) = r)"

named_theorems read_intros "one rule per construct, and one per query"

lemma answers_fixed: "fixed t V m \<Longrightarrow> answers t V m"
  by (fastforce simp: fixed_def answers_def)

lemma answersD: "answers t V m \<Longrightarrow> twin t V w1 \<Longrightarrow> twin t V w2 \<Longrightarrow> fst (m w1) = fst (m w2)"
  by (auto simp: answers_def)

lemma fixed_simple [read_intros]:
  "fixed t V (ret x)" "fixed t V (throw e)" "fixed t V (lift_sum r)" "fixed t V (guard_that b e)"
  by (auto simp: fixed_def guard_that_def)

lemma fixed_gets: "(\<And>w. twin t V w \<Longrightarrow> f w = f V) \<Longrightarrow> fixed t V (gets f)"
  by (auto simp: fixed_def)

lemma fixed_bind:
  assumes "fixed t V m" and "\<And>x w. twin t V w \<Longrightarrow> m w = (Inr x, w) \<Longrightarrow> fixed t V (f x)"
  shows "fixed t V (bindE m f)"
proof (cases "\<exists>w. twin t V w")
  case True
  then obtain w where w: "twin t V w" ..
  from assms(1) obtain r where r: "\<And>w. twin t V w \<Longrightarrow> m w = (r, w)" by (auto simp: fixed_def)
  show ?thesis
  proof (cases r)
    case (Inl e)
    with r show ?thesis by (auto simp: fixed_def bindE_def)
  next
    case (Inr x)
    with assms(2) [OF w] r [OF w] have "fixed t V (f x)" by simp
    with r Inr show ?thesis by (auto simp: fixed_def bindE_def)
  qed
qed (simp add: fixed_def)

lemma answers_bind:
  assumes "fixed t V m" and "\<And>x w. twin t V w \<Longrightarrow> m w = (Inr x, w) \<Longrightarrow> answers t V (f x)"
  shows "answers t V (bindE m f)"
proof (cases "\<exists>w. twin t V w")
  case True
  then obtain w where w: "twin t V w" ..
  from assms(1) obtain r where r: "\<And>w. twin t V w \<Longrightarrow> m w = (r, w)" by (auto simp: fixed_def)
  show ?thesis
  proof (cases r)
    case (Inl e)
    with r show ?thesis by (auto simp: answers_def bindE_def)
  next
    case (Inr x)
    with assms(2) [OF w] r [OF w] have "answers t V (f x)" by simp
    with r Inr show ?thesis by (auto simp: answers_def bindE_def)
  qed
qed (simp add: answers_def)

lemma fixed_seq: "fixed t V m \<Longrightarrow> fixed t V n \<Longrightarrow> fixed t V (seqE m n)"
  unfolding seqE_def by (rule fixed_bind)

lemma fixed_try:
  assumes "fixed t V m" and "\<And>e. fixed t V (h e)"
  shows "fixed t V (try_except m c h)"
proof -
  from assms(1) obtain r where r: "\<And>w. twin t V w \<Longrightarrow> m w = (r, w)" by (auto simp: fixed_def)
  show ?thesis
  proof (cases r)
    case (Inl e)
    with assms(2) [of e] r show ?thesis by (auto simp: fixed_def try_except_def)
  qed (use r in \<open>auto simp: fixed_def try_except_def\<close>)
qed

lemma answers_try:
  assumes "answers t V m" and "\<And>e. \<exists>r. \<forall>w. fst (h e w) = r"
  shows "answers t V (try_except m c h)"
proof -
  from assms(1) obtain r where r: "\<And>w. twin t V w \<Longrightarrow> fst (m w) = r" by (auto simp: answers_def)
  show ?thesis
  proof (cases r)
    case (Inl e)
    with assms(2) [of e] obtain q where q: "\<And>w. fst (h e w) = q" by auto
    have "fst (try_except m c h w) = (if c e then q else Inl e)" if "twin t V w" for w
      using r [OF that] Inl q by (cases "m w") (auto simp: try_except_def)
    then show ?thesis by (auto simp: answers_def)
  next
    case (Inr x)
    then have "fst (try_except m c h w) = Inr x" if "twin t V w" for w
      using r [OF that] by (cases "m w") (auto simp: try_except_def)
    then show ?thesis by (auto simp: answers_def)
  qed
qed

lemma answers_atomic:
  assumes "answers t V m"
  shows "answers t V (atomic m)"
proof -
  from assms obtain r where r: "\<And>w. twin t V w \<Longrightarrow> fst (m w) = r" by (auto simp: answers_def)
  have "fst (atomic m w) = r" if "twin t V w" for w
    using r [OF twin_enter [OF that]] by (auto simp: atomic_def atomic_with_def split: prod.splits sum.splits)
  then show ?thesis by (auto simp: answers_def)
qed

subsection \<open>Queries\<close>

locale seen_table = scoped_table tb
  for tb :: "'a tenant_scoped_model_scheme tbl" +
  assumes rows_seen: "tbl_rows tb (seen t w) = mine t (tbl_rows tb w)"
    and rows_ok: "schema w \<Longrightarrow> tbl_ok tb (tbl_rows tb w)"
begin

lemma rows_of_twin: "twin t V w \<Longrightarrow> tbl_rows tb V = mine t (tbl_rows tb w)"
  using rows_seen by (auto simp: twin_def)

lemma objects_seen: "twin t V w \<Longrightarrow> objects tb w = objects tb V"
  using rows_of_twin [of t V w] twin_get(1) [of t V w] twin_platform(1) [of t V w] by (simp add: objects_def)

lemma object_row: "twin t V w \<Longrightarrow> x \<in> set (objects tb V) \<Longrightarrow> x \<in> set (tbl_rows tb w) \<and> tenant_id x = t"
  using twin_platform(1) [of t V w] rows_of_twin [of t V w] by (simp add: objects_def)

text \<open>A foreign key of the tenant, followed with the manager that is not scoped.\<close>

lemma fk_seen:
  assumes "twin t V w" and "\<exists>x \<in> set (tbl_rows tb w). row_id x = i \<and> tenant_id x = t"
  shows "fk (tbl_rows tb w) i = fk (tbl_rows tb V) i"
proof -
  have "distinct (map row_id (tbl_rows tb w))" using twin_get(2) [OF assms(1)] by (intro ok_pk rows_ok)
  then have "fk rs i = fk (mine t rs) i" if "distinct (map row_id rs)" "\<exists>x \<in> set rs. row_id x = i \<and> tenant_id x = t"
    for rs :: "'a tenant_scoped_model_scheme list"
    using that by (induction rs) (auto simp: fk_def find_None_iff)
  then show ?thesis using assms rows_of_twin [OF assms(1)] ok_pk [OF rows_ok [OF twin_get(2) [OF assms(1)]]] by simp
qed

lemma fixed_get_row: "fixed t V (get_row tb P e)"
proof -
  have "get_row tb P e w = (one_or_raise e (get_where P (objects tb V)), w)" if "twin t V w" for w
    using objects_seen [OF that] by (simp add: get_row_def)
  then show ?thesis by (auto simp: fixed_def)
qed

lemma get_row_found:
  assumes "twin t V w" and "get_row tb P e w = (Inr x, w')"
  shows "x \<in> set (objects tb V)" and "P x"
proof -
  have "x \<in> set (objects tb w)" "P x" using get_row_Inr [OF assms(2)] by (simp_all add: objects_in_scope)
  then show "x \<in> set (objects tb V)" and "P x" using objects_seen [OF assms(1)] by simp_all
qed

lemma fixed_bind_get_row:
  "(\<And>x. x \<in> set (objects tb V) \<Longrightarrow> P x \<Longrightarrow> fixed t V (f x)) \<Longrightarrow> fixed t V (bindE (get_row tb P e) f)"
  using get_row_found by (intro fixed_bind fixed_get_row) blast

end

interpretation seen_customers: seen_table customers_tbl
  by unfold_locales (auto simp: seen_def schema_get)
interpretation seen_addresses: seen_table addresses_tbl
  by unfold_locales (auto simp: seen_def schema_get)
interpretation seen_products: seen_table products_tbl
  by unfold_locales (auto simp: seen_def schema_get)
interpretation seen_coupons: seen_table coupons_tbl
  by unfold_locales (auto simp: seen_def schema_get)
interpretation seen_carts: seen_table carts_tbl
  by unfold_locales (auto simp: seen_def schema_get)
interpretation seen_items: seen_table cart_items_tbl
  by unfold_locales (auto simp: seen_def schema_get)
interpretation seen_applied: seen_table applied_coupons_tbl
  by unfold_locales (auto simp: seen_def schema_get)
interpretation seen_methods: seen_table payment_methods_tbl
  by unfold_locales (auto simp: seen_def schema_get)
interpretation seen_configs: seen_table gateway_configs_tbl
  by unfold_locales (auto simp: seen_def schema_get)
interpretation seen_orders: seen_table orders_tbl
  by unfold_locales (auto simp: seen_def schema_get)
interpretation seen_order_items: seen_table order_items_tbl
  by unfold_locales (auto simp: seen_def schema_get)
interpretation seen_reservations: seen_table reservations_tbl
  by unfold_locales (auto simp: seen_def schema_get)
interpretation seen_payments: seen_table payments_tbl
  by unfold_locales (auto simp: seen_def schema_get)
interpretation seen_invoices: seen_table invoices_tbl
  by unfold_locales (auto simp: seen_def schema_get)

lemmas seen_objects =
  seen_customers.objects_seen seen_addresses.objects_seen seen_products.objects_seen seen_coupons.objects_seen
  seen_carts.objects_seen seen_items.objects_seen seen_applied.objects_seen seen_methods.objects_seen
  seen_configs.objects_seen seen_orders.objects_seen seen_order_items.objects_seen seen_reservations.objects_seen
  seen_payments.objects_seen seen_invoices.objects_seen

lemmas seen_lookups [read_intros] =
  seen_customers.fixed_bind_get_row seen_addresses.fixed_bind_get_row seen_products.fixed_bind_get_row
  seen_coupons.fixed_bind_get_row seen_carts.fixed_bind_get_row seen_methods.fixed_bind_get_row
  seen_configs.fixed_bind_get_row seen_orders.fixed_bind_get_row

subsection \<open>What the serializers follow\<close>

lemma config_name_seen:
  assumes "twin t V w" and "\<forall>j. i = Some j \<longrightarrow> (\<exists>c \<in> set (db_gateway_configs w). row_id c = j \<and> tenant_id c = t)"
  shows "config_name_json w i = config_name_json V i"
proof (cases i)
  case (Some j)
  with seen_configs.fk_seen [OF assms(1), of j] assms(2) show ?thesis by (simp add: config_name_json_def)
qed (simp add: config_name_json_def)

lemma method_json_seen:
  assumes "twin t V w" and "m \<in> set (objects payment_methods_tbl V)"
  shows "payment_method_json w m = payment_method_json V m"
proof -
  have "m \<in> set (db_payment_methods w)" "tenant_id m = t" using seen_methods.object_row [OF assms] by simp_all
  then have "\<forall>j. pm_gateway_config m = Some j \<longrightarrow> (\<exists>c \<in> set (db_gateway_configs w). row_id c = j \<and> tenant_id c = t)"
    using twin_get(3) [OF assms(1)] by (auto simp: keys_own_def names_own_def refs_iff)
  from config_name_seen [OF assms(1) this] show ?thesis by (simp add: payment_method_json_def)
qed

lemma payment_json_seen:
  assumes "twin t V w" and "p \<in> set (objects payments_tbl V)"
  shows "admin_payment_json w p = admin_payment_json V p"
proof -
  have "p \<in> set (db_payments w)" "tenant_id p = t" using seen_payments.object_row [OF assms] by simp_all
  then have "\<forall>j. pay_gateway_config p = Some j \<longrightarrow> (\<exists>c \<in> set (db_gateway_configs w). row_id c = j \<and> tenant_id c = t)"
    using twin_get(3) [OF assms(1)] by (auto simp: keys_own_def names_own_def refs_iff)
  from config_name_seen [OF assms(1) this] show ?thesis by (simp add: admin_payment_json_def)
qed

lemma map_filter_cong: "(\<And>x. x \<in> set xs \<Longrightarrow> f x = g x) \<Longrightarrow> List.map_filter f xs = List.map_filter g xs"
  by (auto simp: List.map_filter_def intro!: map_cong filter_cong)

lemma cart_json_seen:
  assumes "twin t V w"
  shows "cart_json (load_cart w c) = cart_json (load_cart V c)"
proof -
  have items: "items_of w = items_of V" and applied: "applied_of w = applied_of V"
    using assms by (simp_all add: fun_eq_iff items_of_def applied_of_def seen_objects)
  have p: "fk (db_products w) (item_product i) = fk (db_products V) (item_product i)" if "i \<in> set (items_of V x)" for i x
  proof -
    have "i \<in> set (db_cart_items w)" "tenant_id i = t"
      using seen_items.object_row [OF assms, of i] that by (simp_all add: items_of_def)
    then have "\<exists>p \<in> set (db_products w). row_id p = item_product i \<and> tenant_id p = t"
      using twin_get(3) [OF assms] by (auto simp: keys_own_def names_own_def refs_iff)
    then show ?thesis using seen_products.fk_seen [OF assms] by simp
  qed
  have c: "fk (db_coupons w) (ac_coupon a) = fk (db_coupons V) (ac_coupon a)" if "a \<in> set (applied_of V x)" for a x
  proof -
    have "a \<in> set (db_applied_coupons w)" "tenant_id a = t"
      using seen_applied.object_row [OF assms, of a] that by (simp_all add: applied_of_def)
    then have "\<exists>c \<in> set (db_coupons w). row_id c = ac_coupon a \<and> tenant_id c = t"
      using twin_get(3) [OF assms] by (auto simp: keys_own_def names_own_def refs_iff)
    then show ?thesis using seen_coupons.fk_seen [OF assms] by simp
  qed
  have "List.map_filter (\<lambda>i. fk (db_products w) (item_product i)) (items_of V x) =
      List.map_filter (\<lambda>i. fk (db_products V) (item_product i)) (items_of V x)" for x
    by (rule map_filter_cong) (rule p)
  moreover have "coupons_of w = coupons_of V"
    unfolding fun_eq_iff coupons_of_def applied by (intro allI map_filter_cong c)
  ultimately show ?thesis
    by (simp add: cart_json_def load_cart_def cv_totals_def items applied)
qed

text \<open>The invoices of an order of the tenant are the tenant's.\<close>

lemma invoices_seen:
  assumes "twin t V w" and "od \<in> set (objects orders_tbl V)"
  shows "filter (\<lambda>v. inv_order v = row_id od) (db_invoices w) = filter (\<lambda>v. inv_order v = row_id od) (db_invoices V)"
proof -
  have od: "od \<in> set (db_orders w)" "tenant_id od = t" using seen_orders.object_row [OF assms] by simp_all
  have d: "distinct (map row_id (db_orders w))"
    using orders.ok_pk [OF seen_orders.rows_ok [OF twin_get(2) [OF assms(1)]]] by simp
  have "tenant_id v = t" if v: "v \<in> set (db_invoices w)" "inv_order v = row_id od" for v
  proof -
    have "\<exists>x \<in> set (db_orders w). row_id x = row_id od \<and> tenant_id x = tenant_id v"
      using twin_get(3) [OF assms(1)] v unfolding keys_own_def names_own_def refs_iff by fastforce
    then show ?thesis using od d by (auto simp: distinct_map inj_on_def)
  qed
  then have "filter (\<lambda>v. inv_order v = row_id od) (db_invoices w) =
      filter (\<lambda>v. inv_order v = row_id od) (mine t (db_invoices w))"
    by (auto simp: intro!: filter_cong)
  then show ?thesis using seen_invoices.rows_of_twin [OF assms(1)] by simp
qed

subsection \<open>The reads of a storefront\<close>

lemma fixed_bind_gets [read_intros]:
  "(\<And>w. twin t V w \<Longrightarrow> f w = f V) \<Longrightarrow> (\<And>x. x = f V \<Longrightarrow> fixed t V (g x)) \<Longrightarrow> fixed t V (bindE (gets f) g)"
  by (rule fixed_bind [OF fixed_gets]) auto

lemma fixed_bind_lift [read_intros]:
  "(\<And>x. r = Inr x \<Longrightarrow> fixed t V (g x)) \<Longrightarrow> fixed t V (bindE (lift_sum r) g)"
  by (rule fixed_bind [OF fixed_simple(3)]) simp

lemma fixed_lists [read_intros]:
  "fixed t V (list_response cfg r q show qs)" "fixed t V (plain_list r show qs)"
  unfolding list_response_def plain_list_def by (intro fixed_bind_lift fixed_simple)+

lemma fixed_seq_guard [read_intros]: "fixed t V n \<Longrightarrow> fixed t V (seqE (guard_that b e) n)"
  by (rule fixed_seq [OF fixed_simple(4)])

text \<open>A page whose rows are shown with what their foreign keys name.\<close>

lemma fixed_page:
  assumes "\<And>w. twin t V w \<Longrightarrow> map (show w) (qs w) = map (show V) (qs V)"
  shows "fixed t V (bindE (gets (\<lambda>w. (qs w, w))) (\<lambda>(qs, w). list_response cfg r q (show w) qs))"
proof -
  have "bindE (gets (\<lambda>w. (qs w, w))) (\<lambda>(qs, w). list_response cfg r q (show w) qs) w =
      list_response cfg r q id (map (show V) (qs V)) w" if "twin t V w" for w
  proof -
    have "length (qs w) = length (map (show V) (qs V))" using assms [OF that] by (metis length_map)
    then show ?thesis
      using assms [OF that] by (simp add: list_response_cases map_page_slice split: sum.split)
  qed
  moreover have "fixed t V (list_response cfg r q id (map (show V) (qs V)))" by (rule fixed_lists)
  ultimately show ?thesis unfolding fixed_def by simp
qed

lemma own_orders_seen: "twin t V w \<Longrightarrow> own_orders c w = own_orders c V"
  by (simp add: own_orders_def seen_objects)

lemma order_json_seen: "twin t V w \<Longrightarrow> order_json w = order_json V" "twin t V w \<Longrightarrow> order_fields w = order_fields V"
  by (simp_all add: fun_eq_iff order_json_def order_fields_def items_of_order_def seen_objects)

lemma order_list_seen: "twin t V w \<Longrightarrow> order_list_queryset c st w = order_list_queryset c st V"
  by (simp add: order_list_queryset_def own_orders_seen)

lemma product_reads:
  "fixed t V (storefront_product_list cfg st q c r)" "fixed t V (storefront_product_get st i c r)"
  unfolding storefront_product_list_def storefront_product_get_def
  by (intro read_intros; simp add: product_queryset_def product_detail_lookup_def active_products_def seen_objects)+

lemma order_reads: "fixed t V (order_list_get cfg q c r)" "fixed t V (order_detail_get i c r)"
  unfolding order_list_get_def order_detail_get_def
  by (intro fixed_page read_intros; simp add: order_list_seen order_json_seen order_detail_lookup_def own_orders_seen)+

lemma invoice_read: "fixed t V (order_invoice_get i c r)"
  unfolding order_invoice_get_def
proof (intro read_intros)
  fix od assume od: "od \<in> set (objects orders_tbl V)"
  have "get_row_all invoices_tbl (\<lambda>v. inv_order v = row_id od) e w =
      (one_or_raise e (get_where (\<lambda>v. inv_order v = row_id od) (db_invoices V)), w)" if "twin t V w" for w e
    using invoices_seen [OF that od] by (simp add: get_row_all_def get_where_def)
  then have "fixed t V (get_row_all invoices_tbl (\<lambda>v. inv_order v = row_id od) e)" for e
    by (auto simp: fixed_def)
  then show "fixed t V (bindE (get_row_all invoices_tbl (\<lambda>v. inv_order v = row_id od)
      (ResourceNotFound ''Invoice not yet generated for this order''))
      (\<lambda>v. ret (json_response 200 [] (envelope (invoice_json od v) (rq_id r) []))))"
    by (rule fixed_bind) (rule read_intros)
qed

lemma address_reads: "fixed t V (address_list_get cfg q i c r)" "fixed t V (address_detail_get j i c r)"
proof -
  have own: "own_addresses c i w = own_addresses c i V" if "twin t V w" for c i w
    using that by (simp add: own_addresses_def seen_objects)
  show "fixed t V (address_list_get cfg q i c r)"
    unfolding address_list_get_def by (intro read_intros own)
  have "fixed t V (get_address c j i)"
    unfolding get_address_def by (intro read_intros own)
  then show "fixed t V (address_detail_get j i c r)"
    unfolding address_detail_get_def by (rule fixed_bind) (rule read_intros)
qed

lemma method_list_seen:
  assumes "twin t V w"
  shows "map (payment_method_json w) (sorted_payment_methods i w) = map (payment_method_json V) (sorted_payment_methods i V)"
proof -
  have s: "sorted_payment_methods i w = sorted_payment_methods i V"
    using assms by (simp add: sorted_payment_methods_def own_payment_methods_def seen_objects)
  have "m \<in> set (objects payment_methods_tbl V)" if "m \<in> set (sorted_payment_methods i V)" for m
    using that by (simp add: sorted_payment_methods_def own_payment_methods_def)
  then show ?thesis unfolding s using method_json_seen [OF assms] by simp
qed

lemma method_reads:
  "fixed t V (payment_method_list_get cfg q i c r)" "fixed t V (payment_method_detail_get i j c r)"
  unfolding payment_method_list_get_def payment_method_detail_get_def own_account_def
  by (intro fixed_page read_intros method_list_seen; simp add: method_json_seen)+

lemma gateway_reads: "fixed t V (public_gateway_list_get cfg e r)" "fixed t V (public_gateway_detail_get e n r)"
proof -
  show "fixed t V (public_gateway_list_get cfg e r)"
    unfolding public_gateway_list_get_def by (intro read_intros) (simp add: public_gateway_queryset_def seen_objects)
  show "fixed t V (public_gateway_detail_get e n r)"
    unfolding public_gateway_detail_get_def Let_def by (cases "n = gateway_name_value MOCK \<and> \<not> env_allow_mock e") (auto intro!: read_intros)
qed

lemma cart_read: "fixed t V (cart_detail_get c r)"
proof -
  have "cart_detail_get c r = bindE (get_row carts_tbl (active_cart_of (row_id c)) no_active_cart)
      (\<lambda>x. bindE (gets (\<lambda>w. cart_json (load_cart w x))) (\<lambda>j. ret (json_response 200 [] (envelope j (rq_id r) []))))"
    by (auto simp: fun_eq_iff cart_detail_get_def cart_answer_def get_cart_def cart_response_def bindE_def split: prod.splits sum.splits)
  then show ?thesis by (simp only:) (intro read_intros cart_json_seen)
qed

text \<open>The calls of the storefront that read.\<close>

definition shop_reads :: "shop_call \<Rightarrow> bool" where
  "shop_reads call =
     (case call of
        CartGet \<Rightarrow> True | OrderGet _ \<Rightarrow> True | InvoiceGet _ \<Rightarrow> True | ProductGet _ \<Rightarrow> True | ProductList _ \<Rightarrow> True
      | OrderList _ \<Rightarrow> True | MethodList _ _ \<Rightarrow> True | GatewayList \<Rightarrow> True | AddressList _ _ \<Rightarrow> True
      | AddressGet _ _ \<Rightarrow> True | MethodGet _ _ \<Rightarrow> True | GatewayGet _ \<Rightarrow> True | _ \<Rightarrow> False)"

lemma shop_read: "shop_reads call \<Longrightarrow> fixed t V (shop_view s call c r)"
  by (cases call)
    (simp_all add: shop_reads_def product_reads order_reads invoice_read address_reads method_reads gateway_reads cart_read)

subsection \<open>The reads of an administration\<close>

lemma find_of_filter: "find P xs = (case filter P xs of [] \<Rightarrow> None | x # _ \<Rightarrow> Some x)"
  by (induction xs) auto

lemma admin_order_json_seen:
  assumes "twin t V w" and "od \<in> set (objects orders_tbl V)"
  shows "admin_order_json w od = admin_order_json V od"
proof -
  have p: "payments_of_order w = payments_of_order V"
    using assms(1) by (simp add: fun_eq_iff payments_of_order_def seen_objects)
  have "p \<in> set (objects payments_tbl V)" if "p \<in> set (payments_of_order V i)" for p i
    using that by (simp add: payments_of_order_def)
  then have "map (admin_payment_json w) (payments_of_order V i) = map (admin_payment_json V) (payments_of_order V i)" for i
    using payment_json_seen [OF assms(1)] by simp
  moreover have "invoice_of w od = invoice_of V od"
    using invoices_seen [OF assms] by (simp add: invoice_of_def find_of_filter)
  ultimately show ?thesis
    using order_json_seen(2) [OF assms(1)] by (simp add: admin_order_json_def admin_invoice_json_def p)
qed

lemma admin_order_reads:
  "fixed t V (admin_order_detail_get i u r)" "fixed t V (admin_order_payments_get i u r)"
  "fixed t V (admin_order_list_get cfg q u r)"
proof -
  show "fixed t V (admin_order_detail_get i u r)"
    unfolding admin_order_detail_get_def admin_get_order_def admin_order_response_def
    by (intro read_intros admin_order_json_seen)
  have "map (admin_payment_json w) (payments_of_order w j) = map (admin_payment_json V) (payments_of_order V j)"
    if "twin t V w" for w j
    using payment_json_seen [OF that] that by (auto simp: payments_of_order_def seen_objects)
  then show "fixed t V (admin_order_payments_get i u r)"
    unfolding admin_order_payments_get_def admin_get_order_def by (intro read_intros) simp
  let ?qs = "admin_order_queryset cfg (query_get q ''status'') (query_get q ''customer_id'')"
  have qs: "?qs w = ?qs V" if "twin t V w" for w
    using that by (simp add: admin_order_queryset_def seen_objects)
  show "fixed t V (admin_order_list_get cfg q u r)"
  proof (cases "?qs V")
    case (Inl e)
    then have "admin_order_list_get cfg q u r w = (Inl e, w)" if "twin t V w" for w
      using qs [OF that] by (simp add: admin_order_list_get_def)
    then show ?thesis by (auto simp: fixed_def)
  next
    case (Inr ods)
    have "od \<in> set (objects orders_tbl V)" if "od \<in> set ods" for od
      using Inr that by (auto simp: admin_order_queryset_def Let_def split: if_splits sum.splits)
    then have "fixed t V (bindE (gets (\<lambda>w. (ods, w))) (\<lambda>(qs, w). list_response cfg r q (admin_order_json w) qs))"
      using admin_order_json_seen by (intro fixed_page) simp
    moreover have "admin_order_list_get cfg q u r w =
        bindE (gets (\<lambda>w. (ods, w))) (\<lambda>(qs, w). list_response cfg r q (admin_order_json w) qs) w" if "twin t V w" for w
      using qs [OF that] Inr by (simp add: admin_order_list_get_def)
    ultimately show ?thesis by (simp add: fixed_def)
  qed
qed

lemma admin_lists_read:
  "fixed t V (product_list_get cfg st q u r)" "fixed t V (product_detail_get st i u r)"
  "fixed t V (coupon_list_get cfg q u r)" "fixed t V (coupon_detail_get i u r)"
  "fixed t V (customer_list_get cfg q u r)" "fixed t V (customer_detail_get i u r)"
  "fixed t V (gateway_config_list_get cfg u r)" "fixed t V (gateway_config_get i u r)"
  unfolding product_list_get_def product_detail_get_def get_product_def coupon_list_get_def coupon_detail_get_def
    get_coupon_def customer_list_get_def customer_detail_get_def get_customer_def gateway_config_list_get_def
    gateway_config_get_def get_gateway_config_def
  by (intro read_intros; simp add: seen_objects customer_queryset_def)+

definition admin_reads :: "admin_call \<Rightarrow> bool" where
  "admin_reads call =
     (case call of
        AdminProductGet _ \<Rightarrow> True | CouponGet _ \<Rightarrow> True | CustomerGet _ \<Rightarrow> True | AdminOrderGet _ \<Rightarrow> True
      | AdminOrderPayments _ \<Rightarrow> True | AdminProductList _ \<Rightarrow> True | CouponList _ \<Rightarrow> True | CustomerList _ \<Rightarrow> True
      | AdminOrderList _ \<Rightarrow> True | ConfigList \<Rightarrow> True | ConfigGet _ \<Rightarrow> True | _ \<Rightarrow> False)"

lemma admin_read: "admin_reads call \<Longrightarrow> fixed t V (admin_view s call u r)"
  by (cases call) (simp_all add: admin_reads_def admin_order_reads admin_lists_read)

subsection \<open>A request that reads\<close>

lemma answers_if [read_intros]: "(b \<Longrightarrow> answers t V m) \<Longrightarrow> (\<not> b \<Longrightarrow> answers t V n) \<Longrightarrow> answers t V (if b then m else n)"
  by simp

lemma answers_option [read_intros]:
  "(x = None \<Longrightarrow> answers t V m) \<Longrightarrow> (\<And>y. x = Some y \<Longrightarrow> answers t V (f y)) \<Longrightarrow>
   answers t V (case x of None \<Rightarrow> m | Some y \<Rightarrow> f y)"
  by (cases x) simp_all

lemma fixed_option [read_intros]:
  "(x = None \<Longrightarrow> fixed t V m) \<Longrightarrow> (\<And>y. x = Some y \<Longrightarrow> fixed t V (f y)) \<Longrightarrow>
   fixed t V (case x of None \<Rightarrow> m | Some y \<Rightarrow> f y)"
  by (cases x) simp_all

lemma customer_view_answers: "(\<And>c r. fixed t V (view c r)) \<Longrightarrow> answers t V (customer_view view r)"
  unfolding customer_view_def by (intro answers_fixed read_intros)

lemma fixed_user: "fixed t V (token_authentication ttl key)"
proof -
  have "fixed t V (get_row_all tokens_tbl P e)" for P e
    using twin_platform(5) by (auto simp: fixed_def get_row_all_def)
  then have "fixed t V (authenticate_credentials ttl k)" for k
    unfolding authenticate_credentials_def current_time_def
    by (intro fixed_bind [where m = "get_row_all tokens_tbl _ _"] read_intros)
      (auto simp: user_by_id_def twin_platform intro!: read_intros)
  then show ?thesis
    unfolding token_authentication_def by (cases key) (auto intro!: fixed_bind read_intros split: prod.splits)
qed

lemma tenant_admin_answers: "(\<And>u r. fixed t V (view u r)) \<Longrightarrow> answers t V (tenant_admin_view ttl key view r)"
proof -
  assume view: "\<And>u r. fixed t V (view u r)"
  have denied: "fixed t V (permission_denied u e)" for u e
    unfolding permission_denied_def by (intro read_intros)
  have "is_tenant_admin u x w = is_tenant_admin u x V" if "twin t V w" for u x w
    using twin_platform(4) [OF that] by (simp add: is_tenant_admin_def split: option.split)
  then have "fixed t V (tenant_admin_view ttl key view r)"
    unfolding tenant_admin_view_def
    by (intro fixed_bind [OF fixed_user] read_intros) (auto intro: view denied split: option.split)
  then show ?thesis by (rule answers_fixed)
qed

text \<open>The views that read, with who may call them.\<close>

lemma read_view_answers:
  assumes "shop_reads call \<and> view = customer_view (shop_view s call) \<or>
    admin_reads acall \<and> view = tenant_admin_view ttl key (admin_view s acall)"
  shows "answers t V (view r)"
  using assms by (auto intro: customer_view_answers shop_read tenant_admin_answers admin_read)

lemma answers_convert: "answers t V m \<Longrightarrow> answers t V (convert_exception m)"
  unfolding convert_exception_def by (erule answers_try) simp

lemma answer_fixed: "\<exists>q. \<forall>w. fst (answer_exception r e w) = q"
  by (simp add: answer_exception_def split: option.split)

lemma answers_dispatch: "answers t V (view r) \<Longrightarrow> answers t V (dispatch view r)"
  unfolding dispatch_def by (erule answers_try) (rule answer_fixed)

lemma answers_request: "answers t V (view r) \<Longrightarrow> answers t V (atomic_request view r)"
  unfolding atomic_request_def by (intro answers_convert answers_try answers_atomic answers_dispatch answer_fixed)

lemma answers_customer_auth:
  assumes "\<And>r. answers t V (h r)"
  shows "answers t V (customer_auth cfg h r)"
proof -
  have "fixed t V (customer_lookup cfg x)" for x
    unfolding customer_lookup_def by (intro fixed_bind_lift seen_customers.fixed_get_row)
  then have "fixed t V (try_except (bindE (customer_lookup cfg x) (\<lambda>c. ret (Some c))) no_such_customer (\<lambda>_. ret None))" for x
    by (intro fixed_try fixed_bind fixed_simple)
  then show ?thesis
    unfolding customer_auth_def Let_def
    by (intro read_intros answers_bind answers_fixed [OF fixed_simple(1)] assms)
qed

lemma answers_inner:
  assumes "\<And>r. answers t V (view r)"
  shows "answers t V (convert_exception (tenant_db_session (\<lambda>r. convert_exception (customer_auth cfg (atomic_request view) r)) r))"
proof -
  have "fixed t V get_current_tenant_id"
    unfolding get_current_tenant_id_def using twin_get(1) twin_platform(1) by (intro fixed_gets) auto
  then show ?thesis
    unfolding tenant_db_session_def
    by (intro answers_convert answers_bind read_intros answers_atomic answers_customer_auth answers_request assms)
qed

text \<open>The tenant of a host is the same in two states with the same tenants.\<close>

lemma resolver_same:
  assumes "\<not> is_exempt (rq_http r) GLOBAL_EXEMPT_PATHS" and "schema w1" "keys_own w1" and "schema w2" "keys_own w2"
    and t: "t \<in> set (db_tenants w1)" "tenant_subdomain cfg (req_host (rq_http r)) = Some (ten_subdomain t)"
    and same: "seen (ten_id t) w1 = seen (ten_id t) w2"
    and h: "\<And>V r. answers (ten_id t) V (h r)"
  shows "fst (tenant_resolver cfg h r w1) = fst (tenant_resolver cfg h r w2)"
proof -
  have eq: "db_tenants w2 = db_tenants w1" using arg_cong [OF same, of db_tenants] by (simp add: seen_def tables_def)
  let ?g = "get_where (\<lambda>x. ten_subdomain x = ten_subdomain t \<and> ten_is_active x) (db_tenants w1)"
  have d: "distinct (map ten_subdomain (db_tenants w1))" using schema_get(1) [OF assms(2)] by (simp add: tenants_tbl_def)
  have unique: "x = t" if "x \<in> set (db_tenants w1)" "ten_subdomain x = ten_subdomain t" for x
    using d t(1) that by (auto simp: distinct_map inj_on_def)
  have ctx: "fst (tenant_context (Some (ten_id t)) (h q) w1) = fst (tenant_context (Some (ten_id t)) (h q) w2)" for q
  proof -
    have twin: "twin (ten_id t) (seen (ten_id t) w1) (w\<lparr>tenant_ctx := Some (ten_id t)\<rparr>)"
      if "schema w" "keys_own w" "seen (ten_id t) w = seen (ten_id t) w1" for w
      using that by (simp add: twin_def seen_def tables_def keys_own_def schema_def)
    have "fst (h q (w1\<lparr>tenant_ctx := Some (ten_id t)\<rparr>)) = fst (h q (w2\<lparr>tenant_ctx := Some (ten_id t)\<rparr>))"
      using twin [OF assms(2,3)] twin [OF assms(4,5)] same by (intro answersD [OF h]) simp_all
    then show ?thesis
      by (cases "h q (w1\<lparr>tenant_ctx := Some (ten_id t)\<rparr>)"; cases "h q (w2\<lparr>tenant_ctx := Some (ten_id t)\<rparr>)")
        (simp add: tenant_context_def bindE_def set_current_tenant_id_def finally_do_def)
  qed
  show ?thesis
  proof (cases ?g)
    case (OneRow x)
    with get_where_OneRowD [OF OneRow] unique have "x = t" by blast
    with OneRow assms(1) t(2) ctx show ?thesis by (simp add: tenant_resolver_def all_objects_def eq)
  qed (use assms(1) t(2) in \<open>simp_all add: tenant_resolver_def all_objects_def eq\<close>)
qed

lemma request_id_fst:
  "fst (request_id_middleware h r w) =
     (let t = meta_get (req_meta (rq_http r)) ''HTTP_X_REQUEST_ID'';
          rid = (if t \<noteq> [] then t else uuid_str (fresh_id w));
          u = (if t \<noteq> [] then w else w\<lparr>fresh_id := Suc (fresh_id w)\<rparr>)
      in map_sum_inr (add_header ''X-Request-ID'' rid) (fst (h (r\<lparr>rq_id := rid\<rparr>) u)))"
  by (simp add: request_id_middleware_def Let_def bindE_def new_uuid_def map_sum_inr_def bind_sum_def split: prod.split sum.split)

lemma served_same:
  assumes "\<not> is_exempt (rq_http r) GLOBAL_EXEMPT_PATHS" and "schema w1" "keys_own w1" and "schema w2" "keys_own w2"
    and "t \<in> set (db_tenants w1)" "tenant_subdomain cfg (req_host (rq_http r)) = Some (ten_subdomain t)"
    and same: "seen (ten_id t) w1 = seen (ten_id t) w2"
    and view: "\<And>V r. answers (ten_id t) V (view r)"
  shows "fst (served cfg view r w1) = fst (served cfg view r w2)"
proof -
  let ?h = "\<lambda>r. convert_exception (tenant_db_session (\<lambda>r. convert_exception (customer_auth cfg (atomic_request view) r)) r)"
  have f: "fresh_id w2 = fresh_id w1" using arg_cong [OF same, of fresh_id] by (simp add: seen_def)
  have inner: "fst (tenant_resolver cfg ?h (r\<lparr>rq_id := i\<rparr>) (w1\<lparr>fresh_id := n\<rparr>)) =
      fst (tenant_resolver cfg ?h (r\<lparr>rq_id := i\<rparr>) (w2\<lparr>fresh_id := n\<rparr>))" for i n
  proof (rule resolver_same [where t = t])
    have eq: "seen u (w\<lparr>fresh_id := n\<rparr>) = (seen u w)\<lparr>fresh_id := n\<rparr>" for u w
      by (simp add: seen_def tables_def)
    show "seen (ten_id t) (w1\<lparr>fresh_id := n\<rparr>) = seen (ten_id t) (w2\<lparr>fresh_id := n\<rparr>)" using same by (simp add: eq)
  qed (use assms in \<open>simp_all add: keys_own_def answers_inner\<close>)
  have keep: "w1\<lparr>fresh_id := fresh_id w1\<rparr> = w1" "w2\<lparr>fresh_id := fresh_id w1\<rparr> = w2" using f by simp_all
  have conv: "fst (convert_exception m u1) = fst (convert_exception m u2)" if "fst (m u1) = fst (m u2)" for m :: "http_response act" and u1 u2
    using that by (auto simp: convert_exception_def try_except_def split: prod.splits sum.splits)
  have "fst (convert_exception (tenant_resolver cfg ?h (r\<lparr>rq_id := i\<rparr>)) (w1\<lparr>fresh_id := n\<rparr>)) =
      fst (convert_exception (tenant_resolver cfg ?h (r\<lparr>rq_id := i\<rparr>)) (w2\<lparr>fresh_id := n\<rparr>))" for i n
    by (rule conv) (rule inner)
  note this [of _ "Suc (fresh_id w1)"] this [of _ "fresh_id w1", unfolded keep]
  then show ?thesis by (simp add: served_def request_id_fst Let_def f)
qed

end
