(* ===== verification/RowSecurity.thy ===== *)
theory RowSecurity
  imports Readings
begin

section \<open>Row-level security\<close>

text \<open>
  The migration \<^verbatim>\<open>core/migrations/0001_enable_rls.py\<close> and the two roles of \<^verbatim>\<open>scripts/init-db.sql\<close>: the database itself
  keeps the tables of the tenants apart, by a policy on each of them. What a query sees is what its documentation says of row
  security: all rows, if it is off, or if the role bypasses it or owns the table and is not forced; else the rows for which
  the condition of one of the policies for the role is true. The condition compares with a setting of the
  session. It is neither true nor false while that was never set; once a transaction has set it and ended, or it was
  reset, it is the empty text, which is no identifier, and a query that comes to a row raises.
\<close>

subsection \<open>The migration\<close>

text \<open>What \<open>current_setting('app.current_tenant', true)\<close> gives: null, the empty text, or an identifier.\<close>

datatype session_setting = Unset | Cleared | CurrentTenant uuid

record policy =
  pol_name :: string
  pol_role :: string
  pol_using :: "session_setting \<Rightarrow> uuid \<Rightarrow> exn + bool option" \<comment> \<open>the setting and the tenant of a row\<close>
  pol_check :: "session_setting \<Rightarrow> uuid \<Rightarrow> exn + bool option"

record table_security =
  sec_enabled :: bool
  sec_forced :: bool
  sec_policies :: "policy list"

type_synonym row_security = "string \<Rightarrow> table_security"

definition TENANT_TABLES :: "string list" where
  "TENANT_TABLES =
     [''carts_cart'', ''carts_cartitem'', ''carts_appliedcoupon'', ''catalog_product'', ''customers_customer'',
      ''customers_address'', ''coupons_coupon'', ''orders_order'', ''orders_orderitem'', ''orders_inventoryreservation'',
      ''orders_invoice'', ''payments_paymentgatewayconfig'', ''payments_paymentmethod'', ''payments_payment'']"

text \<open>\<open>tenant_id = current_setting('app.current_tenant', true)::uuid\<close>; a comparison with null is null.\<close>

definition not_a_uuid :: exn where
  "not_a_uuid = DatabaseError (''invalid input syntax for type uuid: '' @ [CHR 0x22, CHR 0x22])"

definition is_current_tenant :: "session_setting \<Rightarrow> uuid \<Rightarrow> exn + bool option" where
  "is_current_tenant setting i =
     (case setting of Unset \<Rightarrow> Inr None | Cleared \<Rightarrow> Inl not_a_uuid | CurrentTenant t \<Rightarrow> Inr (Some (i = t)))"

definition tenant_isolation :: policy where
  "tenant_isolation = \<lparr>pol_name = ''tenant_isolation'', pol_role = ''app_user'', pol_using = is_current_tenant,
     pol_check = is_current_tenant\<rparr>"

definition alter_table :: "(table_security \<Rightarrow> table_security) \<Rightarrow> string \<Rightarrow> (row_security, exn, unit) prog" where
  "alter_table f t = modify (\<lambda>c. c(t := f (c t)))"

definition create_policy :: "policy \<Rightarrow> string \<Rightarrow> (row_security, exn, unit) prog" where
  "create_policy p t =
     bindE (gets (\<lambda>c. pol_name p \<in> pol_name ` set (sec_policies (c t)))) (\<lambda>there.
     if there then throw (DatabaseError (''policy already exists on '' @ t))
     else alter_table (\<lambda>s. s\<lparr>sec_policies := sec_policies s @ [p]\<rparr>) t)"

definition drop_policy_if_exists :: "string \<Rightarrow> string \<Rightarrow> (row_security, exn, unit) prog" where
  "drop_policy_if_exists n t = alter_table (\<lambda>s. s\<lparr>sec_policies := filter (\<lambda>p. pol_name p \<noteq> n) (sec_policies s)\<rparr>) t"

definition enable_rls :: "(row_security, exn, unit) prog" where
  "enable_rls =
     for_each (\<lambda>t. seqE (alter_table (\<lambda>s. s\<lparr>sec_enabled := True\<rparr>) t)
       (seqE (alter_table (\<lambda>s. s\<lparr>sec_forced := True\<rparr>) t) (create_policy tenant_isolation t))) TENANT_TABLES"

definition disable_rls :: "(row_security, exn, unit) prog" where
  "disable_rls =
     for_each (\<lambda>t. seqE (drop_policy_if_exists ''tenant_isolation'' t)
       (alter_table (\<lambda>s. s\<lparr>sec_enabled := False\<rparr>) t)) TENANT_TABLES"

subsection \<open>What a role sees\<close>

record db_role =
  role_name :: string
  role_bypasses :: bool

definition app_user :: db_role where
  "app_user = \<lparr>role_name = ''app_user'', role_bypasses = False\<rparr>"

definition app_admin :: db_role where
  "app_admin = \<lparr>role_name = ''app_admin'', role_bypasses = True\<rparr>"

definition exempted :: "string \<Rightarrow> db_role \<Rightarrow> table_security \<Rightarrow> bool" where
  "exempted owner role s \<longleftrightarrow> \<not> sec_enabled s \<or> role_bypasses role \<or> role_name role = owner \<and> \<not> sec_forced s"

fun any_true :: "(exn + bool option) list \<Rightarrow> exn + bool" where
  "any_true [] = Inr False"
| "any_true (Inl e # cs) = Inl e"
| "any_true (Inr c # cs) = (if c = Some True then Inr True else any_true cs)"

definition row_test :: "string \<Rightarrow> db_role \<Rightarrow> session_setting \<Rightarrow> table_security \<Rightarrow> uuid \<Rightarrow> exn + bool" where
  "row_test owner role setting s i =
     (if exempted owner role s then Inr True
      else any_true (map (\<lambda>p. pol_using p setting i) (filter (\<lambda>p. pol_role p = role_name role) (sec_policies s))))"

text \<open>A query for the rows of a table.\<close>

fun select_rows :: "string \<Rightarrow> db_role \<Rightarrow> session_setting \<Rightarrow> table_security \<Rightarrow> 'a scoped list \<Rightarrow> exn + 'a scoped list" where
  "select_rows owner role setting s [] = Inr []"
| "select_rows owner role setting s (r # rs) =
     (case row_test owner role setting s (tenant_id r) of
        Inl e \<Rightarrow> Inl e
      | Inr b \<Rightarrow> map_sum id (\<lambda>xs. if b then r # xs else xs) (select_rows owner role setting s rs))"

text \<open>The rows that are there for the role, where no query raises.\<close>

definition policed_rows :: "string \<Rightarrow> db_role \<Rightarrow> session_setting \<Rightarrow> table_security \<Rightarrow> 'a scoped list \<Rightarrow> 'a scoped list" where
  "policed_rows owner role setting s rs = filter (\<lambda>r. row_test owner role setting s (tenant_id r) = Inr True) rs"

lemma select_policed:
  assumes "\<forall>r \<in> set rs. \<exists>b. row_test owner role setting s (tenant_id r) = Inr b"
  shows "select_rows owner role setting s rs = Inr (policed_rows owner role setting s rs)"
  using assms by (induction rs) (auto simp: policed_rows_def)

text \<open>The database as the role sees it.\<close>

definition policed :: "row_security \<Rightarrow> string \<Rightarrow> db_role \<Rightarrow> session_setting \<Rightarrow> world \<Rightarrow> world" where
  "policed c owner role setting w =
     w\<lparr>db_carts := policed_rows owner role setting (c ''carts_cart'') (db_carts w),
       db_cart_items := policed_rows owner role setting (c ''carts_cartitem'') (db_cart_items w),
       db_applied_coupons := policed_rows owner role setting (c ''carts_appliedcoupon'') (db_applied_coupons w),
       db_products := policed_rows owner role setting (c ''catalog_product'') (db_products w),
       db_customers := policed_rows owner role setting (c ''customers_customer'') (db_customers w),
       db_addresses := policed_rows owner role setting (c ''customers_address'') (db_addresses w),
       db_coupons := policed_rows owner role setting (c ''coupons_coupon'') (db_coupons w),
       db_orders := policed_rows owner role setting (c ''orders_order'') (db_orders w),
       db_order_items := policed_rows owner role setting (c ''orders_orderitem'') (db_order_items w),
       db_reservations := policed_rows owner role setting (c ''orders_inventoryreservation'') (db_reservations w),
       db_invoices := policed_rows owner role setting (c ''orders_invoice'') (db_invoices w),
       db_gateway_configs := policed_rows owner role setting (c ''payments_paymentgatewayconfig'') (db_gateway_configs w),
       db_payment_methods := policed_rows owner role setting (c ''payments_paymentmethod'') (db_payment_methods w),
       db_payments := policed_rows owner role setting (c ''payments_payment'') (db_payments w)\<rparr>"

subsection \<open>What the migration does\<close>

text \<open>It fails on a table that has such a policy, and otherwise turns security on for the listed tables and no others.\<close>

definition secured :: "table_security \<Rightarrow> table_security" where
  "secured s = \<lparr>sec_enabled = True, sec_forced = True, sec_policies = sec_policies s @ [tenant_isolation]\<rparr>"

definition fresh_tables :: "row_security \<Rightarrow> bool" where
  "fresh_tables c \<longleftrightarrow> (\<forall>t \<in> set TENANT_TABLES. ''tenant_isolation'' \<notin> pol_name ` set (sec_policies (c t)))"

lemma enable_one:
  "''tenant_isolation'' \<notin> pol_name ` set (sec_policies (c t)) \<Longrightarrow>
    seqE (alter_table (\<lambda>s. s\<lparr>sec_enabled := True\<rparr>) t)
       (seqE (alter_table (\<lambda>s. s\<lparr>sec_forced := True\<rparr>) t) (create_policy tenant_isolation t)) c = (Inr (), c(t := secured (c t)))"
  by (cases "c t") (simp add: alter_table_def create_policy_def tenant_isolation_def secured_def)

lemma enable_all:
  assumes "distinct ts" and "\<forall>t \<in> set ts. ''tenant_isolation'' \<notin> pol_name ` set (sec_policies (c t))"
  shows "for_each (\<lambda>t. seqE (alter_table (\<lambda>s. s\<lparr>sec_enabled := True\<rparr>) t)
       (seqE (alter_table (\<lambda>s. s\<lparr>sec_forced := True\<rparr>) t) (create_policy tenant_isolation t))) ts c =
     (Inr (), \<lambda>t. if t \<in> set ts then secured (c t) else c t)"
  using assms
proof (induction ts arbitrary: c)
  case (Cons t ts)
  let ?c = "c(t := secured (c t))"
  have "\<forall>u \<in> set ts. ''tenant_isolation'' \<notin> pol_name ` set (sec_policies (?c u))" using Cons.prems by auto
  then show ?case
    using Cons.prems Cons.IH [of ?c] by (auto simp: seqE_Inr [OF enable_one] fun_eq_iff)
qed (simp add: fun_eq_iff)

lemma tenant_tables_distinct: "distinct TENANT_TABLES"
  by (simp add: TENANT_TABLES_def)

lemma enable_rls_result:
  "fresh_tables c \<Longrightarrow> enable_rls c = (Inr (), \<lambda>t. if t \<in> set TENANT_TABLES then secured (c t) else c t)"
  unfolding enable_rls_def using tenant_tables_distinct by (intro enable_all) (simp_all add: fresh_tables_def)

text \<open>The reverse migration takes the policy back and turns security off; what is forced stays so.\<close>

lemma disable_all:
  "disable_rls c = (Inr (), \<lambda>t. if t \<in> set TENANT_TABLES
     then (c t)\<lparr>sec_enabled := False, sec_policies := filter (\<lambda>p. pol_name p \<noteq> ''tenant_isolation'') (sec_policies (c t))\<rparr>
     else c t)"
proof -
  let ?f = "\<lambda>s. s\<lparr>sec_enabled := False, sec_policies := filter (\<lambda>p. pol_name p \<noteq> ''tenant_isolation'') (sec_policies s)\<rparr>"
  have one: "seqE (drop_policy_if_exists ''tenant_isolation'' t) (alter_table (\<lambda>s. s\<lparr>sec_enabled := False\<rparr>) t) c =
      (Inr (), c(t := ?f (c t)))" for t c
    by (cases "c t") (simp add: drop_policy_if_exists_def alter_table_def)
  have "for_each (\<lambda>t. seqE (drop_policy_if_exists ''tenant_isolation'' t) (alter_table (\<lambda>s. s\<lparr>sec_enabled := False\<rparr>) t)) ts c =
      (Inr (), \<lambda>t. if t \<in> set ts then ?f (c t) else c t)" if "distinct ts" for ts
    using that
  proof (induction ts arbitrary: c)
    case (Cons t ts)
    then show ?case by (auto simp: seqE_Inr [OF one] fun_eq_iff)
  qed (simp add: fun_eq_iff)
  then show ?thesis unfolding disable_rls_def using tenant_tables_distinct by blast
qed

lemma enable_then_disable:
  assumes "fresh_tables c" and "enable_rls c = (Inr (), c')" and "t \<in> set TENANT_TABLES"
  shows "snd (disable_rls c') t = (c t)\<lparr>sec_enabled := False, sec_forced := True\<rparr>"
proof -
  have "filter (\<lambda>p. pol_name p \<noteq> ''tenant_isolation'') (sec_policies (c t)) = sec_policies (c t)"
    using assms(1,3) by (force simp: fresh_tables_def intro: filter_True)
  then show ?thesis
    using assms by (cases "c t") (auto simp: enable_rls_result disable_all secured_def tenant_isolation_def)
qed

subsection \<open>What the application sees\<close>

definition bare :: row_security where
  "bare t = \<lparr>sec_enabled = False, sec_forced = False, sec_policies = []\<rparr>"

definition migrated :: row_security where
  "migrated = snd (enable_rls bare)"

lemma migrated_table: "t \<in> set TENANT_TABLES \<Longrightarrow> migrated t = secured (bare t)"
  by (simp add: migrated_def enable_rls_result fresh_tables_def bare_def)

lemma test_user:
  "row_test owner app_user setting (secured (bare t)) i = map_sum id (\<lambda>c. c = Some True) (is_current_tenant setting i)"
  by (simp add: row_test_def exempted_def secured_def bare_def tenant_isolation_def app_user_def is_current_tenant_def
      split: session_setting.split)

lemma visible_user [simp]: "row_test owner app_user setting (secured (bare t)) i = Inr True \<longleftrightarrow> setting = CurrentTenant i"
  by (auto simp: test_user is_current_tenant_def split: session_setting.split)

lemma visible_admin [simp]: "row_test owner app_admin setting s i = Inr True"
  by (simp add: row_test_def exempted_def app_admin_def)

text \<open>In a session whose tenant was cleared, a query of a table that has rows raises.\<close>

lemma select_cleared:
  assumes "t \<in> set TENANT_TABLES" and "rs \<noteq> []"
  shows "select_rows owner app_user Cleared (migrated t) rs = Inl not_a_uuid"
  using assms(2) by (cases rs) (simp_all add: migrated_table [OF assms(1)] test_user is_current_tenant_def)

lemma select_set:
  assumes "t \<in> set TENANT_TABLES" and "setting \<noteq> Cleared"
  shows "select_rows owner app_user setting (migrated t) rs = Inr (policed_rows owner app_user setting (migrated t) rs)"
  using assms(2)
  by (intro select_policed) (auto simp: migrated_table [OF assms(1)] test_user is_current_tenant_def split: session_setting.split)

lemmas migrated_tables =
  migrated_table [of "''carts_cart''"] migrated_table [of "''carts_cartitem''"] migrated_table [of "''carts_appliedcoupon''"]
  migrated_table [of "''catalog_product''"] migrated_table [of "''customers_customer''"] migrated_table [of "''customers_address''"]
  migrated_table [of "''coupons_coupon''"] migrated_table [of "''orders_order''"] migrated_table [of "''orders_orderitem''"]
  migrated_table [of "''orders_inventoryreservation''"] migrated_table [of "''orders_invoice''"]
  migrated_table [of "''payments_paymentgatewayconfig''"] migrated_table [of "''payments_paymentmethod''"]
  migrated_table [of "''payments_payment''"]

text \<open>Every tenant-scoped table is in the list: the application's role sees the rows of the tenant of the session.\<close>

lemma policed_user:
  "policed migrated owner app_user setting w =
     w\<lparr>db_carts := filter (\<lambda>r. setting = CurrentTenant (tenant_id r)) (db_carts w),
       db_cart_items := filter (\<lambda>r. setting = CurrentTenant (tenant_id r)) (db_cart_items w),
       db_applied_coupons := filter (\<lambda>r. setting = CurrentTenant (tenant_id r)) (db_applied_coupons w),
       db_products := filter (\<lambda>r. setting = CurrentTenant (tenant_id r)) (db_products w),
       db_customers := filter (\<lambda>r. setting = CurrentTenant (tenant_id r)) (db_customers w),
       db_addresses := filter (\<lambda>r. setting = CurrentTenant (tenant_id r)) (db_addresses w),
       db_coupons := filter (\<lambda>r. setting = CurrentTenant (tenant_id r)) (db_coupons w),
       db_orders := filter (\<lambda>r. setting = CurrentTenant (tenant_id r)) (db_orders w),
       db_order_items := filter (\<lambda>r. setting = CurrentTenant (tenant_id r)) (db_order_items w),
       db_reservations := filter (\<lambda>r. setting = CurrentTenant (tenant_id r)) (db_reservations w),
       db_invoices := filter (\<lambda>r. setting = CurrentTenant (tenant_id r)) (db_invoices w),
       db_gateway_configs := filter (\<lambda>r. setting = CurrentTenant (tenant_id r)) (db_gateway_configs w),
       db_payment_methods := filter (\<lambda>r. setting = CurrentTenant (tenant_id r)) (db_payment_methods w),
       db_payments := filter (\<lambda>r. setting = CurrentTenant (tenant_id r)) (db_payments w)\<rparr>"
  unfolding policed_def policed_rows_def by (simp add: migrated_tables TENANT_TABLES_def)

lemma policed_admin: "policed c owner app_admin setting w = w"
  by (simp add: policed_def policed_rows_def visible_admin)

text \<open>The policies leave all that the tenant sees, and a database whose constraints and foreign keys are in order.\<close>

lemma seen_policed: "seen t (policed migrated owner app_user (CurrentTenant t) w) = seen t w"
  by (simp add: seen_def policed_user tables_def filter_filter eq_commute [of t])

lemma schema_policed: "schema w \<Longrightarrow> schema (policed migrated owner app_user setting w)"
  by (simp add: policed_user schema_def customers.ok_filter addresses.ok_filter products.ok_filter coupons.ok_filter
      carts.ok_filter cart_items.ok_filter applied_coupons.ok_filter payment_methods.ok_filter gateway_configs.ok_filter
      orders.ok_filter order_items.ok_filter reservations.ok_filter payments.ok_filter invoices.ok_filter)

lemma names_own_visible:
  "names_own f rs ts \<Longrightarrow> names_own f (filter (\<lambda>r. setting = CurrentTenant (tenant_id r)) rs) (filter (\<lambda>r. setting = CurrentTenant (tenant_id r)) ts)"
  by (fastforce simp: names_own_def refs_iff)

lemma keys_policed: "keys_own w \<Longrightarrow> keys_own (policed migrated owner app_user setting w)"
  by (simp add: policed_user keys_own_def names_own_visible)

text \<open>So a read is answered under the policies as it is without them.\<close>

lemma policed_read:
  assumes "\<not> is_exempt (rq_http r) GLOBAL_EXEMPT_PATHS" and "schema w" and "keys_own w"
    and "t \<in> set (db_tenants w)" and "tenant_subdomain cfg (req_host (rq_http r)) = Some (ten_subdomain t)"
    and "\<And>V r. answers (ten_id t) V (view r)"
  shows "fst (served cfg view r (policed migrated owner app_user (CurrentTenant (ten_id t)) w)) = fst (served cfg view r w)"
  by (rule served_same [OF assms(1) schema_policed [OF assms(2)] keys_policed [OF assms(3)] assms(2,3) _ assms(5) seen_policed assms(6)])
    (simp add: assms(4) policed_user)

subsection \<open>The sweeps\<close>

text \<open>
  A task that sweeps over all tenants sets no tenant in its session. The role of the application then sees no
  reservation and no cart, so the sweeps do nothing, or their queries raise (\<open>select_cleared\<close>); they need the role that
  bypasses the policies.
\<close>

lemma no_batch:
  assumes "db_reservations w = []"
  shows "expire_batch now w = (Inr 0, commit w (enter_atomic w))"
  using assms by (simp add: expire_batch_def atomic_def atomic_with_def expired_rows_def enter_atomic_def)

lemma sweep_blind:
  assumes "atomic_depth w = 0" and "on_commit_hooks w = []"
  shows "release_expired_reservations (policed migrated owner app_user Unset w) =
      Some (Inr 0, policed migrated owner app_user Unset w)"
proof -
  have "commit u (enter_atomic u) = u" if "atomic_depth u = 0" "on_commit_hooks u = []" for u
    using that by (simp add: commit_def enter_atomic_def)
  then show ?thesis
    using assms by (simp add: release_expired_reservations_def expire_loop.simps no_batch policed_user)
qed

lemma abandon_blind:
  "abandon_stale_carts days (policed migrated owner app_user Unset w) = (Inr 0, policed migrated owner app_user Unset w)"
  by (simp add: abandon_stale_carts_def current_time_def policed_user update_rows_all_def update_where_def write_rows_def
      carts_tbl_def pk_ok_def upd_where_def)

end
