(* ===== verification/Spec2Isabelle.thy ===== *)
theory Spec2Isabelle
  imports Server Worker CartContents RowSecurity
begin

text \<open>
  A verification development for the multi-tenant storefront in \<^verbatim>\<open>src/apps\<close>, a Django and Celery program that sells
  products of many tenants from one database.

  \<^bold>\<open>The program.\<close> A request names its tenant by the host and its customer by a header. Storefront views work on the
  customer's cart and orders; the checkout is a saga of six phases (lock the cart, validate, reserve stock, write the
  order, authorize and capture the payment, convert the cart) with a compensation for each; a gateway may leave the
  payment pending, and then its webhook events settle the order, as a periodic sweep is meant to. Administrators, with tokens, work on one
  tenant's catalog, coupons, customers, orders and gateways, or on the tenants themselves. Workers make invoices and apply
  events; periodic tasks expire reservations, abandon carts and look for pending payments.

  \<^bold>\<open>How it is modelled.\<close> An action of the program is a function from a world to an exception or a value and the next
  world (\<open>act\<close>, in \<^verbatim>\<open>Prelude\<close>). The world (\<^verbatim>\<open>Database\<close>) holds every table as a list of rows, the sequences, the queue of tasks,
  the hooks of the open transaction, the tenant in context, the clock, the store of files and the log of calls to gateways.
  Exceptions are values of a data type with the source's classes; \<open>try_except\<close>, \<open>atomic\<close> (savepoints, rollback, hooks on commit)
  and \<open>tenant_context\<close> are combinators, so each view is written down in the order of its source. Integers of Python are
  integers, money is counted in hundredths, identifiers are numbers below \<open>16 ^ 32\<close>, times are microseconds.

  \<^bold>\<open>The theories\<close>, each with the files it models:
  \<^item> \<^verbatim>\<open>Prelude\<close> (the actions, a Hoare logic for them, lists of rows), \<^verbatim>\<open>Json\<close> (\<^verbatim>\<open>core/middleware/camel_case.py\<close>,
    \<^verbatim>\<open>_exempt_paths.py\<close>), \<^verbatim>\<open>Errors\<close> (\<^verbatim>\<open>core/exceptions\<close>, \<^verbatim>\<open>core/responses.py\<close>), \<^verbatim>\<open>Models\<close> (all \<^verbatim>\<open>models\<close>), \<^verbatim>\<open>Database\<close> (managers
    with tenant scope, constraints, transactions; the locales for tables and transactions, interpreted on every table).
  \<^item> \<^verbatim>\<open>Coupons\<close>, \<^verbatim>\<open>Carts\<close>, \<^verbatim>\<open>Gateways\<close>, \<^verbatim>\<open>Payments\<close>, \<^verbatim>\<open>Inventory\<close>, \<^verbatim>\<open>Checkout\<close>, \<^verbatim>\<open>PaymentTasks\<close>: the services and tasks of these apps,
    with the contract of a gateway as a locale that both adapters meet.
  \<^item> \<^verbatim>\<open>Requests\<close> (the middleware), \<^verbatim>\<open>Pagination\<close>, \<^verbatim>\<open>StoreViews\<close>, \<^verbatim>\<open>Invoices\<close>, \<^verbatim>\<open>Iam\<close>, \<^verbatim>\<open>PaymentViews\<close>, \<^verbatim>\<open>AdminOrders\<close>, \<^verbatim>\<open>Catalog\<close>,
    \<^verbatim>\<open>Customers\<close>, \<^verbatim>\<open>CouponViews\<close>: the views and serializers of each app.
  \<^item> \<^verbatim>\<open>System\<close> (the steps of an installation), \<^verbatim>\<open>Worker\<close> (\<^verbatim>\<open>config/celery.py\<close>, \<^verbatim>\<open>core/celery_helpers.py\<close>,
    \<^verbatim>\<open>core/request_context.py\<close>, \<^verbatim>\<open>core/logging_filters.py\<close>: queues, retries, the request in the log), \<^verbatim>\<open>Urls\<close>, \<^verbatim>\<open>Routing\<close>, \<^verbatim>\<open>Server\<close> (the URL tables, the audiences of the views, a request
    from its path to its answer).
  \<^item> \<^verbatim>\<open>Ledger\<close> (stock and constraints under every operation), \<^verbatim>\<open>Saga\<close> and \<^verbatim>\<open>Settlements\<close> (what a checkout, a cancellation and
    an event do in full), \<^verbatim>\<open>Sweeps\<close> (why the sweep of the pending payments settles nothing on PostgreSQL, and
    what it would achieve), \<^verbatim>\<open>CartContents\<close> (a cart as a map), \<^verbatim>\<open>Isolation\<close> and \<^verbatim>\<open>Slots\<close> (tenants apart), \<^verbatim>\<open>Links\<close> (foreign keys stay with
    their tenant), \<^verbatim>\<open>Readings\<close> (what a request reads), \<^verbatim>\<open>RowSecurity\<close> (\<^verbatim>\<open>core/migrations/0001_enable_rls.py\<close>, \<^verbatim>\<open>scripts/init-db.sql\<close>: the
    policies of the database and what its roles see), \<^verbatim>\<open>Examples\<close> (a shop to evaluate the program on).

  \<^bold>\<open>What is shown\<close>, below, in the order of importance: invariants of every state the system reaches (stock is what the active
  reservations hold, a cart names rows of its own tenant); tenants cannot touch each other, nor read each other,
  and the policies of the database change no answer; the checkout fulfils an order, a failed one leaves nothing behind, a replayed one changes nothing; expiry, cancellation and events
  settle what they should, the sweep of the pending payments settles nothing on PostgreSQL, and the queue of the worker drains; each
  exception has its answer, which keeps or takes back the writes before it; prices and discounts are bounded; only those get in who should; each view answers what its
  contract says; the paths lead to the views their prefixes protect, and a request with all its middleware is one step of the system.

  \<^bold>\<open>Bounds.\<close> There is no fuel. The loop of the expiry is a partial function, and ends because each round settles a
  reservation; the worker's retries are counted by the source's own limits, and its queue drains by an order on multisets
  of messages; every other loop is structural.

  \<^bold>\<open>Parameters.\<close> Code that is not in the repository is a parameter: the SDK of Stripe and the hash of the mock gateway, the
  paginator and its documented slices (\<open>pages_cut\<close>), the collation of the database, the parsing of identifiers and of
  bodies by the fields' declared types, whether the database locks the rows of an outer join (\<open>env_locks_outer_joins\<close>; PostgreSQL
  does not), the store of files, the drawing of the invoice, the keys of tokens, the sites of the framework.

  \<^bold>\<open>Not modelled.\<close> Row locks and the interleaving inside a request: a step runs to its end, as the locks of the source ask
  for, and the one lock that PostgreSQL refuses is an exception. The negotiation of the media type of an answer, before a view
  is run. Writes under the policies of row-level security; reads and the sweeps under them are. The values of settings, the schema
  of the documentation, the dashboard, the seeds and scripts, and the other migrations, whose constraints are in \<^verbatim>\<open>Database\<close>.
\<close>

subsection \<open>The system between requests\<close>

text \<open>
  C1: Stock. From every quiet state, whatever requests, webhooks, worker tasks and periodic tasks run, a product
  has as many units reserved as its active reservations hold, never fewer than none and never more than are in stock.
\<close>

theorem stock_backed:
  assumes "(step s)\<^sup>*\<^sup>* w0 w" and "idle w0" and "p \<in> set (db_products w)"
  shows "0 \<le> prod_reserved_quantity p \<and> prod_reserved_quantity p \<le> prod_stock_quantity p \<and>
    prod_reserved_quantity p = active_qty (db_reservations w) (row_id p)"
proof -
  have "ledger w" using steps_idle [OF assms(1,2)] by (simp add: idle_def sound_def)
  then show ?thesis using assms(3) ledger_bounds [of w p] by (simp add: ledger_def)
qed

theorem stock_backed_witness:
  "\<exists>w p. (step example_site)\<^sup>*\<^sup>* quiet_shop w \<and> p \<in> set (db_products w) \<and> prod_stock_quantity p = 3 \<and>
     0 \<le> prod_reserved_quantity p \<and> prod_reserved_quantity p \<le> prod_stock_quantity p \<and>
     prod_reserved_quantity p = active_qty (db_reservations w) (row_id p)"
proof -
  obtain w where st: "step example_site quiet_shop w" and q: "map prod_stock_quantity (db_products w) = [3]"
    by (rule shop_step)
  from q obtain p where p: "p \<in> set (db_products w)" "prod_stock_quantity p = 3" by (cases "db_products w") auto
  have r: "(step example_site)\<^sup>*\<^sup>* quiet_shop w" using st by simp
  show ?thesis by (intro exI [of _ w] exI [of _ p]) (use stock_backed [OF r quiet_idle p(1)] p r in simp)
qed

text \<open>
  C2: Tenant of the host. A request outside the exempt paths is answered in the context of the one active tenant whose
  subdomain the host names, or it is refused with an error and nothing has been read or written for any tenant; in
  both cases the context variable has its former value afterwards.
\<close>

theorem tenant_of_host:
  assumes "\<not> is_exempt (rq_http r) GLOBAL_EXEMPT_PATHS"
  shows "((\<exists>t. t \<in> set (db_tenants w) \<and> ten_is_active t \<and>
        tenant_subdomain cfg (req_host (rq_http r)) = Some (ten_subdomain t) \<and>
        tenant_resolver cfg h r w = tenant_context (Some (ten_id t)) (h (r\<lparr>rq_tenant := Some t\<rparr>)) w) \<or>
      (\<exists>code st. st \<in> {400, 404} \<and> tenant_resolver cfg h r w = (Inr (middleware_error code st (rq_id r)), w)) \<or>
      tenant_resolver cfg h r w = (Inl MultipleObjectsReturned, w)) \<and>
    tenant_ctx (snd (tenant_resolver cfg h r w)) = tenant_ctx w"
  using tenant_resolver_closed [OF assms] tenant_resolver_ctx [OF assms] by blast

theorem tenant_of_host_witness:
  "((\<exists>t. t \<in> set (db_tenants quiet_shop) \<and> ten_is_active t \<and>
        tenant_subdomain example_settings (req_host checkout_request) = Some (ten_subdomain t) \<and>
        tenant_resolver example_settings (\<lambda>r. ret no_content) (fresh_request checkout_request) quiet_shop =
          tenant_context (Some (ten_id t)) (ret no_content) quiet_shop) \<or>
      (\<exists>code st. st \<in> {400, 404} \<and> tenant_resolver example_settings (\<lambda>r. ret no_content)
          (fresh_request checkout_request) quiet_shop = (Inr (middleware_error code st []), quiet_shop)) \<or>
      tenant_resolver example_settings (\<lambda>r. ret no_content) (fresh_request checkout_request) quiet_shop =
        (Inl MultipleObjectsReturned, quiet_shop)) \<and>
    tenant_ctx (snd (tenant_resolver example_settings (\<lambda>r. ret no_content) (fresh_request checkout_request) quiet_shop)) =
      tenant_ctx quiet_shop"
  using tenant_of_host [of "fresh_request checkout_request" quiet_shop example_settings "\<lambda>r. ret no_content"]
  by (simp add: fresh_request_def checkout_request_def is_exempt_def GLOBAL_EXEMPT_PATHS_def startswith_def)

subsection \<open>Tenants\<close>

text \<open>The shop beside another tenant, who sells a product of the same kind.\<close>

definition neighbours :: world where
  "neighbours = quiet_shop\<lparr>
     db_tenants := db_tenants quiet_shop @ [\<lparr>ten_id = 2, ten_name = ''Other'', ten_subdomain = ''other'',
       ten_default_currency = ''USD'', ten_is_active = True, ten_created_at = 0, ten_updated_at = 0\<rparr>],
     db_products := db_products quiet_shop @ [shop_product\<lparr>row_id := 31, tenant_id := 2\<rparr>],
     db_carts := db_carts quiet_shop @ [shop_cart\<lparr>row_id := 61, tenant_id := 2, cart_customer := 11,
       cart_shipping_address := None, cart_billing_address := None, cart_selected_payment_method := None\<rparr>]\<rparr>"

lemma neighbours_idle: "idle neighbours"
  by (simp add: idle_def sound_def ledger_def schema_def neighbours_def quiet_shop_def shop_defs tbl_defs pk_ok_def
      product_ok_def is_active_cart_def active_qty_def)

lemma neighbours_slots: "slots_own neighbours"
  by (simp add: slots_own_def neighbours_def quiet_shop_def shop_defs)

lemma neighbours_sale:
  "\<exists>resp w. storefront example_settings (shop_view example_site (CheckoutPost [])) (fresh_request checkout_request)
       neighbours = (Inr resp, w) \<and> resp_status resp = 201 \<and> map prod_stock_quantity (db_products w) = [3, 5] \<and>
     map cart_shipping_address (db_carts w) = [Some 20, None]"
  by (simp add: neighbours_def run_requests run_checkout_view checkout_request_def run_defs shop_defs site_defs
      cong: eval_weak)

text \<open>
  C3: One tenant at a time. Whatever has happened before, a request to the storefront or to the administration of a
  tenant, for any endpoint and any body, is a request of the one active tenant that the host names: every row of
  every other tenant, the numbers of their orders and invoices, and the accounts of the platform stay as they are. Or
  there is no such tenant, and no table changes at all.
\<close>

theorem tenants_apart:
  assumes "(step s)\<^sup>*\<^sup>* w0 w" and "idle w0" and "slots_own w0" and "\<not> is_exempt req GLOBAL_EXEMPT_PATHS"
    and "storefront (site_settings s) (shop_view s call) (fresh_request req) w = (res, w') \<or>
      served (site_settings s) (tenant_admin_view (site_ttl s) (site_token s req) (admin_view s acall))
        (fresh_request req) w = (res, w')"
  shows "tables w' = tables w \<or>
    (\<exists>t \<in> set (db_tenants w). ten_is_active t \<and>
       tenant_subdomain (site_settings s) (req_host req) = Some (ten_subdomain t) \<and>
       elsewhere (ten_id t) w' = elsewhere (ten_id t) w)"
proof -
  have ex: "\<not> is_exempt (rq_http (fresh_request req)) GLOBAL_EXEMPT_PATHS" using assms(4) by (simp add: fresh_request_def)
  have s: "schema w" using steps_idle [OF assms(1,2)] by (simp add: idle_def sound_def)
  have o: "slots_own w" by (rule steps_slots [OF assms(1-3)])
  from assms(5) show ?thesis
  proof
    assume "storefront (site_settings s) (shop_view s call) (fresh_request req) w = (res, w')"
    from storefront_apart [OF ex s o this [unfolded storefront_def]] show ?thesis by (simp add: fresh_request_def)
  next
    assume "served (site_settings s) (tenant_admin_view (site_ttl s) (site_token s req) (admin_view s acall))
        (fresh_request req) w = (res, w')"
    from admin_apart [OF ex s this] show ?thesis by (simp add: fresh_request_def)
  qed
qed

theorem tenants_apart_witness:
  "\<exists>resp w t. storefront example_settings (shop_view example_site (CheckoutPost [])) (fresh_request checkout_request)
       neighbours = (Inr resp, w) \<and> resp_status resp = 201 \<and> map prod_stock_quantity (db_products w) = [3, 5] \<and>
     t \<in> set (db_tenants neighbours) \<and> tenant_subdomain example_settings (req_host checkout_request) = Some (ten_subdomain t) \<and>
     elsewhere (ten_id t) w = elsewhere (ten_id t) neighbours"
proof -
  obtain resp w where run: "storefront example_settings (shop_view example_site (CheckoutPost []))
      (fresh_request checkout_request) neighbours = (Inr resp, w)"
    and st: "resp_status resp = 201" and q: "map prod_stock_quantity (db_products w) = [3, 5]"
    using neighbours_sale by (elim exE conjE)
  have ex: "\<not> is_exempt checkout_request GLOBAL_EXEMPT_PATHS"
    by (simp add: is_exempt_def GLOBAL_EXEMPT_PATHS_def startswith_def checkout_request_def)
  have run': "storefront (site_settings example_site) (shop_view example_site (CheckoutPost []))
      (fresh_request checkout_request) neighbours = (Inr resp, w)"
    using run by (simp add: example_site_def)
  have "tables w \<noteq> tables neighbours"
  proof
    assume "tables w = tables neighbours"
    then have "db_products w = db_products neighbours" by (rule tables_db)
    then show False using q by (simp add: neighbours_def quiet_shop_def shop_defs)
  qed
  with tenants_apart [OF rtranclp.rtrancl_refl neighbours_idle neighbours_slots ex disjI1 [OF run']]
  obtain t where "t \<in> set (db_tenants neighbours)"
    "tenant_subdomain example_settings (req_host checkout_request) = Some (ten_subdomain t)"
    "elsewhere (ten_id t) w = elsewhere (ten_id t) neighbours"
    by (auto simp: example_site_def)
  with run st q show ?thesis by (intro exI [of _ resp] exI [of _ w] exI [of _ t]) simp
qed

text \<open>
  C4: What a cart names. Whatever happens, the addresses and the payment method in the slots of a cart exist and
  belong to the tenant of the cart, although the database only checks that they exist. So it is in every reachable
  state.
\<close>

theorem cart_names_own_rows:
  assumes "(step s)\<^sup>*\<^sup>* w0 w" and "idle w0" and "slots_own w0" and "c \<in> set (db_carts w)"
  shows "(\<forall>i. cart_shipping_address c = Some i \<or> cart_billing_address c = Some i \<longrightarrow>
      (\<exists>a \<in> set (db_addresses w). row_id a = i \<and> tenant_id a = tenant_id c)) \<and>
    (\<forall>i. cart_selected_payment_method c = Some i \<longrightarrow>
      (\<exists>m \<in> set (db_payment_methods w). row_id m = i \<and> tenant_id m = tenant_id c))"
  using steps_slots [OF assms(1-3)] assms(4) unfolding slots_own_def by blast

theorem cart_names_own_rows_witness:
  "\<exists>w c. (step example_site)\<^sup>*\<^sup>* neighbours w \<and> c \<in> set (db_carts w) \<and> cart_shipping_address c = Some 20 \<and>
     (\<exists>a \<in> set (db_addresses w). row_id a = 20 \<and> tenant_id a = tenant_id c)"
proof -
  obtain resp w where run: "storefront example_settings (shop_view example_site (CheckoutPost []))
      (fresh_request checkout_request) neighbours = (Inr resp, w)"
    and q: "map cart_shipping_address (db_carts w) = [Some 20, None]"
    using neighbours_sale by (elim exE conjE)
  have ex: "\<not> is_exempt checkout_request GLOBAL_EXEMPT_PATHS"
    by (simp add: is_exempt_def GLOBAL_EXEMPT_PATHS_def startswith_def checkout_request_def)
  have run': "storefront (site_settings example_site) (shop_view example_site (CheckoutPost []))
      (fresh_request checkout_request) neighbours = (Inr resp, w)"
    using run by (simp add: example_site_def)
  have st: "(step example_site)\<^sup>*\<^sup>* neighbours w" using step.shop [OF ex run'] by (rule r_into_rtranclp)
  obtain c where c: "c \<in> set (db_carts w)" "cart_shipping_address c = Some 20" using q by (cases "db_carts w") auto
  from cart_names_own_rows [OF st neighbours_idle neighbours_slots c(1)] c st
  show ?thesis by (intro exI [of _ w] exI [of _ c]) simp
qed

text \<open>
  C5: Reads of one tenant. What a storefront or an administration answers to a request that reads (a cart, an order, its
  invoice, products, addresses, payment methods, gateways, customers, coupons, configurations, and their lists)
  is a function of the rows of the tenant of the host and of what the platform shares: in two states in which that tenant
  sees the same, however they came about and whatever else differs, the answers are the same, errors included. Some of
  these views follow foreign keys with managers that are not scoped.
\<close>

theorem answers_from_own_rows:
  assumes "(step s)\<^sup>*\<^sup>* w0 w1" "idle w0" "keys_own w0" and "(step s)\<^sup>*\<^sup>* v0 w2" "idle v0" "keys_own v0"
    and "\<not> is_exempt req GLOBAL_EXEMPT_PATHS" and "t \<in> set (db_tenants w1)"
    and "tenant_subdomain (site_settings s) (req_host req) = Some (ten_subdomain t)"
    and "seen (ten_id t) w1 = seen (ten_id t) w2"
    and "shop_reads call \<and> view = customer_view (shop_view s call) \<or>
      admin_reads acall \<and> view = tenant_admin_view (site_ttl s) (site_token s req) (admin_view s acall)"
  shows "fst (served (site_settings s) view (fresh_request req) w1) = fst (served (site_settings s) view (fresh_request req) w2)"
proof -
  have "schema w1" "keys_own w1" "schema w2" "keys_own w2"
    using steps_idle [OF assms(1,2)] steps_keys [OF assms(1-3)] steps_idle [OF assms(4,5)] steps_keys [OF assms(4-6)]
    by (simp_all add: idle_def sound_def)
  from served_same [OF _ this assms(8) _ assms(10) read_view_answers [OF assms(11)]] assms(7,9)
  show ?thesis by (simp add: fresh_request_def)
qed

lemma neighbours_keys: "keys_own neighbours"
  by (simp add: keys_own_def names_own_def refs_iff neighbours_def quiet_shop_def shop_defs)

text \<open>The neighbour gone.\<close>

definition alone :: world where
  "alone = policed migrated ''postgres'' app_user (CurrentTenant 1) neighbours"

lemma alone_idle: "idle alone"
  by (simp add: alone_def policed_user idle_def sound_def ledger_def schema_def neighbours_def quiet_shop_def shop_defs tbl_defs
      pk_ok_def product_ok_def is_active_cart_def active_qty_def)

lemma alone_keys: "keys_own alone"
  unfolding alone_def by (rule keys_policed [OF neighbours_keys])

definition acme :: tenant where
  "acme = hd (db_tenants neighbours)"

lemma acme_host:
  "acme \<in> set (db_tenants neighbours)" "tenant_subdomain example_settings (req_host checkout_request) = Some (ten_subdomain acme)"
  "ten_id acme = 1" "\<not> is_exempt checkout_request GLOBAL_EXEMPT_PATHS"
  by (simp_all add: acme_def neighbours_def quiet_shop_def shop_defs site_defs checkout_request_def is_exempt_def
      GLOBAL_EXEMPT_PATHS_def startswith_def tenant_subdomain_def run_requests run_defs)

lemma cart_shown:
  "\<exists>resp. fst (served example_settings (customer_view (shop_view example_site CartGet)) (fresh_request checkout_request) neighbours) =
     Inr resp \<and> resp_status resp = 200"
  by (simp add: neighbours_def run_requests run_checkout_view checkout_request_def run_defs shop_defs site_defs
      cart_detail_get_def cart_answer_def get_cart_def cart_response_def storefront_def cong: eval_weak)

lemma acme_cart_view:
  "shop_reads CartGet \<and> customer_view (shop_view example_site CartGet) = customer_view (shop_view example_site CartGet) \<or>
    admin_reads ConfigList \<and> customer_view (shop_view example_site CartGet) =
      tenant_admin_view (site_ttl example_site) (site_token example_site checkout_request) (admin_view example_site ConfigList)"
  by (simp add: shop_reads_def)

theorem answers_from_own_rows_witness:
  "\<exists>resp. fst (served example_settings (customer_view (shop_view example_site CartGet)) (fresh_request checkout_request) neighbours) =
      Inr resp \<and> resp_status resp = 200 \<and>
    fst (served example_settings (customer_view (shop_view example_site CartGet)) (fresh_request checkout_request) alone) = Inr resp \<and>
    length (db_carts neighbours) = 2 \<and> length (db_carts alone) = 1"
proof -
  obtain resp where r: "fst (served example_settings (customer_view (shop_view example_site CartGet)) (fresh_request checkout_request)
      neighbours) = Inr resp" "resp_status resp = 200"
    using cart_shown by (elim exE conjE)
  have site: "site_settings example_site = example_settings" by (simp add: example_site_def)
  have same: "seen (ten_id acme) neighbours = seen (ten_id acme) alone" by (simp add: alone_def acme_host seen_policed)
  have "fst (served example_settings (customer_view (shop_view example_site CartGet)) (fresh_request checkout_request) neighbours) =
      fst (served example_settings (customer_view (shop_view example_site CartGet)) (fresh_request checkout_request) alone)"
    using answers_from_own_rows [OF rtranclp.rtrancl_refl neighbours_idle neighbours_keys rtranclp.rtrancl_refl alone_idle alone_keys
      acme_host(4,1) acme_host(2) [folded site] same acme_cart_view] by (simp only: site)
  moreover have "length (db_carts neighbours) = 2" "length (db_carts alone) = 1"
    by (simp_all add: alone_def policed_user neighbours_def quiet_shop_def shop_defs)
  ultimately show ?thesis using r by (intro exI [of _ resp]) simp
qed

text \<open>
  C6: Row-level security. The migration succeeds on tables without policies and covers every table that the models scope to a
  tenant. From then on the role of the application sees, in a session with a tenant, what the managers look at: each read
  is answered under the policies as it is without them, errors included. In a session that never had a tenant it sees no row of any tenant. To the
  role of the administration everything is visible.
\<close>

theorem policies_change_no_answer:
  assumes "(step s)\<^sup>*\<^sup>* w0 w" "idle w0" "keys_own w0" and "enable_rls bare = (res, sec)"
    and "\<not> is_exempt req GLOBAL_EXEMPT_PATHS" and "t \<in> set (db_tenants w)"
    and "tenant_subdomain (site_settings s) (req_host req) = Some (ten_subdomain t)"
    and "shop_reads call \<and> view = customer_view (shop_view s call) \<or>
      admin_reads acall \<and> view = tenant_admin_view (site_ttl s) (site_token s req) (admin_view s acall)"
  shows "res = Inr () \<and>
    fst (served (site_settings s) view (fresh_request req) (policed sec owner app_user (CurrentTenant (ten_id t)) w)) =
      fst (served (site_settings s) view (fresh_request req) w) \<and>
    seen i (policed sec owner app_user Unset w) = seen i (w\<lparr>db_carts := [], db_cart_items := [], db_applied_coupons := [],
      db_products := [], db_customers := [], db_addresses := [], db_coupons := [], db_orders := [], db_order_items := [],
      db_reservations := [], db_invoices := [], db_gateway_configs := [], db_payment_methods := [], db_payments := []\<rparr>) \<and>
    policed sec owner app_admin setting w = w"
proof -
  have sec: "sec = migrated" "res = Inr ()"
    using assms(4) by (simp_all add: migrated_def enable_rls_result fresh_tables_def bare_def)
  have "schema w" "keys_own w"
    using steps_idle [OF assms(1,2)] steps_keys [OF assms(1-3)] by (simp_all add: idle_def sound_def)
  from policed_read [OF _ this assms(6) _ read_view_answers [OF assms(8)]] assms(5,7)
  have "fst (served (site_settings s) view (fresh_request req) (policed migrated owner app_user (CurrentTenant (ten_id t)) w)) =
      fst (served (site_settings s) view (fresh_request req) w)"
    by (simp add: fresh_request_def)
  then show ?thesis by (simp add: sec policed_admin policed_user)
qed

theorem policies_change_no_answer_witness:
  "\<exists>sec resp. enable_rls bare = (Inr (), sec) \<and>
    fst (served example_settings (customer_view (shop_view example_site CartGet)) (fresh_request checkout_request)
      (policed sec ''postgres'' app_user (CurrentTenant 1) neighbours)) = Inr resp \<and> resp_status resp = 200"
proof -
  have run: "enable_rls bare = (Inr (), migrated)"
    by (simp add: migrated_def enable_rls_result fresh_tables_def bare_def)
  obtain resp where r: "fst (served example_settings (customer_view (shop_view example_site CartGet)) (fresh_request checkout_request)
      neighbours) = Inr resp" "resp_status resp = 200"
    using cart_shown by (elim exE conjE)
  have site: "site_settings example_site = example_settings" by (simp add: example_site_def)
  from policies_change_no_answer [OF rtranclp.rtrancl_refl neighbours_idle neighbours_keys run acme_host(4,1)
      acme_host(2) [folded site] acme_cart_view, where owner = "''postgres''"] r run
  show ?thesis by (intro exI [of _ migrated] exI [of _ resp]) (simp add: site acme_host)
qed




subsection \<open>Checkout\<close>

text \<open>
  C8: A checkout sells once what the cart holds. When a new key is checked out and the answer is a captured or an
  invoiced payment, the stock of exactly the products of the cart has gone down by their quantities, their
  reservations are committed and belong to the new order, the cart is converted, nothing else of the stock, the
  reservations, the carts and the orders has changed, and the order is paid or, when it is invoiced, pending.
\<close>

theorem checkout_fulfils:
  assumes "inv t {} w" and "\<forall>od \<in> set (objects orders_tbl w). ord_idempotency_key od \<noteq> key"
    and "checkout e customer key expected extra w = (Inr r, w')"
    and "cr_payment_status r \<in> {''captured'', ''invoice_pending''}"
  shows "\<exists>v. active_view customer w v \<and> fulfilled w v (cr_order r) w' \<and>
    ord_status (cr_order r) = (if cr_payment_status r = ''captured'' then OrderPaid else OrderPending)"
proof -
  have "get_where (\<lambda>od. ord_idempotency_key od = key) (objects orders_tbl w) = NoRow"
    using assms(2) by (simp add: get_where_NoRow_iff)
  then have "find_existing_checkout key w = (Inr None, w)" by (simp add: find_existing_checkout_def)
  then have "run_saga e customer key expected extra w = (Inr r, w')"
    using assms(3) by (simp add: checkout_def bindE_def)
  moreover have "tbl_ok carts_tbl (db_carts w)" using inv_schema [OF assms(1)] by (simp add: schema_def)
  ultimately show ?thesis using run_saga_fulfils assms(1,4) by blast
qed

theorem checkout_fulfils_witness:
  "\<exists>r w'. checkout mock_env 10 ''k'' None [] shop = (Inr r, w') \<and> cr_payment_status r = ''captured'' \<and>
     (\<exists>v. active_view 10 shop v \<and> fulfilled shop v (cr_order r) w' \<and> ord_status (cr_order r) = OrderPaid)"
proof -
  have "\<exists>r w'. checkout mock_env 10 ''k'' None [] shop = (Inr r, w') \<and> cr_payment_status r = ''captured''"
    by (simp add: checkout_def find_existing_checkout_def run_defs shop_defs cong: eval_weak)
  then obtain r w' where run: "checkout mock_env 10 ''k'' None [] shop = (Inr r, w')"
    and st: "cr_payment_status r = ''captured''"
    by (elim exE conjE)
  have new: "\<forall>od \<in> set (objects orders_tbl shop). ord_idempotency_key od \<noteq> ''k''"
    by (simp add: objects_def orders_tbl_def shop_defs)
  show ?thesis
    by (intro exI [of _ r] exI [of _ w']) (use checkout_fulfils [OF shop_inv new run] run st in simp)
qed

text \<open>
  C9: Replay. A checkout with the key of an order of the tenant answers with that order and the status of its latest
  payment; it changes nothing, calls no gateway and looks at no cart.
\<close>

theorem checkout_replayed:
  assumes "schema w" and "od \<in> set (db_orders w)" and "tenant_ctx w = Some (tenant_id od)"
  shows "checkout e customer (ord_idempotency_key od) expected extra w =
    (Inr (result_of_order od (first_by (\<lambda>p. - created_at p)
       (filter (\<lambda>p. pay_order p = row_id od) (objects payments_tbl w)))), w)"
  using replay assms by (simp add: schema_def)

theorem checkout_replayed_witness:
  "\<exists>od w. od \<in> set (db_orders w) \<and> ord_status od = OrderPaid \<and>
     checkout mock_env 99 (ord_idempotency_key od) (Some 7) [] w =
     (Inr (result_of_order od (first_by (\<lambda>p. - created_at p)
        (filter (\<lambda>p. pay_order p = row_id od) (objects payments_tbl w)))), w)"
proof -
  have "\<exists>r w. run_saga mock_env 10 ''k'' None [] shop = (Inr r, w) \<and> map ord_status (db_orders w) = [OrderPaid] \<and>
      map tenant_id (db_orders w) = [1] \<and> tenant_ctx w = Some 1"
    by (simp add: run_defs shop_defs cong: eval_weak)
  then obtain r w where run: "run_saga mock_env 10 ''k'' None [] shop = (Inr r, w)"
    and os: "map ord_status (db_orders w) = [OrderPaid]" "map tenant_id (db_orders w) = [1]" and ctx: "tenant_ctx w = Some 1"
    by (elim exE conjE)
  from os obtain od where od: "db_orders w = [od]" "ord_status od = OrderPaid" "tenant_id od = 1"
    by (cases "db_orders w") auto
  have "inv 1 {} w" using run_saga_inv shop_inv run by (rule preservesD)
  then have "schema w" by (rule inv_schema)
  then show ?thesis
    by (intro exI [of _ od] exI [of _ w]) (use checkout_replayed [of w od mock_env 99 "Some 7" "[]"] od ctx in simp)
qed

text \<open>
  C10: A checkout that fails before payment is undone. When locking, validating, reserving or ordering raises, every
  table is as before, the stock and the uses of coupons included, except that released reservations have been added
  and the cart, active again, carries a newer time.
\<close>

theorem failed_preparation_undone:
  assumes "inv t {} w" and "prepare_order customer key expected w = (Inl e, w')"
  shows "undone w w'"
  using prepare_order_undone [OF assms(1) _ assms(2)] inv_schema [OF assms(1)] by (simp add: schema_def)

definition scarce_shop :: world where
  "scarce_shop = shop\<lparr>db_products := [shop_product\<lparr>prod_stock_quantity := 1\<rparr>]\<rparr>"

theorem failed_preparation_undone_witness:
  "\<exists>w'. prepare_order 10 ''k'' (Some 1) scarce_shop = (Inl (InsufficientStockItems [(30, 1, 2)]), w') \<and> undone scarce_shop w'"
proof -
  have run: "\<exists>w'. prepare_order 10 ''k'' (Some 1) scarce_shop = (Inl (InsufficientStockItems [(30, 1, 2)]), w')"
    by (simp add: run_defs shop_defs scarce_shop_def or_compensate_def revert_cart_to_active_def cong: eval_weak)
  have "inv 1 {} scarce_shop"
    by (simp add: inv_def ledger_def owned_def schema_def scarce_shop_def shop_defs tbl_defs pk_ok_def product_ok_def
        is_active_cart_def active_qty_def)
  with run show ?thesis using failed_preparation_undone by blast
qed

text \<open>
  C11: A declined payment is compensated. When the authorization raises \<open>PaymentFailed\<close>, the stock is as it was
  before the checkout, the new order is there but cancelled, the reservations made for it are released and every
  cart is as before but for a time stamp; the exception goes on to the client.
\<close>

theorem declined_payment_compensated:
  assumes "inv t {} w" and "prepare_order customer key expected w = (Inr (v, rs, od), w1)"
    and "phase_authorize e v rs od pm cust key' extra w1 = (Inl x, w')" and "is_payment_failed x"
  shows "db_products w' = db_products w \<and>
    (\<exists>now. db_orders w' = cancelled_rows (row_id od) now (db_orders w @ [od])) \<and>
    (\<exists>i now. db_carts w' = touch_rows i now (db_carts w)) \<and>
    (\<exists>now. db_reservations w' = db_reservations w @ map (set_res_status ResReleased now) rs)"
proof -
  have "tbl_ok carts_tbl (db_carts w)" using inv_schema [OF assms(1)] by (simp add: schema_def)
  from declined_compensated [OF assms(1) this assms(2-4)] show ?thesis by blast
qed

definition declining_env :: env where
  "declining_env = mock_env\<lparr>env_registry := [(''mock'', (mock_gateway (\<lambda>_. ''event''))\<lparr>gw_authorize :=
     (\<lambda>n cr amount currency token key m. Inl (PaymentFailed (Some ''card_declined'') None))\<rparr>)]\<rparr>"

theorem declined_payment_compensated_witness:
  "\<exists>v rs od w1 x w'. prepare_order 10 ''k'' None shop = (Inr (v, rs, od), w1) \<and>
     phase_authorize declining_env v rs od shop_card shop_customer ''k'' [] w1 = (Inl x, w') \<and>
     db_products w' = db_products shop \<and>
     (\<exists>now. db_orders w' = cancelled_rows (row_id od) now (db_orders shop @ [od])) \<and>
     (\<exists>i now. db_carts w' = touch_rows i now (db_carts shop)) \<and>
     (\<exists>now. db_reservations w' = db_reservations shop @ map (set_res_status ResReleased now) rs)"
proof -
  have "\<exists>v rs od w1 x w'. prepare_order 10 ''k'' None shop = (Inr (v, rs, od), w1) \<and>
     phase_authorize declining_env v rs od shop_card shop_customer ''k'' [] w1 = (Inl x, w') \<and> is_payment_failed x"
    by (simp add: run_defs shop_defs declining_env_def is_payment_failed_def compensate_order_def cancel_order_row_def
        release_reservations_def revert_cart_to_active_def record_payment_error_def cong: eval_weak)
  then obtain v rs od w1 x w' where run: "prepare_order 10 ''k'' None shop = (Inr (v, rs, od), w1)"
    "phase_authorize declining_env v rs od shop_card shop_customer ''k'' [] w1 = (Inl x, w')" and x: "is_payment_failed x"
    by (elim exE conjE)
  show ?thesis
    by (intro exI [of _ v] exI [of _ rs] exI [of _ od] exI [of _ w1] exI [of _ x] exI [of _ w'])
      (use declined_payment_compensated [OF shop_inv run x] run in simp)
qed

text \<open>
  C12: Only \<open>PaymentFailed\<close> is compensated. After any other exception of the authorization (an unsupported currency,
  an unknown gateway) the phases before it stand: the cart is in checkout, the stock is held by active reservations and
  the order is pending. The saga does not take them back. Over HTTP the transaction of the request does so when the exception is left
  unanswered; an unsupported currency is a domain error, which is answered with status 409, and then they are committed
  (\<open>errors_answered\<close> and its example).
\<close>

theorem other_exception_not_compensated:
  assumes "inv t {} w" and "prepare_order customer key expected w = (Inr (v, rs, od), w1)"
    and "phase_authorize e v rs od pm cust key' extra w1 = (Inl x, w')" and "\<not> is_payment_failed x"
  shows "(\<exists>now. db_carts w' = lock_rows (row_id (cv_cart v)) now (db_carts w)) \<and>
    db_reservations w' = db_reservations w @ rs \<and> (\<forall>r \<in> set rs. res_status r = ResActive) \<and>
    db_orders w' = db_orders w @ [od] \<and> ord_status od = OrderPending"
proof -
  have "tbl_ok carts_tbl (db_carts w)" using inv_schema [OF assms(1)] by (simp add: schema_def)
  from uncaught_not_compensated [OF assms(1) this assms(2-4)] show ?thesis by blast
qed

theorem other_exception_not_compensated_witness:
  "\<exists>v rs od w1 x w'. prepare_order 10 ''k'' None shop = (Inr (v, rs, od), w1) \<and>
     phase_authorize (mock_env\<lparr>env_registry := []\<rparr>) v rs od shop_card shop_customer ''k'' [] w1 = (Inl x, w') \<and>
     (\<exists>now. db_carts w' = lock_rows (row_id (cv_cart v)) now (db_carts shop)) \<and>
     db_reservations w' = db_reservations shop @ rs \<and> (\<forall>r \<in> set rs. res_status r = ResActive) \<and>
     db_orders w' = db_orders shop @ [od] \<and> ord_status od = OrderPending"
proof -
  have "\<exists>v rs od w1 x w'. prepare_order 10 ''k'' None shop = (Inr (v, rs, od), w1) \<and>
     phase_authorize (mock_env\<lparr>env_registry := []\<rparr>) v rs od shop_card shop_customer ''k'' [] w1 = (Inl x, w') \<and>
     \<not> is_payment_failed x"
    by (simp add: run_defs shop_defs is_payment_failed_def cong: eval_weak)
  then obtain v rs od w1 x w' where run: "prepare_order 10 ''k'' None shop = (Inr (v, rs, od), w1)"
    "phase_authorize (mock_env\<lparr>env_registry := []\<rparr>) v rs od shop_card shop_customer ''k'' [] w1 = (Inl x, w')"
    and x: "\<not> is_payment_failed x"
    by (elim exE conjE)
  show ?thesis
    by (intro exI [of _ v] exI [of _ rs] exI [of _ od] exI [of _ w1] exI [of _ x] exI [of _ w'])
      (use other_exception_not_compensated [OF shop_inv run x] run in simp)
qed

subsection \<open>Stock that is held\<close>

text \<open>
  C13: Expiry. The task that releases expired reservations ends from every state in which the ledger holds, and the
  ledger holds afterwards. When no cart it puts back would be a second active cart of its customer, it ends without an
  exception, and then no expired reservation is left and the result is their number.
\<close>

theorem expiry_ends:
  assumes "ledger w"
  shows "\<exists>r w'. release_expired_reservations w = Some (r, w') \<and> ledger w' \<and>
    (case r of Inl _ \<Rightarrow> \<not> revertible (res_cart ` set (expired_rows (clock w) w)) w
     | Inr n \<Rightarrow> expired_rows (clock w) w' = [] \<and> n = length (expired_rows (clock w) w))"
proof -
  obtain r w' where "expire_loop (clock w) 0 w = Some (r, w')" "ledger w'"
    "case r of Inl e \<Rightarrow> True | Inr n \<Rightarrow> expired_rows (clock w) w' = [] \<and> n = 0 + length (expired_rows (clock w) w)"
    "revertible (res_cart ` set (expired_rows (clock w) w)) w \<longrightarrow> (\<exists>n. r = Inr n)"
    using expire_loop_total [OF assms, of "clock w" 0] by blast
  then show ?thesis
    by (intro exI [of _ r] exI [of _ w']) (auto simp: release_expired_reservations_def split: sum.splits)
qed

definition expired_shop :: world where
  "expired_shop = shop\<lparr>db_products := [shop_product\<lparr>prod_reserved_quantity := 2\<rparr>],
     db_carts := [shop_cart\<lparr>cart_status := CartCheckingOut\<rparr>],
     db_reservations := [\<lparr>row_id = 95, tenant_id = 1, created_at = 0, updated_at = 0, res_cart = 60, res_order = None,
       res_product = 30, res_quantity = 2, res_expires_at = 50, res_status = ResActive\<rparr>]\<rparr>"

theorem expiry_ends_witness:
  "\<exists>w'. release_expired_reservations expired_shop = Some (Inr 1, w') \<and> ledger w' \<and> expired_rows 100 w' = []"
proof -
  have l: "ledger expired_shop"
    by (simp add: ledger_def expired_shop_def shop_defs tbl_defs pk_ok_def product_ok_def active_qty_def backed_def
        holds_stock_def)
  have now: "clock expired_shop = 100" by (simp add: expired_shop_def shop_defs)
  have x: "expired_rows 100 expired_shop = db_reservations expired_shop"
    by (simp add: expired_rows_def is_expired_def expired_shop_def shop_defs)
  have "revertible ids expired_shop" for ids
    by (simp add: revertible_def revert_carts_def upd_where_def expired_shop_def shop_defs carts_ok tbl_defs pk_ok_def
        is_active_cart_def)
  moreover have "length (db_reservations expired_shop) = 1" by (simp add: expired_shop_def)
  moreover obtain r w' where "release_expired_reservations expired_shop = Some (r, w')" "ledger w'"
    "case r of Inl _ \<Rightarrow> \<not> revertible (res_cart ` set (expired_rows 100 expired_shop)) expired_shop
     | Inr n \<Rightarrow> expired_rows 100 w' = [] \<and> n = length (expired_rows 100 expired_shop)"
    using expiry_ends [OF l] unfolding now by (elim exE conjE)
  ultimately show ?thesis using x by (cases r) auto
qed

subsection \<open>Prices\<close>

text \<open>
  C14: Coupons. A coupon is accepted for a cart exactly when it is active, in its period, below its usage limit, in
  the currency of the cart (for a fixed amount), reached by the subtotal, and open to the country and the type of the
  customer; otherwise the answer is a domain error with status 409 or 410.
\<close>

theorem coupon_accepted:
  "case validate c now subtotal currency country ctype of
     Inr _ \<Rightarrow> coupon_applicable c now subtotal currency country ctype
   | Inl e \<Rightarrow> \<not> coupon_applicable c now subtotal currency country ctype \<and>
       is_domain_error e \<and> exn_http_status e \<in> {409, 410}"
  using validate_Inr_iff [of c now subtotal currency country ctype]
    validate_ok_or_domain [of c now subtotal currency country ctype]
  by (auto split: sum.split)

text \<open>
  C15: Discounts. A well-formed coupon takes off a non-negative amount of at most the subtotal: a fixed coupon its
  value as far as the subtotal goes, a percentage the exact share rounded to the nearest cent.
\<close>

theorem discount_bounds:
  assumes "coupon_wf c" and "0 \<le> subtotal"
  shows "0 \<le> compute_discount c subtotal \<and> compute_discount c subtotal \<le> subtotal \<and>
    (if coup_discount_type c = FIXED then compute_discount c subtotal = min (coup_discount_value c) subtotal
     else \<bar>10000 * compute_discount c subtotal - subtotal * coup_discount_value c\<bar> \<le> 5000)"
proof (cases "coup_discount_type c")
  case FIXED
  then show ?thesis
    using assms compute_discount_nonneg [of subtotal c] compute_discount_le [of subtotal c] compute_discount_fixed [of c subtotal]
    by (simp add: coupon_wf_def)
next
  case PERCENTAGE
  then show ?thesis
    using assms compute_discount_nonneg [of subtotal c] compute_discount_le [of subtotal c]
      compute_discount_percentage [of c subtotal]
    by (simp add: coupon_wf_def)
qed

definition third_off :: coupon where
  "third_off = \<lparr>row_id = 80, tenant_id = 1, created_at = 0, updated_at = 0, coup_code = ''THIRD'',
     coup_discount_type = PERCENTAGE, coup_discount_value = 3333, coup_currency = '''', coup_min_cart_subtotal = None,
     coup_allowed_countries = [], coup_customer_type_restriction = ANY, coup_max_uses = None, coup_uses_count = 0,
     coup_valid_from = None, coup_valid_until = None, coup_is_active = True\<rparr>"

theorem discount_bounds_witness:
  "coupon_wf third_off \<and> 0 \<le> compute_discount third_off 999 \<and> compute_discount third_off 999 \<le> 999 \<and>
     \<bar>10000 * compute_discount third_off 999 - 999 * 3333\<bar> \<le> 5000"
proof -
  have wf: "coupon_wf third_off" by (simp add: coupon_wf_def third_off_def)
  show ?thesis using discount_bounds [OF wf, of 999] wf by (simp add: third_off_def)
qed

subsection \<open>Names of keys, errors and answers\<close>



text \<open>The codes of the errors in an answer.\<close>

definition error_code :: "json \<Rightarrow> json" where
  "error_code e = (case e of JObj kvs \<Rightarrow> (case map_of kvs ''code'' of None \<Rightarrow> JNull | Some c \<Rightarrow> c) | _ \<Rightarrow> JNull)"

definition error_codes :: "http_response \<Rightarrow> json list" where
  "error_codes resp =
     (case resp_body resp of
        JsonBody (JObj kvs) \<Rightarrow> (case map_of kvs ''errors'' of Some (JList es) \<Rightarrow> map error_code es | _ \<Rightarrow> [])
      | _ \<Rightarrow> [])"

lemma code_kept: "map_of (clean_error e) ''code'' = map_of e ''code''"
proof -
  have "map_of (filter (\<lambda>(k, v). k \<noteq> ''source'') kvs) ''code'' = map_of kvs ''code''" for kvs :: dict
    by (induction kvs) auto
  then show ?thesis by (simp add: clean_error_def)
qed

lemma codes_of_envelope:
  "error_codes (json_response st hs (error_envelope (map Some es) rid)) = map (\<lambda>e. error_code (JObj e)) es"
proof -
  have "List.map_filter id (map Some es) = es" by (induction es) (simp_all add: map_filter_simps)
  then show ?thesis by (simp add: error_codes_def json_response_def error_envelope_def error_code_def code_kept)
qed

lemma codes_of_leaves: "map (\<lambda>e. error_code (JObj e)) (flatten_validation_error j p) = replicate (length (json_leaves j)) (JStr ''validation_error'')"
proof -
  have "\<forall>e \<in> set (flatten_validation_error j p). error_code (JObj e) = JStr ''validation_error''"
    by (induction j p rule: flatten_validation_error.induct) (auto simp: error_code_def leaf_error_def)
  then have "map (\<lambda>e. error_code (JObj e)) (flatten_validation_error j p) =
      map (\<lambda>_. JStr ''validation_error'') (flatten_validation_error j p)"
    by (intro map_cong refl) simp
  then show ?thesis by (simp add: map_replicate_const length_flatten)
qed

lemma code_of_domain_error: "error_code (JObj (exn_to_dict e)) = JStr (exn_code e)"
  by (simp add: error_code_def exn_to_dict_def)

text \<open>
  C17: Errors. Whatever a view raises, the request is answered. A domain error is answered with the status and code of its
  class, a validation error with 422 and one error for each message, missing or wrong credentials with 401, a refused permission
  with 403, throttling with 429 and the time to wait, what the framework answers itself (an object that is not there, a method, a media type
  or a body it refuses) with its status and the code \<open>error\<close>, and everything else with 500. The writes the view had made
  before it raised are kept in the first five cases, and taken back in the last two.
\<close>

theorem errors_answered:
  assumes "view r (enter_atomic w) = (Inl e, w1)"
  shows "\<exists>resp w'. atomic_request view r w = (Inr resp, w') \<and>
    (case e of
       ValidationError d \<Rightarrow> resp_status resp = 422 \<and>
         error_codes resp = replicate (length (json_leaves d)) (JStr ''validation_error'') \<and> tables w' = tables w1
     | NotAuthenticated _ \<Rightarrow> resp_status resp = 401 \<and> error_codes resp = [JStr ''unauthorized''] \<and> tables w' = tables w1
     | AuthenticationFailed _ \<Rightarrow> resp_status resp = 401 \<and> error_codes resp = [JStr ''unauthorized''] \<and> tables w' = tables w1
     | PermissionDenied _ \<Rightarrow> resp_status resp = 403 \<and> error_codes resp = [JStr ''forbidden''] \<and> tables w' = tables w1
     | Throttled wait \<Rightarrow> resp_status resp = 429 \<and> error_codes resp = [JStr ''rate_limited''] \<and>
         map_of (resp_headers resp) ''Retry-After'' = map_option show_int wait \<and> tables w' = tables w1
     | Http404 _ \<Rightarrow> resp_status resp = 404 \<and> error_codes resp = [JStr ''error''] \<and> tables w' = tables w
     | ApiException st _ \<Rightarrow> resp_status resp = st \<and> error_codes resp = [JStr ''error''] \<and> tables w' = tables w
     | _ \<Rightarrow>
         if is_domain_error e
         then resp_status resp = exn_http_status e \<and> exn_http_status e \<in> {400, 401, 402, 403, 404, 409, 410, 500} \<and>
           error_codes resp = [JStr (exn_code e)] \<and> tables w' = tables w1
         else resp = server_error \<and> tables w' = tables w)"
proof -
  let ?h = "custom_exception_handler e (rq_id r)"
  obtain w' where run: "atomic_request view r w = (Inr (case ?h of Some resp \<Rightarrow> resp | None \<Rightarrow> server_error), w')"
    and kept: "tables w' = (if ?h \<noteq> None \<and> \<not> sets_rollback e then tables w1 else tables w)"
    by (rule request_raised [of view r w, OF assms])
  note one = codes_of_envelope [of _ _ "[x]" for x, simplified]
  show ?thesis
  proof (cases "is_domain_error e")
    case True
    then have h: "?h = Some (json_response (exn_http_status e) [] (error_envelope [Some (exn_to_dict e)] (rq_id r)))"
      by (rule handler_domain)
    have "\<not> sets_rollback e" using True by (cases e) (simp_all add: sets_rollback_def)
    with run kept h show ?thesis
      using True domain_status_range [OF True] one [of _ _ "exn_to_dict e" "rq_id r"]
      by (intro exI [of _ "json_response (exn_http_status e) [] (error_envelope [Some (exn_to_dict e)] (rq_id r))"] exI [of _ w'])
        (cases e; simp add: json_response_def code_of_domain_error)
  next
    case False
    with run kept show ?thesis
      by (intro exI [of _ "case ?h of Some resp \<Rightarrow> resp | None \<Rightarrow> server_error"] exI [of _ w'])
        (cases e; simp add: custom_exception_handler_def sets_rollback_def one codes_of_envelope codes_of_leaves;
          simp add: error_code_def json_response_def split: option.split)
  qed
qed

text \<open>
  A gateway that does not take the currency of the cart: the checkout is answered with 409, and its cart in checkout and its
  pending order are committed with the answer.
\<close>

definition foreign_currency_site :: site where
  "foreign_currency_site = example_site\<lparr>site_env := mock_env\<lparr>env_registry :=
     [(''mock'', (mock_gateway (\<lambda>_. ''event''))\<lparr>gw_supports_currency := (\<lambda>_. False)\<rparr>)]\<rparr>\<rparr>"

theorem errors_answered_witness:
  "\<exists>resp w'. atomic_request (customer_view (shop_view foreign_currency_site (CheckoutPost [])))
       ((fresh_request checkout_request)\<lparr>rq_customer := Some shop_customer\<rparr>) shop = (Inr resp, w') \<and>
     resp_status resp = 409 \<and> error_codes resp = [JStr ''gateway_unsupported_currency''] \<and>
     map cart_status (db_carts w') = [CartCheckingOut] \<and> map ord_status (db_orders w') = [OrderPending] \<and>
     map prod_reserved_quantity (db_products w') = [2]"
proof -
  let ?view = "customer_view (shop_view foreign_currency_site (CheckoutPost []))"
  let ?r = "(fresh_request checkout_request)\<lparr>rq_customer := Some shop_customer\<rparr>"
  have "\<exists>w1. ?view ?r (enter_atomic shop) = (Inl (GatewayUnsupportedCurrency ''mock'' ''USD''), w1) \<and>
      map cart_status (db_carts w1) = [CartCheckingOut] \<and> map ord_status (db_orders w1) = [OrderPending] \<and>
      map prod_reserved_quantity (db_products w1) = [2]"
    by (simp add: foreign_currency_site_def run_requests run_checkout_view checkout_request_def run_defs shop_defs site_defs
        is_payment_failed_def cong: eval_weak)
  then obtain w1 where raised: "?view ?r (enter_atomic shop) = (Inl (GatewayUnsupportedCurrency ''mock'' ''USD''), w1)"
    and rows: "map cart_status (db_carts w1) = [CartCheckingOut]" "map ord_status (db_orders w1) = [OrderPending]"
      "map prod_reserved_quantity (db_products w1) = [2]"
    by (elim exE conjE)
  from errors_answered [of ?view ?r shop, OF raised] obtain resp w' where ans: "atomic_request ?view ?r shop = (Inr resp, w')" "resp_status resp = 409"
    "error_codes resp = [JStr ''gateway_unsupported_currency'']" and tb: "tables w' = tables w1"
    by auto
  have "db_carts w' = db_carts w1" "db_orders w' = db_orders w1" "db_products w' = db_products w1"
    using tb tables_db [OF tb] by simp_all
  with ans rows show ?thesis by (intro exI [of _ resp] exI [of _ w']) simp
qed

subsection \<open>Gateways\<close>

text \<open>
  C18: The contract of a gateway. Every gateway of the registry goes by the name it is registered under; no
  authorization is reported as a refund and every refund as one; what a gateway retrieves is never a failure or a
  refund; and what it publishes about itself depends on the public key only, not on a secret.
\<close>

theorem gateways_meet_contract:
  assumes "registry_get (builtin_registry sha256 sdk vars) name = Inr g"
  shows "gw_name g = name \<and>
    (\<forall>n cr amount currency token key m. case gw_authorize g n cr amount currency token key m of
       Inr i \<Rightarrow> pi_status i \<noteq> GwRefunded | Inl _ \<Rightarrow> True) \<and>
    (\<forall>n cr txn key amount reason. case gw_refund g n cr txn key amount reason of
       Inr i \<Rightarrow> pi_status i = GwRefunded | Inl _ \<Rightarrow> True) \<and>
    (\<forall>n cr txn. case gw_retrieve_payment g n cr txn of
       Inr (Some i) \<Rightarrow> pi_status i \<in> {GwPending, GwAuthorized, GwCaptured, GwCancelled} | _ \<Rightarrow> True) \<and>
    (\<forall>cr s h x. gw_describe g (cr\<lparr>cred_secret_key := s, cred_webhook_secret := h, cred_extra := x\<rparr>) = gw_describe g cr)"
proof -
  have c: "payment_gateway g" using assms by (rule builtin_registry_contract)
  show ?thesis
    using registry_get_name [OF assms] payment_gateway.authorize_not_refunded [OF c] payment_gateway.refund_refunds [OF c]
      payment_gateway.retrieve_not_terminal_failure [OF c] payment_gateway.describe_public [OF c]
    by (intro conjI allI) (auto split: sum.split option.split)
qed

theorem gateways_meet_contract_witness:
  "\<forall>sdk. gw_name (stripe_gateway sdk (\<lambda>_. None)) = ''stripe'' \<and>
     (\<forall>n cr txn. case gw_retrieve_payment (stripe_gateway sdk (\<lambda>_. None)) n cr txn of
        Inr (Some i) \<Rightarrow> pi_status i \<in> {GwPending, GwAuthorized, GwCaptured, GwCancelled} | _ \<Rightarrow> True)"
proof -
  have "registry_get (builtin_registry (\<lambda>_. ''event'') sdk (\<lambda>_. None)) ''stripe'' = Inr (stripe_gateway sdk (\<lambda>_. None))" for sdk
    by (simp add: registry_get_def builtin_registry_def)
  from gateways_meet_contract [OF this] show ?thesis by blast
qed

subsection \<open>Who gets in\<close>

text \<open>
  C19: Customers. Outside the exempt paths the storefront is reached only as an active customer of the tenant in context whose
  identifier the header carries. A request without the header gets 401 and the code \<open>missing_customer_id\<close>. A header that names
  nobody, a blocked customer or a customer of another tenant gets 401 and \<open>customer_not_found\<close>, all the same answer; so does a text the
  database takes for no identifier by a \<open>ValueError\<close>, and any other exception it raises for the text is raised. Nothing is changed.
\<close>

theorem storefront_admits_customers:
  assumes "\<not> is_exempt (rq_http r) GLOBAL_EXEMPT_PATHS" and "\<not> is_exempt (rq_http r) AUTH_EXEMPT_PATHS"
    and "\<not> set_disable_auth cfg" and "schema w" and "hdr = strip (meta_get (req_meta (rq_http r)) ''HTTP_X_CUSTOMER_ID'')"
  shows "if hdr = [] then customer_auth cfg h r w = (Inr (middleware_error ''missing_customer_id'' 401 (rq_id r)), w)
    else case set_to_uuid cfg hdr of
      Inl e \<Rightarrow> customer_auth cfg h r w =
        (if no_such_customer e then Inr (middleware_error ''customer_not_found'' 401 (rq_id r)) else Inl e, w)
    | Inr i \<Rightarrow>
        (\<exists>c \<in> set (db_customers w). row_id c = i \<and> tenant_ctx w = Some (tenant_id c) \<and> cust_is_active c \<and>
          customer_auth cfg h r w = h (r\<lparr>rq_customer := Some c\<rparr>) w) \<or>
        (\<forall>c \<in> set (db_customers w). row_id c = i \<longrightarrow> tenant_ctx w \<noteq> Some (tenant_id c) \<or> \<not> cust_is_active c) \<and>
          customer_auth cfg h r w = (Inr (middleware_error ''customer_not_found'' 401 (rq_id r)), w)"
proof -
  have keys: "distinct (map row_id (db_customers w))"
    using assms(4) by (simp add: schema_def customers_tbl_def pk_ok_def)
  note cases = customer_auth_cases [OF assms(1-3) keys assms(5)]
  show ?thesis
  proof (cases "hdr = []")
    case False
    show ?thesis
    proof (cases "set_to_uuid cfg hdr")
      case (Inr i)
      have adm: "admitted cfg r w c \<longleftrightarrow> c \<in> set (db_customers w) \<and> row_id c = i \<and> tenant_ctx w = Some (tenant_id c) \<and> cust_is_active c" for c
        using Inr assms(5) by (auto simp: admitted_def)
      show ?thesis
      proof (cases "\<exists>c. admitted cfg r w c")
        case True
        then obtain c where c: "admitted cfg r w c" by blast
        from cases(1) [OF this False] c [unfolded adm] show ?thesis using False Inr by auto
      next
        case none: False
        then have "\<forall>c. \<not> admitted cfg r w c" by blast
        from cases(4) [OF False Inr this] none adm show ?thesis using False Inr by auto
      qed
    qed (use cases(3) False in simp)
  qed (use cases(2) in simp)
qed

text \<open>Ann is let in by her own tenant and refused with 401 by another.\<close>

theorem storefront_admits_customers_witness:
  "customer_auth example_settings (\<lambda>r. ret no_content) (fresh_request checkout_request) shop = (Inr no_content, shop) \<and>
   customer_auth example_settings (\<lambda>r. ret no_content) (fresh_request checkout_request) (shop\<lparr>tenant_ctx := Some 2\<rparr>) =
     (Inr (middleware_error ''customer_not_found'' 401 []), shop\<lparr>tenant_ctx := Some 2\<rparr>)"
proof -
  have s: "schema shop" using inv_schema [OF shop_inv] .
  then have s2: "schema (shop\<lparr>tenant_ctx := Some 2\<rparr>)" by (simp add: schema_def)
  have q: "\<not> is_exempt (rq_http (fresh_request checkout_request)) GLOBAL_EXEMPT_PATHS"
    "\<not> is_exempt (rq_http (fresh_request checkout_request)) AUTH_EXEMPT_PATHS" "\<not> set_disable_auth example_settings"
    "''ann'' = strip (meta_get (req_meta (rq_http (fresh_request checkout_request))) ''HTTP_X_CUSTOMER_ID'')"
    by (simp_all add: fresh_request_def checkout_request_def is_exempt_def GLOBAL_EXEMPT_PATHS_def AUTH_EXEMPT_PATHS_def
        startswith_def example_settings_def strip_def is_space_def meta_get_def)
  have i: "set_to_uuid example_settings ''ann'' = Inr 10" by (simp add: example_settings_def)
  have rows: "db_customers shop = [shop_customer]" "row_id shop_customer = 10" "tenant_id shop_customer = 1"
    "cust_is_active shop_customer" "tenant_ctx shop = Some 1" "rq_id (fresh_request checkout_request) = []"
    by (simp_all add: shop_def shop_customer_def fresh_request_def)
  show ?thesis
    using storefront_admits_customers [OF q(1-3) s q(4), of "\<lambda>r. ret no_content"]
      storefront_admits_customers [OF q(1-3) s2 q(4), of "\<lambda>r. ret no_content"]
    by (simp add: i rows ret_def)
qed

text \<open>
  Blocked customers: after a tenant's administrator has deleted a customer, no request of any kind is admitted
  as that customer.
\<close>

lemma blocked_customer_refused:
  assumes "customer_detail_delete i u r w = (Inr resp, w')" and "inv t {} w" and "row_id c = i"
  shows "\<not> admitted cfg rq w' c"
  using blocked_not_admitted assms .

lemma blocked_customer_example:
  "\<exists>resp w'. customer_detail_delete 10 \<lparr>user_id = 1, user_email = '''', user_password = '''', user_is_active = True,
       user_is_superuser = False\<rparr> (fresh_request checkout_request) shop = (Inr resp, w') \<and>
     \<not> admitted example_settings (fresh_request checkout_request) w' shop_customer"
proof -
  let ?u = "\<lparr>user_id = 1, user_email = '''', user_password = '''', user_is_active = True, user_is_superuser = False\<rparr>"
  have "\<exists>resp w'. customer_detail_delete 10 ?u (fresh_request checkout_request) shop = (Inr resp, w')"
    by (simp add: customer_detail_delete_def get_customer_def run_defs shop_defs cong: eval_weak)
  then obtain resp w' where run: "customer_detail_delete 10 ?u (fresh_request checkout_request) shop = (Inr resp, w')"
    by (elim exE)
  have "row_id shop_customer = 10" by (simp add: shop_customer_def)
  from blocked_customer_refused [OF run shop_inv this] run show ?thesis by blast
qed

text \<open>
  C20: Administrators. The views of a tenant's administration are run only for a valid token of an active user who is
  a superuser or has a membership in the tenant of the host; every other request ends in an exception with the state
  as it was.
\<close>

theorem tenant_admin_only:
  "(\<exists>u t k tok. key = Some k \<and> authenticated ttl k w u tok \<and> rq_tenant r = Some t \<and> tenant_admin u t w \<and>
      tenant_admin_view ttl key view r w = view u r w) \<or>
   (\<exists>e. tenant_admin_view ttl key view r w = (Inl e, w))"
  by (rule tenant_admin_view_closed)

text \<open>
  C21: Login. A login either fails with the one answer for unknown and wrong credentials and changes nothing, or it
  replaces the tokens of the active user with that address and password by one new token, whose life starts now, and
  leaves the tokens of other users alone.
\<close>

theorem login_replaces_token:
  assumes "login_post ttl new_key email password r w = (Inr resp, w')"
  shows "resp = invalid_credentials (rq_id r) \<and> w' = w \<or>
    (\<exists>u tok. u \<in> set (db_users w) \<and> user_is_active u \<and> lower (user_email u) = lower email \<and> user_password u = password \<and>
       tok_created tok = clock w \<and> filter (\<lambda>t. tok_user t = user_id u) (db_tokens w') = [tok] \<and>
       filter (\<lambda>t. tok_user t \<noteq> user_id u) (db_tokens w') = filter (\<lambda>t. tok_user t \<noteq> user_id u) (db_tokens w))"
  using login_rotates [OF assms] .

definition admin_user :: user where
  "admin_user = \<lparr>user_id = 5, user_email = ''ann@acme.test'', user_password = ''secret'', user_is_active = True,
     user_is_superuser = False\<rparr>"

definition staffed_shop :: world where
  "staffed_shop = quiet_shop\<lparr>db_users := [admin_user],
     db_tokens := [\<lparr>tok_key = ''old'', tok_user = 5, tok_created = 0\<rparr>, \<lparr>tok_key = ''other'', tok_user = 6, tok_created = 0\<rparr>],
     db_memberships := [\<lparr>mem_id = 90, mem_user = 5, mem_tenant = 1, mem_role = TENANT_ADMIN, mem_created_at = 0\<rparr>]\<rparr>"

lemmas staffed_defs = staffed_shop_def admin_user_def site_defs shop_defs

theorem login_replaces_token_witness:
  "\<exists>resp w' (u :: user) tok. login_post 28800 (\<lambda>_. ''new'') ''ann@acme.test'' ''secret'' (fresh_request checkout_request) staffed_shop =
       (Inr resp, w') \<and> tok_created tok = clock staffed_shop \<and> filter (\<lambda>t. tok_user t = user_id u) (db_tokens w') = [tok] \<and>
     user_password u = ''secret'' \<and> tok_key tok \<noteq> ''old''"
proof -
  have "\<exists>resp w'. login_post 28800 (\<lambda>_. ''new'') ''ann@acme.test'' ''secret'' (fresh_request checkout_request) staffed_shop =
       (Inr resp, w') \<and> map tok_key (db_tokens w') = [''other'', ''new'']"
    by (simp add: login_post_def rotate_token_def delete_where_def lower_def to_lower_def is_upper_def
        run_defs staffed_defs cong: eval_weak)
  then obtain resp w' where run: "login_post 28800 (\<lambda>_. ''new'') ''ann@acme.test'' ''secret'' (fresh_request checkout_request)
      staffed_shop = (Inr resp, w')" and keys: "map tok_key (db_tokens w') = [''other'', ''new'']"
    by (elim exE conjE)
  have "''old'' \<notin> set (map tok_key (db_tokens w'))" by (simp add: keys)
  then have old: "''old'' \<notin> tok_key ` set (db_tokens w')" by simp
  have changed: "w' \<noteq> staffed_shop" using old by (auto simp: staffed_shop_def)
  from login_replaces_token [OF run] show ?thesis
  proof (elim disjE exE conjE)
    assume "w' = staffed_shop"
    with changed show ?thesis by simp
  next
    fix u :: user and tok :: auth_token
    assume f: "tok_created tok = clock staffed_shop" "filter (\<lambda>t. tok_user t = user_id u) (db_tokens w') = [tok]"
      "user_password u = ''secret''"
    have "tok \<in> set (filter (\<lambda>t. tok_user t = user_id u) (db_tokens w'))" by (simp only: f(2)) simp
    then have "tok \<in> set (db_tokens w')" by simp
    with old have "tok_key tok \<noteq> ''old''" by (metis imageI)
    with run f show ?thesis by (intro exI [of _ resp] exI [of _ w'] exI [of _ u] exI [of _ tok]) simp
  qed
qed

text \<open>
  Logout: after a logout none of the user's tokens is accepted any more.
\<close>

lemma logout_ends_session:
  assumes "schema w" and "tok \<in> set (db_tokens w)" and "tok_user tok = user_id u" and "logout_post u r w = (res, w')"
  shows "res = Inr no_content \<and>
    authenticate_credentials ttl (tok_key tok) w' = (Inl (AuthenticationFailed ''Invalid token.''), w')"
proof -
  have "distinct (map tok_key (db_tokens w))" using assms(1) by (simp add: schema_def tokens_tbl_def)
  from logout_revokes [OF this assms(2-4)] show ?thesis by blast
qed

lemma staffed_schema: "schema staffed_shop"
  by (simp add: schema_def staffed_defs tbl_defs pk_ok_def product_ok_def is_active_cart_def)

lemma logout_example:
  "\<exists>res w'. logout_post admin_user (fresh_request checkout_request) staffed_shop = (res, w') \<and> res = Inr no_content \<and>
     authenticate_credentials 28800 ''old'' w' = (Inl (AuthenticationFailed ''Invalid token.''), w')"
proof -
  obtain res w' where run: "logout_post admin_user (fresh_request checkout_request) staffed_shop = (res, w')" by fastforce
  have "\<lparr>tok_key = ''old'', tok_user = 5, tok_created = 0\<rparr> \<in> set (db_tokens staffed_shop)" by (simp add: staffed_shop_def)
  from logout_ends_session [OF staffed_schema this _ run, of 28800] run show ?thesis by (simp add: admin_user_def)
qed

text \<open>
  C22: Revoked memberships. A user who is no superuser is no administrator of a tenant once the membership has been
  deleted.
\<close>

theorem revoked_membership_refused:
  assumes "schema w" and "m \<in> set (db_memberships w)" and "mem_user m = user_id u" and "mem_tenant m = ten_id t"
    and "\<not> user_is_superuser u" and "membership_delete (mem_id m) admin r w = (res, w')"
  shows "res = Inr no_content \<and> \<not> is_tenant_admin (Some u) (Some t) w'"
  using membership_revoked [OF assms] .

theorem revoked_membership_refused_witness:
  "\<exists>res w'. membership_delete 90 admin_user (fresh_request checkout_request) staffed_shop = (res, w') \<and>
     res = Inr no_content \<and> \<not> is_tenant_admin (Some admin_user) (Some \<lparr>ten_id = 1, ten_name = ''Acme'', ten_subdomain = ''acme'',
       ten_default_currency = ''USD'', ten_is_active = True, ten_created_at = 0, ten_updated_at = 0\<rparr>) w'"
proof -
  let ?m = "\<lparr>mem_id = 90, mem_user = 5, mem_tenant = 1, mem_role = TENANT_ADMIN, mem_created_at = 0\<rparr>"
  let ?t = "\<lparr>ten_id = 1, ten_name = ''Acme'', ten_subdomain = ''acme'', ten_default_currency = ''USD'', ten_is_active = True, ten_created_at = 0, ten_updated_at = 0\<rparr>"
  obtain res w' where "membership_delete 90 admin_user (fresh_request checkout_request) staffed_shop = (res, w')" by fastforce
  then have run: "membership_delete (mem_id ?m) admin_user (fresh_request checkout_request) staffed_shop = (res, w')" by simp
  have "?m \<in> set (db_memberships staffed_shop)" by (simp add: staffed_shop_def)
  from revoked_membership_refused [OF staffed_schema this _ _ _ run, of admin_user ?t] run
  show ?thesis by (simp add: admin_user_def)
qed

text \<open>
  C23: New tenants. A tenant is created with a slug for a subdomain that is neither reserved nor taken, and its first
  order and its first invoice get the number 1000.
\<close>

theorem new_tenant_ready:
  assumes "tenant_create_post cfg v admin r w = (Inr resp, w')"
    and "order_seq w (fresh_id w) = None" and "invoice_seq w (fresh_id w) = None"
  shows "\<exists>t. db_tenants w' = db_tenants w @ [t] \<and> ten_id t = fresh_id w \<and> ten_subdomain t = tr_subdomain v \<and>
    list_all slug_char (ten_subdomain t) \<and> ten_subdomain t \<notin> set (set_reserved_subdomains cfg) \<and>
    ten_subdomain t \<notin> ten_subdomain ` set (db_tenants w) \<and>
    fst (next_order_number (ten_id t) w') = Inr 1000 \<and> fst (next_invoice_number (ten_id t) w') = Inr 1000"
  using tenant_create_run [OF assms] .

theorem new_tenant_ready_witness:
  "\<exists>resp w' t. tenant_create_post example_settings \<lparr>tr_name = ''Zed'', tr_subdomain = ''zed'', tr_default_currency = ''USD'',
       tr_is_active = True\<rparr> admin_user (fresh_request checkout_request) quiet_shop = (Inr resp, w') \<and>
     db_tenants w' = db_tenants quiet_shop @ [t] \<and> ten_subdomain t = ''zed'' \<and>
     fst (next_order_number (ten_id t) w') = Inr 1000 \<and> fst (next_invoice_number (ten_id t) w') = Inr 1000"
proof -
  let ?v = "\<lparr>tr_name = ''Zed'', tr_subdomain = ''zed'', tr_default_currency = ''USD'', tr_is_active = True\<rparr>"
  have "\<exists>resp w'. tenant_create_post example_settings ?v admin_user (fresh_request checkout_request) quiet_shop =
      (Inr resp, w')"
    by (simp add: tenant_create_post_def tenant_response_def validate_subdomain_def create_per_tenant_sequences_def slug_char_def is_lower_def
        is_upper_def is_digit_def run_defs site_defs shop_defs cong: eval_weak)
  then obtain resp w' where run: "tenant_create_post example_settings ?v admin_user (fresh_request checkout_request)
      quiet_shop = (Inr resp, w')"
    by (elim exE)
  have "order_seq quiet_shop (fresh_id quiet_shop) = None" "invoice_seq quiet_shop (fresh_id quiet_shop) = None"
    by (simp_all add: site_defs shop_defs)
  from new_tenant_ready [OF run this] run show ?thesis by (simp del: ex_simps) blast
qed

subsection \<open>What a customer and an administrator may change\<close>

text \<open>
  C24: Choosing a default. When the request to make a payment method the default succeeds, the method is the caller's
  own and it is the only default of that customer.
\<close>

theorem sole_default_chosen:
  assumes "inv t {} w" and "payment_method_default_put cid mid c r w = (Inr resp, w')"
  shows "row_id c = cid \<and> default_ids cid w' = [mid]"
  using default_put_sole [OF assms] .

theorem sole_default_chosen_witness:
  "\<exists>resp w'. payment_method_default_put 10 51 shop_customer (fresh_request checkout_request) shop = (Inr resp, w') \<and>
     default_ids 10 shop = [50] \<and> default_ids 10 w' = [51]"
proof -
  have "\<exists>resp w'. payment_method_default_put 10 51 shop_customer (fresh_request checkout_request) shop = (Inr resp, w')"
    by (simp add: payment_method_default_put_def make_default_def own_account_def method_response_def run_defs shop_defs
        cong: eval_weak)
  then obtain resp w' where run: "payment_method_default_put 10 51 shop_customer (fresh_request checkout_request) shop =
      (Inr resp, w')"
    by (elim exE)
  show ?thesis
    by (intro exI [of _ resp] exI [of _ w'])
      (use sole_default_chosen [OF shop_inv run] run in \<open>simp add: default_ids_def shop_defs\<close>)
qed

text \<open>
  Paying an invoice: when an administrator marks an order as paid and gets an answer other than an error, the
  order is paid; doing it again changes nothing.
\<close>

lemma marked_paid:
  assumes "inv t {} w" and "order_mark_paid_post i body u r w = (Inr resp, w')"
  shows "\<exists>od \<in> set (db_orders w'). row_id od = i \<and> ord_status od = OrderPaid"
  using mark_paid_settles assms by blast

lemma po_shop_inv: "inv 1 {} po_shop"
  by (simp add: inv_def ledger_def owned_def schema_def shop_defs tbl_defs pk_ok_def product_ok_def
      is_active_cart_def active_qty_def)

lemmas run_invoiced = purchase_order_path_def create_invoice_pending_payment_def due_days_def po_terms_to_days_def or_default_def

lemma marked_paid_example:
  "\<exists>r w resp w'. run_saga mock_env 10 ''k'' None [] po_shop = (Inr r, w) \<and> cr_payment_status r = ''invoice_pending'' \<and>
     order_mark_paid_post 1001 [] admin_user (fresh_request checkout_request) w = (Inr resp, w') \<and>
     (\<exists>od \<in> set (db_orders w'). row_id od = 1001 \<and> ord_status od = OrderPaid)"
proof -
  have "\<exists>r w resp w'. run_saga mock_env 10 ''k'' None [] po_shop = (Inr r, w) \<and> cr_payment_status r = ''invoice_pending'' \<and>
      order_mark_paid_post 1001 [] admin_user (fresh_request checkout_request) w = (Inr resp, w')"
    by (simp add: run_invoiced order_mark_paid_post_def reference_field_def one_field_def admin_get_order_def settle_invoice_def
        mark_invoice_paid_def admin_order_response_def run_defs shop_defs cong: eval_weak)
  then obtain r w resp w' where run: "run_saga mock_env 10 ''k'' None [] po_shop = (Inr r, w)"
    and st: "cr_payment_status r = ''invoice_pending''"
    and paid: "order_mark_paid_post 1001 [] admin_user (fresh_request checkout_request) w = (Inr resp, w')"
    by (elim exE conjE)
  have "inv 1 {} w" using run_saga_inv po_shop_inv run by (rule preservesD)
  from marked_paid [OF this paid] run st paid show ?thesis
    by (intro exI [of _ r] exI [of _ w] exI [of _ resp] exI [of _ w']) simp
qed

text \<open>
  C25: Stock below reservations. An update of a product that would leave less in stock than is reserved is refused
  with a validation error and changes nothing, and no update that passes the checks, with a price that is not
  negative, runs into a constraint of the database.
\<close>

theorem product_update_guarded:
  assumes "inv t ids w" and "\<forall>c. prq_price v = Some c \<longrightarrow> 0 \<le> c" and "patch_product i v w = (Inl e, w')"
  shows "tables w' = tables w \<and>
    (e \<in> {ResourceNotFound ''Product not found'', MultipleObjectsReturned} \<or> (\<exists>j. e = ValidationError j))"
proof -
  have "tables w' = tables w"
    using assms(3) atomic_failed_tables unfolding patch_product_def by blast
  with patch_product_no_integrity_error [OF assms] show ?thesis by blast
qed

definition held_shop :: world where
  "held_shop = shop\<lparr>db_products := [shop_product\<lparr>prod_reserved_quantity := 2\<rparr>],
     db_reservations := [\<lparr>row_id = 95, tenant_id = 1, created_at = 0, updated_at = 0, res_cart = 60, res_order = None,
       res_product = 30, res_quantity = 2, res_expires_at = 1000, res_status = ResActive\<rparr>]\<rparr>"

theorem product_update_guarded_witness:
  "\<exists>e w'. patch_product 30 \<lparr>prq_name = None, prq_description = None, prq_price = None, prq_currency = None,
       prq_stock_quantity = Some 1, prq_is_active = None\<rparr> held_shop = (Inl e, w') \<and>
     tables w' = tables held_shop \<and> (\<exists>j. e = ValidationError j)"
proof -
  let ?v = "\<lparr>prq_name = None, prq_description = None, prq_price = None, prq_currency = None,
       prq_stock_quantity = Some 1, prq_is_active = None\<rparr>"
  have i: "inv 1 {} held_shop"
    by (simp add: inv_def ledger_def owned_def schema_def held_shop_def shop_defs tbl_defs pk_ok_def product_ok_def
        is_active_cart_def active_qty_def backed_def holds_stock_def)
  have "\<exists>e w'. patch_product 30 ?v held_shop = (Inl e, w') \<and> (\<exists>j. e = ValidationError j)"
    by (simp add: patch_product_def get_product_def patch_product_guards_def currency_errors_def raise_errors_def
        stock_below_reserved_def field_error_def held_shop_def run_defs shop_defs cong: eval_weak)
  then obtain e w' j where run: "patch_product 30 ?v held_shop = (Inl e, w')" and e: "e = ValidationError j"
    by (elim exE conjE)
  show ?thesis
    by (intro exI [of _ e] exI [of _ w']) (use product_update_guarded [OF i _ run] run e in simp)
qed

text \<open>
  C26: Invoices. Once the task for an order has run to its end, running it again, as a retry or for a duplicate
  message, changes nothing: no second invoice, no second number, no second document.
\<close>

theorem invoice_once:
  assumes "schema w" and "\<forall>a k. st_url st a k \<noteq> []" and "generate_invoice lay st t i w = (Inr u, w')"
  shows "generate_invoice lay st t i w' = (Inr (), w')"
  using generate_invoice_idempotent assms by blast

theorem invoice_once_witness:
  "\<exists>r w u w'. run_saga mock_env 10 ''k'' None [] po_shop = (Inr r, w) \<and>
     generate_invoice (site_layout example_site) (site_storage example_site) 1 1001 w = (Inr u, w') \<and>
     map inv_number (db_invoices w') = [5001] \<and>
     generate_invoice (site_layout example_site) (site_storage example_site) 1 1001 w' = (Inr (), w')"
proof -
  have "\<exists>r w u w'. run_saga mock_env 10 ''k'' None [] po_shop = (Inr r, w) \<and>
     generate_invoice (site_layout example_site) (site_storage example_site) 1 1001 w = (Inr u, w') \<and>
     map inv_number (db_invoices w') = [5001]"
    by (simp add: run_invoiced generate_invoice_def invoice_of_def create_invoice_def next_invoice_number_def
        new_invoice_def upload_if_missing_def upload_invoice_pdf_def save_bytes_def render_invoice_pdf_def url_for_def
        run_defs site_defs shop_defs cong: eval_weak)
  then obtain r w u w' where run: "run_saga mock_env 10 ''k'' None [] po_shop = (Inr r, w)"
    and gen: "generate_invoice (site_layout example_site) (site_storage example_site) 1 1001 w = (Inr u, w')"
    and n: "map inv_number (db_invoices w') = [5001]"
    by (elim exE conjE)
  have "inv 1 {} w" using run_saga_inv po_shop_inv run by (rule preservesD)
  then have s: "schema w" by (rule inv_schema)
  have "\<forall>a k. st_url (site_storage example_site) a k \<noteq> []" by (simp add: site_defs)
  from invoice_once [OF s this gen] run gen n show ?thesis
    by (intro exI [of _ r] exI [of _ w] exI [of _ u] exI [of _ w']) simp
qed

subsection \<open>After the sale\<close>

text \<open>The shop when its customer has to confirm the payment at the bank: the order waits for an event of the gateway.\<close>

lemma waiting_sale:
  obtains r w od p where
    "run_saga mock_env 10 ''k'' None [(''mock_outcome'', JStr ''requires_action'')] shop = (Inr r, w)"
    and "inv 1 {} w" and "db_orders w = [od]" and "db_payments w = [p]" and "db_webhook_events w = []"
    and "row_id od = 1001" "tenant_id od = 1" "ord_customer od = 10" "ord_status od = OrderPending" "ord_cart od = Some 60"
    and "row_id p = 1003" "tenant_id p = 1" "pay_order p = 1001" "pay_status p = PayPending"
    and "pay_gateway_config p = Some 40" "pay_gateway_transaction_id p \<noteq> []" "updated_at p = 100" "clock w = 100"
    and "db_gateway_configs w = [shop_config]" "atomic_depth w = 0" "on_commit_hooks w = []" "task_queue w = []"
    and "map cart_status (db_carts w) = [CartConverted]"
    and "map prod_stock_quantity (db_products w) = [5]" "map prod_reserved_quantity (db_products w) = [2]"
proof -
  let ?run = "run_saga mock_env 10 ''k'' None [(''mock_outcome'', JStr ''requires_action'')] shop"
  have "\<exists>r w. ?run = (Inr r, w) \<and>
      map (\<lambda>od. (row_id od, tenant_id od, ord_customer od, ord_status od, ord_cart od)) (db_orders w) =
        [(1001, 1, 10, OrderPending, Some 60)] \<and>
      map (\<lambda>p. (row_id p, tenant_id p, pay_order p, pay_status p)) (db_payments w) = [(1003, 1, 1001, PayPending)] \<and>
      map (\<lambda>p. (pay_gateway_config p, pay_gateway_transaction_id p = [], updated_at p)) (db_payments w) = [(Some 40, False, 100)] \<and>
      clock w = 100 \<and> db_gateway_configs w = [shop_config] \<and> atomic_depth w = 0 \<and> on_commit_hooks w = [] \<and> task_queue w = [] \<and>
      db_webhook_events w = [] \<and> map cart_status (db_carts w) = [CartConverted] \<and>
      map prod_stock_quantity (db_products w) = [5] \<and> map prod_reserved_quantity (db_products w) = [2]"
    by (simp add: enriched_metadata_def dict_update_def run_defs shop_defs cong: eval_weak)
  then obtain r w where run: "?run = (Inr r, w)"
    and od: "map (\<lambda>od. (row_id od, tenant_id od, ord_customer od, ord_status od, ord_cart od)) (db_orders w) =
        [(1001, 1, 10, OrderPending, Some 60)]"
    and p: "map (\<lambda>p. (row_id p, tenant_id p, pay_order p, pay_status p)) (db_payments w) = [(1003, 1, 1001, PayPending)]"
    and p2: "map (\<lambda>p. (pay_gateway_config p, pay_gateway_transaction_id p = [], updated_at p)) (db_payments w) = [(Some 40, False, 100)]"
    and rest: "clock w = 100" "db_gateway_configs w = [shop_config]" "atomic_depth w = 0" "on_commit_hooks w = []" "task_queue w = []"
      "db_webhook_events w = []" "map cart_status (db_carts w) = [CartConverted]"
      "map prod_stock_quantity (db_products w) = [5]" "map prod_reserved_quantity (db_products w) = [2]"
    by (elim exE conjE)
  have i: "inv 1 {} w" using run_saga_inv shop_inv run by (rule preservesD)
  from od obtain od' where o: "db_orders w = [od']" by (auto simp: map_eq_Cons_conv)
  from p obtain p' where q: "db_payments w = [p']" by (auto simp: map_eq_Cons_conv)
  show ?thesis by (rule that [OF run i o q]) (use od p p2 o q rest in simp_all)
qed

text \<open>
  C27: Cancellation. A customer's pending order can always be cancelled. Then what its active reservations held is
  available again, what its committed ones had taken is back in stock, product by product; its open payments and the
  order itself are cancelled, and no other row of any table has changed.
\<close>

theorem cancellation_settles:
  assumes "inv t {} w" and "od \<in> set (db_orders w)" and "tenant_id od = t" and "ord_status od = OrderPending"
  shows "\<exists>w'. cancel_order (ord_customer od) (row_id od) w =
      (Inr (od\<lparr>ord_status := OrderCancelled, updated_at := clock w\<rparr>), w') \<and>
    tables w' = tables (order_cancelled t (row_id od) w)"
  using cancel_order_run [OF assms] by metis

theorem cancellation_settles_witness:
  "\<exists>r w w'. run_saga mock_env 10 ''k'' None [(''mock_outcome'', JStr ''requires_action'')] shop = (Inr r, w) \<and>
     map prod_reserved_quantity (db_products w) = [2] \<and>
     (\<exists>od. cancel_order 10 1001 w = (Inr od, w') \<and> ord_status od = OrderCancelled) \<and>
     tables w' = tables (order_cancelled 1 1001 w)"
proof -
  obtain r w od where run: "run_saga mock_env 10 ''k'' None [(''mock_outcome'', JStr ''requires_action'')] shop = (Inr r, w)"
    and i: "inv 1 {} w" and o: "db_orders w = [od]" "row_id od = 1001" "tenant_id od = 1" "ord_customer od = 10"
      "ord_status od = OrderPending"
    and held: "map prod_reserved_quantity (db_products w) = [2]"
    by (rule waiting_sale)
  have "od \<in> set (db_orders w)" using o(1) by simp
  from cancellation_settles [OF i this o(3,5)] o obtain w' where
    "cancel_order 10 1001 w = (Inr (od\<lparr>ord_status := OrderCancelled, updated_at := clock w\<rparr>), w')"
    "tables w' = tables (order_cancelled 1 1001 w)"
    by auto
  with run held show ?thesis by (intro exI [of _ r] exI [of _ w] exI [of _ w']) simp
qed

text \<open>
  C28: Events. The first delivery of an event about the payment of a pending order is recorded, sets the status of the
  payment and settles the order: a captured payment makes it paid and takes the reserved units out of stock, a failed
  or cancelled one cancels it and makes them available again. Every further delivery of the event changes nothing.
\<close>

theorem event_settles_once:
  assumes "inv t {} w" and "\<not> event_recorded a w"
    and "p \<in> set (db_payments w)" "tenant_id p = t" "row_id p = wa_payment a"
    and "od \<in> set (db_orders w)" "tenant_id od = t" "row_id od = pay_order p" and "ord_status od = OrderPending"
    and "wa_event_type a = ''payment.captured'' \<or> wa_event_type a \<in> {''payment.failed'', ''payment.cancelled''} \<and>
      (\<forall>c \<in> set (db_carts w). ord_cart od = Some (row_id c) \<longrightarrow> cart_status c \<noteq> CartCheckingOut)"
  shows "\<exists>w'. process_webhook_event a w = (Inr (), w') \<and> process_webhook_event a w' = (Inr (), w') \<and>
    tables w' = tables (if wa_event_type a = ''payment.captured''
      then order_settled sub_both ResCommitted OrderPaid od (with_event a w)
      else order_settled sub_reserved ResReleased OrderCancelled od (with_event a w))"
  using event_applied [OF assms] recorded_event_ignored by metis

definition capture_event :: webhook_args where
  "capture_event = \<lparr>wa_tenant = 1, wa_payment = 1003, wa_event_type = ''payment.captured'', wa_new_status = PayCaptured,
     wa_raw_payload = [], wa_gateway_name = ''mock'', wa_event_id = ''evt''\<rparr>"

theorem event_settles_once_witness:
  "\<exists>r w w' od. run_saga mock_env 10 ''k'' None [(''mock_outcome'', JStr ''requires_action'')] shop = (Inr r, w) \<and>
     db_orders w = [od] \<and> process_webhook_event capture_event w = (Inr (), w') \<and>
     process_webhook_event capture_event w' = (Inr (), w') \<and>
     tables w' = tables (order_settled sub_both ResCommitted OrderPaid od (with_event capture_event w))"
proof -
  obtain r w od p where run: "run_saga mock_env 10 ''k'' None [(''mock_outcome'', JStr ''requires_action'')] shop = (Inr r, w)"
    and i: "inv 1 {} w" and o: "db_orders w = [od]" "row_id od = 1001" "tenant_id od = 1" "ord_status od = OrderPending"
    and p: "db_payments w = [p]" "row_id p = 1003" "tenant_id p = 1" "pay_order p = 1001" and ev: "db_webhook_events w = []"
    by (rule waiting_sale)
  have new: "\<not> event_recorded capture_event w" using ev by (simp add: event_recorded_def)
  have p': "p \<in> set (db_payments w)" "row_id p = wa_payment capture_event" using p by (simp_all add: capture_event_def)
  have o': "od \<in> set (db_orders w)" "row_id od = pay_order p" using o p by simp_all
  have ty: "wa_event_type capture_event = ''payment.captured''" by (simp add: capture_event_def)
  from event_settles_once [OF i new p'(1) p(3) p'(2) o'(1) o(3) o'(2) o(4) disjI1 [OF ty]] ty obtain w' where
    "process_webhook_event capture_event w = (Inr (), w')" "process_webhook_event capture_event w' = (Inr (), w')"
    "tables w' = tables (order_settled sub_both ResCommitted OrderPaid od (with_event capture_event w))"
    by auto
  with run o(1) show ?thesis
    by (intro exI [of _ r] exI [of _ w] exI [of _ w'] exI [of _ od] conjI)
qed




text \<open>
  C30: A cart is a bag of products. Adding units of a product, setting the quantity of an item and removing an item do
  to the customer's cart, when they succeed, what they do to a map from products to quantities, and leave the contents
  of every other cart alone.
\<close>

theorem cart_refines_bag:
  assumes "inv t {} w" and "cart_call customer op w v w'"
  shows "bag_of (cv_items v) = apply_op op (cart_bag w (row_id (cv_cart v))) \<and>
    (\<forall>c. c \<noteq> row_id (cv_cart v) \<longrightarrow> cart_bag w' c = cart_bag w c)"
  using cart_refinement [OF assms] .

theorem cart_refines_bag_witness:
  "\<exists>v w'. add_item 10 30 2 shop = (Inr v, w') \<and> bag_of (cv_items v) 30 = 4 \<and>
     bag_of (cv_items v) = apply_op (AddOp 30 2) (cart_bag shop (row_id (cv_cart v)))"
proof -
  have "\<exists>v w'. add_item 10 30 2 shop = (Inr v, w') \<and> bag_of (cv_items v) 30 = 4"
    by (simp add: add_item_def get_or_create_cart_def lock_currency_def guard_that_def put_item_def bump_and_return_def
        run_defs shop_defs cong: eval_weak)
  then obtain v w' where run: "add_item 10 30 2 shop = (Inr v, w')" and b: "bag_of (cv_items v) 30 = 4"
    by (elim exE conjE)
  have "cart_call 10 (AddOp 30 2) shop v w'" using run by simp
  from cart_refines_bag [OF shop_inv this] run b show ?thesis by (intro exI [of _ v] exI [of _ w']) simp
qed

text \<open>
  C31: The sweep of the pending payments settles nothing on PostgreSQL. Its query locks a payment together with the
  configuration that it joins over a key that may be null, and PostgreSQL refuses such a lock, whatever the rows are. The
  exception is caught for each payment. So every sweep, with whatever threshold, gateways and payments, ends without
  an error, counts the payments it has picked, reports none of them as converged, cancelled or pending, and has changed nothing.
\<close>

theorem sweep_settles_nothing:
  assumes "\<not> env_locks_outer_joins e"
  shows "reconcile_pending_payments e m w =
    (Inr \<lparr>sum_scanned = length (candidate_ids (clock w - m * minute_us) w), sum_converged = 0, sum_cancelled = 0,
       sum_still_pending = 0\<rparr>, w)"
  by (rule sweep_refused [OF assms])

text \<open>A gateway that answers, whenever it is asked, that it has captured the payment.\<close>

definition settled_env :: env where
  "settled_env = \<lparr>env_allow_mock = True, env_registry = [(''mock'', (mock_gateway (\<lambda>_. ''event''))
     \<lparr>gw_retrieve_payment := (\<lambda>n cr txn. Inr (Some \<lparr>pi_gateway_transaction_id = txn, pi_status = GwCaptured, pi_amount = 0,
        pi_currency = ''USD'', pi_next_action = None, pi_raw_response = None\<rparr>))\<rparr>)], env_locks_outer_joins = False\<rparr>"

theorem sweep_settles_nothing_witness:
  "\<exists>r w w'. run_saga mock_env 10 ''k'' None [(''mock_outcome'', JStr ''requires_action'')] shop = (Inr r, w) \<and>
     w' = w\<lparr>tenant_ctx := None, clock := 100 + 11 * minute_us\<rparr> \<and> map pay_status (db_payments w') = [PayPending] \<and>
     reconcile_pending_payments settled_env 10 w' =
       (Inr \<lparr>sum_scanned = 1, sum_converged = 0, sum_cancelled = 0, sum_still_pending = 0\<rparr>, w')"
proof -
  obtain r w p where run: "run_saga mock_env 10 ''k'' None [(''mock_outcome'', JStr ''requires_action'')] shop = (Inr r, w)"
    and p: "db_payments w = [p]" "row_id p = 1003" "pay_status p = PayPending" "updated_at p = 100"
    by (rule waiting_sale)
  let ?w = "w\<lparr>tenant_ctx := None, clock := 100 + 11 * minute_us\<rparr>"
  have "length (candidate_ids (clock ?w - 10 * minute_us) ?w) = 1"
    using p by (simp add: candidate_ids_def all_objects_def payments_tbl_def stale_pending_def reconcile_batch_size_def minute_us_def)
  moreover have "\<not> env_locks_outer_joins settled_env" by (simp add: settled_env_def)
  ultimately have "reconcile_pending_payments settled_env 10 ?w =
      (Inr \<lparr>sum_scanned = 1, sum_converged = 0, sum_cancelled = 0, sum_still_pending = 0\<rparr>, ?w)"
    using sweep_settles_nothing [of settled_env 10 ?w] by simp
  with run p show ?thesis by (intro exI [of _ r] exI [of _ w] exI [of _ ?w]) simp
qed

text \<open>
  C32: The order history. A page of the order history shows at most a hundred orders, all of them orders of the customer
  in the tenant in context and in the status asked for, from newest to oldest; every order of the history is shown
  at its place on one page, the one with the number that the answer's envelope carries along with the number of all of them.
\<close>

theorem order_history_paged:
  assumes "pages_cut cfg" and "order_list_get cfg q c r w = (Inr resp, w')"
  shows "w' = w \<and> (\<exists>pg os. let qs = order_list_queryset c (query_get q ''status'') w in
    resp = get_paginated_response (map (order_json w) os) (length qs) pg (rq_id r) \<and> length os \<le> 100 \<and>
    (\<forall>od \<in> set os. od \<in> set (db_orders w) \<and> tenant_ctx w = Some (tenant_id od) \<and> ord_customer od = row_id c \<and>
      (query_get q ''status'' \<noteq> [] \<longrightarrow> order_status_value (ord_status od) = query_get q ''status'')) \<and>
    sorted (map (\<lambda>od. - created_at od) os) \<and>
    (\<forall>i < length qs. i div pg_size pg + 1 = pg_number pg \<longrightarrow> os ! (i mod pg_size pg) = qs ! i))"
proof -
  let ?qs = "order_list_queryset c (query_get q ''status'') w"
  have run: "list_response cfg r q (order_json w) ?qs w = (Inr resp, w')" using assms(2) unfolding order_list_run .
  then obtain pg where pg: "set_paginate cfg EnvelopePagination (rq_http r) q (length ?qs) = Inr pg"
    unfolding list_response_cases by (auto split: sum.splits)
  have resp: "resp = get_paginated_response (map (order_json w) (page_slice pg ?qs)) (length ?qs) pg (rq_id r)" "w' = w"
    using run unfolding list_response_cases pg sum.case prod.inject sum.inject
    by (rule conjunct1 [THEN sym], rule conjunct2 [THEN sym])
  have ok: "page_ok 100 (length ?qs) pg"
    using assms(1) pg by (auto simp: pages_cut_def EnvelopePagination_def)
  have "\<forall>od \<in> set (page_slice pg ?qs). od \<in> set ?qs" using page_slice_set [of pg ?qs] by blast
  then have own: "\<forall>od \<in> set (page_slice pg ?qs). od \<in> set (db_orders w) \<and> tenant_ctx w = Some (tenant_id od) \<and>
      ord_customer od = row_id c \<and>
      (query_get q ''status'' \<noteq> [] \<longrightarrow> order_status_value (ord_status od) = query_get q ''status'')"
    by (simp add: order_list_queryset_set)
  have nth: "\<forall>i < length ?qs. i div pg_size pg + 1 = pg_number pg \<longrightarrow> page_slice pg ?qs ! (i mod pg_size pg) = ?qs ! i"
    using page_slice_nth [OF ok] by simp
  have "length (page_slice pg ?qs) \<le> 100" "sorted (map (\<lambda>od. - created_at od) (page_slice pg ?qs))"
    using page_slice_length [OF ok] page_slice_sorted [OF order_list_queryset_sorted] by simp_all
  then show ?thesis unfolding Let_def using resp own nth by (intro conjI exI [of _ pg] exI [of _ "page_slice pg ?qs"])
qed

theorem order_history_paged_witness:
  "\<exists>r w resp. run_saga mock_env 10 ''k'' None [(''mock_outcome'', JStr ''requires_action'')] shop = (Inr r, w) \<and>
     order_list_get example_settings [] shop_customer (fresh_request checkout_request) w = (Inr resp, w) \<and>
     (\<exists>pg os. resp = get_paginated_response (map (order_json w) os) (length (order_list_queryset shop_customer [] w)) pg [] \<and>
       length os \<le> 100 \<and> (\<forall>od \<in> set os. ord_customer od = 10))"
proof -
  obtain r w where run: "run_saga mock_env 10 ''k'' None [(''mock_outcome'', JStr ''requires_action'')] shop = (Inr r, w)"
    by (rule waiting_sale)
  have "\<exists>resp. order_list_get example_settings [] shop_customer (fresh_request checkout_request) w = (Inr resp, w)"
    by (simp add: order_list_run list_response_cases example_settings_def example_pages_def query_get_def example_page_def Let_def)
  then obtain resp where list: "order_list_get example_settings [] shop_customer (fresh_request checkout_request) w = (Inr resp, w)" ..
  from order_history_paged [OF example_pages_cut list] obtain pg os where
    "resp = get_paginated_response (map (order_json w) os) (length (order_list_queryset shop_customer [] w)) pg (rq_id (fresh_request checkout_request))"
    "length os \<le> 100" "\<forall>od \<in> set os. ord_customer od = row_id shop_customer"
    by (auto simp: Let_def query_get_def)
  then have "\<exists>pg os. resp = get_paginated_response (map (order_json w) os) (length (order_list_queryset shop_customer [] w)) pg [] \<and>
       length os \<le> 100 \<and> (\<forall>od \<in> set os. ord_customer od = 10)"
    by (intro exI [of _ pg] exI [of _ os]) (simp add: fresh_request_def shop_customer_def)
  with run list show ?thesis by (intro exI [of _ r] exI [of _ w] exI [of _ resp] conjI)
qed

text \<open>
  C33: Keys on the wire. Outside the paths that are exempt, no key of a JSON answer has a small letter after an underscore,
  at any depth, and no key of the JSON body that a view is given has a capital letter.
\<close>

theorem keys_on_the_wire:
  assumes "handle srv q m req w = (Inr resp, w')" and "\<not> is_exempt req CAMEL_CASE_EXEMPT_PATHS"
  shows "(\<forall>j. resp_body resp = JsonBody j \<and> contains (resp_content_type resp) ''application/json'' \<longrightarrow>
      (\<forall>k \<in> set (json_keys j). wire_key k)) \<and>
    (\<forall>j. req_body (inner_request req) = JsonBody j \<and> contains (meta_get (req_meta req) ''CONTENT_TYPE'') ''application/json'' \<longrightarrow>
      (\<forall>k \<in> set (json_keys j). list_all (\<lambda>c. \<not> is_upper c) k))"
proof -
  obtain resp0 where "resp = camelize_response resp0"
    using assms by (auto simp: handle_served bindE_def ret_def split: prod.splits sum.splits)
  then have "\<exists>j0. j = transform_keys to_camel j0"
    if "resp_body resp = JsonBody j" "contains (resp_content_type resp) ''application/json''" for j
    using that by (auto simp: camelize_response_def split: if_splits http_body.splits)
  moreover have "\<exists>j0. j = transform_keys to_snake j0"
    if "req_body (inner_request req) = JsonBody j" "contains (meta_get (req_meta req) ''CONTENT_TYPE'') ''application/json''" for j
    using that assms(2) by (auto simp: inner_request_def decamelize_request_def split: if_splits http_body.splits)
  ultimately show ?thesis using keys_transformed to_camel_wire to_snake_small by blast
qed

theorem keys_on_the_wire_witness:
  "\<exists>resp w'. handle example_server [] POST checkout_request quiet_shop = (Inr resp, w') \<and>
    (\<forall>j. resp_body resp = JsonBody j \<and> contains (resp_content_type resp) ''application/json'' \<longrightarrow>
      (\<forall>k \<in> set (json_keys j). wire_key k))"
proof -
  obtain resp w' where run: "handle example_server [] POST checkout_request quiet_shop = (Inr resp, w')"
    by (rule example_sale)
  have "\<not> is_exempt checkout_request CAMEL_CASE_EXEMPT_PATHS"
    by (simp add: is_exempt_def CAMEL_CASE_EXEMPT_PATHS_def startswith_def checkout_request_def)
  from keys_on_the_wire [OF run this] run show ?thesis by (intro exI conjI) (rule run, erule conjunct1)
qed

subsection \<open>The worker\<close>

text \<open>
  C34: The queue drains. Between transactions, whatever is queued and whatever the gateways and the store answer, the worker
  without new requests is never stuck before its queue is empty: every attempt at a task ends, and every message that is queued can be
  taken. And it cannot go on for ever, since tasks that raise are tried a bounded number of times, and what tasks send sends
  nothing further. So it comes to an empty queue, in whatever order the messages are taken.
\<close>

theorem queue_drains:
  assumes "at_rest bw" and "idle (snd bw)"
  shows "(\<forall>bw' m. (works s su)\<^sup>*\<^sup>* bw bw' \<and> m \<in> set (bk_default (fst bw')) \<longrightarrow>
      (\<exists>nxt. consume s su m bw' = Some nxt \<and> works s su bw' nxt)) \<and>
    (\<nexists>f. f 0 = bw \<and> (\<forall>n. works s su (f n) (f (Suc n)))) \<and>
    (\<exists>bw'. (works s su)\<^sup>*\<^sup>* bw bw' \<and> bk_default (fst bw') = [])"
proof (intro conjI allI impI)
  fix bw' m assume run: "(works s su)\<^sup>*\<^sup>* bw bw' \<and> m \<in> set (bk_default (fst bw'))"
  then have "idle (snd bw')" using runs_keep [OF _ assms] by blast
  then obtain bw2 where "consume s su m bw' = Some bw2" "works s su bw' bw2" using run by (elim conjE) (rule works_on)
  then show "\<exists>nxt. consume s su m bw' = Some nxt \<and> works s su bw' nxt" by blast
next
  show "\<nexists>f. f 0 = bw \<and> (\<forall>n. works s su (f n) (f (Suc n)))" using queue_ends assms(1) by blast
  show "\<exists>bw'. (works s su)\<^sup>*\<^sup>* bw bw' \<and> bk_default (fst bw') = []" by (rule queue_empties [OF assms])
qed

definition event_message :: message where
  "event_message = \<lparr>msg_id = 7, msg_job = Queued (ProcessWebhookEvent capture_event),
     msg_headers = [(REQUEST_ID_HEADER, ''req-1'')], msg_retries = 0\<rparr>"

definition loaded_broker :: broker where
  "loaded_broker = \<lparr>bk_default = [event_message], bk_dlq = [], bk_vars = \<lparr>cv_request_id = None, cv_tokens = (\<lambda>_. None)\<rparr>, bk_next = 8\<rparr>"

definition quiet_surroundings :: surroundings where
  "quiet_surroundings = \<lparr>su_exception = (\<lambda>_. (''Exception'', '''')), su_isoformat = show_int, su_dlq_up = True\<rparr>"

theorem queue_drains_witness:
  "\<exists>b w. (works example_site quiet_surroundings)\<^sup>+\<^sup>+ (loaded_broker, quiet_shop) (b, w) \<and> bk_default b = [] \<and>
     (\<exists>nxt. consume example_site quiet_surroundings event_message (loaded_broker, quiet_shop) = Some nxt)"
proof -
  have "at_rest (loaded_broker, quiet_shop)" "idle (snd (loaded_broker, quiet_shop))"
    using quiet_idle by (simp_all add: at_rest_def quiet_def quiet_shop_def shop_def empty_world_def)
  note drains = queue_drains [OF this, of example_site quiet_surroundings]
  have queued: "event_message \<in> set (bk_default (fst (loaded_broker, quiet_shop)))" by (simp add: loaded_broker_def)
  from drains obtain bw where run: "(works example_site quiet_surroundings)\<^sup>*\<^sup>* (loaded_broker, quiet_shop) bw" "bk_default (fst bw) = []"
    by blast
  have "bw \<noteq> (loaded_broker, quiet_shop)" using run(2) by (auto simp: loaded_broker_def)
  with run(1) have "(works example_site quiet_surroundings)\<^sup>+\<^sup>+ (loaded_broker, quiet_shop) bw" by (auto dest: rtranclpD)
  moreover have "\<exists>nxt. consume example_site quiet_surroundings event_message (loaded_broker, quiet_shop) = Some nxt"
    using conjunct1 [OF drains] rtranclp.rtrancl_refl [of "works example_site quiet_surroundings" "(loaded_broker, quiet_shop)"] queued by blast
  ultimately show ?thesis using run(2) by (intro exI [of _ "fst bw"] exI [of _ "snd bw"]) simp
qed

text \<open>
  C35: An event pays its order. When the worker takes the message of a new event that says the payment of a pending order is
  captured, the order is settled as paid with its stock, the message is gone, the one message sent in its place is
  the invoice of that order, under the identifier of the same request, and nothing is given up.
\<close>

theorem event_pays_order:
  assumes "at_rest (b, w)" and "sound w" and "m \<in> set (bk_default b)" and "msg_job m = Queued (ProcessWebhookEvent a)"
    and "map_of (msg_headers m) REQUEST_ID_HEADER = Some rid" and "rid \<noteq> []" and "\<not> event_recorded a w"
    and "p \<in> set (db_payments w)" and "tenant_id p = wa_tenant a" and "row_id p = wa_payment a"
    and "od \<in> set (db_orders w)" and "tenant_id od = wa_tenant a" and "row_id od = pay_order p"
    and "ord_status od = OrderPending" and "wa_event_type a = ''payment.captured''"
  shows "\<exists>b' w' x. consume s su m (b, w) = Some (b', w') \<and>
    tables w' = tables (order_settled sub_both ResCommitted OrderPaid od (with_event a w)) \<and>
    bk_default b' = remove1 m (bk_default b) @ [x] \<and> msg_job x = Queued (GenerateInvoice (tenant_id od) (row_id od)) \<and>
    map_of (msg_headers x) REQUEST_ID_HEADER = Some rid \<and> bk_dlq b' = bk_dlq b"
  using event_delivered [OF assms] by metis

theorem event_pays_order_witness:
  "\<exists>r w od b' w' x. run_saga mock_env 10 ''k'' None [(''mock_outcome'', JStr ''requires_action'')] shop = (Inr r, w) \<and>
     consume example_site quiet_surroundings event_message (loaded_broker, w\<lparr>tenant_ctx := None\<rparr>) = Some (b', w') \<and>
     tables w' = tables (order_settled sub_both ResCommitted OrderPaid od (with_event capture_event (w\<lparr>tenant_ctx := None\<rparr>))) \<and>
     bk_default b' = [x] \<and> msg_job x = Queued (GenerateInvoice 1 1001) \<and> map_of (msg_headers x) REQUEST_ID_HEADER = Some ''req-1''"
proof -
  obtain r w od p where run: "run_saga mock_env 10 ''k'' None [(''mock_outcome'', JStr ''requires_action'')] shop = (Inr r, w)"
    and i: "inv 1 {} w" and o: "db_orders w = [od]" "row_id od = 1001" "tenant_id od = 1" "ord_status od = OrderPending"
    and p: "db_payments w = [p]" "row_id p = 1003" "tenant_id p = 1" "pay_order p = 1001" and ev: "db_webhook_events w = []"
    and idle: "atomic_depth w = 0" "on_commit_hooks w = []" "task_queue w = []"
    by (rule waiting_sale)
  let ?w = "w\<lparr>tenant_ctx := None\<rparr>"
  have s: "sound ?w" using i by (simp add: inv_sound)
  have rest: "at_rest (loaded_broker, ?w)" using idle by (simp add: at_rest_def quiet_def)
  have "\<exists>b' w' x. consume example_site quiet_surroundings event_message (loaded_broker, ?w) = Some (b', w') \<and>
    tables w' = tables (order_settled sub_both ResCommitted OrderPaid od (with_event capture_event ?w)) \<and>
    bk_default b' = remove1 event_message (bk_default loaded_broker) @ [x] \<and>
    msg_job x = Queued (GenerateInvoice (tenant_id od) (row_id od)) \<and>
    map_of (msg_headers x) REQUEST_ID_HEADER = Some ''req-1'' \<and> bk_dlq b' = bk_dlq loaded_broker"
    by (rule event_pays_order [OF rest s, of _ _ _ p])
      (use o p ev in \<open>simp_all add: event_message_def loaded_broker_def capture_event_def event_recorded_def\<close>)
  then obtain b' w' x where "consume example_site quiet_surroundings event_message (loaded_broker, ?w) = Some (b', w')"
    "tables w' = tables (order_settled sub_both ResCommitted OrderPaid od (with_event capture_event ?w))"
    "bk_default b' = [x]" "msg_job x = Queued (GenerateInvoice 1 1001)" "map_of (msg_headers x) REQUEST_ID_HEADER = Some ''req-1''"
    using o by (auto simp: loaded_broker_def)
  with run show ?thesis by (intro exI [of _ r] exI [of _ w] exI [of _ od] exI [of _ b'] exI [of _ w'] exI [of _ x]) simp
qed

subsection \<open>From a path to a view\<close>

text \<open>
  C36: Routes and tiers. Which requests skip the resolution of the tenant, and which need no customer, is decided by
  the prefixes of paths, away from the views. The prefixes agree with the permissions of the views that the paths
  lead to: the storefront's and the tenant administration's views always run for a tenant of the host, the others
  never do, the health check excepted; and no customer is asked for exactly where the view is not the storefront's.
\<close>

theorem routes_tiered:
  assumes "resolve (urlpatterns False admin_site toolbar) p = Some (v, as)" and "foreign_table admin_site"
    and "req_path req = CHR ''/'' # p"
  shows "(is_exempt req GLOBAL_EXEMPT_PATHS \<longleftrightarrow>
      vc_audience v \<noteq> Storefront \<and> vc_audience v \<noteq> TenantAdmins \<and> p \<noteq> ''api/v1/health'') \<and>
    (is_exempt req GLOBAL_EXEMPT_PATHS \<or> is_exempt req AUTH_EXEMPT_PATHS \<longleftrightarrow> vc_audience v \<noteq> Storefront)"
  using route_tier [OF assms] by simp

theorem routes_tiered_witness:
  "(is_exempt checkout_request GLOBAL_EXEMPT_PATHS \<longleftrightarrow>
      vc_audience CartCheckoutView \<noteq> Storefront \<and> vc_audience CartCheckoutView \<noteq> TenantAdmins \<and>
      ''api/v1/cart/checkout'' \<noteq> ''api/v1/health'') \<and>
    (is_exempt checkout_request GLOBAL_EXEMPT_PATHS \<or> is_exempt checkout_request AUTH_EXEMPT_PATHS \<longleftrightarrow>
      vc_audience CartCheckoutView \<noteq> Storefront)"
proof -
  have "resolve (urlpatterns False [] []) ''api/v1/cart/checkout'' = Some (CartCheckoutView, [])"
    using example_route by (simp add: route_of_def example_server_def example_site_def example_settings_def checkout_request_def)
  then show ?thesis by (rule routes_tiered) (simp_all add: foreign_table_def checkout_request_def)
qed

text \<open>
  C37: Routes are read back. A path built from a route of the project and its arguments resolves to the view and the
  arguments of that route, whatever tables the framework's sites have; and a path that resolves was built from a route of
  the table. One path has two routes: the preview of a coupon hides the coupon that is named so.
\<close>

theorem routes_read_back:
  "((ps, v) \<in> set (routes (urlpatterns False [] [])) \<and> build ps as = Some p \<and>
      \<not> (as = [S ''preview''] \<and> p = ''api/v1/cart/coupons/preview'') \<longrightarrow>
      resolve (urlpatterns False admin_site toolbar) p = Some (v, as)) \<and>
   (resolve (urlpatterns False admin_site toolbar) p = Some (u, bs) \<longrightarrow>
      (\<exists>qs. (qs, u) \<in> set (routes (urlpatterns False admin_site toolbar)) \<and> build qs bs = Some p)) \<and>
   resolve (urlpatterns False admin_site toolbar) ''api/v1/cart/coupons/preview'' = Some (CartCouponPreviewView, [])"
proof -
  have "resolve (urlpatterns False admin_site toolbar) ''api/v1/cart/coupons/preview'' = Some (CartCouponPreviewView, [])"
    by (rule resolve_reached [of "[Lit ''api/v1/'', Lit ''cart/coupons/preview'']"]) (simp_all add: urlpatterns_def own_tables)
  then show ?thesis by (intro conjI impI; (elim conjE)?) (rule resolve_reached, assumption+, rule resolve_Some)
qed

theorem routes_read_back_witness:
  "\<exists>p. build [Lit ''api/v1/'', Lit ''orders/'', UuidArg, Lit ''/cancel''] [U 255] = Some p \<and>
     resolve (urlpatterns False [] []) p = Some (OrderCancelView, [U 255])"
proof -
  obtain p where p: "build [Lit ''api/v1/'', Lit ''orders/'', UuidArg, Lit ''/cancel''] [U 255] = Some p" by simp
  have "([Lit ''api/v1/'', Lit ''orders/'', UuidArg, Lit ''/cancel''], OrderCancelView) \<in> set (routes (urlpatterns False [] []))"
    by (simp add: urlpatterns_def own_tables)
  with p show ?thesis using routes_read_back [of _ OrderCancelView "[U 255]" p "[]" "[]"] by blast
qed

text \<open>
  C38: Requests are steps. Whatever the method, the path and the body, a request that does not go to the framework's own
  sites, with all the middleware around it, is one step of the system of the first properties or leaves the tables as they were.
\<close>

theorem requests_are_steps:
  assumes "handle srv q m req w = (res, w')" and "foreign_table (srv_admin_site srv)"
    and "\<not> set_debug (site_settings (srv_site srv))" and "req_path req = CHR ''/'' # p"
    and "\<And>v as. route_of srv req = Some (v, as) \<Longrightarrow> vc_audience v \<noteq> Foreign"
  shows "step (srv_site srv) w w' \<or> tables w' = tables w"
  using handle_steps [OF assms] .

theorem requests_are_steps_witness:
  "\<exists>resp w'. handle example_server [] POST checkout_request quiet_shop = (Inr resp, w') \<and> resp_status resp = 201 \<and>
     map prod_stock_quantity (db_products w') = [3] \<and>
     (step (srv_site example_server) quiet_shop w' \<or> tables w' = tables quiet_shop)"
proof -
  obtain resp w' where run: "handle example_server [] POST checkout_request quiet_shop = (Inr resp, w')"
    and w': "resp_status resp = 201" "map prod_stock_quantity (db_products w') = [3]"
    by (rule example_sale)
  have "step (srv_site example_server) quiet_shop w' \<or> tables w' = tables quiet_shop"
    by (rule requests_are_steps [OF run, of "''api/v1/cart/checkout''"])
      (simp_all add: example_route, simp_all add: example_server_def foreign_table_def example_site_def
        example_settings_def checkout_request_def)
  with run w' show ?thesis by (intro exI conjI)
qed

end
